(* ===== verification/Prelude.thy ===== *)
theory Prelude
  imports Main "HOL-Library.Word" "HOL-Library.Char_ord" "HOL-Library.List_Lexorder"
begin

text \<open>
  Shared vocabulary of the development: the machine integer types of the Rust code, the
  effect monad every fallible or stateful operation of the daemon is written in, and the
  three small calculi the component proofs run on.

  \<^item> An operation is a function from the state before it to an outcome and the state after
    it. The state after an error is kept, because the code does not undo the effects that
    precede a failing call. A \<open>SandboxError\<close> returned with \<open>?\<close> and a Rust panic are two
    different failures: only the first can be matched on by a caller.
  \<^item> \<open>wp\<close> computes weakest preconditions over the two exits of an operation; its equations
    are collected in \<open>wp_simps\<close>, and \<open>wp_intro\<close> holds the rules that summarise a call of
    another component by what it may do to the state.
    \<open>wp_total\<close> holds the corresponding rules for a host without failures, which have no
    failure exit to discharge: with them one proves that an operation returns.
  \<^item> \<open>preserves\<close> and \<open>keeps\<close> are the compositional forms of ``keeps an invariant'' and
    ``leaves an observation of the state unchanged''; their rules are in \<open>preserves_intro\<close>
    and \<open>keeps_intro\<close>, so a component proof is one introduction step per operation.
\<close>

named_theorems wp_simps "equations of the weakest precondition transformer"
named_theorems wp_exact "weakest preconditions of the calls of the environment"
named_theorems wp_intro "introduction rules that forget the exact call counter"
named_theorems wp_total "introduction rules for operations that return"
named_theorems preserves_intro "introduction rules for invariant preservation"
named_theorems keeps_intro "introduction rules for unchanged observations"
named_theorems io_defs "the combinators of the effect monad"

section \<open>Machine integers\<close>

type_synonym u8 = "8 word"
type_synonym u16 = "16 word"
type_synonym u32 = "32 word"
type_synonym u64 = "64 word"

text \<open>
  A UUID is only ever compared, rendered and drawn at random, so it is represented by its
  number; that random draws do not repeat is a hypothesis where a statement needs it.
\<close>

type_synonym uuid = nat

section \<open>Errors (\<open>shared/src/error.rs\<close>)\<close>

text \<open>
  \<open>SandboxError\<close>, with the rendered text of an \<open>io::Error\<close> or \<open>serde_json::Error\<close> as its
  source field.
\<close>

datatype sandbox_error =
    Io string string
  | Json string string
  | HttpStatus string u16 string
  | InvalidConfig string
  | NotFound string
  | Conflict string
  | Backend string
  | UnsupportedHost string
  | Protocol string
  | Timeout string

datatype failure = Fail sandbox_error | Panic

section \<open>The effect monad\<close>

type_synonym 'a result = "sandbox_error + 'a"
type_synonym ('s, 'a) io = "'s \<Rightarrow> (failure + 'a) \<times> 's"

definition returnE :: "'a \<Rightarrow> ('s, 'a) io" where
  "returnE a = (\<lambda>s. (Inr a, s))"

definition throwE :: "sandbox_error \<Rightarrow> ('s, 'a) io" where
  "throwE e = (\<lambda>s. (Inl (Fail e), s))"

definition panicE :: "('s, 'a) io" where
  "panicE = (\<lambda>s. (Inl Panic, s))"

definition bindE :: "('s, 'a) io \<Rightarrow> ('a \<Rightarrow> ('s, 'b) io) \<Rightarrow> ('s, 'b) io" where
  "bindE m f = (\<lambda>s. case m s of (Inl x, s') \<Rightarrow> (Inl x, s') | (Inr a, s') \<Rightarrow> f a s')"

definition seqE :: "('s, 'a) io \<Rightarrow> ('s, 'b) io \<Rightarrow> ('s, 'b) io" where
  "seqE m n = bindE m (\<lambda>_. n)"

text \<open>\<open>match op.await { Ok(a) => .., Err(error) => .. }\<close>: the caller sees the error as a value.\<close>

definition tryE :: "('s, 'a) io \<Rightarrow> ('s, 'a result) io" where
  "tryE m = (\<lambda>s. case m s of
       (Inl (Fail e), s') \<Rightarrow> (Inr (Inl e), s')
     | (Inl Panic, s') \<Rightarrow> (Inl Panic, s')
     | (Inr a, s') \<Rightarrow> (Inr (Inr a), s'))"

definition getE :: "('s \<Rightarrow> 'a) \<Rightarrow> ('s, 'a) io" where
  "getE f = (\<lambda>s. (Inr (f s), s))"

definition modifyE :: "('s \<Rightarrow> 's) \<Rightarrow> ('s, unit) io" where
  "modifyE f = (\<lambda>s. (Inr (), f s))"

text \<open>A pure \<open>Result\<close> used with \<open>?\<close>.\<close>

definition liftE :: "'a result \<Rightarrow> ('s, 'a) io" where
  "liftE r = (case r of Inl e \<Rightarrow> throwE e | Inr a \<Rightarrow> returnE a)"

text \<open>A pure computation that may panic (\<open>None\<close>).\<close>

definition unpanicE :: "'a option \<Rightarrow> ('s, 'a) io" where
  "unpanicE x = (case x of None \<Rightarrow> panicE | Some a \<Rightarrow> returnE a)"

text \<open>\<open>for x in xs { .. }\<close> with \<open>?\<close> in the body, and the same loop pushing its results.\<close>

primrec forE :: "'a list \<Rightarrow> ('a \<Rightarrow> ('s, unit) io) \<Rightarrow> ('s, unit) io" where
  "forE [] f = returnE ()"
| "forE (x # xs) f = seqE (f x) (forE xs f)"

primrec mapE :: "('a \<Rightarrow> ('s, 'b) io) \<Rightarrow> 'a list \<Rightarrow> ('s, 'b list) io" where
  "mapE f [] = returnE []"
| "mapE f (x # xs) = bindE (f x) (\<lambda>y. bindE (mapE f xs) (\<lambda>ys. returnE (y # ys)))"

lemmas [io_defs] = returnE_def throwE_def panicE_def bindE_def seqE_def tryE_def getE_def
  modifyE_def liftE_def unpanicE_def

section \<open>Weakest preconditions\<close>

definition wp :: "('s, 'a) io \<Rightarrow> ('a \<Rightarrow> 's \<Rightarrow> bool) \<Rightarrow> (failure \<Rightarrow> 's \<Rightarrow> bool) \<Rightarrow> 's \<Rightarrow> bool" where
  "wp m Q R s \<longleftrightarrow> (case m s of (Inr a, s') \<Rightarrow> Q a s' | (Inl x, s') \<Rightarrow> R x s')"

lemma wp_returnE [wp_simps]: "wp (returnE a) Q R s = Q a s"
  by (simp add: wp_def returnE_def)

lemma wp_throwE [wp_simps]: "wp (throwE e) Q R s = R (Fail e) s"
  by (simp add: wp_def throwE_def)

lemma wp_panicE [wp_simps]: "wp panicE Q R s = R Panic s"
  by (simp add: wp_def panicE_def)

lemma wp_bindE [wp_simps]: "wp (bindE m f) Q R s = wp m (\<lambda>a. wp (f a) Q R) R s"
  by (simp add: wp_def bindE_def split: prod.splits sum.splits)

lemma wp_seqE [wp_simps]: "wp (seqE m n) Q R s = wp m (\<lambda>_. wp n Q R) R s"
  by (simp add: seqE_def wp_bindE)

lemma wp_tryE [wp_simps]:
  "wp (tryE m) Q R s =
     wp m (\<lambda>a. Q (Inr a)) (\<lambda>x s'. case x of Fail e \<Rightarrow> Q (Inl e) s' | Panic \<Rightarrow> R Panic s') s"
  by (simp add: wp_def tryE_def split: prod.splits sum.splits failure.splits)

lemma wp_getE [wp_simps]: "wp (getE f) Q R s = Q (f s) s"
  by (simp add: wp_def getE_def)

lemma wp_modifyE [wp_simps]: "wp (modifyE f) Q R s = Q () (f s)"
  by (simp add: wp_def modifyE_def)

lemma wp_liftE [wp_simps]:
  "wp (liftE r) Q R s = (case r of Inl e \<Rightarrow> R (Fail e) s | Inr a \<Rightarrow> Q a s)"
  by (simp add: liftE_def wp_throwE wp_returnE split: sum.splits)

lemma wp_unpanicE [wp_simps]:
  "wp (unpanicE x) Q R s = (case x of None \<Rightarrow> R Panic s | Some a \<Rightarrow> Q a s)"
  by (simp add: unpanicE_def wp_panicE wp_returnE split: option.splits)

lemma wp_if [wp_simps]: "wp (if b then m else n) Q R s = (if b then wp m Q R s else wp n Q R s)"
  by simp

lemma wp_let [wp_simps]: "wp (let x = a in f x) Q R s = (let x = a in wp (f x) Q R s)"
  by simp

lemma wp_case_option [wp_simps]:
  "wp (case x of None \<Rightarrow> m | Some a \<Rightarrow> f a) Q R s =
     (case x of None \<Rightarrow> wp m Q R s | Some a \<Rightarrow> wp (f a) Q R s)"
  by (simp split: option.splits)

lemma wp_case_sum [wp_simps]:
  "wp (case x of Inl a \<Rightarrow> f a | Inr b \<Rightarrow> g b) Q R s =
     (case x of Inl a \<Rightarrow> wp (f a) Q R s | Inr b \<Rightarrow> wp (g b) Q R s)"
  by (simp split: sum.splits)

text \<open>From a computed precondition back to a run, and the rule of consequence.\<close>

lemma wp_runD: "wp m Q R s \<Longrightarrow> m s = (Inr a, s') \<Longrightarrow> Q a s'"
  by (simp add: wp_def)

lemma wp_failD: "wp m Q R s \<Longrightarrow> m s = (Inl x, s') \<Longrightarrow> R x s'"
  by (simp add: wp_def)

lemma wp_mono:
  "wp m Q R s \<Longrightarrow> (\<And>a t. Q a t \<Longrightarrow> Q' a t) \<Longrightarrow> (\<And>x t. R x t \<Longrightarrow> R' x t) \<Longrightarrow> wp m Q' R' s"
  by (auto simp: wp_def split: prod.splits sum.splits)

lemma wp_conj: "wp m Q R s \<Longrightarrow> wp m Q' R' s \<Longrightarrow>
    wp m (\<lambda>a t. Q a t \<and> Q' a t) (\<lambda>x t. R x t \<and> R' x t) s"
  by (auto simp: wp_def split: prod.splits sum.splits)

lemma wp_snd: "wp m (\<lambda>_. P) (\<lambda>_. P) s \<longleftrightarrow> P (snd (m s))"
  by (auto simp: wp_def split: prod.splits sum.splits)

lemma wp_runI: "(\<And>a s'. m s = (Inr a, s') \<Longrightarrow> Q a s') \<Longrightarrow> (\<And>x s'. m s = (Inl x, s') \<Longrightarrow> R x s') \<Longrightarrow>
    wp m Q R s"
  by (auto simp: wp_def split: prod.splits sum.splits)

text \<open>When nothing is known of the first operation, the second has to do for every result of it.\<close>

lemma wp_after: "(\<And>a t. wp (f a) Q R t) \<Longrightarrow> (\<And>x t. R x t) \<Longrightarrow> wp (bindE m f) Q R s"
  "(\<And>t. wp n Q R t) \<Longrightarrow> (\<And>x t. R x t) \<Longrightarrow> wp (seqE m n) Q R s"
  by (auto simp: wp_simps intro: wp_runI)

section \<open>Invariants and unchanged observations\<close>

definition preserves :: "('s \<Rightarrow> bool) \<Rightarrow> ('s, 'a) io \<Rightarrow> bool" where
  "preserves P m \<longleftrightarrow> (\<forall>s. P s \<longrightarrow> P (snd (m s)))"

definition keeps :: "('s \<Rightarrow> 'f) \<Rightarrow> ('s, 'a) io \<Rightarrow> bool" where
  "keeps f m \<longleftrightarrow> (\<forall>s. f (snd (m s)) = f s)"

lemma preservesD: "preserves P m \<Longrightarrow> P s \<Longrightarrow> P (snd (m s))"
  by (simp add: preserves_def)

lemma preserves_runD: "preserves P m \<Longrightarrow> m s = (r, s') \<Longrightarrow> P s \<Longrightarrow> P s'"
  by (metis preservesD snd_conv)

lemma keepsD: "keeps f m \<Longrightarrow> f (snd (m s)) = f s"
  by (simp add: keeps_def)

lemma keeps_runD: "keeps f m \<Longrightarrow> m s = (r, s') \<Longrightarrow> f s' = f s"
  by (metis keepsD snd_conv)

lemma keeps_preserves: "keeps f m \<Longrightarrow> preserves (\<lambda>s. P (f s)) m"
  by (simp add: keeps_def preserves_def)

lemma preserves_wpI: "(\<And>s. P s \<Longrightarrow> wp m (\<lambda>_. P) (\<lambda>_. P) s) \<Longrightarrow> preserves P m"
  by (simp add: preserves_def wp_snd)

lemma keeps_wpI: "(\<And>s. wp m (\<lambda>_ t. f t = f s) (\<lambda>_ t. f t = f s) s) \<Longrightarrow> keeps f m"
  by (simp add: keeps_def wp_snd)

lemma preserves_returnE [preserves_intro]: "preserves P (returnE a)"
  and preserves_throwE [preserves_intro]: "preserves P (throwE e)"
  and preserves_panicE [preserves_intro]: "preserves P panicE"
  and preserves_getE [preserves_intro]: "preserves P (getE f)"
  by (simp_all add: preserves_def io_defs)

lemma preserves_liftE [preserves_intro]: "preserves P (liftE r)"
  by (cases r) (simp_all add: liftE_def preserves_intro)

lemma preserves_unpanicE [preserves_intro]: "preserves P (unpanicE x)"
  by (cases x) (simp_all add: unpanicE_def preserves_intro)

lemma preserves_bindE [preserves_intro]:
  "preserves P m \<Longrightarrow> (\<And>a. preserves P (f a)) \<Longrightarrow> preserves P (bindE m f)"
  by (fastforce simp: preserves_def bindE_def split: prod.splits sum.splits)

lemma preserves_seqE [preserves_intro]:
  "preserves P m \<Longrightarrow> preserves P n \<Longrightarrow> preserves P (seqE m n)"
  by (simp add: seqE_def preserves_bindE)

lemma preserves_tryE [preserves_intro]: "preserves P m \<Longrightarrow> preserves P (tryE m)"
  by (fastforce simp: preserves_def tryE_def split: prod.splits sum.splits failure.splits)

lemma preserves_modifyE [preserves_intro]: "(\<And>s. P s \<Longrightarrow> P (f s)) \<Longrightarrow> preserves P (modifyE f)"
  by (simp add: preserves_def modifyE_def)

lemma preserves_if [preserves_intro]:
  "(b \<Longrightarrow> preserves P m) \<Longrightarrow> (\<not> b \<Longrightarrow> preserves P n) \<Longrightarrow> preserves P (if b then m else n)"
  by simp

lemma preserves_case_option [preserves_intro]:
  "(x = None \<Longrightarrow> preserves P m) \<Longrightarrow> (\<And>a. x = Some a \<Longrightarrow> preserves P (f a)) \<Longrightarrow>
    preserves P (case x of None \<Rightarrow> m | Some a \<Rightarrow> f a)"
  by (cases x) simp_all

lemma preserves_case_sum [preserves_intro]:
  "(\<And>a. x = Inl a \<Longrightarrow> preserves P (f a)) \<Longrightarrow> (\<And>b. x = Inr b \<Longrightarrow> preserves P (g b)) \<Longrightarrow>
    preserves P (case x of Inl a \<Rightarrow> f a | Inr b \<Rightarrow> g b)"
  by (cases x) simp_all

lemma preserves_forE [preserves_intro]:
  "(\<And>x. x \<in> set xs \<Longrightarrow> preserves P (f x)) \<Longrightarrow> preserves P (forE xs f)"
  by (induction xs) (auto intro: preserves_intro)

lemma preserves_mapE [preserves_intro]:
  "(\<And>x. x \<in> set xs \<Longrightarrow> preserves P (f x)) \<Longrightarrow> preserves P (mapE f xs)"
  by (induction xs) (auto intro!: preserves_intro)

text \<open>An observation is unchanged exactly when each of its values is an invariant.\<close>

lemma keeps_iff_preserves: "keeps f m \<longleftrightarrow> (\<forall>v. preserves (\<lambda>s. f s = v) m)"
  by (auto simp: keeps_def preserves_def)

lemma keeps_preservesI: "(\<And>v. preserves (\<lambda>s. f s = v) m) \<Longrightarrow> keeps f m"
  by (simp add: keeps_iff_preserves)

lemma keeps_returnE [keeps_intro]: "keeps f (returnE a)"
  and keeps_throwE [keeps_intro]: "keeps f (throwE e)"
  and keeps_panicE [keeps_intro]: "keeps f panicE"
  and keeps_getE [keeps_intro]: "keeps f (getE g)"
  and keeps_liftE [keeps_intro]: "keeps f (liftE r)"
  and keeps_unpanicE [keeps_intro]: "keeps f (unpanicE x)"
  by (simp_all add: keeps_iff_preserves preserves_intro)

lemma keeps_bindE [keeps_intro]: "keeps f m \<Longrightarrow> (\<And>a. keeps f (g a)) \<Longrightarrow> keeps f (bindE m g)"
  by (simp add: keeps_iff_preserves preserves_bindE)

lemma keeps_seqE [keeps_intro]: "keeps f m \<Longrightarrow> keeps f n \<Longrightarrow> keeps f (seqE m n)"
  by (simp add: keeps_iff_preserves preserves_seqE)

lemma keeps_tryE [keeps_intro]: "keeps f m \<Longrightarrow> keeps f (tryE m)"
  by (simp add: keeps_iff_preserves preserves_tryE)

lemma keeps_modifyE [keeps_intro]: "(\<And>s. f (g s) = f s) \<Longrightarrow> keeps f (modifyE g)"
  by (simp add: keeps_def modifyE_def)

lemma keeps_if [keeps_intro]:
  "(b \<Longrightarrow> keeps f m) \<Longrightarrow> (\<not> b \<Longrightarrow> keeps f n) \<Longrightarrow> keeps f (if b then m else n)"
  by simp

lemma keeps_case_option [keeps_intro]:
  "(x = None \<Longrightarrow> keeps f m) \<Longrightarrow> (\<And>a. x = Some a \<Longrightarrow> keeps f (g a)) \<Longrightarrow>
    keeps f (case x of None \<Rightarrow> m | Some a \<Rightarrow> g a)"
  by (cases x) simp_all

lemma keeps_case_sum [keeps_intro]:
  "(\<And>a. x = Inl a \<Longrightarrow> keeps f (g a)) \<Longrightarrow> (\<And>b. x = Inr b \<Longrightarrow> keeps f (h b)) \<Longrightarrow>
    keeps f (case x of Inl a \<Rightarrow> g a | Inr b \<Rightarrow> h b)"
  by (cases x) simp_all

lemma keeps_forE [keeps_intro]: "(\<And>x. x \<in> set xs \<Longrightarrow> keeps f (g x)) \<Longrightarrow> keeps f (forE xs g)"
  by (simp add: keeps_iff_preserves preserves_forE)

lemma keeps_mapE [keeps_intro]: "(\<And>x. x \<in> set xs \<Longrightarrow> keeps f (g x)) \<Longrightarrow> keeps f (mapE g xs)"
  by (simp add: keeps_iff_preserves preserves_mapE)

section \<open>Sequences of operations\<close>

text \<open>
  Operations that hold a lock for their whole duration interleave as whole steps: an
  execution is a list of operations run one after another, whatever each returned.
\<close>

primrec run_steps :: "('o \<Rightarrow> 's \<Rightarrow> 's) \<Rightarrow> 'o list \<Rightarrow> 's \<Rightarrow> 's" where
  "run_steps f [] s = s"
| "run_steps f (x # xs) s = run_steps f xs (f x s)"

lemma run_steps_invariant:
  "(\<And>x s. P s \<Longrightarrow> P (f x s)) \<Longrightarrow> P s \<Longrightarrow> P (run_steps f xs s)"
  by (induction xs arbitrary: s) auto

lemma run_steps_append: "run_steps f (xs @ ys) s = run_steps f ys (run_steps f xs s)"
  by (induction xs arbitrary: s) auto

text \<open>
  The contract of operations that work on one object at a time: an operation changes the
  view of the objects in its scope only. A run of operations then changes the view of the
  objects in the scope of one of them only.
\<close>

locale scoped =
  fixes view :: "'s \<Rightarrow> 'k \<Rightarrow> 'v"
    and step :: "'o \<Rightarrow> 's \<Rightarrow> 's"
    and scope :: "'o \<Rightarrow> 'k \<Rightarrow> bool"
  assumes outside: "\<not> scope x k \<Longrightarrow> view (step x s) k = view s k"
begin

lemma run_outside: "list_all (\<lambda>x. \<not> scope x k) xs \<Longrightarrow> view (run_steps step xs s) k = view s k"
  by (induction xs arbitrary: s) (simp_all add: outside)

end

text \<open>
  Runs of a step relation that keeps an account \<open>u\<close> (the ids drawn so far) and says of each step
  which parts of the state it may touch; a run may touch what its steps may.
\<close>

inductive step_runs :: "('u \<Rightarrow> 's \<Rightarrow> 'k set \<Rightarrow> 'u \<Rightarrow> 's \<Rightarrow> bool) \<Rightarrow> 'u \<Rightarrow> 's \<Rightarrow> 'k set \<Rightarrow> 'u \<Rightarrow> 's \<Rightarrow> bool"
  for step u s where
  none: "step_runs step u s {} u s"
| more: "step_runs step u s D u' t \<Longrightarrow> step u' t D' u'' t' \<Longrightarrow> step_runs step u s (D \<union> D') u'' t'"

lemma step_runs_one: "step u s D u' t \<Longrightarrow> step_runs step u s D u' t"
  using step_runs.more [OF step_runs.none, of step u s D u' t] by simp

locale confinement =
  fixes inv :: "'u \<Rightarrow> 's \<Rightarrow> bool"
    and view :: "'s \<Rightarrow> 'k \<Rightarrow> 'v"
    and step :: "'u \<Rightarrow> 's \<Rightarrow> 'k set \<Rightarrow> 'u \<Rightarrow> 's \<Rightarrow> bool"
  assumes step_inv: "step u s D u' t \<Longrightarrow> inv u s \<Longrightarrow> inv u' t"
    and step_view: "step u s D u' t \<Longrightarrow> inv u s \<Longrightarrow> c \<notin> D \<Longrightarrow> view t c = view s c"
begin

lemma run_inv: "step_runs step u s D u' t \<Longrightarrow> inv u s \<Longrightarrow> inv u' t"
  by (induction rule: step_runs.induct) (auto intro: step_inv)

lemma run_view: "step_runs step u s D u' t \<Longrightarrow> inv u s \<Longrightarrow> c \<notin> D \<Longrightarrow> view t c = view s c"
  by (induction rule: step_runs.induct) (auto simp: step_view dest: run_inv)

end

section \<open>Maps and lists\<close>

lemma map_upd_None_dom: "dom (m(k := None)) = dom m - {k}"
  by auto

end
