(* ===== verification/Rust_Std.thy ===== *)
theory Rust_Std
  imports Prelude
begin

text \<open>
  The parts of the Rust standard library the modelled code calls on strings, numbers and
  paths. A Rust \<open>String\<close> is its UTF-8 bytes, so a string is a list of bytes (\<^typ>\<open>char\<close>);
  whitespace is the ASCII whitespace. Paths are Unix paths.
\<close>

section \<open>Strings\<close>

fun starts_with :: "string \<Rightarrow> string \<Rightarrow> bool" where
  "starts_with s [] = True"
| "starts_with [] (p # ps) = False"
| "starts_with (c # s) (p # ps) = (c = p \<and> starts_with s ps)"

fun strip_prefix :: "string \<Rightarrow> string \<Rightarrow> string option" where
  "strip_prefix s [] = Some s"
| "strip_prefix [] (p # ps) = None"
| "strip_prefix (c # s) (p # ps) = (if c = p then strip_prefix s ps else None)"

definition ends_with :: "string \<Rightarrow> string \<Rightarrow> bool" where
  "ends_with s p = starts_with (rev s) (rev p)"

definition strip_suffix :: "string \<Rightarrow> string \<Rightarrow> string option" where
  "strip_suffix s p = map_option rev (strip_prefix (rev s) (rev p))"

text \<open>\<open>if let Some(v) = s.strip_prefix(p) { f(v) } else { r }\<close>, and for a suffix.\<close>

definition if_prefix :: "string \<Rightarrow> string \<Rightarrow> (string \<Rightarrow> 'a) \<Rightarrow> 'a \<Rightarrow> 'a" where
  "if_prefix s p f r = (case strip_prefix s p of Some v \<Rightarrow> f v | None \<Rightarrow> r)"

definition if_suffix :: "string \<Rightarrow> string \<Rightarrow> (string \<Rightarrow> 'a) \<Rightarrow> 'a \<Rightarrow> 'a" where
  "if_suffix s p f r = (case strip_suffix s p of Some v \<Rightarrow> f v | None \<Rightarrow> r)"

fun contains :: "string \<Rightarrow> string \<Rightarrow> bool" where
  "contains [] p = (p = [])"
| "contains (c # s) p = (starts_with (c # s) p \<or> contains s p)"

lemma starts_with_iff: "starts_with s p \<longleftrightarrow> (\<exists>t. s = p @ t)"
  by (induction s p rule: starts_with.induct) auto

lemma strip_prefix_Some_iff: "strip_prefix s p = Some t \<longleftrightarrow> s = p @ t"
  by (induction s p rule: strip_prefix.induct) auto

lemma strip_prefix_append [simp]: "strip_prefix (p @ t) p = Some t"
  by (simp add: strip_prefix_Some_iff)

lemma starts_with_append [simp]: "starts_with (p @ t) p"
  by (auto simp: starts_with_iff)

lemma strip_prefix_None_iff: "strip_prefix s p = None \<longleftrightarrow> \<not> starts_with s p"
proof -
  have "strip_prefix s p \<noteq> None \<longleftrightarrow> starts_with s p"
    by (auto simp: starts_with_iff strip_prefix_Some_iff)
  then show ?thesis by blast
qed

lemma contains_iff: "contains s p \<longleftrightarrow> (\<exists>u v. s = u @ p @ v)"
proof (induction s)
  case Nil
  then show ?case by auto
next
  case (Cons c s)
  then show ?case
    by (auto simp: starts_with_iff append_eq_Cons_conv Cons_eq_append_conv)
qed

lemma contains_infix [simp]: "contains (u @ p @ v) p"
  by (auto simp: contains_iff)

text \<open>\<open>str::trim_start_matches\<close> with a string pattern: removes the pattern as often as it occurs.\<close>

function trim_start_matches :: "string \<Rightarrow> string \<Rightarrow> string" where
  "trim_start_matches s p =
     (if p = [] then s
      else case strip_prefix s p of None \<Rightarrow> s | Some t \<Rightarrow> trim_start_matches t p)"
  by pat_completeness auto
termination
  by (relation "measure (\<lambda>(s, p). length s)") (auto simp: strip_prefix_Some_iff)

declare trim_start_matches.simps [simp del]

lemma trim_start_matches_not_prefix:
  "p \<noteq> [] \<Longrightarrow> \<not> starts_with (trim_start_matches s p) p"
  by (induction s p rule: trim_start_matches.induct)
    (auto simp: trim_start_matches.simps [of s p for s p] strip_prefix_None_iff split: option.splits)

lemma trim_start_matches_append:
  "p \<noteq> [] \<Longrightarrow> trim_start_matches (p @ t) p = trim_start_matches t p"
  by (subst trim_start_matches.simps) simp

lemma trim_start_matches_id:
  "\<not> starts_with s p \<Longrightarrow> trim_start_matches s p = s"
  by (subst trim_start_matches.simps)
    (auto simp: strip_prefix_None_iff [THEN iffD2] split: option.splits)

lemma trim_start_matches_suffix:
  "\<exists>n. s = concat (replicate n p) @ trim_start_matches s p"
proof (induction s p rule: trim_start_matches.induct)
  case (1 s p)
  show ?case
  proof (cases "p = [] \<or> strip_prefix s p = None")
    case True
    then have "s = concat (replicate 0 p) @ trim_start_matches s p"
      by (subst trim_start_matches.simps) auto
    then show ?thesis by blast
  next
    case False
    then obtain t where t: "strip_prefix s p = Some t" and p: "p \<noteq> []" by auto
    from 1 [OF p t] obtain n where n: "t = concat (replicate n p) @ trim_start_matches t p" by blast
    have "s = p @ t" using t by (simp add: strip_prefix_Some_iff)
    also have "\<dots> = concat (replicate (Suc n) p) @ trim_start_matches t p"
      using n by simp
    also have "trim_start_matches t p = trim_start_matches s p"
      using t p by (subst (2) trim_start_matches.simps) simp
    finally show ?thesis by blast
  qed
qed

definition is_ws :: "char \<Rightarrow> bool" where
  "is_ws c \<longleftrightarrow> c \<in> {CHR '' '', CHR 0x09, CHR 0x0A, CHR 0x0B, CHR 0x0C, CHR 0x0D}"

definition trim_start :: "string \<Rightarrow> string" where
  "trim_start s = dropWhile is_ws s"

definition trim :: "string \<Rightarrow> string" where
  "trim s = rev (dropWhile is_ws (rev (dropWhile is_ws s)))"

definition is_ascii_upper :: "char \<Rightarrow> bool" where
  "is_ascii_upper c \<longleftrightarrow> CHR ''A'' \<le> c \<and> c \<le> CHR ''Z''"

definition is_ascii_lower :: "char \<Rightarrow> bool" where
  "is_ascii_lower c \<longleftrightarrow> CHR ''a'' \<le> c \<and> c \<le> CHR ''z''"

definition is_ascii_digit :: "char \<Rightarrow> bool" where
  "is_ascii_digit c \<longleftrightarrow> CHR ''0'' \<le> c \<and> c \<le> CHR ''9''"

definition is_ascii_alphanumeric :: "char \<Rightarrow> bool" where
  "is_ascii_alphanumeric c \<longleftrightarrow> is_ascii_upper c \<or> is_ascii_lower c \<or> is_ascii_digit c"

definition to_ascii_lowercase :: "string \<Rightarrow> string" where
  "to_ascii_lowercase = map (\<lambda>c. if is_ascii_upper c then char_of (of_char c + 32 :: nat) else c)"

text \<open>\<open>str::split_whitespace\<close>.\<close>

fun split_whitespace_acc :: "string \<Rightarrow> string \<Rightarrow> string list" where
  "split_whitespace_acc [] acc = (if acc = [] then [] else [rev acc])"
| "split_whitespace_acc (c # s) acc =
     (if is_ws c then (if acc = [] then [] else [rev acc]) @ split_whitespace_acc s []
      else split_whitespace_acc s (c # acc))"

definition split_whitespace :: "string \<Rightarrow> string list" where
  "split_whitespace s = split_whitespace_acc s []"

text \<open>\<open>str::split_once\<close> on a single byte.\<close>

fun split_once :: "char \<Rightarrow> string \<Rightarrow> (string \<times> string) option" where
  "split_once d [] = None"
| "split_once d (c # s) =
     (if c = d then Some ([], s)
      else map_option (\<lambda>(a, b). (c # a, b)) (split_once d s))"

lemma split_whitespace_acc_word:
  "list_all (\<lambda>c. \<not> is_ws c) w \<Longrightarrow>
    split_whitespace_acc (w @ s) acc = split_whitespace_acc s (rev w @ acc)"
  by (induction w arbitrary: acc) auto

lemma split_whitespace_Cons:
  assumes "w \<noteq> []" and "list_all (\<lambda>c. \<not> is_ws c) w" and "is_ws c"
  shows "split_whitespace (w @ c # s) = w # split_whitespace s"
  using assms by (simp add: split_whitespace_def split_whitespace_acc_word)

lemma split_whitespace_single:
  assumes "w \<noteq> []" and "list_all (\<lambda>c. \<not> is_ws c) w"
  shows "split_whitespace w = [w]"
  using assms split_whitespace_acc_word [of w "[]" "[]"] by (simp add: split_whitespace_def)

section \<open>Decimal numbers\<close>

text \<open>\<open>Display\<close> of an unsigned integer and \<open>str::parse\<close> at a width.\<close>

definition digit_char :: "nat \<Rightarrow> char" where
  "digit_char d = char_of (48 + d)"

function decimal :: "nat \<Rightarrow> string" where
  "decimal n = (if n < 10 then [digit_char n] else decimal (n div 10) @ [digit_char (n mod 10)])"
  by pat_completeness auto
termination
  by (relation "measure id") auto

declare decimal.simps [simp del]

definition digit_value :: "char \<Rightarrow> nat" where
  "digit_value c = of_char c - 48"

text \<open>
  \<open>from_str_radix(_, 10)\<close> on an unsigned type: an optional leading plus sign, at least one
  digit, nothing but digits, and no overflow of the width at any prefix.
\<close>

fun parse_digits :: "nat \<Rightarrow> nat \<Rightarrow> string \<Rightarrow> nat option" where
  "parse_digits bound acc [] = Some acc"
| "parse_digits bound acc (c # s) =
     (if \<not> is_ascii_digit c then None
      else let v = acc * 10 + digit_value c in
        if v < bound then parse_digits bound v s else None)"

definition parse_unsigned :: "nat \<Rightarrow> string \<Rightarrow> nat option" where
  "parse_unsigned bound s =
     (let t = (if starts_with s ''+'' then tl s else s) in
      if t = [] then None else parse_digits bound 0 t)"

definition parse_u32_str :: "string \<Rightarrow> u32 option" where
  "parse_u32_str s = map_option of_nat (parse_unsigned (2 ^ 32) s)"

definition parse_u64_str :: "string \<Rightarrow> u64 option" where
  "parse_u64_str s = map_option of_nat (parse_unsigned (2 ^ 64) s)"

text \<open>The text of a \<open>ParseIntError\<close>: the first step of the parser that fails decides.\<close>

fun digits_error :: "nat \<Rightarrow> nat \<Rightarrow> string \<Rightarrow> string" where
  "digits_error bound acc [] = ''''"
| "digits_error bound acc (c # s) =
     (if \<not> is_ascii_digit c then ''invalid digit found in string''
      else let v = acc * 10 + digit_value c in
        if v < bound then digits_error bound v s else ''number too large to fit in target type'')"

definition parse_int_error :: "nat \<Rightarrow> string \<Rightarrow> string" where
  "parse_int_error bound s =
     (if s = [] then ''cannot parse integer from empty string''
      else if s = ''+'' \<or> s = ''-'' then ''invalid digit found in string''
      else digits_error bound 0 (if starts_with s ''+'' then tl s else s))"

lemma digit_char_digit: "d < 10 \<Longrightarrow> is_ascii_digit (digit_char d)"
  by (simp add: is_ascii_digit_def digit_char_def less_eq_char_def)

lemma digit_value_char: "d < 10 \<Longrightarrow> digit_value (digit_char d) = d"
  by (simp add: digit_value_def digit_char_def of_char_of)

lemma decimal_not_Nil [simp]: "decimal n \<noteq> []"
  by (subst decimal.simps) simp

lemma decimal_digits: "list_all is_ascii_digit (decimal n)"
proof (induction n rule: decimal.induct)
  case (1 n)
  then show ?case
    by (subst decimal.simps) (auto simp: digit_char_digit)
qed

lemma parse_digits_append_digit:
  "parse_digits b acc (s @ [c]) =
     (case parse_digits b acc s of None \<Rightarrow> None
      | Some v \<Rightarrow> if \<not> is_ascii_digit c then None
          else if v * 10 + digit_value c < b then Some (v * 10 + digit_value c) else None)"
  by (induction b acc s rule: parse_digits.induct) (auto simp: Let_def)

lemma parse_digits_decimal: "n < b \<Longrightarrow> parse_digits b 0 (decimal n) = Some n"
proof (induction n rule: decimal.induct)
  case (1 n)
  show ?case
  proof (cases "n < 10")
    case True
    with 1 show ?thesis
      by (subst decimal.simps) (simp add: digit_char_digit digit_value_char)
  next
    case False
    then have "parse_digits b 0 (decimal (n div 10)) = Some (n div 10)"
      using 1 by (meson div_le_dividend le_less_trans)
    moreover have "n mod 10 < 10" by simp
    ultimately show ?thesis using False 1
      by (subst decimal.simps)
        (simp add: parse_digits_append_digit digit_char_digit digit_value_char)
  qed
qed

lemma plus_not_digit: "\<not> is_ascii_digit (CHR ''+'')"
  by (simp add: is_ascii_digit_def less_eq_char_def)

lemma decimal_no_plus: "\<not> starts_with (decimal n) ''+''"
  using decimal_digits [of n] plus_not_digit
  by (cases "decimal n") auto

lemma parse_unsigned_decimal: "n < b \<Longrightarrow> parse_unsigned b (decimal n) = Some n"
  by (simp add: parse_unsigned_def decimal_no_plus parse_digits_decimal)

lemma parse_u32_decimal [simp]: "parse_u32_str (decimal (unat w)) = Some w"
proof -
  have "unat w < 2 ^ 32" using unsigned_less [of w] by simp
  then show ?thesis
    by (simp add: parse_u32_str_def parse_unsigned_decimal)
qed

lemma parse_u64_decimal [simp]: "parse_u64_str (decimal (unat w)) = Some w"
proof -
  have "unat w < 2 ^ 64" using unsigned_less [of w] by simp
  then show ?thesis
    by (simp add: parse_u64_str_def parse_unsigned_decimal)
qed

lemma digit_not_ws: "is_ascii_digit c \<Longrightarrow> \<not> is_ws c"
  by (auto simp: is_ascii_digit_def is_ws_def less_eq_char_def)

lemma decimal_no_ws: "list_all (\<lambda>c. \<not> is_ws c) (decimal n)"
  using decimal_digits [of n] by (auto simp: list_all_iff dest: digit_not_ws)

lemma split_whitespace_acc_append:
  "is_ws c \<Longrightarrow> split_whitespace_acc (a @ c # b) acc = split_whitespace_acc a acc @ split_whitespace b"
  by (induction a arbitrary: acc) (auto simp: split_whitespace_def)

lemma split_whitespace_append:
  "is_ws c \<Longrightarrow> split_whitespace (a @ c # b) = split_whitespace a @ split_whitespace b"
  by (simp add: split_whitespace_def [of a] split_whitespace_acc_append split_whitespace_def [of "a @ c # b"])

lemma split_acc_decimal:
  "split_whitespace_acc (decimal n @ s) acc = split_whitespace_acc s (rev (decimal n) @ acc)"
  by (simp add: split_whitespace_acc_word decimal_no_ws)

lemma ws_space: "is_ws (CHR '' '')" by (simp add: is_ws_def)

lemma split_space: "split_whitespace (a @ CHR '' '' # b) = split_whitespace a @ split_whitespace b"
  by (rule split_whitespace_append [OF ws_space])

lemma split_space_Cons: "split_whitespace (CHR '' '' # b) = split_whitespace b" "split_whitespace [] = []"
  by (simp_all add: split_whitespace_def ws_space)

lemma decimal_inj: "decimal m = decimal n \<Longrightarrow> m = n"
  using parse_digits_decimal [of m "Suc (max m n)"] parse_digits_decimal [of n "Suc (max m n)"]
  by (metis less_Suc_eq_le max.cobounded1 max.cobounded2 option.inject)

section \<open>Checked and saturating arithmetic\<close>

definition saturating_add :: "'a::len word \<Rightarrow> 'a word \<Rightarrow> 'a word" where
  "saturating_add a b = (if unat a + unat b < 2 ^ LENGTH('a) then a + b else - 1)"

definition saturating_sub :: "'a::len word \<Rightarrow> 'a word \<Rightarrow> 'a word" where
  "saturating_sub a b = (if b \<le> a then a - b else 0)"

definition saturating_mul :: "'a::len word \<Rightarrow> 'a word \<Rightarrow> 'a word" where
  "saturating_mul a b = (if unat a * unat b < 2 ^ LENGTH('a) then a * b else - 1)"

definition checked_mul :: "'a::len word \<Rightarrow> 'a word \<Rightarrow> 'a word option" where
  "checked_mul a b = (if unat a * unat b < 2 ^ LENGTH('a) then Some (a * b) else None)"

text \<open>\<open>Ord::clamp\<close> panics when the bounds are in the wrong order.\<close>

definition clamp :: "'a::linorder \<Rightarrow> 'a \<Rightarrow> 'a \<Rightarrow> 'a option" where
  "clamp x lo hi = (if hi < lo then None else Some (if x < lo then lo else if x > hi then hi else x))"

lemma clamp_bounds: "clamp x lo hi = Some y \<Longrightarrow> lo \<le> y \<and> y \<le> hi"
  by (auto simp: clamp_def split: if_splits)

lemma clamp_defined: "lo \<le> hi \<Longrightarrow> \<exists>y. clamp x lo hi = Some y"
  by (simp add: clamp_def)

lemma clamp_id: "lo \<le> x \<Longrightarrow> x \<le> hi \<Longrightarrow> clamp x lo hi = Some x"
  by (auto simp: clamp_def)

lemma unat_saturating_mul: "unat (saturating_mul a (b :: 'a::len word)) = min (unat a * unat b) (2 ^ LENGTH('a) - 1)"
proof (cases "unat a * unat b < 2 ^ LENGTH('a)")
  case True
  then show ?thesis by (simp add: saturating_mul_def unat_word_ariths)
next
  case False
  then show ?thesis
    by (simp add: saturating_mul_def unsigned_minus_1_eq_mask mask_eq_exp_minus_1)
qed

lemma checked_mul_Some: "checked_mul a b = Some c \<Longrightarrow> unat c = unat a * unat b"
  by (auto simp: checked_mul_def unat_word_ariths split: if_splits)

lemma unat_saturating_sub: "unat (saturating_sub a b) = unat a - unat (b :: 'a::len word)"
  by (auto simp: saturating_sub_def unat_sub word_le_nat_alt)

lemma unat_saturating_add: "unat a + unat b < 2 ^ LENGTH('a) \<Longrightarrow> unat (saturating_add a (b :: 'a::len word)) = unat a + unat b"
  by (simp add: saturating_add_def unat_word_ariths)

lemma unat_widen: "LENGTH('a) \<le> LENGTH('b) \<Longrightarrow> unat (ucast (a :: 'a::len word) :: 'b::len word) = unat a"
  by (simp add: unsigned_ucast_eq take_bit_nat_eq_self order.strict_trans2 [OF unsigned_less power_increasing])

end
