(* ===== verification/Manifest.thy ===== *)
theory Manifest
  imports Rust_Std
begin

text \<open>
  Workspace snapshots and their difference (\<open>shared/src/workspace/manifest.rs\<close>). A
  \<open>BTreeMap\<close> is an association list with strictly increasing keys, the order in which the
  code iterates over it; \<open>bt_insert\<close> is its \<open>insert\<close>. The difference of two snapshots is
  specified path by path (\<open>change_between\<close> is the table of the four kinds of change), and
  the code's merge over the united key sets is shown to produce exactly that.
\<close>

section \<open>Ordered maps\<close>

fun bt_insert :: "'k::linorder \<Rightarrow> 'v \<Rightarrow> ('k \<times> 'v) list \<Rightarrow> ('k \<times> 'v) list" where
  "bt_insert k v [] = [(k, v)]"
| "bt_insert k v ((k', v') # m) =
     (if k < k' then (k, v) # (k', v') # m
      else if k = k' then (k, v) # m
      else (k', v') # bt_insert k v m)"

definition bt_wf :: "('k::linorder \<times> 'v) list \<Rightarrow> bool" where
  "bt_wf m \<longleftrightarrow> sorted_wrt (<) (map fst m)"

definition bt_of_list :: "('k::linorder \<times> 'v) list \<Rightarrow> ('k \<times> 'v) list" where
  "bt_of_list kvs = fold (\<lambda>(k, v). bt_insert k v) kvs []"

lemma bt_wf_Nil [simp]: "bt_wf []"
  by (simp add: bt_wf_def)

lemma bt_wf_Cons [simp]: "bt_wf ((k, v) # m) \<longleftrightarrow> bt_wf m \<and> (\<forall>k' \<in> fst ` set m. k < k')"
  by (auto simp: bt_wf_def)

lemma bt_insert_keys [simp]: "fst ` set (bt_insert k v m) = insert k (fst ` set m)"
  by (induction k v m rule: bt_insert.induct) auto

lemma bt_wf_insert [simp]: "bt_wf m \<Longrightarrow> bt_wf (bt_insert k v m)"
proof (induction k v m rule: bt_insert.induct)
  case (2 k v k' v' m)
  then show ?case by (auto dest: order.strict_trans)
qed simp

lemma map_of_bt_insert: "bt_wf m \<Longrightarrow> map_of (bt_insert k v m) = (map_of m)(k \<mapsto> v)"
  by (induction m) (auto simp: fun_eq_iff)

lemma bt_wf_of_list: "bt_wf (bt_of_list kvs)"
proof -
  have "bt_wf m \<Longrightarrow> bt_wf (fold (\<lambda>(k, v). bt_insert k v) kvs m)" for m :: "('a \<times> 'b) list"
    by (induction kvs arbitrary: m) auto
  then show ?thesis by (simp add: bt_of_list_def)
qed

lemma map_of_bt_of_list: "map_of (bt_of_list kvs) = map_of (rev kvs)"
proof -
  have "bt_wf m \<Longrightarrow> map_of (fold (\<lambda>(k, v). bt_insert k v) kvs m) = map_of m ++ map_of (rev kvs)"
    for m :: "('a \<times> 'b) list"
    by (induction kvs arbitrary: m) (auto simp: map_of_bt_insert)
  then show ?thesis by (simp add: bt_of_list_def)
qed

lemma bt_wf_map_of_in: "bt_wf m \<Longrightarrow> map_of m k = Some v \<longleftrightarrow> (k, v) \<in> set m"
  by (auto simp: bt_wf_def strict_sorted_iff intro: map_of_is_SomeI dest: map_of_SomeD)

text \<open>Two ordered maps with the same lookups are the same list.\<close>

lemma bt_wf_ext:
  assumes "bt_wf m" and "bt_wf n" and "map_of m = map_of n"
  shows "m = n"
proof (rule map_sorted_distinct_set_unique [where f = fst])
  show "set m = set n" using assms by (metis bt_wf_map_of_in subrelI subset_antisym)
  then show "inj_on fst (set m \<union> set n)"
    using assms(1) by (auto simp: inj_on_def) (metis bt_wf_map_of_in option.inject)+
qed (use assms in \<open>auto simp: bt_wf_def strict_sorted_iff\<close>)

section \<open>File nodes and snapshots\<close>

datatype file_kind = File | Directory | Symlink

record file_node =
  fnode_path :: string
  fnode_kind :: file_kind
  fnode_size :: u64
  fnode_digest :: "string option"
  fnode_target :: "string option"

record workspace_snapshot =
  snap_entries :: "(string \<times> file_node) list"

datatype workspace_change_kind = Added | Modified | Deleted | TypeChanged

record workspace_change =
  chg_path :: string
  chg_kind :: workspace_change_kind
  chg_kind_after :: "file_kind option"

record read_file_result =
  rfr_path :: string
  rfr_data :: "u8 list"
  rfr_truncated :: bool

definition from_entries :: "file_node list \<Rightarrow> workspace_snapshot" where
  "from_entries entries = \<lparr>snap_entries = bt_of_list (map (\<lambda>e. (fnode_path e, e)) entries)\<rparr>"

definition snapshot_nodes :: "workspace_snapshot \<Rightarrow> file_node list" where
  "snapshot_nodes s = map snd (snap_entries s)"

text \<open>The body of the loop of \<open>diff\<close>: the change pushed for one path, if any.\<close>

definition diff_path :: "workspace_snapshot \<Rightarrow> workspace_snapshot \<Rightarrow> string \<Rightarrow> workspace_change option" where
  "diff_path self current path =
     (case (map_of (snap_entries self) path, map_of (snap_entries current) path) of
        (None, Some after) \<Rightarrow>
          Some \<lparr>chg_path = path, chg_kind = Added, chg_kind_after = Some (fnode_kind after)\<rparr>
      | (Some _, None) \<Rightarrow>
          Some \<lparr>chg_path = path, chg_kind = Deleted, chg_kind_after = None\<rparr>
      | (Some before, Some after) \<Rightarrow>
          if fnode_kind before \<noteq> fnode_kind after then
            Some \<lparr>chg_path = path, chg_kind = TypeChanged, chg_kind_after = Some (fnode_kind after)\<rparr>
          else if before \<noteq> after then
            Some \<lparr>chg_path = path, chg_kind = Modified, chg_kind_after = Some (fnode_kind after)\<rparr>
          else None
      | (None, None) \<Rightarrow> None)"

definition diff :: "workspace_snapshot \<Rightarrow> workspace_snapshot \<Rightarrow> workspace_change list" where
  "diff self current =
     (let paths = sort (remdups (map fst (snap_entries self) @ map fst (snap_entries current)))
      in concat (map (\<lambda>path. case diff_path self current path of None \<Rightarrow> [] | Some c \<Rightarrow> [c]) paths))"

fun git_label :: "workspace_change_kind \<Rightarrow> string" where
  "git_label Added = ''A''"
| "git_label Modified = ''M''"
| "git_label Deleted = ''D''"
| "git_label TypeChanged = ''T''"

section \<open>Read limits\<close>

definition MAX_READ_FILE_BYTES :: u64 where
  "MAX_READ_FILE_BYTES = 16 * 1024 * 1024"

text \<open>\<open>usize\<close> is 64 bits wide on every supported host and guest, so the conversion succeeds.\<close>

definition validate_read_limit :: "u64 \<Rightarrow> u64 result" where
  "validate_read_limit limit =
     (if MAX_READ_FILE_BYTES < limit then
        Inl (InvalidConfig (''file read limit must not exceed '' @
          decimal (unat MAX_READ_FILE_BYTES) @ '' bytes''))
      else Inr limit)"

lemma validate_read_limit_Inr: "validate_read_limit limit = Inr n \<longleftrightarrow> n = limit \<and> limit \<le> MAX_READ_FILE_BYTES"
  by (auto simp: validate_read_limit_def not_less)

section \<open>The specification of a difference\<close>

text \<open>The change of a path given what was there before and what is there now.\<close>

fun change_between :: "file_node option \<Rightarrow> file_node option \<Rightarrow> (workspace_change_kind \<times> file_kind option) option" where
  "change_between None None = None"
| "change_between None (Some a) = Some (Added, Some (fnode_kind a))"
| "change_between (Some b) None = Some (Deleted, None)"
| "change_between (Some b) (Some a) =
     (if b = a then None
      else Some (if fnode_kind b = fnode_kind a then Modified else TypeChanged, Some (fnode_kind a)))"

definition node_at :: "workspace_snapshot \<Rightarrow> string \<Rightarrow> file_node option" where
  "node_at s = map_of (snap_entries s)"

definition snapshot_wf :: "workspace_snapshot \<Rightarrow> bool" where
  "snapshot_wf s \<longleftrightarrow> bt_wf (snap_entries s) \<and> list_all (\<lambda>(p, e). fnode_path e = p) (snap_entries s)"

lemma bt_insert_set: "set (bt_insert k v m) \<subseteq> insert (k, v) (set m)"
  by (induction k v m rule: bt_insert.induct) auto

lemma bt_of_list_set: "set (bt_of_list kvs) \<subseteq> set kvs"
proof -
  have "set (fold (\<lambda>(k, v). bt_insert k v) kvs m) \<subseteq> set m \<union> set kvs" for m :: "('a \<times> 'b) list"
  proof (induction kvs arbitrary: m)
    case (Cons kv kvs)
    obtain k v where kv: "kv = (k, v)" by (cases kv)
    show ?case using Cons.IH [of "bt_insert k v m"] bt_insert_set [of k v m] by (auto simp: kv)
  qed simp
  then show ?thesis by (force simp: bt_of_list_def)
qed

lemma from_entries_wf: "snapshot_wf (from_entries entries)"
  using bt_of_list_set [of "map (\<lambda>e. (fnode_path e, e)) entries"]
  by (auto simp: snapshot_wf_def from_entries_def bt_wf_of_list list_all_iff)

lemma node_at_from_entries:
  "node_at (from_entries entries) p = find (\<lambda>e. fnode_path e = p) (rev entries)"
proof -
  have "map_of (map (\<lambda>e. (fnode_path e, e)) xs) p = find (\<lambda>e. fnode_path e = p) xs" for xs
    by (induction xs) auto
  from this [of "rev entries"] show ?thesis
    by (simp add: node_at_def from_entries_def map_of_bt_of_list rev_map)
qed

lemma snapshot_eq_iff:
  "snapshot_wf s \<Longrightarrow> snapshot_wf t \<Longrightarrow> (s :: workspace_snapshot) = t \<longleftrightarrow> node_at s = node_at t"
  by (auto simp: snapshot_wf_def node_at_def dest: bt_wf_ext)

lemma diff_path_eq:
  "diff_path s t p = map_option (\<lambda>(k, a). \<lparr>chg_path = p, chg_kind = k, chg_kind_after = a\<rparr>)
     (change_between (node_at s p) (node_at t p))"
  by (auto simp: diff_path_def node_at_def split: option.split)

lemma concat_option_filter:
  "concat (map (\<lambda>p. case f p of None \<Rightarrow> [] | Some c \<Rightarrow> [c]) ps) = map (the \<circ> f) (filter (\<lambda>p. f p \<noteq> None) ps)"
  by (induction ps) (auto split: option.split)

lemma diff_paths_known:
  "diff_path s t p \<noteq> None \<Longrightarrow> p \<in> set (sort (remdups (map fst (snap_entries s) @ map fst (snap_entries t))))"
  by (cases "map_of (snap_entries s) p"; cases "map_of (snap_entries t) p")
    (auto simp: diff_path_def dest: map_of_SomeD split: if_splits intro!: rev_image_eqI)

lemma in_diff_iff: "c \<in> set (diff s t) \<longleftrightarrow> diff_path s t (chg_path c) = Some c"
proof -
  have path: "chg_path c = p" if "diff_path s t p = Some c" for p
    using that by (auto simp: diff_path_eq)
  show ?thesis
  proof
    assume "c \<in> set (diff s t)"
    then obtain p where "diff_path s t p = Some c"
      by (auto simp: diff_def split: option.splits)
    with path show "diff_path s t (chg_path c) = Some c" by simp
  next
    assume "diff_path s t (chg_path c) = Some c"
    with diff_paths_known [of s t "chg_path c"] show "c \<in> set (diff s t)"
      by (force simp: diff_def split: option.split)
  qed
qed

lemma diff_sorted: "sorted_wrt (<) (map chg_path (diff s t))"
proof -
  let ?ps = "sort (remdups (map fst (snap_entries s) @ map fst (snap_entries t)))"
  have "chg_path (the (diff_path s t p)) = p" if "diff_path s t p \<noteq> None" for p
    using that by (auto simp: diff_path_eq)
  then have "map chg_path (diff s t) = filter (\<lambda>p. diff_path s t p \<noteq> None) ?ps"
    by (simp only: diff_def Let_def concat_option_filter map_map o_def) (rule map_idI, simp)
  moreover have "sorted_wrt (<) ?ps" by (simp add: strict_sorted_iff)
  ultimately show ?thesis by (simp add: sorted_wrt_filter)
qed

lemma in_diff_change:
  "c \<in> set (diff s t) \<longleftrightarrow>
     change_between (node_at s (chg_path c)) (node_at t (chg_path c)) = Some (chg_kind c, chg_kind_after c)"
  unfolding in_diff_iff by (cases c) (auto simp: diff_path_eq)

lemma change_between_None: "change_between b a = None \<longleftrightarrow> b = a"
  by (cases b; cases a) auto

lemma diff_empty_iff:
  assumes "snapshot_wf s" and "snapshot_wf t"
  shows "diff s t = [] \<longleftrightarrow> s = t"
proof -
  have "c \<in> set (diff s t)" if "diff_path s t p = Some c" for p c
    using that unfolding in_diff_iff by (auto simp: diff_path_eq)
  moreover have "diff_path s t (chg_path c) = Some c" if "c \<in> set (diff s t)" for c
    using that unfolding in_diff_iff .
  ultimately have "diff s t = [] \<longleftrightarrow> (\<forall>p. diff_path s t p = None)"
    by (metis all_not_in_conv not_None_eq set_empty)
  then show ?thesis
    by (auto simp: diff_path_eq change_between_None snapshot_eq_iff [OF assms])
qed

text \<open>
  The difference of two snapshots is exactly the table of changes: it lists one entry per
  path that changed, in increasing path order, labelled added, deleted, modified or
  type-changed as the two snapshots demand, and it is empty only for equal snapshots.
\<close>

theorem snapshot_diff_exact:
  "let s = from_entries before; t = from_entries after in
     ((\<exists>c \<in> set (diff s t). chg_path c = p \<and> (chg_kind c, chg_kind_after c) = ka) \<longleftrightarrow>
        change_between (find (\<lambda>e. fnode_path e = p) (rev before))
          (find (\<lambda>e. fnode_path e = p) (rev after)) = Some ka) \<and>
     sorted_wrt (<) (map chg_path (diff s t)) \<and>
     (diff s t = [] \<longleftrightarrow> s = t)"
proof -
  let ?s = "from_entries before" and ?t = "from_entries after"
  have "(\<exists>c \<in> set (diff ?s ?t). chg_path c = p \<and> (chg_kind c, chg_kind_after c) = ka) \<longleftrightarrow>
      change_between (find (\<lambda>e. fnode_path e = p) (rev before))
        (find (\<lambda>e. fnode_path e = p) (rev after)) = Some ka"
    by (auto simp: in_diff_change node_at_from_entries
        intro!: bexI [where x = "\<lparr>chg_path = p, chg_kind = fst ka, chg_kind_after = snd ka\<rparr>"])
  then show ?thesis
    by (simp add: Let_def diff_sorted diff_empty_iff from_entries_wf)
qed

end
