(* ===== verification/Protocols.thy ===== *)
theory Protocols
  imports Manifest
begin

text \<open>
  The requests and results of commands and shells (\<open>shared/src/protocol.rs\<close>,
  \<open>src/protocol.rs\<close>): the default requests, and collecting the event stream of a command
  into its output and exit status.
\<close>

section \<open>Requests\<close>

record exec_request =
  ex_program :: string
  ex_args :: "string list"
  ex_env :: "(string \<times> string) list"
  ex_cwd :: string
  ex_timeout_ms :: "u64 option"
  ex_kill_grace_ms :: u64

record shell_request =
  sh_program :: string
  sh_args :: "string list"
  sh_env :: "(string \<times> string) list"
  sh_cwd :: string

datatype output_stream = Stdout | Stderr

datatype exec_exit = Success | ExitCode int | TimeoutExit | Killed

record guest_runtime_stats =
  grs_cpu_millicores :: u32
  grs_memory_used_mib :: u64
  grs_fs_used_mib :: u64
  grs_process_count :: u32

definition exec_python :: "string \<Rightarrow> exec_request" where
  "exec_python code = \<lparr>ex_program = ''/usr/bin/env'', ex_args = [''python3'', ''-u'', ''-c'', code],
     ex_env = [], ex_cwd = ''/workspace'', ex_timeout_ms = None, ex_kill_grace_ms = 250\<rparr>"

definition exec_shell :: "string \<Rightarrow> exec_request" where
  "exec_shell command = \<lparr>ex_program = ''/bin/bash'', ex_args = [''--noprofile'', ''--norc'', ''-lc'', command],
     ex_env = [], ex_cwd = ''/workspace'', ex_timeout_ms = None, ex_kill_grace_ms = 250\<rparr>"

definition default_shell_request :: shell_request where
  "default_shell_request = \<lparr>sh_program = ''/bin/bash'',
     sh_args = [''--noprofile'', ''--norc'', ''--noediting'', ''-i''],
     sh_env = bt_of_list [(''TERM'', ''dumb''), (''PS1'', ''$ ''), (''INPUTRC'', ''/dev/null'')],
     sh_cwd = ''/workspace''\<rparr>"

section \<open>Event streams\<close>

datatype execution_event = Output output_stream "u8 list" | Exit exec_exit

datatype shell_event = ShellStarted | ShellOutput "u8 list" | ShellExit int

record completed_execution =
  ce_exit_status :: exec_exit
  ce_exit_code :: "int option"
  ce_output :: "u8 list"
  ce_stdout :: "u8 list"
  ce_stderr :: "u8 list"

fun exit_code :: "exec_exit \<Rightarrow> int option" where
  "exit_code Success = Some 0"
| "exit_code (ExitCode c) = Some c"
| "exit_code TimeoutExit = None"
| "exit_code Killed = None"

text \<open>The loop of \<open>CommandStream::collect\<close> over the events received until the channel closes.\<close>

fun collect_events :: "execution_event list \<Rightarrow> exec_exit \<times> u8 list \<times> u8 list \<times> u8 list \<Rightarrow>
    exec_exit \<times> u8 list \<times> u8 list \<times> u8 list" where
  "collect_events [] acc = acc"
| "collect_events (Output Stdout d # es) (st, out, so, se) = collect_events es (st, out @ d, so @ d, se)"
| "collect_events (Output Stderr d # es) (st, out, so, se) = collect_events es (st, out @ d, so, se @ d)"
| "collect_events (Exit status # es) (st, out, so, se) = collect_events es (status, out, so, se)"

definition collect :: "execution_event list \<Rightarrow> completed_execution" where
  "collect events = (case collect_events events (Killed, [], [], []) of (status, out, so, se) \<Rightarrow>
     \<lparr>ce_exit_status = status, ce_exit_code = exit_code status, ce_output = out, ce_stdout = so, ce_stderr = se\<rparr>)"

text \<open>
  The task spawned by \<open>wrap_exec_stream\<close> forwards events up to and including the first exit.
\<close>

fun forwarded :: "execution_event list \<Rightarrow> execution_event list" where
  "forwarded [] = []"
| "forwarded (Output s d # es) = Output s d # forwarded es"
| "forwarded (Exit status # es) = [Exit status]"

section \<open>Collecting a stream\<close>

fun chunks :: "(output_stream \<Rightarrow> bool) \<Rightarrow> execution_event list \<Rightarrow> u8 list" where
  "chunks p [] = []"
| "chunks p (Output s d # es) = (if p s then d else []) @ chunks p es"
| "chunks p (Exit _ # es) = chunks p es"

fun first_exit :: "execution_event list \<Rightarrow> exec_exit" where
  "first_exit [] = Killed"
| "first_exit (Output _ _ # es) = first_exit es"
| "first_exit (Exit x # _) = x"

lemma collect_events_forwarded:
  "collect_events (forwarded es) (Killed, out, so, se) =
     (first_exit es, out @ chunks (\<lambda>_. True) (forwarded es), so @ chunks (\<lambda>s. s = Stdout) (forwarded es),
      se @ chunks (\<lambda>s. s = Stderr) (forwarded es))"
proof (induction es arbitrary: out so se rule: forwarded.induct)
  case (2 s d es)
  then show ?case by (cases s) simp_all
qed simp_all

lemma chunks_length:
  "length (chunks (\<lambda>s. s = Stdout) es) + length (chunks (\<lambda>s. s = Stderr) es) = length (chunks (\<lambda>_. True) es)"
proof (induction es)
  case (Cons e es)
  then show ?case
  proof (cases e)
    case (Output s d)
    then show ?thesis using Cons by (cases s) simp_all
  qed simp
qed simp

text \<open>
  Collecting a forwarded command stream loses nothing: the combined output is every chunk
  that arrived before the exit, in order, standard output and standard error are the
  chunks of their streams in order and together account for every byte, and the status is
  that of the first exit event, \<open>Killed\<close> when the channel closed without one.
\<close>

theorem collect_forwarded_stream:
  "let c = collect (forwarded es) in
     ce_output c = chunks (\<lambda>_. True) (forwarded es) \<and>
     ce_stdout c = chunks (\<lambda>s. s = Stdout) (forwarded es) \<and>
     ce_stderr c = chunks (\<lambda>s. s = Stderr) (forwarded es) \<and>
     length (ce_stdout c) + length (ce_stderr c) = length (ce_output c) \<and>
     ce_exit_status c = first_exit es \<and> ce_exit_code c = exit_code (first_exit es)"
  by (simp add: collect_def collect_events_forwarded chunks_length)

end
