(* ===== verification/Paths.thy ===== *)
theory Paths
  imports Rust_Std
begin

text \<open>
  Unix paths as \<open>std::path\<close> reads them, and the path policy of the workspace
  (\<open>shared/src/workspace/path.rs\<close>): which guest paths are accepted, what they resolve to,
  and which identifiers may become directory names of the state directory.
\<close>

section \<open>\<open>std::path\<close>\<close>

datatype component = RootDir | CurDir | ParentDir | Normal string

fun split_on :: "char \<Rightarrow> string \<Rightarrow> string list" where
  "split_on d [] = [[]]"
| "split_on d (c # s) =
     (if c = d then [] # split_on d s
      else case split_on d s of [] \<Rightarrow> [[c]] | w # ws \<Rightarrow> (c # w) # ws)"

definition segment_component :: "string \<Rightarrow> component" where
  "segment_component w = (if w = ''..'' then ParentDir else Normal w)"

definition segment_components :: "string list \<Rightarrow> component list" where
  "segment_components ws = map segment_component (filter (\<lambda>w. w \<noteq> [] \<and> w \<noteq> ''.'') ws)"

text \<open>
  \<open>Path::components\<close>: a leading slash is the root, empty and inner \<open>.\<close> segments vanish, a
  leading \<open>.\<close> of a relative path is kept.
\<close>

definition path_components :: "string \<Rightarrow> component list" where
  "path_components s =
     (let ws = split_on (CHR ''/'') s in
      if starts_with s ''/'' then RootDir # segment_components ws
      else if hd ws = ''.'' then CurDir # segment_components (tl ws)
      else segment_components ws)"

text \<open>\<open>Path::join\<close>: an absolute right side replaces the left one.\<close>

definition path_join :: "string \<Rightarrow> string \<Rightarrow> string" where
  "path_join a b =
     (if starts_with b ''/'' then b
      else if a = [] \<or> last a = CHR ''/'' then a @ b
      else a @ ''/'' @ b)"

text \<open>\<open>Path::parent\<close> of a path that does not end in \<open>.\<close>: the text before its last name.\<close>

definition path_parent :: "string \<Rightarrow> string option" where
  "path_parent s =
     (let t = dropWhile (\<lambda>c. c = CHR ''/'') (rev s);
          u = dropWhile (\<lambda>c. c \<noteq> CHR ''/'') t;
          v = dropWhile (\<lambda>c. c = CHR ''/'') u
      in if t = [] then None
         else if v = [] \<and> u \<noteq> [] then Some ''/'' else Some (rev v))"

section \<open>The workspace path policy\<close>

fun component_allowed :: "component \<Rightarrow> bool" where
  "component_allowed (Normal w) = True"
| "component_allowed CurDir = True"
| "component_allowed RootDir = False"
| "component_allowed ParentDir = False"

definition validate_relative :: "string \<Rightarrow> unit result" where
  "validate_relative path =
     (if list_all component_allowed (path_components path) then Inr ()
      else Inl (InvalidConfig ''workspace path must stay within /workspace''))"

definition normalize_workspace_path :: "string \<Rightarrow> string result" where
  "normalize_workspace_path path =
     (if path = [] \<or> path = ''.'' \<or> path = ''/workspace'' then Inr ''/workspace''
      else
        let checked = (\<lambda>candidate.
              case validate_relative (trim_start_matches candidate ''/workspace/'') of
                Inl e \<Rightarrow> Inl e
              | Inr _ \<Rightarrow> Inr candidate)
        in if starts_with path ''/workspace/'' then checked path
           else if starts_with path ''/'' then
             Inl (InvalidConfig ''filesystem access is restricted to /workspace'')
           else checked (''/workspace/'' @ trim_start_matches path ''/''))"

definition resolve_workspace_path :: "string \<Rightarrow> string \<Rightarrow> string result" where
  "resolve_workspace_path root path =
     (case normalize_workspace_path path of
        Inl e \<Rightarrow> Inl e
      | Inr normalized \<Rightarrow>
          if normalized = ''/workspace'' then Inr root
          else
            let relative = trim_start_matches normalized ''/workspace/'' in
            case validate_relative relative of
              Inl e \<Rightarrow> Inl e
            | Inr _ \<Rightarrow> Inr (path_join root relative))"

definition persisted_id_char :: "char \<Rightarrow> bool" where
  "persisted_id_char c \<longleftrightarrow> is_ascii_alphanumeric c \<or> c = CHR ''-'' \<or> c = CHR ''_''"

definition validate_persisted_id :: "string \<Rightarrow> string \<Rightarrow> unit result" where
  "validate_persisted_id value field =
     (if value = [] then Inl (InvalidConfig (field @ '' must not be empty''))
      else if list_all persisted_id_char value then Inr ()
      else Inl (InvalidConfig
        (field @ '' may only contain ASCII letters, digits, '' @ [CHR 0x27] @ ''-'' @ [CHR 0x27] @
         '' or '' @ [CHR 0x27] @ ''_'' @ [CHR 0x27])))"

text \<open>The identifiers the check accepts.\<close>

definition persisted_id :: "string \<Rightarrow> bool" where
  "persisted_id v \<longleftrightarrow> v \<noteq> [] \<and> list_all persisted_id_char v"

section \<open>Splitting\<close>

lemma split_on_not_Nil [simp]: "split_on d s \<noteq> []"
  by (induction s) (auto split: list.splits)

lemma split_on_append_sep: "split_on d (a @ d # b) = split_on d a @ split_on d b"
proof (induction a)
  case Nil
  then show ?case by simp
next
  case (Cons c a)
  have "split_on d a \<noteq> []" by simp
  with Cons show ?case by (auto split: list.splits simp: append_eq_Cons_conv Cons_eq_append_conv)
qed

lemma split_on_no_sep: "d \<notin> set w \<Longrightarrow> split_on d w = [w]"
  by (induction w) auto

lemma split_on_Cons_sep [simp]: "split_on d (d # s) = [] # split_on d s"
  by simp

lemma segment_components_append [simp]:
  "segment_components (a @ b) = segment_components a @ segment_components b"
  by (simp add: segment_components_def)

lemma segment_components_Nil_seg [simp]: "segment_components ([] # ws) = segment_components ws"
  by (simp add: segment_components_def)

lemma segment_components_dot [simp]: "segment_components (''.'' # ws) = segment_components ws"
  by (simp add: segment_components_def)

lemma segment_components_cases:
  "c \<in> set (segment_components ws) \<Longrightarrow> c = ParentDir \<or> (\<exists>w. c = Normal w)"
  by (auto simp: segment_components_def segment_component_def)

text \<open>
  Splitting a relative path the way \<open>components\<close> does leaves the segments' components, up
  to a leading \<open>.\<close>, which is allowed as well.
\<close>

lemma relative_components_allowed:
  assumes "\<not> starts_with rel ''/''"
  shows "list_all component_allowed (path_components rel) \<longleftrightarrow>
    list_all component_allowed (segment_components (split_on (CHR ''/'') rel))"
proof (cases "hd (split_on (CHR ''/'') rel) = ''.''")
  case True
  then obtain ws where "split_on (CHR ''/'') rel = ''.'' # ws"
    by (cases "split_on (CHR ''/'') rel") auto
  with assms show ?thesis by (simp add: path_components_def)
next
  case False
  with assms show ?thesis by (simp add: path_components_def)
qed

lemma root_dir_not_allowed: "starts_with rel ''/'' \<Longrightarrow> \<not> list_all component_allowed (path_components rel)"
  by (simp add: path_components_def Let_def)

lemma allowed_segments_normal:
  "list_all component_allowed (segment_components ws) \<Longrightarrow>
    \<forall>c \<in> set (segment_components ws). \<exists>w. c = Normal w"
  by (metis component_allowed.simps(4) list_all_iff segment_components_cases)

text \<open>Joining an accepted relative path below an absolute root appends its components.\<close>

lemma components_join:
  assumes abs: "starts_with root ''/''" and rel: "\<not> starts_with rel ''/''"
  shows "path_components (path_join root rel) =
    path_components root @ segment_components (split_on (CHR ''/'') rel)"
proof -
  from abs have root: "root \<noteq> []" by auto
  have abs': "starts_with (root @ t) ''/''" for t using abs by (cases root) auto
  show ?thesis
  proof (cases "last root = CHR ''/''")
    case True
    with root obtain r where r: "root = r @ [CHR ''/'']"
      by (metis append_butlast_last_id)
    show ?thesis
      using abs' [of rel] abs rel root
      by (simp add: path_join_def path_components_def Let_def r split_on_append_sep [of _ r "[]", simplified]
          split_on_append_sep segment_components_def)
  next
    case False
    then show ?thesis
      using abs' [of "CHR ''/'' # rel"] abs rel root
      by (simp add: path_join_def path_components_def Let_def split_on_append_sep)
  qed
qed

section \<open>What is accepted\<close>

lemma validate_relative_Inr_iff:
  "validate_relative p = Inr u \<longleftrightarrow> list_all component_allowed (path_components p)"
  by (simp add: validate_relative_def)

lemma resolve_workspace_path_cases:
  assumes "resolve_workspace_path root path = Inr p"
  shows "p = root \<or> (\<exists>rel. p = path_join root rel \<and> \<not> starts_with rel ''/'' \<and>
    list_all component_allowed (path_components rel))"
proof -
  from assms consider "p = root" |
      rel where "p = path_join root rel" and "list_all component_allowed (path_components rel)"
    by (auto simp: resolve_workspace_path_def validate_relative_Inr_iff Let_def
        split: sum.splits if_splits)
  then show ?thesis
    by cases (auto dest: root_dir_not_allowed)
qed

lemma persisted_id_char_not_sep: "persisted_id_char c \<Longrightarrow> c \<noteq> CHR ''/'' \<and> c \<noteq> CHR ''.''"
  by (auto simp: persisted_id_char_def is_ascii_alphanumeric_def is_ascii_upper_def
      is_ascii_lower_def is_ascii_digit_def less_eq_char_def)

lemma validate_persisted_id_Inr_iff: "validate_persisted_id v f = Inr u \<longleftrightarrow> persisted_id v"
  by (simp add: validate_persisted_id_def persisted_id_def)

lemma validate_persisted_id_Inl: "validate_persisted_id v f = Inl e \<Longrightarrow> \<not> persisted_id v"
  by (auto simp: validate_persisted_id_def persisted_id_def split: if_splits)

lemma persisted_id_component:
  assumes "persisted_id v"
  shows "path_components v = [Normal v]"
proof -
  have chars: "\<And>c. c \<in> set v \<Longrightarrow> c \<noteq> CHR ''/'' \<and> c \<noteq> CHR ''.''"
    using assms by (auto simp: persisted_id_def list_all_iff dest: persisted_id_char_not_sep)
  have v: "v \<noteq> []" "v \<noteq> ''.''" "v \<noteq> ''..''" "\<not> starts_with v ''/''"
    using assms chars by (fastforce simp: persisted_id_def starts_with_iff)+
  have "split_on (CHR ''/'') v = [v]" using chars by (intro split_on_no_sep) blast
  with v show ?thesis
    by (simp add: path_components_def segment_components_def segment_component_def)
qed

text \<open>
  C4: a path the workspace policy accepts resolves below the root it is resolved against:
  the components of the result are those of the root followed by ordinary names only, so
  no accepted path leaves the workspace through \<open>..\<close> or an absolute prefix.
\<close>

theorem resolve_workspace_path_contained:
  assumes "starts_with root ''/''" and "resolve_workspace_path root path = Inr p"
  shows "\<exists>names. path_components p = path_components root @ map Normal names"
proof -
  from resolve_workspace_path_cases [OF assms(2)] consider "p = root" |
      rel where "p = path_join root rel" and "\<not> starts_with rel ''/''"
        and "list_all component_allowed (path_components rel)" by blast
  then show ?thesis
  proof cases
    case 1
    then have "path_components p = path_components root @ map Normal []" by simp
    then show ?thesis by blast
  next
    case (2 rel)
    let ?cs = "segment_components (split_on (CHR ''/'') rel)"
    have "list_all component_allowed ?cs"
      using 2 by (simp add: relative_components_allowed)
    then have "\<forall>c \<in> set ?cs. \<exists>w. c = Normal w" by (rule allowed_segments_normal)
    then have "?cs = map Normal (map (\<lambda>c. case c of Normal w \<Rightarrow> w) ?cs)"
      by (auto intro!: map_idI [symmetric] split: component.splits)
    then show ?thesis
      using 2 components_join [OF assms(1)] by metis
  qed
qed

theorem resolve_workspace_path_contained_witness:
  "resolve_workspace_path ''/workspace'' ''src/main.rs'' = Inr ''/workspace/src/main.rs'' \<and>
   (\<exists>names. path_components ''/workspace/src/main.rs'' =
      path_components ''/workspace'' @ map Normal names)"
proof -
  have eq: "resolve_workspace_path ''/workspace'' ''src/main.rs'' = Inr ''/workspace/src/main.rs''"
    by code_simp
  have "starts_with ''/workspace'' ''/''" by simp
  from resolve_workspace_path_contained [OF this eq] eq show ?thesis by blast
qed

end
