(* ===== verification/Config.thy ===== *)
theory Config
  imports Paths
begin

text \<open>
  The text of an error (\<open>shared/src/error.rs\<close>) and the runtime configuration with its
  validation (\<open>src/config.rs\<close>). What the compiler decides with \<open>cfg!\<close>, the target operating
  system and architecture, is a parameter.
\<close>

section \<open>Rendering errors\<close>

fun display :: "sandbox_error \<Rightarrow> string" where
  "display (Io context source) = context @ '': '' @ source"
| "display (Json context source) = context @ '': '' @ source"
| "display (HttpStatus context status body) =
     context @ '': unexpected HTTP status '' @ decimal (unat status) @ '': '' @ body"
| "display (InvalidConfig m) = ''invalid configuration: '' @ m"
| "display (NotFound m) = ''not found: '' @ m"
| "display (Conflict m) = ''conflict: '' @ m"
| "display (Backend m) = ''backend failure: '' @ m"
| "display (UnsupportedHost m) = ''unsupported host: '' @ m"
| "display (Protocol m) = ''protocol error: '' @ m"
| "display (Timeout m) = ''timeout: '' @ m"

section \<open>Configuration data\<close>

datatype target_os = Linux | MacOs | OtherOs
datatype target_arch = X86_64 | Aarch64 | OtherArch

record platform =
  target_os :: target_os
  target_arch :: target_arch

datatype isolation_mode = Compat | Secure

datatype guest_kernel_format = RawKernel | Elf | PeGz | ImageBz2 | ImageGz | ImageZstd

text \<open>Durations are in nanoseconds.\<close>

record guest_config =
  kernel_image :: string
  kernel_format :: guest_kernel_format
  rootfs_image :: string
  firmware :: "string option"
  guest_agent_path :: string
  guest_vsock_port :: u32
  boot_timeout :: nat
  guest_uid :: u32
  guest_gid :: u32
  guest_tmpfs_mib :: u32

datatype ip_addr = Ipv4 u8 u8 u8 u8 | Ipv6 "128 word"

record control_plane_config =
  bind_ip :: ip_addr
  bind_port :: u16
  allow_remote_bind :: bool

record hardening_config =
  enable_landlock :: bool
  cgroup_parent :: "string option"
  runner_log_limit_bytes :: u64

record execution_policy =
  pol_cpu_cores :: u32
  pol_memory_mb :: u32
  pol_max_processes :: u32
  pol_network_enabled :: bool
  pol_timeout_ms :: "u64 option"

record runtime_config =
  cfg_state_dir :: string
  cfg_guest :: guest_config
  cfg_disk_size_mib :: u64
  cfg_control :: control_plane_config
  cfg_warm_pool_size :: nat
  cfg_isolation_mode :: isolation_mode
  cfg_hardening :: hardening_config
  cfg_bundle_id :: string
  cfg_default_policy :: execution_policy

record sandbox_spec =
  spec_workspace_id :: string
  spec_image :: string
  spec_policy :: execution_policy
  spec_restore_commit :: "string option"

definition default_policy :: execution_policy where
  "default_policy = \<lparr>pol_cpu_cores = 1, pol_memory_mb = 128, pol_max_processes = 256,
     pol_network_enabled = False, pol_timeout_ms = None\<rparr>"

definition default_control :: control_plane_config where
  "default_control = \<lparr>bind_ip = Ipv4 127 0 0 1, bind_port = 7000, allow_remote_bind = False\<rparr>"

definition sandbox_spec_new :: "string \<Rightarrow> sandbox_spec" where
  "sandbox_spec_new w = \<lparr>spec_workspace_id = w, spec_image = ''base'', spec_policy = default_policy,
     spec_restore_commit = None\<rparr>"

section \<open>Kernel formats\<close>

definition parse_kernel_format :: "string \<Rightarrow> guest_kernel_format result" where
  "parse_kernel_format value = (let v = to_ascii_lowercase (trim value) in
     if v = ''raw'' then Inr RawKernel
     else if v = ''elf'' then Inr Elf
     else if v \<in> {''pegz'', ''pe_gz'', ''pe-gz''} then Inr PeGz
     else if v \<in> {''imagebz2'', ''image_bz2'', ''image-bz2''} then Inr ImageBz2
     else if v \<in> {''imagegz'', ''image_gz'', ''image-gz''} then Inr ImageGz
     else if v \<in> {''imagezstd'', ''image_zstd'', ''image-zstd''} then Inr ImageZstd
     else Inl (InvalidConfig (''unsupported guest kernel format: '' @ value)))"

text \<open>\<open>probe.windows(n).any(|window| window == w)\<close>: the probe contains \<open>w\<close>.\<close>

fun has_window :: "'a list \<Rightarrow> 'a list \<Rightarrow> bool" where
  "has_window w [] = (w = [])"
| "has_window w (x # xs) = (take (length w) (x # xs) = w \<or> has_window w xs)"

definition detect_from_probe :: "platform \<Rightarrow> u8 list \<Rightarrow> guest_kernel_format \<Rightarrow> guest_kernel_format" where
  "detect_from_probe pf probe fallback =
     (if take 4 probe = [0x7f, 0x45, 0x4c, 0x46] then Elf
      else if take 2 probe = [0x4d, 0x5a] then
        if has_window [0x1f, 0x8b, 0x08] probe then
          if target_arch pf = X86_64 then ImageGz else PeGz
        else if has_window [0x42, 0x5a, 0x68] probe then ImageBz2
        else if has_window [0x28, 0xb5, 0x2f, 0xfd] probe then ImageZstd
        else fallback
      else fallback)"

text \<open>The last component of a path, if it is a name.\<close>

definition file_name :: "string \<Rightarrow> string option" where
  "file_name path = (case rev (path_components path) of Normal n # _ \<Rightarrow> Some n | _ \<Rightarrow> None)"

definition detect_from_file_name :: "platform \<Rightarrow> string \<Rightarrow> guest_kernel_format option" where
  "detect_from_file_name pf path = Option.bind (file_name path) (\<lambda>n.
     if ends_with (to_ascii_lowercase n) ''.pe.gz'' \<and> target_arch pf \<noteq> X86_64 then Some PeGz else None)"

text \<open>\<open>contents\<close> is what reading the file gives, at most \<open>KERNEL_FORMAT_PROBE_BYTES\<close> of it.\<close>

definition KERNEL_FORMAT_PROBE_BYTES :: nat where
  "KERNEL_FORMAT_PROBE_BYTES = 64 * 1024"

definition detect_from_path :: "platform \<Rightarrow> (string \<Rightarrow> u8 list option) \<Rightarrow> string \<Rightarrow> guest_kernel_format \<Rightarrow> guest_kernel_format" where
  "detect_from_path pf contents path fallback =
     (if path = [] then fallback
      else case detect_from_file_name pf path of
        Some f \<Rightarrow> f
      | None \<Rightarrow> (case contents path of
          None \<Rightarrow> fallback
        | Some bytes \<Rightarrow> detect_from_probe pf (take KERNEL_FORMAT_PROBE_BYTES bytes) fallback))"

section \<open>Validation\<close>

definition uses_krun_init_boot_path :: "platform \<Rightarrow> guest_config \<Rightarrow> bool" where
  "uses_krun_init_boot_path pf g \<longleftrightarrow> target_os pf = Linux \<and> firmware g = None \<and> kernel_format g = RawKernel"

fun check_all :: "(bool \<times> string) list \<Rightarrow> unit result" where
  "check_all [] = Inr ()"
| "check_all ((bad, message) # cs) = (if bad then Inl (InvalidConfig message) else check_all cs)"

fun and_then :: "unit result \<Rightarrow> unit result \<Rightarrow> unit result" where
  "and_then (Inl e) r = Inl e"
| "and_then (Inr u) r = r"

definition guest_validate :: "platform \<Rightarrow> guest_config \<Rightarrow> unit result" where
  "guest_validate pf g = check_all
     [(kernel_image g = [], ''kernel_image must not be empty''),
      (rootfs_image g = [], ''rootfs_image must not be empty''),
      (guest_agent_path g = [], ''guest_agent_path must not be empty''),
      (target_os pf = MacOs \<and> firmware g = None, ''firmware must be configured for libkrun on macOS''),
      (guest_vsock_port g < 1024, ''guest_vsock_port must be >= 1024 for sandbox RPC''),
      (boot_timeout g < 1000000000, ''boot_timeout must be at least one second''),
      (guest_tmpfs_mib g < 32, ''guest_tmpfs_mib must be at least 32'')]"

definition workspace_validate :: "u64 \<Rightarrow> unit result" where
  "workspace_validate disk_size_mib =
     check_all [(disk_size_mib < 64, ''workspace disk must be at least 64 MiB'')]"

fun is_loopback :: "ip_addr \<Rightarrow> bool" where
  "is_loopback (Ipv4 a b c d) \<longleftrightarrow> a = 127"
| "is_loopback (Ipv6 w) \<longleftrightarrow> w = 1"

definition control_validate :: "control_plane_config \<Rightarrow> unit result" where
  "control_validate c = check_all
     [(\<not> allow_remote_bind c \<and> \<not> is_loopback (bind_ip c),
       ''control-plane bind must stay on loopback unless remote bind is explicitly allowed'')]"

definition hardening_validate :: "hardening_config \<Rightarrow> isolation_mode \<Rightarrow> unit result" where
  "hardening_validate h mode = check_all
     [(runner_log_limit_bytes h < 1048576, ''runner_log_limit_bytes must be at least 1048576''),
      (mode = Secure \<and> cgroup_parent h = None, ''secure isolation mode requires SAGENS_CGROUP_PARENT''),
      (mode = Secure \<and> \<not> enable_landlock h, ''secure isolation mode requires Landlock host hardening'')]"

definition lifecycle_validate :: "nat \<Rightarrow> unit result" where
  "lifecycle_validate warm_pool_size = check_all [(64 < warm_pool_size, ''warm_pool_size must not exceed 64'')]"

definition policy_validate :: "execution_policy \<Rightarrow> unit result" where
  "policy_validate p = check_all
     [(pol_cpu_cores p = 0, ''cpu_cores must be at least 1''),
      (pol_memory_mb p < 128, ''memory_mb must be at least 128''),
      (pol_max_processes p = 0, ''max_processes must be at least 1''),
      (pol_timeout_ms p = Some 0, ''timeout_ms must be greater than zero when configured'')]"

definition config_validate :: "platform \<Rightarrow> runtime_config \<Rightarrow> unit result" where
  "config_validate pf c =
     and_then (check_all [(cfg_state_dir c = [], ''state_dir must not be empty'')])
     (and_then (guest_validate pf (cfg_guest c))
     (and_then (workspace_validate (cfg_disk_size_mib c))
     (and_then (control_validate (cfg_control c))
     (and_then (lifecycle_validate (cfg_warm_pool_size c))
     (and_then (hardening_validate (cfg_hardening c) (cfg_isolation_mode c))
     (and_then (policy_validate (cfg_default_policy c))
       (case cfg_isolation_mode c of
          Compat \<Rightarrow> Inr ()
        | Secure \<Rightarrow>
            if target_os pf = Linux then check_all
              [(uses_krun_init_boot_path pf (cfg_guest c),
                ''secure isolation mode requires a direct block-root guest boot path; init.krun/virtiofs root is not allowed''),
               (pol_network_enabled (cfg_default_policy c),
                ''secure isolation mode does not allow a network-enabled default policy'')]
            else Inl (InvalidConfig ''secure isolation mode is only supported on Linux''))))))))"

section \<open>What a validated configuration guarantees\<close>

lemma check_all_Inr: "check_all cs = Inr u \<longleftrightarrow> list_all (\<lambda>(bad, _). \<not> bad) cs"
  by (induction cs rule: check_all.induct) auto

lemma check_all_Inl: "check_all cs = Inl e \<Longrightarrow> \<exists>m. e = InvalidConfig m"
  by (induction cs rule: check_all.induct) (auto split: if_splits)

lemma and_then_Inr: "and_then r t = Inr u \<longleftrightarrow> r = Inr () \<and> t = Inr u"
  by (cases r) auto

lemmas validate_defs = config_validate_def guest_validate_def workspace_validate_def control_validate_def
  lifecycle_validate_def hardening_validate_def policy_validate_def uses_krun_init_boot_path_def

lemma policy_validate_Inr:
  "policy_validate p = Inr u \<longleftrightarrow> 0 < pol_cpu_cores p \<and> 128 \<le> pol_memory_mb p \<and> 0 < pol_max_processes p \<and>
     pol_timeout_ms p \<noteq> Some 0"
  by (auto simp: policy_validate_def check_all_Inr not_less word_gt_0)

lemma workspace_validate_Inr: "workspace_validate n = Inr u \<longleftrightarrow> 64 \<le> n"
  by (auto simp: workspace_validate_def check_all_Inr)


definition demo_guest :: guest_config where
  "demo_guest = \<lparr>kernel_image = ''/k'', kernel_format = Elf, rootfs_image = ''/r'', firmware = None,
     guest_agent_path = ''/a'', guest_vsock_port = 1024, boot_timeout = 1000000000,
     guest_uid = 1, guest_gid = 1, guest_tmpfs_mib = 32\<rparr>"

definition demo_config :: "isolation_mode \<Rightarrow> runtime_config" where
  "demo_config mode = \<lparr>cfg_state_dir = ''/s'', cfg_guest = demo_guest, cfg_disk_size_mib = 64,
     cfg_control = default_control, cfg_warm_pool_size = 1, cfg_isolation_mode = mode,
     cfg_hardening = \<lparr>enable_landlock = True, cgroup_parent = Some ''/c'', runner_log_limit_bytes = 1048576\<rparr>,
     cfg_bundle_id = ''dev'', cfg_default_policy = default_policy\<rparr>"


end
