(* ===== verification/Host_IO.thy ===== *)
theory Host_IO
  imports Paths
begin

text \<open>
  The host the daemon runs on, as far as its operations observe it. Everything the code
  does not decide itself comes from an environment: the readings of the system clock, the
  random UUIDs, which system call fails and with what message, and the third-party
  functions (\<open>uuid\<close>'s text forms, SHA-256, \<open>mkfs\<close> and the ext4 tools; \<open>kept_at\<close> says what an
  interrupted directory removal leaves behind). The state counts the calls
  made so far, and call number \<open>n\<close> gets the \<open>n\<close>-th answer of the environment, so a
  statement about every environment is a statement about every schedule of failures,
  clock readings and random values.

  A JSON file is intact or torn: a write that fails after the file was opened leaves a
  torn file, and decoding a torn file is an error. That an intact file decodes to the
  value that was encoded is the documented round trip of \<open>serde_json\<close>.
\<close>

section \<open>Environment and state\<close>

text \<open>The bytes of a raw disk image: its length and the byte at each offset below it.\<close>

record disk =
  disk_len :: u64
  disk_byte :: "u64 \<Rightarrow> u8"

text \<open>How an external program ended: its exit code if it has one, or why it did not start.\<close>

datatype tool_outcome = Exited "int option" | NotInstalled | SpawnFailed string

record env =
  clock_at :: "nat \<Rightarrow> int"
  uuid_at :: "nat \<Rightarrow> uuid"
  fault_at :: "nat \<Rightarrow> string option"
  real_dir_at :: "nat \<Rightarrow> bool"
  torn_disk_at :: "nat \<Rightarrow> disk"
  uuid_string :: "uuid \<Rightarrow> string"
  uuid_simple :: "uuid \<Rightarrow> string"
  sha256 :: "string \<Rightarrow> u8 list"
  kept_at :: "nat \<Rightarrow> string \<Rightarrow> bool"
  mkfs_ext4 :: "u64 \<Rightarrow> disk"
  tool_at :: "nat \<Rightarrow> tool_outcome"
  tool_effect_at :: "nat \<Rightarrow> disk \<Rightarrow> disk"
  euid :: nat

record host =
  calls :: nat

section \<open>Calls of the environment\<close>

definition ask :: "(nat \<Rightarrow> 'a) \<Rightarrow> ('z host_scheme, 'a) io" where
  "ask g = (\<lambda>s. (Inr (g (calls s)), s\<lparr>calls := Suc (calls s)\<rparr>))"

text \<open>A system call whose failure becomes \<open>SandboxError::io(context, error)\<close>.\<close>

definition sys_io :: "'e env_scheme \<Rightarrow> string \<Rightarrow> ('z host_scheme, unit) io" where
  "sys_io E ctx = bindE (ask (fault_at E))
     (\<lambda>f. case f of None \<Rightarrow> returnE () | Some msg \<Rightarrow> throwE (Io ctx msg))"

text \<open>An encoding step whose failure becomes \<open>SandboxError::json(context, error)\<close>.\<close>

definition sys_json :: "'e env_scheme \<Rightarrow> string \<Rightarrow> ('z host_scheme, unit) io" where
  "sys_json E ctx = bindE (ask (fault_at E))
     (\<lambda>f. case f of None \<Rightarrow> returnE () | Some msg \<Rightarrow> throwE (Json ctx msg))"

text \<open>A call of a third-party library whose failure becomes \<open>SandboxError::backend(..)\<close>.\<close>

definition sys_backend :: "'e env_scheme \<Rightarrow> string \<Rightarrow> ('z host_scheme, unit) io" where
  "sys_backend E ctx = bindE (ask (fault_at E))
     (\<lambda>f. case f of None \<Rightarrow> returnE () | Some msg \<Rightarrow> throwE (Backend (ctx @ '': '' @ msg)))"

text \<open>
  A system call whose failure leaves a damaged object behind: on failure \<open>damage\<close> happens
  before the error is returned.
\<close>

definition sys_io_damaging :: "'e env_scheme \<Rightarrow> string \<Rightarrow> ('z host_scheme \<Rightarrow> 'z host_scheme) \<Rightarrow>
    ('z host_scheme, unit) io" where
  "sys_io_damaging E ctx damage = bindE (ask (fault_at E))
     (\<lambda>f. case f of None \<Rightarrow> returnE () | Some msg \<Rightarrow> seqE (modifyE damage) (throwE (Io ctx msg)))"

definition sys_backend_damaging :: "'e env_scheme \<Rightarrow> string \<Rightarrow> ('z host_scheme \<Rightarrow> 'z host_scheme) \<Rightarrow>
    ('z host_scheme, unit) io" where
  "sys_backend_damaging E ctx damage = bindE (ask (fault_at E))
     (\<lambda>f. case f of None \<Rightarrow> returnE ()
        | Some msg \<Rightarrow> seqE (modifyE damage) (throwE (Backend (ctx @ '': '' @ msg))))"

text \<open>
  \<open>now_ms\<close>: milliseconds since the epoch, 0 for a clock before it, truncated to 64 bits.
\<close>

definition now_ms :: "'e env_scheme \<Rightarrow> ('z host_scheme, u64) io" where
  "now_ms E = bindE (ask (clock_at E)) (\<lambda>t. returnE (if t < 0 then 0 else word_of_int t))"

definition new_v4 :: "'e env_scheme \<Rightarrow> ('z host_scheme, uuid) io" where
  "new_v4 E = ask (uuid_at E)"

section \<open>JSON files\<close>

datatype 'a json_file = Intact 'a | Torn

definition decode_json :: "string \<Rightarrow> 'a json_file \<Rightarrow> ('s, 'a) io" where
  "decode_json ctx j = (case j of
       Torn \<Rightarrow> throwE (Json ctx ''EOF while parsing a value'')
     | Intact v \<Rightarrow> returnE v)"

text \<open>
  \<open>fs::write(path, bytes)\<close>: the open may fail and leave the file as it was; a failure after
  it leaves a torn file.
\<close>

definition fs_write :: "'e env_scheme \<Rightarrow> string \<Rightarrow> ('a json_file \<Rightarrow> 'z host_scheme \<Rightarrow> 'z host_scheme) \<Rightarrow>
    'a \<Rightarrow> ('z host_scheme, unit) io" where
  "fs_write E ctx put v =
     seqE (sys_io E ctx)
     (seqE (sys_io_damaging E ctx (put Torn))
       (modifyE (put (Intact v))))"

text \<open>
  \<open>fs::copy(source, destination)\<close>: a missing source is an error; a failure after the
  destination was opened leaves arbitrary bytes in it.
\<close>

definition fs_copy :: "'e env_scheme \<Rightarrow> string \<Rightarrow> disk option \<Rightarrow>
    (disk \<Rightarrow> 'z host_scheme \<Rightarrow> 'z host_scheme) \<Rightarrow> ('z host_scheme, unit) io" where
  "fs_copy E ctx source put =
     seqE (sys_io E ctx)
     (case source of
        None \<Rightarrow> throwE (Io ctx ''No such file or directory (os error 2)'')
      | Some d \<Rightarrow> bindE (ask (torn_disk_at E)) (\<lambda>torn.
          seqE (sys_io_damaging E ctx (put torn)) (modifyE (put d))))"

section \<open>Private files (\<open>src/private_fs.rs\<close>)\<close>

text \<open>
  The directory exists once the first call returned (\<open>mk\<close> records that where the model
  keeps the directory), whatever happens to its permissions.
\<close>

definition make_private_dir :: "'e env_scheme \<Rightarrow> string \<Rightarrow> string \<Rightarrow> ('z host_scheme \<Rightarrow> 'z host_scheme) \<Rightarrow>
    ('z host_scheme, unit) io" where
  "make_private_dir E path context mk =
     seqE (sys_io E context)
     (seqE (modifyE mk)
     (seqE (sys_io E (''reading '' @ path))
     (bindE (ask (real_dir_at E)) (\<lambda>real_dir.
       if \<not> real_dir then
         throwE (InvalidConfig (context @ '' must be a real directory: '' @ path))
       else sys_io E (''setting '' @ path)))))"

definition ensure_private_dir :: "'e env_scheme \<Rightarrow> string \<Rightarrow> string \<Rightarrow> ('z host_scheme, unit) io" where
  "ensure_private_dir E path context = make_private_dir E path context (\<lambda>s. s)"

text \<open>
  \<open>open_private_file_truncate\<close>: the parent directory is made private first; opening with
  \<open>truncate\<close> empties the file, so a failure to set its permissions leaves it torn.
\<close>

definition open_private_file_truncate :: "'e env_scheme \<Rightarrow> string option \<Rightarrow>
    ('a json_file \<Rightarrow> 'z host_scheme \<Rightarrow> 'z host_scheme) \<Rightarrow> string \<Rightarrow> string \<Rightarrow>
    ('z host_scheme, unit) io" where
  "open_private_file_truncate E parent put dir_context file_context =
     seqE (case parent of None \<Rightarrow> returnE () | Some p \<Rightarrow> ensure_private_dir E p dir_context)
     (seqE (sys_io E file_context)
     (seqE (modifyE (put Torn))
       (sys_io E (''setting '' @ file_context @ '' permissions''))))"

definition write_private_file :: "'e env_scheme \<Rightarrow> string \<Rightarrow> string option \<Rightarrow>
    ('a json_file \<Rightarrow> 'z host_scheme \<Rightarrow> 'z host_scheme) \<Rightarrow> 'a \<Rightarrow> string \<Rightarrow> string \<Rightarrow>
    ('z host_scheme, unit) io" where
  "write_private_file E path parent put v dir_context file_context =
     seqE (open_private_file_truncate E parent put dir_context file_context)
     (seqE (sys_io E file_context)
     (seqE (modifyE (put (Intact v)))
       (sys_io E (''syncing '' @ path))))"

section \<open>Proof rules for the calls\<close>

lemma wp_ask [wp_exact]:
  "wp (ask g) Q R s = Q (g (calls s)) (s\<lparr>calls := Suc (calls s)\<rparr>)"
  by (simp add: wp_def ask_def)

lemma wp_sys_io [wp_exact]:
  "wp (sys_io E ctx) Q R s =
     (case fault_at E (calls s) of
        None \<Rightarrow> Q () (s\<lparr>calls := Suc (calls s)\<rparr>)
      | Some msg \<Rightarrow> R (Fail (Io ctx msg)) (s\<lparr>calls := Suc (calls s)\<rparr>))"
  by (simp add: sys_io_def wp_simps wp_exact split: option.split)

lemma wp_sys_json [wp_exact]:
  "wp (sys_json E ctx) Q R s =
     (case fault_at E (calls s) of
        None \<Rightarrow> Q () (s\<lparr>calls := Suc (calls s)\<rparr>)
      | Some msg \<Rightarrow> R (Fail (Json ctx msg)) (s\<lparr>calls := Suc (calls s)\<rparr>))"
  by (simp add: sys_json_def wp_simps wp_exact split: option.split)

lemma wp_sys_backend [wp_exact]:
  "wp (sys_backend E ctx) Q R s =
     (case fault_at E (calls s) of
        None \<Rightarrow> Q () (s\<lparr>calls := Suc (calls s)\<rparr>)
      | Some msg \<Rightarrow> R (Fail (Backend (ctx @ '': '' @ msg))) (s\<lparr>calls := Suc (calls s)\<rparr>))"
  by (simp add: sys_backend_def wp_simps wp_exact split: option.split)

lemma wp_sys_io_damaging [wp_exact]:
  "wp (sys_io_damaging E ctx d) Q R s =
     (case fault_at E (calls s) of
        None \<Rightarrow> Q () (s\<lparr>calls := Suc (calls s)\<rparr>)
      | Some msg \<Rightarrow> R (Fail (Io ctx msg)) (d (s\<lparr>calls := Suc (calls s)\<rparr>)))"
  by (simp add: sys_io_damaging_def wp_simps wp_exact split: option.split)

lemma wp_decode_json [wp_simps]:
  "wp (decode_json ctx j) Q R s =
     (case j of Torn \<Rightarrow> R (Fail (Json ctx ''EOF while parsing a value'')) s | Intact v \<Rightarrow> Q v s)"
  by (simp add: decode_json_def wp_throwE wp_returnE split: json_file.splits)

text \<open>The same calls when the exact position in the environment does not matter.\<close>

lemma wp_askI [wp_intro]: "(\<And>m n. calls s \<le> m \<Longrightarrow> m < n \<Longrightarrow> Q (g m) (s\<lparr>calls := n\<rparr>)) \<Longrightarrow> wp (ask g) Q R s"
  by (simp add: wp_exact)

lemma wp_now_msI [wp_intro]: "(\<And>t n. calls s \<le> n \<Longrightarrow> Q t (s\<lparr>calls := n\<rparr>)) \<Longrightarrow> wp (now_ms E) Q R s"
  by (simp add: now_ms_def wp_simps wp_exact)

lemma wp_new_v4I [wp_intro]: "(\<And>m n. calls s \<le> m \<Longrightarrow> m < n \<Longrightarrow> Q (uuid_at E m) (s\<lparr>calls := n\<rparr>)) \<Longrightarrow> wp (new_v4 E) Q R s"
  by (simp add: new_v4_def wp_simps wp_exact)

lemma wp_sys_ioI [wp_intro]:
  "(\<And>n. calls s \<le> n \<Longrightarrow> Q () (s\<lparr>calls := n\<rparr>)) \<Longrightarrow> (\<And>e n. calls s \<le> n \<Longrightarrow> R (Fail e) (s\<lparr>calls := n\<rparr>)) \<Longrightarrow> wp (sys_io E ctx) Q R s"
  and wp_sys_jsonI [wp_intro]:
  "(\<And>n. calls s \<le> n \<Longrightarrow> Q () (s\<lparr>calls := n\<rparr>)) \<Longrightarrow> (\<And>e n. calls s \<le> n \<Longrightarrow> R (Fail e) (s\<lparr>calls := n\<rparr>)) \<Longrightarrow> wp (sys_json E ctx) Q R s"
  and wp_sys_backendI [wp_intro]:
  "(\<And>n. calls s \<le> n \<Longrightarrow> Q () (s\<lparr>calls := n\<rparr>)) \<Longrightarrow> (\<And>e n. calls s \<le> n \<Longrightarrow> R (Fail e) (s\<lparr>calls := n\<rparr>)) \<Longrightarrow> wp (sys_backend E ctx) Q R s"
  by (simp_all add: wp_simps wp_exact split: option.splits)

lemma wp_sys_io_damagingI [wp_intro]:
  "(\<And>n. calls s \<le> n \<Longrightarrow> Q () (s\<lparr>calls := n\<rparr>)) \<Longrightarrow> (\<And>e n. calls s \<le> n \<Longrightarrow> R (Fail e) (d (s\<lparr>calls := n\<rparr>))) \<Longrightarrow>
    wp (sys_io_damaging E ctx d) Q R s"
  by (simp add: wp_simps wp_exact split: option.splits)

lemma wp_sys_backend_damagingI [wp_intro]:
  "(\<And>n. calls s \<le> n \<Longrightarrow> Q () (s\<lparr>calls := n\<rparr>)) \<Longrightarrow> (\<And>e n. calls s \<le> n \<Longrightarrow> R (Fail e) (d (s\<lparr>calls := n\<rparr>))) \<Longrightarrow>
    wp (sys_backend_damaging E ctx d) Q R s"
  by (simp add: sys_backend_damaging_def wp_simps wp_exact split: option.splits)

lemma wp_ensure_private_dirI [wp_intro]:
  "(\<And>n. calls s \<le> n \<Longrightarrow> Q () (s\<lparr>calls := n\<rparr>)) \<Longrightarrow> (\<And>e n. calls s \<le> n \<Longrightarrow> R (Fail e) (s\<lparr>calls := n\<rparr>)) \<Longrightarrow>
    wp (ensure_private_dir E path ctx) Q R s"
  by (simp add: ensure_private_dir_def make_private_dir_def wp_simps wp_exact split: option.splits)

lemma wp_make_private_dirI [wp_intro]:
  assumes put: "\<And>t n. (mk t)\<lparr>calls := n\<rparr> = mk (t\<lparr>calls := n\<rparr>)" "\<And>t. calls (mk t) = calls t"
    and "\<And>n. calls s \<le> n \<Longrightarrow> Q () (mk (s\<lparr>calls := n\<rparr>))"
    and "\<And>e n. calls s \<le> n \<Longrightarrow> R (Fail e) (s\<lparr>calls := n\<rparr>)"
    and "\<And>e n. calls s \<le> n \<Longrightarrow> R (Fail e) (mk (s\<lparr>calls := n\<rparr>))"
  shows "wp (make_private_dir E path ctx mk) Q R s"
  unfolding make_private_dir_def by (auto simp: wp_simps assms intro!: wp_intro)

text \<open>A file write either leaves the file, tears it, or writes it, whatever it returns.\<close>

lemma wp_fs_writeI [wp_intro]:
  assumes "\<And>n. calls s \<le> n \<Longrightarrow> Q () (put (Intact v) (s\<lparr>calls := n\<rparr>))"
    and "\<And>e n. calls s \<le> n \<Longrightarrow> R (Fail e) (s\<lparr>calls := n\<rparr>)"
    and "\<And>e n. calls s \<le> n \<Longrightarrow> R (Fail e) (put Torn (s\<lparr>calls := n\<rparr>))"
  shows "wp (fs_write E ctx put v) Q R s"
  using assms by (simp add: fs_write_def wp_simps wp_exact split: option.splits)

lemma wp_fs_copyI [wp_intro]:
  assumes "\<And>n d. calls s \<le> n \<Longrightarrow> source = Some d \<Longrightarrow> Q () (put d (s\<lparr>calls := n\<rparr>))"
    and "\<And>e n. calls s \<le> n \<Longrightarrow> R (Fail e) (s\<lparr>calls := n\<rparr>)"
    and "\<And>e n d. calls s \<le> n \<Longrightarrow> R (Fail e) (put d (s\<lparr>calls := n\<rparr>))"
  shows "wp (fs_copy E ctx source put) Q R s"
  using assms by (auto simp: fs_copy_def wp_simps wp_exact split: option.splits)

lemma wp_write_private_fileI [wp_intro]:
  assumes put: "\<And>j k t n. put j (put k t) = put j t" "\<And>j t n. (put j t)\<lparr>calls := n\<rparr> = put j (t\<lparr>calls := n\<rparr>)"
      "\<And>j t. calls (put j t) = calls t"
    and "\<And>n. calls s \<le> n \<Longrightarrow> Q () (put (Intact v) (s\<lparr>calls := n\<rparr>))"
    and "\<And>e n. calls s \<le> n \<Longrightarrow> R (Fail e) (s\<lparr>calls := n\<rparr>)"
    and "\<And>e n j. calls s \<le> n \<Longrightarrow> j \<in> {Torn, Intact v} \<Longrightarrow> R (Fail e) (put j (s\<lparr>calls := n\<rparr>))"
  shows "wp (write_private_file E path parent put v dc fc) Q R s"
  unfolding write_private_file_def open_private_file_truncate_def
  by (auto simp: wp_simps assms split: option.split intro!: wp_intro)

text \<open>
  An invariant that does not read the call counter is kept by every call; an observation
  that does not read it is unchanged. The hypothesis is discharged by the simplifier for
  every field of every extension of the host record.
\<close>

definition counter_free :: "('z host_scheme \<Rightarrow> 'f) \<Rightarrow> bool" where
  "counter_free f \<longleftrightarrow> (\<forall>s n. f (s\<lparr>calls := n\<rparr>) = f s)"

lemma counter_freeI [intro]: "(\<And>s n. f (s\<lparr>calls := n\<rparr>) = f s) \<Longrightarrow> counter_free f"
  by (simp add: counter_free_def)

lemma counter_freeD: "counter_free f \<Longrightarrow> f (s\<lparr>calls := n\<rparr>) = f s"
  by (simp add: counter_free_def)

lemma preserves_ask [preserves_intro]: "counter_free P \<Longrightarrow> preserves P (ask g)"
  by (simp add: preserves_def ask_def counter_freeD)

lemma preserves_sys_io [preserves_intro]: "counter_free P \<Longrightarrow> preserves P (sys_io E ctx)"
  and preserves_sys_json [preserves_intro]: "counter_free P \<Longrightarrow> preserves P (sys_json E ctx)"
  and preserves_sys_backend [preserves_intro]: "counter_free P \<Longrightarrow> preserves P (sys_backend E ctx)"
  by (auto simp: sys_io_def sys_json_def sys_backend_def intro!: preserves_intro)

lemma preserves_sys_io_damaging [preserves_intro]:
  "counter_free P \<Longrightarrow> (\<And>s. P s \<Longrightarrow> P (d s)) \<Longrightarrow> preserves P (sys_io_damaging E ctx d)"
  by (auto simp: sys_io_damaging_def intro!: preserves_intro)

lemma preserves_sys_backend_damaging [preserves_intro]:
  "counter_free P \<Longrightarrow> (\<And>s. P s \<Longrightarrow> P (d s)) \<Longrightarrow> preserves P (sys_backend_damaging E ctx d)"
  by (auto simp: sys_backend_damaging_def intro!: preserves_intro)

lemma preserves_now_ms [preserves_intro]: "counter_free P \<Longrightarrow> preserves P (now_ms E)"
  and preserves_new_v4 [preserves_intro]: "counter_free P \<Longrightarrow> preserves P (new_v4 E)"
  by (auto simp: now_ms_def new_v4_def intro!: preserves_intro)

lemma preserves_decode_json [preserves_intro]: "preserves P (decode_json ctx j)"
  by (cases j) (simp_all add: decode_json_def preserves_intro)

lemma preserves_fs_write [preserves_intro]:
  "counter_free P \<Longrightarrow> (\<And>s. P s \<Longrightarrow> P (put Torn s)) \<Longrightarrow> (\<And>s. P s \<Longrightarrow> P (put (Intact v) s)) \<Longrightarrow>
    preserves P (fs_write E ctx put v)"
  by (auto simp: fs_write_def intro!: preserves_intro)

lemma preserves_fs_copy [preserves_intro]:
  "counter_free P \<Longrightarrow> (\<And>d s. P s \<Longrightarrow> P (put d s)) \<Longrightarrow> preserves P (fs_copy E ctx source put)"
  by (auto simp: fs_copy_def intro!: preserves_intro)

lemma preserves_make_private_dir [preserves_intro]:
  "counter_free P \<Longrightarrow> (\<And>s. P s \<Longrightarrow> P (mk s)) \<Longrightarrow> preserves P (make_private_dir E path ctx mk)"
  by (auto simp: make_private_dir_def intro!: preserves_intro)

lemma preserves_ensure_private_dir [preserves_intro]:
  "counter_free P \<Longrightarrow> preserves P (ensure_private_dir E path ctx)"
  by (auto simp: ensure_private_dir_def intro!: preserves_intro)

lemma preserves_write_private_file [preserves_intro]:
  "counter_free P \<Longrightarrow> (\<And>s. P s \<Longrightarrow> P (put Torn s)) \<Longrightarrow> (\<And>s. P s \<Longrightarrow> P (put (Intact v) s)) \<Longrightarrow>
    preserves P (write_private_file E path parent put v dc fc)"
  by (auto simp: write_private_file_def open_private_file_truncate_def intro!: preserves_intro)

lemma counter_free_eq: "counter_free f \<Longrightarrow> counter_free (\<lambda>s. f s = v)"
  by (simp add: counter_free_def)

lemma keeps_ask [keeps_intro]: "counter_free f \<Longrightarrow> keeps f (ask g)"
  and keeps_sys_io [keeps_intro]: "counter_free f \<Longrightarrow> keeps f (sys_io E ctx)"
  and keeps_sys_json [keeps_intro]: "counter_free f \<Longrightarrow> keeps f (sys_json E ctx)"
  and keeps_sys_backend [keeps_intro]: "counter_free f \<Longrightarrow> keeps f (sys_backend E ctx)"
  and keeps_now_ms [keeps_intro]: "counter_free f \<Longrightarrow> keeps f (now_ms E)"
  and keeps_new_v4 [keeps_intro]: "counter_free f \<Longrightarrow> keeps f (new_v4 E)"
  and keeps_decode_json [keeps_intro]: "keeps f (decode_json ctx j)"
  and keeps_ensure_private_dir [keeps_intro]: "counter_free f \<Longrightarrow> keeps f (ensure_private_dir E path ctx)"
  by (auto intro!: keeps_preservesI preserves_intro simp: counter_free_eq)

lemma keeps_sys_io_damaging [keeps_intro]:
  "counter_free f \<Longrightarrow> (\<And>s. f (d s) = f s) \<Longrightarrow> keeps f (sys_io_damaging E ctx d)"
  by (auto intro!: keeps_preservesI preserves_intro simp: counter_free_eq)

lemma keeps_sys_backend_damaging [keeps_intro]:
  "counter_free f \<Longrightarrow> (\<And>s. f (d s) = f s) \<Longrightarrow> keeps f (sys_backend_damaging E ctx d)"
  by (auto intro!: keeps_preservesI preserves_intro simp: counter_free_eq)

lemma keeps_fs_write [keeps_intro]:
  "counter_free f \<Longrightarrow> (\<And>j s. f (put j s) = f s) \<Longrightarrow> keeps f (fs_write E ctx put v)"
  by (auto intro!: keeps_preservesI preserves_intro simp: counter_free_eq)

lemma keeps_make_private_dir [keeps_intro]:
  "counter_free f \<Longrightarrow> (\<And>s. f (mk s) = f s) \<Longrightarrow> keeps f (make_private_dir E path ctx mk)"
  by (auto intro!: keeps_preservesI preserves_intro simp: counter_free_eq)

lemma keeps_fs_copy [keeps_intro]:
  "counter_free f \<Longrightarrow> (\<And>d s. f (put d s) = f s) \<Longrightarrow> keeps f (fs_copy E ctx source put)"
  by (auto intro!: keeps_preservesI preserves_intro simp: counter_free_eq)

lemma keeps_write_private_file [keeps_intro]:
  "counter_free f \<Longrightarrow> (\<And>j s. f (put j s) = f s) \<Longrightarrow>
    keeps f (write_private_file E path parent put v dc fc)"
  by (auto intro!: keeps_preservesI preserves_intro simp: counter_free_eq)

section \<open>Runs without failures\<close>

text \<open>
  A weakest precondition with a success exit only: used for statements that an operation
  returns, which need an environment in which no call fails.
\<close>

definition no_faults :: "'e env_scheme \<Rightarrow> bool" where
  "no_faults E \<longleftrightarrow> (\<forall>n. fault_at E n = None) \<and> (\<forall>n. real_dir_at E n)"

lemma no_faultsD [simp]: "no_faults E \<Longrightarrow> fault_at E n = None" "no_faults E \<Longrightarrow> real_dir_at E n"
  by (simp_all add: no_faults_def)

lemma wp_total_calls [wp_total]:
  assumes "no_faults E" and "\<And>n. calls s \<le> n \<Longrightarrow> Q () (s\<lparr>calls := n\<rparr>)"
  shows "wp (sys_io E ctx) Q R s" and "wp (sys_json E ctx) Q R s" and "wp (sys_backend E ctx) Q R s"
    and "wp (sys_io_damaging E ctx d) Q R s" and "wp (sys_backend_damaging E ctx d) Q R s"
  using assms by (simp_all add: wp_simps wp_exact sys_backend_damaging_def)

lemma wp_total_ask [wp_total]:
  "(\<And>m n. calls s \<le> m \<Longrightarrow> m < n \<Longrightarrow> Q (g m) (s\<lparr>calls := n\<rparr>)) \<Longrightarrow> wp (ask g) Q R s"
  by (simp add: wp_exact)

lemma wp_total_now_ms [wp_total]: "(\<And>t n. calls s \<le> n \<Longrightarrow> Q t (s\<lparr>calls := n\<rparr>)) \<Longrightarrow> wp (now_ms E) Q R s"
  by (rule wp_now_msI)

lemma wp_total_new_v4 [wp_total]:
  "(\<And>m n. calls s \<le> m \<Longrightarrow> m < n \<Longrightarrow> Q (uuid_at E m) (s\<lparr>calls := n\<rparr>)) \<Longrightarrow> wp (new_v4 E) Q R s"
  by (rule wp_new_v4I)

lemma wp_total_fs_write [wp_total]:
  "no_faults E \<Longrightarrow> (\<And>n. calls s \<le> n \<Longrightarrow> Q () (put (Intact v) (s\<lparr>calls := n\<rparr>))) \<Longrightarrow> wp (fs_write E ctx put v) Q R s"
  by (simp add: fs_write_def wp_simps wp_exact)

lemma wp_total_fs_copy [wp_total]:
  "no_faults E \<Longrightarrow> (\<And>n. calls s \<le> n \<Longrightarrow> Q () (put d (s\<lparr>calls := n\<rparr>))) \<Longrightarrow>
    wp (fs_copy E ctx (Some d) put) Q R s"
  by (simp add: fs_copy_def wp_simps wp_exact)

lemma wp_total_make_private_dir [wp_total]:
  assumes "no_faults E" and "\<And>t n. (mk t)\<lparr>calls := n\<rparr> = mk (t\<lparr>calls := n\<rparr>)" and "\<And>t. calls (mk t) = calls t"
    and "\<And>n. calls s \<le> n \<Longrightarrow> Q () (mk (s\<lparr>calls := n\<rparr>))"
  shows "wp (make_private_dir E path ctx mk) Q R s"
  using assms by (simp add: make_private_dir_def wp_simps wp_exact)

lemma wp_total_ensure_private_dir [wp_total]:
  "no_faults E \<Longrightarrow> (\<And>n. calls s \<le> n \<Longrightarrow> Q () (s\<lparr>calls := n\<rparr>)) \<Longrightarrow> wp (ensure_private_dir E path ctx) Q R s"
  by (simp add: ensure_private_dir_def make_private_dir_def wp_simps wp_exact)

text \<open>An operation returns when its weakest precondition holds with no failure exit.\<close>

lemma wp_returns: "wp m Q (\<lambda>_ _. False) s \<Longrightarrow> \<exists>a s'. m s = (Inr a, s') \<and> Q a s'"
  by (auto simp: wp_def split: prod.splits sum.splits)

text \<open>The SHA-256 hex digest and the random tokens.\<close>

definition hex_digit :: "nat \<Rightarrow> char" where
  "hex_digit d = (if d < 10 then char_of (48 + d) else char_of (87 + d))"

definition hex_byte :: "u8 \<Rightarrow> string" where
  "hex_byte b = [hex_digit (unat b div 16), hex_digit (unat b mod 16)]"

definition hex_encode :: "u8 list \<Rightarrow> string" where
  "hex_encode bs = concat (map hex_byte bs)"

lemma hex_digit_inj: "a < 16 \<Longrightarrow> b < 16 \<Longrightarrow> hex_digit a = hex_digit b \<Longrightarrow> a = b"
proof -
  assume a: "a < 16" and b: "b < 16" and eq: "hex_digit a = hex_digit b"
  have code: "of_char (hex_digit d) = (if d < 10 then 48 + d else 87 + d)" if "d < 16" for d
    using that by (auto simp: hex_digit_def of_char_of)
  from eq have "(of_char (hex_digit a) :: nat) = of_char (hex_digit b)" by simp
  with a b show "a = b" by (auto simp: code split: if_splits)
qed

lemma hex_byte_inj: "hex_byte a = hex_byte b \<Longrightarrow> a = b"
proof -
  assume eq: "hex_byte a = hex_byte b"
  have lt: "unat (x :: u8) < 256" for x using unsigned_less [of x] by simp
  have "unat a div 16 < 16" "unat b div 16 < 16" using lt [of a] lt [of b] by auto
  then have "unat a div 16 = unat b div 16" and "unat a mod 16 = unat b mod 16"
    using eq by (auto simp: hex_byte_def intro: hex_digit_inj)
  then have "unat a = unat b" by (metis div_mult_mod_eq)
  then show "a = b" by (simp add: word_unat_eq_iff)
qed

lemma hex_encode_inj: "hex_encode a = hex_encode b \<Longrightarrow> a = b"
proof (induction a arbitrary: b)
  case Nil
  then show ?case by (cases b) (simp_all add: hex_encode_def hex_byte_def)
next
  case (Cons x a)
  then obtain y c where b: "b = y # c"
    by (cases b) (simp_all add: hex_encode_def hex_byte_def)
  with Cons.prems have "hex_byte x = hex_byte y" and "hex_encode a = hex_encode c"
    by (simp_all add: hex_encode_def hex_byte_def)
  with Cons.IH b show ?case by (simp add: hex_byte_inj)
qed

end
