(* ===== verification/Guest_Fs.thy ===== *)
theory Guest_Fs
  imports Manifest Host_IO "HOL-Library.AList"
begin

text \<open>
  The files of a guest as the guest agent sees and changes them
  (\<open>guest-agent/src/guest_agent/fs.rs\<close>). The file system is a table of absolute paths, as the
  list of their names, with regular files, directories and symbolic links; a path is looked
  up the way the kernel does it, links included. Every system call may also fail for a reason
  of its own, which the environment decides.
\<close>

section \<open>The file system\<close>

type_synonym gpath = "string list"

datatype gnode = GFile "u8 list" | GDir | GLink string

record guest_fs = host +
  gfs :: "(gpath \<times> gnode) list"

text \<open>
  \<open>write_cut_at\<close>: how many bytes a failing write wrote; \<open>keep_at\<close>: what a failing recursive
  removal left.
\<close>

record agent_env = env +
  write_cut_at :: "nat \<Rightarrow> nat"
  keep_at :: "nat \<Rightarrow> gpath \<Rightarrow> bool"

definition gnode_at :: "(gpath \<times> gnode) list \<Rightarrow> gpath \<Rightarrow> gnode option" where
  "gnode_at fs p = (if p = [] then Some GDir else map_of fs p)"

definition ENOENT :: string where "ENOENT = ''No such file or directory (os error 2)''"
definition EBUSY :: string where "EBUSY = ''Resource busy (os error 16)''"
definition EEXIST :: string where "EEXIST = ''File exists (os error 17)''"
definition ENOTDIR :: string where "ENOTDIR = ''Not a directory (os error 20)''"
definition EISDIR :: string where "EISDIR = ''Is a directory (os error 21)''"
definition EINVAL :: string where "EINVAL = ''Invalid argument (os error 22)''"
definition ENOTEMPTY :: string where "ENOTEMPTY = ''Directory not empty (os error 39)''"
definition ELOOP :: string where "ELOOP = ''Symbolic link loop (os error 40)''"
definition NUL_BYTE :: string where "NUL_BYTE = ''file name contained an unexpected NUL byte''"

text \<open>
  The names a path gives the kernel; a slash at the end asks for a directory, as a last name
  \<open>.\<close> does.
\<close>

definition segments :: "string \<Rightarrow> string list" where
  "segments p = filter (\<lambda>w. w \<noteq> []) (split_on (CHR ''/'') p)"

definition kcomps :: "string \<Rightarrow> string list" where
  "kcomps p = segments p @ (if ends_with p ''/'' then [''.''] else [])"

text \<open>The names of a path as \<open>std::path\<close> sees them.\<close>

definition path_names :: "string \<Rightarrow> string list" where
  "path_names p = filter (\<lambda>w. w \<noteq> ''.'') (segments p)"

datatype found = Found gpath | Absent gpath | Errno string

text \<open>
  Looking up a path: \<open>cur\<close> is the directory reached, \<open>l\<close> how many links may still be followed;
  \<open>follow\<close> says whether a link in the last place is followed. \<open>Absent\<close>: only the last name is
  missing.
\<close>

function namei :: "(gpath \<times> gnode) list \<Rightarrow> bool \<Rightarrow> nat \<Rightarrow> gpath \<Rightarrow> string list \<Rightarrow> found" where
  "namei fs follow l cur [] = Found cur"
| "namei fs follow l cur (c # cs) =
     (if c = ''.'' then namei fs follow l cur cs
      else if c = ''..'' then namei fs follow l (butlast cur) cs
      else case gnode_at fs (cur @ [c]) of
        None \<Rightarrow> if cs = [] then Absent (cur @ [c]) else Errno ENOENT
      | Some GDir \<Rightarrow> namei fs follow l (cur @ [c]) cs
      | Some (GFile d) \<Rightarrow> if cs = [] then Found (cur @ [c]) else Errno ENOTDIR
      | Some (GLink t) \<Rightarrow>
          if cs = [] \<and> \<not> follow then Found (cur @ [c])
          else if l = 0 then Errno ELOOP
          else if t = [] then Errno ENOENT
          else namei fs follow (l - 1) (if starts_with t ''/'' then [] else cur) (kcomps t @ cs))"
  by pat_completeness auto
termination
  by (relation "measures [\<lambda>(_, _, l, _, _). l, \<lambda>(_, _, _, _, cs). length cs]") auto

definition klookup :: "bool \<Rightarrow> string list \<Rightarrow> 'z guest_fs_scheme \<Rightarrow> found" where
  "klookup follow cs s = (if list_ex (\<lambda>c. CHR 0x00 \<in> set c) cs then Errno NUL_BYTE else namei (gfs s) follow 40 [] cs)"

definition children :: "(gpath \<times> gnode) list \<Rightarrow> gpath \<Rightarrow> string list" where
  "children fs p = [last q. (q, _) \<leftarrow> fs, q \<noteq> [] \<and> butlast q = p]"

definition put_node :: "gpath \<Rightarrow> gnode \<Rightarrow> 'z guest_fs_scheme \<Rightarrow> 'z guest_fs_scheme" where
  "put_node p n s = s\<lparr>gfs := AList.update p n (gfs s)\<rparr>"

definition drop_node :: "gpath \<Rightarrow> 'z guest_fs_scheme \<Rightarrow> 'z guest_fs_scheme" where
  "drop_node p s = s\<lparr>gfs := AList.delete p (gfs s)\<rparr>"

section \<open>\<open>std::fs\<close>\<close>

text \<open>Each call returns \<open>None\<close>, or the text of the error.\<close>

definition attempt :: "'e env_scheme \<Rightarrow> ('z host_scheme, string option) io \<Rightarrow> ('z host_scheme, string option) io" where
  "attempt E m = bindE (ask (fault_at E)) (\<lambda>f. case f of Some msg \<Rightarrow> returnE (Some msg) | None \<Rightarrow> m)"

definition io_result :: "string \<Rightarrow> string option \<Rightarrow> ('s, unit) io" where
  "io_result ctx r = (case r of None \<Rightarrow> returnE () | Some msg \<Rightarrow> throwE (Io ctx msg))"

definition create_dir :: "'e env_scheme \<Rightarrow> string list \<Rightarrow> ('z guest_fs_scheme, string option) io" where
  "create_dir E cs = attempt E (bindE (getE (klookup False cs)) (\<lambda>r. case r of
     Found _ \<Rightarrow> returnE (Some EEXIST)
   | Errno e \<Rightarrow> returnE (Some e)
   | Absent p \<Rightarrow> seqE (modifyE (put_node p GDir)) (returnE None)))"

definition is_dir :: "string list \<Rightarrow> 'z guest_fs_scheme \<Rightarrow> bool" where
  "is_dir cs s = (case klookup True cs s of Found p \<Rightarrow> gnode_at (gfs s) p = Some GDir | _ \<Rightarrow> False)"

text \<open>\<open>create_dir_all\<close> of the path \<open>cs\<close>, with the names of its parent in reverse.\<close>

definition create_or_dir :: "'e env_scheme \<Rightarrow> string list \<Rightarrow> ('z guest_fs_scheme, string option) io" where
  "create_or_dir E cs = bindE (create_dir E cs) (\<lambda>r. case r of
     None \<Rightarrow> returnE None
   | Some e \<Rightarrow> bindE (getE (is_dir cs)) (\<lambda>d. returnE (if d then None else Some e)))"

fun create_dir_all :: "'e env_scheme \<Rightarrow> string list \<Rightarrow> string list \<Rightarrow> ('z guest_fs_scheme, string option) io" where
  "create_dir_all E cs parent =
     bindE (create_dir E cs) (\<lambda>r. case r of
       None \<Rightarrow> returnE None
     | Some e \<Rightarrow>
         if e \<noteq> ENOENT then bindE (getE (is_dir cs)) (\<lambda>d. returnE (if d then None else Some e))
         else (case parent of
           [] \<Rightarrow> returnE (Some e)
         | n # ns \<Rightarrow> bindE (create_dir_all E (rev (n # ns)) ns) (\<lambda>r'. case r' of
             Some e' \<Rightarrow> returnE (Some e')
           | None \<Rightarrow> create_or_dir E cs)))"

declare create_dir_all.simps [simp del]

definition std_create_dir_all :: "'e env_scheme \<Rightarrow> string \<Rightarrow> ('z guest_fs_scheme, string option) io" where
  "std_create_dir_all E p = create_dir_all E (segments p) (rev (butlast (path_names p)))"

text \<open>\<open>File::create\<close> followed by \<open>write_all\<close>: the file is emptied or made, then written.\<close>

definition open_create :: "'e env_scheme \<Rightarrow> string list \<Rightarrow> ('z guest_fs_scheme, string + gpath) io" where
  "open_create E cs = bindE (ask (fault_at E)) (\<lambda>f. case f of
     Some msg \<Rightarrow> returnE (Inl msg)
   | None \<Rightarrow> bindE (getE (\<lambda>s. (klookup True cs s, gfs s))) (\<lambda>(r, fs). case r of
       Errno e \<Rightarrow> returnE (Inl e)
     | Absent p \<Rightarrow> seqE (modifyE (put_node p (GFile []))) (returnE (Inr p))
     | Found p \<Rightarrow> (case gnode_at fs p of
         Some (GFile _) \<Rightarrow> seqE (modifyE (put_node p (GFile []))) (returnE (Inr p))
       | _ \<Rightarrow> returnE (Inl EISDIR))))"

definition write_all :: "'e agent_env_scheme \<Rightarrow> gpath \<Rightarrow> u8 list \<Rightarrow> ('z guest_fs_scheme, string option) io" where
  "write_all E p data = bindE (ask (write_cut_at E)) (\<lambda>cut.
     bindE (ask (fault_at E)) (\<lambda>f. case f of
       Some msg \<Rightarrow> seqE (modifyE (put_node p (GFile (take cut data)))) (returnE (Some msg))
     | None \<Rightarrow> seqE (modifyE (put_node p (GFile data))) (returnE None)))"

section \<open>The operations (\<open>fs.rs\<close>)\<close>

definition WORKSPACE_ROOT :: string where "WORKSPACE_ROOT = ''/workspace''"

definition read_file :: "'e env_scheme \<Rightarrow> string \<Rightarrow> u64 \<Rightarrow> ('z guest_fs_scheme, read_file_result) io" where
  "read_file E path limit =
     bindE (liftE (validate_read_limit limit)) (\<lambda>n.
     bindE (liftE (resolve_workspace_path WORKSPACE_ROOT path)) (\<lambda>p.
     seqE (sys_io E ''opening workspace file'')
     (bindE (getE (\<lambda>s. (klookup True (kcomps p) s, gfs s))) (\<lambda>(r, fs). case r of
        Errno e \<Rightarrow> throwE (Io ''opening workspace file'' e)
      | Absent _ \<Rightarrow> throwE (Io ''opening workspace file'' ENOENT)
      | Found q \<Rightarrow>
          seqE (sys_io E ''reading workspace file'')
          (case gnode_at fs q of
             Some (GFile d) \<Rightarrow>
               (let data = take (unat n + 1) d; truncated = unat n < length data in
                returnE \<lparr>rfr_path = path, rfr_data = (if truncated then take (unat n) data else data), rfr_truncated = truncated\<rparr>)
           | _ \<Rightarrow> throwE (Io ''reading workspace file'' EISDIR))))))"

definition write_file :: "'e agent_env_scheme \<Rightarrow> string \<Rightarrow> u8 list \<Rightarrow> bool \<Rightarrow> ('z guest_fs_scheme, unit) io" where
  "write_file E path data create_parents =
     bindE (liftE (resolve_workspace_path WORKSPACE_ROOT path)) (\<lambda>p.
     seqE (if path_names p \<noteq> [] \<and> create_parents then
             bindE (create_dir_all E (butlast (path_names p)) (rev (butlast (butlast (path_names p)))))
               (io_result ''creating workspace parent directory'')
           else returnE ())
     (bindE (open_create E (kcomps p)) (\<lambda>r. case r of
        Inl e \<Rightarrow> throwE (Io ''creating workspace file'' e)
      | Inr q \<Rightarrow> bindE (write_all E q data) (io_result ''writing workspace file''))))"

definition make_dir :: "'e env_scheme \<Rightarrow> string \<Rightarrow> bool \<Rightarrow> ('z guest_fs_scheme, unit) io" where
  "make_dir E path recursive =
     bindE (liftE (resolve_workspace_path WORKSPACE_ROOT path)) (\<lambda>p.
     bindE (if recursive then std_create_dir_all E p else create_dir E (segments p))
       (io_result ''creating workspace directory''))"


text \<open>\<open>symlink_metadata\<close>: what a path names, links not followed.\<close>

definition symlink_metadata :: "'e env_scheme \<Rightarrow> string \<Rightarrow> string list \<Rightarrow> ('z guest_fs_scheme, gpath \<times> gnode) io" where
  "symlink_metadata E ctx cs =
     seqE (sys_io E ctx)
     (bindE (getE (\<lambda>s. (klookup False cs s, gfs s))) (\<lambda>(r, fs). case r of
        Errno e \<Rightarrow> throwE (Io ctx e)
      | Absent _ \<Rightarrow> throwE (Io ctx ENOENT)
      | Found p \<Rightarrow> (case gnode_at fs p of
          Some n \<Rightarrow> returnE (p, n)
        | None \<Rightarrow> throwE (Io ctx ENOENT))))"

text \<open>The root and the workspace are mount points.\<close>

definition mount_point :: "gpath \<Rightarrow> bool" where
  "mount_point p \<longleftrightarrow> p = [] \<or> p = [''workspace'']"

definition rmdir :: "string list \<Rightarrow> ('z guest_fs_scheme, string option) io" where
  "rmdir cs = bindE (getE (\<lambda>s. (klookup False cs s, gfs s))) (\<lambda>(r, fs).
     if cs \<noteq> [] \<and> last cs = ''.'' then returnE (Some EINVAL) else case r of
       Errno e \<Rightarrow> returnE (Some e)
     | Absent _ \<Rightarrow> returnE (Some ENOENT)
     | Found p \<Rightarrow>
         if gnode_at fs p \<noteq> Some GDir then returnE (Some ENOTDIR)
         else if mount_point p then returnE (Some EBUSY)
         else if children fs p \<noteq> [] then returnE (Some ENOTEMPTY)
         else seqE (modifyE (drop_node p)) (returnE None))"

definition remove_dir :: "'e env_scheme \<Rightarrow> string list \<Rightarrow> ('z guest_fs_scheme, string option) io" where
  "remove_dir E cs = attempt E (rmdir cs)"

definition remove_file :: "'e env_scheme \<Rightarrow> gpath \<Rightarrow> ('z guest_fs_scheme, string option) io" where
  "remove_file E p = attempt E (seqE (modifyE (drop_node p)) (returnE None))"

text \<open>
  \<open>remove_dir_all\<close> of the directory at \<open>p\<close>, named by \<open>cs\<close>: what is below it goes, links as links,
  then the directory itself. A failure on the way leaves some of it, with the directories on
  the way there.
\<close>

definition below :: "gpath \<Rightarrow> gpath \<Rightarrow> bool" where
  "below p q \<longleftrightarrow> length p < length q \<and> take (length p) q = p"

definition drop_below :: "gpath \<Rightarrow> (gpath \<Rightarrow> bool) \<Rightarrow> 'z guest_fs_scheme \<Rightarrow> 'z guest_fs_scheme" where
  "drop_below p keep s = s\<lparr>gfs := filter (\<lambda>(q, _). \<not> below p q \<or> list_ex (\<lambda>(r, _). keep r \<and> (r = q \<or> below q r)) (gfs s)) (gfs s)\<rparr>"

definition remove_dir_all :: "'e agent_env_scheme \<Rightarrow> gpath \<Rightarrow> string list \<Rightarrow> ('z guest_fs_scheme, string option) io" where
  "remove_dir_all E p cs =
     bindE (ask (keep_at E)) (\<lambda>keep.
     bindE (ask (fault_at E)) (\<lambda>f. case f of
       Some msg \<Rightarrow> seqE (modifyE (drop_below p keep)) (returnE (Some msg))
     | None \<Rightarrow> seqE (modifyE (drop_below p (\<lambda>_. False))) (remove_dir E cs)))"

definition remove_path :: "'e agent_env_scheme \<Rightarrow> string \<Rightarrow> bool \<Rightarrow> ('z guest_fs_scheme, unit) io" where
  "remove_path E path recursive =
     bindE (liftE (resolve_workspace_path WORKSPACE_ROOT path)) (\<lambda>p.
     bindE (symlink_metadata E ''reading workspace path metadata'' (kcomps p)) (\<lambda>(q, n).
     bindE (if n = GDir then (if recursive then remove_dir_all E q (segments p) else remove_dir E (segments p))
            else remove_file E q)
       (io_result ''removing workspace path'')))"

section \<open>Listings and snapshots\<close>

fun join_slash :: "string list \<Rightarrow> string" where
  "join_slash [] = []"
| "join_slash [w] = w"
| "join_slash (w # ws) = w @ ''/'' @ join_slash ws"

text \<open>A path below the workspace, by its names, relative to it.\<close>

definition relative_path :: "string list \<Rightarrow> string result" where
  "relative_path names = (case names of
     w # ws \<Rightarrow> if w = ''workspace'' then Inr (join_slash ws) else Inl (Backend ''workspace path escaped root'')
   | [] \<Rightarrow> Inl (Backend ''workspace path escaped root''))"

definition bytes_text :: "u8 list \<Rightarrow> string" where
  "bytes_text = map (\<lambda>b. char_of (unat b))"

definition digest_bytes :: "'e env_scheme \<Rightarrow> string \<Rightarrow> string" where
  "digest_bytes E d = hex_encode (sha256 E d)"

definition node_for_path :: "'e env_scheme \<Rightarrow> string list \<Rightarrow> ('z guest_fs_scheme, file_node) io" where
  "node_for_path E names =
     bindE (symlink_metadata E ''reading workspace path metadata'' names) (\<lambda>(q, n).
     bindE (case n of
         GDir \<Rightarrow> returnE (Directory, 0, None, None)
       | GLink t \<Rightarrow> seqE (sys_io E ''reading workspace symlink'') (returnE (Symlink, 0, Some (digest_bytes E t), Some t))
       | GFile d \<Rightarrow>
           seqE (sys_io E ''opening workspace file for hashing'')
           (seqE (sys_io E ''hashing workspace file'')
             (returnE (File, of_nat (length d), Some (digest_bytes E (bytes_text d)), None)))) (\<lambda>(kind, size, digest, target).
     bindE (liftE (relative_path names)) (\<lambda>p.
       returnE \<lparr>fnode_path = p, fnode_kind = kind, fnode_size = size, fnode_digest = digest, fnode_target = target\<rparr>)))"

definition read_dir :: "'e env_scheme \<Rightarrow> string list \<Rightarrow> ('z guest_fs_scheme, string list) io" where
  "read_dir E cs =
     seqE (sys_io E ''reading workspace directory'')
     (bindE (getE (\<lambda>s. (klookup True cs s, gfs s))) (\<lambda>(r, fs). case r of
        Errno e \<Rightarrow> throwE (Io ''reading workspace directory'' e)
      | Absent _ \<Rightarrow> throwE (Io ''reading workspace directory'' ENOENT)
      | Found p \<Rightarrow>
          if gnode_at fs p \<noteq> Some GDir then throwE (Io ''reading workspace directory'' ENOTDIR)
          else seqE (sys_io E ''iterating workspace directory'') (returnE (sort (children fs p)))))"

definition list_files :: "'e env_scheme \<Rightarrow> string \<Rightarrow> ('z guest_fs_scheme, file_node list) io" where
  "list_files E path =
     bindE (liftE (resolve_workspace_path WORKSPACE_ROOT path)) (\<lambda>p.
     bindE (read_dir E (kcomps p)) (\<lambda>names.
       mapE (\<lambda>name. node_for_path E (path_names p @ [name])) names))"

text \<open>
  \<open>walk_directory\<close> below the directory \<open>cur\<close>; the fuel bounds the depth, and running out of it is
  a panic, which \<open>snapshot_workspace\<close> does not meet.
\<close>

fun walk_directory :: "'e env_scheme \<Rightarrow> nat \<Rightarrow> gpath \<Rightarrow> ('z guest_fs_scheme, file_node list) io" where
  "walk_directory E 0 cur = panicE"
| "walk_directory E (Suc n) cur =
     bindE (if cur \<noteq> [''workspace''] then
              bindE (liftE (relative_path cur)) (\<lambda>p. returnE [\<lparr>fnode_path = p, fnode_kind = Directory, fnode_size = 0, fnode_digest = None, fnode_target = None\<rparr>])
            else returnE []) (\<lambda>here.
     bindE (read_dir E cur) (\<lambda>names.
     bindE (mapE (\<lambda>name.
         bindE (symlink_metadata E ''reading workspace entry metadata'' (cur @ [name])) (\<lambda>(q, k).
           if k = GDir then walk_directory E n (cur @ [name])
           else bindE (node_for_path E (cur @ [name])) (\<lambda>nd. returnE [nd]))) names) (\<lambda>lists.
       returnE (here @ concat lists))))"

definition max_depth :: "'z guest_fs_scheme \<Rightarrow> nat" where
  "max_depth s = fold max (map (\<lambda>(p, _). length p) (gfs s)) 1"

definition snapshot_workspace :: "'e env_scheme \<Rightarrow> ('z guest_fs_scheme, file_node list) io" where
  "snapshot_workspace E = bindE (getE max_depth) (\<lambda>n. walk_directory E n [''workspace''])"

definition sync_workspace :: "('z guest_fs_scheme, unit) io" where
  "sync_workspace = returnE ()"


section \<open>Writing and reading back\<close>

lemma gnode_at_put: "p \<noteq> [] \<Longrightarrow> gnode_at (AList.update p n fs) q = (if q = p then Some n else gnode_at fs q)"
  by (simp add: gnode_at_def update_conv')

lemma namei_Absent: "namei fs f l cur cs = Absent p \<Longrightarrow> p \<noteq> [] \<and> gnode_at fs p = None"
  by (induction fs f l cur cs rule: namei.induct) (auto split: if_splits option.splits gnode.splits)

lemma namei_put_absent: "namei fs f l cur cs = Absent p \<Longrightarrow> namei (AList.update p (GFile d) fs) f l cur cs = Found p"
proof (induction fs f l cur cs rule: namei.induct)
  case (2 fs f l cur c cs)
  from namei_Absent [OF 2(5)] have p: "p \<noteq> []" "gnode_at fs p = None" by auto
  show ?case using 2 p
    by (auto simp: gnode_at_put split: if_splits option.splits gnode.splits)
qed simp

lemma namei_put_file: "p \<noteq> [] \<Longrightarrow> gnode_at fs p = Some (GFile x) \<Longrightarrow> namei (AList.update p (GFile d) fs) f l cur cs = namei fs f l cur cs"
proof (induction fs f l cur cs rule: namei.induct)
  case (2 fs f l cur c cs)
  then show ?case by (auto simp: gnode_at_put split: if_splits option.splits gnode.splits)
qed simp

lemma namei_Found_file: "namei fs f l cur cs = Found p \<Longrightarrow> gnode_at fs p = Some (GFile x) \<Longrightarrow> p \<noteq> []"
  by (auto simp: gnode_at_def)

definition holds_file :: "string list \<Rightarrow> u8 list \<Rightarrow> 'z guest_fs_scheme \<Rightarrow> bool" where
  "holds_file cs d s \<longleftrightarrow> (\<exists>p. klookup True cs s = Found p \<and> gnode_at (gfs s) p = Some (GFile d))"

lemma klookup_calls [simp]: "klookup f cs (s\<lparr>calls := n\<rparr>) = klookup f cs s"
  by (simp add: klookup_def)

lemma wp_open_create:
  assumes "\<And>n p fs d. p \<noteq> [] \<Longrightarrow> fs = AList.update p (GFile []) (gfs s) \<Longrightarrow> klookup True cs (s\<lparr>gfs := fs\<rparr>) = Found p \<Longrightarrow> Q (Inr p) (s\<lparr>calls := n, gfs := fs\<rparr>)"
    and "\<And>n e. Q (Inl e) (s\<lparr>calls := n\<rparr>)"
  shows "wp (open_create E cs) Q R s"
proof -
  have abs: "klookup True cs (s\<lparr>gfs := AList.update p (GFile []) (gfs s)\<rparr>) = Found p \<and> p \<noteq> []" if "klookup True cs s = Absent p" for p
    using that namei_put_absent namei_Absent by (fastforce simp: klookup_def split: if_splits)
  have fnd: "klookup True cs (s\<lparr>gfs := AList.update p (GFile []) (gfs s)\<rparr>) = Found p \<and> p \<noteq> []"
    if "klookup True cs s = Found p" "gnode_at (gfs s) p = Some (GFile x)" for p x
  proof -
    have "p \<noteq> []" using that by (auto simp: gnode_at_def)
    with that show ?thesis by (auto simp: klookup_def namei_put_file split: if_splits)
  qed
  show ?thesis unfolding open_create_def
    using abs fnd assms by (auto simp: wp_simps put_node_def intro!: wp_askI split: option.split found.split gnode.split)
qed


lemma wp_write_file:
  assumes "\<And>t p. resolve_workspace_path WORKSPACE_ROOT path = Inr p \<Longrightarrow> holds_file (kcomps p) data t \<Longrightarrow> Q () t"
  shows "wp (write_file E path data parents) Q (\<lambda>_ _. True) (s :: 'z guest_fs_scheme)"
proof -
  have put: "holds_file cs data (t\<lparr>gfs := AList.update p (GFile data) (gfs t)\<rparr>)"
    if "klookup True cs t = Found p" "gnode_at (gfs t) p = Some (GFile x)" "p \<noteq> []" for cs p x and t :: "'z guest_fs_scheme"
    using that by (auto simp: holds_file_def klookup_def namei_put_file gnode_at_put split: if_splits)
  have wr: "wp (write_all E p data) (\<lambda>r t. r = None \<longrightarrow> holds_file cs data t) (\<lambda>_ _. True) t"
    if "klookup True cs t = Found p" "gnode_at (gfs t) p = Some (GFile x)" "p \<noteq> []" for cs p x and t :: "'z guest_fs_scheme"
    using put [of cs "t\<lparr>calls := n\<rparr>" p x for n] that unfolding write_all_def
    by (auto simp: wp_simps put_node_def intro!: wp_askI split: option.split)
  have stored: "wp (bindE (open_create E cs) (\<lambda>r. case r of Inl e \<Rightarrow> throwE (Io a e)
      | Inr q \<Rightarrow> bindE (write_all E q data) (io_result b))) (\<lambda>_ t. holds_file cs data t) (\<lambda>_ _. True) t"
    for cs a b and t :: "'z guest_fs_scheme"
    unfolding wp_bindE
    by (rule wp_open_create)
      (auto simp: wp_simps gnode_at_put io_result_def klookup_def intro!: wp_mono [OF wr [of cs]] split: option.splits if_splits)
  show ?thesis
  proof (cases "resolve_workspace_path WORKSPACE_ROOT path")
    case (Inr p)
    then show ?thesis
      unfolding write_file_def wp_bindE [of "liftE r" for r] wp_liftE
      by (auto intro!: wp_after(2) wp_mono [OF stored] assms)
  qed (simp add: write_file_def wp_simps)
qed

lemma holds_file_gfs: "gfs t = gfs v \<Longrightarrow> holds_file cs d t = holds_file cs d v"
  by (simp add: holds_file_def klookup_def)

lemma wp_read_held:
  assumes "resolve_workspace_path WORKSPACE_ROOT path = Inr p" "holds_file (kcomps p) data t" "limit \<le> MAX_READ_FILE_BYTES"
  shows "wp (read_file E path limit)
     (\<lambda>r t'. r = \<lparr>rfr_path = path, rfr_data = take (unat limit) data, rfr_truncated = (unat limit < length data)\<rparr> \<and> gfs t' = gfs t)
     (\<lambda>x t'. \<exists>ctx n msg. fault_at E n = Some msg \<and> x = Fail (Io ctx msg)) t"
  using assms unfolding read_file_def holds_file_def
  by (auto simp: wp_simps wp_exact validate_read_limit_def Let_def min_def split: option.split)

text \<open>
  What is written to a guest file is what is read back. After a write returned, a read of the
  same path within the read limit returns the first bytes of the data, all of them if they
  fit, and says truthfully whether it cut something off; only the operating system can make
  it fail. This holds through symbolic links and for newly made files and directories.
\<close>

lemma guest_write_read:
  assumes "write_file E path data parents s = (Inr (), t)" "limit \<le> MAX_READ_FILE_BYTES"
  shows "wp (read_file E' path limit)
     (\<lambda>r t'. r = \<lparr>rfr_path = path, rfr_data = take (unat limit) data, rfr_truncated = (unat limit < length data)\<rparr> \<and> gfs t' = gfs t)
     (\<lambda>x t'. \<exists>ctx n msg. fault_at E' n = Some msg \<and> x = Fail (Io ctx msg)) t"
proof -
  have "wp (write_file E path data parents) (\<lambda>_ t. \<exists>p. resolve_workspace_path WORKSPACE_ROOT path = Inr p \<and> holds_file (kcomps p) data t) (\<lambda>_ _. True) s"
    by (rule wp_write_file) blast
  from wp_runD [OF this assms(1)] show ?thesis using wp_read_held assms(2) by blast
qed

end
