(* ===== verification/Guest_Stats.thy ===== *)
theory Guest_Stats
  imports Protocols Config Guest_Fs
begin

text \<open>
  The resource usage a guest reports (\<open>guest-agent/src/guest_agent/stats.rs\<close>): two samples of the
  processor counters, the memory table, the file system of the workspace and the number of
  processes, as the text of the files of \<open>/proc\<close> gives them. The arithmetic is that of the
  machine integers of the code in a release build, where a sum of counters wraps around.
\<close>

section \<open>The files of \<open>/proc\<close>\<close>

text \<open>
  What the kernel answers at a call: the text of the two files, the names in \<open>/proc\<close>, and the
  block count, available blocks and block size of the workspace; \<open>parallelism\<close> is
  \<open>available_parallelism\<close>, none when it fails.
\<close>

record statvfs =
  f_blocks :: u64
  f_bavail :: u64
  f_frsize :: u64

record stats_env = agent_env +
  proc_stat_at :: "nat \<Rightarrow> string"
  meminfo_at :: "nat \<Rightarrow> string"
  proc_names_at :: "nat \<Rightarrow> string list"
  statvfs_at :: "nat \<Rightarrow> statvfs"
  parallelism :: "nat option"

text \<open>\<open>str::lines\<close>: a last empty line does not count, a carriage return before the newline is dropped.\<close>

definition drop_cr :: "string \<Rightarrow> string" where
  "drop_cr l = (case strip_suffix l [CHR 0x0D] of Some m \<Rightarrow> m | None \<Rightarrow> l)"

definition text_lines :: "string \<Rightarrow> string list" where
  "text_lines s = (let ls = split_on (CHR 0x0A) s in
     map drop_cr (butlast ls) @ (if last ls = [] then [] else [last ls]))"

section \<open>Processor time\<close>

record cpu_sample =
  busy :: u64
  total :: u64

definition cpu_value :: "string \<Rightarrow> u64 result" where
  "cpu_value v = (case parse_u64_str v of
     Some n \<Rightarrow> Inr n
   | None \<Rightarrow> Inl (Protocol (''invalid cpu stat value `'' @ v @ ''`: '' @ parse_int_error (2 ^ 64) v)))"

fun collect_values :: "string list \<Rightarrow> u64 list result" where
  "collect_values [] = Inr []"
| "collect_values (v # vs) = (case cpu_value v of Inl e \<Rightarrow> Inl e
     | Inr n \<Rightarrow> (case collect_values vs of Inl e \<Rightarrow> Inl e | Inr ns \<Rightarrow> Inr (n # ns)))"

definition cpu_sample_of :: "string \<Rightarrow> cpu_sample result" where
  "cpu_sample_of stat = (case text_lines stat of
     [] \<Rightarrow> Inl (Protocol ''missing aggregate cpu line in /proc/stat'')
   | line # _ \<Rightarrow> (case split_whitespace line of
       [] \<Rightarrow> Inl (Protocol ''unexpected aggregate cpu format in /proc/stat'')
     | f # vs \<Rightarrow>
         if f \<noteq> ''cpu'' then Inl (Protocol ''unexpected aggregate cpu format in /proc/stat'')
         else (case collect_values (take 8 vs) of
             Inl e \<Rightarrow> Inl e
           | Inr values \<Rightarrow>
               if length values < 8 then Inl (Protocol ''expected at least 8 aggregate cpu counters in /proc/stat'')
               else (let idle = saturating_add (values ! 3) (values ! 4); t = sum_list values in
                 Inr \<lparr>busy = saturating_sub t idle, total = t\<rparr>))))"

definition read_cpu_sample :: "'e stats_env_scheme \<Rightarrow> ('z host_scheme, cpu_sample) io" where
  "read_cpu_sample E =
     seqE (sys_io E ''reading /proc/stat'')
     (bindE (ask (proc_stat_at E)) (\<lambda>stat. liftE (cpu_sample_of stat)))"

text \<open>The arithmetic is done in \<open>u128\<close> and cut to \<open>u32\<close> at the end.\<close>

definition cpu_millicores_used :: "cpu_sample \<Rightarrow> cpu_sample \<Rightarrow> u32 \<Rightarrow> u32" where
  "cpu_millicores_used first second cpu_count =
     (let busy_delta = ucast (saturating_sub (busy second) (busy first)) :: 128 word;
          total_delta = ucast (saturating_sub (total second) (total first)) :: 128 word in
      if total_delta = 0 then 0
      else (let millicores = saturating_add (saturating_mul (saturating_mul busy_delta (ucast cpu_count)) 1000) (total_delta div 2)
              div total_delta in
        ucast (min millicores (saturating_mul (ucast cpu_count) 1000))))"

section \<open>Memory, files and processes\<close>

definition parse_meminfo_kib :: "string \<Rightarrow> string \<Rightarrow> u64 result" where
  "parse_meminfo_kib raw label = (case strip_suffix (trim raw) '' kB'' of
     None \<Rightarrow> Inl (Protocol (label @ '' is missing kB suffix''))
   | Some v \<Rightarrow> (case parse_u64_str (trim v) of
       Some n \<Rightarrow> Inr n
     | None \<Rightarrow> Inl (Protocol (''invalid '' @ label @ '' value `'' @ v @ ''`: '' @ parse_int_error (2 ^ 64) (trim v)))))"

fun meminfo_loop :: "string list \<Rightarrow> u64 option \<Rightarrow> u64 option \<Rightarrow> (u64 option \<times> u64 option) result" where
  "meminfo_loop [] tot avail = Inr (tot, avail)"
| "meminfo_loop (line # ls) tot avail =
     (case strip_prefix line ''MemTotal:'' of
        Some v \<Rightarrow> (case parse_meminfo_kib v ''MemTotal'' of Inl e \<Rightarrow> Inl e | Inr n \<Rightarrow> meminfo_loop ls (Some n) avail)
      | None \<Rightarrow> (case strip_prefix line ''MemAvailable:'' of
          Some v \<Rightarrow> (case parse_meminfo_kib v ''MemAvailable'' of Inl e \<Rightarrow> Inl e | Inr n \<Rightarrow> meminfo_loop ls tot (Some n))
        | None \<Rightarrow> meminfo_loop ls tot avail))"

definition memory_used_mib :: "string \<Rightarrow> u64 result" where
  "memory_used_mib meminfo = (case meminfo_loop (text_lines meminfo) None None of
     Inl e \<Rightarrow> Inl e
   | Inr (None, _) \<Rightarrow> Inl (Protocol ''MemTotal missing from /proc/meminfo'')
   | Inr (Some tot, None) \<Rightarrow> Inl (Protocol ''MemAvailable missing from /proc/meminfo'')
   | Inr (Some tot, Some avail) \<Rightarrow> Inr (saturating_sub tot avail div 1024))"

definition read_memory_used_mib :: "'e stats_env_scheme \<Rightarrow> ('z host_scheme, u64) io" where
  "read_memory_used_mib E =
     seqE (sys_io E ''reading /proc/meminfo'') (bindE (ask (meminfo_at E)) (\<lambda>m. liftE (memory_used_mib m)))"

fun count_processes :: "string list \<Rightarrow> u32 \<Rightarrow> u32" where
  "count_processes [] n = n"
| "count_processes (name # names) n =
     count_processes names (if list_all is_ascii_digit name then saturating_add n 1 else n)"

definition read_process_count :: "'e stats_env_scheme \<Rightarrow> ('z host_scheme, u32) io" where
  "read_process_count E =
     seqE (sys_io E ''reading /proc'')
     (bindE (ask (proc_names_at E)) (\<lambda>names.
      seqE (sys_io E ''iterating /proc'') (returnE (count_processes names 0))))"

definition fs_used_mib :: "statvfs \<Rightarrow> u64" where
  "fs_used_mib v = (let total_bytes = saturating_mul (ucast (f_blocks v) :: 128 word) (ucast (f_frsize v));
      avail_bytes = saturating_mul (ucast (f_bavail v)) (ucast (f_frsize v)) in
    ucast (saturating_sub total_bytes avail_bytes div (1024 * 1024)))"

definition read_fs_used_mib :: "'e stats_env_scheme \<Rightarrow> ('z host_scheme, u64) io" where
  "read_fs_used_mib E =
     seqE (sys_io E ''reading workspace filesystem stats'') (bindE (ask (statvfs_at E)) (\<lambda>v. returnE (fs_used_mib v)))"

section \<open>The report\<close>

definition cpu_count :: "'e stats_env_scheme \<Rightarrow> u32" where
  "cpu_count E = max (case parallelism E of Some n \<Rightarrow> of_nat n | None \<Rightarrow> 1) 1"

definition collect_runtime_stats :: "'e stats_env_scheme \<Rightarrow> ('z host_scheme, guest_runtime_stats) io" where
  "collect_runtime_stats E =
     bindE (read_cpu_sample E) (\<lambda>first.
     bindE (read_cpu_sample E) (\<lambda>second.
     bindE (read_memory_used_mib E) (\<lambda>mem.
     bindE (read_fs_used_mib E) (\<lambda>fsu.
     bindE (read_process_count E) (\<lambda>procs.
       returnE \<lparr>grs_cpu_millicores = cpu_millicores_used first second (cpu_count E), grs_memory_used_mib = mem,
         grs_fs_used_mib = fsu, grs_process_count = procs\<rparr>)))))"

text \<open>\<open>runtime_stats\<close> runs it in a blocking task, which does not panic.\<close>

definition runtime_stats :: "'e stats_env_scheme \<Rightarrow> ('z host_scheme, guest_runtime_stats) io" where
  "runtime_stats E = collect_runtime_stats E"

section \<open>The processor usage is a rounded share of the time\<close>

text \<open>
  The processor usage of the report is the busy share of the time between the two samples, in
  thousandths of a processor, rounded to the nearest, for all processors together and never
  more than all of them; counters that ran backwards count as no time. No product or sum on
  the way overflows and the result is not cut, as long as a thousand times the number of
  processors fits 32 bits.
\<close>

theorem cpu_millicores_rounded:
  assumes "unat n * 1000 < 2 ^ 32"
  shows "unat (cpu_millicores_used first second n) =
    (let B = unat (busy second) - unat (busy first); T = unat (total second) - unat (total first) in
     if T = 0 then 0 else min ((B * (unat n * 1000) + T div 2) div T) (unat n * 1000))"
proof -
  define b where "b = (ucast (saturating_sub (busy second) (busy first)) :: 128 word)"
  define t where "t = (ucast (saturating_sub (total second) (total first)) :: 128 word)"
  have b: "unat b = unat (busy second) - unat (busy first)" and t: "unat t = unat (total second) - unat (total first)"
    by (simp_all add: b_def t_def unat_widen unat_saturating_sub)
  have bb: "unat b < 2 ^ 64" and tb: "unat t < 2 ^ 64"
    using unsigned_less [of "busy second", where 'a = nat] unsigned_less [of "total second", where 'a = nat] by (auto simp: b t)
  have n: "unat (ucast n :: 128 word) = unat n" by (simp add: unat_widen)
  have p: "unat b * (unat n * 1000) < 2 ^ 96" using mult_strict_mono [OF bb assms] by simp
  have "unat b * unat n \<le> unat b * (unat n * 1000)" by simp
  with p have m: "unat (saturating_mul (saturating_mul b (ucast n)) 1000) = unat b * (unat n * 1000)"
    by (simp add: unat_saturating_mul n)
  have "unat (saturating_add (saturating_mul (saturating_mul b (ucast n)) 1000) (t div 2)) = unat b * (unat n * 1000) + unat t div 2"
    using p tb by (subst unat_saturating_add) (simp_all add: m unat_div)
  moreover have "unat (saturating_mul (ucast n) 1000 :: 128 word) = unat n * 1000"
    using assms by (simp add: unat_saturating_mul n)
  ultimately have "unat (ucast (min (saturating_add (saturating_mul (saturating_mul b (ucast n)) 1000) (t div 2) div t)
      (saturating_mul (ucast n) 1000)) :: u32) = min ((unat b * (unat n * 1000) + unat t div 2) div unat t) (unat n * 1000)"
    using assms by (simp add: unsigned_ucast_eq take_bit_nat_eq_self min_def word_le_nat_alt unat_div)
  then show ?thesis
    by (auto simp: cpu_millicores_used_def Let_def b t simp flip: b_def t_def)
qed

text \<open>Half of the time busy on two processors: one and a half thousand of two, as in the code's own test.\<close>

theorem cpu_millicores_rounded_witness:
  "unat (2 :: u32) * 1000 < 2 ^ 32 \<and>
   unat (cpu_millicores_used \<lparr>busy = 100, total = 200\<rparr> \<lparr>busy = 250, total = 400\<rparr> 2) = 1500"
  using cpu_millicores_rounded [of 2 "\<lparr>busy = 100, total = 200\<rparr>" "\<lparr>busy = 250, total = 400\<rparr>"] by simp

end
