(* ===== verification/Guest_Rpc.thy ===== *)
theory Guest_Rpc
  imports Protocols Config "HOL-Library.AList" "HOL-Library.Multiset"
begin

text \<open>
  The host end of the guest connection (\<open>shared/src/guest_rpc.rs\<close>, \<open>src/guest_rpc/client\<close>):
  requests are numbered, a map holds the channel of each caller that waits for its answer,
  two more maps hold the event channels of running commands and shells, and one reader task
  routes every line of the guest to them. A caller and the reader interleave between the
  atomic updates of these maps; the steps below are those updates. JSON and base64 belong
  to third-party crates and are parameters.
\<close>

section \<open>Messages (\<open>shared/src/guest_rpc.rs\<close>)\<close>

record guest_rpc_ready =
  ready_protocol_version :: u32
  ready_capabilities :: "string list"

record read_file_payload =
  rfp_path :: string
  rfp_data :: string
  rfp_truncated :: bool

datatype guest_request =
    GPing (rid: string)
  | GExec (rid: string) uuid exec_request
  | GOpenShell (rid: string) uuid shell_request
  | GShellInput (rid: string) uuid string
  | GResizeShell (rid: string) uuid u16 u16
  | GCloseShell (rid: string) uuid
  | GSnapshotWorkspace (rid: string)
  | GSyncWorkspace (rid: string)
  | GRuntimeStats (rid: string)
  | GListFiles (rid: string) string
  | GReadFile (rid: string) string u64
  | GWriteFile (rid: string) string string bool
  | GMakeDir (rid: string) string bool
  | GRemovePath (rid: string) string bool
  | GShutdown (rid: string)

datatype guest_event =
    EvReady guest_rpc_ready
  | EvPong string
  | EvAck string
  | EvShellOpened string uuid
  | EvExecOutput uuid output_stream string
  | EvExecExit uuid exec_exit
  | EvShellOutput uuid string
  | EvShellExit uuid int
  | EvWorkspaceSnapshot string "file_node list"
  | EvRuntimeStats string guest_runtime_stats
  | EvFilesListed string "file_node list"
  | EvFileRead string read_file_payload
  | EvError "string option" "uuid option" string

text \<open>\<open>STANDARD.encode\<close>, \<open>STANDARD.decode\<close> (with the text of its error) and \<open>serde_json::from_str\<close>.\<close>

record wire =
  b64_encode :: "u8 list \<Rightarrow> string"
  b64_decode :: "string \<Rightarrow> string + u8 list"
  event_of_json :: "string \<Rightarrow> string + guest_event"

definition b64_inverse :: "'w wire_scheme \<Rightarrow> bool" where
  "b64_inverse W \<longleftrightarrow> (\<forall>d. b64_decode W (b64_encode W d) = Inr d)"

definition decode_bytes :: "'w wire_scheme \<Rightarrow> string \<Rightarrow> u8 list result" where
  "decode_bytes W v = (case b64_decode W v of
     Inl e \<Rightarrow> Inl (Protocol (''invalid base64 payload: '' @ e)) | Inr d \<Rightarrow> Inr d)"

definition encode_bytes :: "'w wire_scheme \<Rightarrow> u8 list \<Rightarrow> string" where
  "encode_bytes W d = b64_encode W d"

definition from_read_file :: "'w wire_scheme \<Rightarrow> read_file_result \<Rightarrow> read_file_payload" where
  "from_read_file W f = \<lparr>rfp_path = rfr_path f, rfp_data = b64_encode W (rfr_data f), rfp_truncated = rfr_truncated f\<rparr>"

definition into_read_file :: "'w wire_scheme \<Rightarrow> read_file_payload \<Rightarrow> read_file_result result" where
  "into_read_file W p = (case b64_decode W (rfp_data p) of
     Inl e \<Rightarrow> Inl (Protocol (''invalid base64 payload: '' @ e))
   | Inr d \<Rightarrow> Inr \<lparr>rfr_path = rfp_path p, rfr_data = d, rfr_truncated = rfp_truncated p\<rparr>)"

section \<open>The client (\<open>src/guest_rpc/client/mod.rs\<close>)\<close>

datatype guest_response =
    RAck | RPong | RShellOpened uuid | RSnapshot workspace_snapshot
  | RRuntimeStats guest_runtime_stats | RFiles "file_node list" | RFile read_file_result

text \<open>
  A waiting caller is numbered by the order of the calls (\<open>rpc_issued\<close> of them so far).
  \<open>rpc_responses\<close> maps a request id to the caller whose channel is registered under it,
  \<open>rpc_answers\<close> is what was sent on those channels, in order. \<open>rpc_exec_open\<close> and
  \<open>rpc_shell_open\<close> are the keys of the stream maps, and the logs hold what was sent on each
  stream. \<open>rpc_reading\<close>: the reader task has not ended.
\<close>

record rpc_client =
  rpc_next_request :: u64
  rpc_ready :: "guest_rpc_ready option"
  rpc_issued :: nat
  rpc_responses :: "(string \<times> nat) list"
  rpc_answers :: "(nat \<times> guest_response result) list"
  rpc_exec_open :: "uuid set"
  rpc_exec_log :: "uuid \<Rightarrow> execution_event list"
  rpc_shell_open :: "uuid set"
  rpc_shell_log :: "uuid \<Rightarrow> shell_event list"
  rpc_sent :: "guest_request list"
  rpc_reading :: bool

definition from_stream :: rpc_client where
  "from_stream = \<lparr>rpc_next_request = 1, rpc_ready = None, rpc_issued = 0, rpc_responses = [],
     rpc_answers = [], rpc_exec_open = {}, rpc_exec_log = (\<lambda>_. []), rpc_shell_open = {}, rpc_shell_log = (\<lambda>_. []),
     rpc_sent = [], rpc_reading = True\<rparr>"

text \<open>\<open>fetch_add(1).to_string()\<close>: the counter wraps at its width.\<close>

definition next_request_id :: "(rpc_client, string) io" where
  "next_request_id = bindE (getE rpc_next_request) (\<lambda>n.
     seqE (modifyE (\<lambda>s. s\<lparr>rpc_next_request := n + 1\<rparr>)) (returnE (decimal (unat n))))"

text \<open>\<open>send_request\<close>: encoding, writing the line and its newline may fail; \<open>f\<close> is how it does.\<close>

datatype send_fault = EncodeFails string | WriteFails string | NewlineFails string

fun send_error :: "send_fault \<Rightarrow> sandbox_error" where
  "send_error (EncodeFails e) = Json ''encoding guest request'' e"
| "send_error (WriteFails e) = Io ''writing guest request'' e"
| "send_error (NewlineFails e) = Io ''terminating guest request'' e"

definition send_request :: "send_fault option \<Rightarrow> guest_request \<Rightarrow> (rpc_client, unit) io" where
  "send_request f r = (case f of
     Some x \<Rightarrow> throwE (send_error x)
   | None \<Rightarrow> modifyE (\<lambda>s. s\<lparr>rpc_sent := rpc_sent s @ [r]\<rparr>))"

text \<open>
  The first part of \<open>request_response\<close>, up to the point where the caller awaits its channel:
  the channel is registered before the request is sent, and removed again when sending
  fails. The number of the waiting caller is returned; a failure answers it at once.
\<close>

definition begin_request :: "send_fault option \<Rightarrow> guest_request \<Rightarrow> (rpc_client, nat) io" where
  "begin_request f r =
     bindE (getE rpc_issued) (\<lambda>k.
     seqE (modifyE (\<lambda>s. s\<lparr>rpc_issued := Suc k, rpc_responses := AList.update (rid r) k (rpc_responses s)\<rparr>))
     (bindE (tryE (send_request f r)) (\<lambda>sent. case sent of
        Inl error \<Rightarrow> seqE (modifyE (\<lambda>s. s\<lparr>rpc_responses := AList.delete (rid r) (rpc_responses s),
                                       rpc_answers := rpc_answers s @ [(k, Inl error)]\<rparr>)) (throwE error)
      | Inr _ \<Rightarrow> returnE k)))"

text \<open>\<open>exec\<close>: the stream is registered under a fresh id; a command is not acknowledged.\<close>

definition rpc_exec :: "send_fault option \<Rightarrow> uuid \<Rightarrow> exec_request \<Rightarrow> (rpc_client, uuid) io" where
  "rpc_exec f exec_id request =
     seqE (modifyE (\<lambda>s. s\<lparr>rpc_exec_open := insert exec_id (rpc_exec_open s)\<rparr>))
     (bindE next_request_id (\<lambda>i.
      bindE (tryE (send_request f (GExec i exec_id request))) (\<lambda>sent. case sent of
        Inl error \<Rightarrow> seqE (modifyE (\<lambda>s. s\<lparr>rpc_exec_open := rpc_exec_open s - {exec_id}\<rparr>)) (throwE error)
      | Inr _ \<Rightarrow> returnE exec_id)))"

text \<open>\<open>open_shell\<close> up to the await, and what it does with the answer.\<close>

definition begin_shell :: "send_fault option \<Rightarrow> uuid \<Rightarrow> shell_request \<Rightarrow> (rpc_client, nat) io" where
  "begin_shell f session_id request =
     bindE next_request_id (\<lambda>i.
     seqE (modifyE (\<lambda>s. s\<lparr>rpc_shell_open := insert session_id (rpc_shell_open s)\<rparr>))
     (bindE (tryE (begin_request f (GOpenShell i session_id request))) (\<lambda>r. case r of
        Inl error \<Rightarrow> seqE (modifyE (\<lambda>s. s\<lparr>rpc_shell_open := rpc_shell_open s - {session_id}\<rparr>)) (throwE error)
      | Inr k \<Rightarrow> returnE k)))"

definition finish_shell :: "uuid \<Rightarrow> guest_response result \<Rightarrow> (rpc_client, uuid) io" where
  "finish_shell session_id answer =
     (if answer = Inr (RShellOpened session_id) then returnE session_id
      else seqE (modifyE (\<lambda>s. s\<lparr>rpc_shell_open := rpc_shell_open s - {session_id}\<rparr>))
        (case answer of
           Inl error \<Rightarrow> throwE error
         | Inr _ \<Rightarrow> throwE (Protocol ''guest returned an unexpected shell response'')))"

text \<open>What each caller makes of the answer it was sent.\<close>

fun expect_ack :: "guest_response \<Rightarrow> unit result" where
  "expect_ack RAck = Inr ()"
| "expect_ack RPong = Inr ()"
| "expect_ack _ = Inl (Protocol ''unexpected guest acknowledgement'')"

fun expect_snapshot :: "guest_response \<Rightarrow> workspace_snapshot result" where
  "expect_snapshot (RSnapshot s) = Inr s"
| "expect_snapshot _ = Inl (Protocol ''unexpected workspace snapshot response'')"

fun expect_stats :: "guest_response \<Rightarrow> guest_runtime_stats result" where
  "expect_stats (RRuntimeStats s) = Inr s"
| "expect_stats _ = Inl (Protocol ''unexpected runtime stats response'')"

fun expect_files :: "guest_response \<Rightarrow> file_node list result" where
  "expect_files (RFiles es) = Inr es"
| "expect_files _ = Inl (Protocol ''unexpected file list response'')"

fun expect_file :: "guest_response \<Rightarrow> read_file_result result" where
  "expect_file (RFile f) = Inr f"
| "expect_file _ = Inl (Protocol ''unexpected file read response'')"

text \<open>The calls that wait for an answer, and the request each sends.\<close>

datatype guest_call =
    CPing | CSnapshot | CSync | CStats | CList string | CRead string u64
  | CWrite string "u8 list" bool | CMakeDir string bool | CRemove string bool | CShutdown
  | CInput uuid "u8 list" | CResize uuid u16 u16 | CClose uuid

fun request_of :: "'w wire_scheme \<Rightarrow> string \<Rightarrow> guest_call \<Rightarrow> guest_request" where
  "request_of W i CPing = GPing i"
| "request_of W i CSnapshot = GSnapshotWorkspace i"
| "request_of W i CSync = GSyncWorkspace i"
| "request_of W i CStats = GRuntimeStats i"
| "request_of W i (CList path) = GListFiles i path"
| "request_of W i (CRead path limit) = GReadFile i path limit"
| "request_of W i (CWrite path data create_parents) = GWriteFile i path (encode_bytes W data) create_parents"
| "request_of W i (CMakeDir path recursive) = GMakeDir i path recursive"
| "request_of W i (CRemove path recursive) = GRemovePath i path recursive"
| "request_of W i CShutdown = GShutdown i"
| "request_of W i (CInput u data) = GShellInput i u (encode_bytes W data)"
| "request_of W i (CResize u cols rows) = GResizeShell i u cols rows"
| "request_of W i (CClose u) = GCloseShell i u"

text \<open>\<open>read_file\<close> checks its limit before it draws a number.\<close>

fun call_check :: "guest_call \<Rightarrow> unit result" where
  "call_check (CRead path limit) = map_sum id (\<lambda>_. ()) (validate_read_limit limit)"
| "call_check _ = Inr ()"

definition begin_call :: "'w wire_scheme \<Rightarrow> send_fault option \<Rightarrow> guest_call \<Rightarrow> (rpc_client, nat) io" where
  "begin_call W f c = seqE (liftE (call_check c))
     (bindE next_request_id (\<lambda>i. begin_request f (request_of W i c)))"

section \<open>The reader (\<open>src/guest_rpc/client/reader.rs\<close>)\<close>

text \<open>\<open>str::as_bytes\<close>; the characters of a model string are its bytes.\<close>

definition as_bytes :: "string \<Rightarrow> u8 list" where
  "as_bytes s = map of_char s"

definition resolve_response :: "string \<Rightarrow> guest_response result \<Rightarrow> (rpc_client, unit) io" where
  "resolve_response i answer = bindE (getE (\<lambda>s. map_of (rpc_responses s) i)) (\<lambda>w. case w of
     None \<Rightarrow> returnE ()
   | Some k \<Rightarrow> modifyE (\<lambda>s. s\<lparr>rpc_responses := AList.delete i (rpc_responses s),
                            rpc_answers := rpc_answers s @ [(k, answer)]\<rparr>))"

definition log_exec :: "uuid \<Rightarrow> execution_event list \<Rightarrow> (rpc_client, unit) io" where
  "log_exec u es = modifyE (\<lambda>s. s\<lparr>rpc_exec_log := (rpc_exec_log s)(u := rpc_exec_log s u @ es)\<rparr>)"

definition log_shell :: "uuid \<Rightarrow> shell_event list \<Rightarrow> (rpc_client, unit) io" where
  "log_shell u es = modifyE (\<lambda>s. s\<lparr>rpc_shell_log := (rpc_shell_log s)(u := rpc_shell_log s u @ es)\<rparr>)"

definition close_exec :: "uuid \<Rightarrow> (rpc_client, unit) io" where
  "close_exec u = modifyE (\<lambda>s. s\<lparr>rpc_exec_open := rpc_exec_open s - {u}\<rparr>)"

definition close_shell :: "uuid \<Rightarrow> (rpc_client, unit) io" where
  "close_shell u = modifyE (\<lambda>s. s\<lparr>rpc_shell_open := rpc_shell_open s - {u}\<rparr>)"

definition route_exec_output :: "'w wire_scheme \<Rightarrow> uuid \<Rightarrow> output_stream \<Rightarrow> string \<Rightarrow> (rpc_client, unit) io" where
  "route_exec_output W u stream data = bindE (getE (\<lambda>s. u \<in> rpc_exec_open s)) (\<lambda>known.
     if known then bindE (liftE (decode_bytes W data)) (\<lambda>d. log_exec u [Output stream d]) else returnE ())"

definition route_exec_exit :: "uuid \<Rightarrow> execution_event list \<Rightarrow> (rpc_client, bool) io" where
  "route_exec_exit u es = bindE (getE (\<lambda>s. u \<in> rpc_exec_open s)) (\<lambda>known.
     if known then seqE (close_exec u) (seqE (log_exec u es) (returnE True)) else returnE False)"

definition route_shell_exit :: "uuid \<Rightarrow> shell_event list \<Rightarrow> (rpc_client, bool) io" where
  "route_shell_exit u es = bindE (getE (\<lambda>s. u \<in> rpc_shell_open s)) (\<lambda>known.
     if known then seqE (close_shell u) (seqE (log_shell u es) (returnE True)) else returnE False)"

definition route_error :: "string option \<Rightarrow> uuid option \<Rightarrow> string \<Rightarrow> (rpc_client, unit) io" where
  "route_error request_id target message =
     seqE (case request_id of None \<Rightarrow> returnE () | Some i \<Rightarrow> resolve_response i (Inl (Protocol message)))
     (bindE (case target of
        None \<Rightarrow> returnE False
      | Some u \<Rightarrow>
          bindE (route_exec_exit u [Output Stderr (as_bytes message), Exit Killed]) (\<lambda>a.
          bindE (route_shell_exit u [ShellOutput (as_bytes message), ShellExit (-1)]) (\<lambda>b.
            returnE (a \<or> b)))) (\<lambda>delivered.
      if request_id \<noteq> None \<or> delivered then returnE () else throwE (Protocol message)))"

fun handle_event :: "'w wire_scheme \<Rightarrow> guest_event \<Rightarrow> (rpc_client, unit) io" where
  "handle_event W (EvReady r) = modifyE (\<lambda>s. s\<lparr>rpc_ready := Some r\<rparr>)"
| "handle_event W (EvPong i) = resolve_response i (Inr RPong)"
| "handle_event W (EvAck i) = resolve_response i (Inr RAck)"
| "handle_event W (EvShellOpened i u) = resolve_response i (Inr (RShellOpened u))"
| "handle_event W (EvExecOutput u stream data) = route_exec_output W u stream data"
| "handle_event W (EvExecExit u status) = seqE (route_exec_exit u [Exit status]) (returnE ())"
| "handle_event W (EvShellOutput u data) = bindE (getE (\<lambda>s. u \<in> rpc_shell_open s)) (\<lambda>known.
     if known then bindE (liftE (decode_bytes W data)) (\<lambda>d. log_shell u [ShellOutput d]) else returnE ())"
| "handle_event W (EvShellExit u code) = seqE (route_shell_exit u [ShellExit code]) (returnE ())"
| "handle_event W (EvWorkspaceSnapshot i entries) = resolve_response i (Inr (RSnapshot (from_entries entries)))"
| "handle_event W (EvRuntimeStats i stats) = resolve_response i (Inr (RRuntimeStats stats))"
| "handle_event W (EvFilesListed i entries) = resolve_response i (Inr (RFiles entries))"
| "handle_event W (EvFileRead i file) = resolve_response i (map_sum id RFile (into_read_file W file))"
| "handle_event W (EvError i target message) = route_error i target message"

definition handle_line :: "'w wire_scheme \<Rightarrow> string \<Rightarrow> (rpc_client, unit) io" where
  "handle_line W line = (case event_of_json W line of
     Inl e \<Rightarrow> throwE (Json ''decoding guest event'' e) | Inr ev \<Rightarrow> handle_event W ev)"

text \<open>
  \<open>fail_all\<close> empties the three maps and sends on every channel. The order of the hash map's
  values is not specified; every channel is its own, so only the order within one matters.
\<close>

definition fail_all :: "string \<Rightarrow> (rpc_client, unit) io" where
  "fail_all message = modifyE (\<lambda>s. s\<lparr>
     rpc_responses := [],
     rpc_answers := rpc_answers s @ map (\<lambda>(_, k). (k, Inl (Protocol message))) (rpc_responses s),
     rpc_exec_open := {},
     rpc_exec_log := (\<lambda>u. if u \<in> rpc_exec_open s
       then rpc_exec_log s u @ [Output Stderr (as_bytes message), Exit Killed] else rpc_exec_log s u),
     rpc_shell_open := {},
     rpc_shell_log := (\<lambda>u. if u \<in> rpc_shell_open s
       then rpc_shell_log s u @ [ShellOutput (as_bytes message), ShellExit (-1)] else rpc_shell_log s u)\<rparr>)"

text \<open>One turn of the loop of \<open>read_loop\<close>; \<open>break\<close> ends the task.\<close>

datatype incoming = Line string | ConnectionClosed | ReadFailed string

definition stop_reading :: "string \<Rightarrow> (rpc_client, unit) io" where
  "stop_reading message = seqE (fail_all message) (modifyE (\<lambda>s. s\<lparr>rpc_reading := False\<rparr>))"

fun read_turn :: "'w wire_scheme \<Rightarrow> incoming \<Rightarrow> (rpc_client, unit) io" where
  "read_turn W (Line line) =
     (if line = [] then returnE ()
      else bindE (tryE (handle_line W line)) (\<lambda>r. case r of
        Inl error \<Rightarrow> stop_reading (display error)
      | Inr _ \<Rightarrow> returnE ()))"
| "read_turn W ConnectionClosed = stop_reading ''guest RPC connection closed''"
| "read_turn W (ReadFailed error) = stop_reading (''guest RPC read error: '' @ error)"

definition read_step :: "'w wire_scheme \<Rightarrow> incoming \<Rightarrow> (rpc_client, unit) io" where
  "read_step W x = bindE (getE rpc_reading) (\<lambda>r. if r then read_turn W x else returnE ())"

section \<open>Interleavings\<close>

text \<open>
  Every atomic step of a caller or of the reader. A caller of \<open>open_shell\<close> that was answered
  goes on with \<open>FinishShell\<close>.
\<close>

datatype rpc_move =
    Call "send_fault option" guest_call
  | StartExec "send_fault option" uuid exec_request
  | StartShell "send_fault option" uuid shell_request
  | FinishShell uuid "guest_response result"
  | Receive incoming

fun rpc_step :: "'w wire_scheme \<Rightarrow> rpc_move \<Rightarrow> rpc_client \<Rightarrow> rpc_client" where
  "rpc_step W (Call f c) s = snd (begin_call W f c s)"
| "rpc_step W (StartExec f u r) s = snd (rpc_exec f u r s)"
| "rpc_step W (StartShell f u r) s = snd (begin_shell f u r s)"
| "rpc_step W (FinishShell u a) s = snd (finish_shell u a s)"
| "rpc_step W (Receive x) s = snd (read_step W x s)"

definition rpc_run :: "'w wire_scheme \<Rightarrow> rpc_move list \<Rightarrow> rpc_client" where
  "rpc_run W steps = run_steps (rpc_step W) steps from_stream"

section \<open>Every call is accounted for\<close>

lemma mset_snd_delete:
  "distinct (map fst r) \<Longrightarrow> map_of r i = Some k \<Longrightarrow>
    add_mset k (mset (map snd (AList.delete i r))) = mset (map snd r)"
  by (induction r) (auto split: if_splits)

lemma set_alist_deleteD: "x \<in> set (AList.delete i r) \<Longrightarrow> x \<in> set r"
  by (simp add: AList.delete_eq)

definition acct :: "nat \<Rightarrow> rpc_client \<Rightarrow> bool" where
  "acct d s \<longleftrightarrow> rpc_next_request s = of_nat (Suc d) \<and> distinct (map fst (rpc_responses s)) \<and>
     (\<forall>ik \<in> set (rpc_responses s). \<exists>j \<le> d. fst ik = decimal j) \<and>
     mset (map fst (rpc_answers s)) + mset (map snd (rpc_responses s)) = mset [0..<rpc_issued s]"

lemma acct_resolve [preserves_intro]: "preserves (acct d) (resolve_response i a)"
proof (rule preserves_wpI)
  fix s assume a: "acct d s"
  show "wp (resolve_response i a) (\<lambda>_. acct d) (\<lambda>_. acct d) s"
  proof (cases "map_of (rpc_responses s) i")
    case None
    then show ?thesis using a by (simp add: resolve_response_def wp_simps)
  next
    case (Some k)
    have "distinct (map fst (rpc_responses s))" using a by (simp add: acct_def)
    note m = mset_snd_delete [OF this Some]
    have "mset (map fst (rpc_answers s @ [(k, a)])) + mset (map snd (AList.delete i (rpc_responses s))) =
        mset [0..<rpc_issued s]"
      using a unfolding acct_def m [symmetric] by simp
    with a Some show ?thesis
      unfolding resolve_response_def acct_def
      by (auto simp: wp_simps distinct_delete simp del: mset_map dest: set_alist_deleteD)
  qed
qed

lemma acct_streams [simp]:
  "acct d (s\<lparr>rpc_exec_open := x\<rparr>) = acct d s" "acct d (s\<lparr>rpc_exec_log := l\<rparr>) = acct d s"
  "acct d (s\<lparr>rpc_shell_open := x\<rparr>) = acct d s" "acct d (s\<lparr>rpc_shell_log := m\<rparr>) = acct d s"
  "acct d (s\<lparr>rpc_ready := r\<rparr>) = acct d s" "acct d (s\<lparr>rpc_sent := q\<rparr>) = acct d s" "acct d (s\<lparr>rpc_reading := b\<rparr>) = acct d s"
  by (simp_all add: acct_def)

lemma acct_handle_event [preserves_intro]: "preserves (acct d) (handle_event W ev)"
  by (cases ev) (auto simp: route_error_def route_exec_output_def route_exec_exit_def route_shell_exit_def
      log_exec_def log_shell_def close_exec_def close_shell_def intro!: preserves_intro)

lemma acct_fail_all [preserves_intro]: "preserves (acct d) (fail_all m)"
  unfolding fail_all_def by (rule preserves_intro) (auto simp: acct_def o_def split_beta)

lemma acct_read_step: "preserves (acct d) (read_step W x)"
  unfolding read_step_def
  by (cases x) (auto simp: handle_line_def stop_reading_def intro!: preserves_intro)


lemma alist_update_fresh: "i \<notin> fst ` set r \<Longrightarrow> AList.update i k r = r @ [(i, k)]"
  by (induction r) auto

lemma wp_next_request_id:
  assumes "acct d s" "Suc d < 2 ^ 64"
    and "\<And>s'. acct (Suc d) s' \<Longrightarrow> decimal (Suc d) \<notin> fst ` set (rpc_responses s') \<Longrightarrow> Q (decimal (Suc d)) s'"
  shows "wp next_request_id Q R s"
proof -
  have n: "unat (of_nat (Suc d) :: u64) = Suc d"
    using assms(2) by (simp add: unat_of_nat take_bit_nat_eq_self del: of_nat_Suc)
  have "acct (Suc d) (s\<lparr>rpc_next_request := of_nat (Suc d) + 1\<rparr>)"
    using assms(1) unfolding acct_def by (simp, meson le_SucI)
  moreover have "decimal (Suc d) \<notin> fst ` set (rpc_responses s)"
    using assms(1) by (force simp: acct_def dest: decimal_inj)
  ultimately show ?thesis
    using assms(1,3) n by (auto simp: next_request_id_def wp_simps acct_def simp del: of_nat_Suc)
qed

lemma wp_begin_request:
  assumes "acct d s" "rid r = decimal j" "j \<le> d" "decimal j \<notin> fst ` set (rpc_responses s)"
    and "\<And>a t. acct d t \<Longrightarrow> Q a t" "\<And>x t. acct d t \<Longrightarrow> R x t"
  shows "wp (begin_request f r) Q R s"
proof -
  let ?k = "rpc_issued s"
  let ?s = "s\<lparr>rpc_issued := Suc ?k, rpc_responses := rpc_responses s @ [(decimal j, ?k)]\<rparr>"
  have ok: "acct d ?s" using assms(1-4) by (auto simp: acct_def)
  have del: "AList.delete (decimal j) (rpc_responses s @ [(decimal j, ?k)]) = rpc_responses s"
    using assms(4) by (force simp: AList.delete_eq filter_id_conv)
  show ?thesis
    using assms ok del
    by (auto simp: begin_request_def send_request_def wp_simps alist_update_fresh split: option.split)
       (auto simp: acct_def intro!: assms(5,6))
qed


lemma rid_request_of [simp]: "rid (request_of W i c) = i"
  by (cases c) simp_all

definition acct_upto :: "nat \<Rightarrow> rpc_client \<Rightarrow> bool" where
  "acct_upto n s \<longleftrightarrow> (\<exists>d \<le> n. acct d s)"

lemma acct_upto_stepI: "acct d s \<Longrightarrow> d \<le> n \<Longrightarrow> preserves (acct d) m \<Longrightarrow> acct_upto (Suc n) (snd (m s))"
  unfolding acct_upto_def by (meson le_SucI preservesD)

lemma acct_upto_wpI:
  "acct d s \<Longrightarrow> d \<le> n \<Longrightarrow> (\<And>d. acct d s \<Longrightarrow> d \<le> n \<Longrightarrow> wp m (\<lambda>_. acct_upto (Suc n)) (\<lambda>_. acct_upto (Suc n)) s) \<Longrightarrow>
    acct_upto (Suc n) (snd (m s))"
  by (simp add: wp_snd)

lemma acct_step:
  assumes "acct_upto n s" "Suc n < 2 ^ 64"
  shows "acct_upto (Suc n) (rpc_step W x s)"
proof -
  from assms(1) obtain d where d: "acct d s" "d \<le> n" by (auto simp: acct_upto_def)
  then have d64: "Suc d < 2 ^ 64" using assms(2) by simp
  have in_upto: "acct d t \<Longrightarrow> acct_upto (Suc n) t" "acct (Suc d) t \<Longrightarrow> acct_upto (Suc n) t" for t
    using d(2) unfolding acct_upto_def by (meson le_SucI Suc_le_mono)+
  note rules = wp_next_request_id [OF d(1) d64] wp_begin_request [where d = "Suc d" and j = "Suc d"]
  show ?thesis
  proof (cases x)
    case (Call f c)
    have "wp (begin_call W f c) (\<lambda>_. acct_upto (Suc n)) (\<lambda>_. acct_upto (Suc n)) s"
      using d by (auto simp: begin_call_def wp_simps in_upto split: sum.split intro!: rules)
    then show ?thesis using Call by (simp add: wp_snd)
  next
    case (StartExec f u r)
    have o: "acct d (s\<lparr>rpc_exec_open := insert u (rpc_exec_open s)\<rparr>)" using d by simp
    have "wp (rpc_exec f u r) (\<lambda>_. acct_upto (Suc n)) (\<lambda>_. acct_upto (Suc n)) s"
      by (auto simp: rpc_exec_def send_request_def wp_simps in_upto split: option.split intro!: wp_next_request_id [OF o d64])
    then show ?thesis using StartExec by (simp add: wp_snd)
  next
    case (StartShell f u r)
    have "wp (begin_shell f u r) (\<lambda>_. acct_upto (Suc n)) (\<lambda>_. acct_upto (Suc n)) s"
      by (auto simp: begin_shell_def wp_simps in_upto intro!: rules split: failure.split) force
    then show ?thesis using StartShell by (simp add: wp_snd)
  next
    case (FinishShell u a)
    have "preserves (acct d) (finish_shell u a)"
      unfolding finish_shell_def by (auto intro!: preserves_intro)
    then show ?thesis using FinishShell acct_upto_stepI [OF d] by simp
  next
    case (Receive y)
    then show ?thesis using acct_upto_stepI [OF d acct_read_step] by simp
  qed
qed

lemma acct_run: "length steps < 2 ^ 64 \<Longrightarrow> acct_upto (length steps) (rpc_run W steps)"
proof (induction steps rule: rev_induct)
  case Nil
  show ?case by (auto simp: rpc_run_def from_stream_def acct_upto_def acct_def)
next
  case (snoc x steps)
  then have "acct_upto (length steps) (rpc_run W steps)" by simp
  then show ?case using acct_step [of "length steps" "rpc_run W steps" W x] snoc.prems by (simp add: rpc_run_def run_steps_append)
qed




text \<open>A wire format for the witnesses: one line per event kind, payloads of decimal digits.\<close>

definition demo_wire :: wire where
  "demo_wire = \<lparr>b64_encode = map (\<lambda>b. char_of (unat b)), b64_decode = (\<lambda>v. Inr (map (\<lambda>c. of_nat (of_char c)) v)),
     event_of_json = (\<lambda>l. if l = ''ack'' then Inr (EvAck ''1'')
       else if l = ''exit'' then Inr (EvExecExit 7 Success) else Inl ''expected value'')\<rparr>"


lemma read_step_stops:
  "rpc_reading s \<Longrightarrow> rpc_responses (rpc_step W (Receive ConnectionClosed) s) = [] \<and>
    rpc_exec_open (rpc_step W (Receive ConnectionClosed) s) = {} \<and> rpc_shell_open (rpc_step W (Receive ConnectionClosed) s) = {} \<and>
    rpc_issued (rpc_step W (Receive ConnectionClosed) s) = rpc_issued s"
  by (simp add: read_step_def stop_reading_def fail_all_def io_defs)



section \<open>After the end of the reader\<close>

definition unanswered :: "nat \<Rightarrow> rpc_client \<Rightarrow> bool" where
  "unanswered k s \<longleftrightarrow> \<not> rpc_reading s \<and> k < rpc_issued s \<and> k \<notin> fst ` set (rpc_answers s)"

lemma unanswered_step: "unanswered k s \<Longrightarrow> unanswered k (rpc_step W x s)"
  by (cases x) (auto simp: unanswered_def begin_call_def begin_request_def rpc_exec_def begin_shell_def finish_shell_def
      next_request_id_def send_request_def read_step_def io_defs split: option.splits sum.splits failure.splits)


section \<open>Streams end once\<close>

fun has_exit :: "execution_event list \<Rightarrow> bool" where
  "has_exit [] = False"
| "has_exit (Output _ _ # es) = has_exit es"
| "has_exit (Exit _ # es) = True"

lemma has_exit_append [simp]: "has_exit (es @ fs) \<longleftrightarrow> has_exit es \<or> has_exit fs"
  by (induction es rule: has_exit.induct) simp_all

lemma forwarded_append: "\<not> has_exit es \<Longrightarrow> forwarded (es @ fs) = es @ forwarded fs"
  by (induction es rule: has_exit.induct) simp_all

fun exec_ids :: "rpc_move list \<Rightarrow> uuid list" where
  "exec_ids [] = []"
| "exec_ids (StartExec f u r # xs) = u # exec_ids xs"
| "exec_ids (_ # xs) = exec_ids xs"

lemma exec_ids_append [simp]: "exec_ids (xs @ ys) = exec_ids xs @ exec_ids ys"
  by (induction xs rule: exec_ids.induct) simp_all

text \<open>
  \<open>stream_ok\<close>: an open stream has no exit yet, a stream that carried anything and is closed
  ended with its only exit, and nothing was sent on a stream that was not opened.
\<close>

definition stream_ok :: "bool \<Rightarrow> bool \<Rightarrow> execution_event list \<Rightarrow> bool" where
  "stream_ok started opn es \<longleftrightarrow>
     (if opn then started \<and> \<not> has_exit es else es = [] \<or> has_exit es) \<and> forwarded es = es \<and> (started \<or> es = [])"

definition streams_ok :: "uuid set \<Rightarrow> rpc_client \<Rightarrow> bool" where
  "streams_ok U s \<longleftrightarrow> (\<forall>u. u \<in> rpc_exec_open s \<longrightarrow> stream_ok (u \<in> U) True (rpc_exec_log s u)) \<and>
     (\<forall>u. u \<notin> rpc_exec_open s \<longrightarrow> stream_ok (u \<in> U) False (rpc_exec_log s u))"

lemma stream_ok_rules:
  "stream_ok b True es \<Longrightarrow> stream_ok b True (es @ [Output x d])"
  "stream_ok b True es \<Longrightarrow> stream_ok b False (es @ [Exit st])"
  "stream_ok b True es \<Longrightarrow> stream_ok b False (es @ [Output x d, Exit st])"
  by (auto simp: stream_ok_def forwarded_append split: if_splits)

lemma streams_ok_frame [simp]:
  "streams_ok U (s\<lparr>rpc_shell_open := x\<rparr>) = streams_ok U s" "streams_ok U (s\<lparr>rpc_shell_log := m\<rparr>) = streams_ok U s"
  "streams_ok U (s\<lparr>rpc_ready := r\<rparr>) = streams_ok U s" "streams_ok U (s\<lparr>rpc_sent := q\<rparr>) = streams_ok U s"
  "streams_ok U (s\<lparr>rpc_responses := p\<rparr>) = streams_ok U s" "streams_ok U (s\<lparr>rpc_answers := a\<rparr>) = streams_ok U s"
  "streams_ok U (s\<lparr>rpc_issued := k\<rparr>) = streams_ok U s" "streams_ok U (s\<lparr>rpc_next_request := n\<rparr>) = streams_ok U s"
  "streams_ok U (s\<lparr>rpc_reading := b\<rparr>) = streams_ok U s"
  by (simp_all add: streams_ok_def)

lemma streams_ok_output [preserves_intro]: "preserves (streams_ok U) (route_exec_output W u stream data)"
  by (rule preserves_wpI)
     (auto simp: route_exec_output_def log_exec_def streams_ok_def wp_simps split: sum.split intro!: stream_ok_rules)

lemma streams_ok_exit [preserves_intro]:
  "preserves (streams_ok U) (route_exec_exit u [Exit st])"
  "preserves (streams_ok U) (route_exec_exit u [Output x d, Exit st])"
  by (rule preserves_wpI, auto simp: route_exec_exit_def close_exec_def log_exec_def streams_ok_def wp_simps
      intro!: stream_ok_rules)+

lemma streams_ok_resolve [preserves_intro]: "preserves (streams_ok U) (resolve_response i a)"
  unfolding resolve_response_def by (auto intro!: preserves_intro)

lemma streams_ok_handle_event [preserves_intro]: "preserves (streams_ok U) (handle_event W ev)"
  by (cases ev) (auto simp: route_error_def route_shell_exit_def log_shell_def close_shell_def intro!: preserves_intro)

lemma streams_ok_fail_all [preserves_intro]: "preserves (streams_ok U) (fail_all m)"
  unfolding fail_all_def by (rule preserves_intro) (auto simp: streams_ok_def intro!: stream_ok_rules)

lemma streams_ok_read_step: "preserves (streams_ok U) (read_step W x)"
  unfolding read_step_def
  by (cases x) (auto simp: handle_line_def stop_reading_def intro!: preserves_intro)

lemma streams_ok_step:
  assumes "streams_ok U s" "set (exec_ids [x]) \<inter> U = {}"
  shows "streams_ok (U \<union> set (exec_ids [x])) (rpc_step W x s)"
proof (cases x)
  case (Call f c)
  have "preserves (streams_ok U) (begin_call W f c)"
    unfolding begin_call_def begin_request_def next_request_id_def send_request_def by (auto intro!: preserves_intro)
  then show ?thesis using assms Call by (simp add: preservesD)
next
  case (StartExec f u r)
  then have "u \<notin> U" using assms by simp
  then have "u \<notin> rpc_exec_open s" "rpc_exec_log s u = []"
    using assms(1) by (auto simp: streams_ok_def stream_ok_def split: if_splits)
  then show ?thesis using assms(1) StartExec
    by (auto simp: streams_ok_def stream_ok_def rpc_exec_def next_request_id_def send_request_def io_defs
        split: option.splits if_splits)
next
  case (StartShell f u r)
  have "preserves (streams_ok U) (begin_shell f u r)"
    unfolding begin_shell_def begin_request_def next_request_id_def send_request_def by (auto intro!: preserves_intro)
  then show ?thesis using assms StartShell by (simp add: preservesD)
next
  case (FinishShell u a)
  have "preserves (streams_ok U) (finish_shell u a)"
    unfolding finish_shell_def by (auto intro!: preserves_intro)
  then show ?thesis using assms FinishShell by (simp add: preservesD)
next
  case (Receive y)
  then show ?thesis using assms preservesD [OF streams_ok_read_step] by simp
qed

lemma streams_ok_run: "distinct (exec_ids steps) \<Longrightarrow> streams_ok (set (exec_ids steps)) (rpc_run W steps)"
proof (induction steps rule: rev_induct)
  case Nil
  show ?case by (simp add: rpc_run_def from_stream_def streams_ok_def stream_ok_def)
next
  case (snoc x steps)
  then show ?case using streams_ok_step [of "set (exec_ids steps)" "rpc_run W steps" x W]
    by (auto simp: rpc_run_def run_steps_append Int_commute)
qed

text \<open>
  Provided command ids do not repeat, the stream of a command carries its exit as the last
  event and only once: a stream that is still open has had no exit, and one that was closed
  after it carried anything ended with an exit.
\<close>

theorem exec_streams_end_once:
  assumes "distinct (exec_ids steps)"
  shows "forwarded (rpc_exec_log (rpc_run W steps) u) = rpc_exec_log (rpc_run W steps) u \<and>
     (u \<in> rpc_exec_open (rpc_run W steps) \<longrightarrow> \<not> has_exit (rpc_exec_log (rpc_run W steps) u)) \<and>
     (u \<notin> rpc_exec_open (rpc_run W steps) \<longrightarrow>
        rpc_exec_log (rpc_run W steps) u = [] \<or> has_exit (rpc_exec_log (rpc_run W steps) u))"
  using streams_ok_run [OF assms, of W] by (auto simp: streams_ok_def stream_ok_def split: if_splits)

theorem exec_streams_end_once_witness:
  "forwarded (rpc_exec_log (rpc_run demo_wire [StartExec None 7 (exec_shell ''ls''), Receive (Line ''exit'')]) 7) =
     rpc_exec_log (rpc_run demo_wire [StartExec None 7 (exec_shell ''ls''), Receive (Line ''exit'')]) 7"
  using exec_streams_end_once [of "[StartExec None 7 (exec_shell ''ls''), Receive (Line ''exit'')]" demo_wire 7] by simp

lemma unanswered_run: "unanswered k s \<Longrightarrow> unanswered k (run_steps (rpc_step W) xs s)"
  by (rule run_steps_invariant) (simp_all add: unanswered_step)

text \<open>
  Once the reader task has ended, a call whose request can still be written is never
  answered: whatever happens later, its caller waits forever. (The end of the reader fails
  the callers that wait at that moment only, and the calls have no time limit of their own.)
\<close>

theorem call_after_reader_end_hangs:
  assumes "length steps < 2 ^ 64" "\<not> rpc_reading (rpc_run W steps)" "call_check c = Inr ()"
  shows "fst (begin_call W None c (rpc_run W steps)) = Inr (rpc_issued (rpc_run W steps)) \<and>
     rpc_issued (rpc_run W steps) \<notin> fst ` set (rpc_answers (rpc_run W (steps @ Call None c # later)))"
proof -
  let ?s = "rpc_run W steps"
  have "set (map fst (rpc_answers ?s)) \<subseteq> {0..<rpc_issued ?s}"
    using acct_run [OF assms(1), of W] unfolding acct_upto_def acct_def
    by (metis atLeastLessThan_upt mset_subset_eq_add_left set_mset_mono set_mset_mset)
  then have "unanswered (rpc_issued ?s) (rpc_step W (Call None c) ?s)"
    using assms(2,3) by (auto simp: unanswered_def begin_call_def begin_request_def next_request_id_def send_request_def io_defs)
  then show ?thesis using unanswered_run [of "rpc_issued ?s" _ W later] assms(3)
    by (auto simp: rpc_run_def run_steps_append unanswered_def begin_call_def begin_request_def next_request_id_def
        send_request_def io_defs)
qed
theorem call_after_reader_end_hangs_witness:
  "0 \<notin> fst ` set (rpc_answers (rpc_run demo_wire ([Receive (Line ''garbage'')] @ Call None CPing # [Receive (Line ''ack'')])))"
proof -
  have "\<not> rpc_reading (rpc_run demo_wire [Receive (Line ''garbage'')])"
    and "rpc_issued (rpc_run demo_wire [Receive (Line ''garbage'')]) = 0" by code_simp+
  then show ?thesis
    using call_after_reader_end_hangs [of "[Receive (Line ''garbage'')]" demo_wire CPing "[Receive (Line ''ack'')]"] by simp
qed

text \<open>
  A file that is read in the guest arrives unchanged: decoding the payload made from it
  gives the file back, whenever base64 decoding inverts encoding.
\<close>

theorem read_file_payload_roundtrip:
  assumes "b64_inverse W"
  shows "into_read_file W (from_read_file W f) = Inr f \<and> decode_bytes W (encode_bytes W d) = Inr d"
  using assms by (cases f) (simp add: b64_inverse_def into_read_file_def from_read_file_def decode_bytes_def encode_bytes_def)

theorem read_file_payload_roundtrip_witness:
  "into_read_file demo_wire (from_read_file demo_wire \<lparr>rfr_path = ''a'', rfr_data = [104, 105], rfr_truncated = False\<rparr>) =
     Inr \<lparr>rfr_path = ''a'', rfr_data = [104, 105], rfr_truncated = False\<rparr>"
proof -
  have "unat b mod 256 = unat b" for b :: u8
    using unsigned_less [of b, where ?'a = nat] by simp
  then have "b64_inverse demo_wire" by (simp add: b64_inverse_def demo_wire_def map_idI)
  then show ?thesis by (rule read_file_payload_roundtrip [THEN conjunct1])
qed


end
