(* ===== verification/Auth.thy ===== *)
theory Auth
  imports Host_IO
begin

text \<open>
  The credential stores of the daemon (\<open>src/auth.rs\<close>): the admin registry and the BOX
  credential registry, each one JSON file rewritten as a whole under a lock. Both are
  instances of one contract, \<open>credential_store\<close>: a token is accepted exactly when the
  registry holds a live credential for it, and asking does not change which tokens are.
\<close>

section \<open>Records\<close>

record admin_record =
  adm_uuid :: uuid
  adm_token_hash :: string
  adm_active :: bool
  adm_created_at_ms :: u64
  adm_updated_at_ms :: u64

record admin_registry =
  adm_version :: u32
  admins :: "admin_record list"

record admin_credential =
  cred_admin_uuid :: uuid
  cred_admin_token :: string

record admin_credential_bundle =
  bundle_admin_uuid :: uuid
  bundle_admin_token :: string
  bundle_admin_endpoint :: string

record box_credential_record =
  bcr_box_id :: uuid
  bcr_token_hash :: string
  bcr_active :: bool
  bcr_created_at_ms :: u64
  bcr_updated_at_ms :: u64

record box_credential_registry =
  bcr_version :: u32
  bcr_boxes :: "box_credential_record list"

record box_credential_bundle =
  bundle_box_id :: uuid
  bundle_box_token :: string
  bundle_box_endpoint :: string

record auth_files = host +
  admin_file :: "admin_registry json_file option"
  box_credential_file :: "box_credential_registry json_file option"

section \<open>Tokens\<close>

definition generate_token :: "'e env_scheme \<Rightarrow> ('z host_scheme, string) io" where
  "generate_token E = bindE (new_v4 E) (\<lambda>a. bindE (new_v4 E) (\<lambda>b.
     returnE (uuid_simple E a @ uuid_simple E b)))"

definition hash_token :: "'e env_scheme \<Rightarrow> string \<Rightarrow> string" where
  "hash_token E token = hex_encode (sha256 E token)"

text \<open>\<open>for x in &mut xs { if p(x) { f(x); break; } }\<close>.\<close>

fun update_first :: "('a \<Rightarrow> bool) \<Rightarrow> ('a \<Rightarrow> 'a) \<Rightarrow> 'a list \<Rightarrow> 'a list" where
  "update_first p f [] = []"
| "update_first p f (x # xs) = (if p x then f x # xs else x # update_first p f xs)"

section \<open>\<open>AdminStore\<close>\<close>

definition admin_store_path :: "string \<Rightarrow> string" where
  "admin_store_path state_dir = path_join (path_join state_dir ''admins'') ''registry.json''"

definition admin_read_registry :: "'e env_scheme \<Rightarrow> ('z auth_files_scheme, admin_registry) io" where
  "admin_read_registry E =
     seqE (sys_io E ''checking admin registry'')
     (bindE (getE admin_file) (\<lambda>f. case f of
        None \<Rightarrow> returnE \<lparr>adm_version = 1, admins = []\<rparr>
      | Some j \<Rightarrow> seqE (sys_io E ''reading admin registry'')
          (decode_json ''decoding admin registry'' j)))"

definition admin_write_registry :: "'e env_scheme \<Rightarrow> string \<Rightarrow> admin_registry \<Rightarrow>
    ('z auth_files_scheme, unit) io" where
  "admin_write_registry E path registry =
     seqE (case path_parent path of None \<Rightarrow> returnE ()
           | Some p \<Rightarrow> ensure_private_dir E p ''creating admin registry directory'')
     (seqE (sys_json E ''encoding admin registry'')
       (write_private_file E path (path_parent path) (\<lambda>j. admin_file_update (\<lambda>_. Some j)) registry
         ''creating admin registry directory'' ''writing admin registry''))"

definition new_record :: "'e env_scheme \<Rightarrow> admin_credential \<Rightarrow> ('z host_scheme, admin_record) io" where
  "new_record E credential = bindE (now_ms E) (\<lambda>now. returnE
     \<lparr>adm_uuid = cred_admin_uuid credential,
      adm_token_hash = hash_token E (cred_admin_token credential),
      adm_active = True, adm_created_at_ms = now, adm_updated_at_ms = now\<rparr>)"

definition admin_bootstrap :: "'e env_scheme \<Rightarrow> string \<Rightarrow> admin_credential \<Rightarrow>
    ('z auth_files_scheme, bool) io" where
  "admin_bootstrap E path credential =
     bindE (admin_read_registry E) (\<lambda>registry.
       if list_ex adm_active (admins registry) then returnE False
       else bindE (new_record E credential) (\<lambda>r.
         seqE (admin_write_registry E path (registry\<lparr>admins := admins registry @ [r]\<rparr>))
           (returnE True)))"

definition admin_matches :: "'e env_scheme \<Rightarrow> uuid \<Rightarrow> string \<Rightarrow> admin_record \<Rightarrow> bool" where
  "admin_matches E u token r \<longleftrightarrow>
     adm_uuid r = u \<and> adm_active r \<and> adm_token_hash r = hash_token E token"

definition admin_authenticate :: "'e env_scheme \<Rightarrow> string \<Rightarrow> uuid \<Rightarrow> string \<Rightarrow>
    ('z auth_files_scheme, bool) io" where
  "admin_authenticate E path admin_uuid admin_token =
     bindE (admin_read_registry E) (\<lambda>registry.
       if list_ex (admin_matches E admin_uuid admin_token) (admins registry) then
         bindE (now_ms E) (\<lambda>now.
         seqE (admin_write_registry E path (registry\<lparr>admins :=
             update_first (admin_matches E admin_uuid admin_token)
               (\<lambda>r. r\<lparr>adm_updated_at_ms := now\<rparr>) (admins registry)\<rparr>))
           (returnE True))
       else returnE False)"

definition admin_add_admin :: "'e env_scheme \<Rightarrow> string \<Rightarrow> string \<Rightarrow>
    ('z auth_files_scheme, admin_credential_bundle) io" where
  "admin_add_admin E path endpoint =
     bindE (admin_read_registry E) (\<lambda>registry.
     bindE (new_v4 E) (\<lambda>u.
     bindE (generate_token E) (\<lambda>token.
     bindE (new_record E \<lparr>cred_admin_uuid = u, cred_admin_token = token\<rparr>) (\<lambda>r.
     seqE (admin_write_registry E path (registry\<lparr>admins := admins registry @ [r]\<rparr>))
       (returnE \<lparr>bundle_admin_uuid = u, bundle_admin_token = token,
                 bundle_admin_endpoint = endpoint\<rparr>)))))"

definition admin_remove_admin :: "'e env_scheme \<Rightarrow> string \<Rightarrow> uuid \<Rightarrow>
    ('z auth_files_scheme, unit) io" where
  "admin_remove_admin E path admin_uuid =
     bindE (admin_read_registry E) (\<lambda>registry.
       if length (filter adm_active (admins registry)) \<le> 1 then
         throwE (Conflict ''refusing to remove the last active admin'')
       else
         let p = (\<lambda>r. adm_uuid r = admin_uuid \<and> adm_active r) in
         if list_ex p (admins registry) then
           bindE (now_ms E) (\<lambda>now.
             admin_write_registry E path (registry\<lparr>admins := update_first p
               (\<lambda>r. r\<lparr>adm_active := False, adm_updated_at_ms := now\<rparr>) (admins registry)\<rparr>))
         else throwE (NotFound (''unknown active admin '' @ uuid_string E admin_uuid)))"

section \<open>\<open>BoxCredentialStore\<close>\<close>

definition box_credential_store_path :: "string \<Rightarrow> string" where
  "box_credential_store_path state_dir = path_join (path_join state_dir ''boxes'') ''credentials.json''"

definition box_read_registry :: "'e env_scheme \<Rightarrow> ('z auth_files_scheme, box_credential_registry) io" where
  "box_read_registry E =
     seqE (sys_io E ''checking box credential registry'')
     (bindE (getE box_credential_file) (\<lambda>f. case f of
        None \<Rightarrow> returnE \<lparr>bcr_version = 1, bcr_boxes = []\<rparr>
      | Some j \<Rightarrow> seqE (sys_io E ''reading box credential registry'')
          (decode_json ''decoding box credential registry'' j)))"

definition box_write_registry :: "'e env_scheme \<Rightarrow> string \<Rightarrow> box_credential_registry \<Rightarrow>
    ('z auth_files_scheme, unit) io" where
  "box_write_registry E path registry =
     seqE (case path_parent path of None \<Rightarrow> returnE ()
           | Some p \<Rightarrow> ensure_private_dir E p ''creating box credential registry directory'')
     (seqE (sys_json E ''encoding box credential registry'')
       (write_private_file E path (path_parent path)
         (\<lambda>j. box_credential_file_update (\<lambda>_. Some j)) registry
         ''creating box credential registry directory'' ''writing box credential registry''))"

definition issue_record :: "'e env_scheme \<Rightarrow> uuid \<Rightarrow> string \<Rightarrow> u64 \<Rightarrow>
    box_credential_record list \<Rightarrow> box_credential_record list" where
  "issue_record E box_id token now rs =
     (if list_ex (\<lambda>r. bcr_box_id r = box_id) rs then
        update_first (\<lambda>r. bcr_box_id r = box_id)
          (\<lambda>r. r\<lparr>bcr_token_hash := hash_token E token, bcr_active := True,
                 bcr_updated_at_ms := now\<rparr>) rs
      else rs @ [\<lparr>bcr_box_id = box_id, bcr_token_hash = hash_token E token, bcr_active = True,
                  bcr_created_at_ms = now, bcr_updated_at_ms = now\<rparr>])"

definition box_issue :: "'e env_scheme \<Rightarrow> string \<Rightarrow> string \<Rightarrow> uuid \<Rightarrow>
    ('z auth_files_scheme, box_credential_bundle) io" where
  "box_issue E path endpoint box_id =
     bindE (box_read_registry E) (\<lambda>registry.
     bindE (generate_token E) (\<lambda>token.
     bindE (now_ms E) (\<lambda>now.
     seqE (box_write_registry E path
            (registry\<lparr>bcr_boxes := issue_record E box_id token now (bcr_boxes registry)\<rparr>))
       (returnE \<lparr>bundle_box_id = box_id, bundle_box_token = token,
                 bundle_box_endpoint = endpoint\<rparr>))))"

definition box_matches :: "'e env_scheme \<Rightarrow> uuid \<Rightarrow> string \<Rightarrow> box_credential_record \<Rightarrow> bool" where
  "box_matches E b token r \<longleftrightarrow>
     bcr_box_id r = b \<and> bcr_active r \<and> bcr_token_hash r = hash_token E token"

definition box_authenticate :: "'e env_scheme \<Rightarrow> string \<Rightarrow> uuid \<Rightarrow> string \<Rightarrow>
    ('z auth_files_scheme, bool) io" where
  "box_authenticate E path box_id box_token =
     bindE (box_read_registry E) (\<lambda>registry.
       if list_ex (box_matches E box_id box_token) (bcr_boxes registry) then
         bindE (now_ms E) (\<lambda>now.
         seqE (box_write_registry E path (registry\<lparr>bcr_boxes :=
             update_first (box_matches E box_id box_token)
               (\<lambda>r. r\<lparr>bcr_updated_at_ms := now\<rparr>) (bcr_boxes registry)\<rparr>))
           (returnE True))
       else returnE False)"


section \<open>What the registries hold\<close>

text \<open>The readable content of a registry file; a missing file is the empty registry.\<close>

definition admin_records :: "'z auth_files_scheme \<Rightarrow> admin_record list option" where
  "admin_records s = (case admin_file s of
     None \<Rightarrow> Some [] | Some Torn \<Rightarrow> None | Some (Intact r) \<Rightarrow> Some (admins r))"

definition box_records :: "'z auth_files_scheme \<Rightarrow> box_credential_record list option" where
  "box_records s = (case box_credential_file s of
     None \<Rightarrow> Some [] | Some Torn \<Rightarrow> None | Some (Intact r) \<Rightarrow> Some (bcr_boxes r))"

text \<open>A credential is live when the registry is readable and holds an active match.\<close>

definition admin_live :: "'e env_scheme \<Rightarrow> 'z auth_files_scheme \<Rightarrow> uuid \<Rightarrow> string \<Rightarrow> bool" where
  "admin_live E s u token \<longleftrightarrow>
     (case admin_records s of None \<Rightarrow> False | Some rs \<Rightarrow> list_ex (admin_matches E u token) rs)"

definition box_live :: "'e env_scheme \<Rightarrow> 'z auth_files_scheme \<Rightarrow> uuid \<Rightarrow> string \<Rightarrow> bool" where
  "box_live E s b token \<longleftrightarrow>
     (case box_records s of None \<Rightarrow> False | Some rs \<Rightarrow> list_ex (box_matches E b token) rs)"

lemma admin_records_simps [simp]:
  "admin_records (s\<lparr>calls := n\<rparr>) = admin_records s"
  "admin_records (s\<lparr>calls := n, admin_file := Some (Intact reg)\<rparr>) = Some (admins reg)"
  "admin_records (s\<lparr>calls := n, admin_file := Some Torn\<rparr>) = None"
  by (simp_all add: admin_records_def)

lemma box_records_simps [simp]:
  "box_records (s\<lparr>calls := n\<rparr>) = box_records s"
  "box_records (s\<lparr>calls := n, box_credential_file := Some (Intact reg)\<rparr>) = Some (bcr_boxes reg)"
  "box_records (s\<lparr>calls := n, box_credential_file := Some Torn\<rparr>) = None"
  by (simp_all add: box_records_def)

subsection \<open>Reading and rewriting a registry\<close>

lemma wp_admin_read_registryI [wp_intro]:
  assumes "\<And>reg n. calls s \<le> n \<Longrightarrow> admin_records s = Some (admins reg) \<Longrightarrow> Q reg (s\<lparr>calls := n\<rparr>)"
    and "\<And>e n. calls s \<le> n \<Longrightarrow> R (Fail e) (s\<lparr>calls := n\<rparr>)"
  shows "wp (admin_read_registry E) Q R s"
  unfolding admin_read_registry_def
  by (auto simp: wp_simps assms admin_records_def split: option.split json_file.split intro!: wp_intro)

lemma wp_box_read_registryI [wp_intro]:
  assumes "\<And>reg n. calls s \<le> n \<Longrightarrow> box_records s = Some (bcr_boxes reg) \<Longrightarrow> Q reg (s\<lparr>calls := n\<rparr>)"
    and "\<And>e n. calls s \<le> n \<Longrightarrow> R (Fail e) (s\<lparr>calls := n\<rparr>)"
  shows "wp (box_read_registry E) Q R s"
  unfolding box_read_registry_def
  by (auto simp: wp_simps assms box_records_def split: option.split json_file.split intro!: wp_intro)

lemma wp_admin_write_registryI [wp_intro]:
  assumes "\<And>n. calls s \<le> n \<Longrightarrow> Q () (s\<lparr>calls := n, admin_file := Some (Intact reg)\<rparr>)"
    and "\<And>e n. calls s \<le> n \<Longrightarrow> R (Fail e) (s\<lparr>calls := n\<rparr>)"
    and "\<And>e n j. calls s \<le> n \<Longrightarrow> j \<in> {Torn, Intact reg} \<Longrightarrow> R (Fail e) (s\<lparr>calls := n, admin_file := Some j\<rparr>)"
  shows "wp (admin_write_registry E path reg) Q R s"
  unfolding admin_write_registry_def
  by (auto simp: wp_simps assms split: option.split intro!: wp_intro)

lemma wp_box_write_registryI [wp_intro]:
  assumes "\<And>n. calls s \<le> n \<Longrightarrow> Q () (s\<lparr>calls := n, box_credential_file := Some (Intact reg)\<rparr>)"
    and "\<And>e n. calls s \<le> n \<Longrightarrow> R (Fail e) (s\<lparr>calls := n\<rparr>)"
    and "\<And>e n j. calls s \<le> n \<Longrightarrow> j \<in> {Torn, Intact reg} \<Longrightarrow> R (Fail e) (s\<lparr>calls := n, box_credential_file := Some j\<rparr>)"
  shows "wp (box_write_registry E path reg) Q R s"
  unfolding box_write_registry_def
  by (auto simp: wp_simps assms split: option.split intro!: wp_intro)

lemma wp_generate_tokenI [wp_intro]:
  "(\<And>t n. calls s \<le> n \<Longrightarrow> Q t (s\<lparr>calls := n\<rparr>)) \<Longrightarrow> wp (generate_token E) Q R s"
  unfolding generate_token_def by (auto simp: wp_simps intro!: wp_intro)

lemma wp_new_recordI [wp_intro]:
  assumes "\<And>r n. calls s \<le> n \<Longrightarrow> adm_uuid r = cred_admin_uuid c \<Longrightarrow> adm_active r \<Longrightarrow>
      adm_token_hash r = hash_token E (cred_admin_token c) \<Longrightarrow> Q r (s\<lparr>calls := n\<rparr>)"
  shows "wp (new_record E c) Q R s"
  unfolding new_record_def using assms by (auto simp: wp_simps intro!: wp_intro)

subsection \<open>The update loop\<close>

lemma set_update_first: "set (update_first p f xs) \<subseteq> set xs \<union> f ` {x \<in> set xs. p x}"
  by (induction xs) auto

lemma update_first_exists:
  "list_ex p xs \<Longrightarrow> \<exists>x \<in> set xs. p x \<and> f x \<in> set (update_first p f xs)"
  by (induction xs) auto

lemma update_first_ex_cong:
  "(\<And>x. p x \<Longrightarrow> q (f x) = q x) \<Longrightarrow> list_ex q (update_first p f xs) = list_ex q xs"
  by (induction xs) auto

lemma length_filter_update_first:
  "(\<And>x. p x \<Longrightarrow> q x) \<Longrightarrow> (\<And>x. p x \<Longrightarrow> \<not> q (f x)) \<Longrightarrow> list_ex p xs \<Longrightarrow>
    Suc (length (filter q (update_first p f xs))) = length (filter q xs)"
  by (induction xs) auto

lemma filter_update_first_same:
  "(\<And>x. p x \<Longrightarrow> q (f x) = q x) \<Longrightarrow> (\<And>x. p x \<Longrightarrow> g (f x) = g x) \<Longrightarrow>
    map g (filter q (update_first p f xs)) = map g (filter q xs)"
  by (induction xs) auto

lemma update_first_other: "q x \<Longrightarrow> (\<And>y. p y \<Longrightarrow> \<not> q y) \<Longrightarrow> x \<in> set xs \<Longrightarrow> x \<in> set (update_first p f xs)"
  by (induction xs) auto

lemma map_filter_update_first_remove:
  "distinct (map g (filter q xs)) \<Longrightarrow> (\<And>x. p x \<longleftrightarrow> g x = k \<and> q x) \<Longrightarrow> (\<And>x. p x \<Longrightarrow> \<not> q (f x)) \<Longrightarrow>
    list_ex p xs \<Longrightarrow> k \<notin> set (map g (filter q (update_first p f xs)))"
  by (induction xs) (auto split: if_splits)


section \<open>The contract of a credential store\<close>

text \<open>
  What the connection handler relies on: \<open>live\<close> says which tokens are accepted, a
  completed \<open>authenticate\<close> answers it, and neither an answer nor a failure makes a token
  live that was not.
\<close>

locale credential_store =
  fixes live :: "'s \<Rightarrow> uuid \<Rightarrow> string \<Rightarrow> bool"
    and authenticate :: "uuid \<Rightarrow> string \<Rightarrow> ('s, bool) io"
  assumes authenticate_answer: "authenticate u t s = (Inr b, s') \<Longrightarrow> b = live s u t \<and> live s' = live s"
    and authenticate_failure: "authenticate u t s = (Inl x, s') \<Longrightarrow> live s' v w \<Longrightarrow> live s v w"
begin

lemma authenticate_sound: "authenticate u t s = (Inr True, s') \<Longrightarrow> live s u t"
  using authenticate_answer by blast

lemma authenticate_never_grants: "live (snd (authenticate u t s)) v w \<Longrightarrow> live s v w"
  by (cases "authenticate u t s"; cases "fst (authenticate u t s)")
    (auto dest: authenticate_answer authenticate_failure)

text \<open>However often and with whatever tokens a client tries, no dead token becomes live.\<close>

lemma attempts_never_grant:
  "live (run_steps (\<lambda>(u, t) s. snd (authenticate u t s)) attempts s) v w \<Longrightarrow> live s v w"
proof (induction attempts arbitrary: s)
  case Nil
  then show ?case by simp
next
  case (Cons a attempts)
  obtain u t where a: "a = (u, t)" by (cases a)
  from Cons.prems have "live (snd (authenticate u t s)) v w"
    using Cons.IH [of "snd (authenticate u t s)"] by (simp add: a)
  then show ?case by (rule authenticate_never_grants)
qed

end

subsection \<open>Authentication\<close>

lemma admin_matches_touch [simp]: "admin_matches E u t (r\<lparr>adm_updated_at_ms := n\<rparr>) = admin_matches E u t r"
  by (simp add: admin_matches_def)

lemma box_matches_touch [simp]: "box_matches E b t (r\<lparr>bcr_updated_at_ms := n\<rparr>) = box_matches E b t r"
  by (simp add: box_matches_def)

lemma admin_live_simps [simp]: "admin_live E (s\<lparr>calls := n\<rparr>) = admin_live E s"
  by (simp add: admin_live_def fun_eq_iff)

lemma box_live_simps [simp]: "box_live E (s\<lparr>calls := n\<rparr>) = box_live E s"
  by (simp add: box_live_def fun_eq_iff)

lemma wp_admin_authenticate:
  "wp (admin_authenticate E path u t)
     (\<lambda>b s'. b = admin_live E s u t \<and> admin_live E s' = admin_live E s)
     (\<lambda>x s'. \<forall>v w. admin_live E s' v w \<longrightarrow> admin_live E s v w) s"
  unfolding admin_authenticate_def
  by (auto simp: wp_simps admin_live_def fun_eq_iff update_first_ex_cong
      intro!: wp_intro)

lemma wp_box_authenticate:
  "wp (box_authenticate E path b t)
     (\<lambda>r s'. r = box_live E s b t \<and> box_live E s' = box_live E s)
     (\<lambda>x s'. \<forall>v w. box_live E s' v w \<longrightarrow> box_live E s v w) s"
  unfolding box_authenticate_def
  by (auto simp: wp_simps box_live_def fun_eq_iff update_first_ex_cong
      intro!: wp_intro)

interpretation admin_auth: credential_store "admin_live E" "admin_authenticate E path"
  by unfold_locales
    (auto dest: wp_runD [OF wp_admin_authenticate] wp_failD [OF wp_admin_authenticate])

interpretation box_auth: credential_store "box_live E" "box_authenticate E path"
  by unfold_locales
    (auto dest: wp_runD [OF wp_box_authenticate] wp_failD [OF wp_box_authenticate])


section \<open>The admin registry over time\<close>

text \<open>The store's operations hold its lock, so an execution is a sequence of whole operations.\<close>

datatype admin_op =
    AdminBootstrap admin_credential
  | AdminAuthenticate uuid string
  | AdminAdd string
  | AdminRemove uuid

fun admin_step :: "'e env_scheme \<Rightarrow> string \<Rightarrow> admin_op \<Rightarrow> 'z auth_files_scheme \<Rightarrow> 'z auth_files_scheme" where
  "admin_step E path (AdminBootstrap c) s = snd (admin_bootstrap E path c s)"
| "admin_step E path (AdminAuthenticate u t) s = snd (admin_authenticate E path u t s)"
| "admin_step E path (AdminAdd endpoint) s = snd (admin_add_admin E path endpoint s)"
| "admin_step E path (AdminRemove u) s = snd (admin_remove_admin E path u s)"

definition has_active_admin :: "'z auth_files_scheme \<Rightarrow> bool" where
  "has_active_admin s \<longleftrightarrow> (case admin_records s of None \<Rightarrow> True | Some rs \<Rightarrow> list_ex adm_active rs)"

definition active_uuids :: "admin_record list \<Rightarrow> uuid list" where
  "active_uuids rs = map adm_uuid (filter adm_active rs)"

definition unique_active_admins :: "'z auth_files_scheme \<Rightarrow> bool" where
  "unique_active_admins s \<longleftrightarrow> (case admin_records s of None \<Rightarrow> True | Some rs \<Rightarrow> distinct (active_uuids rs))"

lemma list_ex_length_filter: "list_ex p xs \<longleftrightarrow> 0 < length (filter p xs)"
  by (induction xs) auto

lemma remove_one_leaves_active:
  assumes "\<not> length (filter adm_active rs) \<le> 1" and "list_ex p rs" and "\<And>r. p r \<Longrightarrow> adm_active r"
  shows "list_ex adm_active (update_first p (\<lambda>r. r\<lparr>adm_active := False, adm_updated_at_ms := n\<rparr>) rs)"
  using assms length_filter_update_first
    [of p adm_active "\<lambda>r. r\<lparr>adm_active := False, adm_updated_at_ms := n\<rparr>" rs]
  by (simp add: list_ex_length_filter del: length_greater_0_conv)

lemma preserves_has_active_admin:
  "preserves has_active_admin (admin_bootstrap E path c)"
  "preserves has_active_admin (admin_authenticate E path u t)"
  "preserves has_active_admin (admin_add_admin E path endpoint)"
  "preserves has_active_admin (admin_remove_admin E path u)"
  unfolding admin_bootstrap_def admin_authenticate_def admin_add_admin_def admin_remove_admin_def
  by (auto simp: wp_simps has_active_admin_def update_first_ex_cong Let_def
      intro!: preserves_wpI wp_intro remove_one_leaves_active)

lemma has_active_admin_step: "has_active_admin s \<Longrightarrow> has_active_admin (admin_step E path op s)"
  by (cases op) (simp_all add: preservesD preserves_has_active_admin)

text \<open>A host on which every call succeeds, for evaluating the operations.\<close>

definition quiet_env :: env where
  "quiet_env = \<lparr>clock_at = int, uuid_at = (\<lambda>n. 2 * n), fault_at = (\<lambda>_. None), real_dir_at = (\<lambda>_. True),
     torn_disk_at = (\<lambda>_. \<lparr>disk_len = 0, disk_byte = (\<lambda>_. 0)\<rparr>),
     uuid_string = decimal, uuid_simple = decimal,
     sha256 = map (\<lambda>c. of_nat (of_char c)), kept_at = (\<lambda>_ _. False),
     mkfs_ext4 = (\<lambda>n. \<lparr>disk_len = n, disk_byte = (\<lambda>_. 0)\<rparr>), tool_at = (\<lambda>_. Exited (Some 0)),
     tool_effect_at = (\<lambda>_ d. d), euid = 1000\<rparr>"

definition empty_auth :: auth_files where
  "empty_auth = \<lparr>calls = 0, admin_file = None, box_credential_file = None\<rparr>"

definition first_admin :: admin_credential where
  "first_admin = \<lparr>cred_admin_uuid = 7, cred_admin_token = ''t''\<rparr>"

definition two_admins :: auth_files where
  "two_admins = empty_auth\<lparr>admin_file := Some (Intact \<lparr>adm_version = 1, admins =
     [\<lparr>adm_uuid = 7, adm_token_hash = ''74'', adm_active = True,
        adm_created_at_ms = 1, adm_updated_at_ms = 1\<rparr>,
      \<lparr>adm_uuid = 8, adm_token_hash = ''75'', adm_active = True,
        adm_created_at_ms = 1, adm_updated_at_ms = 1\<rparr>]\<rparr>)\<rparr>"

abbreviation registry_json :: string where
  "registry_json \<equiv> ''/s/admins/registry.json''"

text \<open>
  C20: once an active admin exists, no sequence of bootstrap, authentication, addition and
  removal leaves a readable registry without an active admin: removing the last one is
  refused, whatever fails in between.
\<close>

theorem admin_never_locked_out:
  assumes "admin_records s = Some rs" and "list_ex adm_active rs"
    and "admin_records (run_steps (admin_step E path) ops s) = Some rs'"
  shows "list_ex adm_active rs'"
proof -
  have "has_active_admin s" using assms by (simp add: has_active_admin_def)
  then have "has_active_admin (run_steps (admin_step E path) ops s)"
    by (rule run_steps_invariant [rotated]) (rule has_active_admin_step)
  with assms(3) show ?thesis by (simp add: has_active_admin_def)
qed

theorem admin_never_locked_out_witness:
  "\<exists>rs'. admin_records (run_steps (admin_step quiet_env registry_json)
       [AdminRemove 7, AdminRemove 8, AdminAuthenticate 8 ''u''] two_admins) = Some rs' \<and>
     list_ex adm_active rs'"
proof -
  have start: "admin_records two_admins \<noteq> None \<and> list_ex adm_active (the (admin_records two_admins))"
    by code_simp
  have "admin_records (run_steps (admin_step quiet_env registry_json)
       [AdminRemove 7, AdminRemove 8, AdminAuthenticate 8 ''u''] two_admins) \<noteq> None"
    by code_simp
  then obtain rs' where rs': "admin_records (run_steps (admin_step quiet_env registry_json)
       [AdminRemove 7, AdminRemove 8, AdminAuthenticate 8 ''u''] two_admins) = Some rs'" by blast
  from start obtain rs where "admin_records two_admins = Some rs" and "list_ex adm_active rs" by auto
  from admin_never_locked_out [OF this rs'] rs' show ?thesis by blast
qed

section \<open>Removing an admin\<close>

lemma active_uuids_touch:
  "active_uuids (update_first p (\<lambda>r. r\<lparr>adm_updated_at_ms := n\<rparr>) rs) = active_uuids rs"
  unfolding active_uuids_def by (rule filter_update_first_same) simp_all

lemma removed_not_active:
  assumes "distinct (active_uuids rs)" and "list_ex (\<lambda>r. adm_uuid r = u \<and> adm_active r) rs"
  shows "u \<notin> set (active_uuids (update_first (\<lambda>r. adm_uuid r = u \<and> adm_active r)
    (\<lambda>r. r\<lparr>adm_active := False, adm_updated_at_ms := n\<rparr>) rs))"
  using map_filter_update_first_remove
    [of adm_uuid adm_active rs "\<lambda>r. adm_uuid r = u \<and> adm_active r" u
        "\<lambda>r. r\<lparr>adm_active := False, adm_updated_at_ms := n\<rparr>"] assms
  by (simp add: active_uuids_def)

lemma not_active_not_live:
  "admin_records s = Some rs \<Longrightarrow> u \<notin> set (active_uuids rs) \<Longrightarrow> \<not> admin_live E s u t"
  by (auto simp: admin_live_def active_uuids_def admin_matches_def list_ex_iff)

lemma wp_admin_remove_admin:
  assumes "unique_active_admins s"
  shows "wp (admin_remove_admin E path u)
     (\<lambda>_ s'. \<exists>rs. admin_records s' = Some rs \<and> u \<notin> set (active_uuids rs)) (\<lambda>_ _. True) s"
  unfolding admin_remove_admin_def Let_def using assms
  by (auto simp: wp_simps unique_active_admins_def removed_not_active intro!: wp_intro)

text \<open>
  A removed admin is locked out: when \<open>remove_admin\<close> returns, no token authenticates
  that admin any more, provided the active admins of the registry had distinct UUIDs.
\<close>

theorem removed_admin_rejected:
  assumes "unique_active_admins s"
    and "admin_remove_admin E path u s = (Inr (), s')"
    and "admin_authenticate E path u token s' = (Inr accepted, s'')"
  shows "\<not> accepted"
proof -
  from wp_runD [OF wp_admin_remove_admin [OF assms(1)] assms(2)]
  have "\<not> admin_live E s' u token" by (auto dest: not_active_not_live)
  with admin_auth.authenticate_answer [OF assms(3)] show ?thesis by simp
qed

theorem removed_admin_rejected_witness:
  "\<exists>s' s''. admin_remove_admin quiet_env registry_json 7 two_admins = (Inr (), s') \<and>
     admin_authenticate quiet_env registry_json 7 ''t'' s' = (Inr False, s'')"
proof -
  let ?rm = "admin_remove_admin quiet_env registry_json 7 two_admins"
  let ?au = "admin_authenticate quiet_env registry_json 7 ''t'' (snd ?rm)"
  have u: "unique_active_admins two_admins" by code_simp
  have "fst ?rm = Inr ()" by code_simp
  then have rm: "?rm = (Inr (), snd ?rm)" by (metis prod.collapse)
  have "\<not> isl (fst ?au)" by code_simp
  then obtain b where "?au = (Inr b, snd ?au)"
    by (metis prod.collapse sum.collapse(2))
  with removed_admin_rejected [OF u rm this] rm show ?thesis by metis
qed


section \<open>Distinct admins\<close>

text \<open>No active admin carries a UUID that is still to be drawn.\<close>

definition drawn :: "'e env_scheme \<Rightarrow> nat \<Rightarrow> admin_record list \<Rightarrow> bool" where
  "drawn E n rs \<longleftrightarrow> distinct (active_uuids rs) \<and> (\<forall>m \<ge> n. uuid_at E m \<notin> set (active_uuids rs))"

definition admins_drawn :: "'e env_scheme \<Rightarrow> 'z auth_files_scheme \<Rightarrow> bool" where
  "admins_drawn E s \<longleftrightarrow> (case admin_records s of None \<Rightarrow> True | Some rs \<Rightarrow> drawn E (calls s) rs)"

lemma drawn_mono: "drawn E n rs \<Longrightarrow> n \<le> m \<Longrightarrow> drawn E m rs"
  by (auto simp: drawn_def)

lemma drawn_touch:
  "drawn E n (update_first p (\<lambda>r. r\<lparr>adm_updated_at_ms := t\<rparr>) rs) = drawn E n rs"
  by (simp add: drawn_def active_uuids_touch)

lemma active_uuids_Cons: "active_uuids (r # rs) = (if adm_active r then [adm_uuid r] else []) @ active_uuids rs"
  by (simp add: active_uuids_def)

lemma set_active_deactivate:
  "set (active_uuids (update_first p (\<lambda>r. r\<lparr>adm_active := False, adm_updated_at_ms := t\<rparr>) rs))
     \<subseteq> set (active_uuids rs)"
  by (induction rs) (auto simp: active_uuids_Cons)

lemma distinct_active_deactivate:
  "distinct (active_uuids rs) \<Longrightarrow>
     distinct (active_uuids (update_first p (\<lambda>r. r\<lparr>adm_active := False, adm_updated_at_ms := t\<rparr>) rs))"
  by (induction rs) (auto simp: active_uuids_Cons dest: subsetD [OF set_active_deactivate])

lemma drawn_deactivate:
  "drawn E n rs \<Longrightarrow> drawn E n (update_first p (\<lambda>r. r\<lparr>adm_active := False, adm_updated_at_ms := t\<rparr>) rs)"
  by (auto simp: drawn_def distinct_active_deactivate dest: subsetD [OF set_active_deactivate])

lemma active_uuids_append: "active_uuids (rs @ [r]) = active_uuids rs @ (if adm_active r then [adm_uuid r] else [])"
  by (simp add: active_uuids_def)

lemma none_active_uuids: "\<not> list_ex adm_active rs \<Longrightarrow> active_uuids rs = []"
  by (simp add: active_uuids_def list_ex_iff filter_empty_conv)

lemma drawn_append:
  "inj (uuid_at E) \<Longrightarrow> drawn E n rs \<Longrightarrow> adm_uuid r = uuid_at E k \<Longrightarrow> n \<le> k \<Longrightarrow> k < m \<Longrightarrow> drawn E m (rs @ [r])"
  by (auto simp: drawn_def active_uuids_append inj_eq)

lemma drawn_first:
  "\<not> list_ex adm_active rs \<Longrightarrow> (\<And>k. uuid_at E k \<noteq> adm_uuid r) \<Longrightarrow> drawn E m (rs @ [r])"
  by (auto simp: drawn_def active_uuids_append none_active_uuids)

lemma preserves_admins_drawn_bootstrap:
  "(\<And>k. uuid_at E k \<noteq> cred_admin_uuid c) \<Longrightarrow> preserves (admins_drawn E) (admin_bootstrap E path c)"
  unfolding admin_bootstrap_def
  by (auto simp: wp_simps admins_drawn_def split: option.splits intro!: preserves_wpI wp_intro drawn_first elim!: drawn_mono)

lemma preserves_admins_drawn_authenticate: "preserves (admins_drawn E) (admin_authenticate E path u t)"
  unfolding admin_authenticate_def
  by (auto simp: wp_simps admins_drawn_def drawn_touch split: option.splits intro!: preserves_wpI wp_intro elim!: drawn_mono)

lemma preserves_admins_drawn_add:
  "inj (uuid_at E) \<Longrightarrow> preserves (admins_drawn E) (admin_add_admin E path endpoint)"
  unfolding admin_add_admin_def
  by (auto simp: wp_simps admins_drawn_def split: option.splits intro!: preserves_wpI wp_intro elim!: drawn_mono;
      erule (2) drawn_append; linarith)

lemma preserves_admins_drawn_remove: "preserves (admins_drawn E) (admin_remove_admin E path u)"
  unfolding admin_remove_admin_def Let_def
  by (auto simp: wp_simps admins_drawn_def split: option.splits intro!: preserves_wpI wp_intro drawn_deactivate elim!: drawn_mono)


text \<open>Bootstrap credentials come from a user configuration, never from the store's own draws.\<close>

definition external_credential :: "'e env_scheme \<Rightarrow> admin_op \<Rightarrow> bool" where
  "external_credential E op \<longleftrightarrow>
     (\<forall>c k. op = AdminBootstrap c \<longrightarrow> uuid_at E k \<noteq> cred_admin_uuid c)"

lemma admins_drawn_step:
  assumes "inj (uuid_at E)" and "external_credential E op" and "admins_drawn E s"
  shows "admins_drawn E (admin_step E path op s)"
proof (cases op)
  case (AdminBootstrap c)
  then show ?thesis using assms
    by (simp add: external_credential_def preservesD [OF preserves_admins_drawn_bootstrap])
qed (simp_all add: assms preservesD [OF preserves_admins_drawn_authenticate]
      preservesD [OF preserves_admins_drawn_add] preservesD [OF preserves_admins_drawn_remove])

lemma admins_drawn_run:
  "inj (uuid_at E) \<Longrightarrow> list_all (external_credential E) ops \<Longrightarrow> admins_drawn E s \<Longrightarrow>
    admins_drawn E (run_steps (admin_step E path) ops s)"
  by (induction ops arbitrary: s) (auto simp: admins_drawn_step)

text \<open>
  The active admins of the registry always have distinct UUIDs: from an empty registry
  every sequence of store operations keeps them distinct, as long as the UUIDs drawn by
  the store never repeat and a bootstrap credential does not come from the store's draws.
\<close>

theorem admins_stay_unique:
  assumes "inj (uuid_at E)" and "list_all (external_credential E) ops" and "admin_file s = None"
  shows "unique_active_admins (run_steps (admin_step E path) ops s)"
proof -
  have "admins_drawn E s"
    using assms(3) by (simp add: admins_drawn_def admin_records_def drawn_def active_uuids_def)
  from admins_drawn_run [OF assms(1,2) this, of path] show ?thesis
    by (auto simp: admins_drawn_def unique_active_admins_def drawn_def split: option.splits)
qed


theorem admins_stay_unique_witness:
  "unique_active_admins (run_steps (admin_step quiet_env registry_json)
     [AdminBootstrap first_admin, AdminAdd ''e'', AdminRemove 7, AdminAdd ''e''] empty_auth)"
proof (rule admins_stay_unique)
  show "inj (uuid_at quiet_env)" by (simp add: quiet_env_def inj_def)
  have "2 * k \<noteq> (7 :: nat)" for k by presburger
  then show "list_all (external_credential quiet_env)
      [AdminBootstrap first_admin, AdminAdd ''e'', AdminRemove 7, AdminAdd ''e'']"
    by (simp add: external_credential_def quiet_env_def first_admin_def)
qed (simp add: empty_auth_def)

section \<open>Issuing BOX credentials\<close>

datatype box_credential_op =
    BoxIssue string uuid
  | BoxAuthenticate uuid string

fun box_credential_step :: "'e env_scheme \<Rightarrow> string \<Rightarrow> box_credential_op \<Rightarrow>
    'z auth_files_scheme \<Rightarrow> 'z auth_files_scheme" where
  "box_credential_step E path (BoxIssue endpoint b) s = snd (box_issue E path endpoint b s)"
| "box_credential_step E path (BoxAuthenticate b t) s = snd (box_authenticate E path b t s)"

definition unique_boxes :: "'z auth_files_scheme \<Rightarrow> bool" where
  "unique_boxes s \<longleftrightarrow> (case box_records s of None \<Rightarrow> True | Some rs \<Rightarrow> distinct (map bcr_box_id rs))"

lemma map_update_first: "(\<And>x. g (f x) = g x) \<Longrightarrow> map g (update_first p f xs) = map g xs"
  by (induction xs) auto

lemma distinct_issue_record:
  "distinct (map bcr_box_id rs) \<Longrightarrow> distinct (map bcr_box_id (issue_record E b t n rs))"
  by (auto simp: issue_record_def map_update_first list_ex_iff)

lemma preserves_unique_boxes:
  "preserves unique_boxes (box_issue E path endpoint b)"
  "preserves unique_boxes (box_authenticate E path b t)"
  unfolding box_issue_def box_authenticate_def
  by (auto simp: wp_simps unique_boxes_def map_update_first distinct_issue_record
      intro!: preserves_wpI wp_intro)

lemma unique_boxes_step: "unique_boxes s \<Longrightarrow> unique_boxes (box_credential_step E path op s)"
  by (cases op) (simp_all add: preservesD preserves_unique_boxes)

lemma issued_matches:
  "distinct (map bcr_box_id rs) \<Longrightarrow>
    list_ex (box_matches E c w) (issue_record E b t n rs) \<longleftrightarrow>
      (if c = b then hash_token E w = hash_token E t else list_ex (box_matches E c w) rs)"
proof (induction rs)
  case (Cons r rs)
  then show ?case
    by (auto simp: issue_record_def box_matches_def list_ex_iff split: if_splits)
qed (auto simp: issue_record_def box_matches_def)

lemma wp_box_issue:
  assumes "unique_boxes s"
  shows "wp (box_issue E path endpoint b)
     (\<lambda>bundle s'. bundle_box_id bundle = b \<and> bundle_box_endpoint bundle = endpoint \<and>
        (\<forall>c t. box_live E s' c t \<longleftrightarrow>
          (if c = b then hash_token E t = hash_token E (bundle_box_token bundle) else box_live E s c t)))
     (\<lambda>_ _. True) s"
  unfolding box_issue_def using assms
  by (auto simp: wp_simps unique_boxes_def box_live_def issued_matches intro!: wp_intro)

text \<open>
  Issuing a credential for a BOX replaces that BOX's credential and no other: after any
  history of the store from an empty registry, the tokens accepted for the BOX are those
  with the hash of the token just handed out, earlier tokens included only if they have
  the same hash, and every other BOX accepts exactly the tokens it accepted before.
\<close>

theorem box_issue_replaces_only_own_token:
  assumes "box_credential_file s\<^sub>0 = None" and "s = run_steps (box_credential_step E path) ops s\<^sub>0"
    and "box_issue E path endpoint b s = (Inr bundle, s')"
  shows "box_live E s' c t \<longleftrightarrow>
    (if c = b then hash_token E t = hash_token E (bundle_box_token bundle) else box_live E s c t)"
proof -
  have "unique_boxes s\<^sub>0" using assms(1) by (simp add: unique_boxes_def box_records_def)
  then have "unique_boxes s"
    unfolding assms(2) by (rule run_steps_invariant [rotated]) (rule unique_boxes_step)
  from wp_runD [OF wp_box_issue [OF this] assms(3)] show ?thesis by blast
qed

theorem box_issue_replaces_only_own_token_witness:
  "box_live quiet_env (snd (box_issue quiet_env ''/s/boxes/credentials.json'' ''e'' 5
       (run_steps (box_credential_step quiet_env ''/s/boxes/credentials.json'')
         [BoxIssue ''e'' 5, BoxIssue ''e'' 6] empty_auth))) 6 ''4648'' =
   box_live quiet_env (run_steps (box_credential_step quiet_env ''/s/boxes/credentials.json'')
         [BoxIssue ''e'' 5, BoxIssue ''e'' 6] empty_auth) 6 ''4648''"
proof -
  let ?s = "run_steps (box_credential_step quiet_env ''/s/boxes/credentials.json'')
         [BoxIssue ''e'' 5, BoxIssue ''e'' 6] empty_auth"
  let ?r = "box_issue quiet_env ''/s/boxes/credentials.json'' ''e'' 5 ?s"
  have "\<not> isl (fst ?r)" by code_simp
  then obtain issued where "?r = (Inr issued, snd ?r)" by (metis prod.collapse sum.collapse(2))
  from box_issue_replaces_only_own_token [OF _ refl this, of 6 "''4648''"]
  show ?thesis by (simp add: empty_auth_def)
qed

section \<open>The rewrite is not atomic\<close>

text \<open>
  The registry file is truncated and rewritten in place. When the write fails halfway
  while a second admin is being added, the registry is torn, and from then on every
  authentication of every admin fails, whatever the token and whatever the host answers.
\<close>

theorem torn_admin_registry_locks_out:
  "\<exists>n. let E = quiet_env\<lparr>fault_at := (\<lambda>k. if k = n then Some ''no space left on device'' else None)\<rparr>;
            s = snd (admin_add_admin E registry_json ''e'' two_admins)
        in admin_live E two_admins 7 ''t'' \<and>
           (\<forall>E' :: env. \<forall>u t. \<exists>e. fst (admin_authenticate E' registry_json u t s) = Inl (Fail e))"
proof (rule exI [where x = 17], unfold Let_def, intro conjI allI)
  let ?E = "quiet_env\<lparr>fault_at := (\<lambda>k. if k = 17 then Some ''no space left on device'' else None)\<rparr>"
  let ?s = "snd (admin_add_admin ?E registry_json ''e'' two_admins)"
  show "admin_live ?E two_admins 7 ''t''" by code_simp
  have "admin_records ?s = None" by code_simp
  then have torn: "admin_file ?s = Some Torn"
    by (simp add: admin_records_def split: option.splits json_file.splits)
  show "\<exists>e. fst (admin_authenticate E' registry_json u t ?s) = Inl (Fail e)" for E' :: env and u t
    by (simp add: admin_authenticate_def admin_read_registry_def sys_io_def ask_def io_defs
        decode_json_def torn split: option.split)
qed

end
