(* ===== verification/Lineage.thy ===== *)
theory Lineage
  imports Auth Manifest "HOL-Library.AList" "HOL-Library.Product_Lexorder"
begin

text \<open>
  The on-disk checkpoint lineage of the workspaces (\<open>src/workspace/lineage.rs\<close>). Below
  \<open>checkpoints/<workspace>\<close> there is a \<open>head.json\<close> and one directory per checkpoint with its
  \<open>record.json\<close> and its copy of the disk; the state keeps that structure, with the
  checkpoint directories in the order \<open>read_dir\<close> lists them. A checkpoint identifier has no
  dot in it, so it never names \<open>head.json\<close>.
\<close>

section \<open>Records\<close>

record checkpoint_summary =
  cks_checkpoint_id :: string
  cks_workspace_id :: string
  cks_name :: "string option"
  cks_metadata :: "(string \<times> string) list"
  cks_created_at_ms :: u64

record checkpoint_record =
  ckr_summary :: checkpoint_summary
  ckr_source_checkpoint_id :: "string option"
  ckr_changes :: "workspace_change list"

record workspace_lineage_head =
  lh_head_checkpoint_id :: "string option"

record workspace_lease =
  lease_workspace_id :: string
  lease_disk_path :: string

section \<open>Directories\<close>

record checkpoint_dir =
  ckd_record :: "checkpoint_record json_file option"
  ckd_snapshot :: "disk option"

record lineage_dir =
  ln_head :: "workspace_lineage_head json_file option"
  ln_entries :: "(string \<times> checkpoint_dir) list"

text \<open>
  The workspaces directory maps a workspace to its directory, which holds the disk image
  \<open>workspace.raw\<close> or not yet. The disk at a lease's path is the disk of its workspace.
\<close>

record store_files = auth_files +
  lineages :: "string \<Rightarrow> lineage_dir option"
  workspaces :: "string \<Rightarrow> disk option option"
  run_paths :: "string set"

definition empty_lineage_dir :: lineage_dir where
  "empty_lineage_dir = \<lparr>ln_head = None, ln_entries = []\<rparr>"

definition empty_checkpoint_dir :: checkpoint_dir where
  "empty_checkpoint_dir = \<lparr>ckd_record = None, ckd_snapshot = None\<rparr>"

definition upd_lineage :: "string \<Rightarrow> (lineage_dir \<Rightarrow> lineage_dir) \<Rightarrow> 'z store_files_scheme \<Rightarrow> 'z store_files_scheme" where
  "upd_lineage w f s = s\<lparr>lineages := (lineages s)(w := map_option f (lineages s w))\<rparr>"

definition upd_entry :: "string \<Rightarrow> (checkpoint_dir \<Rightarrow> checkpoint_dir) \<Rightarrow> lineage_dir \<Rightarrow> lineage_dir" where
  "upd_entry c f d = d\<lparr>ln_entries := AList.map_entry c f (ln_entries d)\<rparr>"

definition disk_of :: "'z store_files_scheme \<Rightarrow> string \<Rightarrow> disk option" where
  "disk_of s w = Option.bind (workspaces s w) (\<lambda>d. d)"

definition put_disk :: "string \<Rightarrow> disk \<Rightarrow> 'z store_files_scheme \<Rightarrow> 'z store_files_scheme" where
  "put_disk w d s = s\<lparr>workspaces := (workspaces s)(w \<mapsto> Some d)\<rparr>"

definition entry_of :: "'z store_files_scheme \<Rightarrow> string \<Rightarrow> string \<Rightarrow> checkpoint_dir option" where
  "entry_of s w c = Option.bind (lineages s w) (\<lambda>d. map_of (ln_entries d) c)"

definition snapshot_of :: "'z store_files_scheme \<Rightarrow> string \<Rightarrow> string \<Rightarrow> disk option" where
  "snapshot_of s w c = Option.bind (entry_of s w c) ckd_snapshot"

definition record_file_of :: "'z store_files_scheme \<Rightarrow> string \<Rightarrow> string \<Rightarrow> checkpoint_record json_file option" where
  "record_file_of s w c = Option.bind (entry_of s w c) ckd_record"

definition head_file_of :: "'z store_files_scheme \<Rightarrow> string \<Rightarrow> workspace_lineage_head json_file option" where
  "head_file_of s w = Option.bind (lineages s w) ln_head"

text \<open>\<open>fs::create_dir_all\<close> of a workspace's and of a checkpoint's lineage directory.\<close>

definition mk_lineage_dir :: "string \<Rightarrow> 'z store_files_scheme \<Rightarrow> 'z store_files_scheme" where
  "mk_lineage_dir w s = (case lineages s w of
     None \<Rightarrow> s\<lparr>lineages := (lineages s)(w \<mapsto> empty_lineage_dir)\<rparr> | Some _ \<Rightarrow> s)"

definition mk_checkpoint_dir :: "string \<Rightarrow> string \<Rightarrow> 'z store_files_scheme \<Rightarrow> 'z store_files_scheme" where
  "mk_checkpoint_dir w c = upd_lineage w (\<lambda>d. if c \<in> fst ` set (ln_entries d) then d
     else d\<lparr>ln_entries := ln_entries d @ [(c, empty_checkpoint_dir)]\<rparr>)"

text \<open>\<open>fs::remove_dir_all\<close> of a checkpoint directory, when it completes and when it is interrupted.\<close>

definition rm_checkpoint_dir :: "string \<Rightarrow> string \<Rightarrow> 'z store_files_scheme \<Rightarrow> 'z store_files_scheme" where
  "rm_checkpoint_dir w c = upd_lineage w
     (\<lambda>d. d\<lparr>ln_entries := AList.delete c (ln_entries d)\<rparr>)"

definition keep_some :: "(string \<Rightarrow> bool) \<Rightarrow> string \<Rightarrow> checkpoint_dir \<Rightarrow> checkpoint_dir" where
  "keep_some kept c e = \<lparr>
     ckd_record = (if kept (c @ ''/record.json'') then ckd_record e else None),
     ckd_snapshot = (if kept (c @ ''/workspace.raw'') then ckd_snapshot e else None)\<rparr>"

section \<open>\<open>LocalLineageStore\<close>\<close>

definition write_json :: "'e env_scheme \<Rightarrow> ('a json_file \<Rightarrow> 'z host_scheme \<Rightarrow> 'z host_scheme) \<Rightarrow> 'a \<Rightarrow>
    ('z host_scheme, unit) io" where
  "write_json E put v = seqE (sys_json E ''encoding workspace metadata'')
     (fs_write E ''writing workspace metadata'' put v)"

definition read_json :: "'e env_scheme \<Rightarrow> 'a json_file \<Rightarrow> ('z host_scheme, 'a) io" where
  "read_json E j = seqE (sys_io E ''reading workspace metadata'')
     (decode_json ''decoding workspace metadata'' j)"

text \<open>One directory entry of the listing: \<open>None\<close> for an entry that is skipped.\<close>

definition list_entry :: "'e env_scheme \<Rightarrow> string \<times> checkpoint_dir \<Rightarrow> ('z host_scheme, checkpoint_record option) io" where
  "list_entry E entry =
     seqE (sys_io E ''iterating workspace checkpoints'')
     (seqE (sys_io E ''reading workspace checkpoint entry type'')
     (seqE (sys_io E ''checking checkpoint record'')
       (case ckd_record (snd entry) of
          None \<Rightarrow> returnE None
        | Some j \<Rightarrow> bindE (read_json E j) (\<lambda>r. returnE (Some r)))))"

definition record_key :: "checkpoint_record \<Rightarrow> u64 \<times> string" where
  "record_key r = (cks_created_at_ms (ckr_summary r), cks_checkpoint_id (ckr_summary r))"

text \<open>\<open>records.sort_by_key(..)\<close>: the stable sort by creation time and identifier.\<close>

definition sort_records :: "checkpoint_record list \<Rightarrow> checkpoint_record list" where
  "sort_records = sort_key record_key"

definition list_checkpoint_records :: "'e env_scheme \<Rightarrow> string \<Rightarrow> ('z store_files_scheme, checkpoint_record list) io" where
  "list_checkpoint_records E w =
     seqE (sys_io E ''checking workspace checkpoints'')
     (bindE (getE (\<lambda>s. lineages s w)) (\<lambda>dir. case dir of
        None \<Rightarrow> returnE []
      | Some d \<Rightarrow>
          seqE (sys_io E ''reading workspace checkpoints'')
          (seqE (if ln_head d = None then returnE () else
                   seqE (sys_io E ''iterating workspace checkpoints'')
                     (sys_io E ''reading workspace checkpoint entry type''))
          (bindE (mapE (list_entry E) (ln_entries d)) (\<lambda>rs.
           seqE (sys_io E ''iterating workspace checkpoints'')
             (returnE (sort_records (List.map_filter id rs))))))))"

definition last_id :: "checkpoint_record list \<Rightarrow> string option" where
  "last_id rs = (if rs = [] then None else Some (cks_checkpoint_id (ckr_summary (last rs))))"

abbreviation put_head :: "string \<Rightarrow> workspace_lineage_head json_file \<Rightarrow> 'z store_files_scheme \<Rightarrow> 'z store_files_scheme" where
  "put_head w j \<equiv> upd_lineage w (\<lambda>d. d\<lparr>ln_head := Some j\<rparr>)"

definition ensure_workspace :: "'e env_scheme \<Rightarrow> string \<Rightarrow> ('z store_files_scheme, unit) io" where
  "ensure_workspace E w =
     seqE (liftE (validate_persisted_id w ''workspace_id''))
     (seqE (sys_io E ''creating workspace checkpoint directory'')
     (seqE (modifyE (mk_lineage_dir w))
     (seqE (sys_io E ''checking workspace checkpoint head'')
     (bindE (getE (\<lambda>s. head_file_of s w)) (\<lambda>head.
       if head = None then
         bindE (list_checkpoint_records E w) (\<lambda>rs.
           write_json E (put_head w) \<lparr>lh_head_checkpoint_id = last_id rs\<rparr>)
       else returnE ())))))"

definition head_checkpoint_id :: "'e env_scheme \<Rightarrow> string \<Rightarrow> ('z store_files_scheme, string option) io" where
  "head_checkpoint_id E w =
     seqE (liftE (validate_persisted_id w ''workspace_id''))
     (seqE (sys_io E ''checking workspace checkpoint head'')
     (bindE (getE (\<lambda>s. head_file_of s w)) (\<lambda>head. case head of
        Some j \<Rightarrow> bindE (read_json E j) (\<lambda>h. returnE (lh_head_checkpoint_id h))
      | None \<Rightarrow> bindE (list_checkpoint_records E w) (\<lambda>rs. returnE (last_id rs)))))"

definition set_head_checkpoint_id :: "'e env_scheme \<Rightarrow> string \<Rightarrow> string option \<Rightarrow> ('z store_files_scheme, unit) io" where
  "set_head_checkpoint_id E w c =
     seqE (liftE (validate_persisted_id w ''workspace_id''))
     (seqE (case c of None \<Rightarrow> returnE () | Some i \<Rightarrow> liftE (validate_persisted_id i ''checkpoint_id''))
     (seqE (ensure_workspace E w)
       (write_json E (put_head w) \<lparr>lh_head_checkpoint_id = c\<rparr>)))"

definition save_checkpoint :: "'e env_scheme \<Rightarrow> workspace_lease \<Rightarrow> checkpoint_record \<Rightarrow> ('z store_files_scheme, unit) io" where
  "save_checkpoint E lease r =
     (let w = lease_workspace_id lease; c = cks_checkpoint_id (ckr_summary r) in
     seqE (liftE (validate_persisted_id w ''workspace_id''))
     (seqE (liftE (validate_persisted_id (cks_workspace_id (ckr_summary r)) ''workspace_id''))
     (seqE (liftE (validate_persisted_id c ''checkpoint_id''))
     (seqE (case ckr_source_checkpoint_id r of
              None \<Rightarrow> returnE ()
            | Some i \<Rightarrow> liftE (validate_persisted_id i ''source_checkpoint_id''))
     (if cks_workspace_id (ckr_summary r) \<noteq> w then
        throwE (InvalidConfig (''checkpoint workspace '' @ cks_workspace_id (ckr_summary r) @
          '' does not match lease '' @ w))
      else
        seqE (ensure_workspace E w)
        (seqE (sys_io E ''creating workspace checkpoint directory'')
        (seqE (modifyE (mk_checkpoint_dir w c))
        (bindE (getE (\<lambda>s. disk_of s w)) (\<lambda>source.
         seqE (fs_copy E ''copying disk for checkpoint'' source
                 (\<lambda>d. upd_lineage w (upd_entry c (\<lambda>e. e\<lparr>ckd_snapshot := Some d\<rparr>))))
           (write_json E (\<lambda>j. upd_lineage w (upd_entry c (\<lambda>e. e\<lparr>ckd_record := Some j\<rparr>))) r)))))))))) "

definition load_checkpoint :: "'e env_scheme \<Rightarrow> string \<Rightarrow> string \<Rightarrow> ('z store_files_scheme, checkpoint_record option) io" where
  "load_checkpoint E w c =
     seqE (liftE (validate_persisted_id w ''workspace_id''))
     (seqE (liftE (validate_persisted_id c ''checkpoint_id''))
     (seqE (sys_io E ''checking checkpoint record'')
     (bindE (getE (\<lambda>s. record_file_of s w c)) (\<lambda>f. case f of
        None \<Rightarrow> returnE None
      | Some j \<Rightarrow> bindE (read_json E j) (\<lambda>r. returnE (Some r))))))"

definition list_checkpoints :: "'e env_scheme \<Rightarrow> string \<Rightarrow> ('z store_files_scheme, checkpoint_record list) io" where
  "list_checkpoints E w =
     seqE (liftE (validate_persisted_id w ''workspace_id'')) (list_checkpoint_records E w)"

definition delete_checkpoint :: "'e env_scheme \<Rightarrow> string \<Rightarrow> string \<Rightarrow> ('z store_files_scheme, unit) io" where
  "delete_checkpoint E w c =
     seqE (liftE (validate_persisted_id w ''workspace_id''))
     (seqE (liftE (validate_persisted_id c ''checkpoint_id''))
     (seqE (sys_io E ''checking checkpoint directory'')
     (bindE (getE (\<lambda>s. entry_of s w c)) (\<lambda>e.
       if e = None then returnE ()
       else bindE (ask (kept_at E)) (\<lambda>kept.
         seqE (sys_io_damaging E ''removing checkpoint directory''
                 (upd_lineage w (upd_entry c (keep_some kept c))))
           (modifyE (rm_checkpoint_dir w c)))))))"

text \<open>The destination is the disk of a lease, named by its workspace.\<close>

definition copy_checkpoint_snapshot :: "'e env_scheme \<Rightarrow> string \<Rightarrow> string \<Rightarrow> string \<Rightarrow> ('z store_files_scheme, unit) io" where
  "copy_checkpoint_snapshot E w c destination =
     seqE (liftE (validate_persisted_id w ''workspace_id''))
     (seqE (liftE (validate_persisted_id c ''checkpoint_id''))
     (bindE (getE (\<lambda>s. snapshot_of s w c)) (\<lambda>source.
        fs_copy E ''copying disk for checkpoint workspace'' source (put_disk destination))))"


section \<open>What the operations do to a lineage\<close>

text \<open>
  Every operation on workspace \<open>w\<close> leaves the state as it was up to the call counter and the
  lineage directory of \<open>w\<close>; \<open>ents\<close> and \<open>headf\<close> read that directory.
\<close>

definition ents :: "lineage_dir option \<Rightarrow> (string \<times> checkpoint_dir) list" where
  "ents l = (case l of None \<Rightarrow> [] | Some d \<Rightarrow> ln_entries d)"

definition headf :: "lineage_dir option \<Rightarrow> workspace_lineage_head json_file option" where
  "headf l = Option.bind l ln_head"

definition intact_record :: "string \<times> checkpoint_dir \<Rightarrow> checkpoint_record option" where
  "intact_record ie = (case ckd_record (snd ie) of Some (Intact r) \<Rightarrow> Some r | _ \<Rightarrow> None)"

definition records_in :: "(string \<times> checkpoint_dir) list \<Rightarrow> checkpoint_record list" where
  "records_in es = List.map_filter intact_record es"

definition readable :: "(string \<times> checkpoint_dir) list \<Rightarrow> bool" where
  "readable es \<longleftrightarrow> list_all (\<lambda>ie. ckd_record (snd ie) \<noteq> Some Torn) es"

lemma ents_simps [simp]:
  "ents None = []" "ents (Some d) = ln_entries d" "headf None = None" "headf (Some d) = ln_head d"
  by (simp_all add: ents_def headf_def)

lemma entry_of_ents: "entry_of s w c = map_of (ents (lineages s w)) c"
  by (simp add: entry_of_def split: option.split bind_split)

lemma head_file_of_headf: "head_file_of s w = headf (lineages s w)"
  by (simp add: head_file_of_def headf_def)

text \<open>The order in which the updates of the state are written.\<close>

lemma store_files_commute [simp]:
  "s\<lparr>lineages := L, calls := n\<rparr> = s\<lparr>calls := n, lineages := L\<rparr>"
  "s\<lparr>workspaces := W, calls := n\<rparr> = s\<lparr>calls := n, workspaces := W\<rparr>"
  "s\<lparr>run_paths := P, calls := n\<rparr> = s\<lparr>calls := n, run_paths := P\<rparr>"
  "s\<lparr>workspaces := W, lineages := L\<rparr> = s\<lparr>lineages := L, workspaces := W\<rparr>"
  "s\<lparr>run_paths := P, lineages := L\<rparr> = s\<lparr>lineages := L, run_paths := P\<rparr>"
  "s\<lparr>run_paths := P, workspaces := W\<rparr> = s\<lparr>workspaces := W, run_paths := P\<rparr>"
  by simp_all

lemma store_files_triv [simp]:
  "s\<lparr>calls := calls s\<rparr> = (s :: 'z store_files_scheme)"
  "s\<lparr>calls := n, lineages := lineages s\<rparr> = (s\<lparr>calls := n\<rparr> :: 'z store_files_scheme)"
  "s\<lparr>calls := n, workspaces := workspaces s\<rparr> = (s\<lparr>calls := n\<rparr> :: 'z store_files_scheme)"
  "s\<lparr>calls := n, lineages := L, workspaces := workspaces s\<rparr> = (s\<lparr>calls := n, lineages := L\<rparr> :: 'z store_files_scheme)"
  by simp_all

text \<open>A rule with the old lineage as its new one covers the states that differ in the counter only.\<close>

lemma same_lineageI:
  "(\<And>l. l = lineages s w \<Longrightarrow> P (s\<lparr>calls := n, lineages := (lineages s)(w := l)\<rparr>)) \<Longrightarrow> P (s\<lparr>calls := n\<rparr>)"
  by simp

text \<open>The identifier check as a condition, whatever its message.\<close>

definition id_error :: "string \<Rightarrow> string \<Rightarrow> sandbox_error" where
  "id_error v fld = projl (validate_persisted_id v fld)"

lemma case_validate_persisted_id [wp_simps]:
  "(case validate_persisted_id v fld of Inl e \<Rightarrow> f e | Inr u \<Rightarrow> g u) =
     (if persisted_id v then g () else f (id_error v fld))"
  by (simp add: validate_persisted_id_def persisted_id_def id_error_def)

lemma wp_read_jsonI [wp_intro]:
  "(\<And>v n. calls s \<le> n \<Longrightarrow> j = Intact v \<Longrightarrow> Q v (s\<lparr>calls := n\<rparr>)) \<Longrightarrow>
   (\<And>e n. calls s \<le> n \<Longrightarrow> R (Fail e) (s\<lparr>calls := n\<rparr>)) \<Longrightarrow> wp (read_json E j) Q R s"
  unfolding read_json_def by (auto simp: wp_simps split: json_file.split intro!: wp_intro)

lemma wp_write_jsonI [wp_intro]:
  assumes "\<And>n. calls s \<le> n \<Longrightarrow> Q () (put (Intact v) (s\<lparr>calls := n\<rparr>))"
    and "\<And>e n. calls s \<le> n \<Longrightarrow> R (Fail e) (s\<lparr>calls := n\<rparr>)"
    and "\<And>e n. calls s \<le> n \<Longrightarrow> R (Fail e) (put Torn (s\<lparr>calls := n\<rparr>))"
  shows "wp (write_json E put v) Q R s"
  unfolding write_json_def by (auto simp: wp_simps assms intro!: wp_intro)

lemma wp_list_entryI [wp_intro]:
  "(\<And>n. calls s \<le> n \<Longrightarrow> ckd_record (snd ie) \<noteq> Some Torn \<Longrightarrow> Q (intact_record ie) (s\<lparr>calls := n\<rparr>)) \<Longrightarrow>
   (\<And>e n. calls s \<le> n \<Longrightarrow> R (Fail e) (s\<lparr>calls := n\<rparr>)) \<Longrightarrow> wp (list_entry E ie) Q R s"
  unfolding list_entry_def
  by (auto simp: wp_simps intact_record_def split: option.split intro!: wp_intro)

lemma wp_list_entriesI:
  "(\<And>n. calls s \<le> n \<Longrightarrow> readable es \<Longrightarrow> Q (map intact_record es) (s\<lparr>calls := n\<rparr>)) \<Longrightarrow>
   (\<And>e n. calls s \<le> n \<Longrightarrow> R (Fail e) (s\<lparr>calls := n\<rparr>)) \<Longrightarrow> wp (mapE (list_entry E) es) Q R s"
proof (induction es arbitrary: s Q)
  case Nil
  from Nil.prems(1) [of "calls s"] show ?case by (simp add: wp_simps readable_def)
next
  case (Cons ie es)
  show ?case
    by (auto simp: wp_simps readable_def intro!: wp_intro Cons.IH Cons.prems [unfolded readable_def, simplified])
qed

lemma map_filter_id_map: "List.map_filter id (map f xs) = List.map_filter f xs"
  by (induction xs) (simp_all add: List.map_filter_simps split: option.split)

lemma wp_list_checkpoint_recordsI [wp_intro]:
  assumes "\<And>n. calls s \<le> n \<Longrightarrow> readable (ents (lineages s w)) \<Longrightarrow>
      Q (sort_records (records_in (ents (lineages s w)))) (s\<lparr>calls := n\<rparr>)"
    and "\<And>e n. calls s \<le> n \<Longrightarrow> R (Fail e) (s\<lparr>calls := n\<rparr>)"
  shows "wp (list_checkpoint_records E w) Q R s"
  unfolding list_checkpoint_records_def using assms
  by (auto simp: wp_simps map_filter_id_map records_in_def readable_def List.map_filter_simps sort_records_def
      split: option.split intro!: wp_intro wp_list_entriesI)

lemma mk_lineage_dir_eq:
  "mk_lineage_dir w s = s\<lparr>lineages := (lineages s)(w := Some (case lineages s w of None \<Rightarrow> empty_lineage_dir | Some d \<Rightarrow> d))\<rparr>"
  by (simp add: mk_lineage_dir_def split: option.split) (simp add: fun_upd_idem)

lemma ents_mk [simp]: "ln_entries (case l of None \<Rightarrow> empty_lineage_dir | Some d \<Rightarrow> d) = ents l"
  and headf_mk [simp]: "ln_head (case l of None \<Rightarrow> empty_lineage_dir | Some d \<Rightarrow> d) = headf l"
  by (simp_all add: empty_lineage_dir_def split: option.split)

lemma wp_ensure_workspaceI [wp_intro]:
  assumes "\<And>n d. calls s \<le> n \<Longrightarrow> persisted_id w \<Longrightarrow> ln_entries d = ents (lineages s w) \<Longrightarrow>
      ln_head d \<noteq> None \<Longrightarrow> (headf (lineages s w) \<noteq> None \<Longrightarrow> ln_head d = headf (lineages s w)) \<Longrightarrow>
      Q () (s\<lparr>calls := n, lineages := (lineages s)(w \<mapsto> d)\<rparr>)"
    and "\<And>e n l. calls s \<le> n \<Longrightarrow> ents l = ents (lineages s w) \<Longrightarrow>
      R (Fail e) (s\<lparr>calls := n, lineages := (lineages s)(w := l)\<rparr>)"
  shows "wp (ensure_workspace E w) Q R s"
  unfolding ensure_workspace_def
  using assms(2) [of _ "lineages s w"] assms(2) [of "calls s" "lineages s w"]
  by (auto simp: wp_simps mk_lineage_dir_eq head_file_of_headf upd_lineage_def intro!: wp_intro assms)


lemma wp_head_checkpoint_idI [wp_intro]:
  assumes "\<And>n c. calls s \<le> n \<Longrightarrow> persisted_id w \<Longrightarrow>
      (\<And>h. headf (lineages s w) = Some h \<Longrightarrow> h = Intact \<lparr>lh_head_checkpoint_id = c\<rparr>) \<Longrightarrow>
      (headf (lineages s w) = None \<Longrightarrow> c = last_id (sort_records (records_in (ents (lineages s w))))) \<Longrightarrow>
      Q c (s\<lparr>calls := n\<rparr>)"
    and "\<And>e n. calls s \<le> n \<Longrightarrow> R (Fail e) (s\<lparr>calls := n\<rparr>)"
  shows "wp (head_checkpoint_id E w) Q R s"
  unfolding head_checkpoint_id_def using assms(2) [of "calls s"]
  by (auto simp: wp_simps head_file_of_headf split: option.split intro!: wp_intro assms)

lemma wp_set_head_checkpoint_idI [wp_intro]:
  assumes "\<And>n d. calls s \<le> n \<Longrightarrow> persisted_id w \<Longrightarrow> ln_entries d = ents (lineages s w) \<Longrightarrow>
      ln_head d = Some (Intact \<lparr>lh_head_checkpoint_id = c\<rparr>) \<Longrightarrow>
      Q () (s\<lparr>calls := n, lineages := (lineages s)(w \<mapsto> d)\<rparr>)"
    and "\<And>e n l. calls s \<le> n \<Longrightarrow> ents l = ents (lineages s w) \<Longrightarrow>
      R (Fail e) (s\<lparr>calls := n, lineages := (lineages s)(w := l)\<rparr>)"
  shows "wp (set_head_checkpoint_id E w c) Q R s"
  unfolding set_head_checkpoint_id_def
  using assms(2) [of "calls s" "lineages s w"]
  by (auto simp: wp_simps upd_lineage_def split: option.split intro!: wp_intro assms)

lemma map_entry_update: "AList.map_entry c f (AList.update c e es) = AList.update c (f e) es"
  by (induction es) auto

lemma update_update: "AList.update c e (AList.update c x es) = AList.update c e es"
  by (induction es) auto

lemma update_triv: "map_of es c = Some e \<Longrightarrow> AList.update c e es = es"
  by (induction es) (auto split: if_splits)

lemma map_entry_eq_update: "map_of es c = Some e \<Longrightarrow> AList.map_entry c f es = AList.update c (f e) es"
  by (induction es) (auto split: if_splits)

lemma append_eq_update: "c \<notin> fst ` set es \<Longrightarrow> es @ [(c, e)] = AList.update c e es"
  by (induction es) auto

text \<open>Creating a checkpoint directory that may exist already.\<close>

definition old_entry :: "(string \<times> checkpoint_dir) list \<Rightarrow> string \<Rightarrow> checkpoint_dir" where
  "old_entry es c = (case map_of es c of None \<Rightarrow> empty_checkpoint_dir | Some e \<Rightarrow> e)"

lemma mk_entries:
  "(if c \<in> fst ` set es then es else es @ [(c, empty_checkpoint_dir)]) = AList.update c (old_entry es c) es"
proof (cases "map_of es c")
  case None
  then have "c \<notin> fst ` set es" by (simp add: map_of_eq_None_iff)
  with None show ?thesis by (simp add: old_entry_def append_eq_update)
next
  case (Some e)
  then have "c \<in> fst ` set es" by (metis map_of_eq_None_iff option.distinct(1))
  with Some show ?thesis by (simp add: old_entry_def update_triv)
qed

lemma mk_checkpoint_dir_eq:
  "mk_checkpoint_dir w c = upd_lineage w (\<lambda>d. d\<lparr>ln_entries := AList.update c (old_entry (ln_entries d) c) (ln_entries d)\<rparr>)"
  unfolding mk_checkpoint_dir_def
  by (rule arg_cong [where f = "upd_lineage w"]) (simp add: fun_eq_iff flip: mk_entries)


text \<open>
  The directories an interrupted operation on checkpoint \<open>c\<close> may leave: the entry of \<open>c\<close> is
  damaged, but a record that can still be read from it is its old one or one for \<open>c\<close>.
\<close>

definition rec_id :: "checkpoint_record \<Rightarrow> string" where
  "rec_id r = cks_checkpoint_id (ckr_summary r)"

definition touched :: "string \<Rightarrow> (string \<times> checkpoint_dir) list \<Rightarrow> (string \<times> checkpoint_dir) list \<Rightarrow> bool" where
  "touched c es es' \<longleftrightarrow> es' = es \<or> (\<exists>e. es' = AList.update c e es \<and>
     (\<forall>r. ckd_record e = Some (Intact r) \<longrightarrow> rec_id r = c \<or> ckd_record (old_entry es c) = Some (Intact r)))"

lemma touched_refl [simp]: "touched c es es"
  by (simp add: touched_def)

lemma touched_update:
  "(\<And>r. ckd_record e = Some (Intact r) \<Longrightarrow> rec_id r = c \<or> ckd_record (old_entry es c) = Some (Intact r)) \<Longrightarrow>
    touched c es (AList.update c e es)"
  by (auto simp: touched_def)

lemma disk_of_simps [simp]:
  "disk_of (s\<lparr>calls := n\<rparr>) = disk_of s"
  "disk_of (s\<lparr>lineages := L\<rparr>) = disk_of s"
  "disk_of (s\<lparr>calls := n, lineages := L\<rparr>) = disk_of s"
  by (simp_all add: disk_of_def fun_eq_iff)

lemma checkpoint_dir_filled [simp]:
  "e\<lparr>ckd_snapshot := a, ckd_record := b\<rparr> = \<lparr>ckd_record = b, ckd_snapshot = a\<rparr>"
  by (cases e) simp

lemma wp_save_checkpointI [wp_intro]:
  assumes "\<And>n d. calls s \<le> n \<Longrightarrow> persisted_id (lease_workspace_id lease) \<Longrightarrow>
      persisted_id (cks_checkpoint_id (ckr_summary r)) \<Longrightarrow>
      cks_workspace_id (ckr_summary r) = lease_workspace_id lease \<Longrightarrow>
      disk_of s (lease_workspace_id lease) \<noteq> None \<Longrightarrow>
      ln_entries d = AList.update (cks_checkpoint_id (ckr_summary r))
        \<lparr>ckd_record = Some (Intact r), ckd_snapshot = disk_of s (lease_workspace_id lease)\<rparr>
        (ents (lineages s (lease_workspace_id lease))) \<Longrightarrow>
      Q () (s\<lparr>calls := n, lineages := (lineages s)(lease_workspace_id lease \<mapsto> d)\<rparr>)"
    and "\<And>e n l. calls s \<le> n \<Longrightarrow>
      touched (cks_checkpoint_id (ckr_summary r)) (ents (lineages s (lease_workspace_id lease))) (ents l) \<Longrightarrow>
      R (Fail e) (s\<lparr>calls := n, lineages := (lineages s)(lease_workspace_id lease := l)\<rparr>)"
  shows "wp (save_checkpoint E lease r) Q R s"
  unfolding save_checkpoint_def Let_def mk_checkpoint_dir_eq
  using assms(2) [of "calls s" "lineages s (lease_workspace_id lease)"]
  by (auto simp: wp_simps upd_lineage_def upd_entry_def map_entry_update update_update
      split: option.split intro!: wp_intro assms touched_update simp: rec_id_def)

lemma wp_load_checkpointI [wp_intro]:
  assumes "\<And>n. calls s \<le> n \<Longrightarrow> record_file_of s w c = None \<Longrightarrow> Q None (s\<lparr>calls := n\<rparr>)"
    and "\<And>n r. calls s \<le> n \<Longrightarrow> record_file_of s w c = Some (Intact r) \<Longrightarrow> Q (Some r) (s\<lparr>calls := n\<rparr>)"
    and "\<And>e n. calls s \<le> n \<Longrightarrow> R (Fail e) (s\<lparr>calls := n\<rparr>)"
  shows "wp (load_checkpoint E w c) Q R s"
proof -
  have [simp]: "record_file_of (s\<lparr>calls := n\<rparr>) w c = record_file_of s w c" for n
    by (simp add: record_file_of_def entry_of_def)
  show ?thesis
    unfolding load_checkpoint_def using assms(3) [of "calls s"]
    by (auto simp: wp_simps split: option.split intro!: wp_intro assms)
qed

lemma wp_list_checkpointsI [wp_intro]:
  assumes "\<And>n. calls s \<le> n \<Longrightarrow> readable (ents (lineages s w)) \<Longrightarrow>
      Q (sort_records (records_in (ents (lineages s w)))) (s\<lparr>calls := n\<rparr>)"
    and "\<And>e n. calls s \<le> n \<Longrightarrow> R (Fail e) (s\<lparr>calls := n\<rparr>)"
  shows "wp (list_checkpoints E w) Q R s"
  unfolding list_checkpoints_def using assms(2) [of "calls s"]
  by (auto simp: wp_simps intro!: wp_intro assms)

lemma delete_none: "map_of es c = None \<Longrightarrow> AList.delete c es = es"
  by (simp add: delete_id map_of_eq_None_iff)

lemma wp_delete_checkpointI [wp_intro]:
  assumes "\<And>n l. calls s \<le> n \<Longrightarrow> persisted_id w \<Longrightarrow> headf l = headf (lineages s w) \<Longrightarrow>
      ents l = AList.delete c (ents (lineages s w)) \<Longrightarrow>
      Q () (s\<lparr>calls := n, lineages := (lineages s)(w := l)\<rparr>)"
    and "\<And>e n l. calls s \<le> n \<Longrightarrow> headf l = headf (lineages s w) \<Longrightarrow> touched c (ents (lineages s w)) (ents l) \<Longrightarrow>
      R (Fail e) (s\<lparr>calls := n, lineages := (lineages s)(w := l)\<rparr>)"
  shows "wp (delete_checkpoint E w c) Q R s"
proof (cases "lineages s w")
  case None
  show ?thesis
    unfolding delete_checkpoint_def
    using assms(1) [of _ None] assms(2) [of _ None] assms(2) [of "calls s" None] None
    by (auto simp: wp_simps entry_of_ents fun_upd_idem intro!: wp_intro)
next
  case (Some d)
  show ?thesis
    unfolding delete_checkpoint_def
    using assms(1) [of _ "Some d"] assms(2) [of _ "Some d"] assms(2) [of "calls s" "Some d"] Some
    by (auto simp: wp_simps entry_of_ents delete_none upd_lineage_def upd_entry_def rm_checkpoint_dir_def
        fun_upd_idem map_entry_eq_update keep_some_def old_entry_def
        intro!: wp_intro assms touched_update split: if_splits)
qed

lemma wp_copy_checkpoint_snapshotI [wp_intro]:
  assumes "\<And>n. calls s \<le> n \<Longrightarrow> persisted_id w \<Longrightarrow> snapshot_of s w c \<noteq> None \<Longrightarrow>
      Q () (s\<lparr>calls := n, workspaces := (workspaces s)(dest \<mapsto> snapshot_of s w c)\<rparr>)"
    and "\<And>e n. calls s \<le> n \<Longrightarrow> R (Fail e) (s\<lparr>calls := n\<rparr>)"
    and "\<And>e n d. calls s \<le> n \<Longrightarrow> R (Fail e) (s\<lparr>calls := n, workspaces := (workspaces s)(dest \<mapsto> Some d)\<rparr>)"
  shows "wp (copy_checkpoint_snapshot E w c dest) Q R s"
  unfolding copy_checkpoint_snapshot_def using assms(1) assms(2) [of "calls s"]
  by (auto simp: wp_simps put_disk_def intro!: wp_intro assms)


section \<open>Well-formed lineages\<close>

text \<open>Directory names are distinct and a readable record names the directory it is in.\<close>

definition entries_ok :: "(string \<times> checkpoint_dir) list \<Rightarrow> bool" where
  "entries_ok es \<longleftrightarrow> distinct (map fst es) \<and>
     (\<forall>c e r. map_of es c = Some e \<longrightarrow> ckd_record e = Some (Intact r) \<longrightarrow> rec_id r = c)"

definition lineages_ok :: "'z store_files_scheme \<Rightarrow> bool" where
  "lineages_ok s \<longleftrightarrow> (\<forall>w. entries_ok (ents (lineages s w)))"

lemma entries_ok_Nil [simp]: "entries_ok []"
  by (simp add: entries_ok_def)

lemma entries_ok_update:
  "entries_ok es \<Longrightarrow> (\<And>r. ckd_record e = Some (Intact r) \<Longrightarrow> rec_id r = c) \<Longrightarrow> entries_ok (AList.update c e es)"
  by (auto simp: entries_ok_def update_conv' distinct_update)

lemma entries_ok_delete: "entries_ok es \<Longrightarrow> entries_ok (AList.delete c es)"
  by (auto simp: entries_ok_def delete_conv' distinct_delete split: if_splits)

lemma old_entry_ok: "entries_ok es \<Longrightarrow> ckd_record (old_entry es c) = Some (Intact r) \<Longrightarrow> rec_id r = c"
  by (auto simp: entries_ok_def old_entry_def empty_checkpoint_dir_def split: option.splits)

lemma entries_ok_touched: "entries_ok es \<Longrightarrow> touched c es es' \<Longrightarrow> entries_ok es'"
  by (auto simp: touched_def intro!: entries_ok_update dest: old_entry_ok)

lemma entries_ok_set:
  "entries_ok es \<longleftrightarrow> distinct (map fst es) \<and>
     (\<forall>c e r. (c, e) \<in> set es \<longrightarrow> ckd_record e = Some (Intact r) \<longrightarrow> rec_id r = c)"
  by (cases "distinct (map fst es)") (simp_all add: entries_ok_def)

lemma entries_ok_keep:
  assumes "entries_ok es"
  shows "entries_ok (map (\<lambda>(c, e). (c, keep_some kept c e)) (filter (\<lambda>(c, _). kept c) es))"
proof -
  have "map fst (map (\<lambda>(c, e). (c, keep_some kept c e)) xs) = map fst xs" for xs
    by (induction xs) auto
  moreover have "distinct (map fst (filter (\<lambda>(c, _). kept c) es))"
    using assms by (simp add: entries_ok_set distinct_map_filter)
  ultimately have "distinct (map fst (map (\<lambda>(c, e). (c, keep_some kept c e)) (filter (\<lambda>(c, _). kept c) es)))"
    by (simp only:)
  moreover have "rec_id r = c"
    if "(c, e) \<in> set (map (\<lambda>(c, e). (c, keep_some kept c e)) (filter (\<lambda>(c, _). kept c) es))"
      and "ckd_record e = Some (Intact r)" for c e r
    using that assms by (auto simp: entries_ok_set keep_some_def split: if_splits)
  ultimately show ?thesis unfolding entries_ok_set by blast
qed

lemma intact_record_Some: "intact_record ie = Some r \<longleftrightarrow> ckd_record (snd ie) = Some (Intact r)"
  by (simp add: intact_record_def split: option.split json_file.split)

lemma in_records_iff: "r \<in> set (records_in es) \<longleftrightarrow> (\<exists>ie \<in> set es. intact_record ie = Some r)"
  by (induction es) (auto simp: records_in_def List.map_filter_simps split: option.splits)

lemma set_sort_records [simp]: "set (sort_records rs) = set rs"
  by (simp add: sort_records_def)

text \<open>In a well-formed directory a listed record is the one in its own checkpoint directory.\<close>

lemma listed_record:
  assumes "entries_ok es" and "r \<in> set (sort_records (records_in es))"
  shows "\<exists>e. map_of es (rec_id r) = Some e \<and> ckd_record e = Some (Intact r)"
proof -
  from assms(2) obtain ie where ie: "ie \<in> set es" "intact_record ie = Some r"
    by (auto simp: in_records_iff)
  then obtain c e where ce: "(c, e) \<in> set es" "ckd_record e = Some (Intact r)"
    by (metis (no_types, lifting) intact_record_Some prod.collapse)
  with assms(1) have "map_of es c = Some e" by (simp add: entries_ok_def)
  with ce assms(1) show ?thesis by (auto simp: entries_ok_def)
qed


section \<open>Runs without failures\<close>

lemma wp_total_read_json [wp_total]:
  "no_faults E \<Longrightarrow> (\<And>n. calls s \<le> n \<Longrightarrow> Q v (s\<lparr>calls := n\<rparr>)) \<Longrightarrow> wp (read_json E (Intact v)) Q R s"
  unfolding read_json_def by (auto simp: wp_simps intro!: wp_total)

lemma wp_total_write_json [wp_total]:
  "no_faults E \<Longrightarrow> (\<And>n. calls s \<le> n \<Longrightarrow> Q () (put (Intact v) (s\<lparr>calls := n\<rparr>))) \<Longrightarrow> wp (write_json E put v) Q R s"
  unfolding write_json_def by (auto simp: wp_simps intro!: wp_total)

lemma wp_total_list_entry [wp_total]:
  "no_faults E \<Longrightarrow> ckd_record (snd ie) \<noteq> Some Torn \<Longrightarrow>
    (\<And>n. calls s \<le> n \<Longrightarrow> Q (intact_record ie) (s\<lparr>calls := n\<rparr>)) \<Longrightarrow> wp (list_entry E ie) Q R s"
  unfolding list_entry_def
  by (cases "ckd_record (snd ie)"; cases "the (ckd_record (snd ie))")
    (auto simp: wp_simps intact_record_def intro!: wp_total)

lemma wp_total_list_entries:
  "no_faults E \<Longrightarrow> readable es \<Longrightarrow> (\<And>n. calls s \<le> n \<Longrightarrow> Q (map intact_record es) (s\<lparr>calls := n\<rparr>)) \<Longrightarrow>
    wp (mapE (list_entry E) es) Q R s"
proof (induction es arbitrary: s Q)
  case Nil
  from Nil.prems(3) [of "calls s"] show ?case by (simp add: wp_simps)
next
  case (Cons ie es)
  then show ?case
    by (auto simp: wp_simps readable_def intro!: wp_total Cons.IH [unfolded readable_def, simplified])
qed

lemma wp_total_list_checkpoint_records [wp_total]:
  assumes "no_faults E" and "readable (ents (lineages s w))"
    and "\<And>n. calls s \<le> n \<Longrightarrow> Q (sort_records (records_in (ents (lineages s w)))) (s\<lparr>calls := n\<rparr>)"
  shows "wp (list_checkpoint_records E w) Q R s"
  unfolding list_checkpoint_records_def using assms
  by (auto simp: wp_simps map_filter_id_map records_in_def readable_def List.map_filter_simps sort_records_def
      split: option.split intro!: wp_total wp_total_list_entries)

lemma wp_total_ensure_workspace [wp_total]:
  assumes "no_faults E" and "persisted_id w" and "readable (ents (lineages s w))"
    and "\<And>n d. calls s \<le> n \<Longrightarrow> ln_entries d = ents (lineages s w) \<Longrightarrow>
      ln_head d \<noteq> None \<Longrightarrow> ln_head d \<noteq> Some Torn \<or> headf (lineages s w) = Some Torn \<Longrightarrow>
      (headf (lineages s w) \<noteq> None \<Longrightarrow> ln_head d = headf (lineages s w)) \<Longrightarrow>
      Q () (s\<lparr>calls := n, lineages := (lineages s)(w \<mapsto> d)\<rparr>)"
  shows "wp (ensure_workspace E w) Q R s"
  unfolding ensure_workspace_def using assms(1-3)
  by (auto simp: wp_simps mk_lineage_dir_eq head_file_of_headf upd_lineage_def intro!: wp_total assms(4))

lemma wp_total_head_checkpoint_id [wp_total]:
  assumes "no_faults E" and "persisted_id w" and "readable (ents (lineages s w))"
    and "headf (lineages s w) \<noteq> Some Torn"
    and "\<And>n c. calls s \<le> n \<Longrightarrow>
      c = (case headf (lineages s w) of Some (Intact h) \<Rightarrow> lh_head_checkpoint_id h
            | _ \<Rightarrow> last_id (sort_records (records_in (ents (lineages s w))))) \<Longrightarrow>
      Q c (s\<lparr>calls := n\<rparr>)"
  shows "wp (head_checkpoint_id E w) Q R s"
proof (cases "headf (lineages s w)")
  case None
  then show ?thesis
    unfolding head_checkpoint_id_def using assms
    by (auto simp: wp_simps head_file_of_headf intro!: wp_total)
next
  case (Some j)
  then show ?thesis
    unfolding head_checkpoint_id_def using assms
    by (cases j) (auto simp: wp_simps head_file_of_headf intro!: wp_total)
qed

lemma wp_total_set_head_checkpoint_id [wp_total]:
  assumes "no_faults E" and "persisted_id w" and "readable (ents (lineages s w))"
    and "\<And>i. c = Some i \<Longrightarrow> persisted_id i"
    and "\<And>n d. calls s \<le> n \<Longrightarrow> ln_entries d = ents (lineages s w) \<Longrightarrow>
      ln_head d = Some (Intact \<lparr>lh_head_checkpoint_id = c\<rparr>) \<Longrightarrow>
      Q () (s\<lparr>calls := n, lineages := (lineages s)(w \<mapsto> d)\<rparr>)"
  shows "wp (set_head_checkpoint_id E w c) Q R s"
  unfolding set_head_checkpoint_id_def using assms(1-4)
  by (cases c) (auto simp: wp_simps upd_lineage_def intro!: wp_total assms(5))


lemma wp_total_save_checkpoint [wp_total]:
  assumes "no_faults E" and "persisted_id (lease_workspace_id lease)"
    and "persisted_id (cks_checkpoint_id (ckr_summary r))"
    and "cks_workspace_id (ckr_summary r) = lease_workspace_id lease"
    and "\<And>i. ckr_source_checkpoint_id r = Some i \<Longrightarrow> persisted_id i"
    and "readable (ents (lineages s (lease_workspace_id lease)))"
    and "disk_of s (lease_workspace_id lease) \<noteq> None"
    and "\<And>n d. calls s \<le> n \<Longrightarrow>
      ln_entries d = AList.update (cks_checkpoint_id (ckr_summary r))
        \<lparr>ckd_record = Some (Intact r), ckd_snapshot = disk_of s (lease_workspace_id lease)\<rparr> (ents (lineages s (lease_workspace_id lease))) \<Longrightarrow>
      Q () (s\<lparr>calls := n, lineages := (lineages s)(lease_workspace_id lease \<mapsto> d)\<rparr>)"
  shows "wp (save_checkpoint E lease r) Q R s"
  unfolding save_checkpoint_def Let_def mk_checkpoint_dir_eq using assms(1-7)
  by (cases "ckr_source_checkpoint_id r")
    (auto simp: wp_simps upd_lineage_def upd_entry_def map_entry_update update_update intro!: wp_total assms(8))

lemma wp_total_list_checkpoints [wp_total]:
  assumes "no_faults E" and "persisted_id w" and "readable (ents (lineages s w))"
    and "\<And>n. calls s \<le> n \<Longrightarrow> Q (sort_records (records_in (ents (lineages s w)))) (s\<lparr>calls := n\<rparr>)"
  shows "wp (list_checkpoints E w) Q R s"
  unfolding list_checkpoints_def using assms by (auto simp: wp_simps intro!: wp_total)

lemma wp_total_load_checkpoint:
  assumes "no_faults E" and "persisted_id w" and "persisted_id c" and "record_file_of s w c = Some (Intact r)"
    and "\<And>n. calls s \<le> n \<Longrightarrow> Q (Some r) (s\<lparr>calls := n\<rparr>)"
  shows "wp (load_checkpoint E w c) Q R s"
proof -
  have [simp]: "record_file_of (s\<lparr>calls := n\<rparr>) w c = record_file_of s w c" for n
    by (simp add: record_file_of_def entry_of_def)
  show ?thesis
    unfolding load_checkpoint_def using assms by (auto simp: wp_simps intro!: wp_total)
qed

lemma wp_total_delete_checkpoint [wp_total]:
  assumes "no_faults E" and "persisted_id w" and "persisted_id c" and "lineages s w \<noteq> None"
    and "\<And>n d. calls s \<le> n \<Longrightarrow> ln_head d = headf (lineages s w) \<Longrightarrow>
      ln_entries d = AList.delete c (ents (lineages s w)) \<Longrightarrow>
      Q () (s\<lparr>calls := n, lineages := (lineages s)(w \<mapsto> d)\<rparr>)"
  shows "wp (delete_checkpoint E w c) Q R s"
proof -
  from assms(4) obtain d where d: "lineages s w = Some d" by blast
  show ?thesis
    unfolding delete_checkpoint_def using assms(1-3) assms(5) [of _ d] d
    by (auto simp: wp_simps entry_of_ents delete_none upd_lineage_def rm_checkpoint_dir_def fun_upd_idem
        intro!: wp_total assms(5))
qed

lemma wp_total_copy_checkpoint_snapshot [wp_total]:
  assumes "no_faults E" and "persisted_id w" and "persisted_id c" and "snapshot_of s w c \<noteq> None"
    and "\<And>n. calls s \<le> n \<Longrightarrow> Q () (s\<lparr>calls := n, workspaces := (workspaces s)(dest \<mapsto> snapshot_of s w c)\<rparr>)"
  shows "wp (copy_checkpoint_snapshot E w c dest) Q R s"
  unfolding copy_checkpoint_snapshot_def using assms
  by (auto simp: wp_simps put_disk_def intro!: wp_total)

end
