(* ===== verification/Workspace_Store.thy ===== *)
theory Workspace_Store
  imports Lineage
begin

text \<open>
  The workspace store (\<open>src/workspace/store.rs\<close>): the directories below the state
  directory, the disk image of a workspace and how it is created, resized and removed,
  and the run directories of the sandboxes. Formatting and the ext4 tools are third-party
  code: what they write is a parameter of the environment.
\<close>

section \<open>Paths\<close>

record workspace_store =
  wst_state_dir :: string
  wst_disk_size_mib :: u64

record run_layout =
  run_sandbox_id :: uuid
  run_root_dir :: string
  run_runtime_dir :: string
  run_vsock_socket :: string
  run_runner_config :: string
  run_runner_log :: string
  run_guest_console_log :: string

definition workspaces_dir :: "workspace_store \<Rightarrow> string" where
  "workspaces_dir W = path_join (wst_state_dir W) ''workspaces''"

definition runs_dir :: "workspace_store \<Rightarrow> string" where
  "runs_dir W = path_join (wst_state_dir W) ''runs''"

definition checkpoints_dir :: "workspace_store \<Rightarrow> string" where
  "checkpoints_dir W = path_join (wst_state_dir W) ''checkpoints''"

definition vsock_dir :: "'e env_scheme \<Rightarrow> string" where
  "vsock_dir E = ''/tmp/sagens-vsock-'' @ decimal (euid E)"

definition vsock_socket_path :: "'e env_scheme \<Rightarrow> uuid \<Rightarrow> string" where
  "vsock_socket_path E u = path_join (vsock_dir E) (uuid_simple E u @ ''.sock'')"

definition workspace_dir :: "workspace_store \<Rightarrow> string \<Rightarrow> string" where
  "workspace_dir W w = path_join (workspaces_dir W) w"

definition create_private_dir :: "'e env_scheme \<Rightarrow> string \<Rightarrow> ('z host_scheme \<Rightarrow> 'z host_scheme) \<Rightarrow> ('z host_scheme, unit) io" where
  "create_private_dir E path mk = make_private_dir E path ''creating runtime state directory'' mk"

definition ensure_layout :: "'e env_scheme \<Rightarrow> workspace_store \<Rightarrow> ('z host_scheme, unit) io" where
  "ensure_layout E W = forE [workspaces_dir W, runs_dir W, checkpoints_dir W, vsock_dir E]
     (\<lambda>dir. create_private_dir E dir (\<lambda>s. s))"

section \<open>Disks\<close>

definition zero_disk :: "u64 \<Rightarrow> disk" where
  "zero_disk n = \<lparr>disk_len = n, disk_byte = (\<lambda>_. 0)\<rparr>"

text \<open>\<open>File::set_len\<close>: bytes below both lengths stay, new ones are zero.\<close>

definition set_len :: "u64 \<Rightarrow> disk \<Rightarrow> disk" where
  "set_len n d = \<lparr>disk_len = n, disk_byte = (\<lambda>i. if i < disk_len d \<and> i < n then disk_byte d i else 0)\<rparr>"

definition upd_disk :: "string \<Rightarrow> (disk \<Rightarrow> disk) \<Rightarrow> 'z store_files_scheme \<Rightarrow> 'z store_files_scheme" where
  "upd_disk w f s = s\<lparr>workspaces := (workspaces s)(w := map_option (map_option f) (workspaces s w))\<rparr>"

definition mk_workspace_dir :: "string \<Rightarrow> 'z store_files_scheme \<Rightarrow> 'z store_files_scheme" where
  "mk_workspace_dir w s = s\<lparr>workspaces := (workspaces s)(w := Some (disk_of s w))\<rparr>"

text \<open>The multiplication is \<open>u64\<close> arithmetic and wraps in a release build.\<close>

definition mib_bytes :: "u64 \<Rightarrow> u64" where
  "mib_bytes mib = mib * 1024 * 1024"

definition format_ext4 :: "'e env_scheme \<Rightarrow> string \<Rightarrow> ('z store_files_scheme, unit) io" where
  "format_ext4 E w =
     seqE (sys_backend E ''opening ext4 workspace image'')
     (bindE (ask (torn_disk_at E)) (\<lambda>torn.
      seqE (sys_backend_damaging E ''formatting ext4 workspace image'' (put_disk w torn))
        (modifyE (upd_disk w (\<lambda>d. mkfs_ext4 E (disk_len d))))))"

definition prepare_workspace :: "'e env_scheme \<Rightarrow> workspace_store \<Rightarrow> string \<Rightarrow> ('z store_files_scheme, workspace_lease) io" where
  "prepare_workspace E W w =
     seqE (liftE (validate_persisted_id w ''workspace_id''))
     (seqE (create_private_dir E (workspace_dir W w) (mk_workspace_dir w))
     (seqE (ensure_workspace E w)
     (seqE (sys_io E ''checking workspace disk'')
     (bindE (getE (\<lambda>s. disk_of s w)) (\<lambda>disk.
      seqE (if disk = None then
              seqE (sys_io E ''creating workspace disk'')
              (seqE (modifyE (put_disk w (zero_disk 0)))
              (seqE (sys_io E ''sizing workspace disk'')
              (seqE (modifyE (upd_disk w (set_len (mib_bytes (wst_disk_size_mib W)))))
                (format_ext4 E w))))
            else returnE ())
        (returnE \<lparr>lease_workspace_id = w,
                  lease_disk_path = path_join (workspace_dir W w) ''workspace.raw''\<rparr>))))))"

definition workspace_disk_size_mib :: "'e env_scheme \<Rightarrow> string \<Rightarrow> ('z store_files_scheme, u64) io" where
  "workspace_disk_size_mib E w =
     seqE (liftE (validate_persisted_id w ''workspace_id''))
     (seqE (sys_io E ''reading workspace disk metadata'')
     (bindE (getE (\<lambda>s. disk_of s w)) (\<lambda>disk. case disk of
        None \<Rightarrow> throwE (Io ''reading workspace disk metadata'' ''No such file or directory (os error 2)'')
      | Some d \<Rightarrow> returnE (disk_len d div (1024 * 1024)))))"

section \<open>External ext4 tools\<close>

text \<open>
  The candidate programs are tried in turn: one that is not installed or whose exit code is
  not accepted is skipped; whatever it ran may have changed the disk.
\<close>

fun try_tools :: "'e env_scheme \<Rightarrow> string \<Rightarrow> (int option \<Rightarrow> bool) \<Rightarrow> string \<Rightarrow> string list \<Rightarrow>
    ('z store_files_scheme, unit) io" where
  "try_tools E w accepted missing [] = throwE (UnsupportedHost missing)"
| "try_tools E w accepted missing (program # programs) =
     bindE (ask (tool_at E)) (\<lambda>outcome.
     bindE (ask (tool_effect_at E)) (\<lambda>effect. case outcome of
        NotInstalled \<Rightarrow> try_tools E w accepted missing programs
      | SpawnFailed msg \<Rightarrow> throwE (Io (''spawning '' @ program) msg)
      | Exited code \<Rightarrow> seqE (modifyE (upd_disk w effect))
          (if accepted code then returnE () else try_tools E w accepted missing programs)))"

definition resize_ext4_programs :: "string list" where
  "resize_ext4_programs = [''resize2fs'', ''/opt/homebrew/opt/e2fsprogs/sbin/resize2fs'']"

definition ext4_check_programs :: "string list" where
  "ext4_check_programs = [''e2fsck'', ''/opt/homebrew/opt/e2fsprogs/sbin/e2fsck'']"

definition resize_ext4 :: "'e env_scheme \<Rightarrow> string \<Rightarrow> ('z store_files_scheme, unit) io" where
  "resize_ext4 E w = try_tools E w (\<lambda>code. code = Some 0)
     ''ext4 resize tooling not found; install resize2fs'' resize_ext4_programs"

definition check_ext4 :: "'e env_scheme \<Rightarrow> string \<Rightarrow> ('z store_files_scheme, unit) io" where
  "check_ext4 E w = try_tools E w (\<lambda>code. code = Some 0 \<or> code = Some 1)
     ''ext4 consistency tooling not found; install e2fsck'' ext4_check_programs"

definition resize_file_len :: "'e env_scheme \<Rightarrow> string \<Rightarrow> u64 \<Rightarrow> ('z store_files_scheme, unit) io" where
  "resize_file_len E w size_mib =
     seqE (sys_io E ''opening workspace disk for resize'')
     (seqE (sys_io E ''resizing workspace disk file'')
       (modifyE (upd_disk w (set_len (mib_bytes size_mib)))))"

definition resize_workspace :: "'e env_scheme \<Rightarrow> workspace_store \<Rightarrow> string \<Rightarrow> u64 \<Rightarrow> ('z store_files_scheme, unit) io" where
  "resize_workspace E W w new_size_mib =
     seqE (liftE (validate_persisted_id w ''workspace_id''))
     (if new_size_mib < 64 then throwE (InvalidConfig ''workspace disk must be at least 64 MiB'')
      else
        bindE (prepare_workspace E W w) (\<lambda>lease.
        bindE (workspace_disk_size_mib E w) (\<lambda>current_size_mib.
          if current_size_mib = new_size_mib then returnE ()
          else seqE (check_ext4 E w)
            (if current_size_mib < new_size_mib then
               seqE (resize_file_len E w new_size_mib) (resize_ext4 E w)
             else
               seqE (resize_ext4 E w) (seqE (resize_file_len E w new_size_mib) (check_ext4 E w))))))"

section \<open>Removal\<close>

text \<open>What an interrupted removal of a lineage directory leaves of it.\<close>

definition keep_lineage :: "(string \<Rightarrow> bool) \<Rightarrow> lineage_dir \<Rightarrow> lineage_dir" where
  "keep_lineage kept d = \<lparr>
     ln_head = (if kept ''head.json'' then ln_head d else None),
     ln_entries = map (\<lambda>(c, e). (c, keep_some kept c e)) (filter (\<lambda>(c, _). kept c) (ln_entries d))\<rparr>"

definition remove_workspace :: "'e env_scheme \<Rightarrow> string \<Rightarrow> ('z store_files_scheme, unit) io" where
  "remove_workspace E w =
     seqE (liftE (validate_persisted_id w ''workspace_id''))
     (seqE (sys_io E ''checking workspace state path'')
     (bindE (getE (\<lambda>s. workspaces s w)) (\<lambda>dir.
      seqE (if dir = None then returnE () else
              bindE (ask (kept_at E)) (\<lambda>kept.
              seqE (sys_io_damaging E ''removing workspace state path''
                      (\<lambda>s. s\<lparr>workspaces := (workspaces s)(w \<mapsto> if kept ''workspace.raw'' then disk_of s w else None)\<rparr>))
                (modifyE (\<lambda>s. s\<lparr>workspaces := (workspaces s)(w := None)\<rparr>))))
      (seqE (sys_io E ''checking workspace state path'')
      (bindE (getE (\<lambda>s. lineages s w)) (\<lambda>ldir.
        if ldir = None then returnE () else
          bindE (ask (kept_at E)) (\<lambda>kept.
          seqE (sys_io_damaging E ''removing workspace state path'' (upd_lineage w (keep_lineage kept)))
            (modifyE (\<lambda>s. s\<lparr>lineages := (lineages s)(w := None)\<rparr>)))))))))"

section \<open>Run directories\<close>

definition mk_path :: "string \<Rightarrow> 'z store_files_scheme \<Rightarrow> 'z store_files_scheme" where
  "mk_path p s = s\<lparr>run_paths := insert p (run_paths s)\<rparr>"

definition rm_path :: "string \<Rightarrow> 'z store_files_scheme \<Rightarrow> 'z store_files_scheme" where
  "rm_path p s = s\<lparr>run_paths := run_paths s - {p}\<rparr>"

definition layout_of :: "'e env_scheme \<Rightarrow> workspace_store \<Rightarrow> uuid \<Rightarrow> run_layout" where
  "layout_of E W u = (let root = path_join (runs_dir W) (uuid_string E u) in
     \<lparr>run_sandbox_id = u, run_root_dir = root, run_runtime_dir = path_join root ''runtime'',
      run_vsock_socket = vsock_socket_path E u,
      run_runner_config = path_join root ''libkrun-runner.json'',
      run_runner_log = path_join root ''libkrun-runner.log'',
      run_guest_console_log = path_join root ''guest-console.log''\<rparr>)"

definition prepare_run :: "'e env_scheme \<Rightarrow> workspace_store \<Rightarrow> ('z store_files_scheme, run_layout) io" where
  "prepare_run E W =
     bindE (new_v4 E) (\<lambda>u. let run = layout_of E W u in
     seqE (create_private_dir E (run_root_dir run) (mk_path (run_root_dir run)))
     (seqE (create_private_dir E (run_runtime_dir run) (\<lambda>s. s))
     (seqE (create_private_dir E (vsock_dir E) (\<lambda>s. s))
       (returnE run))))"

definition recycle_run :: "'e env_scheme \<Rightarrow> workspace_store \<Rightarrow> run_layout \<Rightarrow> ('z store_files_scheme, run_layout) io" where
  "recycle_run E W old =
     bindE (new_v4 E) (\<lambda>u. let run = layout_of E W u in
     seqE (create_private_dir E (vsock_dir E) (\<lambda>s. s))
     (seqE (sys_io E ''checking recycled run root'')
     (bindE (getE (\<lambda>s. run_root_dir old \<in> run_paths s)) (\<lambda>root_exists.
      seqE (if root_exists then
              seqE (sys_io E ''recycling run root'')
                (modifyE (\<lambda>s. mk_path (run_root_dir run) (rm_path (run_root_dir old) s)))
            else create_private_dir E (run_root_dir run) (mk_path (run_root_dir run)))
      (seqE (create_private_dir E (run_runtime_dir run) (\<lambda>s. s))
      (bindE (if run_vsock_socket old \<noteq> run_vsock_socket run then
                seqE (sys_io E ''checking recycled vsock socket path'')
                  (getE (\<lambda>s. run_vsock_socket old \<in> run_paths s))
              else returnE False) (\<lambda>stale.
       seqE (if stale then
               seqE (sys_io E ''removing recycled vsock socket path'')
                 (modifyE (rm_path (run_vsock_socket old)))
             else returnE ())
         (returnE run))))))))"

definition destroy_run :: "'e env_scheme \<Rightarrow> run_layout \<Rightarrow> ('z store_files_scheme, unit) io" where
  "destroy_run E run =
     seqE (sys_io E ''checking run root'')
     (bindE (getE (\<lambda>s. run_root_dir run \<in> run_paths s)) (\<lambda>root_exists.
      seqE (if root_exists then
              seqE (sys_io E ''removing run root'') (modifyE (rm_path (run_root_dir run)))
            else returnE ())
      (seqE (sys_io E ''checking vsock socket path'')
      (bindE (getE (\<lambda>s. run_vsock_socket run \<in> run_paths s)) (\<lambda>socket_exists.
        if socket_exists then
          seqE (sys_io E ''removing vsock socket path'') (modifyE (rm_path (run_vsock_socket run)))
        else returnE ())))))"


section \<open>What the operations do to a workspace\<close>

text \<open>
  An operation on workspace \<open>w\<close> changes the call counter, the lineage directory of \<open>w\<close> and
  the workspace directory of \<open>w\<close>. An existing disk survives \<open>prepare_workspace\<close>, also a
  failing one.
\<close>

lemma wp_create_private_dirI [wp_intro]:
  assumes "\<And>t n. (mk t)\<lparr>calls := n\<rparr> = mk (t\<lparr>calls := n\<rparr>)" "\<And>t. calls (mk t) = calls t"
    and "\<And>n. calls s \<le> n \<Longrightarrow> Q () (mk (s\<lparr>calls := n\<rparr>))"
    and "\<And>e n. calls s \<le> n \<Longrightarrow> R (Fail e) (s\<lparr>calls := n\<rparr>)"
    and "\<And>e n. calls s \<le> n \<Longrightarrow> R (Fail e) (mk (s\<lparr>calls := n\<rparr>))"
  shows "wp (create_private_dir E path mk) Q R s"
  unfolding create_private_dir_def by (auto simp: assms intro!: wp_intro)

lemma mk_workspace_dir_simps [simp]:
  "(mk_workspace_dir w s)\<lparr>calls := n\<rparr> = mk_workspace_dir w (s\<lparr>calls := n\<rparr>)"
  "calls (mk_workspace_dir w s) = calls s"
  "lineages (mk_workspace_dir w s) = lineages s"
  by (simp_all add: mk_workspace_dir_def)

lemma disk_of_workspaces [simp]:
  "disk_of (s\<lparr>workspaces := W\<rparr>) w = Option.bind (W w) (\<lambda>d. d)"
  "disk_of (s\<lparr>calls := n, workspaces := W\<rparr>) w = Option.bind (W w) (\<lambda>d. d)"
  "disk_of (s\<lparr>calls := n, lineages := L, workspaces := W\<rparr>) w = Option.bind (W w) (\<lambda>d. d)"
  by (simp_all add: disk_of_def)

lemma disk_of_Some: "disk_of s w = Some d \<longleftrightarrow> workspaces s w = Some (Some d)"
  by (cases "workspaces s w") (auto simp: disk_of_def)

lemma workspaces_triv_upd [simp]:
  "workspaces s w = x \<Longrightarrow> s\<lparr>calls := n, lineages := L, workspaces := (workspaces s)(w := x)\<rparr> = s\<lparr>calls := n, lineages := L\<rparr>"
  by (metis fun_upd_triv store_files_triv(4))

lemma wp_format_ext4I [wp_intro]:
  assumes "\<And>n. calls s \<le> n \<Longrightarrow> Q () (upd_disk w (\<lambda>d. mkfs_ext4 E (disk_len d)) (s\<lparr>calls := n\<rparr>))"
    and "\<And>e n. calls s \<le> n \<Longrightarrow> R (Fail e) (s\<lparr>calls := n\<rparr>)"
    and "\<And>e n d. calls s \<le> n \<Longrightarrow> R (Fail e) (put_disk w d (s\<lparr>calls := n\<rparr>))"
  shows "wp (format_ext4 E w) Q R s"
  unfolding format_ext4_def by (auto simp: wp_simps assms intro!: wp_intro)

lemma wp_prepare_workspaceI [wp_intro]:
  assumes ok: "\<And>n d dk. calls s \<le> n \<Longrightarrow> persisted_id w \<Longrightarrow>
      ln_entries d = ents (lineages s w) \<Longrightarrow> ln_head d \<noteq> None \<Longrightarrow>
      (headf (lineages s w) \<noteq> None \<Longrightarrow> ln_head d = headf (lineages s w)) \<Longrightarrow>
      (disk_of s w \<noteq> None \<Longrightarrow> disk_of s w = Some dk) \<Longrightarrow>
      (disk_of s w = None \<Longrightarrow> dk = mkfs_ext4 E (mib_bytes (wst_disk_size_mib W))) \<Longrightarrow>
      Q \<lparr>lease_workspace_id = w, lease_disk_path = path_join (workspace_dir W w) ''workspace.raw''\<rparr>
        (s\<lparr>calls := n, lineages := (lineages s)(w \<mapsto> d), workspaces := (workspaces s)(w \<mapsto> Some dk)\<rparr>)"
    and err: "\<And>e n l x. calls s \<le> n \<Longrightarrow> ents l = ents (lineages s w) \<Longrightarrow>
      (disk_of s w \<noteq> None \<Longrightarrow> Option.bind x (\<lambda>d. d) = disk_of s w) \<Longrightarrow>
      R (Fail e) (s\<lparr>calls := n, lineages := (lineages s)(w := l), workspaces := (workspaces s)(w := x)\<rparr>)"
  shows "wp (prepare_workspace E W w) Q R s"
proof -
  have same: "R (Fail e) (s\<lparr>calls := n\<rparr>)" if "calls s \<le> n" for e n
    using err [of n "lineages s w" "workspaces s w"] that by (simp add: disk_of_def)
  have lin: "R (Fail e) (s\<lparr>calls := n, lineages := (lineages s)(w := l), workspaces := (workspaces s)(w := Some (disk_of s w))\<rparr>)"
    if "calls s \<le> n" "ents l = ents (lineages s w)" for e n l
    using err [of n l "Some (disk_of s w)"] that by simp
  have dir: "R (Fail e) (s\<lparr>calls := n, workspaces := (workspaces s)(w := Some (disk_of s w))\<rparr>)"
    if "calls s \<le> n" for e n
    using lin [of n "lineages s w"] that by simp
  show ?thesis
    unfolding prepare_workspace_def
    using same [of "calls s"]
    by (auto simp: wp_simps mk_workspace_dir_def put_disk_def upd_disk_def zero_disk_def set_len_def
        intro!: wp_intro same lin dir ok err)
qed


text \<open>The tools, and resizing and removal as a whole, touch one workspace.\<close>

lemma wp_try_toolsI:
  assumes "\<And>n x. calls s \<le> n \<Longrightarrow> Q () (s\<lparr>calls := n, workspaces := (workspaces s)(w := x)\<rparr>)"
    and "\<And>e n x. calls s \<le> n \<Longrightarrow> R (Fail e) (s\<lparr>calls := n, workspaces := (workspaces s)(w := x)\<rparr>)"
  shows "wp (try_tools E w ok missing programs) Q R s"
  using assms
proof (induction programs arbitrary: s)
  case Nil
  from Nil(2) [where n = "calls s" and x = "workspaces s w"] show ?case by (simp add: wp_simps)
next
  case (Cons p ps)
  from Cons.prems(2) [where x = "workspaces s w"]
  have same: "R (Fail e) (s\<lparr>calls := n\<rparr>)" if "calls s \<le> n" for e n using that by simp
  have retry: "wp (try_tools E w ok missing ps) Q R (s\<lparr>calls := n, workspaces := (workspaces s)(w := x)\<rparr>)"
    if "calls s \<le> n" for n x
    using that by (intro Cons.IH) (simp_all del: fun_upd_apply, (rule Cons.prems, simp)+)
  from retry [where x = "workspaces s w"]
  have skip: "wp (try_tools E w ok missing ps) Q R (s\<lparr>calls := n\<rparr>)" if "calls s \<le> n" for n
    using that by simp
  show ?case
    by (auto simp: wp_simps upd_disk_def split: tool_outcome.split
        intro!: wp_intro Cons.prems same retry skip)
qed

lemma wp_ext4_toolsI [wp_intro]:
  assumes "\<And>n x. calls s \<le> n \<Longrightarrow> Q () (s\<lparr>calls := n, workspaces := (workspaces s)(w := x)\<rparr>)"
    and "\<And>e n x. calls s \<le> n \<Longrightarrow> R (Fail e) (s\<lparr>calls := n, workspaces := (workspaces s)(w := x)\<rparr>)"
  shows "wp (resize_ext4 E w) Q R s" and "wp (check_ext4 E w) Q R s"
  unfolding resize_ext4_def check_ext4_def by (rule wp_try_toolsI; rule assms; assumption)+

lemma wp_workspace_disk_size_mibI [wp_intro]:
  assumes "\<And>n d. calls s \<le> n \<Longrightarrow> persisted_id w \<Longrightarrow> disk_of s w = Some d \<Longrightarrow>
      Q (disk_len d div (1024 * 1024)) (s\<lparr>calls := n\<rparr>)"
    and "\<And>e n. calls s \<le> n \<Longrightarrow> R (Fail e) (s\<lparr>calls := n\<rparr>)"
  shows "wp (workspace_disk_size_mib E w) Q R s"
  unfolding workspace_disk_size_mib_def using assms(2) [of "calls s"]
  by (auto simp: wp_simps split: option.split intro!: wp_intro assms(2) assms(1) [simplified])

lemma wp_resize_workspaceI [wp_intro]:
  assumes "\<And>n l x. calls s \<le> n \<Longrightarrow> persisted_id w \<Longrightarrow> ents l = ents (lineages s w) \<Longrightarrow>
      Q () (s\<lparr>calls := n, lineages := (lineages s)(w := l), workspaces := (workspaces s)(w := x)\<rparr>)"
    and "\<And>e n l x. calls s \<le> n \<Longrightarrow> ents l = ents (lineages s w) \<Longrightarrow>
      R (Fail e) (s\<lparr>calls := n, lineages := (lineages s)(w := l), workspaces := (workspaces s)(w := x)\<rparr>)"
  shows "wp (resize_workspace E W w mib) Q R s"
  unfolding resize_workspace_def resize_file_len_def
  using assms(2) [where n = "calls s" and l = "lineages s w" and x = "workspaces s w"]
  by (auto simp: wp_simps upd_disk_def intro!: wp_intro assms)

lemma wp_remove_workspaceI [wp_intro]:
  assumes "\<And>n. calls s \<le> n \<Longrightarrow> persisted_id w \<Longrightarrow>
      Q () (s\<lparr>calls := n, lineages := (lineages s)(w := None), workspaces := (workspaces s)(w := None)\<rparr>)"
    and "\<And>e n l x. calls s \<le> n \<Longrightarrow> (entries_ok (ents (lineages s w)) \<Longrightarrow> entries_ok (ents l)) \<Longrightarrow>
      R (Fail e) (s\<lparr>calls := n, lineages := (lineages s)(w := l), workspaces := (workspaces s)(w := x)\<rparr>)"
  shows "wp (remove_workspace E w) Q R s"
proof -
  have err: "R (Fail e) (s\<lparr>calls := n, workspaces := (workspaces s)(w := x)\<rparr>)" if "calls s \<le> n" for e n x
    using assms(2) [where n = n and l = "lineages s w"] that by simp
  have same: "R (Fail e) (s\<lparr>calls := n\<rparr>)" if "calls s \<le> n" for e n
    using err [where n = n and x = "workspaces s w"] that by simp
  have lin: "R (Fail e) (s\<lparr>calls := n, lineages := (lineages s)(w := l)\<rparr>)"
    if "calls s \<le> n" "entries_ok (ents (lineages s w)) \<Longrightarrow> entries_ok (ents l)" for e n l
    using assms(2) [where n = n and l = l and x = "workspaces s w"] that by simp
  have ok: "Q () (s\<lparr>calls := n\<rparr>)" if "lineages s w = None" "workspaces s w = None" "calls s \<le> n" "persisted_id w" for n
    using assms(1) [of n] that by (simp add: fun_upd_idem)
  have ok': "Q () (s\<lparr>calls := n, lineages := (lineages s)(w := None)\<rparr>)"
    if "workspaces s w = None" "calls s \<le> n" "persisted_id w" for n
    using assms(1) [of n] that by (simp add: fun_upd_idem)
  have ok'': "Q () (s\<lparr>calls := n, workspaces := (workspaces s)(w := None)\<rparr>)"
    if "lineages s w = None" "calls s \<le> n" "persisted_id w" for n
    using assms(1) [of n] that by (simp add: fun_upd_idem)
  show ?thesis
    unfolding remove_workspace_def
    using same [of "calls s"]
    by (auto simp: wp_simps upd_lineage_def keep_lineage_def entries_ok_keep intro!: wp_intro same err lin ok ok' ok'' assms)
qed


section \<open>Runs without failures\<close>

lemma wp_total_create_private_dir [wp_total]:
  assumes "no_faults E" and "\<And>t n. (mk t)\<lparr>calls := n\<rparr> = mk (t\<lparr>calls := n\<rparr>)" and "\<And>t. calls (mk t) = calls t"
    and "\<And>n. calls s \<le> n \<Longrightarrow> Q () (mk (s\<lparr>calls := n\<rparr>))"
  shows "wp (create_private_dir E path mk) Q R s"
  unfolding create_private_dir_def using assms by (auto intro!: wp_total)

lemma wp_total_prepare_workspace [wp_total]:
  assumes "no_faults E" and "persisted_id w" and "readable (ents (lineages s w))"
    and "\<And>n d. calls s \<le> n \<Longrightarrow> ln_entries d = ents (lineages s w) \<Longrightarrow>
      ln_head d \<noteq> None \<Longrightarrow> ln_head d \<noteq> Some Torn \<or> headf (lineages s w) = Some Torn \<Longrightarrow>
      (headf (lineages s w) \<noteq> None \<Longrightarrow> ln_head d = headf (lineages s w)) \<Longrightarrow>
      Q \<lparr>lease_workspace_id = w, lease_disk_path = path_join (workspace_dir W w) ''workspace.raw''\<rparr>
        (s\<lparr>calls := n, lineages := (lineages s)(w \<mapsto> d), workspaces := (workspaces s)(w \<mapsto> Some
           (case disk_of s w of None \<Rightarrow> mkfs_ext4 E (mib_bytes (wst_disk_size_mib W)) | Some dk \<Rightarrow> dk))\<rparr>)"
  shows "wp (prepare_workspace E W w) Q R s"
proof (cases "disk_of s w")
  case None
  then show ?thesis
    unfolding prepare_workspace_def format_ext4_def using assms(1-3)
    by (auto simp: wp_simps mk_workspace_dir_def put_disk_def upd_disk_def zero_disk_def set_len_def
        intro!: wp_total assms(4) [simplified None option.case])
next
  case (Some dk)
  then show ?thesis
    unfolding prepare_workspace_def using assms(1-3)
    by (auto simp: wp_simps mk_workspace_dir_def intro!: wp_total assms(4) [simplified Some option.case])
qed

end
