(* ===== verification/Boot.thy ===== *)
theory Boot
  imports Workspace_Store Config
begin

text \<open>
  How a sandbox is told its limits. The host renders the configuration of the virtual machine
  runner (\<open>src/backend/libkrun/config.rs\<close>) as a kernel command line; the guest agent reads it
  back (\<open>guest-agent/src/guest_agent/linux_boot.rs\<close>), mounts its file systems
  (\<open>bootstrap.rs\<close>) and serves requests under the limits it found. The property is that the two
  agree.
\<close>

section \<open>The runner configuration (\<open>src/backend/libkrun/config.rs\<close>)\<close>

record backend_launch_request =
  blr_sandbox_id :: uuid
  blr_run_layout :: run_layout
  blr_guest :: guest_config
  blr_cache_image :: "string option"
  blr_policy :: execution_policy
  blr_workspace :: workspace_lease
  blr_hardening :: hardening_config
  blr_isolation_mode :: isolation_mode

record libkrun_runner_config =
  krc_kernel_image :: string
  krc_kernel_format :: guest_kernel_format
  krc_rootfs_image :: string
  krc_cache_image :: "string option"
  krc_workspace_image :: string
  krc_runtime_dir :: string
  krc_console_output_path :: string
  krc_firmware :: "string option"
  krc_guest_agent_path :: string
  krc_cpu_cores :: u32
  krc_memory_mb :: u32
  krc_tmpfs_mib :: u32
  krc_max_processes :: u32
  krc_network_enabled :: bool
  krc_guest_uid :: u32
  krc_guest_gid :: u32
  krc_guest_vsock_port :: u32
  krc_vsock_socket :: string
  krc_isolation_mode :: isolation_mode
  krc_runner_log_limit_bytes :: u64

definition uses_krun_init :: "platform \<Rightarrow> libkrun_runner_config \<Rightarrow> bool" where
  "uses_krun_init pf c \<longleftrightarrow> target_os pf = Linux \<and> krc_firmware c = None \<and> krc_isolation_mode c = Compat"

definition validate_secure_constraints :: "platform \<Rightarrow> libkrun_runner_config \<Rightarrow> unit result" where
  "validate_secure_constraints pf c =
     (if krc_isolation_mode c \<noteq> Secure then Inr ()
      else if krc_network_enabled c then
        Inl (InvalidConfig ''secure isolation mode does not allow guest networking'')
      else if uses_krun_init pf c then
        Inl (InvalidConfig ''secure isolation mode requires a direct block-root guest boot path; init.krun/virtiofs root is not allowed'')
      else Inr ())"

definition root_device :: string where
  "root_device = ''/dev/vda''"

definition cache_cmdline_arg :: "libkrun_runner_config \<Rightarrow> string" where
  "cache_cmdline_arg c = (case krc_cache_image c of Some _ \<Rightarrow> '' sandbox.cache_device=/dev/vdc'' | None \<Rightarrow> [])"

text \<open>\<open>max_processes.saturating_mul(16).clamp(256, 4096)\<close>.\<close>

definition open_file_limit :: "libkrun_runner_config \<Rightarrow> u32" where
  "open_file_limit c = max 256 (min 4096 (saturating_mul (krc_max_processes c) 16))"

definition limit_args :: "libkrun_runner_config \<Rightarrow> string" where
  "limit_args c =
     ''sandbox.workspace_device=/dev/vdb sandbox.tmpfs_mib='' @ decimal (unat (krc_tmpfs_mib c)) @
     '' sandbox.uid='' @ decimal (unat (krc_guest_uid c)) @
     '' sandbox.gid='' @ decimal (unat (krc_guest_gid c)) @
     '' sandbox.max_processes='' @ decimal (unat (krc_max_processes c)) @
     '' sandbox.max_open_files='' @ decimal (unat (open_file_limit c)) @
     '' sandbox.max_file_size_bytes='' @ decimal (unat (16 * 1024 * 1024 :: u64)) @
     '' sandbox.rpc_port='' @ decimal (unat (krc_guest_vsock_port c)) @
     '' sandbox.network_enabled='' @ (if krc_network_enabled c then ''1'' else ''0'')"

definition kernel_cmdline :: "platform \<Rightarrow> libkrun_runner_config \<Rightarrow> string" where
  "kernel_cmdline pf c =
     (if target_os pf = Linux \<and> uses_krun_init pf c then
        ''reboot=k panic=-1 panic_print=0 nomodule console=hvc0 root=/dev/root rootfstype=virtiofs rw quiet no-kvmapf init=/init.krun '' @
        limit_args c @ cache_cmdline_arg c
      else
        ''console=hvc0 root='' @ root_device @ '' ro rootfstype=ext4 rootwait loglevel=8 ignore_loglevel '' @
        limit_args c @
        (if target_os pf = MacOs \<and> target_arch pf = X86_64 then '' sandbox.rpc_transport=virtio-serial'' else []) @
        cache_cmdline_arg c @ '' panic=-1'')"

definition build_runner_config :: "backend_launch_request \<Rightarrow> libkrun_runner_config" where
  "build_runner_config r =
     \<lparr>krc_kernel_image = kernel_image (blr_guest r), krc_kernel_format = kernel_format (blr_guest r),
      krc_rootfs_image = rootfs_image (blr_guest r), krc_cache_image = blr_cache_image r,
      krc_workspace_image = lease_disk_path (blr_workspace r), krc_runtime_dir = run_runtime_dir (blr_run_layout r),
      krc_console_output_path = run_guest_console_log (blr_run_layout r), krc_firmware = firmware (blr_guest r),
      krc_guest_agent_path = guest_agent_path (blr_guest r), krc_cpu_cores = pol_cpu_cores (blr_policy r),
      krc_memory_mb = pol_memory_mb (blr_policy r), krc_tmpfs_mib = guest_tmpfs_mib (blr_guest r),
      krc_max_processes = pol_max_processes (blr_policy r), krc_network_enabled = pol_network_enabled (blr_policy r),
      krc_guest_uid = guest_uid (blr_guest r), krc_guest_gid = guest_gid (blr_guest r),
      krc_guest_vsock_port = guest_vsock_port (blr_guest r), krc_vsock_socket = run_vsock_socket (blr_run_layout r),
      krc_isolation_mode = blr_isolation_mode r, krc_runner_log_limit_bytes = runner_log_limit_bytes (blr_hardening r)\<rparr>"

text \<open>The socket the host waits for and connects to after a launch (\<open>src/backend/libkrun/mod.rs\<close>).\<close>

definition guest_endpoint_socket :: "backend_launch_request \<Rightarrow> string" where
  "guest_endpoint_socket r = run_vsock_socket (blr_run_layout r)"

section \<open>The guest's boot configuration (\<open>linux_boot.rs\<close>)\<close>

datatype rpc_transport = Vsock | VirtioSerial

record boot_config =
  boot_tmpfs_mib :: u32
  boot_uid :: u32
  boot_gid :: u32
  boot_max_processes :: u32
  boot_max_open_files :: u32
  boot_max_file_size_bytes :: u64
  boot_network_enabled :: bool
  boot_rpc_port :: u32
  boot_rpc_transport :: rpc_transport

definition default_boot_config :: boot_config where
  "default_boot_config = \<lparr>boot_tmpfs_mib = 256, boot_uid = 65534, boot_gid = 65534, boot_max_processes = 256,
     boot_max_open_files = 1024, boot_max_file_size_bytes = 16 * 1024 * 1024, boot_network_enabled = False,
     boot_rpc_port = 11000, boot_rpc_transport = Vsock\<rparr>"

definition boot_parse_u32 :: "string \<Rightarrow> string \<Rightarrow> u32 result" where
  "boot_parse_u32 value field = (case parse_u32_str value of
     Some n \<Rightarrow> Inr n | None \<Rightarrow> Inl (InvalidConfig (field @ '' must be an integer'')))"

definition boot_parse_u64 :: "string \<Rightarrow> string \<Rightarrow> u64 result" where
  "boot_parse_u64 value field = (case parse_u64_str value of
     Some n \<Rightarrow> Inr n | None \<Rightarrow> Inl (InvalidConfig (field @ '' must be an integer'')))"

definition parse_rpc_transport :: "string \<Rightarrow> rpc_transport result" where
  "parse_rpc_transport value = (let v = to_ascii_lowercase (trim value) in
     if v = ''vsock'' then Inr Vsock
     else if v \<in> {''virtio-serial'', ''virtio_serial''} then Inr VirtioSerial
     else Inl (InvalidConfig ''sandbox.rpc_transport must be one of: vsock, virtio-serial''))"

definition set_from :: "'a result \<Rightarrow> ('a \<Rightarrow> boot_config) \<Rightarrow> boot_config result" where
  "set_from r f = (case r of Inl e \<Rightarrow> Inl e | Inr v \<Rightarrow> Inr (f v))"

definition boot_token :: "string \<Rightarrow> boot_config \<Rightarrow> boot_config result" where
  "boot_token token c =
     if_prefix token ''sandbox.tmpfs_mib='' (\<lambda>v. set_from (boot_parse_u32 v ''sandbox.tmpfs_mib'') (\<lambda>n. c\<lparr>boot_tmpfs_mib := n\<rparr>))
     (if_prefix token ''sandbox.uid='' (\<lambda>v. set_from (boot_parse_u32 v ''sandbox.uid'') (\<lambda>n. c\<lparr>boot_uid := n\<rparr>))
     (if_prefix token ''sandbox.gid='' (\<lambda>v. set_from (boot_parse_u32 v ''sandbox.gid'') (\<lambda>n. c\<lparr>boot_gid := n\<rparr>))
     (if_prefix token ''sandbox.max_processes='' (\<lambda>v. set_from (boot_parse_u32 v ''sandbox.max_processes'') (\<lambda>n. c\<lparr>boot_max_processes := n\<rparr>))
     (if_prefix token ''sandbox.max_open_files='' (\<lambda>v. set_from (boot_parse_u32 v ''sandbox.max_open_files'') (\<lambda>n. c\<lparr>boot_max_open_files := n\<rparr>))
     (if_prefix token ''sandbox.max_file_size_bytes='' (\<lambda>v. set_from (boot_parse_u64 v ''sandbox.max_file_size_bytes'') (\<lambda>n. c\<lparr>boot_max_file_size_bytes := n\<rparr>))
     (if_prefix token ''sandbox.network_enabled='' (\<lambda>v. set_from (boot_parse_u32 v ''sandbox.network_enabled'') (\<lambda>n. c\<lparr>boot_network_enabled := n \<noteq> 0\<rparr>))
     (if_prefix token ''sandbox.rpc_port='' (\<lambda>v. set_from (boot_parse_u32 v ''sandbox.rpc_port'') (\<lambda>n. c\<lparr>boot_rpc_port := n\<rparr>))
     (if_prefix token ''sandbox.rpc_transport='' (\<lambda>v. set_from (parse_rpc_transport v) (\<lambda>t. c\<lparr>boot_rpc_transport := t\<rparr>))
     (Inr c)))))))))"

fun boot_tokens :: "string list \<Rightarrow> boot_config \<Rightarrow> boot_config result" where
  "boot_tokens [] c = Inr c"
| "boot_tokens (t # ts) c = (case boot_token t c of Inl e \<Rightarrow> Inl e | Inr c' \<Rightarrow> boot_tokens ts c')"

text \<open>\<open>BootConfig::from_cmdline\<close> on the text of \<open>/proc/cmdline\<close>.\<close>

definition from_cmdline :: "string \<Rightarrow> boot_config result" where
  "from_cmdline cmdline = boot_tokens (split_whitespace cmdline) default_boot_config"

fun find_value :: "string list \<Rightarrow> string \<Rightarrow> string option" where
  "find_value [] p = None"
| "find_value (t # ts) p = (case strip_prefix t p of Some v \<Rightarrow> Some v | None \<Rightarrow> find_value ts p)"

definition cmdline_value :: "string \<Rightarrow> string \<Rightarrow> string option" where
  "cmdline_value cmdline p = find_value (split_whitespace cmdline) p"

definition read_workspace_device :: "string \<Rightarrow> string" where
  "read_workspace_device cmdline = (case cmdline_value cmdline ''sandbox.workspace_device='' of
     Some d \<Rightarrow> d | None \<Rightarrow> ''/dev/vdb'')"

definition read_cache_device :: "string \<Rightarrow> string option" where
  "read_cache_device cmdline = cmdline_value cmdline ''sandbox.cache_device=''"

section \<open>What the guest reads is what the host wrote\<close>

lemma limit_tokens: "split_whitespace (limit_args c) =
  [''sandbox.workspace_device=/dev/vdb'', ''sandbox.tmpfs_mib='' @ decimal (unat (krc_tmpfs_mib c)),
   ''sandbox.uid='' @ decimal (unat (krc_guest_uid c)), ''sandbox.gid='' @ decimal (unat (krc_guest_gid c)),
   ''sandbox.max_processes='' @ decimal (unat (krc_max_processes c)),
   ''sandbox.max_open_files='' @ decimal (unat (open_file_limit c)),
   ''sandbox.max_file_size_bytes='' @ decimal (unat (16 * 1024 * 1024 :: u64)),
   ''sandbox.rpc_port='' @ decimal (unat (krc_guest_vsock_port c)),
   ''sandbox.network_enabled='' @ (if krc_network_enabled c then ''1'' else ''0'')]"
  unfolding limit_args_def split_whitespace_def
  by (simp add: is_ws_def split_acc_decimal)

text \<open>The words of the command line that are not about limits, before and after those that are.\<close>

definition boot_words :: "platform \<Rightarrow> libkrun_runner_config \<Rightarrow> string list" where
  "boot_words pf c = (if uses_krun_init pf c
     then split_whitespace ''reboot=k panic=-1 panic_print=0 nomodule console=hvc0 root=/dev/root rootfstype=virtiofs rw quiet no-kvmapf init=/init.krun''
     else split_whitespace ''console=hvc0 root=/dev/vda ro rootfstype=ext4 rootwait loglevel=8 ignore_loglevel'')"

definition device_words :: "platform \<Rightarrow> libkrun_runner_config \<Rightarrow> string list" where
  "device_words pf c =
     (if \<not> uses_krun_init pf c \<and> target_os pf = MacOs \<and> target_arch pf = X86_64 then [''sandbox.rpc_transport=virtio-serial''] else []) @
     (if krc_cache_image c = None then [] else [''sandbox.cache_device=/dev/vdc'']) @
     (if uses_krun_init pf c then [] else [''panic=-1''])"

lemma cmdline_words: "split_whitespace (kernel_cmdline pf c) =
    boot_words pf c @ split_whitespace (limit_args c) @ device_words pf c"
proof -
  have "kernel_cmdline pf c =
    (if uses_krun_init pf c
     then ''reboot=k panic=-1 panic_print=0 nomodule console=hvc0 root=/dev/root rootfstype=virtiofs rw quiet no-kvmapf init=/init.krun'' @
       CHR '' '' # limit_args c @ cache_cmdline_arg c
     else ''console=hvc0 root=/dev/vda ro rootfstype=ext4 rootwait loglevel=8 ignore_loglevel'' @
       CHR '' '' # limit_args c @ (if target_os pf = MacOs \<and> target_arch pf = X86_64 then CHR '' '' # ''sandbox.rpc_transport=virtio-serial'' else []) @
        cache_cmdline_arg c @ CHR '' '' # ''panic=-1'')"
    by (auto simp: kernel_cmdline_def uses_krun_init_def root_device_def)
  moreover have "cache_cmdline_arg c = (if krc_cache_image c = None then [] else CHR '' '' # ''sandbox.cache_device=/dev/vdc'')"
    by (auto simp: cache_cmdline_arg_def split: option.splits)
  moreover have "split_whitespace ''panic=-1'' = [''panic=-1'']" "split_whitespace ''sandbox.cache_device=/dev/vdc'' = [''sandbox.cache_device=/dev/vdc'']"
    "split_whitespace ''sandbox.rpc_transport=virtio-serial'' = [''sandbox.rpc_transport=virtio-serial'']"
    by (simp_all add: split_whitespace_def is_ws_def)
  ultimately show ?thesis
    by (simp add: split_space split_space_Cons boot_words_def device_words_def flip: append_Cons append_assoc)
qed

lemma boot_tokens_append: "boot_tokens (a @ b) c = (case boot_tokens a c of Inl e \<Rightarrow> Inl e | Inr c' \<Rightarrow> boot_tokens b c')"
  by (induction a arbitrary: c) (auto split: sum.splits)

lemma boot_token_other: "\<not> starts_with t ''sandbox.'' \<Longrightarrow> boot_token t c = Inr c"
proof -
  assume t: "\<not> starts_with t ''sandbox.''"
  have "strip_prefix t (''sandbox.'' @ p) = None" for p
    using t by (auto simp: strip_prefix_None_iff starts_with_iff)
  from this [of "''tmpfs_mib=''"] this [of "''uid=''"] this [of "''gid=''"] this [of "''max_processes=''"] this [of "''max_open_files=''"]
    this [of "''max_file_size_bytes=''"] this [of "''network_enabled=''"] this [of "''rpc_port=''"] this [of "''rpc_transport=''"]
  show ?thesis by (simp add: boot_token_def if_prefix_def)
qed

lemma boot_tokens_other: "list_all (\<lambda>t. \<not> starts_with t ''sandbox.'') ts \<Longrightarrow> boot_tokens ts c = Inr c"
  by (induction ts) (simp_all add: boot_token_other)

lemma find_value_append: "find_value (a @ b) p = (case find_value a p of Some v \<Rightarrow> Some v | None \<Rightarrow> find_value b p)"
  by (induction a) (auto split: option.splits)

lemma find_value_other: "list_all (\<lambda>t. \<not> starts_with t ''sandbox.'') ts \<Longrightarrow> find_value ts (''sandbox.'' @ p) = None"
proof (induction ts)
  case (Cons t ts)
  then have "strip_prefix t (''sandbox.'' @ p) = None" by (auto simp: strip_prefix_None_iff starts_with_iff)
  with Cons show ?case by simp
qed simp

lemma boot_words_other: "list_all (\<lambda>t. \<not> starts_with t ''sandbox.'') (boot_words pf c)"
  by (simp add: boot_words_def split_whitespace_def is_ws_def)

lemma boot_limit_tokens: "boot_tokens (split_whitespace (limit_args c)) d =
  Inr (d\<lparr>boot_tmpfs_mib := krc_tmpfs_mib c, boot_uid := krc_guest_uid c, boot_gid := krc_guest_gid c,
     boot_max_processes := krc_max_processes c, boot_max_open_files := open_file_limit c,
     boot_max_file_size_bytes := 16 * 1024 * 1024, boot_network_enabled := krc_network_enabled c,
     boot_rpc_port := krc_guest_vsock_port c\<rparr>)"
proof -
  have parse: "boot_parse_u32 (decimal (unat n)) f = Inr n" "boot_parse_u64 (decimal (unat m)) f = Inr m" for n m f
    by (simp_all add: boot_parse_u32_def boot_parse_u64_def)
  have size: "boot_parse_u64 (decimal 16777216) f = Inr 16777216" for f
    using parse(2) [of 16777216 f] by simp
  have net: "boot_parse_u32 ''1'' f = Inr 1" "boot_parse_u32 ''0'' f = Inr 0" for f
    by (simp_all add: boot_parse_u32_def parse_u32_str_def parse_unsigned_def is_ascii_digit_def less_eq_char_def digit_value_def)
  show ?thesis
    unfolding limit_tokens by (simp add: boot_token_def if_prefix_def parse size net set_from_def)
qed


lemma boot_device_tokens: "boot_tokens (device_words pf c) d =
  Inr (if \<not> uses_krun_init pf c \<and> target_os pf = MacOs \<and> target_arch pf = X86_64 then d\<lparr>boot_rpc_transport := VirtioSerial\<rparr> else d)"
proof -
  have "parse_rpc_transport ''virtio-serial'' = Inr VirtioSerial"
    by (simp add: parse_rpc_transport_def trim_def is_ws_def to_ascii_lowercase_def is_ascii_upper_def less_eq_char_def)
  then show ?thesis by (simp add: device_words_def boot_token_def if_prefix_def set_from_def)
qed

lemma device_words_value:
  "find_value (device_words pf c) ''sandbox.cache_device='' = (if krc_cache_image c = None then None else Some ''/dev/vdc'')"
  by (simp add: device_words_def)

lemma limit_words_value:
  "find_value (split_whitespace (limit_args c)) ''sandbox.cache_device='' = None"
  "find_value (split_whitespace (limit_args c)) ''sandbox.workspace_device='' = Some ''/dev/vdb''"
  unfolding limit_tokens by simp_all

definition demo_launch :: backend_launch_request where
  "demo_launch = \<lparr>blr_sandbox_id = 1,
     blr_run_layout = \<lparr>run_sandbox_id = 1, run_root_dir = ''/r'', run_runtime_dir = ''/r/runtime'', run_vsock_socket = ''/v'',
       run_runner_config = ''/r/c'', run_runner_log = ''/r/l'', run_guest_console_log = ''/r/g''\<rparr>,
     blr_guest = \<lparr>kernel_image = ''/k'', kernel_format = Elf, rootfs_image = ''/i'', firmware = None, guest_agent_path = ''/a'',
       guest_vsock_port = 11000, boot_timeout = 1, guest_uid = 65534, guest_gid = 65534, guest_tmpfs_mib = 64\<rparr>,
     blr_cache_image = None, blr_policy = default_policy\<lparr>pol_max_processes := 7\<rparr>,
     blr_workspace = \<lparr>lease_workspace_id = ''w'', lease_disk_path = ''/w''\<rparr>,
     blr_hardening = \<lparr>enable_landlock = True, cgroup_parent = None, runner_log_limit_bytes = 1\<rparr>,
     blr_isolation_mode = Secure\<rparr>"

text \<open>
  C14: The guest applies the limits the host decided on. The command line the host renders for a
  launch, with any words the hypervisor adds that are not its own, is parsed by the guest
  agent into exactly the user, process, memory file system and port limits of the launch
  request, with networking as the policy says, at most 4096 open files, and the devices of
  the workspace and the cache; and a launch in secure mode that passes the runner's check
  has no network.
\<close>

theorem boot_config_roundtrip:
  assumes "list_all (\<lambda>t. \<not> starts_with t ''sandbox.'') (split_whitespace extra)"
  shows "let c = build_runner_config r; cmdline = kernel_cmdline pf c @ '' '' @ extra in
    (\<exists>b. from_cmdline cmdline = Inr b \<and> boot_max_processes b = pol_max_processes (blr_policy r) \<and>
       boot_network_enabled b = pol_network_enabled (blr_policy r) \<and> boot_uid b = guest_uid (blr_guest r) \<and>
       boot_gid b = guest_gid (blr_guest r) \<and> boot_tmpfs_mib b = guest_tmpfs_mib (blr_guest r) \<and>
       boot_rpc_port b = guest_vsock_port (blr_guest r) \<and> 256 \<le> boot_max_open_files b \<and> boot_max_open_files b \<le> 4096 \<and>
       (blr_isolation_mode r = Secure \<and> validate_secure_constraints pf c = Inr () \<longrightarrow> \<not> boot_network_enabled b)) \<and>
    read_workspace_device cmdline = ''/dev/vdb'' \<and>
    read_cache_device cmdline = map_option (\<lambda>_. ''/dev/vdc'') (blr_cache_image r)"
proof -
  let ?c = "build_runner_config r"
  have words: "split_whitespace (kernel_cmdline pf ?c @ CHR '' '' # extra) =
      boot_words pf ?c @ split_whitespace (limit_args ?c) @ device_words pf ?c @ split_whitespace extra"
    using split_space [of "kernel_cmdline pf ?c" extra] by (simp add: cmdline_words)
  have "find_value (boot_words pf ?c) ''sandbox.workspace_device='' = None" "find_value (boot_words pf ?c) ''sandbox.cache_device='' = None"
    "find_value (split_whitespace extra) ''sandbox.cache_device='' = None"
    using find_value_other [OF boot_words_other [of pf ?c], of "''workspace_device=''"] find_value_other [OF boot_words_other [of pf ?c], of "''cache_device=''"]
      find_value_other [OF assms, of "''cache_device=''"] by simp_all
  then have "read_workspace_device (kernel_cmdline pf ?c @ '' '' @ extra) = ''/dev/vdb''"
    "read_cache_device (kernel_cmdline pf ?c @ '' '' @ extra) = map_option (\<lambda>_. ''/dev/vdc'') (krc_cache_image ?c)"
    by (auto simp: read_workspace_device_def read_cache_device_def cmdline_value_def words find_value_append limit_words_value device_words_value
        split: option.split)
  moreover have "from_cmdline (kernel_cmdline pf ?c @ '' '' @ extra) = Inr (default_boot_config\<lparr>boot_tmpfs_mib := krc_tmpfs_mib ?c, boot_uid := krc_guest_uid ?c,
      boot_gid := krc_guest_gid ?c, boot_max_processes := krc_max_processes ?c, boot_max_open_files := open_file_limit ?c,
      boot_max_file_size_bytes := 16 * 1024 * 1024, boot_network_enabled := krc_network_enabled ?c,
      boot_rpc_port := krc_guest_vsock_port ?c,
      boot_rpc_transport := (if \<not> uses_krun_init pf ?c \<and> target_os pf = MacOs \<and> target_arch pf = X86_64 then VirtioSerial else Vsock)\<rparr>)"
    by (simp add: from_cmdline_def words boot_tokens_append boot_tokens_other [OF boot_words_other] boot_limit_tokens boot_device_tokens boot_tokens_other [OF assms] default_boot_config_def)
  ultimately show ?thesis
    by (auto simp: Let_def build_runner_config_def open_file_limit_def validate_secure_constraints_def split: if_splits)
qed



theorem boot_config_roundtrip_witness:
  "\<exists>b. from_cmdline (kernel_cmdline \<lparr>target_os = Linux, target_arch = X86_64\<rparr> (build_runner_config demo_launch) @ '' quiet'') = Inr b \<and>
     boot_max_processes b = 7 \<and> \<not> boot_network_enabled b"
proof -
  have "list_all (\<lambda>t. \<not> starts_with t ''sandbox.'') (split_whitespace ''quiet'')"
    by (simp add: split_whitespace_def is_ws_def)
  from boot_config_roundtrip [OF this, of demo_launch "\<lparr>target_os = Linux, target_arch = X86_64\<rparr>"]
  show ?thesis by (auto simp: Let_def demo_launch_def default_policy_def)
qed

end
