(* ===== verification/Secure_Runner.thy ===== *)
theory Secure_Runner
  imports Boot
begin

text \<open>
  The sandbox around the virtual machine process in secure isolation mode
  (\<open>src/backend/libkrun/runner/secure_runner\<close>) and the filter the guest agent puts on the
  commands it runs (\<open>guest-agent/src/guest_agent/linux_seccomp.rs\<close>). A seccomp filter is a
  program for the classic BPF machine of the kernel; the first section is that machine, for
  the three instructions the filters use, and the filters are the programs the code builds.
\<close>

unbundle bit_operations_syntax

section \<open>Seccomp filters\<close>

text \<open>\<open>libc::sock_filter\<close>, and the part of \<open>seccomp_data\<close> a filter can load.\<close>

record sock_filter =
  sf_code :: u16
  sf_jt :: u8
  sf_jf :: u8
  sf_k :: u32

record seccomp_data =
  sd_nr :: u32
  sd_arch :: u32
  sd_arg0 :: u64

definition bpf_stmt :: "u16 \<Rightarrow> u32 \<Rightarrow> sock_filter" where
  "bpf_stmt code k = \<lparr>sf_code = code, sf_jt = 0, sf_jf = 0, sf_k = k\<rparr>"

definition bpf_jump :: "u16 \<Rightarrow> u32 \<Rightarrow> u8 \<Rightarrow> u8 \<Rightarrow> sock_filter" where
  "bpf_jump code k jt jf = \<lparr>sf_code = code, sf_jt = jt, sf_jf = jf, sf_k = k\<rparr>"

text \<open>The constants of \<open>libc\<close>: \<open>BPF_LD | BPF_W | BPF_ABS\<close>, \<open>BPF_JMP | BPF_JEQ | BPF_K\<close>, \<open>BPF_RET | BPF_K\<close>.\<close>

definition LD_W_ABS :: u16 where "LD_W_ABS = 0x20"
definition JMP_JEQ_K :: u16 where "JMP_JEQ_K = 0x15"
definition RET_K :: u16 where "RET_K = 0x06"
definition RET_KILL_PROCESS :: u32 where "RET_KILL_PROCESS = 0x80000000"
definition RET_ERRNO_EPERM :: u32 where "RET_ERRNO_EPERM = 0x00050001"
definition RET_ALLOW :: u32 where "RET_ALLOW = 0x7fff0000"
definition AF_UNIX :: u32 where "AF_UNIX = 1"
definition AF_NETLINK :: u32 where "AF_NETLINK = 16"
definition NR_OFFSET :: u32 where "NR_OFFSET = 0"
definition ARCH_OFFSET :: u32 where "ARCH_OFFSET = 4"
definition ARG0_OFFSET :: u32 where "ARG0_OFFSET = 16"

lemmas bpf_consts = LD_W_ABS_def JMP_JEQ_K_def RET_K_def RET_KILL_PROCESS_def RET_ERRNO_EPERM_def RET_ALLOW_def
  AF_UNIX_def AF_NETLINK_def NR_OFFSET_def ARCH_OFFSET_def ARG0_OFFSET_def

text \<open>
  The machine: the rest of the program, an accumulator and the system call it is asked about.
  Offset 16 is the low half of the first argument on the little-endian hosts the code
  supports. \<open>None\<close>: the program ran off its end or used another instruction, which the kernel
  refuses when the filter is installed.
\<close>

definition bpf_load :: "seccomp_data \<Rightarrow> u32 \<Rightarrow> u32 option" where
  "bpf_load d k = (if k = NR_OFFSET then Some (sd_nr d) else if k = ARCH_OFFSET then Some (sd_arch d)
     else if k = ARG0_OFFSET then Some (ucast (sd_arg0 d)) else None)"

function bpf_run :: "seccomp_data \<Rightarrow> sock_filter list \<Rightarrow> u32 \<Rightarrow> u32 option" where
  "bpf_run d [] a = None"
| "bpf_run d (i # rest) a =
     (if sf_code i = LD_W_ABS then
        (case bpf_load d (sf_k i) of None \<Rightarrow> None | Some v \<Rightarrow> bpf_run d rest v)
      else if sf_code i = JMP_JEQ_K then
        bpf_run d (drop (unat (if a = sf_k i then sf_jt i else sf_jf i)) rest) a
      else if sf_code i = RET_K then Some (sf_k i)
      else None)"
  by pat_completeness auto
termination by (relation "measure (\<lambda>(d, p, a). length p)") auto

text \<open>System call numbers differ between architectures and are parameters.\<close>

datatype syscall = SYS_socket | SYS_mount | SYS_umount2 | SYS_unshare | SYS_setns | SYS_execve | SYS_execveat
  | SYS_ptrace | SYS_bpf | SYS_perf_event_open | SYS_kexec_load | SYS_kexec_file_load | SYS_reboot
  | SYS_swapon | SYS_swapoff | SYS_init_module | SYS_finit_module | SYS_delete_module
  | SYS_open_by_handle_at | SYS_userfaultfd

fun seccomp_audit_arch :: "target_arch \<Rightarrow> u32" where
  "seccomp_audit_arch X86_64 = 0xc000003e"
| "seccomp_audit_arch Aarch64 = 0xc00000b7"
| "seccomp_audit_arch OtherArch = 0"

definition build_no_network_seccomp_filter :: "target_arch \<Rightarrow> (syscall \<Rightarrow> u32) \<Rightarrow> sock_filter list" where
  "build_no_network_seccomp_filter arch nr =
     [bpf_stmt LD_W_ABS ARCH_OFFSET,
      bpf_jump JMP_JEQ_K (seccomp_audit_arch arch) 1 0,
      bpf_stmt RET_K RET_KILL_PROCESS,
      bpf_stmt LD_W_ABS NR_OFFSET,
      bpf_jump JMP_JEQ_K (nr SYS_socket) 0 5,
      bpf_stmt LD_W_ABS ARG0_OFFSET,
      bpf_jump JMP_JEQ_K AF_UNIX 2 0,
      bpf_jump JMP_JEQ_K AF_NETLINK 1 0,
      bpf_stmt RET_K RET_ERRNO_EPERM,
      bpf_stmt RET_K RET_ALLOW,
      bpf_stmt RET_K RET_ALLOW]"

definition BLOCKED_SYSCALLS :: "syscall list" where
  "BLOCKED_SYSCALLS = [SYS_mount, SYS_umount2, SYS_unshare, SYS_setns, SYS_execve, SYS_execveat,
     SYS_ptrace, SYS_bpf, SYS_perf_event_open, SYS_kexec_load, SYS_kexec_file_load, SYS_reboot,
     SYS_swapon, SYS_swapoff, SYS_init_module, SYS_finit_module, SYS_delete_module,
     SYS_open_by_handle_at, SYS_userfaultfd]"

definition socket_family_filter :: "(syscall \<Rightarrow> u32) \<Rightarrow> sock_filter list" where
  "socket_family_filter nr =
     [bpf_jump JMP_JEQ_K (nr SYS_socket) 0 4,
      bpf_stmt LD_W_ABS ARG0_OFFSET,
      bpf_jump JMP_JEQ_K AF_UNIX 1 0,
      bpf_stmt RET_K RET_ERRNO_EPERM,
      bpf_stmt RET_K RET_ALLOW]"

definition build_seccomp_filter :: "target_arch \<Rightarrow> (syscall \<Rightarrow> u32) \<Rightarrow> sock_filter list" where
  "build_seccomp_filter arch nr =
     [bpf_stmt LD_W_ABS ARCH_OFFSET,
      bpf_jump JMP_JEQ_K (seccomp_audit_arch arch) 1 0,
      bpf_stmt RET_K RET_KILL_PROCESS,
      bpf_stmt LD_W_ABS NR_OFFSET] @
     socket_family_filter nr @
     concat (map (\<lambda>c. [bpf_jump JMP_JEQ_K (nr c) 0 1, bpf_stmt RET_K RET_ERRNO_EPERM]) BLOCKED_SYSCALLS) @
     [bpf_stmt RET_K RET_ALLOW]"

section \<open>What the filters decide\<close>

lemma bpf_step [simp]:
  "bpf_run d (bpf_stmt LD_W_ABS k # p) a = (case bpf_load d k of None \<Rightarrow> None | Some v \<Rightarrow> bpf_run d p v)"
  "bpf_run d (bpf_jump JMP_JEQ_K k jt jf # p) a = bpf_run d (drop (unat (if a = k then jt else jf)) p) a"
  "bpf_run d (bpf_stmt RET_K k # p) a = Some k"
  by (simp_all add: bpf_stmt_def bpf_jump_def bpf_consts)

lemma bpf_loads [simp]:
  "bpf_load d NR_OFFSET = Some (sd_nr d)" "bpf_load d ARCH_OFFSET = Some (sd_arch d)"
  "bpf_load d ARG0_OFFSET = Some (ucast (sd_arg0 d))"
  by (simp_all add: bpf_load_def bpf_consts)

declare bpf_run.simps(2) [simp del]

lemma blocked_list_run:
  "bpf_run d (concat (map (\<lambda>c. [bpf_jump JMP_JEQ_K (nr c) 0 1, bpf_stmt RET_K RET_ERRNO_EPERM]) cs) @ [bpf_stmt RET_K RET_ALLOW]) a =
     Some (if a \<in> nr ` set cs then RET_ERRNO_EPERM else RET_ALLOW)"
  by (induction cs) auto


text \<open>
  The filter on the virtual machine process decides every system call, and exactly so: a
  call of another architecture kills it, a socket is refused unless it is a Unix socket, the
  calls of the block list are refused and every other call is let through.
\<close>

theorem runner_filter_exact:
  "bpf_run d (build_seccomp_filter arch nr) 0 =
     Some (if sd_arch d \<noteq> seccomp_audit_arch arch then RET_KILL_PROCESS
       else if sd_nr d = nr SYS_socket then (if ucast (sd_arg0 d) = AF_UNIX then RET_ALLOW else RET_ERRNO_EPERM)
       else if sd_nr d \<in> nr ` set BLOCKED_SYSCALLS then RET_ERRNO_EPERM
       else RET_ALLOW)"
  by (simp add: build_seccomp_filter_def socket_family_filter_def blocked_list_run)


section \<open>Entering the sandbox (\<open>secure_runner/bootstrap.rs\<close>)\<close>

text \<open>
  The state of the process: what it restricted itself to so far. \<open>rn_files\<close> holds the files of
  \<open>/proc/self\<close> it wrote, \<open>rn_landlock\<close> the rights a rule set handles and those it grants
  below a path.
\<close>

datatype namespace = NsUser | NsMount | NsNet | NsIpc | NsUts | NsCgroup | NsPid

datatype mount_flag = MS_RDONLY | MS_NOSUID | MS_NODEV | MS_NOEXEC | MS_REMOUNT | MS_BIND | MS_REC | MS_PRIVATE

record mount =
  mnt_source :: "string option"
  mnt_target :: string
  mnt_fstype :: "string option"
  mnt_flags :: "mount_flag list"
  mnt_data :: "string option"

record runner_state = host +
  rn_umask :: nat
  rn_no_new_privs :: bool
  rn_dumpable :: bool
  rn_mdwe :: bool
  rn_rlimits :: "(string \<times> u64) list"
  rn_namespaces :: "namespace set"
  rn_files :: "(string \<times> string) list"
  rn_mounts :: "mount list"
  rn_session :: bool
  rn_root :: string
  rn_env :: "(string \<times> string) list"
  rn_fds :: "int set"
  rn_landlock :: "(u64 \<times> (string \<times> u64) list) option"
  rn_seccomp :: "sock_filter list option"
  rn_vm :: "libkrun_runner_config option"

text \<open>
  The kernel: the value a system call returns and the text of the error when it fails, with
  whether it is \<open>EINVAL\<close>; the values of \<open>fork\<close> and \<open>setsid\<close>; what a wait for the child
  returned, a status, an interruption or an error, in turn; which paths exist and which are
  directories; the names in \<open>/proc/self/fd\<close>, those that are text; what the reads of the
  start-up gate returned in turn; and how a virtual machine that was started ended.
\<close>

datatype wait_status = ExitedWith int | Signaled int | OtherStatus
datatype gate_read = GateByte | GateClosed | GateInterrupted | GateFailed string
datatype wait_result = Waited wait_status | Interrupted | WaitFailed string

record runner_env = env +
  rc_at :: "nat \<Rightarrow> int"
  errno_at :: "nat \<Rightarrow> string \<times> bool"
  fork_at :: "nat \<Rightarrow> int"
  setsid_at :: "nat \<Rightarrow> int"
  wait_at :: "nat \<Rightarrow> wait_result list"
  exists_at :: "nat \<Rightarrow> string \<Rightarrow> bool"
  is_dir_at :: "nat \<Rightarrow> string \<Rightarrow> bool"
  proc_fds_at :: "nat \<Rightarrow> string option list"
  egid :: nat
  gate_at :: "nat \<Rightarrow> gate_read list"
  vm_at :: "nat \<Rightarrow> unit result"

text \<open>A system call: its effect when it succeeds, and its return value.\<close>

definition sys_rc :: "'e runner_env_scheme \<Rightarrow> ('z runner_state_scheme \<Rightarrow> 'z runner_state_scheme) \<Rightarrow>
    ('z runner_state_scheme, int) io" where
  "sys_rc E effect = bindE (ask (rc_at E)) (\<lambda>rc. seqE (if 0 \<le> rc then modifyE effect else returnE ()) (returnE rc))"

definition last_os_error :: "'e runner_env_scheme \<Rightarrow> string \<Rightarrow> ('z runner_state_scheme, 'a) io" where
  "last_os_error E ctx = bindE (ask (errno_at E)) (\<lambda>(text, _). throwE (Io ctx text))"

definition syscall_ok :: "'e runner_env_scheme \<Rightarrow> int \<Rightarrow> string \<Rightarrow> ('z runner_state_scheme, unit) io" where
  "syscall_ok E rc ctx = (if rc \<noteq> 0 then last_os_error E ctx else returnE ())"

definition syscall_owned_fd :: "'e runner_env_scheme \<Rightarrow> int \<Rightarrow> string \<Rightarrow> ('z runner_state_scheme, int) io" where
  "syscall_owned_fd E rc ctx = (if rc < 0 then last_os_error E ctx else returnE rc)"

definition path_cstring :: "string \<Rightarrow> string \<Rightarrow> unit result" where
  "path_cstring p ctx = (if CHR 0x00 \<in> set p then Inl (InvalidConfig (ctx @ '': path contains interior NUL: '' @ p)) else Inr ())"

definition no_nul :: "string option \<Rightarrow> string \<Rightarrow> string \<Rightarrow> unit result" where
  "no_nul v ctx what = (case v of
     Some x \<Rightarrow> if CHR 0x00 \<in> set x then Inl (InvalidConfig (ctx @ '': '' @ what @ '' contains interior NUL'')) else Inr ()
   | None \<Rightarrow> Inr ())"

definition mount_path :: "'e runner_env_scheme \<Rightarrow> string option \<Rightarrow> string \<Rightarrow> string option \<Rightarrow> mount_flag list \<Rightarrow>
    string option \<Rightarrow> string \<Rightarrow> ('z runner_state_scheme, unit) io" where
  "mount_path E source target fstype flags data ctx =
     seqE (case source of Some p \<Rightarrow> liftE (path_cstring p ctx) | None \<Rightarrow> returnE ())
     (seqE (liftE (path_cstring target ctx))
     (seqE (liftE (no_nul fstype ctx ''filesystem type''))
     (seqE (liftE (no_nul data ctx ''data''))
     (bindE (sys_rc E (\<lambda>s. s\<lparr>rn_mounts := rn_mounts s @ [\<lparr>mnt_source = source, mnt_target = target,
          mnt_fstype = fstype, mnt_flags = flags, mnt_data = data\<rparr>]\<rparr>)) (\<lambda>rc.
       syscall_ok E rc ctx)))))"

definition ensure_runtime_root :: "'e runner_env_scheme \<Rightarrow> ('z runner_state_scheme, unit) io" where
  "ensure_runtime_root E = sys_io E ''creating secure runner runtime root''"

definition prctl_no_new_privs :: "'e runner_env_scheme \<Rightarrow> ('z runner_state_scheme, unit) io" where
  "prctl_no_new_privs E = bindE (sys_rc E (\<lambda>s. s\<lparr>rn_no_new_privs := True\<rparr>)) (\<lambda>rc.
     if rc \<noteq> 0 then last_os_error E ''setting PR_SET_NO_NEW_PRIVS'' else returnE ())"

definition prctl_disable_dumpable :: "'e runner_env_scheme \<Rightarrow> ('z runner_state_scheme, unit) io" where
  "prctl_disable_dumpable E = bindE (sys_rc E (\<lambda>s. s\<lparr>rn_dumpable := False\<rparr>)) (\<lambda>rc.
     if rc \<noteq> 0 then last_os_error E ''setting PR_SET_DUMPABLE'' else returnE ())"

definition apply_memory_deny_write_execute :: "'e runner_env_scheme \<Rightarrow> ('z runner_state_scheme, unit) io" where
  "apply_memory_deny_write_execute E = bindE (sys_rc E (\<lambda>s. s\<lparr>rn_mdwe := True\<rparr>)) (\<lambda>rc.
     if rc = 0 then returnE ()
     else bindE (ask (errno_at E)) (\<lambda>(text, einval).
       if einval then returnE () else throwE (Io ''setting PR_SET_MDWE'' text)))"

definition set_rlimit :: "string \<Rightarrow> u64 \<Rightarrow> 'z runner_state_scheme \<Rightarrow> 'z runner_state_scheme" where
  "set_rlimit resource v s = s\<lparr>rn_rlimits := AList.update resource v (rn_rlimits s)\<rparr>"

definition apply_runner_file_limit :: "'e runner_env_scheme \<Rightarrow> u64 \<Rightarrow> ('z runner_state_scheme, unit) io" where
  "apply_runner_file_limit E limit_bytes = bindE (sys_rc E (set_rlimit ''RLIMIT_FSIZE'' limit_bytes)) (\<lambda>rc.
     if rc \<noteq> 0 then last_os_error E ''setting runner RLIMIT_FSIZE'' else returnE ())"

definition apply_runner_fd_limit :: "'e runner_env_scheme \<Rightarrow> u32 \<Rightarrow> ('z runner_state_scheme, unit) io" where
  "apply_runner_fd_limit E max_processes =
     (let max_open_files = ucast (max 256 (min 4096 (saturating_mul max_processes 16))) :: u64 in
      bindE (sys_rc E (set_rlimit ''RLIMIT_NOFILE'' max_open_files)) (\<lambda>rc.
        if rc \<noteq> 0 then last_os_error E ''setting runner RLIMIT_NOFILE'' else returnE ()))"

definition proc_write :: "'e runner_env_scheme \<Rightarrow> string \<Rightarrow> string \<Rightarrow> ('z runner_state_scheme, unit) io" where
  "proc_write E p text = seqE (sys_io E (''writing '' @ p)) (modifyE (\<lambda>s. s\<lparr>rn_files := rn_files s @ [(p, text)]\<rparr>))"

definition unshare :: "namespace set \<Rightarrow> 'z runner_state_scheme \<Rightarrow> 'z runner_state_scheme" where
  "unshare ns s = s\<lparr>rn_namespaces := rn_namespaces s \<union> ns\<rparr>"

definition isolate_user_namespace :: "'e runner_env_scheme \<Rightarrow> ('z runner_state_scheme, unit) io" where
  "isolate_user_namespace E =
     bindE (sys_rc E (unshare {NsUser})) (\<lambda>rc.
     seqE (syscall_ok E rc ''unsharing user namespace'')
     (seqE (proc_write E ''/proc/self/setgroups'' (''deny'' @ [CHR 0x0A]))
     (seqE (proc_write E ''/proc/self/uid_map'' (''0 '' @ decimal (euid E) @ '' 1'' @ [CHR 0x0A]))
     (seqE (proc_write E ''/proc/self/gid_map'' (''0 '' @ decimal (egid E) @ '' 1'' @ [CHR 0x0A]))
     (bindE (sys_rc E (\<lambda>s. s)) (\<lambda>rc.
     seqE (syscall_ok E rc ''switching secure runner gid mapping'')
     (bindE (sys_rc E (\<lambda>s. s)) (\<lambda>rc.
       syscall_ok E rc ''switching secure runner uid mapping''))))))))"

definition isolate_mount_ipc_uts_network_and_cgroup :: "'e runner_env_scheme \<Rightarrow> ('z runner_state_scheme, unit) io" where
  "isolate_mount_ipc_uts_network_and_cgroup E =
     bindE (sys_rc E (unshare {NsMount, NsNet, NsIpc, NsUts, NsCgroup})) (\<lambda>rc.
     seqE (syscall_ok E rc ''unsharing mount, network, ipc, uts, and cgroup namespaces'')
       (mount_path E None ''/'' None [MS_REC, MS_PRIVATE] None ''making mount namespace private''))"

definition bind_mount_path :: "'e runner_env_scheme \<Rightarrow> string \<Rightarrow> string \<Rightarrow> bool \<Rightarrow> string \<Rightarrow> ('z runner_state_scheme, unit) io" where
  "bind_mount_path E source target read_only ctx =
     bindE (ask (exists_at E)) (\<lambda>present.
       if \<not> present source then throwE (UnsupportedHost (ctx @ '': missing '' @ source))
       else
         seqE (case path_parent target of Some p \<Rightarrow> sys_io E (ctx @ '': creating '' @ p) | None \<Rightarrow> returnE ())
         (bindE (ask (is_dir_at E)) (\<lambda>dirs.
          seqE (sys_io E (ctx @ '': creating '' @ target))
          (seqE (mount_path E (Some source) target None (if dirs source then [MS_BIND, MS_REC] else [MS_BIND]) None ctx)
            (if read_only then mount_path E None target None
               (if dirs source then [MS_BIND, MS_REMOUNT, MS_RDONLY, MS_REC] else [MS_BIND, MS_REMOUNT, MS_RDONLY]) None ctx
             else returnE ())))))"

definition secure_root_dir :: "libkrun_runner_config \<Rightarrow> string result" where
  "secure_root_dir c = (case path_parent (krc_runtime_dir c) of
     Some p \<Rightarrow> Inr p | None \<Rightarrow> Inl (InvalidConfig ''secure runner runtime_dir must have a parent''))"

definition staged_config :: "libkrun_runner_config \<Rightarrow> libkrun_runner_config" where
  "staged_config c = c\<lparr>
     krc_kernel_image := ''/guest-assets/kernel'',
     krc_rootfs_image := ''/guest-assets/rootfs.raw'',
     krc_cache_image := (case krc_cache_image c of Some _ \<Rightarrow> Some ''/guest-assets/cache.raw'' | None \<Rightarrow> None),
     krc_workspace_image := ''/guest-assets/workspace.raw'',
     krc_runtime_dir := ''/runtime'',
     krc_console_output_path := ''/guest-console.log'',
     krc_vsock_socket := ''/runtime/guest.sock'',
     krc_firmware := (case krc_firmware c of Some _ \<Rightarrow> Some ''/guest-assets/firmware.fd'' | None \<Rightarrow> None)\<rparr>"

text \<open>Returns the new root and the configuration as it reads from inside.\<close>

definition stage_secure_runtime_root :: "'e runner_env_scheme \<Rightarrow> libkrun_runner_config \<Rightarrow>
    ('z runner_state_scheme, string \<times> libkrun_runner_config) io" where
  "stage_secure_runtime_root E c =
     bindE (liftE (secure_root_dir c)) (\<lambda>root.
     let assets = path_join root ''guest-assets''; dev = path_join root ''dev'' in
     seqE (forE [root, krc_runtime_dir c, assets, dev, path_join root ''proc'', path_join root ''tmp'']
             (\<lambda>dir. sys_io E (''creating '' @ dir)))
     (seqE (bind_mount_path E (krc_kernel_image c) (path_join assets ''kernel'') True ''staging secure runner kernel image'')
     (seqE (bind_mount_path E (krc_rootfs_image c) (path_join assets ''rootfs.raw'') True ''staging secure runner rootfs image'')
     (seqE (case krc_cache_image c of
              Some i \<Rightarrow> bind_mount_path E i (path_join assets ''cache.raw'') True ''staging secure runner cache image''
            | None \<Rightarrow> returnE ())
     (seqE (bind_mount_path E (krc_workspace_image c) (path_join assets ''workspace.raw'') False ''staging secure runner workspace image'')
     (seqE (case krc_firmware c of
              Some f \<Rightarrow> bind_mount_path E f (path_join assets ''firmware.fd'') True ''staging secure runner firmware image''
            | None \<Rightarrow> returnE ())
     (seqE (forE [(''/dev/kvm'', ''kvm''), (''/dev/null'', ''null''), (''/dev/zero'', ''zero''), (''/dev/urandom'', ''urandom'')]
             (\<lambda>(source, name). bind_mount_path E source (path_join dev name) False (''staging secure runner device '' @ name)))
       (returnE (root, staged_config c)))))))))"

fun wait_loop :: "wait_result list \<Rightarrow> (string + wait_status) option" where
  "wait_loop [] = None"
| "wait_loop (Waited st # ws) = Some (Inr st)"
| "wait_loop (Interrupted # ws) = wait_loop ws"
| "wait_loop (WaitFailed e # ws) = Some (Inl e)"

fun wait_code :: "wait_status \<Rightarrow> int" where
  "wait_code (ExitedWith c) = c"
| "wait_code (Signaled n) = 128 + n"
| "wait_code OtherStatus = 1"

text \<open>
  Who is running after \<open>fork\<close>: the child goes on, the parent waits for it and ends with its
  code, or waits forever.
\<close>

datatype pid_role = InChild | ParentExits int | ParentWaits

definition enter_pid_namespace :: "'e runner_env_scheme \<Rightarrow> ('z runner_state_scheme, pid_role) io" where
  "enter_pid_namespace E =
     bindE (sys_rc E (unshare {NsPid})) (\<lambda>rc.
     seqE (syscall_ok E rc ''unsharing pid namespace'')
     (bindE (ask (fork_at E)) (\<lambda>pid.
       if pid < 0 then last_os_error E ''forking secure runner pid namespace init''
       else if 0 < pid then
         bindE (ask (wait_at E)) (\<lambda>waits. case wait_loop waits of
           None \<Rightarrow> returnE ParentWaits
         | Some (Inl e) \<Rightarrow> throwE (Io ''waiting for pid namespace child'' e)
         | Some (Inr st) \<Rightarrow> returnE (ParentExits (wait_code st)))
       else
         bindE (ask (setsid_at E)) (\<lambda>rc.
         seqE (if 0 \<le> rc then modifyE (\<lambda>s. s\<lparr>rn_session := True\<rparr>) else returnE ())
         (seqE (syscall_ok E rc ''creating secure runner session'')
           (returnE InChild))))))"

definition enter_chroot :: "'e runner_env_scheme \<Rightarrow> string \<Rightarrow> ('z runner_state_scheme, unit) io" where
  "enter_chroot E root =
     seqE (liftE (path_cstring root ''secure runner root''))
     (bindE (sys_rc E (\<lambda>s. s)) (\<lambda>rc.
     seqE (syscall_ok E rc ''changing directory to secure runner root'')
     (bindE (sys_rc E (\<lambda>s. s\<lparr>rn_root := root\<rparr>)) (\<lambda>rc.
     seqE (syscall_ok E rc ''chrooting secure runner into runtime root'')
     (bindE (sys_rc E (\<lambda>s. s)) (\<lambda>rc.
       syscall_ok E rc ''changing directory to secure runner chroot root''))))))"

definition mount_proc :: "'e runner_env_scheme \<Rightarrow> ('z runner_state_scheme, unit) io" where
  "mount_proc E = mount_path E (Some ''proc'') ''/proc'' (Some ''proc'')
     [MS_RDONLY, MS_NOSUID, MS_NODEV, MS_NOEXEC] None ''mounting secure runner /proc''"

definition mount_private_tmp :: "'e runner_env_scheme \<Rightarrow> ('z runner_state_scheme, unit) io" where
  "mount_private_tmp E = mount_path E (Some ''tmpfs'') ''/tmp'' (Some ''tmpfs'')
     [MS_NOSUID, MS_NODEV, MS_NOEXEC] (Some ''mode=700,size=16777216'') ''mounting secure runner private /tmp''"

text \<open>A name of \<open>/proc/self/fd\<close> read as a descriptor; only those above 2 are closed.\<close>

definition extra_fds :: "string option list \<Rightarrow> int list" where
  "extra_fds names = [int n. Some name \<leftarrow> names, Some n \<leftarrow> [parse_unsigned (2 ^ 31) name], 2 < n]"

definition close_extra_fds :: "'e runner_env_scheme \<Rightarrow> ('z runner_state_scheme, unit) io" where
  "close_extra_fds E =
     seqE (sys_io E ''reading /proc/self/fd'')
     (bindE (ask (proc_fds_at E)) (\<lambda>names.
     seqE (forE names (\<lambda>_. sys_io E ''reading /proc/self/fd entry''))
       (modifyE (\<lambda>s. s\<lparr>rn_fds := rn_fds s - set (extra_fds names)\<rparr>))))"


section \<open>Landlock (\<open>secure_runner/policies.rs\<close>, \<open>src/host_hardening.rs\<close>)\<close>

definition LANDLOCK_ACCESS_FS_EXECUTE :: u64 where "LANDLOCK_ACCESS_FS_EXECUTE = push_bit 0 1"
definition LANDLOCK_ACCESS_FS_WRITE_FILE :: u64 where "LANDLOCK_ACCESS_FS_WRITE_FILE = push_bit 1 1"
definition LANDLOCK_ACCESS_FS_READ_FILE :: u64 where "LANDLOCK_ACCESS_FS_READ_FILE = push_bit 2 1"
definition LANDLOCK_ACCESS_FS_READ_DIR :: u64 where "LANDLOCK_ACCESS_FS_READ_DIR = push_bit 3 1"
definition LANDLOCK_ACCESS_FS_REMOVE_DIR :: u64 where "LANDLOCK_ACCESS_FS_REMOVE_DIR = push_bit 4 1"
definition LANDLOCK_ACCESS_FS_REMOVE_FILE :: u64 where "LANDLOCK_ACCESS_FS_REMOVE_FILE = push_bit 5 1"
definition LANDLOCK_ACCESS_FS_MAKE_DIR :: u64 where "LANDLOCK_ACCESS_FS_MAKE_DIR = push_bit 7 1"
definition LANDLOCK_ACCESS_FS_MAKE_REG :: u64 where "LANDLOCK_ACCESS_FS_MAKE_REG = push_bit 8 1"
definition LANDLOCK_ACCESS_FS_MAKE_SOCK :: u64 where "LANDLOCK_ACCESS_FS_MAKE_SOCK = push_bit 9 1"
definition LANDLOCK_ACCESS_FS_MAKE_FIFO :: u64 where "LANDLOCK_ACCESS_FS_MAKE_FIFO = push_bit 10 1"
definition LANDLOCK_ACCESS_FS_MAKE_SYM :: u64 where "LANDLOCK_ACCESS_FS_MAKE_SYM = push_bit 12 1"
definition LANDLOCK_ACCESS_FS_REFER :: u64 where "LANDLOCK_ACCESS_FS_REFER = push_bit 13 1"
definition LANDLOCK_ACCESS_FS_TRUNCATE :: u64 where "LANDLOCK_ACCESS_FS_TRUNCATE = push_bit 14 1"

definition landlock_handled_access_fs :: "u32 \<Rightarrow> u64" where
  "landlock_handled_access_fs abi =
     (let access = LANDLOCK_ACCESS_FS_EXECUTE OR LANDLOCK_ACCESS_FS_WRITE_FILE OR LANDLOCK_ACCESS_FS_READ_FILE OR
        LANDLOCK_ACCESS_FS_READ_DIR OR LANDLOCK_ACCESS_FS_REMOVE_DIR OR LANDLOCK_ACCESS_FS_REMOVE_FILE OR
        LANDLOCK_ACCESS_FS_MAKE_DIR OR LANDLOCK_ACCESS_FS_MAKE_REG OR LANDLOCK_ACCESS_FS_MAKE_SOCK OR
        LANDLOCK_ACCESS_FS_MAKE_FIFO OR LANDLOCK_ACCESS_FS_MAKE_SYM;
      access = (if 2 \<le> abi then access OR LANDLOCK_ACCESS_FS_REFER else access) in
      if 3 \<le> abi then access OR LANDLOCK_ACCESS_FS_TRUNCATE else access)"

definition landlock_runtime_access :: "u32 \<Rightarrow> u64" where
  "landlock_runtime_access abi = landlock_handled_access_fs abi"

definition landlock_abi :: "'e runner_env_scheme \<Rightarrow> ('z runner_state_scheme, u32) io" where
  "landlock_abi E = bindE (ask (rc_at E)) (\<lambda>rc.
     if 1 \<le> rc then returnE (of_int rc)
     else bindE (ask (errno_at E)) (\<lambda>(text, _).
       throwE (UnsupportedHost (''secure isolation mode requires Linux Landlock support: '' @ text))))"

definition open_path_fd :: "'e runner_env_scheme \<Rightarrow> string \<Rightarrow> string \<Rightarrow> ('z runner_state_scheme, int) io" where
  "open_path_fd E path ctx =
     seqE (liftE (path_cstring path ctx))
     (bindE (sys_rc E (\<lambda>s. s)) (\<lambda>rc. syscall_owned_fd E rc ctx))"

text \<open>Adds to the rules of the rule set under construction.\<close>

definition add_landlock_rule :: "'e runner_env_scheme \<Rightarrow> string \<Rightarrow> u64 \<Rightarrow> (string \<times> u64) list \<Rightarrow>
    ('z runner_state_scheme, (string \<times> u64) list) io" where
  "add_landlock_rule E path allowed rules =
     seqE (open_path_fd E path (''opening Landlock path '' @ path))
     (bindE (sys_rc E (\<lambda>s. s)) (\<lambda>rc.
     seqE (syscall_ok E rc (''adding Landlock rule for '' @ path))
       (returnE (rules @ [(path, allowed)]))))"

definition apply_landlock_policy :: "'e runner_env_scheme \<Rightarrow> ('z runner_state_scheme, unit) io" where
  "apply_landlock_policy E =
     bindE (landlock_abi E) (\<lambda>abi.
     bindE (sys_rc E (\<lambda>s. s)) (\<lambda>rc.
     seqE (syscall_owned_fd E rc ''creating Landlock ruleset'')
     (bindE (add_landlock_rule E ''/'' (landlock_runtime_access abi) []) (\<lambda>rules.
     bindE (sys_rc E (\<lambda>s. s\<lparr>rn_landlock := Some (landlock_handled_access_fs abi, rules)\<rparr>)) (\<lambda>rc.
       syscall_ok E rc ''restricting secure runner with Landlock'')))))"

definition apply_seccomp_filter :: "'e runner_env_scheme \<Rightarrow> platform \<Rightarrow> (syscall \<Rightarrow> u32) \<Rightarrow> ('z runner_state_scheme, unit) io" where
  "apply_seccomp_filter E pf nr =
     bindE (sys_rc E (\<lambda>s. s\<lparr>rn_seccomp := Some (build_seccomp_filter (target_arch pf) nr)\<rparr>)) (\<lambda>rc.
       if rc \<noteq> 0 then last_os_error E ''installing secure runner seccomp filter'' else returnE ())"

section \<open>The whole sequence\<close>

datatype bootstrap_result = Sandboxed libkrun_runner_config | ExitsWith int | WaitsForChild

definition apply_secure_bootstrap :: "'e runner_env_scheme \<Rightarrow> platform \<Rightarrow> (syscall \<Rightarrow> u32) \<Rightarrow> libkrun_runner_config \<Rightarrow>
    ('z runner_state_scheme, bootstrap_result) io" where
  "apply_secure_bootstrap E pf nr c =
    (if target_os pf \<noteq> Linux then throwE (UnsupportedHost ''secure runner bootstrap requires Linux'') else
     seqE (modifyE (\<lambda>s. s\<lparr>rn_umask := 63\<rparr>))
     (seqE (ensure_runtime_root E)
     (seqE (prctl_no_new_privs E)
     (seqE (prctl_disable_dumpable E)
     (seqE (apply_memory_deny_write_execute E)
     (seqE (apply_runner_file_limit E (krc_runner_log_limit_bytes c))
     (seqE (apply_runner_fd_limit E (krc_max_processes c))
     (seqE (isolate_user_namespace E)
     (seqE (isolate_mount_ipc_uts_network_and_cgroup E)
     (bindE (stage_secure_runtime_root E c) (\<lambda>(root, c').
     bindE (enter_pid_namespace E) (\<lambda>role. case role of
       ParentExits code \<Rightarrow> returnE (ExitsWith code)
     | ParentWaits \<Rightarrow> returnE WaitsForChild
     | InChild \<Rightarrow>
         seqE (enter_chroot E root)
         (seqE (mount_proc E)
         (seqE (mount_private_tmp E)
         (seqE (modifyE (\<lambda>s. s\<lparr>rn_env := AList.update ''TMP'' ''/tmp'' (AList.update ''TEMP'' ''/tmp'' (AList.update ''TMPDIR'' ''/tmp'' (rn_env s)))\<rparr>))
         (seqE (close_extra_fds E)
         (seqE (apply_landlock_policy E)
         (seqE (apply_seccomp_filter E pf nr)
           (returnE (Sandboxed c'))))))))))))))))))))"


section \<open>The runner process (\<open>src/backend/libkrun/runner.rs\<close>)\<close>

fun gate_loop :: "gate_read list \<Rightarrow> unit result option" where
  "gate_loop [] = None"
| "gate_loop (GateByte # rs) = Some (Inr ())"
| "gate_loop (GateClosed # rs) = Some (Inl (Backend ''secure runner startup gate closed before release''))"
| "gate_loop (GateInterrupted # rs) = gate_loop rs"
| "gate_loop (GateFailed e # rs) = Some (Inl (Io ''waiting for secure runner startup gate'' e))"

text \<open>
  The argument is the value of \<open>SAGENS_LIBKRUN_STARTUP_FD\<close>, if it is set; the result says
  whether the gate was passed, or is waited for forever.
\<close>

definition wait_for_startup_gate :: "'e runner_env_scheme \<Rightarrow> string option \<Rightarrow> ('z runner_state_scheme, bool) io" where
  "wait_for_startup_gate E var = (case var of
     None \<Rightarrow> returnE True
   | Some raw_fd \<Rightarrow> (case parse_unsigned (2 ^ 31) raw_fd of
       None \<Rightarrow> throwE (InvalidConfig (''invalid SAGENS_LIBKRUN_STARTUP_FD value '' @ raw_fd))
     | Some _ \<Rightarrow> bindE (ask (gate_at E)) (\<lambda>reads. case gate_loop reads of
         None \<Rightarrow> returnE False
       | Some r \<Rightarrow> seqE (liftE r) (returnE True))))"

text \<open>Preparing and entering the virtual machine (the libkrun library), recorded as started.\<close>

definition start_vm :: "'e runner_env_scheme \<Rightarrow> libkrun_runner_config \<Rightarrow> ('z runner_state_scheme, unit) io" where
  "start_vm E c = seqE (modifyE (\<lambda>s. s\<lparr>rn_vm := Some c\<rparr>)) (bindE (ask (vm_at E)) liftE)"

definition run_from_file :: "'e runner_env_scheme \<Rightarrow> platform \<Rightarrow> (syscall \<Rightarrow> u32) \<Rightarrow> string option \<Rightarrow> libkrun_runner_config json_file \<Rightarrow>
    ('z runner_state_scheme, unit) io" where
  "run_from_file E pf nr gate file =
     seqE (sys_io E ''reading libkrun runner config'')
     (bindE (decode_json ''decoding libkrun runner config'' file) (\<lambda>c.
     seqE (liftE (validate_secure_constraints pf c))
     (bindE (wait_for_startup_gate E gate) (\<lambda>released.
       if \<not> released then returnE ()
       else if krc_isolation_mode c = Secure then
         bindE (apply_secure_bootstrap E pf nr c) (\<lambda>res. case res of
           Sandboxed c' \<Rightarrow> start_vm E c'
         | ExitsWith _ \<Rightarrow> returnE ()
         | WaitsForChild \<Rightarrow> returnE ())
       else start_vm E c))))"

section \<open>Properties of the secure runner\<close>

lemma wp_last_os_error: "wp (last_os_error E ctx) Q (\<lambda>_ _. True) s"
  unfolding last_os_error_def by (rule wp_after) (auto simp: wp_simps split: prod.splits)

lemma wp_never_in_child:
  assumes "\<And>n. setsid_at E n \<noteq> 0"
  shows "wp (enter_pid_namespace E) (\<lambda>r _. r \<noteq> InChild) (\<lambda>_ _. True) s"
  unfolding enter_pid_namespace_def
  by (intro wp_after) (auto simp: wp_last_os_error wp_simps wp_exact syscall_ok_def assms split: option.split sum.split)

lemma bootstrap_never_sandboxed:
  assumes "\<And>n. setsid_at E n \<noteq> 0"
  shows "apply_secure_bootstrap E pf nr c s \<noteq> (Inr (Sandboxed c'), t)"
proof
  assume run: "apply_secure_bootstrap E pf nr c s = (Inr (Sandboxed c'), t)"
  have tail: "wp (bindE (enter_pid_namespace E) (\<lambda>role. case role of
       ParentExits code \<Rightarrow> returnE (ExitsWith code) | ParentWaits \<Rightarrow> returnE WaitsForChild | InChild \<Rightarrow> m))
     (\<lambda>r _. r \<noteq> Sandboxed c') (\<lambda>_ _. True) t" for m t
    unfolding wp_bindE
    by (rule wp_mono [OF wp_never_in_child [OF assms]]) (auto simp: wp_simps split: pid_role.split)
  have "wp (apply_secure_bootstrap E pf nr c) (\<lambda>r _. r \<noteq> Sandboxed c') (\<lambda>_ _. True) s"
  proof (cases "target_os pf = Linux")
    case True
    show ?thesis
      unfolding apply_secure_bootstrap_def if_not_P [OF not_not [THEN iffD2, OF True]] case_prod_beta
      by (intro wp_after tail) simp_all
  next
    case False
    then show ?thesis by (simp add: apply_secure_bootstrap_def wp_simps)
  qed
  with run show False by (auto dest: wp_runD)
qed


lemma keeps_sys_rc [keeps_intro]: "counter_free f \<Longrightarrow> (\<And>s. f (g s) = f s) \<Longrightarrow> keeps f (sys_rc E g)"
  unfolding sys_rc_def by (auto intro!: keeps_intro)

lemmas runner_op_defs = ensure_runtime_root_def prctl_no_new_privs_def prctl_disable_dumpable_def
  apply_memory_deny_write_execute_def apply_runner_file_limit_def apply_runner_fd_limit_def isolate_user_namespace_def
  isolate_mount_ipc_uts_network_and_cgroup_def enter_pid_namespace_def enter_chroot_def set_rlimit_def unshare_def
  mount_proc_def mount_private_tmp_def close_extra_fds_def apply_landlock_policy_def apply_seccomp_filter_def
  add_landlock_rule_def open_path_fd_def landlock_abi_def proc_write_def Let_def

lemma keeps_split_prod: "(\<And>a b. keeps f (g a b)) \<Longrightarrow> keeps f (case x of (a, b) \<Rightarrow> g a b)"
  by (cases x) simp

lemma keeps_pid_role: "keeps f a \<Longrightarrow> (\<And>c. keeps f (b c)) \<Longrightarrow> keeps f d \<Longrightarrow>
    keeps f (case x of InChild \<Rightarrow> a | ParentExits c \<Rightarrow> b c | ParentWaits \<Rightarrow> d)"
  by (cases x) simp_all

lemma keeps_vm_calls: "keeps rn_vm (mount_path E a b c d e f)" "keeps rn_vm (last_os_error E ctx)"
  "keeps rn_vm (syscall_ok E rc ctx)" "keeps rn_vm (syscall_owned_fd E rc ctx)"
  unfolding mount_path_def last_os_error_def syscall_ok_def syscall_owned_fd_def
  by (auto intro!: keeps_intro keeps_split_prod split: option.split)

lemma keeps_vm_stage: "keeps rn_vm (stage_secure_runtime_root E c)"
  unfolding stage_secure_runtime_root_def bind_mount_path_def Let_def
  by (auto intro!: keeps_intro keeps_vm_calls keeps_split_prod split: option.split)

lemma keeps_vm_bootstrap: "keeps rn_vm (apply_secure_bootstrap E pf nr c)"
  unfolding apply_secure_bootstrap_def case_prod_beta
  by (intro keeps_intro keeps_vm_stage keeps_pid_role)
    (auto simp: runner_op_defs intro!: keeps_intro keeps_vm_calls keeps_split_prod split: option.split sum.split)

text \<open>
  C36: In secure isolation mode no virtual machine is ever started. \<open>setsid\<close> returns the id of
  the new session, which is not zero, or minus one, but the code takes everything except zero
  for a failure: so whatever else the kernel answers, the runner ends before it starts one.
\<close>

theorem secure_vm_never_starts:
  fixes s :: "'z runner_state_scheme"
  assumes "\<And>n. setsid_at E n \<noteq> 0" "krc_isolation_mode c = Secure"
  shows "rn_vm (snd (run_from_file E pf nr gate (Intact c) s)) = rn_vm s"
proof -
  let ?P = "\<lambda>t :: 'z runner_state_scheme. rn_vm t = rn_vm s"
  have boot: "wp (apply_secure_bootstrap E pf nr c) (\<lambda>r t. ?P t \<and> (\<forall>c'. r \<noteq> Sandboxed c')) (\<lambda>_. ?P) t" if "?P t" for t
    using keepsD [OF keeps_vm_bootstrap, of E pf nr c t] bootstrap_never_sandboxed [OF assms(1), of pf nr c t] that
    by (auto simp: wp_def split: prod.splits sum.splits)
  have "keeps (rn_vm :: 'z runner_state_scheme \<Rightarrow> _) (wait_for_startup_gate E gate)"
    unfolding wait_for_startup_gate_def by (auto intro!: keeps_intro split: option.split)
  then have gate: "wp (wait_for_startup_gate E gate) (\<lambda>_. ?P) (\<lambda>_. ?P) t" if "?P t" for t
    using that by (simp add: wp_snd keeps_def)
  have "wp (run_from_file E pf nr gate (Intact c)) (\<lambda>_. ?P) (\<lambda>_. ?P) s"
    unfolding run_from_file_def wp_seqE
    by (rule wp_sys_ioI) (auto simp: wp_simps assms(2) intro!: wp_mono [OF boot] wp_mono [OF gate] split: sum.split bootstrap_result.split)
  then show ?thesis by (simp add: wp_snd)
qed

lemma append_suffix_same: "a @ x = b @ y \<Longrightarrow> length x \<le> length y \<Longrightarrow> \<exists>z. y = z @ x"
  by (auto simp: append_eq_append_conv2)

lemma path_join_suffix: "\<exists>d. path_join a n = d @ n"
proof -
  have "path_join a n = [] @ n \<or> path_join a n = a @ n \<or> path_join a n = (a @ ''/'') @ n" by (simp add: path_join_def)
  then show ?thesis by blast
qed

text \<open>
  In secure isolation mode the host would wait for the wrong socket. The runner creates its
  socket inside its new root, in the run directory; the host connects to the path in the
  shared socket directory that the layout of the run names, and the two are never the same
  file, the name of a run being 32 hexadecimal digits.
\<close>

theorem secure_socket_elsewhere:
  assumes "blr_run_layout r = layout_of E W u" "length (uuid_simple E u) = 32" "CHR ''/'' \<notin> set (uuid_simple E u)"
    and "secure_root_dir (build_runner_config r) = Inr root"
  shows "guest_endpoint_socket r \<noteq> root @ krc_vsock_socket (staged_config (build_runner_config r))"
proof
  let ?n = "uuid_simple E u @ ''.sock''"
  assume "guest_endpoint_socket r = root @ krc_vsock_socket (staged_config (build_runner_config r))"
  then have eq: "vsock_socket_path E u = root @ ''/runtime/guest.sock''"
    using assms(1) by (simp add: guest_endpoint_socket_def layout_of_def Let_def staged_config_def)
  obtain d where d: "vsock_socket_path E u = d @ ?n"
    using path_join_suffix by (auto simp: vsock_socket_path_def)
  from append_suffix_same [of root "''/runtime/guest.sock''" d ?n] eq d assms(2)
  obtain z where "?n = z @ ''/runtime/guest.sock''" by auto
  then have "uuid_simple E u = z @ ''/runtime/guest''"
    using append_eq_append_conv [of "''.sock''" "''.sock''" "uuid_simple E u" "z @ ''/runtime/guest''"] by simp
  with assms(3) show False by simp
qed

definition secure_env :: runner_env where
  "secure_env = env.extend quiet_env
     (runner_env.fields (\<lambda>_. 0) (\<lambda>_. (''Success'', False)) (\<lambda>_. 0) (\<lambda>_. 1) (\<lambda>_. []) (\<lambda>_ _. True) (\<lambda>_ _. False) (\<lambda>_. []) 0 (\<lambda>_. []) (\<lambda>_. Inr ()))"

definition fresh_runner :: runner_state where
  "fresh_runner = \<lparr>calls = 0, rn_umask = 18, rn_no_new_privs = False, rn_dumpable = True, rn_mdwe = False, rn_rlimits = [],
     rn_namespaces = {}, rn_files = [], rn_mounts = [], rn_session = False, rn_root = ''/'', rn_env = [], rn_fds = {0, 1, 2, 3},
     rn_landlock = None, rn_seccomp = None, rn_vm = None\<rparr>"

theorem secure_vm_never_starts_witness:
  "rn_vm (snd (run_from_file secure_env \<lparr>target_os = Linux, target_arch = X86_64\<rparr> (\<lambda>_. 0) None
     (Intact (build_runner_config demo_launch)) fresh_runner)) = None"
proof -
  have "setsid_at secure_env n \<noteq> 0" for n by (simp add: secure_env_def env.defs runner_env.defs)
  from secure_vm_never_starts [where E = secure_env and c = "build_runner_config demo_launch" and s = fresh_runner, OF this]
  show ?thesis by (simp add: build_runner_config_def demo_launch_def fresh_runner_def)
qed

definition secure_launch :: backend_launch_request where
  "secure_launch = demo_launch\<lparr>blr_run_layout := layout_of (quiet_env\<lparr>uuid_simple := \<lambda>_. replicate 32 (CHR ''a'')\<rparr>) \<lparr>wst_state_dir = ''/s'', wst_disk_size_mib = 1\<rparr> 4\<rparr>"

theorem secure_socket_elsewhere_witness:
  "guest_endpoint_socket secure_launch \<noteq> ''/s/runs/4/runtime/guest.sock''"
proof -
  let ?E = "quiet_env\<lparr>uuid_simple := \<lambda>_. replicate 32 (CHR ''a'')\<rparr>"
  have "secure_root_dir (build_runner_config secure_launch) = Inr ''/s/runs/4''" by code_simp
  from secure_socket_elsewhere [OF _ _ _ this, of ?E "\<lparr>wst_state_dir = ''/s'', wst_disk_size_mib = 1\<rparr>" 4]
  show ?thesis by (auto simp: secure_launch_def staged_config_def)
qed


end
