(* ===== verification/Guest_Agent.thy ===== *)
theory Guest_Agent
  imports Guest_Stats Guest_Rpc Secure_Runner
begin

text \<open>
  The guest agent as a server (\<open>guest-agent/src/guest_agent/linux_server.rs\<close>, \<open>rpc.rs\<close>,
  \<open>linux_exec.rs\<close>, \<open>pty.rs\<close>): one task reads requests and answers each before it reads the next;
  every command and shell has further tasks of its own, which read its output, wait for its
  end and send events on the same connection. The tasks interleave between their awaits; an
  action below is what one of them, a child process or a timer does in between. What a child
  does and when timers fire is up to the environment, so every timing is covered.
\<close>

section \<open>State\<close>

text \<open>A process as it is started: what \<open>Command\<close> and its \<open>pre_exec\<close> hook set up.\<close>

record process =
  pr_program :: string
  pr_args :: "string list"
  pr_cwd :: string
  pr_env :: "(string \<times> string) list"
  pr_uid :: u32
  pr_gid :: u32
  pr_rlimits :: "(string \<times> u64) list"
  pr_filter :: "sock_filter list option"
  pr_tty :: bool

text \<open>
  A pipe or terminal the agent reads: what was written so far, how much of it the reading
  task took, whether someone can still write, and whether the task still reads.
\<close>

record pipe =
  pi_written :: "u8 list"
  pi_read :: nat
  pi_open :: bool
  pi_reading :: bool

text \<open>Where the task that waits for a shell, or for a command, has got to.\<close>

datatype shell_wait = ShellWaitStarts | ShellWaitHolds | ShellWaitSaw int | ShellWaitDone

datatype exec_wait = ExecWaits | ExecTermed | ExecKills | ExecKillWaits | ExecSaw exec_exit | ExecReported exec_exit

datatype task = ShellTask uuid shell_wait | ExecTask uuid "u64 option" exec_wait

text \<open>
  \<open>ch_status\<close>: none while it runs, then its exit code, if it was not killed by a signal.
  \<open>ch_reaped\<close>: a \<open>wait\<close> of the agent has returned, so the handle has no process id any more.
\<close>

record child =
  ch_process :: process
  ch_status :: "int option option"
  ch_reaped :: bool
  ch_input :: "u8 list"
  ch_out :: pipe
  ch_err :: pipe
  ch_task :: task

text \<open>
  The task that serves requests is either at its \<open>next_request\<close>, or inside \<open>close_shell\<close> for
  the children of a list (and then answers a request and perhaps ends), or has returned.
\<close>

datatype close_phase = CloseTerm | CloseWait | CloseKill | CloseReap

datatype handler = Serving | Closing string "nat list" close_phase bool | Ended "failure + bool"

record agent_state = guest_fs +
  ag_out :: "guest_event list"
  ag_children :: "child list"
  ag_shells :: "(uuid \<times> nat) list"
  ag_execs :: "uuid list"
  ag_handler :: handler

record guest_env = stats_env +
  ge_arch :: target_arch
  ge_nr :: "syscall \<Rightarrow> u32"

definition upd_child :: "nat \<Rightarrow> (child \<Rightarrow> child) \<Rightarrow> 'z agent_state_scheme \<Rightarrow> 'z agent_state_scheme" where
  "upd_child k f s = (if k < length (ag_children s) then s\<lparr>ag_children := (ag_children s)[k := f (ag_children s ! k)]\<rparr> else s)"

section \<open>Events (\<open>rpc.rs\<close>)\<close>

definition agent_send_event :: "'e env_scheme \<Rightarrow> guest_event \<Rightarrow> ('z agent_state_scheme, unit) io" where
  "agent_send_event E ev =
     seqE (sys_json E ''encoding guest event'')
     (seqE (sys_io E ''writing guest event'')
     (seqE (sys_io E ''terminating guest event'')
       (modifyE (\<lambda>s. s\<lparr>ag_out := ag_out s @ [ev]\<rparr>))))"

definition send_error_event :: "'e env_scheme \<Rightarrow> string option \<Rightarrow> uuid option \<Rightarrow> sandbox_error \<Rightarrow> ('z agent_state_scheme, unit) io" where
  "send_error_event E i target error = agent_send_event E (EvError i target (display error))"

section \<open>Processes (\<open>linux_exec.rs\<close>)\<close>

definition process_limits :: "u32 \<Rightarrow> u32 \<Rightarrow> u64 \<Rightarrow> (string \<times> u64) list" where
  "process_limits max_processes max_open_files max_file_size_bytes =
     [(''RLIMIT_NPROC'', ucast max_processes), (''RLIMIT_NOFILE'', ucast max_open_files), (''RLIMIT_CORE'', 0),
      (''RLIMIT_FSIZE'', max_file_size_bytes)]"

text \<open>
  \<open>configure_command\<close> and the \<open>pre_exec\<close> hook: the variables of the request override the fixed
  ones, the filter is only for guests without a network.
\<close>

definition configure_command :: "'e guest_env_scheme \<Rightarrow> boot_config \<Rightarrow> bool \<Rightarrow> string \<Rightarrow> string list \<Rightarrow>
    (string \<times> string) list \<Rightarrow> string \<Rightarrow> process result" where
  "configure_command E c tty program args vars cwd = (case resolve_workspace_path ''/workspace'' cwd of
     Inl e \<Rightarrow> Inl e
   | Inr dir \<Rightarrow> Inr \<lparr>pr_program = program, pr_args = args, pr_cwd = dir,
       pr_env = bt_of_list ([(''HOME'', ''/workspace''), (''USER'', ''sandbox''), (''TMPDIR'', ''/tmp''),
         (''NO_PROXY'', if boot_network_enabled c then '''' else ''*'')] @ vars),
       pr_uid = boot_uid c, pr_gid = boot_gid c,
       pr_rlimits = process_limits (boot_max_processes c) (boot_max_open_files c) (boot_max_file_size_bytes c),
       pr_filter = (if boot_network_enabled c then None else Some (build_no_network_seccomp_filter (ge_arch E) (ge_nr E))),
       pr_tty = tty\<rparr>)"

definition has_nul :: "process \<Rightarrow> bool" where
  "has_nul p \<longleftrightarrow> (\<exists>w \<in> set (pr_program p # pr_cwd p # pr_args p @ map fst (pr_env p) @ map snd (pr_env p)). CHR 0x00 \<in> set w)"

definition fresh_pipe :: "bool \<Rightarrow> pipe" where
  "fresh_pipe used = \<lparr>pi_written = [], pi_read = 0, pi_open = used, pi_reading = used\<rparr>"

definition spawn :: "'e env_scheme \<Rightarrow> string \<Rightarrow> process \<Rightarrow> task \<Rightarrow> ('z agent_state_scheme, nat) io" where
  "spawn E ctx p t =
     (if has_nul p then throwE (Io ctx ''nul byte found in provided data'')
      else seqE (sys_io E ctx)
        (bindE (getE (\<lambda>s. length (ag_children s))) (\<lambda>k.
         seqE (modifyE (\<lambda>s. s\<lparr>ag_children := ag_children s @ [\<lparr>ch_process = p, ch_status = None, ch_reaped = False,
             ch_input = [], ch_out = fresh_pipe True, ch_err = fresh_pipe (\<not> pr_tty p), ch_task = t\<rparr>]\<rparr>))
         (returnE k))))"

definition open_shell_pty :: "'e env_scheme \<Rightarrow> ('z agent_state_scheme, unit) io" where
  "open_shell_pty E = seqE (sys_io E ''opening guest pty'') (sys_io E ''cloning guest pty master for reader'')"

definition open_shell :: "'e guest_env_scheme \<Rightarrow> boot_config \<Rightarrow> uuid \<Rightarrow> shell_request \<Rightarrow> ('z agent_state_scheme, unit) io" where
  "open_shell E c session req =
     seqE (open_shell_pty E)
     (seqE (sys_io E ''cloning shell pty slave for stdin'')
     (seqE (sys_io E ''cloning shell pty slave for stdout'')
     (bindE (liftE (configure_command E c True (sh_program req) (sh_args req) (sh_env req) (sh_cwd req))) (\<lambda>p.
      bindE (spawn E ''spawning shell command'' p (ShellTask session ShellWaitStarts)) (\<lambda>k.
        modifyE (\<lambda>s. s\<lparr>ag_shells := AList.update session k (ag_shells s)\<rparr>))))))"

definition spawn_exec :: "'e guest_env_scheme \<Rightarrow> boot_config \<Rightarrow> uuid \<Rightarrow> exec_request \<Rightarrow> ('z agent_state_scheme, unit) io" where
  "spawn_exec E c e req =
     bindE (liftE (configure_command E c False (ex_program req) (ex_args req) (ex_env req) (ex_cwd req))) (\<lambda>p.
     seqE (spawn E ''spawning exec command'' p (ExecTask e (ex_timeout_ms req) ExecWaits))
       (modifyE (\<lambda>s. s\<lparr>ag_execs := List.insert e (ag_execs s)\<rparr>)))"

definition write_shell_input :: "'e env_scheme \<Rightarrow> 'w wire_scheme \<Rightarrow> nat \<Rightarrow> string \<Rightarrow> ('z agent_state_scheme, unit) io" where
  "write_shell_input E W k data =
     bindE (liftE (decode_bytes W data)) (\<lambda>d.
     seqE (sys_io E ''writing shell pty input'')
       (modifyE (upd_child k (\<lambda>h. h\<lparr>ch_input := ch_input h @ d\<rparr>))))"

definition resize_shell :: "'e env_scheme \<Rightarrow> ('z agent_state_scheme, unit) io" where
  "resize_shell E = sys_io E ''resizing guest pty''"

text \<open>\<open>send_process_group_signal\<close>: whether it succeeded; a reaped child has no id. Only \<open>SIGKILL\<close> is certain to end the child.\<close>

datatype signal = SIGTERM | SIGKILL

definition kill_child :: "child \<Rightarrow> child" where
  "kill_child h = (if ch_status h = None then h\<lparr>ch_status := Some None\<rparr> else h)"

definition send_process_group_signal :: "'e env_scheme \<Rightarrow> nat \<Rightarrow> signal \<Rightarrow> ('z agent_state_scheme, bool) io" where
  "send_process_group_signal E k sig = bindE (getE (\<lambda>s. k < length (ag_children s) \<and> \<not> ch_reaped (ag_children s ! k))) (\<lambda>live.
     if \<not> live then returnE False
     else bindE (ask (fault_at E)) (\<lambda>f. case f of
         Some _ \<Rightarrow> returnE False
       | None \<Rightarrow> seqE (if sig = SIGKILL then modifyE (upd_child k kill_child) else returnE ()) (returnE True)))"

text \<open>\<open>Child::kill\<close>: the signal, then a \<open>wait\<close>; nothing on a child already waited for.\<close>

definition kill_and_wait :: "'e env_scheme \<Rightarrow> nat \<Rightarrow> ('z agent_state_scheme, unit) io" where
  "kill_and_wait E k = bindE (send_process_group_signal E k SIGKILL) (\<lambda>sent.
     if sent then modifyE (upd_child k (\<lambda>h. h\<lparr>ch_reaped := True\<rparr>)) else returnE ())"

section \<open>Requests (\<open>linux_server.rs\<close>)\<close>

definition answer :: "'e env_scheme \<Rightarrow> string \<Rightarrow> uuid option \<Rightarrow> ('a \<Rightarrow> guest_event) \<Rightarrow> ('z agent_state_scheme, 'a) io \<Rightarrow>
    ('z agent_state_scheme, unit) io" where
  "answer E i target ok m = bindE (tryE m) (\<lambda>r. case r of
     Inr a \<Rightarrow> agent_send_event E (ok a)
   | Inl e \<Rightarrow> send_error_event E (Some i) target e)"

definition unknown_shell :: "'e env_scheme \<Rightarrow> uuid \<Rightarrow> sandbox_error" where
  "unknown_shell E session = InvalidConfig (''unknown shell session '' @ uuid_string E session)"

definition with_shell :: "'e env_scheme \<Rightarrow> string \<Rightarrow> uuid \<Rightarrow> (nat \<Rightarrow> ('z agent_state_scheme, unit) io) \<Rightarrow> ('z agent_state_scheme, unit) io" where
  "with_shell E i session f = bindE (getE (\<lambda>s. map_of (ag_shells s) session)) (\<lambda>r. case r of
     Some k \<Rightarrow> f k
   | None \<Rightarrow> send_error_event E (Some i) (Some session) (unknown_shell E session))"

fun handle_guest_request :: "'e guest_env_scheme \<Rightarrow> 'w wire_scheme \<Rightarrow> boot_config \<Rightarrow> guest_request \<Rightarrow> ('z agent_state_scheme, unit) io" where
  "handle_guest_request E W c (GPing i) = agent_send_event E (EvPong i)"
| "handle_guest_request E W c (GExec i e req) = bindE (tryE (spawn_exec E c e req)) (\<lambda>r. case r of
     Inl error \<Rightarrow> send_error_event E (Some i) (Some e) error | Inr _ \<Rightarrow> returnE ())"
| "handle_guest_request E W c (GOpenShell i session req) =
     answer E i (Some session) (\<lambda>_. EvShellOpened i session) (open_shell E c session req)"
| "handle_guest_request E W c (GShellInput i session data) = with_shell E i session (\<lambda>k.
     seqE (write_shell_input E W k data) (agent_send_event E (EvAck i)))"
| "handle_guest_request E W c (GResizeShell i session cols rows) = with_shell E i session (\<lambda>k.
     seqE (resize_shell E) (agent_send_event E (EvAck i)))"
| "handle_guest_request E W c (GCloseShell i session) = with_shell E i session (\<lambda>k.
     modifyE (\<lambda>s. s\<lparr>ag_shells := AList.delete session (ag_shells s), ag_handler := Closing i [k] CloseTerm False\<rparr>))"
| "handle_guest_request E W c (GSnapshotWorkspace i) = answer E i None (EvWorkspaceSnapshot i) (snapshot_workspace E)"
| "handle_guest_request E W c (GSyncWorkspace i) = answer E i None (\<lambda>_. EvAck i) sync_workspace"
| "handle_guest_request E W c (GRuntimeStats i) = answer E i None (EvRuntimeStats i) (runtime_stats E)"
| "handle_guest_request E W c (GListFiles i path) = answer E i None (EvFilesListed i) (list_files E path)"
| "handle_guest_request E W c (GReadFile i path limit) =
     answer E i None (\<lambda>r. EvFileRead i (from_read_file W r)) (read_file E path limit)"
| "handle_guest_request E W c (GWriteFile i path data parents) =
     answer E i None (\<lambda>_. EvAck i) (bindE (liftE (decode_bytes W data)) (\<lambda>d. write_file E path d parents))"
| "handle_guest_request E W c (GMakeDir i path recursive) = answer E i None (\<lambda>_. EvAck i) (make_dir E path recursive)"
| "handle_guest_request E W c (GRemovePath i path recursive) = answer E i None (\<lambda>_. EvAck i) (remove_path E path recursive)"
| "handle_guest_request E W c (GShutdown i) =
     modifyE (\<lambda>s. s\<lparr>ag_shells := [], ag_handler := Closing i (map snd (ag_shells s)) CloseTerm True\<rparr>)"

text \<open>
  \<open>terminate_child\<close> on the first child of the list, one phase at a time: each phase takes the
  child's lock. When the list is empty the request is answered. The shells map stays locked
  from the first phase to the last.
\<close>

fun close_step :: "'e env_scheme \<Rightarrow> string \<Rightarrow> nat list \<Rightarrow> close_phase \<Rightarrow> bool \<Rightarrow> ('z agent_state_scheme, unit) io" where
  "close_step E i [] ph stop = seqE (agent_send_event E (EvAck i))
     (modifyE (\<lambda>s. s\<lparr>ag_handler := (if stop then Ended (Inr True) else Serving)\<rparr>))"
| "close_step E i (k # ks) CloseTerm stop = seqE (send_process_group_signal E k SIGTERM)
     (modifyE (\<lambda>s. s\<lparr>ag_handler := Closing i (k # ks) CloseWait stop\<rparr>))"
| "close_step E i (k # ks) CloseWait stop = seqE (modifyE (upd_child k (\<lambda>h. h\<lparr>ch_reaped := True\<rparr>)))
     (modifyE (\<lambda>s. s\<lparr>ag_handler := Closing i (k # ks) CloseKill stop\<rparr>))"
| "close_step E i (k # ks) CloseKill stop = seqE (send_process_group_signal E k SIGKILL)
     (modifyE (\<lambda>s. s\<lparr>ag_handler := Closing i (k # ks) CloseReap stop\<rparr>))"
| "close_step E i (k # ks) CloseReap stop = seqE (kill_and_wait E k)
     (modifyE (\<lambda>s. s\<lparr>ag_handler := Closing i ks CloseTerm stop\<rparr>))"

text \<open>The lock of a child is held by the waiting task of a shell from its start to the end of the child.\<close>

definition lock_free :: "nat \<Rightarrow> 'z agent_state_scheme \<Rightarrow> bool" where
  "lock_free k s \<longleftrightarrow> (case ch_task (ag_children s ! k) of ShellTask _ ShellWaitHolds \<Rightarrow> False | _ \<Rightarrow> True)"

definition close_ready :: "nat list \<Rightarrow> close_phase \<Rightarrow> 'z agent_state_scheme \<Rightarrow> bool" where
  "close_ready ks ph s \<longleftrightarrow> (case ks of [] \<Rightarrow> True
     | k # _ \<Rightarrow> lock_free k s \<and> (ph = CloseWait \<longrightarrow> ch_status (ag_children s ! k) \<noteq> None))"

section \<open>The tasks of a child (\<open>linux_exec.rs\<close>)\<close>

definition set_task :: "nat \<Rightarrow> task \<Rightarrow> 'z agent_state_scheme \<Rightarrow> 'z agent_state_scheme" where
  "set_task k t = upd_child k (\<lambda>h. h\<lparr>ch_task := t\<rparr>)"

definition pipe_of :: "output_stream \<Rightarrow> child \<Rightarrow> pipe" where
  "pipe_of o1 h = (case o1 of Stdout \<Rightarrow> ch_out h | Stderr \<Rightarrow> ch_err h)"

definition upd_pipe :: "output_stream \<Rightarrow> (pipe \<Rightarrow> pipe) \<Rightarrow> child \<Rightarrow> child" where
  "upd_pipe o1 f h = (case o1 of Stdout \<Rightarrow> h\<lparr>ch_out := f (ch_out h)\<rparr> | Stderr \<Rightarrow> h\<lparr>ch_err := f (ch_err h)\<rparr>)"

text \<open>
  One round of \<open>stream_exec\<close> or \<open>stream_shell_output\<close> on the \<open>n\<close> bytes a read gave: the loop ends
  when the read or the sending fails.
\<close>

definition output_event :: "'w wire_scheme \<Rightarrow> task \<Rightarrow> output_stream \<Rightarrow> u8 list \<Rightarrow> guest_event" where
  "output_event W t o1 d = (case t of
     ShellTask session _ \<Rightarrow> EvShellOutput session (encode_bytes W d)
   | ExecTask e _ _ \<Rightarrow> EvExecOutput e o1 (encode_bytes W d))"

definition stop_reading_pipe :: "nat \<Rightarrow> output_stream \<Rightarrow> ('z agent_state_scheme, unit) io" where
  "stop_reading_pipe k o1 = modifyE (upd_child k (upd_pipe o1 (\<lambda>p. p\<lparr>pi_reading := False\<rparr>)))"

definition stream_output :: "'e env_scheme \<Rightarrow> 'w wire_scheme \<Rightarrow> nat \<Rightarrow> output_stream \<Rightarrow> nat \<Rightarrow> child \<Rightarrow> ('z agent_state_scheme, unit) io" where
  "stream_output E W k o1 n h = bindE (ask (fault_at E)) (\<lambda>f. case f of
     Some _ \<Rightarrow> stop_reading_pipe k o1
   | None \<Rightarrow>
       (let p = pipe_of o1 h; d = take n (drop (pi_read p) (pi_written p)) in
        seqE (modifyE (upd_child k (upd_pipe o1 (\<lambda>p. p\<lparr>pi_read := pi_read p + n\<rparr>))))
        (bindE (tryE (agent_send_event E (output_event W (ch_task h) o1 d))) (\<lambda>sent. case sent of
           Inr _ \<Rightarrow> returnE () | Inl _ \<Rightarrow> stop_reading_pipe k o1))))"

text \<open>The result of a finished child: a signal has no code and reports \<open>-1\<close>.\<close>

definition status_code :: "int option option \<Rightarrow> int" where
  "status_code st = (case st of Some (Some c) \<Rightarrow> c | _ \<Rightarrow> - 1)"

definition exec_result :: "int option option \<Rightarrow> exec_exit" where
  "exec_result st = (if st = Some (Some 0) then Success else ExitCode (status_code st))"

text \<open>
  What the waiting task of a shell does next: take the lock, see the end (\<open>wait_child\<close>), and, once
  the shells map is free, drop the session and report. A \<open>wait\<close> that fails counts as \<open>-1\<close>.
\<close>

definition shell_wait_step :: "'e env_scheme \<Rightarrow> nat \<Rightarrow> child \<Rightarrow> uuid \<Rightarrow> shell_wait \<Rightarrow> ('z agent_state_scheme, unit) io" where
  "shell_wait_step E k h session w = (case w of
     ShellWaitStarts \<Rightarrow> modifyE (set_task k (ShellTask session ShellWaitHolds))
   | ShellWaitHolds \<Rightarrow> bindE (ask (fault_at E)) (\<lambda>f.
       modifyE (upd_child k (\<lambda>h. h\<lparr>ch_reaped := (f = None), ch_task := ShellTask session
         (ShellWaitSaw (if f = None then status_code (ch_status h) else - 1))\<rparr>)))
   | ShellWaitSaw code \<Rightarrow>
       seqE (modifyE (\<lambda>s. s\<lparr>ag_shells := AList.delete session (ag_shells s)\<rparr>))
       (seqE (modifyE (set_task k (ShellTask session ShellWaitDone)))
       (seqE (tryE (agent_send_event E (EvShellExit session code))) (returnE ())))
   | ShellWaitDone \<Rightarrow> returnE ())"

text \<open>
  \<open>wait_exec_status\<close> and the rest of the task of a command: the wait for its end, the two waits
  that follow a timeout, and the report once both output tasks are over.
\<close>

definition exec_saw :: "nat \<Rightarrow> uuid \<Rightarrow> u64 option \<Rightarrow> exec_exit \<Rightarrow> ('z agent_state_scheme, unit) io" where
  "exec_saw k e to x = modifyE (upd_child k (\<lambda>h. h\<lparr>ch_reaped := True, ch_task := ExecTask e to (ExecSaw x)\<rparr>))"

definition exec_wait_step :: "'e env_scheme \<Rightarrow> nat \<Rightarrow> child \<Rightarrow> uuid \<Rightarrow> u64 option \<Rightarrow> exec_wait \<Rightarrow> ('z agent_state_scheme, unit) io" where
  "exec_wait_step E k h e to w = (case w of
     ExecWaits \<Rightarrow> bindE (ask (fault_at E)) (\<lambda>f. exec_saw k e to (if f = None then exec_result (ch_status h) else Killed))
   | ExecTermed \<Rightarrow> exec_saw k e to TimeoutExit
   | ExecKills \<Rightarrow>
       seqE (send_process_group_signal E k SIGKILL)
       (seqE (kill_and_wait E k) (modifyE (set_task k (ExecTask e to ExecKillWaits))))
   | ExecKillWaits \<Rightarrow> exec_saw k e to Killed
   | ExecSaw x \<Rightarrow>
       seqE (modifyE (\<lambda>s. s\<lparr>ag_execs := remove1 e (ag_execs s)\<rparr>))
       (seqE (modifyE (set_task k (ExecTask e to (ExecReported x))))
       (seqE (tryE (agent_send_event E (EvExecExit e x))) (returnE ())))
   | ExecReported _ \<Rightarrow> returnE ())"

text \<open>The timers: the timeout sends \<open>SIGTERM\<close>, and the grace period after it ends.\<close>

definition exec_timer_step :: "'e env_scheme \<Rightarrow> nat \<Rightarrow> uuid \<Rightarrow> u64 option \<Rightarrow> exec_wait \<Rightarrow> ('z agent_state_scheme, unit) io" where
  "exec_timer_step E k e to w = (case w of
     ExecWaits \<Rightarrow> bindE (send_process_group_signal E k SIGTERM) (\<lambda>sent.
       modifyE (set_task k (ExecTask e to (if sent then ExecTermed else ExecKills))))
   | _ \<Rightarrow> modifyE (set_task k (ExecTask e to ExecKills)))"

section \<open>Runs\<close>

datatype action =
    Request guest_request | BadLine string | ReadFails string | Disconnect
  | CloseProceeds | CloseTimer
  | ChildExits nat "int option" | ChildWrites nat output_stream "u8 list" | WritersClose nat output_stream
  | OutputRead nat output_stream nat | OutputEnds nat output_stream
  | WaitProceeds nat | ExecTimer nat

definition serve :: "('z agent_state_scheme, unit) io \<Rightarrow> 'z agent_state_scheme \<Rightarrow> 'z agent_state_scheme" where
  "serve m s = (case m s of (Inr _, t) \<Rightarrow> t | (Inl x, t) \<Rightarrow> t\<lparr>ag_handler := Ended (Inl x)\<rparr>)"

definition is_closing :: "'z agent_state_scheme \<Rightarrow> bool" where
  "is_closing s \<longleftrightarrow> (case ag_handler s of Closing _ _ _ _ \<Rightarrow> True | _ \<Rightarrow> False)"

text \<open>Whether the task of a child can go on: \<open>wait\<close> returns when the child has ended, the locks must be free.\<close>

definition wait_ready :: "child \<Rightarrow> 'z agent_state_scheme \<Rightarrow> bool" where
  "wait_ready h s = (case ch_task h of
     ShellTask _ ShellWaitStarts \<Rightarrow> True
   | ShellTask _ ShellWaitHolds \<Rightarrow> ch_status h \<noteq> None
   | ShellTask _ (ShellWaitSaw _) \<Rightarrow> \<not> is_closing s
   | ShellTask _ ShellWaitDone \<Rightarrow> False
   | ExecTask _ _ ExecWaits \<Rightarrow> ch_status h \<noteq> None
   | ExecTask _ _ ExecTermed \<Rightarrow> ch_status h \<noteq> None
   | ExecTask _ _ ExecKills \<Rightarrow> True
   | ExecTask _ _ ExecKillWaits \<Rightarrow> ch_status h \<noteq> None
   | ExecTask _ _ (ExecSaw _) \<Rightarrow> \<not> pi_reading (ch_out h) \<and> \<not> pi_reading (ch_err h)
   | ExecTask _ _ (ExecReported _) \<Rightarrow> False)"

text \<open>What an action of child \<open>k\<close> does, when it is possible.\<close>

fun child_act :: "'e guest_env_scheme \<Rightarrow> 'w wire_scheme \<Rightarrow> action \<Rightarrow> nat \<Rightarrow> child \<Rightarrow> 'z agent_state_scheme \<Rightarrow> 'z agent_state_scheme option" where
  "child_act E W (ChildExits _ st) k h s =
     (if ch_status h = None then Some (upd_child k (\<lambda>h. h\<lparr>ch_status := Some st\<rparr>) s) else None)"
| "child_act E W (ChildWrites _ o1 d) k h s =
     (if pi_open (pipe_of o1 h) then Some (upd_child k (upd_pipe o1 (\<lambda>p. p\<lparr>pi_written := pi_written p @ d\<rparr>)) s) else None)"
| "child_act E W (WritersClose _ o1) k h s = Some (upd_child k (upd_pipe o1 (\<lambda>p. p\<lparr>pi_open := False\<rparr>)) s)"
| "child_act E W (OutputRead _ o1 n) k h s =
     (let p = pipe_of o1 h in
      if pi_reading p \<and> 0 < n \<and> n \<le> 1024 \<and> pi_read p + n \<le> length (pi_written p)
      then Some (snd (stream_output E W k o1 n h s)) else None)"
| "child_act E W (OutputEnds _ o1) k h s =
     (let p = pipe_of o1 h in
      if pi_reading p \<and> \<not> pi_open p \<and> pi_read p = length (pi_written p)
      then Some (snd (stop_reading_pipe k o1 s)) else None)"
| "child_act E W (WaitProceeds _) k h s =
     (if \<not> wait_ready h s then None
      else Some (snd ((case ch_task h of
          ShellTask session w \<Rightarrow> shell_wait_step E k h session w
        | ExecTask e to w \<Rightarrow> exec_wait_step E k h e to w) s)))"
| "child_act E W (ExecTimer _) k h s =
     (case ch_task h of
        ExecTask e (Some ms) w \<Rightarrow> if w \<in> {ExecWaits, ExecTermed} then Some (snd (exec_timer_step E k e (Some ms) w s)) else None
      | _ \<Rightarrow> None)"
| "child_act E W _ k h s = None"

fun action_child :: "action \<Rightarrow> nat option" where
  "action_child (ChildExits k _) = Some k"
| "action_child (ChildWrites k _ _) = Some k"
| "action_child (WritersClose k _) = Some k"
| "action_child (OutputRead k _ _) = Some k"
| "action_child (OutputEnds k _) = Some k"
| "action_child (WaitProceeds k) = Some k"
| "action_child (ExecTimer k) = Some k"
| "action_child _ = None"

definition when_serving :: "'z agent_state_scheme \<Rightarrow> 'z agent_state_scheme \<Rightarrow> 'z agent_state_scheme option" where
  "when_serving s t = (if ag_handler s = Serving then Some t else None)"

text \<open>The loop of \<open>handle_connection\<close>: a request that fails ends the connection with its error.\<close>

fun handler_act :: "'e guest_env_scheme \<Rightarrow> 'w wire_scheme \<Rightarrow> boot_config \<Rightarrow> action \<Rightarrow> 'z agent_state_scheme \<Rightarrow> 'z agent_state_scheme option" where
  "handler_act E W c (Request r) s = when_serving s (serve (handle_guest_request E W c r) s)"
| "handler_act E W c (BadLine e) s = when_serving s (s\<lparr>ag_handler := Ended (Inl (Fail (Json ''decoding guest request'' e)))\<rparr>)"
| "handler_act E W c (ReadFails e) s = when_serving s (s\<lparr>ag_handler := Ended (Inl (Fail (Io ''reading guest request'' e)))\<rparr>)"
| "handler_act E W c Disconnect s = when_serving s (s\<lparr>ag_handler := Ended (Inr False)\<rparr>)"
| "handler_act E W c CloseProceeds s = (case ag_handler s of
     Closing i ks ph stop \<Rightarrow> if close_ready ks ph s then Some (serve (close_step E i ks ph stop) s) else None
   | _ \<Rightarrow> None)"
| "handler_act E W c CloseTimer s = (case ag_handler s of
     Closing i (k # ks) CloseWait stop \<Rightarrow> Some (s\<lparr>ag_handler := Closing i (k # ks) CloseKill stop\<rparr>)
   | _ \<Rightarrow> None)"
| "handler_act E W c _ s = None"

definition agent_act :: "'e guest_env_scheme \<Rightarrow> 'w wire_scheme \<Rightarrow> boot_config \<Rightarrow> action \<Rightarrow> 'z agent_state_scheme \<Rightarrow> 'z agent_state_scheme option" where
  "agent_act E W c a s = (case action_child a of
     None \<Rightarrow> handler_act E W c a s
   | Some k \<Rightarrow> if k < length (ag_children s) then child_act E W a k (ag_children s ! k) s else None)"

fun agent_run :: "'e guest_env_scheme \<Rightarrow> 'w wire_scheme \<Rightarrow> boot_config \<Rightarrow> action list \<Rightarrow> 'z agent_state_scheme \<Rightarrow> 'z agent_state_scheme option" where
  "agent_run E W c [] s = Some s"
| "agent_run E W c (a # as) s = (case agent_act E W c a s of None \<Rightarrow> None | Some t \<Rightarrow> agent_run E W c as t)"

text \<open>The start of \<open>handle_connection\<close>: the agent introduces itself before it reads anything.\<close>

definition ready_event :: guest_event where
  "ready_event = EvReady \<lparr>ready_protocol_version = 3, ready_capabilities =
     [''exec'', ''shell'', ''runtime-stats'', ''workspace-files'', ''workspace-snapshot'']\<rparr>"

definition agent_new_connection :: "(gpath \<times> gnode) list \<Rightarrow> nat \<Rightarrow> agent_state" where
  "agent_new_connection fs n = \<lparr>calls = n, gfs = fs, ag_out = [ready_event], ag_children = [], ag_shells = [], ag_execs = [], ag_handler = Serving\<rparr>"

end
