(* ===== verification/Guest_Fs_Properties.thy ===== *)
theory Guest_Fs_Properties
  imports Guest_Fs Auth
begin

text \<open>
  Properties of the file operations of the guest agent: a snapshot lists exactly what is in the
  workspace, and the operations leave everything outside of it alone unless a symbolic link
  leads them there.
\<close>

section \<open>Trees\<close>

definition legal_name :: "string \<Rightarrow> bool" where
  "legal_name w \<longleftrightarrow> w \<noteq> [] \<and> w \<noteq> ''.'' \<and> w \<noteq> ''..'' \<and> CHR ''/'' \<notin> set w \<and> CHR 0x00 \<notin> set w"

text \<open>A file system is a tree: every name is legal and everything lies in a directory.\<close>

definition fs_ok :: "(gpath \<times> gnode) list \<Rightarrow> bool" where
  "fs_ok fs \<longleftrightarrow> distinct (map fst fs) \<and>
     (\<forall>(p, n) \<in> set fs. p \<noteq> [] \<and> list_all legal_name p \<and> gnode_at fs (butlast p) = Some GDir)"

lemma fs_okD:
  assumes "fs_ok fs" "(p, n) \<in> set fs"
  shows "p \<noteq> []" "list_all legal_name p" "gnode_at fs (butlast p) = Some GDir" "gnode_at fs p = Some n"
  using assms by (auto simp: fs_ok_def gnode_at_def)

lemma gnode_at_entry: "gnode_at fs p = Some n \<Longrightarrow> p = [] \<and> n = GDir \<or> (p, n) \<in> set fs"
  by (auto simp: gnode_at_def map_of_SomeD split: if_splits)

lemma ancestor_dir: "fs_ok fs \<Longrightarrow> gnode_at fs (p @ q) = Some n \<Longrightarrow> q \<noteq> [] \<Longrightarrow> gnode_at fs p = Some GDir"
proof (induction q arbitrary: n rule: rev_induct)
  case (snoc w q)
  from gnode_at_entry [OF snoc.prems(2)] have "(p @ q @ [w], n) \<in> set fs" by auto
  from fs_okD(3) [OF snoc.prems(1) this] have d: "gnode_at fs (p @ q) = Some GDir"
    by (simp add: butlast_append)
  show ?case
  proof (cases "q = []")
    case True
    then show ?thesis using d by simp
  next
    case False
    then show ?thesis using snoc.IH [OF snoc.prems(1) d] by simp
  qed
qed simp

lemma namei_real:
  "fs_ok fs \<Longrightarrow> gnode_at fs (cur @ cs) = Some n \<Longrightarrow> list_all legal_name cs \<Longrightarrow> (\<not> follow \<or> (\<forall>t. n \<noteq> GLink t)) \<Longrightarrow>
    namei fs follow l cur cs = Found (cur @ cs)"
proof (induction cs arbitrary: cur)
  case (Cons c cs)
  then have c: "c \<noteq> ''.''" "c \<noteq> ''..''" by (auto simp: legal_name_def)
  show ?case
  proof (cases "cs = []")
    case True
    then show ?thesis using Cons.prems c by (cases n) auto
  next
    case False
    then have "gnode_at fs (cur @ [c]) = Some GDir"
      using ancestor_dir [OF Cons.prems(1), of "cur @ [c]" cs n] Cons.prems(2) by simp
    then show ?thesis using Cons c by simp
  qed
qed simp

lemma klookup_real:
  assumes "fs_ok (gfs s)" "gnode_at (gfs s) p = Some n" "\<not> follow \<or> (\<forall>t. n \<noteq> GLink t)"
  shows "klookup follow p s = Found p"
proof -
  have legal: "list_all legal_name p" using gnode_at_entry [OF assms(2)] fs_okD(2) [OF assms(1)] by fastforce
  then have "\<not> list_ex (\<lambda>c. CHR 0x00 \<in> set c) p" by (auto simp: list_ex_iff list_all_iff legal_name_def)
  then show ?thesis using namei_real [OF assms(1), of "[]" p n follow] assms legal by (simp add: klookup_def)
qed

lemma wp_symlink_metadata:
  assumes "fs_ok (gfs s)" "gnode_at (gfs s) p = Some n"
    and "\<And>k. Q (p, n) (s\<lparr>calls := k\<rparr>)" "\<And>k e. R (Fail e) (s\<lparr>calls := k\<rparr>)"
  shows "wp (symlink_metadata E ctx p) Q R s"
  unfolding symlink_metadata_def using assms klookup_real [OF assms(1,2), of False]
  by (auto simp: wp_simps intro!: wp_intro)

definition node_of :: "'e env_scheme \<Rightarrow> gpath \<Rightarrow> gnode \<Rightarrow> file_node" where
  "node_of E p n = (case n of
     GDir \<Rightarrow> \<lparr>fnode_path = join_slash (tl p), fnode_kind = Directory, fnode_size = 0, fnode_digest = None, fnode_target = None\<rparr>
   | GLink t \<Rightarrow> \<lparr>fnode_path = join_slash (tl p), fnode_kind = Symlink, fnode_size = 0, fnode_digest = Some (digest_bytes E t), fnode_target = Some t\<rparr>
   | GFile d \<Rightarrow> \<lparr>fnode_path = join_slash (tl p), fnode_kind = File, fnode_size = of_nat (length d),
       fnode_digest = Some (digest_bytes E (bytes_text d)), fnode_target = None\<rparr>)"

lemma wp_node_for_path:
  assumes "fs_ok (gfs s)" "gnode_at (gfs s) (''workspace'' # p) = Some n"
    and "\<And>k. Q (node_of E (''workspace'' # p) n) (s\<lparr>calls := k\<rparr>)" "\<And>k e. R (Fail e) (s\<lparr>calls := k\<rparr>)"
  shows "wp (node_for_path E (''workspace'' # p)) Q R s"
  unfolding node_for_path_def wp_bindE
  by (rule wp_symlink_metadata [OF assms(1,2)])
    (use assms(3,4) in \<open>auto simp: wp_simps relative_path_def node_of_def intro!: wp_intro split: gnode.split\<close>)

lemma wp_read_dir:
  assumes "fs_ok (gfs s)" "gnode_at (gfs s) p = Some GDir"
    and "\<And>k. Q (sort (children (gfs s) p)) (s\<lparr>calls := k\<rparr>)" "\<And>k e. R (Fail e) (s\<lparr>calls := k\<rparr>)"
  shows "wp (read_dir E p) Q R s"
  unfolding read_dir_def using assms klookup_real [OF assms(1,2), of True]
  by (auto simp: wp_simps intro!: wp_intro)

lemma wp_mapE:
  assumes "\<And>x s. x \<in> set xs \<Longrightarrow> I s \<Longrightarrow> wp (f x) (\<lambda>y t. P x y \<and> I t) R s" "I s"
  shows "wp (mapE f xs) (\<lambda>ys t. list_all2 P xs ys \<and> I t) R s"
  using assms
proof (induction xs arbitrary: s)
  case (Cons x xs)
  have "wp (f x) (\<lambda>y t. P x y \<and> I t) R s" using Cons.prems by simp
  then have "wp (f x) (\<lambda>y. wp (bindE (mapE f xs) (\<lambda>ys. returnE (y # ys))) (\<lambda>ys t. list_all2 P (x # xs) ys \<and> I t) R) R s"
  proof (rule wp_mono)
    fix y t assume y: "P x y \<and> I t"
    have "wp (mapE f xs) (\<lambda>ys t. list_all2 P xs ys \<and> I t) R t" using Cons y by simp
    then show "wp (bindE (mapE f xs) (\<lambda>ys. returnE (y # ys))) (\<lambda>ys t. list_all2 P (x # xs) ys \<and> I t) R t"
      unfolding wp_bindE by (rule wp_mono) (use y in \<open>auto simp: wp_simps\<close>)
  qed
  then show ?case by (simp add: wp_bindE)
qed (simp add: wp_simps)


text \<open>The entries of the directory \<open>cur\<close> and below, itself included unless it is the workspace.\<close>

definition subtree :: "(gpath \<times> gnode) list \<Rightarrow> gpath \<Rightarrow> (gpath \<times> gnode) set" where
  "subtree fs cur = {(p, n) \<in> set fs. p = cur \<or> below cur p}"

definition lists_entries :: "'e env_scheme \<Rightarrow> (gpath \<times> gnode) set \<Rightarrow> file_node list \<Rightarrow> bool" where
  "lists_entries E A nodes \<longleftrightarrow> (\<exists>ps. nodes = map (\<lambda>(p, n). node_of E p n) ps \<and> distinct ps \<and> set ps = A)"

lemma lists_entries_concat:
  "list_all2 (\<lambda>x ns. lists_entries E (A x) ns) xs nss \<Longrightarrow> distinct xs \<Longrightarrow> (\<forall>x\<in>set xs. \<forall>y\<in>set xs. x \<noteq> y \<longrightarrow> A x \<inter> A y = {}) \<Longrightarrow>
    lists_entries E (\<Union> (A ` set xs)) (concat nss)"
proof (induction xs nss rule: list_all2_induct)
  case (Cons x xs ns nss)
  from Cons.IH Cons.prems obtain qs where q: "concat nss = map (\<lambda>(p, n). node_of E p n) qs" "distinct qs" "set qs = \<Union> (A ` set xs)"
    unfolding lists_entries_def by auto
  from Cons.hyps(1) obtain ps where p: "ns = map (\<lambda>(p, n). node_of E p n) ps" "distinct ps" "set ps = A x"
    unfolding lists_entries_def by auto
  have "A x \<inter> \<Union> (A ` set xs) = {}" using Cons.prems by auto
  with p q have "distinct (ps @ qs)" by auto
  moreover have "concat (ns # nss) = map (\<lambda>(p, n). node_of E p n) (ps @ qs)" "set (ps @ qs) = \<Union> (A ` set (x # xs))"
    using p q by auto
  ultimately show ?case unfolding lists_entries_def by blast
qed (simp add: lists_entries_def)

lemma below_append: "below p q \<longleftrightarrow> (\<exists>r. r \<noteq> [] \<and> q = p @ r)"
proof
  assume "below p q"
  then have "q = p @ drop (length p) q" "drop (length p) q \<noteq> []" by (auto simp: below_def) (metis append_take_drop_id)
  then show "\<exists>r. r \<noteq> [] \<and> q = p @ r" by blast
qed (auto simp: below_def)

lemma subtree_child_disjoint: "a \<noteq> b \<Longrightarrow> subtree fs (cur @ [a]) \<inter> subtree fs (cur @ [b]) = {}"
  by (auto simp: subtree_def below_append)

lemma children_mem: "name \<in> set (children fs p) \<longleftrightarrow> (\<exists>n. (p @ [name], n) \<in> set fs)"
proof
  assume "name \<in> set (children fs p)"
  then obtain q n where "(q, n) \<in> set fs" "q \<noteq> []" "butlast q = p" "last q = name" by (auto simp: children_def)
  moreover from this have "q = p @ [name]" by (metis append_butlast_last_id)
  ultimately show "\<exists>n. (p @ [name], n) \<in> set fs" by auto
qed (force simp: children_def)

lemma children_distinct: "distinct (map fst fs) \<Longrightarrow> distinct (children fs p)"
proof (induction fs)
  case (Cons e fs)
  obtain q n where e: "e = (q, n)" by force
  have "last q \<notin> set (children fs p)" if "q \<noteq> []" "butlast q = p"
  proof
    assume "last q \<in> set (children fs p)"
    then obtain m where "(p @ [last q], m) \<in> set fs" by (auto simp: children_mem)
    moreover have "p @ [last q] = q" using that by (metis append_butlast_last_id)
    ultimately show False using Cons.prems e by force
  qed
  then show ?case using Cons e by (auto simp: children_def)
qed (simp add: children_def)

lemma subtree_children: "fs_ok fs \<Longrightarrow>
    {(p, n) \<in> set fs. below cur p} = \<Union> ((\<lambda>name. subtree fs (cur @ [name])) ` set (children fs cur))"
proof (intro set_eqI iffI)
  fix e assume ok: "fs_ok fs" and "e \<in> {(p, n) \<in> set fs. below cur p}"
  then obtain w ws n where e: "e = (cur @ w # ws, n)" "e \<in> set fs" by (cases e) (auto simp: below_append neq_Nil_conv)
  then have node: "gnode_at fs ((cur @ [w]) @ ws) = Some n" using fs_okD(4) [OF ok] by auto
  have "\<exists>m. (cur @ [w], m) \<in> set fs"
  proof (cases "ws = []")
    case False
    then show ?thesis using ancestor_dir [OF ok node] gnode_at_entry [of fs "cur @ [w]" GDir] by auto
  qed (use e in auto)
  then have "w \<in> set (children fs cur)" by (simp add: children_mem)
  moreover have "e \<in> subtree fs (cur @ [w])" using e by (auto simp: subtree_def below_append)
  ultimately show "e \<in> \<Union> ((\<lambda>name. subtree fs (cur @ [name])) ` set (children fs cur))" by blast
qed (auto simp: subtree_def below_append)


lemma wp_walk_directory:
  fixes s :: "'z guest_fs_scheme"
  assumes "fs_ok fs" "\<forall>(p, n) \<in> set fs. length p < length cur + fuel" "gnode_at fs cur = Some GDir" "cur = ''workspace'' # ws" "gfs s = fs"
  shows "wp (walk_directory E fuel cur)
    (\<lambda>nodes t. lists_entries E (if ws = [] then {(p, n) \<in> set fs. below cur p} else subtree fs cur) nodes \<and> gfs t = fs)
    (\<lambda>x t. x \<noteq> Panic \<and> gfs t = fs) s"
  using assms
proof (induction fuel arbitrary: cur ws s)
  case 0
  then show ?case using gnode_at_entry [of fs cur GDir] by fastforce
next
  case (Suc fuel)
  let ?I = "\<lambda>t :: 'z guest_fs_scheme. gfs t = fs"
  let ?R = "\<lambda>x t. x \<noteq> Panic \<and> ?I t"
  let ?body = "\<lambda>name. bindE (symlink_metadata E ''reading workspace entry metadata'' (cur @ [name])) (\<lambda>(q, k).
           if k = GDir then walk_directory E fuel (cur @ [name])
           else bindE (node_for_path E (cur @ [name])) (\<lambda>nd. returnE [nd]))"
  have body: "wp (?body name) (\<lambda>ns t. lists_entries E (subtree fs (cur @ [name])) ns \<and> ?I t) ?R t"
    if name: "name \<in> set (sort (children fs cur))" and t: "?I t" for name t
  proof -
    from name obtain n where entry: "(cur @ [name], n) \<in> set fs" by (auto simp: children_mem)
    then have node: "gnode_at fs (cur @ [name]) = Some n" using fs_okD(4) [OF Suc.prems(1)] by auto
    have leaf: "subtree fs (cur @ [name]) = {(cur @ [name], n)}" if "n \<noteq> GDir"
    proof -
      have "p = cur @ [name] \<and> m = n" if pm: "(p, m) \<in> subtree fs (cur @ [name])" for p m
      proof (cases "p = cur @ [name]")
        case False
        then obtain r where "p = (cur @ [name]) @ r" "r \<noteq> []" using pm by (auto simp: subtree_def below_append)
        then have "gnode_at fs (cur @ [name]) = Some GDir"
          using pm fs_okD(4) [OF Suc.prems(1), of p m] ancestor_dir [OF Suc.prems(1), of "cur @ [name]" r m] by (auto simp: subtree_def)
        then show ?thesis using node \<open>n \<noteq> GDir\<close> by simp
      qed (use that node fs_okD(4) [OF Suc.prems(1), of p m] in \<open>auto simp: subtree_def\<close>)
      then show ?thesis using entry by (auto simp: subtree_def)
    qed
    have sub: "wp (walk_directory E fuel (cur @ [name])) (\<lambda>ns t. lists_entries E (subtree fs (cur @ [name])) ns \<and> ?I t) ?R u" if "n = GDir" "?I u" for u
      using Suc.IH [of "cur @ [name]" "ws @ [name]" u] Suc.prems node that by simp
    have one: "wp (node_for_path E (cur @ [name])) (\<lambda>nd t. lists_entries E (subtree fs (cur @ [name])) [nd] \<and> ?I t) ?R u" if "n \<noteq> GDir" "?I u" for u
    proof -
      have "lists_entries E (subtree fs (cur @ [name])) [node_of E (cur @ [name]) n]"
        unfolding lists_entries_def leaf [OF that(1)] by (intro exI [of _ "[(cur @ [name], n)]"]) simp
      moreover have "cur @ [name] = ''workspace'' # ws @ [name]" using Suc.prems(4) by simp
      ultimately show ?thesis
        using Suc.prems(1) that(2) node by (auto intro!: wp_node_for_path)
    qed
    show ?thesis
      unfolding wp_bindE
      by (rule wp_symlink_metadata [where n = n])
        (use Suc.prems(1) t node in \<open>auto simp: wp_simps intro!: wp_mono [OF sub] wp_mono [OF one]\<close>)
  qed
  have join: "lists_entries E (if ws = [] then {(p, n) \<in> set fs. below cur p} else subtree fs cur) (here @ concat lists)"
    if "list_all2 (\<lambda>name ns. lists_entries E (subtree fs (cur @ [name])) ns) (sort (children fs cur)) lists"
      "here = (if ws = [] then [] else [node_of E cur GDir])" for lists here
  proof -
    have dist: "distinct (children fs cur)" using Suc.prems(1) by (simp add: fs_ok_def children_distinct)
    have "lists_entries E {(p, n) \<in> set fs. below cur p} (concat lists)"
      using lists_entries_concat [OF that(1)] dist subtree_child_disjoint unfolding subtree_children [OF Suc.prems(1)] by simp
    then obtain ps where ps: "concat lists = map (\<lambda>(p, n). node_of E p n) ps" "distinct ps" "set ps = {(p, n) \<in> set fs. below cur p}"
      by (auto simp: lists_entries_def)
    show ?thesis
    proof (cases "ws = []")
      case False
      have "(cur, GDir) \<in> set fs" using gnode_at_entry [OF Suc.prems(3)] Suc.prems(4) by simp
      moreover have "n = GDir" if "(cur, n) \<in> set fs" for n using fs_okD(4) [OF Suc.prems(1) that] Suc.prems(3) by simp
      ultimately have "subtree fs cur = insert (cur, GDir) (set ps)" using ps by (auto simp: subtree_def)
      moreover have "(cur, GDir) \<notin> set ps" using ps by (auto simp: below_def)
      ultimately show ?thesis using False ps that(2)
        unfolding lists_entries_def by (intro exI [of _ "(cur, GDir) # ps"]) simp
    qed (use ps that(2) in \<open>auto simp: lists_entries_def\<close>)
  qed
  have maps: "wp (mapE ?body (sort (children fs cur))) (\<lambda>lists t. list_all2 (\<lambda>name ns. lists_entries E (subtree fs (cur @ [name])) ns) (sort (children fs cur)) lists \<and> ?I t) ?R t" if "?I t" for t
    by (rule wp_mapE) (use body that in auto)
  define here where "here = (if ws = [] then [] else [node_of E cur GDir])"
  let ?Q = "\<lambda>nodes t. lists_entries E (if ws = [] then {(p, n) \<in> set fs. below cur p} else subtree fs cur) nodes \<and> ?I t"
  have tail: "wp (bindE (mapE ?body (sort (children fs cur))) (\<lambda>lists. returnE (here @ concat lists))) ?Q ?R t" if "?I t" for t
    unfolding wp_bindE by (rule wp_mono [OF maps [OF that]]) (simp_all add: wp_returnE join [OF _ here_def])
  have rest: "wp (bindE (read_dir E cur) (\<lambda>names. bindE (mapE ?body names) (\<lambda>lists. returnE (here @ concat lists)))) ?Q ?R s"
    unfolding wp_bindE [of "read_dir E cur"]
    by (rule wp_read_dir) (simp_all add: Suc.prems(1,3,5) tail)
  have "(if cur \<noteq> [''workspace''] then bindE (liftE (relative_path cur)) (\<lambda>p. returnE [\<lparr>fnode_path = p, fnode_kind = Directory,
      fnode_size = 0, fnode_digest = None, fnode_target = None\<rparr>]) else returnE []) s = (Inr here, s)"
    using Suc.prems(4) by (simp add: here_def io_defs relative_path_def node_of_def)
  with rest show ?case unfolding walk_directory.simps by (simp add: wp_def bindE_def [of "if b then m else n" for b m n] del: append_Cons)
qed


lemma fold_max_ge: "m \<le> fold max xs m \<and> (\<forall>x\<in>set xs. x \<le> fold max xs (m :: nat))"
proof (induction xs arbitrary: m)
  case (Cons y ys)
  from Cons.IH [of "max y m"] show ?case by auto
qed simp

lemma max_depth_bound: "(p, n) \<in> set (gfs s) \<Longrightarrow> length p \<le> max_depth s"
  using fold_max_ge [of 1 "map (\<lambda>(p, _). length p) (gfs s)"] by (force simp: max_depth_def)


section \<open>Staying in the workspace\<close>

lemma workspace_segments:
  assumes "resolve_workspace_path WORKSPACE_ROOT path = Inr p"
  obtains cs where "segments p = ''workspace'' # cs" "''..'' \<notin> set cs"
proof -
  have abs: "starts_with WORKSPACE_ROOT ''/''" "WORKSPACE_ROOT \<noteq> []" "last WORKSPACE_ROOT \<noteq> CHR ''/''" by (simp_all add: WORKSPACE_ROOT_def)
  have root: "segments WORKSPACE_ROOT = [''workspace'']" by (simp add: segments_def WORKSPACE_ROOT_def)
  from resolve_workspace_path_cases [OF assms] consider "p = WORKSPACE_ROOT" |
    rel where "p = WORKSPACE_ROOT @ CHR ''/'' # rel" "\<not> starts_with rel ''/''" "list_all component_allowed (path_components rel)"
    using abs by (auto simp: path_join_def)
  then show thesis
  proof cases
    case 1
    then show thesis using root by (intro that [of "[]"]) simp_all
  next
    case (2 rel)
    have "list_all component_allowed (segment_components (split_on (CHR ''/'') rel))"
      using 2 by (simp add: relative_components_allowed)
    then have "''..'' \<notin> set (segments rel)"
      by (auto simp: segment_components_def segment_component_def segments_def list_all_iff)
    moreover have "segments p = ''workspace'' # segments rel"
      using 2 root by (simp add: segments_def split_on_append_sep)
    ultimately show thesis by (rule that [rotated])
  qed
qed

text \<open>No links in the workspace, and what lies outside of it.\<close>

definition plain_workspace :: "(gpath \<times> gnode) list \<Rightarrow> bool" where
  "plain_workspace fs \<longleftrightarrow> gnode_at fs [''workspace''] = Some GDir \<and> (\<forall>q t. gnode_at fs (''workspace'' # q) \<noteq> Some (GLink t))"

lemma namei_inside:
  "plain_workspace fs \<Longrightarrow> ''..'' \<notin> set cs \<Longrightarrow> namei fs f l (''workspace'' # cur) cs = r \<Longrightarrow>
    (case r of Found p \<Rightarrow> \<exists>q. p = ''workspace'' # q | Absent p \<Rightarrow> \<exists>q. p = ''workspace'' # q \<and> q \<noteq> [] | Errno _ \<Rightarrow> True)"
proof (induction cs arbitrary: cur)
  case (Cons c cs)
  from Cons.prems(1) have "gnode_at fs (''workspace'' # cur @ [c]) \<noteq> Some (GLink t)" for t by (simp add: plain_workspace_def)
  then show ?case using Cons.IH [of cur] Cons.IH [of "cur @ [c]"] Cons.prems
    by (auto split: if_splits option.splits gnode.splits)
qed auto

lemma klookup_inside:
  assumes "plain_workspace (gfs s)" "''..'' \<notin> set cs"
  shows "case klookup f (''workspace'' # cs) s of Found p \<Rightarrow> \<exists>q. p = ''workspace'' # q | Absent p \<Rightarrow> \<exists>q. p = ''workspace'' # q \<and> q \<noteq> [] | Errno _ \<Rightarrow> True"
  using namei_inside [OF assms, of f 40 "[]"] assms(1) by (simp add: klookup_def plain_workspace_def)


text \<open>What lies outside of the workspace is as it was, and the workspace has still no links.\<close>

definition contained :: "(gpath \<times> gnode) list \<Rightarrow> 'z guest_fs_scheme \<Rightarrow> bool" where
  "contained fs t \<longleftrightarrow> plain_workspace (gfs t) \<and> (\<forall>p. p \<noteq> [] \<and> hd p \<noteq> ''workspace'' \<longrightarrow> map_of (gfs t) p = map_of fs p)"

definition inside :: "string list \<Rightarrow> bool" where
  "inside cs \<longleftrightarrow> cs = [] \<or> (\<exists>w. cs = ''workspace'' # w \<and> ''..'' \<notin> set w)"

lemma contained_calls [simp]: "contained fs (t\<lparr>calls := n\<rparr>) = contained fs t"
  by (simp add: contained_def)

lemma counter_free_contained [simp]: "counter_free (contained fs)"
  by (rule counter_freeI) simp

text \<open>A path strictly below the workspace.\<close>

definition inner :: "gpath \<Rightarrow> bool" where
  "inner p \<longleftrightarrow> (\<exists>q. p = ''workspace'' # q \<and> q \<noteq> [])"

lemma contained_put:
  assumes "contained fs t" "inner p" "\<And>l. n \<noteq> GLink l"
  shows "contained fs (put_node p n t)"
proof -
  have p: "p \<noteq> []" "hd p = ''workspace''" "p \<noteq> [''workspace'']" using assms(2) by (auto simp: inner_def)
  then have "gnode_at (gfs (put_node p n t)) r = (if r = p then Some n else gnode_at (gfs t) r)"
    "map_of (gfs (put_node p n t)) r = (if r = p then Some n else map_of (gfs t) r)" for r
    by (simp_all add: put_node_def gnode_at_put update_conv')
  with p assms(1,3) show ?thesis by (simp add: contained_def plain_workspace_def)
qed

lemma contained_drop: "contained fs t \<Longrightarrow> inner p \<Longrightarrow> contained fs (drop_node p t)"
  by (auto simp: inner_def contained_def drop_node_def plain_workspace_def gnode_at_def delete_conv')

lemma map_of_filter_key: "map_of (filter (\<lambda>(q, _). K q) fs) p = (if K p then map_of fs p else None)"
  by (induction fs) auto

lemma contained_drop_below: "contained fs t \<Longrightarrow> p = [''workspace''] \<or> inner p \<Longrightarrow> contained fs (drop_below p keep t)"
proof -
  assume c: "contained fs t" and p: "p = [''workspace''] \<or> inner p"
  have b: "hd r = ''workspace''" "r \<noteq> [''workspace'']" if "below p r" for r
    using that p by (auto simp: below_append inner_def)
  define K where "K q = (\<not> below p q \<or> list_ex (\<lambda>(r, _). keep r \<and> (r = q \<or> below q r)) (gfs t))" for q
  have eq: "map_of (gfs (drop_below p keep t)) q = (if K q then map_of (gfs t) q else None)" for q
    using map_of_filter_key [of K "gfs t" q] by (simp add: drop_below_def K_def)
  have "K q" if "hd q \<noteq> ''workspace'' \<or> q = [''workspace'']" for q using that b by (auto simp: K_def)
  then show ?thesis using c by (auto simp: contained_def plain_workspace_def gnode_at_def eq)
qed

lemma inside_cases: "inside cs \<Longrightarrow> cs = [] \<or> (\<exists>w. cs = ''workspace'' # w \<and> ''..'' \<notin> set w)"
  by (simp add: inside_def)

lemma klookup_contained:
  assumes "contained fs s" "inside cs"
  shows "klookup f cs s = Absent p \<Longrightarrow> inner p"
    "klookup f cs s = Found p \<Longrightarrow> p = [] \<or> p = [''workspace''] \<or> inner p"
    "klookup f cs s = Found p \<Longrightarrow> cs \<noteq> [] \<Longrightarrow> p = [''workspace''] \<or> inner p"
  using inside_cases [OF assms(2)] assms(1) klookup_inside [of s "tl cs" f]
  by (auto simp: contained_def klookup_def [of f "[]"] inner_def)

lemma contained_file: "contained fs s \<Longrightarrow> inside cs \<Longrightarrow> klookup f cs s = Found p \<Longrightarrow> gnode_at (gfs s) p = Some (GFile d) \<Longrightarrow> inner p"
  using klookup_contained(2) [of fs s cs f p] by (auto simp: contained_def plain_workspace_def gnode_at_def)

lemma contained_create_dir:
  assumes "inside cs"
  shows "preserves (contained fs) (create_dir E cs)"
proof (rule preserves_wpI)
  fix s :: "'a guest_fs_scheme" assume s: "contained fs s"
  show "wp (create_dir E cs) (\<lambda>_. contained fs) (\<lambda>_. contained fs) s"
    unfolding create_dir_def attempt_def using s klookup_contained(1) [OF s assms, of False]
    by (auto simp: wp_simps wp_exact intro!: contained_put split: option.split found.split)
qed

lemma inside_take: "inside cs \<Longrightarrow> inside (take n cs)"
  by (cases n) (auto simp: inside_def dest: in_set_takeD)

lemma contained_create_or_dir: "inside cs \<Longrightarrow> preserves (contained fs) (create_or_dir E cs)"
  unfolding create_or_dir_def by (auto intro!: preserves_intro contained_create_dir)

lemma contained_create_dir_all: "inside cs \<Longrightarrow> inside (rev parent) \<Longrightarrow> preserves (contained fs) (create_dir_all E cs parent)"
proof (induction parent arbitrary: cs)
  case (Cons n ns)
  have "inside (rev ns)" using inside_take [OF Cons.prems(2), of "length ns"] by simp
  with Cons show ?case
    by (subst create_dir_all.simps) (auto intro!: preserves_intro contained_create_dir contained_create_or_dir)
qed (subst create_dir_all.simps, auto intro!: preserves_intro contained_create_dir)

lemma contained_io_result: "preserves P (io_result ctx r)"
  unfolding io_result_def by (auto intro!: preserves_intro)

lemma contained_write_all: "inner p \<Longrightarrow> preserves (contained fs) (write_all E p data)"
  unfolding write_all_def by (auto intro!: preserves_intro contained_put)

lemma contained_open_write:
  fixes E :: "'e agent_env_scheme"
  assumes "inside cs"
  shows "preserves (contained fs :: 'z guest_fs_scheme \<Rightarrow> bool) (bindE (open_create E cs) (\<lambda>r. case r of Inl e \<Rightarrow> throwE (Io a e)
      | Inr q \<Rightarrow> bindE (write_all E q data) (io_result b)))"
proof (rule preserves_wpI)
  fix t :: "'z guest_fs_scheme" assume t: "contained fs t"
  have "preserves (contained fs :: 'z guest_fs_scheme \<Rightarrow> bool) (bindE (write_all E p data) (io_result b))" if "inner p" for p
    using that by (auto intro!: preserves_intro contained_write_all contained_io_result)
  then have wr: "wp (bindE (write_all E p data) (io_result b)) (\<lambda>_. contained fs) (\<lambda>_. contained fs) u" if "contained fs u" "inner p" for p and u :: "'z guest_fs_scheme"
    using that by (simp add: wp_snd preserves_def)
  have "wp (open_create E cs) (\<lambda>r u. contained fs u \<and> (\<forall>p. r = Inr p \<longrightarrow> inner p)) (\<lambda>_. contained fs) t"
    unfolding open_create_def using t klookup_contained(1) [OF t assms, of True] contained_file [OF t assms, of True]
    by (auto simp: wp_simps wp_exact intro!: contained_put split: option.split found.split gnode.split)
  then show "wp (bindE (open_create E cs) (\<lambda>r. case r of Inl e \<Rightarrow> throwE (Io a e) | Inr q \<Rightarrow> bindE (write_all E q data) (io_result b)))
      (\<lambda>_. contained fs) (\<lambda>_. contained fs) t"
    unfolding wp_bindE [of "open_create E cs"] by (rule wp_mono) (auto simp: wp_throwE intro: wr split: sum.split)
qed


lemma workspace_inside:
  assumes "resolve_workspace_path WORKSPACE_ROOT path = Inr p"
  shows "inside (kcomps p)" "inside (segments p)" "kcomps p \<noteq> []" "segments p \<noteq> []"
    "inside (butlast (path_names p))" "inside (butlast (butlast (path_names p)))"
proof -
  from workspace_segments [OF assms] obtain cs where cs: "segments p = ''workspace'' # cs" "''..'' \<notin> set cs" by auto
  then show "inside (kcomps p)" "inside (segments p)" "kcomps p \<noteq> []" "segments p \<noteq> []" by (auto simp: inside_def kcomps_def)
  have "inside (path_names p)" using cs by (auto simp: inside_def path_names_def)
  then show "inside (butlast (path_names p))" "inside (butlast (butlast (path_names p)))"
    by (simp_all add: butlast_conv_take inside_take)
qed

lemma contained_write_file: "preserves (contained fs) (write_file E path data parents)"
proof (cases "resolve_workspace_path WORKSPACE_ROOT path")
  case (Inr p)
  note inside = workspace_inside [OF Inr]
  have "preserves (contained fs) (seqE (if path_names p \<noteq> [] \<and> parents then
      bindE (create_dir_all E (butlast (path_names p)) (rev (butlast (butlast (path_names p))))) (io_result ''creating workspace parent directory'')
      else returnE ()) (bindE (open_create E (kcomps p)) (\<lambda>r. case r of Inl e \<Rightarrow> throwE (Io ''creating workspace file'' e)
      | Inr q \<Rightarrow> bindE (write_all E q data) (io_result ''writing workspace file''))))"
    by (intro preserves_seqE preserves_if preserves_bindE [where m = "create_dir_all a b c" for a b c] preserves_returnE
      contained_create_dir_all contained_open_write contained_io_result) (simp_all add: inside)
  then show ?thesis by (simp add: write_file_def Inr io_defs preserves_def)
qed (simp add: write_file_def preserves_def io_defs)

lemma contained_rmdir:
  assumes "inside cs" "cs \<noteq> []"
  shows "preserves (contained fs) (rmdir cs)"
proof (rule preserves_wpI)
  fix s :: "'a guest_fs_scheme" assume s: "contained fs s"
  show "wp (rmdir cs) (\<lambda>_. contained fs) (\<lambda>_. contained fs) s"
    unfolding rmdir_def using s klookup_contained(3) [OF s assms(1), of False] assms(2)
    by (auto simp: wp_simps mount_point_def intro!: contained_drop split: found.split)
qed

lemma contained_remove_dir: "inside cs \<Longrightarrow> cs \<noteq> [] \<Longrightarrow> preserves (contained fs) (remove_dir E cs)"
  unfolding remove_dir_def attempt_def by (auto intro!: preserves_intro contained_rmdir)

lemma contained_remove_dir_all:
  "inside cs \<Longrightarrow> cs \<noteq> [] \<Longrightarrow> p = [''workspace''] \<or> inner p \<Longrightarrow> preserves (contained fs) (remove_dir_all E p cs)"
  unfolding remove_dir_all_def by (auto intro!: preserves_intro contained_remove_dir contained_drop_below)

lemma contained_remove_file: "inner p \<Longrightarrow> preserves (contained fs) (remove_file E p)"
  unfolding remove_file_def attempt_def by (auto intro!: preserves_intro contained_drop)

lemma contained_remove_path: "preserves (contained fs :: 'z guest_fs_scheme \<Rightarrow> bool) (remove_path E path recursive)"
proof (rule preserves_wpI)
  fix s :: "'z guest_fs_scheme" assume s: "contained fs s"
  show "wp (remove_path E path recursive) (\<lambda>_. contained fs) (\<lambda>_. contained fs) s"
  proof (cases "resolve_workspace_path WORKSPACE_ROOT path")
    case (Inr p)
    note inside = workspace_inside [OF Inr]
    let ?rest = "\<lambda>(q, n). bindE (if n = GDir then (if recursive then remove_dir_all E q (segments p) else remove_dir E (segments p))
            else remove_file E q) (io_result ''removing workspace path'')"
    have meta: "wp (symlink_metadata E ctx (kcomps p)) (\<lambda>(q, n) t. contained fs t \<and> (inner q \<or> q = [''workspace''] \<and> n = GDir)) (\<lambda>_. contained fs) s" for ctx
    proof -
      have "inner q \<or> q = [''workspace''] \<and> n = GDir" if "klookup False (kcomps p) s = Found q" "gnode_at (gfs s) q = Some n" for q n
        using klookup_contained(3) [OF s inside(1) that(1) inside(3)] that(2) s by (auto simp: contained_def plain_workspace_def)
      then show ?thesis unfolding symlink_metadata_def
        using s by (auto simp: wp_simps wp_exact split: option.split found.split)
    qed
    have "preserves (contained fs :: 'z guest_fs_scheme \<Rightarrow> bool) (?rest (q, n))" if "inner q \<or> q = [''workspace''] \<and> n = GDir" for q n
      using that inside by (auto intro!: preserves_intro contained_remove_dir contained_remove_dir_all contained_remove_file contained_io_result)
    then have rest: "wp (?rest (q, n)) (\<lambda>_. contained fs) (\<lambda>_. contained fs) t" if "contained fs t" "inner q \<or> q = [''workspace''] \<and> n = GDir" for q n and t :: "'z guest_fs_scheme"
      using that unfolding wp_snd by (blast dest: preservesD)
    have "wp (bindE (symlink_metadata E ''reading workspace path metadata'' (kcomps p)) ?rest) (\<lambda>_. contained fs) (\<lambda>_. contained fs) s"
      unfolding wp_bindE [of "symlink_metadata a b c" for a b c]
    proof (rule wp_mono [OF meta])
      fix x and t :: "'z guest_fs_scheme"
      assume "(case x of (q, n) \<Rightarrow> \<lambda>t. contained fs t \<and> (inner q \<or> q = [''workspace''] \<and> n = GDir)) t"
      then show "wp (?rest x) (\<lambda>_. contained fs) (\<lambda>_. contained fs) t" using rest by (cases x) simp
    qed simp
    then show ?thesis by (simp add: remove_path_def Inr wp_bindE wp_liftE)
  qed (simp add: remove_path_def wp_simps s)
qed

lemma contained_make_dir: "preserves (contained fs) (make_dir E path recursive)"
proof (cases "resolve_workspace_path WORKSPACE_ROOT path")
  case (Inr p)
  note inside = workspace_inside [OF Inr]
  have "preserves (contained fs) (bindE (if recursive then std_create_dir_all E p else create_dir E (segments p)) (io_result ''creating workspace directory''))"
    unfolding std_create_dir_all_def using inside by (auto intro!: preserves_intro contained_create_dir_all contained_create_dir contained_io_result)
  then show ?thesis by (simp add: make_dir_def Inr io_defs preserves_def)
qed (simp add: make_dir_def preserves_def io_defs)


datatype fs_op = WriteFile string "u8 list" bool | MakeDir string bool | RemovePath string bool

fun run_fs_op :: "'e agent_env_scheme \<Rightarrow> fs_op \<Rightarrow> ('z guest_fs_scheme, unit) io" where
  "run_fs_op E (WriteFile path data parents) = write_file E path data parents"
| "run_fs_op E (MakeDir path recursive) = make_dir E path recursive"
| "run_fs_op E (RemovePath path recursive) = remove_path E path recursive"

text \<open>
  C6: As long as the workspace holds no symbolic links, the file operations stay inside: whatever
  paths are asked for and wherever an operation fails, everything outside of the workspace
  stays as it was along any sequence of writes, new directories and removals, recursive
  ones included, and the workspace itself is not removed.
\<close>

theorem guest_files_stay_inside:
  assumes "plain_workspace (gfs s)" "p \<noteq> []" "hd p \<noteq> ''workspace''"
  shows "map_of (gfs (run_steps (\<lambda>op s. snd (run_fs_op E op s)) ops s)) p = map_of (gfs s) p"
proof -
  have "contained (gfs s) (run_steps (\<lambda>op s. snd (run_fs_op E op s)) ops s)"
  proof (rule run_steps_invariant)
    fix op t assume "contained (gfs s) t"
    then show "contained (gfs s) (snd (run_fs_op E op t))"
      by (cases op) (auto intro: preservesD contained_write_file contained_make_dir contained_remove_path)
  qed (simp add: contained_def assms)
  then show ?thesis using assms by (simp add: contained_def)
qed

definition demo_fs :: guest_fs where
  "demo_fs = \<lparr>calls = 0, gfs = [([''workspace''], GDir), ([''etc''], GDir), ([''etc'', ''shadow''], GFile [1]),
     ([''workspace'', ''a''], GDir), ([''workspace'', ''a'', ''x''], GFile [104, 105]), ([''workspace'', ''out''], GLink ''/etc'')]\<rparr>"

definition quiet_agent :: agent_env where
  "quiet_agent = env.extend quiet_env (agent_env.fields (\<lambda>_. 0) (\<lambda>_ _. False))"



theorem guest_files_stay_inside_witness:
  "map_of (gfs (run_steps (\<lambda>op s. snd (run_fs_op quiet_agent op s)) [RemovePath ''a'' True, WriteFile ''b/c'' [7] True]
     (drop_node [''workspace'', ''out''] demo_fs))) [''etc'', ''shadow''] = Some (GFile [1])"
proof -
  have "map_of (gfs (drop_node [''workspace'', ''out''] demo_fs)) (''workspace'' # q) \<noteq> Some (GLink t)" for q t
    by (auto simp: demo_fs_def drop_node_def split: if_splits)
  then have "plain_workspace (gfs (drop_node [''workspace'', ''out''] demo_fs))"
    by (simp add: plain_workspace_def gnode_at_def) (simp add: demo_fs_def drop_node_def)
  from guest_files_stay_inside [OF this, of "[''etc'', ''shadow'']" quiet_agent] show ?thesis
    by (simp add: demo_fs_def drop_node_def del: run_steps.simps)
qed


end
