(* ===== verification/Guest_Agent_Properties.thy ===== *)
theory Guest_Agent_Properties
  imports Guest_Agent Guest_Fs_Properties
begin

text \<open>
  What the guest agent promises on every interleaving of its tasks: each request is answered
  once, every process runs with the identity, limits and filter of the guest, the exit of a
  command is reported once, after all of its output, and what the host writes to a file is
  what it reads back. A shell that does not end by itself blocks the agent when it is closed.
\<close>

section \<open>The file service leaves the rest of the agent alone\<close>

definition files_free :: "('z guest_fs_scheme \<Rightarrow> 'f) \<Rightarrow> bool" where
  "files_free f \<longleftrightarrow> counter_free f \<and> (\<forall>s fs. f (s\<lparr>gfs := fs\<rparr>) = f s)"

lemma files_freeD: "files_free f \<Longrightarrow> counter_free f" "files_free f \<Longrightarrow> f (s\<lparr>gfs := fs\<rparr>) = f s"
  by (simp_all add: files_free_def)

lemma files_free_nodes [simp]: "files_free f \<Longrightarrow> f (put_node p n s) = f s" "files_free f \<Longrightarrow> f (drop_node p s) = f s"
  "files_free f \<Longrightarrow> f (drop_below p keep s) = f s"
  by (simp_all add: put_node_def drop_node_def drop_below_def files_freeD)

lemma keeps_attempt [keeps_intro]: "counter_free f \<Longrightarrow> keeps f m \<Longrightarrow> keeps f (attempt E m)"
  unfolding attempt_def by (intro keeps_intro)

lemma keeps_io_result [keeps_intro]: "keeps f (io_result ctx r)"
  unfolding io_result_def by (intro keeps_intro)

lemma keeps_case_prod [keeps_intro]: "(\<And>a b. p = (a, b) \<Longrightarrow> keeps f (g a b)) \<Longrightarrow> keeps f (case p of (a, b) \<Rightarrow> g a b)"
  by (cases p) simp

lemma keeps_case_found [keeps_intro]:
  "(\<And>p. keeps f (a p)) \<Longrightarrow> (\<And>p. keeps f (b p)) \<Longrightarrow> (\<And>e. keeps f (g e)) \<Longrightarrow>
    keeps f (case r of Found p \<Rightarrow> a p | Absent p \<Rightarrow> b p | Errno e \<Rightarrow> g e)"
  by (cases r) simp_all

lemma keeps_case_gnode [keeps_intro]:
  "(\<And>d. keeps f (a d)) \<Longrightarrow> keeps f b \<Longrightarrow> (\<And>t. keeps f (g t)) \<Longrightarrow>
    keeps f (case n of GFile d \<Rightarrow> a d | GDir \<Rightarrow> b | GLink t \<Rightarrow> g t)"
  by (cases n) simp_all

lemma keeps_file_calls [keeps_intro]:
  assumes "files_free f"
  shows "keeps f (create_dir E cs)" "keeps f (create_or_dir E cs)" "keeps f (open_create E cs)"
    "keeps f (write_all E' p d)" "keeps f (symlink_metadata E ctx cs)" "keeps f (rmdir cs)" "keeps f (read_dir E cs)"
  unfolding create_dir_def create_or_dir_def open_create_def write_all_def symlink_metadata_def rmdir_def read_dir_def
  by (intro keeps_intro; simp add: assms files_freeD)+

lemma keeps_create_dir_all [keeps_intro]: "files_free f \<Longrightarrow> keeps f (create_dir_all E cs ps)"
proof (induction E cs ps rule: create_dir_all.induct)
  case (1 E cs ps)
  then show ?case by (subst create_dir_all.simps) (auto intro!: keeps_intro split: list.splits)
qed

lemma keeps_node_for_path [keeps_intro]: "files_free f \<Longrightarrow> keeps f (node_for_path E ns)"
  unfolding node_for_path_def by (intro keeps_intro) (simp_all add: files_freeD)

lemma keeps_walk_directory [keeps_intro]: "files_free f \<Longrightarrow> keeps f (walk_directory E n cur)"
  by (induction E n cur rule: walk_directory.induct) (auto intro!: keeps_intro simp: files_freeD)

lemma keeps_file_service [keeps_intro]:
  assumes "files_free f"
  shows "keeps f (write_file E path d parents)" "keeps f (make_dir E path recursive)" "keeps f (remove_path E path recursive)"
    "keeps f (read_file E path limit)" "keeps f (list_files E path)" "keeps f (snapshot_workspace E)" "keeps f sync_workspace"
  unfolding write_file_def make_dir_def remove_path_def read_file_def list_files_def snapshot_workspace_def sync_workspace_def
    std_create_dir_all_def remove_dir_all_def remove_dir_def remove_file_def Let_def
  by (intro keeps_intro; simp add: assms files_freeD)+

lemma keeps_runtime_stats [keeps_intro]: "counter_free f \<Longrightarrow> keeps f (runtime_stats E)"
  unfolding runtime_stats_def collect_runtime_stats_def read_cpu_sample_def read_memory_used_mib_def read_fs_used_mib_def
    read_process_count_def
  by (intro keeps_intro)

section \<open>Every request is answered once\<close>

fun reply_to :: "guest_event \<Rightarrow> string option" where
  "reply_to (EvPong i) = Some i"
| "reply_to (EvAck i) = Some i"
| "reply_to (EvShellOpened i _) = Some i"
| "reply_to (EvWorkspaceSnapshot i _) = Some i"
| "reply_to (EvRuntimeStats i _) = Some i"
| "reply_to (EvFilesListed i _) = Some i"
| "reply_to (EvFileRead i _) = Some i"
| "reply_to (EvError i _ _) = i"
| "reply_to _ = None"

text \<open>\<open>wire_view\<close>: what was sent and what the serving task does next.\<close>

definition wire_view :: "'z agent_state_scheme \<Rightarrow> guest_event list \<times> handler" where
  "wire_view s = (ag_out s, ag_handler s)"

lemma files_free_agent [simp]:
  "files_free (wire_view :: 'z agent_state_scheme \<Rightarrow> _)" "files_free (ag_children :: 'z agent_state_scheme \<Rightarrow> _)"
  "counter_free (wire_view :: 'z agent_state_scheme \<Rightarrow> _)" "counter_free (ag_children :: 'z agent_state_scheme \<Rightarrow> _)"
  by (auto simp: files_free_def wire_view_def)

lemma wp_agent_send_event [wp_intro]:
  assumes "\<And>n. calls s \<le> n \<Longrightarrow> Q () (s\<lparr>calls := n, ag_out := ag_out s @ [ev]\<rparr>)"
    and "\<And>n ctx msg m. calls s \<le> n \<Longrightarrow> fault_at E m = Some msg \<Longrightarrow> R (Fail (Io ctx msg)) (s\<lparr>calls := n\<rparr>)"
    and "\<And>n ctx msg m. calls s \<le> n \<Longrightarrow> fault_at E m = Some msg \<Longrightarrow> R (Fail (Json ctx msg)) (s\<lparr>calls := n\<rparr>)"
  shows "wp (agent_send_event E ev) Q R s"
  unfolding agent_send_event_def using assms by (auto simp: wp_simps wp_exact split: option.split)

lemma wp_answer:
  assumes "keeps wire_view m"
  shows "wp (answer E i target ok m)
     (\<lambda>_ t. \<exists>ev. ((\<exists>e. ev = EvError (Some i) target (display e)) \<or> (\<exists>a. ev = ok a)) \<and> wire_view t = (ag_out s @ [ev], ag_handler s))
     (\<lambda>_ t. wire_view t = wire_view s) s"
proof (cases "m s")
  case (Pair r t)
  with assms have "wire_view t = wire_view s" by (auto dest: keeps_runD)
  moreover have "wp m Q R s = (case r of Inr a \<Rightarrow> Q a t | Inl x \<Rightarrow> R x t)" for Q R using Pair by (simp add: wp_def split: sum.splits)
  ultimately show ?thesis unfolding answer_def send_error_event_def
    by (auto simp: wp_simps wire_view_def intro!: wp_agent_send_event split: sum.split failure.split)
qed

lemma keeps_spawn [keeps_intro]: "keeps wire_view (spawn E ctx p t :: ('z agent_state_scheme, nat) io)"
  unfolding spawn_def by (intro keeps_intro) (simp_all add: wire_view_def)

lemma keeps_open_shell [keeps_intro]: "keeps wire_view (open_shell E c session req :: ('z agent_state_scheme, unit) io)"
  unfolding open_shell_def open_shell_pty_def by (intro keeps_intro) (simp_all add: wire_view_def)

lemma keeps_spawn_exec [keeps_intro]: "keeps wire_view (spawn_exec E c e req :: ('z agent_state_scheme, unit) io)"
  unfolding spawn_exec_def by (intro keeps_intro) (simp_all add: wire_view_def)

lemma keeps_upd_child [simp]: "wire_view (upd_child k f s) = wire_view s" "ag_shells (upd_child k f s) = ag_shells s"
  "ag_handler (upd_child k f s) = ag_handler s" "ag_out (upd_child k f s) = ag_out s" "gfs (upd_child k f s) = gfs s"
  by (simp_all add: wire_view_def upd_child_def)

lemma keeps_shell_input [keeps_intro]: "keeps wire_view (write_shell_input E W k data :: ('z agent_state_scheme, unit) io)"
  "keeps wire_view (resize_shell E :: ('z agent_state_scheme, unit) io)"
  unfolding write_shell_input_def resize_shell_def by (intro keeps_intro; simp)+

lemma wp_spawn:
  assumes "\<And>n h. ch_process h = p \<Longrightarrow> ch_task h = t \<Longrightarrow> ch_status h = None \<Longrightarrow> ch_out h = fresh_pipe True \<Longrightarrow>
      ch_err h = fresh_pipe (\<not> pr_tty p) \<Longrightarrow> Q (length (ag_children s)) (s\<lparr>calls := n, ag_children := ag_children s @ [h]\<rparr>)"
    and "\<And>n msg. R (Fail (Io ctx msg)) (s\<lparr>calls := n\<rparr>)"
  shows "wp (spawn E ctx p t) Q R s"
  unfolding spawn_def using assms(1) assms(2) [of "''nul byte found in provided data''" "calls s"] assms(2)
  by (auto simp: wp_simps wp_exact split: option.split)

lemma wp_spawn_exec:
  assumes "\<And>n p h. configure_command E c False (ex_program req) (ex_args req) (ex_env req) (ex_cwd req) = Inr p \<Longrightarrow> ch_process h = p \<Longrightarrow>
      ch_task h = ExecTask e (ex_timeout_ms req) ExecWaits \<Longrightarrow> ch_status h = None \<Longrightarrow> ch_out h = fresh_pipe True \<Longrightarrow>
      ch_err h = fresh_pipe True \<Longrightarrow> Q () (s\<lparr>calls := n, ag_children := ag_children s @ [h], ag_execs := List.insert e (ag_execs s)\<rparr>)"
    and "\<And>n e. R (Fail e) (s\<lparr>calls := n\<rparr>)"
  shows "wp (spawn_exec E c e req) Q R s"
  unfolding spawn_exec_def using assms assms(2) [of _ "calls s"]
  by (auto simp: wp_simps configure_command_def intro!: wp_spawn split: sum.split)

definition answered :: "guest_request \<Rightarrow> 'z agent_state_scheme \<Rightarrow> 'z agent_state_scheme \<Rightarrow> bool" where
  "answered r s t \<longleftrightarrow>
     (\<exists>ev. reply_to ev = Some (rid r) \<and> ag_out t = ag_out s @ [ev] \<and> ag_handler t = ag_handler s) \<or>
     (\<exists>e req h. r = GExec (rid r) e req \<and> ag_out t = ag_out s \<and> ag_handler t = ag_handler s \<and>
        ag_children t = ag_children s @ [h] \<and> ch_task h = ExecTask e (ex_timeout_ms req) ExecWaits) \<or>
     (\<exists>ks stop. ag_out t = ag_out s \<and> ag_handler t = Closing (rid r) ks CloseTerm stop)"

lemma answered_answer:
  assumes "keeps wire_view m" "\<And>a. reply_to (ok a) = Some (rid r)" "i = rid r"
  shows "wp (answer E i target ok m) (\<lambda>_. answered r s) (\<lambda>_ t. ag_out t = ag_out s) s"
  by (rule wp_mono [OF wp_answer [OF assms(1)]]) (use assms(2-) in \<open>auto simp: answered_def wire_view_def\<close>)

lemma answered_with_shell:
  assumes "\<And>k. wp (f k) (\<lambda>_. answered r s) (\<lambda>_ t. ag_out t = ag_out s) s" "i = rid r"
  shows "wp (with_shell E i session f) (\<lambda>_. answered r s) (\<lambda>_ t. ag_out t = ag_out s) s"
  unfolding with_shell_def send_error_event_def using assms
  by (auto simp: wp_simps answered_def intro!: wp_agent_send_event split: option.split)

lemma answered_ack:
  assumes "keeps wire_view m"
  shows "wp (seqE m (agent_send_event E (EvAck (rid r)))) (\<lambda>_. answered r s) (\<lambda>_ t. ag_out t = ag_out s) s"
proof (cases "m s")
  case (Pair x t)
  with assms have "wire_view t = wire_view s" by (auto dest: keeps_runD)
  moreover have "wp m Q R s = (case x of Inr a \<Rightarrow> Q a t | Inl y \<Rightarrow> R y t)" for Q R using Pair by (simp add: wp_def split: sum.splits)
  ultimately show ?thesis
    by (auto simp: wp_simps wire_view_def answered_def intro!: wp_agent_send_event split: sum.split)
qed

lemma wp_handle_guest_request:
  "wp (handle_guest_request E W c r) (\<lambda>_. answered r s) (\<lambda>_ t. ag_out t = ag_out s) (s :: 'z agent_state_scheme)"
proof (cases r)
  case (GExec i e req)
  then show ?thesis
    by (auto simp: wp_simps answered_def send_error_event_def intro!: wp_spawn_exec wp_agent_send_event)
next
  case (GShellInput i session data)
  then show ?thesis using answered_ack [of "write_shell_input E W k data" E r s for k]
    by (auto intro!: answered_with_shell keeps_intro)
next
  case (GResizeShell i session cols rows)
  then show ?thesis using answered_ack [of "resize_shell E" E r s]
    by (auto intro!: answered_with_shell keeps_intro)
qed (auto intro!: answered_answer answered_with_shell keeps_intro simp: wp_simps answered_def intro: wp_agent_send_event)


section \<open>Runs\<close>

lemma agent_run_invariant:
  assumes "agent_run E W c as s = Some t" "P s"
    and step: "\<And>a u v. a \<in> set as \<Longrightarrow> P u \<Longrightarrow> agent_act E W c a u = Some v \<Longrightarrow> P v"
  shows "P t"
  using assms(1,2) step
proof (induction as arbitrary: s)
  case (Cons a as)
  from Cons.prems(1) obtain u where u: "agent_act E W c a s = Some u" "agent_run E W c as u = Some t"
    by (auto split: option.splits)
  have "P u" using Cons.prems u by auto
  with Cons u show ?case by auto
qed simp

text \<open>
  An invariant that the operations of the model keep is kept by every action. The contract is one
  line per operation; each invariant below is an instance.
\<close>

locale agent_invariant =
  fixes P :: "'z agent_state_scheme \<Rightarrow> bool" and E :: "'e guest_env_scheme" and W :: "'w wire_scheme" and c :: boot_config
    and ok :: "guest_request \<Rightarrow> 'z agent_state_scheme \<Rightarrow> bool"
  assumes request: "P s \<Longrightarrow> ok r s \<Longrightarrow> P (snd (handle_guest_request E W c r s))"
    and close: "preserves P (close_step E i ks ph stop)"
    and handler: "P (s\<lparr>ag_handler := x\<rparr>) = P s"
    and child: "P s \<Longrightarrow> k < length (ag_children s) \<Longrightarrow> child_act E W a k (ag_children s ! k) s = Some t \<Longrightarrow> P t"
begin

lemma served: "P (snd (m s)) \<Longrightarrow> P (serve m s)"
  by (cases "m s") (auto simp: serve_def handler split: sum.splits)

lemma act: "P s \<Longrightarrow> (\<And>r. a = Request r \<Longrightarrow> ok r s) \<Longrightarrow> agent_act E W c a s = Some t \<Longrightarrow> P t"
proof (cases "action_child a")
  case (Some k)
  then show "P s \<Longrightarrow> agent_act E W c a s = Some t \<Longrightarrow> P t"
    by (auto simp: agent_act_def intro: child split: if_splits)
next
  case None
  then show "P s \<Longrightarrow> (\<And>r. a = Request r \<Longrightarrow> ok r s) \<Longrightarrow> agent_act E W c a s = Some t \<Longrightarrow> P t"
    by (cases a) (auto simp: agent_act_def when_serving_def handler
        intro!: served request preservesD [OF close] split: if_splits handler.splits list.splits close_phase.splits)
qed

end

section \<open>How processes run\<close>

definition procs :: "'z agent_state_scheme \<Rightarrow> process list" where
  "procs s = map ch_process (ag_children s)"

lemma procs_upd_child [simp]: "(\<And>h. ch_process (f h) = ch_process h) \<Longrightarrow> procs (upd_child k f s) = procs s"
  by (simp add: procs_def upd_child_def map_update list_update_same_conv)

lemma procs_simps [simp]: "procs (s\<lparr>calls := n\<rparr>) = procs s" "procs (s\<lparr>gfs := fs\<rparr>) = procs s" "procs (s\<lparr>ag_handler := x\<rparr>) = procs s"
  "procs (s\<lparr>ag_out := out\<rparr>) = procs s" "procs (s\<lparr>ag_shells := sh\<rparr>) = procs s" "procs (s\<lparr>ag_execs := ex\<rparr>) = procs s"
  "files_free (procs :: 'z agent_state_scheme \<Rightarrow> _)" "counter_free (procs :: 'z agent_state_scheme \<Rightarrow> _)"
  by (auto simp: procs_def files_free_def)

lemma upd_pipe_process [simp]: "ch_process (upd_pipe o1 f h) = ch_process h" "ch_process (kill_child h) = ch_process h"
  by (simp_all add: upd_pipe_def kill_child_def split: output_stream.split)

lemma keeps_procs_calls [keeps_intro]:
  "keeps procs (agent_send_event E ev :: ('z agent_state_scheme, unit) io)"
  "keeps procs (send_error_event E i target e :: ('z agent_state_scheme, unit) io)"
  "keeps procs (send_process_group_signal E k sig :: ('z agent_state_scheme, bool) io)"
  "keeps procs (kill_and_wait E k :: ('z agent_state_scheme, unit) io)"
  "keeps procs (write_shell_input E W k data :: ('z agent_state_scheme, unit) io)"
  "keeps procs (resize_shell E :: ('z agent_state_scheme, unit) io)"
  unfolding agent_send_event_def send_error_event_def kill_and_wait_def send_process_group_signal_def write_shell_input_def resize_shell_def
  by (intro keeps_intro; simp)+

lemma keeps_close_step [keeps_intro]: "keeps procs (close_step E i ks ph stop :: ('z agent_state_scheme, unit) io)"
  by (cases ks; cases ph) (auto intro!: keeps_intro)

lemma keeps_procs_tasks [keeps_intro]:
  "keeps procs (stream_output E W k o1 n h :: ('z agent_state_scheme, unit) io)"
  "keeps procs (stop_reading_pipe k o1 :: ('z agent_state_scheme, unit) io)"
  "keeps procs (shell_wait_step E k h session sw :: ('z agent_state_scheme, unit) io)"
  "keeps procs (exec_wait_step E k h e to ew :: ('z agent_state_scheme, unit) io)"
  "keeps procs (exec_timer_step E k e to ew :: ('z agent_state_scheme, unit) io)"
  unfolding stream_output_def stop_reading_pipe_def shell_wait_step_def exec_wait_step_def exec_timer_step_def exec_saw_def set_task_def Let_def
  by (cases sw; cases ew; auto intro!: keeps_intro)+

lemma child_act_procs: "child_act E W a k h s = Some t \<Longrightarrow> procs t = procs s"
  by (cases a) (auto simp: Let_def keepsD [OF keeps_procs_tasks(1)] keepsD [OF keeps_procs_tasks(2)] keepsD [OF keeps_procs_tasks(3)]
      keepsD [OF keeps_procs_tasks(4)] keepsD [OF keeps_procs_tasks(5)] split: if_splits task.splits option.splits)

definition confined :: "'e guest_env_scheme \<Rightarrow> boot_config \<Rightarrow> process \<Rightarrow> bool" where
  "confined E c p \<longleftrightarrow> (\<exists>tty program args vars cwd. configure_command E c tty program args vars cwd = Inr p)"

lemma keeps_answer: "keeps procs m \<Longrightarrow> keeps procs (answer E i target okk m :: ('z agent_state_scheme, unit) io)"
  unfolding answer_def by (intro keeps_intro)

lemma bindE_liftE: "bindE (liftE (Inr a)) f = f a" "bindE (liftE (Inl e)) f = throwE e"
  by (simp_all add: io_defs)

lemma confined_spawn: "confined E c p \<Longrightarrow> preserves (\<lambda>s :: 'z agent_state_scheme. list_all (confined E c) (procs s)) (spawn E' ctx p t)"
  by (rule preserves_wpI, rule wp_spawn) (simp_all add: procs_def)

lemma confined_open_shell: "preserves (\<lambda>s :: 'z agent_state_scheme. list_all (confined E c) (procs s)) (open_shell E c session req)"
proof (cases "configure_command E c True (sh_program req) (sh_args req) (sh_env req) (sh_cwd req)")
  case (Inr p)
  then have "confined E c p" unfolding confined_def by blast
  with Inr show ?thesis unfolding open_shell_def open_shell_pty_def
    by (auto simp: bindE_liftE intro!: preserves_intro confined_spawn)
qed (auto simp: open_shell_def open_shell_pty_def bindE_liftE intro!: preserves_intro)

lemma confined_spawn_exec: "preserves (\<lambda>s :: 'z agent_state_scheme. list_all (confined E c) (procs s)) (spawn_exec E c e req)"
proof (cases "configure_command E c False (ex_program req) (ex_args req) (ex_env req) (ex_cwd req)")
  case (Inr p)
  then have "confined E c p" unfolding confined_def by blast
  with Inr show ?thesis unfolding spawn_exec_def
    by (auto simp: bindE_liftE intro!: preserves_intro confined_spawn)
qed (auto simp: spawn_exec_def bindE_liftE intro!: preserves_intro)

lemma confined_request:
  "preserves (\<lambda>s :: 'z agent_state_scheme. list_all (confined E c) (procs s)) (handle_guest_request E W c r)"
proof (cases r)
  case (GExec i e req)
  show ?thesis unfolding GExec handle_guest_request.simps
    by (intro preserves_intro confined_spawn_exec) (auto intro!: keeps_preserves [of procs] keeps_intro)
next
  case (GOpenShell i session req)
  show ?thesis unfolding GOpenShell handle_guest_request.simps answer_def
    by (intro preserves_intro confined_open_shell) (auto intro!: keeps_preserves [of procs] keeps_intro)
qed (auto simp: with_shell_def intro!: keeps_preserves [of procs] keeps_answer keeps_intro)

interpretation confined_agent: agent_invariant "\<lambda>s :: 'z agent_state_scheme. list_all (confined E c) (procs s)" E W c "\<lambda>_ _. True"
  for E :: "'e guest_env_scheme" and W :: "'w wire_scheme" and c
  by unfold_locales
    (auto intro: preservesD [OF confined_request] keeps_preserves [OF keeps_close_step, where P = "list_all p" for p] simp: child_act_procs)

lemma configure_commandD:
  "configure_command E c tty program args vars cwd = Inr p \<Longrightarrow>
     resolve_workspace_path ''/workspace'' cwd = Inr (pr_cwd p) \<and> pr_uid p = boot_uid c \<and> pr_gid p = boot_gid c \<and>
     pr_rlimits p = process_limits (boot_max_processes c) (boot_max_open_files c) (boot_max_file_size_bytes c) \<and>
     pr_filter p = (if boot_network_enabled c then None else Some (build_no_network_seccomp_filter (ge_arch E) (ge_nr E)))"
  by (auto simp: configure_command_def split: sum.splits)

text \<open>
  C17: Whatever is asked of the guest agent and in whatever order its tasks run, every process it ever
  started runs as the guest's user and group, under the process, file and core limits of the boot
  configuration, from a directory below the workspace; without a network it runs under a filter
  that refuses every socket of a network family.
\<close>

theorem guest_processes_confined:
  assumes "agent_run E W c as (agent_new_connection fs n) = Some t" "h \<in> set (ag_children t)"
  shows "let p = ch_process h in pr_uid p = boot_uid c \<and> pr_gid p = boot_gid c \<and>
    pr_rlimits p = [(''RLIMIT_NPROC'', ucast (boot_max_processes c)), (''RLIMIT_NOFILE'', ucast (boot_max_open_files c)),
       (''RLIMIT_CORE'', 0), (''RLIMIT_FSIZE'', boot_max_file_size_bytes c)] \<and>
    (\<exists>names. segments (pr_cwd p) = ''workspace'' # names \<and> ''..'' \<notin> set names) \<and>
    (\<not> boot_network_enabled c \<longrightarrow> (\<exists>f. pr_filter p = Some f \<and> (\<forall>d. sd_arch d = seccomp_audit_arch (ge_arch E) \<and>
       sd_nr d = ge_nr E SYS_socket \<and> ucast (sd_arg0 d) \<notin> {AF_UNIX, AF_NETLINK} \<longrightarrow> bpf_run d f 0 = Some RET_ERRNO_EPERM)))"
proof -
  have "list_all (confined E c) (procs t)"
    by (rule agent_run_invariant [OF assms(1)], simp add: agent_new_connection_def procs_def) (rule confined_agent.act, simp_all)
  with assms(2) have "confined E c (ch_process h)" by (auto simp: procs_def list_all_iff)
  then obtain tty program args vars cwd where p: "configure_command E c tty program args vars cwd = Inr (ch_process h)"
    by (auto simp: confined_def)
  then have "\<exists>names. segments (pr_cwd (ch_process h)) = ''workspace'' # names \<and> ''..'' \<notin> set names"
    using workspace_segments [of cwd] by (auto simp: WORKSPACE_ROOT_def dest!: configure_commandD)
  then show ?thesis
    using p by (auto simp: Let_def process_limits_def build_no_network_seccomp_filter_def dest!: configure_commandD)
qed

section \<open>Files between host and guest\<close>

lemma holds_file_out [simp]: "holds_file cs d (t\<lparr>calls := n, ag_out := out\<rparr>) = holds_file cs d (t :: 'z agent_state_scheme)"
  by (rule holds_file_gfs) simp

text \<open>
  C18: What the host writes to a guest file is what it reads back. When a write request was
  acknowledged, a read request of the same path within the read limit is answered with a payload
  that the host decodes to the first bytes of the data, and with whether more follow; the only
  other answer is an error that reports a failure of the operating system.
\<close>

theorem host_guest_file_roundtrip:
  fixes s :: "'z agent_state_scheme"
  assumes "b64_inverse W" "limit \<le> MAX_READ_FILE_BYTES"
    and w: "handle_guest_request E W c (GWriteFile i path (encode_bytes W data) parents) s = (Inr (), t)" "ag_out t = ag_out s @ [EvAck i]"
    and r: "handle_guest_request E' W c' (GReadFile j path limit) t = (Inr (), u)"
  shows "\<exists>ev. ag_out u = ag_out t @ [ev] \<and>
     ((\<exists>f. ev = EvFileRead j f \<and> into_read_file W f =
         Inr \<lparr>rfr_path = path, rfr_data = take (unat limit) data, rfr_truncated = (unat limit < length data)\<rparr>) \<or>
      (\<exists>ctx n msg. fault_at E' n = Some msg \<and> ev = EvError (Some j) None (display (Io ctx msg))))"
proof -
  have dec: "bindE (liftE (decode_bytes W (encode_bytes W data))) f = f data" for f :: "_ \<Rightarrow> ('z agent_state_scheme, unit) io"
    using assms(1) by (simp add: decode_bytes_def encode_bytes_def b64_inverse_def bindE_liftE)
  let ?held = "\<lambda>t :: 'z agent_state_scheme. \<exists>p. resolve_workspace_path WORKSPACE_ROOT path = Inr p \<and> holds_file (kcomps p) data t"
  let ?same = "\<lambda>t :: 'z agent_state_scheme. wire_view t = wire_view s"
  have "wp (write_file E path data parents) (\<lambda>_ t. ?held t \<and> ?same t) (\<lambda>_ t. True \<and> ?same t) s"
    by (rule wp_conj [OF wp_write_file]) (auto simp: wp_snd keepsD [OF keeps_file_service(1)])
  then have "wp (answer E i None (\<lambda>_. EvAck i) (write_file E path data parents))
     (\<lambda>_ t. ag_out t = ag_out s @ [EvAck i] \<longrightarrow> ?held t) (\<lambda>_ _. True) s"
    unfolding answer_def send_error_event_def wp_bindE wp_tryE
    by (rule wp_mono) (auto simp: wp_simps wire_view_def intro!: wp_agent_send_event split: failure.split)
  with w have "?held t" by (auto simp: dec dest: wp_runD)
  then have "wp (handle_guest_request E' W c' (GReadFile j path limit)) (\<lambda>_ u. \<exists>ev. ag_out u = ag_out t @ [ev] \<and>
     ((\<exists>f. ev = EvFileRead j f \<and> into_read_file W f =
         Inr \<lparr>rfr_path = path, rfr_data = take (unat limit) data, rfr_truncated = (unat limit < length data)\<rparr>) \<or>
      (\<exists>ctx n msg. fault_at E' n = Some msg \<and> ev = EvError (Some j) None (display (Io ctx msg))))) (\<lambda>_ _. True) t"
  proof (elim exE conjE)
    fix p assume p: "resolve_workspace_path WORKSPACE_ROOT path = Inr p" "holds_file (kcomps p) data t"
    have keep: "wp (read_file E' path limit) (\<lambda>_ u. wire_view u = wire_view t) (\<lambda>_ u. wire_view u = wire_view t) t"
      by (auto simp: wp_snd keepsD [OF keeps_file_service(4)])
    show ?thesis
      unfolding handle_guest_request.simps answer_def send_error_event_def wp_bindE wp_tryE
      by (rule wp_mono [OF wp_conj [OF wp_read_held [OF p assms(2), of E'] keep]])
        (auto simp: wp_simps wire_view_def from_read_file_def into_read_file_def assms(1) [unfolded b64_inverse_def]
          simp del: display.simps intro!: wp_agent_send_event split: failure.split, blast)
  qed
  with r show ?thesis by (auto dest: wp_runD)
qed

section \<open>Closing a live shell\<close>

text \<open>
  \<open>stuck\<close>: the serving task is closing child \<open>k\<close>, which runs, and the task that waits for the child
  holds its lock.
\<close>

definition stuck :: "string \<Rightarrow> nat \<Rightarrow> nat list \<Rightarrow> bool \<Rightarrow> 'z agent_state_scheme \<Rightarrow> bool" where
  "stuck i k ks stop s \<longleftrightarrow> (\<exists>ph. ag_handler s = Closing i (k # ks) ph stop) \<and> k < length (ag_children s) \<and>
     (\<exists>session. ch_task (ag_children s ! k) = ShellTask session ShellWaitHolds) \<and> ch_status (ag_children s ! k) = None"

definition quiet_since :: "guest_event list \<Rightarrow> 'z agent_state_scheme \<Rightarrow> bool" where
  "quiet_since out s \<longleftrightarrow> (\<exists>evs. ag_out s = out @ evs \<and> (\<forall>ev \<in> set evs. reply_to ev = None))"

lemma stuck_simps [simp]:
  "stuck i k ks stop (s\<lparr>calls := n\<rparr>) = stuck i k ks stop s" "stuck i k ks stop (s\<lparr>ag_out := out\<rparr>) = stuck i k ks stop s"
  "stuck i k ks stop (s\<lparr>ag_shells := sh\<rparr>) = stuck i k ks stop s" "stuck i k ks stop (s\<lparr>ag_execs := ex\<rparr>) = stuck i k ks stop s"
  "quiet_since out0 (s\<lparr>calls := n\<rparr>) = quiet_since out0 s" "quiet_since out0 (s\<lparr>ag_shells := sh\<rparr>) = quiet_since out0 s"
  "quiet_since out0 (s\<lparr>ag_execs := ex\<rparr>) = quiet_since out0 s" "quiet_since out0 (upd_child j f s) = quiet_since out0 s"
  by (simp_all add: stuck_def quiet_since_def)

lemma stuck_status: "stuck i k ks stop s \<Longrightarrow> ch_status (ag_children s ! k) = None"
  by (simp add: stuck_def)

lemma stuck_upd_child:
  "stuck i k ks stop s \<Longrightarrow> (j = k \<Longrightarrow> ch_task (f (ag_children s ! k)) = ch_task (ag_children s ! k) \<and> ch_status (f (ag_children s ! k)) = None) \<Longrightarrow>
    stuck i k ks stop (upd_child j f s)"
  by (auto simp: stuck_def upd_child_def nth_list_update)

lemma upd_pipe_simps [simp]: "ch_task (upd_pipe o1 f h) = ch_task h" "ch_status (upd_pipe o1 f h) = ch_status h"
  "ch_task (kill_child h) = ch_task h"
  by (simp_all add: upd_pipe_def kill_child_def split: output_stream.split)

definition blocked :: "string \<Rightarrow> nat \<Rightarrow> nat list \<Rightarrow> bool \<Rightarrow> guest_event list \<Rightarrow> 'z agent_state_scheme \<Rightarrow> bool" where
  "blocked i k ks stop out s \<longleftrightarrow> stuck i k ks stop s \<and> quiet_since out s"

lemma blocked_counter_free [simp]: "counter_free (blocked i k ks stop out :: 'z agent_state_scheme \<Rightarrow> bool)"
  by (rule counter_freeI) (simp add: blocked_def)

lemma blocked_send [preserves_intro]:
  "reply_to ev = None \<Longrightarrow> preserves (blocked i k ks stop out :: 'z agent_state_scheme \<Rightarrow> bool) (agent_send_event E ev)"
  unfolding agent_send_event_def
  by (intro preserves_intro) (auto simp: blocked_def quiet_since_def)

lemma blocked_upd_other [preserves_intro]:
  "j \<noteq> k \<Longrightarrow> preserves (blocked i k ks stop out :: 'z agent_state_scheme \<Rightarrow> bool) (modifyE (upd_child j f))"
  by (intro preserves_intro) (auto simp: blocked_def intro: stuck_upd_child)

lemma blocked_upd_pipe [preserves_intro]:
  "preserves (blocked i k ks stop out :: 'z agent_state_scheme \<Rightarrow> bool) (modifyE (upd_child j (upd_pipe o1 f)))"
  by (intro preserves_intro) (auto simp: blocked_def stuck_status intro!: stuck_upd_child)

lemma blocked_signal [preserves_intro]:
  "j \<noteq> k \<Longrightarrow> preserves (blocked i k ks stop out :: 'z agent_state_scheme \<Rightarrow> bool) (send_process_group_signal E j sig)"
  "j \<noteq> k \<Longrightarrow> preserves (blocked i k ks stop out :: 'z agent_state_scheme \<Rightarrow> bool) (kill_and_wait E j)"
  unfolding kill_and_wait_def send_process_group_signal_def by (intro preserves_intro; simp)+

lemma blocked_child_act:
  fixes s :: "'z agent_state_scheme"
  assumes "blocked i k ks stop out s" "j < length (ag_children s)" "child_act E W a j (ag_children s ! j) s = Some t"
    and "action_child a = Some j" "\<And>st. a \<noteq> ChildExits k st"
  shows "blocked i k ks stop out t"
proof -
  let ?P = "blocked i k ks stop out :: 'z agent_state_scheme \<Rightarrow> bool"
  have out: "preserves ?P (stream_output E W j o1 n h)" "preserves ?P (stop_reading_pipe j o1)" for o1 n h
    unfolding stream_output_def stop_reading_pipe_def Let_def
    by (intro preserves_intro; simp add: output_event_def split: task.split)+
  have waits: "preserves ?P (shell_wait_step E j h session sw)" "preserves ?P (exec_wait_step E j h e to ew)"
    "preserves ?P (exec_timer_step E j e to ew)" if "j \<noteq> k" for h session sw e to ew
    using that unfolding shell_wait_step_def exec_wait_step_def exec_timer_step_def exec_saw_def set_task_def
    by (cases sw; cases ew; auto intro!: preserves_intro simp: blocked_def)+
  have closing: "is_closing s" and k: "j = k \<Longrightarrow> \<exists>session. ch_task (ag_children s ! j) = ShellTask session ShellWaitHolds \<and> ch_status (ag_children s ! j) = None"
    using assms(1) by (auto simp: blocked_def stuck_def is_closing_def)
  have upd: "?P (upd_child j f s)" if "preserves ?P (modifyE (upd_child j f))" for f
    using preservesD [OF that assms(1)] by (simp add: modifyE_def)
  show ?thesis
    using assms(3-5) k closing upd [OF blocked_upd_pipe] preservesD [OF out(1) assms(1)] preservesD [OF out(2) assms(1)]
      preservesD [OF waits(1) assms(1)] preservesD [OF waits(2) assms(1)] preservesD [OF waits(3) assms(1)]
    by (cases a; cases "j = k") (auto simp: Let_def wait_ready_def intro!: upd preserves_intro split: if_splits task.splits option.splits shell_wait.splits)
qed

text \<open>
  C35: Closing a shell that does not end by itself blocks the guest agent. The task that waits for
  the shell holds the lock that closing needs to signal it, so once that task runs, a request
  to close the shell, or to shut down while it is open, neither ends the shell nor returns:
  whatever happens next, as long as the shell itself does not exit, it keeps running, the
  request stays unanswered, and no later request is answered either.
\<close>

theorem closing_shell_blocks_agent:
  fixes s :: "'z agent_state_scheme"
  assumes "ag_handler s = Closing i (k # ks) ph stop" "k < length (ag_children s)"
    and "ch_task (ag_children s ! k) = ShellTask session ShellWaitHolds" "ch_status (ag_children s ! k) = None"
    and run: "agent_run E W c as s = Some t" and "\<forall>st. ChildExits k st \<notin> set as"
  shows "(\<exists>ph'. ag_handler t = Closing i (k # ks) ph' stop) \<and> ch_status (ag_children t ! k) = None \<and>
    (\<exists>evs. ag_out t = ag_out s @ evs \<and> (\<forall>ev \<in> set evs. reply_to ev = None))"
proof -
  have "blocked i k ks stop (ag_out s) t"
  proof (rule agent_run_invariant [OF run])
    show "blocked i k ks stop (ag_out s) s" using assms by (auto simp: blocked_def stuck_def quiet_since_def)
  next
    fix a and u v :: "'z agent_state_scheme"
    assume a: "a \<in> set as" "blocked i k ks stop (ag_out s) u" "agent_act E W c a u = Some v"
    show "blocked i k ks stop (ag_out s) v"
    proof (cases "action_child a")
      case None
      with a show ?thesis
        by - (cases a; auto simp: agent_act_def when_serving_def blocked_def stuck_def quiet_since_def close_ready_def lock_free_def
            split: if_splits close_phase.splits)
    next
      case (Some j)
      with a assms(6) show ?thesis by (auto simp: agent_act_def intro: blocked_child_act split: if_splits)
    qed
  qed
  then show ?thesis by (auto simp: blocked_def stuck_def quiet_since_def)
qed


section \<open>A guest to try it on\<close>

definition quiet_guest :: guest_env where
  "quiet_guest = \<lparr>clock_at = clock_at quiet_env, uuid_at = uuid_at quiet_env, fault_at = fault_at quiet_env, real_dir_at = real_dir_at quiet_env, torn_disk_at = torn_disk_at quiet_env,
     uuid_string = uuid_string quiet_env, uuid_simple = uuid_simple quiet_env, sha256 = sha256 quiet_env, kept_at = kept_at quiet_env, mkfs_ext4 = mkfs_ext4 quiet_env, tool_at = tool_at quiet_env, tool_effect_at = tool_effect_at quiet_env, euid = euid quiet_env,
     write_cut_at = (\<lambda>_. 0), keep_at = (\<lambda>_ _. False), proc_stat_at = (\<lambda>_. []), meminfo_at = (\<lambda>_. []), proc_names_at = (\<lambda>_. []),
     statvfs_at = (\<lambda>_. \<lparr>f_blocks = 0, f_bavail = 0, f_frsize = 0\<rparr>), parallelism = None, ge_arch = X86_64, ge_nr = (\<lambda>_. 41)\<rparr>"

lemma agent_wire_inverse: "b64_inverse demo_wire"
proof -
  have "unat b mod 256 = unat b" for b :: u8
    using unsigned_less [of b, where ?'a = nat] by simp
  then show ?thesis by (simp add: b64_inverse_def demo_wire_def map_idI)
qed

definition fresh_guest :: agent_state where
  "fresh_guest = agent_new_connection (gfs demo_fs) 0"

definition shell_opened :: agent_state where
  "shell_opened = the (agent_run quiet_guest demo_wire default_boot_config
     [Request (GOpenShell ''1'' 7 default_shell_request), WaitProceeds 0, Request (GCloseShell ''2'' 7)] fresh_guest)"


theorem guest_processes_confined_witness:
  "agent_run quiet_guest demo_wire default_boot_config [Request (GOpenShell ''1'' 7 default_shell_request)] fresh_guest \<noteq> None \<and>
   pr_uid (ch_process (ag_children (the (agent_run quiet_guest demo_wire default_boot_config
     [Request (GOpenShell ''1'' 7 default_shell_request)] fresh_guest)) ! 0)) = 65534"
proof -
  let ?r = "agent_run quiet_guest demo_wire default_boot_config [Request (GOpenShell ''1'' 7 default_shell_request)] (agent_new_connection (gfs demo_fs) 0)"
  have "map_option (\<lambda>t. length (ag_children t)) ?r = Some 1" by code_simp
  then obtain t where t: "?r = Some t" "length (ag_children t) = 1" by auto
  then have "ag_children t ! 0 \<in> set (ag_children t)" by simp
  from guest_processes_confined [OF t(1) this] t show ?thesis by (simp add: Let_def fresh_guest_def default_boot_config_def)
qed

theorem host_guest_file_roundtrip_witness:
  "\<exists>t u f. handle_guest_request quiet_guest demo_wire default_boot_config
        (GWriteFile ''1'' ''a/new'' (encode_bytes demo_wire [1, 2, 3]) True) fresh_guest = (Inr (), t) \<and>
     handle_guest_request quiet_guest demo_wire default_boot_config (GReadFile ''2'' ''a/new'' 2) t = (Inr (), u) \<and>
     ag_out u = [ready_event, EvAck ''1'', EvFileRead ''2'' f] \<and>
     into_read_file demo_wire f = Inr \<lparr>rfr_path = ''a/new'', rfr_data = [1, 2], rfr_truncated = True\<rparr>"
proof -
  let ?w = "handle_guest_request quiet_guest demo_wire default_boot_config (GWriteFile ''1'' ''a/new'' (encode_bytes demo_wire [1, 2, 3]) True) fresh_guest"
  let ?r = "handle_guest_request quiet_guest demo_wire default_boot_config (GReadFile ''2'' ''a/new'' 2) (snd ?w)"
  have "fst ?w = Inr ()" "ag_out (snd ?w) = ag_out fresh_guest @ [EvAck ''1'']" "fst ?r = Inr ()" and out: "ag_out fresh_guest = [ready_event]"
    by code_simp+
  then obtain t u where t: "?w = (Inr (), t)" "ag_out t = ag_out fresh_guest @ [EvAck ''1'']"
    and u: "handle_guest_request quiet_guest demo_wire default_boot_config (GReadFile ''2'' ''a/new'' 2) t = (Inr (), u)"
    by (metis prod.collapse)
  have "(2 :: u64) \<le> MAX_READ_FILE_BYTES" "fault_at quiet_guest n = None" for n
    by (simp_all add: MAX_READ_FILE_BYTES_def quiet_guest_def quiet_env_def)
  with host_guest_file_roundtrip [OF agent_wire_inverse _ t u] obtain f where "ag_out u = ag_out t @ [EvFileRead ''2'' f]"
    "into_read_file demo_wire f = Inr \<lparr>rfr_path = ''a/new'', rfr_data = [1, 2], rfr_truncated = True\<rparr>" by auto
  with t u out show ?thesis by auto
qed

theorem closing_shell_blocks_agent_witness:
  "(\<exists>ph. ag_handler shell_opened = Closing ''2'' [0] ph False) \<and>
   (\<exists>ph. ag_handler (the (agent_run quiet_guest demo_wire default_boot_config [ChildWrites 0 Stdout [36], OutputRead 0 Stdout 1] shell_opened)) =
      Closing ''2'' [0] ph False)"
proof -
  let ?as = "[ChildWrites 0 Stdout [36], OutputRead 0 Stdout 1]"
  have s: "ag_handler shell_opened = Closing ''2'' [0] CloseTerm False" "0 < length (ag_children shell_opened)"
    "ch_task (ag_children shell_opened ! 0) = ShellTask 7 ShellWaitHolds" "ch_status (ag_children shell_opened ! 0) = None"
    by code_simp+
  have "agent_run quiet_guest demo_wire default_boot_config ?as shell_opened \<noteq> None" by code_simp
  then obtain t where t: "agent_run quiet_guest demo_wire default_boot_config ?as shell_opened = Some t" by auto
  from closing_shell_blocks_agent [OF s t] s t show ?thesis by auto
qed

end
