(* ===== verification/Guest_Exec_Properties.thy ===== *)
theory Guest_Exec_Properties
  imports Guest_Agent_Properties
begin

text \<open>
  The life of a command in the guest, over every interleaving of its own tasks with those of
  other commands and shells and with the requests of the host: its output reaches the wire
  complete, in order and exactly once, its exit is reported once, after both of its output
  streams have ended, and says truthfully how it ended.
\<close>

section \<open>What the wire says of a command\<close>

fun event_exec :: "guest_event \<Rightarrow> uuid option" where
  "event_exec (EvExecOutput e _ _) = Some e"
| "event_exec (EvExecExit e _) = Some e"
| "event_exec _ = None"

text \<open>The bytes the host decodes from the output events of a command on one stream, and the exits it reads.\<close>

fun decoded :: "'w wire_scheme \<Rightarrow> string \<Rightarrow> u8 list" where
  "decoded W d = (case b64_decode W d of Inr b \<Rightarrow> b | Inl _ \<Rightarrow> [])"

fun payload :: "'w wire_scheme \<Rightarrow> uuid \<Rightarrow> output_stream \<Rightarrow> guest_event list \<Rightarrow> u8 list" where
  "payload W e o1 [] = []"
| "payload W e o1 (EvExecOutput e' o' d # evs) = (if e' = e \<and> o' = o1 then decoded W d else []) @ payload W e o1 evs"
| "payload W e o1 (_ # evs) = payload W e o1 evs"

fun exits :: "uuid \<Rightarrow> guest_event list \<Rightarrow> exec_exit list" where
  "exits e [] = []"
| "exits e (EvExecExit e' x # evs) = (if e' = e then [x] else []) @ exits e evs"
| "exits e (_ # evs) = exits e evs"

lemma payload_append [simp]: "payload W e o1 (xs @ ys) = payload W e o1 xs @ payload W e o1 ys"
  by (induction W e o1 xs rule: payload.induct) auto

lemma exits_append [simp]: "exits e (xs @ ys) = exits e xs @ exits e ys"
  by (induction e xs rule: exits.induct) auto

lemma other_event [simp]: "event_exec ev \<noteq> Some e \<Longrightarrow> payload W e o1 [ev] = []" "event_exec ev \<noteq> Some e \<Longrightarrow> exits e [ev] = []"
  by (cases ev; auto)+

lemma other_events: "\<forall>ev \<in> set out. event_exec ev \<noteq> Some e \<Longrightarrow> payload W e o1 out = [] \<and> exits e out = []"
proof (induction out rule: rev_induct)
  case (snoc ev out)
  then show ?case by simp
qed simp

text \<open>Nothing is said of a command after its exit.\<close>

definition sealed :: "guest_event list \<Rightarrow> bool" where
  "sealed out \<longleftrightarrow> (\<forall>xs e x ys. out = xs @ EvExecExit e x # ys \<longrightarrow> Some e \<notin> event_exec ` set ys)"

lemma sealedD: "sealed out \<Longrightarrow> out = xs @ EvExecExit e x # ys \<Longrightarrow> Some e \<notin> event_exec ` set ys"
  unfolding sealed_def by blast

lemma exits_Nil_iff: "exits e out = [] \<longleftrightarrow> (\<forall>x. EvExecExit e x \<notin> set out)"
  by (induction e out rule: exits.induct) auto

lemma sealed_snoc: "sealed (out @ [ev]) \<longleftrightarrow> sealed out \<and> (\<forall>e. event_exec ev = Some e \<longrightarrow> exits e out = [])"
proof
  assume s: "sealed (out @ [ev])"
  have "exits e out = []" if "event_exec ev = Some e" for e
    unfolding exits_Nil_iff
  proof (intro allI notI)
    fix x assume "EvExecExit e x \<in> set out"
    then obtain xs ys where "out = xs @ EvExecExit e x # ys" by (meson split_list)
    then have "Some e \<notin> event_exec ` set (ys @ [ev])" by (intro sealedD [OF s]) simp
    with that show False by simp
  qed
  moreover have "sealed out" unfolding sealed_def
  proof (intro allI impI)
    fix xs e x ys assume "out = xs @ EvExecExit e x # ys"
    then have "Some e \<notin> event_exec ` set (ys @ [ev])" by (intro sealedD [OF s]) simp
    then show "Some e \<notin> event_exec ` set ys" by auto
  qed
  ultimately show "sealed out \<and> (\<forall>e. event_exec ev = Some e \<longrightarrow> exits e out = [])" by blast
next
  assume s: "sealed out \<and> (\<forall>e. event_exec ev = Some e \<longrightarrow> exits e out = [])"
  show "sealed (out @ [ev])" unfolding sealed_def
  proof (intro allI impI)
    fix xs e x ys assume eq: "out @ [ev] = xs @ EvExecExit e x # ys"
    show "Some e \<notin> event_exec ` set ys"
    proof (cases ys rule: rev_cases)
      case (snoc zs z)
      with eq have out: "out = xs @ EvExecExit e x # zs" "z = ev" by (auto simp flip: append_assoc append_Cons)
      then have "Some e \<notin> event_exec ` set zs" "exits e out \<noteq> []" using s by (auto dest: sealedD)
      moreover have "event_exec ev \<noteq> Some e" using s \<open>exits e out \<noteq> []\<close> by blast
      ultimately show ?thesis using out snoc by (metis image_eqI image_insert insert_iff list.simps(15) rotate1.simps(2) set_rotate1)
    qed simp
  qed
qed

section \<open>The invariant\<close>

text \<open>
  A stream: what was read of it is what the wire says, and it is read on until its writers are
  gone and nothing is left.
\<close>

definition stream_ok :: "'w wire_scheme \<Rightarrow> guest_event list \<Rightarrow> uuid \<Rightarrow> output_stream \<Rightarrow> pipe \<Rightarrow> bool" where
  "stream_ok W out e o1 p \<longleftrightarrow> pi_read p \<le> length (pi_written p) \<and> payload W e o1 out = take (pi_read p) (pi_written p) \<and>
     (\<not> pi_reading p \<longrightarrow> \<not> pi_open p \<and> pi_read p = length (pi_written p))"

text \<open>The task of a command: how its end was seen.\<close>

definition end_ok :: "int option option \<Rightarrow> u64 option \<Rightarrow> exec_exit \<Rightarrow> bool" where
  "end_ok st to x \<longleftrightarrow> st \<noteq> None \<and> (x = exec_result st \<or> to \<noteq> None \<and> x \<in> {TimeoutExit, Killed})"

definition wait_ok :: "child \<Rightarrow> u64 option \<Rightarrow> exec_wait \<Rightarrow> bool" where
  "wait_ok h to w \<longleftrightarrow> (case w of
     ExecWaits \<Rightarrow> True
   | ExecSaw x \<Rightarrow> end_ok (ch_status h) to x
   | ExecReported x \<Rightarrow> end_ok (ch_status h) to x \<and> \<not> pi_reading (ch_out h) \<and> \<not> pi_reading (ch_err h)
   | _ \<Rightarrow> to \<noteq> None)"

definition child_ok :: "'w wire_scheme \<Rightarrow> guest_event list \<Rightarrow> child \<Rightarrow> bool" where
  "child_ok W out h \<longleftrightarrow> (case ch_task h of ShellTask _ _ \<Rightarrow> True
     | ExecTask e to w \<Rightarrow> stream_ok W out e Stdout (ch_out h) \<and> stream_ok W out e Stderr (ch_err h) \<and> wait_ok h to w \<and>
         exits e out = (case w of ExecReported x \<Rightarrow> [x] | _ \<Rightarrow> []))"

fun task_exec :: "task \<Rightarrow> uuid option" where
  "task_exec (ExecTask e _ _) = Some e"
| "task_exec (ShellTask _ _) = None"

definition exec_ids :: "child list \<Rightarrow> uuid list" where
  "exec_ids hs = List.map_filter (\<lambda>h. task_exec (ch_task h)) hs"

definition exec_inv :: "'w wire_scheme \<Rightarrow> uuid set \<Rightarrow> child list \<Rightarrow> guest_event list \<Rightarrow> bool" where
  "exec_inv W U hs out \<longleftrightarrow> (\<forall>h \<in> set hs. child_ok W out h) \<and> distinct (exec_ids hs) \<and> set (exec_ids hs) \<subseteq> U \<and>
     (\<forall>ev \<in> set out. \<forall>e. event_exec ev = Some e \<longrightarrow> e \<in> set (exec_ids hs)) \<and> sealed out"

lemma exec_ids_simps [simp]: "exec_ids [] = []" "exec_ids (hs @ hs') = exec_ids hs @ exec_ids hs'"
  "exec_ids [h] = (case task_exec (ch_task h) of None \<Rightarrow> [] | Some e \<Rightarrow> [e])"
  by (simp_all add: exec_ids_def List.map_filter_simps map_filter_def split: option.split)

lemma exec_ids_update: "k < length hs \<Longrightarrow> task_exec (ch_task h) = task_exec (ch_task (hs ! k)) \<Longrightarrow> exec_ids (hs[k := h]) = exec_ids hs"
  by (subst (2) id_take_nth_drop [of k hs], simp, subst upd_conv_take_nth_drop, simp)
    (simp add: exec_ids_def map_filter_def)

lemma exec_ids_unique:
  assumes "distinct (exec_ids hs)" "i < length hs" "k < length hs" "task_exec (ch_task (hs ! i)) = Some e" "task_exec (ch_task (hs ! k)) = Some e"
  shows "i = k"
  using assms
proof (induction hs arbitrary: i k)
  case (Cons h hs)
  have mem: "e \<in> set (exec_ids hs)" if "j < length hs" "task_exec (ch_task (hs ! j)) = Some e" for j
    using that by (auto simp: exec_ids_def map_filter_def image_iff) (metis nth_mem option.sel option.distinct(1))
  have "exec_ids (h # hs) = exec_ids [h] @ exec_ids hs" using exec_ids_simps(2) [of "[h]" hs] by simp
  with Cons mem show ?case by (cases i; cases k) (auto split: option.splits)
qed simp

lemma child_ok_other: "(\<And>e. task_exec (ch_task h) = Some e \<Longrightarrow> event_exec ev \<noteq> Some e) \<Longrightarrow> child_ok W (out @ [ev]) h = child_ok W out h"
  by (simp add: child_ok_def stream_ok_def split: task.split)

lemma exec_inv_mono: "exec_inv W U hs out \<Longrightarrow> U \<subseteq> U' \<Longrightarrow> exec_inv W U' hs out"
  by (auto simp: exec_inv_def)

lemma exec_inv_quiet: "exec_inv W U hs out \<Longrightarrow> event_exec ev = None \<Longrightarrow> exec_inv W U hs (out @ [ev])"
  by (auto simp: exec_inv_def child_ok_other sealed_snoc)

lemma exec_inv_upd:
  assumes "exec_inv W U hs out" "k < length hs" "task_exec (ch_task h) = task_exec (ch_task (hs ! k))" "child_ok W out h"
  shows "exec_inv W U (hs[k := h]) out"
  using assms set_update_subset_insert [of hs k h] by (fastforce simp: exec_inv_def exec_ids_update)

lemma exec_inv_say:
  assumes inv: "exec_inv W U hs out" and k: "k < length hs" "task_exec (ch_task (hs ! k)) = Some e" "event_exec ev = Some e" "exits e out = []"
    and h: "task_exec (ch_task h) = Some e" "child_ok W (out @ [ev]) h"
  shows "exec_inv W U (hs[k := h]) (out @ [ev])"
proof -
  have "child_ok W (out @ [ev]) (hs[k := h] ! j)" if "j < length hs" for j
  proof (cases "j = k")
    case False
    then have "task_exec (ch_task (hs ! j)) \<noteq> Some e" using exec_ids_unique inv k that by (metis exec_inv_def)
    moreover have "child_ok W out (hs ! j)" using inv that by (simp add: exec_inv_def)
    ultimately show ?thesis using False k(3) by (subst child_ok_other) auto
  qed (use h that in simp)
  moreover have "e \<in> set (exec_ids hs)"
    using k(1,2) by (auto simp: exec_ids_def map_filter_def image_iff) (metis nth_mem option.sel option.distinct(1))
  ultimately show ?thesis
    using inv k h by (auto simp: exec_inv_def exec_ids_update sealed_snoc in_set_conv_nth)
qed

lemma exec_inv_new:
  assumes inv: "exec_inv W U hs out" and h: "ch_out h = fresh_pipe True" "ch_err h = fresh_pipe b"
    and t: "ch_task h = ShellTask session sw \<or> ch_task h = ExecTask e to ExecWaits \<and> e \<notin> U \<and> e \<in> U' \<and> b" and U: "U \<subseteq> U'"
  shows "exec_inv W U' (hs @ [h]) out"
proof -
  have "payload W e o1 out = [] \<and> exits e out = []" if "e \<notin> U" for e o1
    using inv that by (intro other_events) (auto simp: exec_inv_def)
  then have "child_ok W out h" using t h by (auto simp: child_ok_def stream_ok_def fresh_pipe_def wait_ok_def)
  with inv t U show ?thesis by (auto simp: exec_inv_def)
qed

section \<open>Every action keeps it\<close>

abbreviation execs_ok :: "'w wire_scheme \<Rightarrow> uuid set \<Rightarrow> 'z agent_state_scheme \<Rightarrow> bool" where
  "execs_ok W U s \<equiv> exec_inv W U (ag_children s) (ag_out s)"

lemma execs_ok_free: "counter_free (execs_ok W U :: 'z agent_state_scheme \<Rightarrow> bool)" "files_free (\<lambda>s :: 'z agent_state_scheme. (ag_children s, ag_out s))"
  by (auto simp: files_free_def)

lemma execs_ok_send [preserves_intro]: "event_exec ev = None \<Longrightarrow> preserves (execs_ok W U :: 'z agent_state_scheme \<Rightarrow> bool) (agent_send_event E ev)"
  unfolding agent_send_event_def by (intro preserves_intro execs_ok_free) (simp add: exec_inv_quiet)

text \<open>A change of a child that its part of the invariant does not see, or allows.\<close>

lemma execs_ok_upd:
  assumes "execs_ok W U s" "\<And>h. child_ok W (ag_out s) h \<Longrightarrow> k < length (ag_children s) \<Longrightarrow> h = ag_children s ! k \<Longrightarrow>
      task_exec (ch_task (f h)) = task_exec (ch_task h) \<and> child_ok W (ag_out s) (f h)"
  shows "exec_inv W U (ag_children (upd_child k f s)) (ag_out s)"
proof (cases "k < length (ag_children s)")
  case True
  then have "child_ok W (ag_out s) (ag_children s ! k)" using assms(1) by (simp add: exec_inv_def)
  with True assms show ?thesis by (simp add: upd_child_def exec_inv_upd)
qed (simp add: upd_child_def assms)

lemma execs_ok_modify [preserves_intro]:
  "(\<And>out h. task_exec (ch_task (f h)) = task_exec (ch_task h)) \<Longrightarrow> (\<And>out h. child_ok W out h \<Longrightarrow> child_ok W out (f h)) \<Longrightarrow>
    preserves (execs_ok W U :: 'z agent_state_scheme \<Rightarrow> bool) (modifyE (upd_child k f))"
  by (intro preserves_intro) (auto intro!: execs_ok_upd)

lemma child_ok_simps [simp]: "child_ok W out (h\<lparr>ch_input := d\<rparr>) = child_ok W out h" "child_ok W out (h\<lparr>ch_reaped := r\<rparr>) = child_ok W out h"
  by (simp_all add: child_ok_def wait_ok_def split: task.split exec_wait.split)

lemma child_ok_status: "child_ok W out h \<Longrightarrow> ch_status h = None \<Longrightarrow> child_ok W out (h\<lparr>ch_status := st\<rparr>)"
  by (auto simp: child_ok_def wait_ok_def end_ok_def split: task.split exec_wait.split)

lemma child_ok_kill: "child_ok W out h \<Longrightarrow> child_ok W out (kill_child h)" "task_exec (ch_task (kill_child h)) = task_exec (ch_task h)"
  by (simp_all add: kill_child_def child_ok_status)

lemma execs_ok_calls [preserves_intro]:
  "preserves (execs_ok W U :: 'z agent_state_scheme \<Rightarrow> bool) (send_process_group_signal E k sig)"
  "preserves (execs_ok W U :: 'z agent_state_scheme \<Rightarrow> bool) (kill_and_wait E k)"
  "preserves (execs_ok W U :: 'z agent_state_scheme \<Rightarrow> bool) (write_shell_input E W' k data)"
  "preserves (execs_ok W U :: 'z agent_state_scheme \<Rightarrow> bool) (send_error_event E i target e)"
  unfolding kill_and_wait_def send_process_group_signal_def write_shell_input_def send_error_event_def
  by (intro preserves_intro execs_ok_free; simp add: child_ok_kill)+

lemma execs_ok_close: "preserves (execs_ok W U :: 'z agent_state_scheme \<Rightarrow> bool) (close_step E i ks ph stop)"
  by (cases ks; cases ph) (auto intro!: preserves_intro execs_ok_upd)

lemma execs_ok_answer:
  "preserves (execs_ok W U :: 'z agent_state_scheme \<Rightarrow> bool) m \<Longrightarrow> (\<And>a. event_exec (okk a) = None) \<Longrightarrow>
    preserves (execs_ok W U) (answer E i target okk m)"
  unfolding answer_def by (intro preserves_intro) simp_all

lemma execs_ok_files:
  "keeps (\<lambda>s :: 'z agent_state_scheme. (ag_children s, ag_out s)) m \<Longrightarrow> preserves (execs_ok W U :: 'z agent_state_scheme \<Rightarrow> bool) m"
  using keeps_preserves [of "\<lambda>s :: 'z agent_state_scheme. (ag_children s, ag_out s)" m "\<lambda>(hs, out). exec_inv W U hs out"] by simp

lemmas execs_ok_service = keeps_file_service [OF execs_ok_free(2), THEN execs_ok_files] keeps_runtime_stats [OF files_freeD(1) [OF execs_ok_free(2)], THEN execs_ok_files]

lemma execs_ok_spawn:
  assumes "execs_ok W U s"
  shows "execs_ok W U (snd (spawn E ctx p (ShellTask session sw) s))"
proof -
  have "wp (spawn E ctx p (ShellTask session sw)) (\<lambda>_. execs_ok W U) (\<lambda>_. execs_ok W U) s"
    by (rule wp_spawn) (use assms exec_inv_new in \<open>fastforce+\<close>)
  then show ?thesis by (simp add: wp_snd)
qed

lemma execs_ok_open_shell: "preserves (execs_ok W U :: 'z agent_state_scheme \<Rightarrow> bool) (open_shell E c session req)"
  unfolding open_shell_def open_shell_pty_def
  by (intro preserves_intro execs_ok_free preserves_wpI [of "execs_ok W U" "spawn E ctx p t" for ctx p t])
    (auto simp: wp_snd intro: execs_ok_spawn)

fun request_execs :: "guest_request \<Rightarrow> uuid set" where
  "request_execs (GExec i e req) = {e}"
| "request_execs _ = {}"

lemma execs_ok_request:
  assumes "execs_ok W U (s :: 'z agent_state_scheme)" "request_execs r \<inter> U = {}"
  shows "execs_ok W (U \<union> request_execs r) (snd (handle_guest_request E W' c r s))"
proof (cases "\<exists>i e req. r = GExec i e req")
  case True
  then obtain i e req where r: "r = GExec i e req" by blast
  have "wp (handle_guest_request E W' c r) (\<lambda>_. execs_ok W (U \<union> {e})) (\<lambda>_. execs_ok W (U \<union> {e})) s"
    unfolding r handle_guest_request.simps wp_bindE wp_tryE
    by (rule wp_spawn_exec)
      (use assms r exec_inv_new [OF assms(1), where b = True and e = e and U' = "insert e U", OF _ _ _ subset_insertI] exec_inv_mono [OF assms(1) subset_insertI] in
        \<open>auto simp: wp_simps send_error_event_def exec_inv_quiet intro!: wp_agent_send_event\<close>)
  then show ?thesis by (simp add: wp_snd r)
next
  case False
  then have "preserves (execs_ok W U :: 'z agent_state_scheme \<Rightarrow> bool) (handle_guest_request E W' c r)"
    by (cases r) (auto simp: with_shell_def resize_shell_def intro!: preserves_intro execs_ok_answer execs_ok_service execs_ok_open_shell execs_ok_free)
  from preservesD [OF this assms(1)] False show ?thesis by (cases r) auto
qed

lemma child_ok_pipe:
  assumes "child_ok W out h" "\<And>e. stream_ok W out e o1 (pipe_of o1 h) \<Longrightarrow> stream_ok W out e o1 (f (pipe_of o1 h))"
    and "\<not> pi_reading (pipe_of o1 h) \<Longrightarrow> \<not> pi_reading (f (pipe_of o1 h))"
  shows "child_ok W out (upd_pipe o1 f h)"
  using assms by (cases o1) (auto simp: child_ok_def wait_ok_def pipe_of_def upd_pipe_def split: task.splits exec_wait.splits)

lemma upd_pipe_task [simp]: "task_exec (ch_task (upd_pipe o1 f h)) = task_exec (ch_task h)" "pipe_of o1 (upd_pipe o1 f h) = f (pipe_of o1 h)"
  by (cases o1; simp add: upd_pipe_def pipe_of_def)+

lemma stream_ok_steps:
  "stream_ok W out e o1 p \<Longrightarrow> pi_open p \<Longrightarrow> stream_ok W out e o1 (p\<lparr>pi_written := pi_written p @ d\<rparr>)"
  "stream_ok W out e o1 p \<Longrightarrow> stream_ok W out e o1 (p\<lparr>pi_open := False\<rparr>)"
  "stream_ok W out e o1 p \<Longrightarrow> \<not> pi_open p \<Longrightarrow> pi_read p = length (pi_written p) \<Longrightarrow> stream_ok W out e o1 (p\<lparr>pi_reading := False\<rparr>)"
  by (auto simp: stream_ok_def)

text \<open>One chunk of output, read and sent.\<close>

lemma execs_ok_stream:
  fixes s :: "'z agent_state_scheme"
  assumes "no_faults E" "b64_inverse W" "execs_ok W U s" "k < length (ag_children s)"
    and p: "p = pipe_of o1 (ag_children s ! k)" "pi_reading p" "pi_read p + n \<le> length (pi_written p)"
  shows "execs_ok W U (snd (stream_output E W k o1 n (ag_children s ! k) s))"
proof -
  let ?h = "ag_children s ! k" and ?d = "take n (drop (pi_read p) (pi_written p))"
  let ?f = "upd_pipe o1 (\<lambda>p. p\<lparr>pi_read := pi_read p + n\<rparr>)"
  have ok: "child_ok W (ag_out s) ?h" using assms(3,4) by (simp add: exec_inv_def)
  have inv: "exec_inv W U ((ag_children s)[k := ?f ?h]) (ag_out s @ [output_event W (ch_task ?h) o1 ?d])"
  proof (cases "ch_task ?h")
    case (ShellTask session sw)
    then have "child_ok W (ag_out s) (?f ?h)" by (simp add: child_ok_def)
    then have "exec_inv W U ((ag_children s)[k := ?f ?h]) (ag_out s)" using assms(3,4) by (intro exec_inv_upd) simp_all
    then show ?thesis using ShellTask by (simp add: output_event_def exec_inv_quiet)
  next
    case (ExecTask e to w)
    have read: "payload W e o1 (ag_out s) @ ?d = take (pi_read p + n) (pi_written p)"
      using ok ExecTask p by (cases o1) (auto simp: child_ok_def stream_ok_def pipe_of_def take_add)
    have open_task: "exits e (ag_out s) = []" using ok ExecTask p
      by (cases o1; cases w) (auto simp: child_ok_def wait_ok_def pipe_of_def)
    let ?ev = "EvExecOutput e o1 (encode_bytes W ?d)"
    have "child_ok W (ag_out s @ [?ev]) (?f ?h)"
      using ok ExecTask p read assms(2) by (cases o1; cases w) (auto simp: child_ok_def wait_ok_def stream_ok_def pipe_of_def upd_pipe_def
          encode_bytes_def b64_inverse_def)
    then show ?thesis
      using assms(3,4) ExecTask open_task by (auto simp: output_event_def intro!: exec_inv_say)
  qed
  have "wp (stream_output E W k o1 n ?h) (\<lambda>_. execs_ok W U) (\<lambda>_. execs_ok W U) s"
    using inv assms(1,4) p(1) unfolding stream_output_def
    by (auto simp: wp_simps Let_def upd_child_def intro!: wp_askI wp_agent_send_event)
  then show ?thesis by (simp add: wp_snd)
qed

text \<open>A signal on the way leaves the task of the child where it was.\<close>

definition at_task :: "'w wire_scheme \<Rightarrow> uuid set \<Rightarrow> nat \<Rightarrow> task \<Rightarrow> 'z agent_state_scheme \<Rightarrow> bool" where
  "at_task W U k t s \<longleftrightarrow> execs_ok W U s \<and> k < length (ag_children s) \<and> ch_task (ag_children s ! k) = t"

lemma at_task_free: "counter_free (at_task W U k t :: 'z agent_state_scheme \<Rightarrow> bool)"
  by (rule counter_freeI) (simp add: at_task_def)

lemma at_task_modify: "(\<And>h. ch_task (f h) = ch_task h) \<Longrightarrow> (\<And>out h. child_ok W out h \<Longrightarrow> child_ok W out (f h)) \<Longrightarrow>
    preserves (at_task W U k t :: 'z agent_state_scheme \<Rightarrow> bool) (modifyE (upd_child k f))"
  by (intro preserves_intro) (auto simp: at_task_def intro!: execs_ok_upd, simp_all add: upd_child_def)

lemma at_task_signal [preserves_intro]:
  "preserves (at_task W U k t :: 'z agent_state_scheme \<Rightarrow> bool) (send_process_group_signal E k sig)"
  "preserves (at_task W U k t :: 'z agent_state_scheme \<Rightarrow> bool) (kill_and_wait E k)"
  unfolding kill_and_wait_def send_process_group_signal_def
  by (intro preserves_intro at_task_free at_task_modify; simp add: child_ok_kill)+

lemma at_task_move:
  assumes "at_task W U k (ExecTask e to w) s" "\<And>h. child_ok W (ag_out s) h \<Longrightarrow> h = ag_children s ! k \<Longrightarrow> wait_ok h to w' \<and> (\<forall>x. w \<noteq> ExecReported x \<and> w' \<noteq> ExecReported x)"
  shows "execs_ok W U (upd_child k (\<lambda>h. h\<lparr>ch_reaped := r h, ch_task := ExecTask e to w'\<rparr>) s)"
    "execs_ok W U (set_task k (ExecTask e to w') s)"
proof -
  have "child_ok W (ag_out s) (ag_children s ! k)" using assms(1) by (auto simp: at_task_def exec_inv_def)
  note ok = this assms(2) [OF this refl]
  show "execs_ok W U (upd_child k (\<lambda>h. h\<lparr>ch_reaped := r h, ch_task := ExecTask e to w'\<rparr>) s)" "execs_ok W U (set_task k (ExecTask e to w') s)"
    using assms(1) ok unfolding set_task_def
    by (auto simp: at_task_def child_ok_def wait_ok_def split: exec_wait.splits intro!: execs_ok_upd)
qed

lemma exec_wait_step_ok:
  fixes s :: "'z agent_state_scheme"
  assumes "no_faults E" and t: "at_task W U k (ExecTask e to w) s" and ready: "wait_ready (ag_children s ! k) s"
  shows "execs_ok W U (snd (exec_wait_step E k (ag_children s ! k) e to w s))"
proof -
  let ?h = "ag_children s ! k"
  have ok: "child_ok W (ag_out s) ?h" and k: "k < length (ag_children s)" "ch_task ?h = ExecTask e to w" "execs_ok W U s"
    using t by (auto simp: at_task_def exec_inv_def)
  have saw: "execs_ok W U (snd (exec_saw k e to x s'))" if "end_ok (ch_status ?h) to x" "\<forall>x. w \<noteq> ExecReported x" "s' = s\<lparr>calls := n\<rparr>" for x s' n
    using at_task_move(1) [of W U k e to w s' "ExecSaw x" "\<lambda>_. True"] that t by (auto simp: exec_saw_def modifyE_def wait_ok_def at_task_def)
  show ?thesis
  proof (cases w)
    case ExecWaits
    with ready k have "end_ok (ch_status ?h) to (exec_result (ch_status ?h))" by (auto simp: wait_ready_def end_ok_def)
    with ExecWaits assms(1) show ?thesis
      by (simp add: exec_wait_step_def bindE_def ask_def saw [OF _ _ refl])
  next
    case ExecTermed
    with ready k ok have "end_ok (ch_status ?h) to TimeoutExit" by (auto simp: wait_ready_def end_ok_def child_ok_def wait_ok_def)
    with ExecTermed show ?thesis using saw [of TimeoutExit s "calls s"] by (simp add: exec_wait_step_def)
  next
    case ExecKillWaits
    with ready k ok have "end_ok (ch_status ?h) to Killed" by (auto simp: wait_ready_def end_ok_def child_ok_def wait_ok_def)
    with ExecKillWaits show ?thesis using saw [of Killed s "calls s"] by (simp add: exec_wait_step_def)
  next
    case ExecKills
    with k ok have to: "to \<noteq> None" by (auto simp: child_ok_def wait_ok_def)
    have "wp (seqE (send_process_group_signal E k SIGKILL) (kill_and_wait E k)) (\<lambda>_. at_task W U k (ExecTask e to ExecKills)) (\<lambda>_. execs_ok W U) s"
      using preservesD [OF preserves_seqE [OF at_task_signal(1) at_task_signal(2)], of W U k "ExecTask e to ExecKills" s E SIGKILL E] t ExecKills
      by (auto simp: wp_def at_task_def split: prod.splits sum.splits)
    then have "wp (exec_wait_step E k ?h e to w) (\<lambda>_. execs_ok W U) (\<lambda>_. execs_ok W U) s"
      unfolding exec_wait_step_def ExecKills exec_wait.simps wp_seqE wp_modifyE
      by (rule wp_mono, elim wp_mono) (use to in \<open>auto intro!: at_task_move(2) simp: wait_ok_def\<close>)
    then show ?thesis by (simp add: wp_snd)
  next
    case (ExecSaw x)
    let ?h' = "?h\<lparr>ch_task := ExecTask e to (ExecReported x)\<rparr>"
    have "child_ok W (ag_out s @ [EvExecExit e x]) ?h'" using ok k ready ExecSaw by (auto simp: child_ok_def wait_ok_def stream_ok_def wait_ready_def)
    then have "exec_inv W U ((ag_children s)[k := ?h']) (ag_out s @ [EvExecExit e x])"
      using k ok ExecSaw by (intro exec_inv_say) (auto simp: child_ok_def)
    then have "wp (exec_wait_step E k ?h e to w) (\<lambda>_. execs_ok W U) (\<lambda>_. execs_ok W U) s"
      using k assms(1) unfolding exec_wait_step_def ExecSaw
      by (auto simp: wp_simps set_task_def upd_child_def intro!: wp_agent_send_event)
    then show ?thesis by (simp add: wp_snd)
  next
    case (ExecReported x)
    then show ?thesis using k by (simp add: exec_wait_step_def returnE_def)
  qed
qed

lemma exec_timer_step_ok:
  fixes s :: "'z agent_state_scheme"
  assumes "at_task W U k (ExecTask e (Some ms) w) s" "w \<in> {ExecWaits, ExecTermed}"
  shows "execs_ok W U (snd (exec_timer_step E k e (Some ms) w s))"
proof -
  have move: "execs_ok W U (set_task k (ExecTask e (Some ms) w') s')"
    if "at_task W U k (ExecTask e (Some ms) w) s'" "w' \<in> {ExecTermed, ExecKills}" for w' and s' :: "'z agent_state_scheme"
    by (rule at_task_move(2) [OF that(1)]) (use that(2) assms(2) in \<open>auto simp: wait_ok_def\<close>)
  have "wp (send_process_group_signal E k SIGTERM) (\<lambda>_. at_task W U k (ExecTask e (Some ms) w)) (\<lambda>_. execs_ok W U) s"
    using preservesD [OF at_task_signal(1) assms(1), of E SIGTERM] by (auto simp: wp_def at_task_def split: prod.splits sum.splits)
  then have "wp (exec_timer_step E k e (Some ms) w) (\<lambda>_. execs_ok W U) (\<lambda>_. execs_ok W U) s" if "w = ExecWaits"
    unfolding exec_timer_step_def that exec_wait.simps wp_bindE wp_modifyE by (rule wp_mono) (use that in \<open>auto intro!: move\<close>)
  then show ?thesis using assms move [OF assms(1), of ExecKills] by (auto simp: wp_snd exec_timer_step_def modifyE_def)
qed

lemma shell_wait_step_ok:
  fixes s :: "'z agent_state_scheme"
  assumes "at_task W U k (ShellTask session w) s"
  shows "execs_ok W U (snd (shell_wait_step E k h session w s))"
proof -
  have upd: "exec_inv W U (ag_children (upd_child k (\<lambda>h. h\<lparr>ch_reaped := r h, ch_task := ShellTask session w'\<rparr>) s)) (ag_out s)"
    "exec_inv W U (ag_children (set_task k (ShellTask session w') s)) (ag_out s)" for r w'
    using assms by (auto simp: at_task_def set_task_def child_ok_def intro!: execs_ok_upd)
  have "wp (shell_wait_step E k h session w) (\<lambda>_. execs_ok W U) (\<lambda>_. execs_ok W U) s"
    using upd assms unfolding shell_wait_step_def
    by (cases w) (auto simp: wp_simps set_task_def upd_child_def exec_inv_quiet at_task_def intro!: wp_askI wp_agent_send_event split: if_splits)
  then show ?thesis by (simp add: wp_snd)
qed

lemma execs_ok_child_act:
  fixes s :: "'z agent_state_scheme"
  assumes "no_faults E" "b64_inverse W" "execs_ok W U s" "k < length (ag_children s)" "child_act E W a k (ag_children s ! k) s = Some t"
  shows "execs_ok W U t"
proof -
  have task: "at_task W U k (ch_task (ag_children s ! k)) s" using assms by (simp add: at_task_def)
  show ?thesis using assms
  proof (cases a)
    case (WaitProceeds j)
    with assms task show ?thesis by (auto intro: exec_wait_step_ok shell_wait_step_ok split: if_splits task.splits)
  next
    case (ExecTimer j)
    with assms task show ?thesis by (auto intro: exec_timer_step_ok split: if_splits task.splits option.splits)
  next
    case (OutputRead j o1 n)
    with assms show ?thesis by (auto simp: Let_def intro!: execs_ok_stream split: if_splits)
  next
    case (OutputEnds j o1)
    with assms show ?thesis
      by (auto simp: Let_def stop_reading_pipe_def modifyE_def intro!: execs_ok_upd child_ok_pipe stream_ok_steps split: if_splits)
  qed (auto intro!: execs_ok_upd child_ok_pipe child_ok_status stream_ok_steps split: if_splits)
qed

interpretation exec_agent: agent_invariant "\<lambda>s :: 'z agent_state_scheme. no_faults E \<and> b64_inverse W \<longrightarrow> execs_ok W U s" E W c
    "\<lambda>r _. request_execs r = {}"
  for E :: "'e guest_env_scheme" and W :: "'w wire_scheme" and c U
proof unfold_locales
  fix s :: "'z agent_state_scheme" and r
  assume "no_faults E \<and> b64_inverse W \<longrightarrow> execs_ok W U s" "request_execs r = {}"
  then show "no_faults E \<and> b64_inverse W \<longrightarrow> execs_ok W U (snd (handle_guest_request E W c r s))"
    using execs_ok_request [of W U s r E W c] by simp
next
  show "preserves (\<lambda>s :: 'z agent_state_scheme. no_faults E \<and> b64_inverse W \<longrightarrow> execs_ok W U s) (close_step E i ks ph stop)" for i ks ph stop
    using execs_ok_close [of W U E i ks ph stop] unfolding preserves_def by blast
qed (auto intro: execs_ok_child_act)

fun action_execs :: "action \<Rightarrow> uuid list" where
  "action_execs (Request (GExec i e req)) = [e]"
| "action_execs _ = []"

lemma execs_ok_act:
  fixes s :: "'z agent_state_scheme"
  assumes "no_faults E" "b64_inverse W" "execs_ok W U s" "set (action_execs a) \<inter> U = {}" "agent_act E W c a s = Some t"
  shows "execs_ok W (U \<union> set (action_execs a)) t"
proof (cases "\<exists>i e req. a = Request (GExec i e req)")
  case True
  then obtain i e req where r: "a = Request (GExec i e req)" by blast
  then have "execs_ok W (U \<union> {e}) (snd (handle_guest_request E W c (GExec i e req) s))"
    using execs_ok_request [OF assms(3), of "GExec i e req"] assms(4) by simp
  with assms(5) r show ?thesis
    by (auto simp: agent_act_def when_serving_def serve_def split: if_splits prod.splits sum.splits)
next
  case False
  then have none: "action_execs a = []" "\<And>r. a = Request r \<Longrightarrow> request_execs r = {}"
    by (cases a rule: action_execs.cases; auto)+
  with exec_agent.act [of E W U s a c t] assms show ?thesis by simp
qed

lemma execs_ok_run:
  fixes s :: "'z agent_state_scheme"
  assumes "no_faults E" "b64_inverse W" "execs_ok W U s" "agent_run E W c as s = Some t" "distinct (concat (map action_execs as))"
    "set (concat (map action_execs as)) \<inter> U = {}"
  shows "\<exists>U'. execs_ok W U' t"
  using assms(3-)
proof (induction as arbitrary: s U)
  case (Cons a as)
  from Cons.prems obtain u where u: "agent_act E W c a s = Some u" "agent_run E W c as u = Some t" by (auto split: option.splits)
  have "execs_ok W (U \<union> set (action_execs a)) u" using Cons.prems u by (intro execs_ok_act [OF assms(1,2)]) auto
  from Cons.IH [OF this u(2)] Cons.prems show ?case by auto
qed auto

text \<open>
  C16: When the guest reports the exit of a command, its output is complete. On a host without
  failing calls and with fresh command ids, whatever the interleaving: the exit of a command is
  followed by nothing more about it, both of its output streams had ended before, the host has
  decoded from the events before the exit exactly what was written to each, and the reported
  exit is that of the process, or says, for a command with a timeout only, that it was cut off.
\<close>

theorem exec_output_complete:
  assumes "no_faults E" "b64_inverse W" "distinct (concat (map action_execs as))"
    and "agent_run E W c as (agent_new_connection fs n) = Some t" "ag_out t = before @ EvExecExit e x # after"
  shows "\<exists>h to. h \<in> set (ag_children t) \<and> ch_task h = ExecTask e to (ExecReported x) \<and>
     (\<forall>o1. \<not> pi_open (pipe_of o1 h) \<and> payload W e o1 before = pi_written (pipe_of o1 h)) \<and>
     Some e \<notin> event_exec ` set after \<and> ch_status h \<noteq> None \<and>
     (x = exec_result (ch_status h) \<or> to \<noteq> None \<and> x \<in> {TimeoutExit, Killed})"
proof -
  have "execs_ok W {} (agent_new_connection fs n)" by (auto simp: exec_inv_def agent_new_connection_def sealed_def ready_event_def Cons_eq_append_conv)
  from execs_ok_run [OF assms(1,2) this assms(4,3)] obtain U where inv: "execs_ok W U t" by auto
  then have sealed: "Some e \<notin> event_exec ` set after" using assms(5) by (auto simp: exec_inv_def dest: sealedD)
  have "e \<in> set (exec_ids (ag_children t))" using inv assms(5) by (auto simp: exec_inv_def)
  then obtain h where h: "h \<in> set (ag_children t)" "task_exec (ch_task h) = Some e" by (auto simp: exec_ids_def map_filter_def)
  then obtain to w where w: "ch_task h = ExecTask e to w" by (cases "ch_task h") auto
  have ok: "child_ok W (ag_out t) h" using inv h by (auto simp: exec_inv_def)
  then have "exits e (ag_out t) = (case w of ExecReported x \<Rightarrow> [x] | _ \<Rightarrow> [])" using w by (simp add: child_ok_def)
  then have "w = ExecReported x" using assms(5) by (auto split: exec_wait.splits simp: append_eq_Cons_conv)
  moreover have "payload W e o1 after = []" for o1 using sealed by (intro other_events [THEN conjunct1]) (auto simp: image_iff)
  ultimately show ?thesis
    using h w ok sealed assms(5) by (intro exI [of _ h] exI [of _ to])
      (auto simp: child_ok_def wait_ok_def end_ok_def stream_ok_def pipe_of_def split: output_stream.split)
qed

text \<open>A command that writes two bytes in two reads, ends and is reported.\<close>

definition demo_exec :: "action list" where
  "demo_exec = [Request (GExec ''1'' 9 (exec_shell ''echo'')), ChildWrites 0 Stdout [104, 105], OutputRead 0 Stdout 1,
     ChildExits 0 (Some 0), WritersClose 0 Stdout, WritersClose 0 Stderr, WaitProceeds 0, OutputRead 0 Stdout 1,
     OutputEnds 0 Stderr, OutputEnds 0 Stdout, WaitProceeds 0]"

theorem exec_output_complete_witness:
  "\<exists>t before. agent_run quiet_guest demo_wire default_boot_config demo_exec fresh_guest = Some t \<and>
     ag_out t = before @ [EvExecExit 9 Success] \<and> payload demo_wire 9 Stdout before = [104, 105]"
proof -
  let ?r = "agent_run quiet_guest demo_wire default_boot_config demo_exec fresh_guest"
  have "map_option (\<lambda>t. (ag_out t, map (\<lambda>h. pi_written (ch_out h)) (ag_children t))) ?r =
    Some ([ready_event, EvExecOutput 9 Stdout ''h'', EvExecOutput 9 Stdout ''i'', EvExecExit 9 Success], [[104, 105]])" by code_simp
  then obtain t where t: "?r = Some t" "map (\<lambda>h. pi_written (ch_out h)) (ag_children t) = [[104, 105]]"
    "ag_out t = [ready_event, EvExecOutput 9 Stdout ''h'', EvExecOutput 9 Stdout ''i''] @ EvExecExit 9 Success # []" by auto
  have "no_faults quiet_guest" by (simp add: no_faults_def quiet_guest_def quiet_env_def)
  moreover have "distinct (concat (map action_execs demo_exec))" by code_simp
  ultimately obtain h where "h \<in> set (ag_children t)"
    "payload demo_wire 9 Stdout [ready_event, EvExecOutput 9 Stdout ''h'', EvExecOutput 9 Stdout ''i''] = pi_written (ch_out h)"
    using exec_output_complete [OF _ agent_wire_inverse _ t(1) [unfolded fresh_guest_def] t(3)]
    by (auto simp: pipe_of_def split: output_stream.splits)
  with t show ?thesis by (fastforce simp del: payload.simps)
qed

end
