(* ===== verification/Auth_Refinement.thy ===== *)
theory Auth_Refinement
  imports Auth
begin

text \<open>
  What the admin registry promises, as an abstract machine: a finite map from the UUIDs of the
  active admins to the hashes of their tokens. The store of \<open>src/auth.rs\<close>, with its list of
  records, its file and its failing calls, refines it: every operation that returns does exactly
  what the machine does, and one that fails has done nothing, all of it, or torn the file.
\<close>

section \<open>The abstract machine\<close>

datatype admin_result = RBool bool | RBundle uuid string string | RUnit

fun admin_spec :: "(string \<Rightarrow> string) \<Rightarrow> admin_op \<Rightarrow> (uuid \<rightharpoonup> string) \<Rightarrow> admin_result \<Rightarrow> (uuid \<rightharpoonup> string) \<Rightarrow> bool" where
  "admin_spec h (AdminBootstrap c) M r M' \<longleftrightarrow>
     (if M = Map.empty then r = RBool True \<and> M' = [cred_admin_uuid c \<mapsto> h (cred_admin_token c)]
      else r = RBool False \<and> M' = M)"
| "admin_spec h (AdminAuthenticate u t) M r M' \<longleftrightarrow> r = RBool (M u = Some (h t)) \<and> M' = M"
| "admin_spec h (AdminAdd e) M r M' \<longleftrightarrow> (\<exists>u t. r = RBundle u t e \<and> u \<notin> dom M \<and> M' = M(u \<mapsto> h t))"
| "admin_spec h (AdminRemove u) M r M' \<longleftrightarrow> r = RUnit \<and> u \<in> dom M \<and> dom M \<noteq> {u} \<and> M' = M(u := None)"

section \<open>The store\<close>

definition mapE1 :: "('a \<Rightarrow> 'b) \<Rightarrow> ('s, 'a) io \<Rightarrow> ('s, 'b) io" where
  "mapE1 f m = bindE m (\<lambda>a. returnE (f a))"

fun admin_run :: "'e env_scheme \<Rightarrow> string \<Rightarrow> admin_op \<Rightarrow> ('z auth_files_scheme, admin_result) io" where
  "admin_run E path (AdminBootstrap c) = mapE1 RBool (admin_bootstrap E path c)"
| "admin_run E path (AdminAuthenticate u t) = mapE1 RBool (admin_authenticate E path u t)"
| "admin_run E path (AdminAdd e) =
     mapE1 (\<lambda>b. RBundle (bundle_admin_uuid b) (bundle_admin_token b) (bundle_admin_endpoint b)) (admin_add_admin E path e)"
| "admin_run E path (AdminRemove u) = mapE1 (\<lambda>_. RUnit) (admin_remove_admin E path u)"

definition active_map :: "admin_record list \<Rightarrow> uuid \<rightharpoonup> string" where
  "active_map rs = map_of (map (\<lambda>r. (adm_uuid r, adm_token_hash r)) (filter adm_active rs))"

text \<open>The map a readable registry stands for; a torn one stands for nothing.\<close>

definition abs_admins :: "'z auth_files_scheme \<Rightarrow> (uuid \<rightharpoonup> string) option" where
  "abs_admins s = map_option active_map (admin_records s)"

lemma active_map_Cons: "active_map (r # rs) = (if adm_active r then (active_map rs)(adm_uuid r \<mapsto> adm_token_hash r) else active_map rs)"
  by (simp add: active_map_def)

lemma dom_active_map: "dom (active_map rs) = set (active_uuids rs)"
  by (simp add: active_map_def active_uuids_def dom_map_of_conv_image_fst image_image)

lemma active_map_matches:
  "distinct (active_uuids rs) \<Longrightarrow> list_ex (admin_matches E u t) rs \<longleftrightarrow> active_map rs u = Some (hash_token E t)"
proof (induction rs)
  case (Cons r rs)
  have "active_map rs u = None" if "u \<notin> set (active_uuids rs)" using that dom_active_map [of rs] by blast
  with Cons show ?case by (auto simp: active_map_Cons active_uuids_Cons admin_matches_def split: if_splits)
qed (simp add: active_map_def)

lemma active_map_touch: "active_map (update_first p (\<lambda>r. r\<lparr>adm_updated_at_ms := n\<rparr>) rs) = active_map rs"
  by (induction rs) (auto simp: active_map_Cons)

lemma active_map_append:
  "adm_active r \<Longrightarrow> adm_uuid r \<notin> set (active_uuids rs) \<Longrightarrow> active_map (rs @ [r]) = (active_map rs)(adm_uuid r \<mapsto> adm_token_hash r)"
  by (induction rs) (auto simp: active_map_Cons active_uuids_Cons active_map_def fun_upd_twist)

lemma active_map_none: "\<not> list_ex adm_active rs \<longleftrightarrow> active_map rs = Map.empty"
  by (auto simp: active_map_def list_ex_iff filter_empty_conv)

lemma active_map_first: "\<not> list_ex adm_active rs \<Longrightarrow> adm_active r \<Longrightarrow> active_map (rs @ [r]) = [adm_uuid r \<mapsto> adm_token_hash r]"
  using active_map_append [of r rs] by (simp add: none_active_uuids active_map_none)

lemma active_map_remove:
  "distinct (active_uuids rs) \<Longrightarrow>
   active_map (update_first (\<lambda>r. adm_uuid r = u \<and> adm_active r) (\<lambda>r. r\<lparr>adm_active := False, adm_updated_at_ms := n\<rparr>) rs)
     = (active_map rs)(u := None)"
proof (induction rs)
  case (Cons r rs)
  have "active_map rs u = None" if "u \<notin> set (active_uuids rs)" using that dom_active_map [of rs] by blast
  with Cons show ?case by (auto simp: active_map_Cons active_uuids_Cons fun_eq_iff)
qed (simp add: active_map_def fun_eq_iff)

lemma active_twice:
  assumes "distinct (active_uuids rs)" "\<not> length (filter adm_active rs) \<le> 1"
  shows "dom (active_map rs) \<noteq> {u}"
proof
  assume "dom (active_map rs) = {u}"
  then have "card (set (active_uuids rs)) = 1" by (simp add: dom_active_map)
  then have "length (active_uuids rs) = 1" by (simp only: distinct_card [OF assms(1)])
  then show False using assms(2) by (simp add: active_uuids_def)
qed

section \<open>Refinement\<close>

text \<open>What a failed operation may have left behind.\<close>

definition crashed :: "(string \<Rightarrow> string) \<Rightarrow> admin_op \<Rightarrow> (uuid \<rightharpoonup> string) \<Rightarrow> (uuid \<rightharpoonup> string) option \<Rightarrow> bool" where
  "crashed h op M A \<longleftrightarrow> A = None \<or> A = Some M \<or> (\<exists>r M'. A = Some M' \<and> admin_spec h op M r M')"

lemma crashed_simps: "crashed h op M None" "crashed h op M (Some M)"
  by (simp_all add: crashed_def)

lemma crashed_add: "u \<notin> dom M \<Longrightarrow> crashed h (AdminAdd e) M (Some (M(u \<mapsto> h t)))"
  by (auto simp: crashed_def)

lemma abs_admins_simps [simp]: "abs_admins (s\<lparr>calls := n\<rparr>) = abs_admins s"
  "abs_admins (s\<lparr>calls := n, admin_file := Some (Intact reg)\<rparr>) = Some (active_map (admins reg))"
  "abs_admins (s\<lparr>calls := n, admin_file := Some Torn\<rparr>) = None"
  by (simp_all add: abs_admins_def)

lemma wp_mapE1 [wp_simps]: "wp (mapE1 f m) Q R s = wp m (\<lambda>a. Q (f a)) R s"
  by (simp add: mapE1_def wp_def bindE_def returnE_def split: prod.split sum.split)

lemma wp_admin_run:
  assumes "inj (uuid_at E)" "external_credential E op" "admins_drawn E s" "abs_admins s = Some M"
  shows "wp (admin_run E path op) (\<lambda>r t. \<exists>M'. abs_admins t = Some M' \<and> admin_spec (hash_token E) op M r M')
    (\<lambda>_ t. crashed (hash_token E) op M (abs_admins t)) s"
proof -
  obtain rs where rs: "admin_records s = Some rs" "M = active_map rs" using assms(4) by (auto simp: abs_admins_def)
  have a: "abs_admins s = Some (active_map rs)" using assms(4) rs(2) by simp
  have d: "distinct (active_uuids rs)" and f: "\<And>m. calls s \<le> m \<Longrightarrow> uuid_at E m \<notin> set (active_uuids rs)"
    using assms(3) rs by (auto simp: admins_drawn_def drawn_def)
  show ?thesis
  proof (cases op)
    case (AdminBootstrap c)
    then show ?thesis
      by (auto simp: admin_bootstrap_def wp_simps crashed_def rs a active_map_first active_map_none [symmetric] intro!: wp_intro)
  next
    case (AdminAuthenticate u t)
    then show ?thesis using d
      by (auto simp: admin_authenticate_def wp_simps crashed_def rs a active_map_matches active_map_touch intro!: wp_intro)
  next
    case (AdminAdd e)
    have "\<And>m. calls s \<le> m \<Longrightarrow> active_map rs (uuid_at E m) = None" using f dom_active_map [of rs] by blast
    then show ?thesis using AdminAdd f
      by (auto simp: admin_add_admin_def wp_simps crashed_simps rs a active_map_append dom_active_map intro!: wp_intro crashed_add)
  next
    case (AdminRemove u)
    have "list_ex (\<lambda>r. adm_uuid r = u \<and> adm_active r) rs \<Longrightarrow> u \<in> dom (active_map rs)"
      by (auto simp: dom_active_map active_uuids_def list_ex_iff)
    then show ?thesis using AdminRemove d
      by (auto simp: admin_remove_admin_def Let_def wp_simps crashed_def rs a active_map_remove active_twice intro!: wp_intro)
  qed
qed

text \<open>
  C11: The admin store refines the abstract map of admins. From a readable registry with
  distinct active UUIDs, every operation that returns has the result and the effect of the
  abstract machine: bootstrap only fills an empty map, authentication answers whether
  the token is that of the admin and changes nothing, an added admin is new, and a
  removal takes out that admin and never the last one. An operation that fails has left the map
  as it was or as the completed operation leaves it, or a torn registry; and the
  invariant holds again, so that the refinement extends to every sequence of operations.
\<close>

theorem admin_store_refines_map:
  assumes "inj (uuid_at E)" and "external_credential E op" and "admins_drawn E s" and "abs_admins s = Some M"
  shows "admins_drawn E (snd (admin_run E path op s)) \<and>
    (case admin_run E path op s of
       (Inr r, t) \<Rightarrow> \<exists>M'. abs_admins t = Some M' \<and> admin_spec (hash_token E) op M r M'
     | (Inl _, t) \<Rightarrow> abs_admins t = None \<or> abs_admins t = Some M \<or>
         (\<exists>r M'. abs_admins t = Some M' \<and> admin_spec (hash_token E) op M r M'))"
proof -
  have "snd (admin_run E path op s) = admin_step E path op s" by (cases op) (simp_all add: mapE1_def bindE_def returnE_def split: prod.split sum.split)
  then have "admins_drawn E (snd (admin_run E path op s))" using admins_drawn_step [OF assms(1-3)] by simp
  then show ?thesis using wp_admin_run [OF assms, of path] by (auto simp: wp_def crashed_def split: prod.splits sum.splits)
qed

text \<open>Draws that are none of the two admins.\<close>

definition fresh_env :: env where
  "fresh_env = quiet_env\<lparr>uuid_at := \<lambda>n. n + 10\<rparr>"

theorem admin_store_refines_map_witness:
  "\<exists>M' t. admin_run fresh_env registry_json (AdminRemove 7) two_admins = (Inr RUnit, t) \<and> abs_admins t = Some M' \<and>
     M' 7 = None \<and> 8 \<in> dom M'"
proof -
  let ?r = "admin_run fresh_env registry_json (AdminRemove 7) two_admins"
  obtain M where M: "abs_admins two_admins = Some M" "M = active_map (the (admin_records two_admins))"
    by (simp add: abs_admins_def two_admins_def admin_records_def)
  have i: "inj (uuid_at fresh_env)" "external_credential fresh_env (AdminRemove 7)"
    by (simp_all add: fresh_env_def inj_def external_credential_def)
  have d: "admins_drawn fresh_env two_admins"
    by (simp add: admins_drawn_def admin_records_def two_admins_def drawn_def active_uuids_def fresh_env_def)
  have r: "fst ?r = Inr RUnit" by code_simp
  have "8 \<in> dom M" unfolding M(2) dom_active_map by code_simp
  with admin_store_refines_map [OF i d M(1), of registry_json] r show ?thesis
    by (cases ?r) auto
qed

end
