(* ===== verification/Checkpoints.thy ===== *)
theory Checkpoints
  imports Workspace_Store
begin

text \<open>
  Checkpoints of a workspace (\<open>src/workspace/checkpoints.rs\<close>): creating one copies the disk
  into the lineage and moves the head, restoring one copies it back and, when rolling
  back, deletes the newer ones, deleting the head moves it to its source, and forking
  starts a new workspace from a copy.
\<close>

section \<open>Operations\<close>

datatype restore_mode = Rollback | Replace

definition new_checkpoint :: "string \<Rightarrow> string \<Rightarrow> string option \<Rightarrow> (string \<times> string) list \<Rightarrow> u64 \<Rightarrow>
    string option \<Rightarrow> workspace_change list \<Rightarrow> checkpoint_record" where
  "new_checkpoint c w name metadata now source changes =
     \<lparr>ckr_summary = \<lparr>cks_checkpoint_id = c, cks_workspace_id = w, cks_name = name,
        cks_metadata = metadata, cks_created_at_ms = now\<rparr>,
      ckr_source_checkpoint_id = source, ckr_changes = changes\<rparr>"

definition create_checkpoint :: "'e env_scheme \<Rightarrow> workspace_lease \<Rightarrow> workspace_change list \<Rightarrow> string option \<Rightarrow>
    (string \<times> string) list \<Rightarrow> ('z store_files_scheme, checkpoint_record) io" where
  "create_checkpoint E workspace changes name metadata =
     bindE (new_v4 E) (\<lambda>u. let c = uuid_string E u; w = lease_workspace_id workspace in
     bindE (head_checkpoint_id E w) (\<lambda>source.
     bindE (now_ms E) (\<lambda>now. let record = new_checkpoint c w name metadata now source changes in
       seqE (save_checkpoint E workspace record)
       (seqE (set_head_checkpoint_id E w (Some c))
         (returnE record)))))"

definition store_list_checkpoints :: "'e env_scheme \<Rightarrow> string \<Rightarrow> ('z store_files_scheme, checkpoint_record list) io" where
  "store_list_checkpoints E w =
     seqE (liftE (validate_persisted_id w ''workspace_id'')) (list_checkpoints E w)"

text \<open>\<open>position\<close> of the target and the slice of the records after it.\<close>

fun split_target :: "string \<Rightarrow> checkpoint_record list \<Rightarrow> (checkpoint_record \<times> checkpoint_record list) option" where
  "split_target c [] = None"
| "split_target c (r # rs) =
     (if cks_checkpoint_id (ckr_summary r) = c then Some (r, rs) else split_target c rs)"

definition delete_checkpoint_ids :: "'e env_scheme \<Rightarrow> string \<Rightarrow> string list \<Rightarrow> ('z store_files_scheme, unit) io" where
  "delete_checkpoint_ids E w ids = forE ids (delete_checkpoint E w)"

definition restore_checkpoint :: "'e env_scheme \<Rightarrow> workspace_store \<Rightarrow> string \<Rightarrow> string \<Rightarrow> restore_mode \<Rightarrow>
    ('z store_files_scheme, checkpoint_record) io" where
  "restore_checkpoint E W w c mode =
     seqE (liftE (validate_persisted_id w ''workspace_id''))
     (seqE (liftE (validate_persisted_id c ''checkpoint_id''))
     (bindE (prepare_workspace E W w) (\<lambda>lease.
      bindE (list_checkpoints E w) (\<lambda>checkpoints. case split_target c checkpoints of
        None \<Rightarrow> throwE (NotFound (''unknown checkpoint '' @ c))
      | Some (target, newer) \<Rightarrow>
          seqE (copy_checkpoint_snapshot E w c (lease_workspace_id lease))
          (seqE (if mode = Rollback then
                   delete_checkpoint_ids E w (map (\<lambda>r. cks_checkpoint_id (ckr_summary r)) newer)
                 else returnE ())
          (seqE (set_head_checkpoint_id E w (Some c))
            (returnE target)))))))"

definition store_delete_checkpoint :: "'e env_scheme \<Rightarrow> string \<Rightarrow> string \<Rightarrow> ('z store_files_scheme, unit) io" where
  "store_delete_checkpoint E w c =
     seqE (liftE (validate_persisted_id w ''workspace_id''))
     (seqE (liftE (validate_persisted_id c ''checkpoint_id''))
     (bindE (head_checkpoint_id E w) (\<lambda>current_head.
      bindE (load_checkpoint E w c) (\<lambda>record.
      seqE (delete_checkpoint E w c)
        (if current_head = Some c then
           set_head_checkpoint_id E w (Option.bind record ckr_source_checkpoint_id)
         else returnE ())))))"

definition load_checkpoint_record :: "'e env_scheme \<Rightarrow> string \<Rightarrow> string \<Rightarrow> ('z store_files_scheme, checkpoint_record) io" where
  "load_checkpoint_record E w c = bindE (load_checkpoint E w c) (\<lambda>r. case r of
       None \<Rightarrow> throwE (NotFound (''unknown checkpoint '' @ c)) | Some record \<Rightarrow> returnE record)"

definition fork_workspace :: "'e env_scheme \<Rightarrow> workspace_store \<Rightarrow> string \<Rightarrow> string \<Rightarrow> string \<Rightarrow>
    ('z store_files_scheme, checkpoint_record) io" where
  "fork_workspace E W source_w c new_w =
     seqE (liftE (validate_persisted_id source_w ''workspace_id''))
     (seqE (liftE (validate_persisted_id c ''checkpoint_id''))
     (seqE (liftE (validate_persisted_id new_w ''new_workspace_id''))
     (bindE (load_checkpoint_record E source_w c) (\<lambda>record.
      bindE (prepare_workspace E W new_w) (\<lambda>lease.
      seqE (copy_checkpoint_snapshot E source_w c (lease_workspace_id lease))
      (seqE (set_head_checkpoint_id E new_w None)
        (returnE record)))))))"

definition create_internal_checkpoint :: "'e env_scheme \<Rightarrow> workspace_lease \<Rightarrow> workspace_snapshot \<Rightarrow> workspace_snapshot \<Rightarrow>
    string option \<Rightarrow> (string \<times> string) list \<Rightarrow> ('z store_files_scheme, checkpoint_record) io" where
  "create_internal_checkpoint E workspace baseline current name metadata =
     create_checkpoint E workspace (diff baseline current) name metadata"

definition restore_internal_checkpoint :: "'e env_scheme \<Rightarrow> workspace_store \<Rightarrow> string \<Rightarrow> string \<Rightarrow>
    ('z store_files_scheme, checkpoint_record) io" where
  "restore_internal_checkpoint E W w c = restore_checkpoint E W w c Rollback"

section \<open>Restoring\<close>

lemma split_target_append:
  "split_target c rs = Some (r, newer) \<Longrightarrow>
    \<exists>older. rs = older @ r # newer \<and> cks_checkpoint_id (ckr_summary r) = c \<and>
      c \<notin> set (map (\<lambda>r. cks_checkpoint_id (ckr_summary r)) older)"
proof (induction rs)
  case (Cons x rs)
  then show ?case
    by (cases "cks_checkpoint_id (ckr_summary x) = c") (auto intro: exI [of _ "[]"] exI [of _ "x # _"])
qed simp

fun delete_all :: "string list \<Rightarrow> (string \<times> 'v) list \<Rightarrow> (string \<times> 'v) list" where
  "delete_all [] es = es"
| "delete_all (c # cs) es = delete_all cs (AList.delete c es)"

lemma delete_all_filter: "delete_all cs es = filter (\<lambda>(i, _). i \<notin> set cs) es"
  by (induction cs arbitrary: es) (auto simp: AList.delete_eq filter_filter intro!: filter_cong)

text \<open>An interrupted deletion removes some of the checkpoints to delete and may damage one of them.\<close>

definition partly_deleted :: "string set \<Rightarrow> (string \<times> checkpoint_dir) list \<Rightarrow> (string \<times> checkpoint_dir) list \<Rightarrow> bool" where
  "partly_deleted cs es es' \<longleftrightarrow> (\<forall>c. c \<notin> cs \<longrightarrow> map_of es' c = map_of es c) \<and> (entries_ok es \<longrightarrow> entries_ok es')"

lemma partly_deleted_refl [simp]: "partly_deleted cs es es"
  by (simp add: partly_deleted_def)

lemma touched_partly: "touched c es es' \<Longrightarrow> c \<in> cs \<Longrightarrow> partly_deleted cs es es'"
  by (auto simp: partly_deleted_def entries_ok_touched) (auto simp: touched_def update_conv')

lemma partly_deleted_delete: "partly_deleted cs (AList.delete c es) es' \<Longrightarrow> partly_deleted (insert c cs) es es'"
  by (auto simp: partly_deleted_def delete_conv' entries_ok_delete)

lemma wp_delete_checkpoint_idsI [wp_intro]:
  assumes "\<And>n l. calls s \<le> n \<Longrightarrow> headf l = headf (lineages s w) \<Longrightarrow>
      ents l = delete_all cs (ents (lineages s w)) \<Longrightarrow>
      Q () (s\<lparr>calls := n, lineages := (lineages s)(w := l)\<rparr>)"
    and "\<And>e n l. calls s \<le> n \<Longrightarrow> headf l = headf (lineages s w) \<Longrightarrow>
      partly_deleted (set cs) (ents (lineages s w)) (ents l) \<Longrightarrow>
      R (Fail e) (s\<lparr>calls := n, lineages := (lineages s)(w := l)\<rparr>)"
  shows "wp (delete_checkpoint_ids E w cs) Q R s"
  unfolding delete_checkpoint_ids_def using assms
proof (induction cs arbitrary: s)
  case Nil
  from Nil(1) [of "calls s" "lineages s w"] show ?case by (simp add: wp_simps)
next
  case (Cons c cs)
  show ?case
  proof (simp only: forE.simps wp_simps, rule wp_delete_checkpointI)
    fix n l
    assume l: "calls s \<le> n" "headf l = headf (lineages s w)" "ents l = AList.delete c (ents (lineages s w))"
    show "wp (forE cs (delete_checkpoint E w)) Q R (s\<lparr>calls := n, lineages := (lineages s)(w := l)\<rparr>)"
      using l by (intro Cons.IH) (auto intro!: Cons.prems simp: partly_deleted_delete fun_upd_same simp del: fun_upd_apply)
  qed (auto intro!: Cons.prems touched_partly)
qed


section \<open>What the operations do\<close>

abbreviation newer_ids :: "string \<Rightarrow> (string \<times> checkpoint_dir) list \<Rightarrow> string set" where
  "newer_ids c es \<equiv> (case split_target c (sort_records (records_in es)) of
     None \<Rightarrow> {} | Some (_, newer) \<Rightarrow> rec_id ` set newer)"

lemma new_checkpoint_simps [simp]:
  "cks_checkpoint_id (ckr_summary (new_checkpoint c w name md now src ch)) = c"
  "rec_id (new_checkpoint c w name md now src ch) = c"
  "cks_workspace_id (ckr_summary (new_checkpoint c w name md now src ch)) = w"
  "ckr_source_checkpoint_id (new_checkpoint c w name md now src ch) = src"
  "ckr_changes (new_checkpoint c w name md now src ch) = ch"
  by (simp_all add: new_checkpoint_def rec_id_def)

definition saved_entry :: "checkpoint_record \<Rightarrow> disk option \<Rightarrow> checkpoint_dir" where
  "saved_entry r d = \<lparr>ckd_record = Some (Intact r), ckd_snapshot = d\<rparr>"

lemma saved_entry_simps [simp]: "ckd_record (saved_entry r d) = Some (Intact r)" "ckd_snapshot (saved_entry r d) = d"
  by (simp_all add: saved_entry_def)

lemma wp_create_checkpointI:
  assumes "\<And>n d m now src. calls s \<le> m \<Longrightarrow> m < n \<Longrightarrow> persisted_id (lease_workspace_id lease) \<Longrightarrow>
      (\<And>h. headf (lineages s (lease_workspace_id lease)) = Some h \<Longrightarrow>
        h = Intact \<lparr>lh_head_checkpoint_id = src\<rparr>) \<Longrightarrow>
      disk_of s (lease_workspace_id lease) \<noteq> None \<Longrightarrow>
      ln_entries d = AList.update (uuid_string E (uuid_at E m))
        (saved_entry (new_checkpoint (uuid_string E (uuid_at E m)) (lease_workspace_id lease) name md now src changes)
          (disk_of s (lease_workspace_id lease)))
        (ents (lineages s (lease_workspace_id lease))) \<Longrightarrow>
      ln_head d = Some (Intact \<lparr>lh_head_checkpoint_id = Some (uuid_string E (uuid_at E m))\<rparr>) \<Longrightarrow>
      Q (new_checkpoint (uuid_string E (uuid_at E m)) (lease_workspace_id lease) name md now src changes)
        (s\<lparr>calls := n, lineages := (lineages s)(lease_workspace_id lease \<mapsto> d)\<rparr>)"
    and "\<And>e n m l. calls s \<le> m \<Longrightarrow> m < n \<Longrightarrow>
      touched (uuid_string E (uuid_at E m)) (ents (lineages s (lease_workspace_id lease))) (ents l) \<Longrightarrow>
      R (Fail e) (s\<lparr>calls := n, lineages := (lineages s)(lease_workspace_id lease := l)\<rparr>)"
  shows "wp (create_checkpoint E lease changes name md) Q R s"
proof -
  have same: "R (Fail e) (s\<lparr>calls := n\<rparr>)" if "calls s \<le> m" "m < n" for e m n
    using assms(2) [where n = n and m = m and l = "lineages s (lease_workspace_id lease)"] that by simp
  show ?thesis
    unfolding create_checkpoint_def Let_def
    by (auto simp: wp_simps simp flip: saved_entry_def intro!: wp_intro)
      ((erule assms(1) | erule assms(2) | erule same); auto intro!: touched_update)+
qed


text \<open>The directory entries a completed restore leaves.\<close>

definition restored_entries :: "restore_mode \<Rightarrow> checkpoint_record list \<Rightarrow> (string \<times> checkpoint_dir) list \<Rightarrow>
    (string \<times> checkpoint_dir) list" where
  "restored_entries mode newer es =
     (if mode = Rollback then filter (\<lambda>(i, _). i \<notin> rec_id ` set newer) es else es)"

lemma rec_ids: "map (\<lambda>r. cks_checkpoint_id (ckr_summary r)) rs = map rec_id rs"
  by (simp add: rec_id_def)

lemma snapshot_of_upd [simp]:
  "snapshot_of (s\<lparr>calls := n\<rparr>) = snapshot_of s"
  "snapshot_of (s\<lparr>calls := n, workspaces := X\<rparr>) = snapshot_of s"
  "snapshot_of (s\<lparr>calls := n, lineages := L, workspaces := X\<rparr>) = snapshot_of (s\<lparr>lineages := L\<rparr>)"
  by (simp_all add: snapshot_of_def entry_of_def fun_eq_iff)

lemma snapshot_of_lineage:
  "snapshot_of (s\<lparr>lineages := L\<rparr>) w c = Option.bind (map_of (ents (L w)) c) ckd_snapshot"
  by (simp add: snapshot_of_def entry_of_ents)

lemma snapshot_of_ents: "snapshot_of s w c = Option.bind (map_of (ents (lineages s w)) c) ckd_snapshot"
  by (simp add: snapshot_of_def entry_of_ents)

lemma map_of_delete_all: "i \<notin> set cs \<Longrightarrow> map_of (delete_all cs es) i = map_of es i"
  by (induction cs arbitrary: es) (auto simp: delete_conv')

lemma entries_ok_delete_all: "entries_ok es \<Longrightarrow> entries_ok (delete_all cs es)"
  by (induction cs arbitrary: es) (auto simp: entries_ok_delete)

lemma partly_deleted_filter:
  "partly_deleted (rec_id ` set newer) es (filter (\<lambda>(i, _). i \<notin> rec_id ` set newer) es)"
proof -
  have "filter (\<lambda>(i, _). i \<notin> rec_id ` set newer) es = delete_all (map rec_id newer) es"
    by (simp add: delete_all_filter)
  then show ?thesis
    by (simp add: partly_deleted_def map_of_delete_all entries_ok_delete_all)
qed

lemma wp_restore_checkpointI:
  assumes ok: "\<And>n d r newer. calls s \<le> n \<Longrightarrow> persisted_id w \<Longrightarrow> readable (ents (lineages s w)) \<Longrightarrow>
      split_target c (sort_records (records_in (ents (lineages s w)))) = Some (r, newer) \<Longrightarrow>
      snapshot_of s w c \<noteq> None \<Longrightarrow>
      ln_entries d = restored_entries mode newer (ents (lineages s w)) \<Longrightarrow>
      ln_head d = Some (Intact \<lparr>lh_head_checkpoint_id = Some c\<rparr>) \<Longrightarrow>
      Q r (s\<lparr>calls := n, lineages := (lineages s)(w \<mapsto> d), workspaces := (workspaces s)(w \<mapsto> snapshot_of s w c)\<rparr>)"
    and err: "\<And>e n l x. calls s \<le> n \<Longrightarrow>
      partly_deleted (if mode = Rollback then newer_ids c (ents (lineages s w)) else {}) (ents (lineages s w)) (ents l) \<Longrightarrow>
      R (Fail e) (s\<lparr>calls := n, lineages := (lineages s)(w := l), workspaces := (workspaces s)(w := x)\<rparr>)"
  shows "wp (restore_checkpoint E W w c mode) Q R s"
proof -
  have same: "R (Fail e) (s\<lparr>calls := n\<rparr>)" if "calls s \<le> n" for e n
    using err [where n = n and l = "lineages s w" and x = "workspaces s w"] that by simp
  have ok': "Q r (s\<lparr>calls := n, lineages := (lineages s)(w \<mapsto> d), workspaces := (workspaces s)(w \<mapsto> Some y)\<rparr>)"
    if "calls s \<le> n" "persisted_id w" "readable (ents (lineages s w))"
      "split_target c (sort_records (records_in (ents (lineages s w)))) = Some (r, newer)"
      "snapshot_of s w c = Some y" "ln_entries d = restored_entries mode newer (ents (lineages s w))"
      "ln_head d = Some (Intact \<lparr>lh_head_checkpoint_id = Some c\<rparr>)" for n d r newer y
    using ok [of n r newer d] that by simp
  show ?thesis
  proof (cases "split_target c (sort_records (records_in (ents (lineages s w))))")
    case None
    then show ?thesis
      unfolding restore_checkpoint_def rec_ids
      using same [of "calls s"] by (auto simp: wp_simps intro!: wp_intro err)
  next
    case (Some p)
    then obtain r newer where p: "split_target c (sort_records (records_in (ents (lineages s w)))) = Some (r, newer)"
      by (cases p) auto
    show ?thesis
      unfolding restore_checkpoint_def rec_ids
      using same [of "calls s"]
      by (auto simp: wp_simps delete_all_filter restored_entries_def snapshot_of_lineage snapshot_of_ents
          partly_deleted_filter p intro!: wp_intro err ok' [OF _ _ _ p, simplified snapshot_of_ents])
  qed
qed

lemma wp_store_delete_checkpointI:
  assumes ok: "\<And>n l. calls s \<le> n \<Longrightarrow> persisted_id w \<Longrightarrow> ents l = AList.delete c (ents (lineages s w)) \<Longrightarrow>
      (\<And>h. headf (lineages s w) = Some (Intact \<lparr>lh_head_checkpoint_id = h\<rparr>) \<Longrightarrow>
         headf l = Some (Intact \<lparr>lh_head_checkpoint_id = (if h = Some c then
           (case record_file_of s w c of Some (Intact r) \<Rightarrow> ckr_source_checkpoint_id r | _ \<Rightarrow> None) else h)\<rparr>)) \<Longrightarrow>
      Q () (s\<lparr>calls := n, lineages := (lineages s)(w := l)\<rparr>)"
    and err: "\<And>e n l. calls s \<le> n \<Longrightarrow> partly_deleted {c} (ents (lineages s w)) (ents l) \<Longrightarrow>
      R (Fail e) (s\<lparr>calls := n, lineages := (lineages s)(w := l)\<rparr>)"
  shows "wp (store_delete_checkpoint E w c) Q R s"
proof -
  have same: "R (Fail e) (s\<lparr>calls := n\<rparr>)" if "calls s \<le> n" for e n
    using err [where n = n and l = "lineages s w"] that by simp
  have del: "partly_deleted {c} es (AList.delete c es)" for es
    using partly_deleted_delete [of "{}" c es "AList.delete c es"] by simp
  have upd: "partly_deleted {c} es es'" if "touched c es es'" for es es'
    using that by (rule touched_partly) simp
  have [simp]: "record_file_of (s\<lparr>calls := n\<rparr>) w c = record_file_of s w c" for n
    by (simp add: record_file_of_def entry_of_ents)
  show ?thesis
    unfolding store_delete_checkpoint_def
    using same [of "calls s"]
    by (auto simp: wp_simps del upd intro!: wp_intro err ok same split: option.split)
qed

lemma wp_fork_workspaceI:
  assumes ok: "\<And>n d r. calls s \<le> n \<Longrightarrow> persisted_id v \<Longrightarrow>
      record_file_of s w c = Some (Intact r) \<Longrightarrow> snapshot_of s w c \<noteq> None \<Longrightarrow>
      ln_entries d = ents (lineages s v) \<Longrightarrow> ln_head d = Some (Intact \<lparr>lh_head_checkpoint_id = None\<rparr>) \<Longrightarrow>
      Q r (s\<lparr>calls := n, lineages := (lineages s)(v \<mapsto> d), workspaces := (workspaces s)(v \<mapsto> snapshot_of s w c)\<rparr>)"
    and err: "\<And>e n l x. calls s \<le> n \<Longrightarrow> ents l = ents (lineages s v) \<Longrightarrow>
      R (Fail e) (s\<lparr>calls := n, lineages := (lineages s)(v := l), workspaces := (workspaces s)(v := x)\<rparr>)"
  shows "wp (fork_workspace E W w c v) Q R s"
proof -
  have same: "R (Fail e) (s\<lparr>calls := n\<rparr>)" if "calls s \<le> n" for e n
    using err [where n = n and l = "lineages s v" and x = "workspaces s v"] that by simp
  have snap: "snapshot_of (s\<lparr>lineages := (lineages s)(v \<mapsto> d)\<rparr>) w c = snapshot_of s w c"
    if "ln_entries d = ents (lineages s v)" for d
    using that by (simp add: snapshot_of_ents)
  have ok': "Q r (s\<lparr>calls := n, lineages := (lineages s)(v \<mapsto> d), workspaces := (workspaces s)(v \<mapsto> Some y)\<rparr>)"
    if "calls s \<le> n" "persisted_id v" "record_file_of s w c = Some (Intact r)" "snapshot_of s w c = Some y"
      "ln_entries d = ents (lineages s v)" "ln_head d = Some (Intact \<lparr>lh_head_checkpoint_id = None\<rparr>)" for n d r y
    using ok [of n r d] that by simp
  show ?thesis
    unfolding fork_workspace_def load_checkpoint_record_def
    using same [of "calls s"]
    by (auto simp: wp_simps snap intro!: wp_intro err ok' same split: option.split)
qed


section \<open>Histories of checkpoint operations\<close>

text \<open>
  The store's operations on the workspaces, and the guest of a running sandbox writing its
  disk. An execution is a sequence of whole operations.
\<close>

datatype checkpoint_op =
    CkPrepare string
  | CkCreate string "workspace_change list" "string option" "(string \<times> string) list"
  | CkRestore string string restore_mode
  | CkDelete string string
  | CkFork string string string
  | CkResize string u64
  | CkRemove string
  | CkGuestWrite string disk

definition lease_of :: "workspace_store \<Rightarrow> string \<Rightarrow> workspace_lease" where
  "lease_of W w = \<lparr>lease_workspace_id = w, lease_disk_path = path_join (workspace_dir W w) ''workspace.raw''\<rparr>"

fun checkpoint_step :: "'e env_scheme \<Rightarrow> workspace_store \<Rightarrow> checkpoint_op \<Rightarrow> 'z store_files_scheme \<Rightarrow> 'z store_files_scheme" where
  "checkpoint_step E W (CkPrepare w) s = snd (prepare_workspace E W w s)"
| "checkpoint_step E W (CkCreate w ch name md) s = snd (create_checkpoint E (lease_of W w) ch name md s)"
| "checkpoint_step E W (CkRestore w c mode) s = snd (restore_checkpoint E W w c mode s)"
| "checkpoint_step E W (CkDelete w c) s = snd (store_delete_checkpoint E w c s)"
| "checkpoint_step E W (CkFork w c v) s = snd (fork_workspace E W w c v s)"
| "checkpoint_step E W (CkResize w mib) s = snd (resize_workspace E W w mib s)"
| "checkpoint_step E W (CkRemove w) s = snd (remove_workspace E w s)"
| "checkpoint_step E W (CkGuestWrite w d) s = upd_disk w (\<lambda>_. d) s"

text \<open>The workspace an operation writes, and what it may show of a workspace.\<close>

fun written :: "checkpoint_op \<Rightarrow> string" where
  "written (CkPrepare w) = w"
| "written (CkCreate w _ _ _) = w"
| "written (CkRestore w _ _) = w"
| "written (CkDelete w _) = w"
| "written (CkFork _ _ v) = v"
| "written (CkResize w _) = w"
| "written (CkRemove w) = w"
| "written (CkGuestWrite w _) = w"

definition workspace_view :: "'z store_files_scheme \<Rightarrow> string \<Rightarrow> lineage_dir option \<times> disk option option" where
  "workspace_view s w = (lineages s w, workspaces s w)"

lemma lease_of_id [simp]: "lease_workspace_id (lease_of W w) = w"
  by (simp add: lease_of_def)

lemmas checkpoint_wpI = wp_create_checkpointI wp_restore_checkpointI wp_store_delete_checkpointI wp_fork_workspaceI

lemma keeps_workspace_view:
  assumes "v \<noteq> w"
  shows "keeps (\<lambda>s. workspace_view s v) (prepare_workspace E W w)"
    and "keeps (\<lambda>s. workspace_view s v) (create_checkpoint E (lease_of W w) ch name md)"
    and "keeps (\<lambda>s. workspace_view s v) (restore_checkpoint E W w c mode)"
    and "keeps (\<lambda>s. workspace_view s v) (store_delete_checkpoint E w c)"
    and "keeps (\<lambda>s. workspace_view s v) (fork_workspace E W u c w)"
    and "keeps (\<lambda>s. workspace_view s v) (resize_workspace E W w mib)"
    and "keeps (\<lambda>s. workspace_view s v) (remove_workspace E w)"
  using assms by (auto simp: workspace_view_def intro!: keeps_wpI wp_intro checkpoint_wpI)

lemma checkpoint_step_frame:
  "v \<noteq> written op \<Longrightarrow> workspace_view (checkpoint_step E W op s) v = workspace_view s v"
proof (cases op)
  case (CkGuestWrite w d)
  then show "v \<noteq> written op \<Longrightarrow> workspace_view (checkpoint_step E W op s) v = workspace_view s v"
    by (simp add: workspace_view_def upd_disk_def)
qed (simp_all add: keepsD [OF keeps_workspace_view(1)] keepsD [OF keeps_workspace_view(2)]
    keepsD [OF keeps_workspace_view(3)] keepsD [OF keeps_workspace_view(4)] keepsD [OF keeps_workspace_view(5)]
    keepsD [OF keeps_workspace_view(6)] keepsD [OF keeps_workspace_view(7)])

interpretation workspace_ops: scoped workspace_view "checkpoint_step E W" "\<lambda>op v. v = written op"
  by unfold_locales (auto simp: checkpoint_step_frame)


text \<open>
  C32: checkpoint operations are confined to the workspace they write: whatever is prepared,
  checkpointed, restored, deleted, forked, resized, removed or written by a guest, with
  whatever failures, the disk and the lineage of every workspace no operation writes are
  untouched. Forking reads its source and writes only the new workspace.
\<close>

theorem workspaces_isolated:
  assumes "list_all (\<lambda>op. v \<noteq> written op) ops"
  shows "workspace_view (run_steps (checkpoint_step E W) ops s) v = workspace_view s v"
  using assms by (intro workspace_ops.run_outside) simp

section \<open>Creating and restoring\<close>

text \<open>Operations that may remove checkpoint \<open>c\<close> of workspace \<open>w\<close>.\<close>

fun discards :: "checkpoint_op \<Rightarrow> string \<Rightarrow> string \<Rightarrow> bool" where
  "discards (CkRestore v _ mode) w c \<longleftrightarrow> v = w \<and> mode = Rollback"
| "discards (CkDelete v d) w c \<longleftrightarrow> v = w \<and> d = c"
| "discards (CkRemove v) w c \<longleftrightarrow> v = w"
| "discards _ w c \<longleftrightarrow> False"

text \<open>A saved checkpoint that no later draw of an identifier can hit.\<close>

definition kept_checkpoint :: "'e env_scheme \<Rightarrow> string \<Rightarrow> string \<Rightarrow> checkpoint_dir \<Rightarrow> 'z store_files_scheme \<Rightarrow> bool" where
  "kept_checkpoint E w c e s \<longleftrightarrow> lineages_ok s \<and> entry_of s w c = Some e \<and>
     (\<forall>m \<ge> calls s. uuid_string E (uuid_at E m) \<noteq> c)"

lemma lineages_ok_upd:
  "lineages_ok s \<Longrightarrow> entries_ok (ents l) \<Longrightarrow> lineages_ok (s\<lparr>calls := n, lineages := (lineages s)(w := l)\<rparr>)"
  "lineages_ok s \<Longrightarrow> entries_ok (ents l) \<Longrightarrow> lineages_ok (s\<lparr>calls := n, lineages := (lineages s)(w := l), workspaces := X\<rparr>)"
  "lineages_ok s \<Longrightarrow> lineages_ok (s\<lparr>calls := n\<rparr>)"
  "lineages_ok s \<Longrightarrow> lineages_ok (s\<lparr>calls := n, workspaces := X\<rparr>)"
  "lineages_ok s \<Longrightarrow> lineages_ok (s\<lparr>workspaces := X\<rparr>)"
  by (simp_all add: lineages_ok_def)

lemma lineages_okD: "lineages_ok s \<Longrightarrow> entries_ok (ents (lineages s w))"
  by (simp add: lineages_ok_def)

lemma partly_deleted_ok: "entries_ok es \<Longrightarrow> partly_deleted cs es es' \<Longrightarrow> entries_ok es'"
  by (simp add: partly_deleted_def)

lemma restored_entries_ok: "entries_ok es \<Longrightarrow> entries_ok (restored_entries mode newer es)"
  using partly_deleted_filter [of newer es] by (simp add: restored_entries_def partly_deleted_def)

lemma saved_entry_ok: "entries_ok es \<Longrightarrow> rec_id r = c \<Longrightarrow> entries_ok (AList.update c (saved_entry r d) es)"
  by (rule entries_ok_update) simp_all

lemmas entries_ok_intros = lineages_ok_upd lineages_okD restored_entries_ok saved_entry_ok entries_ok_delete

lemma preserves_lineages_ok:
  "preserves lineages_ok (prepare_workspace E W w)"
  "preserves lineages_ok (create_checkpoint E lease ch name md)"
  "preserves lineages_ok (restore_checkpoint E W w c mode)"
  "preserves lineages_ok (store_delete_checkpoint E w c)"
  "preserves lineages_ok (fork_workspace E W u c w)"
  "preserves lineages_ok (resize_workspace E W w mib)"
  "preserves lineages_ok (remove_workspace E w)"
  by (auto intro!: preserves_wpI wp_intro checkpoint_wpI entries_ok_intros
      intro: partly_deleted_ok [OF lineages_okD] entries_ok_touched [OF lineages_okD])


lemma lineages_ok_guest_write: "lineages_ok s \<Longrightarrow> lineages_ok (upd_disk w f s)"
  by (simp add: upd_disk_def lineages_ok_upd)

lemma lineages_ok_step: "lineages_ok s \<Longrightarrow> lineages_ok (checkpoint_step E W op s)"
  by (cases op) (simp_all add: preserves_lineages_ok [THEN preservesD] lineages_ok_guest_write)

text \<open>An operation that does not discard the checkpoint leaves its directory alone.\<close>

lemma kept_checkpointD:
  assumes "kept_checkpoint E w c e s"
  shows "entries_ok (ents (lineages s v))" and "calls s \<le> m \<Longrightarrow> uuid_string E (uuid_at E m) \<noteq> c"
  using assms by (auto simp: kept_checkpoint_def lineages_ok_def)

lemma kept_lineage:
  assumes "kept_checkpoint E w c e s" and "calls s \<le> n" and "entries_ok (ents l)"
    and "v = w \<Longrightarrow> map_of (ents l) c = map_of (ents (lineages s w)) c"
  shows "kept_checkpoint E w c e (s\<lparr>calls := n, lineages := (lineages s)(v := l), workspaces := X\<rparr>)"
    and "kept_checkpoint E w c e (s\<lparr>calls := n, lineages := (lineages s)(v := l)\<rparr>)"
  using assms by (auto simp: kept_checkpoint_def entry_of_ents lineages_ok_upd)

lemma restored_Replace [simp]: "restored_entries Replace newer es = es"
  by (simp add: restored_entries_def)

lemma touched_other: "touched d es es' \<Longrightarrow> d \<noteq> c \<Longrightarrow> map_of es' c = map_of es c"
  by (auto simp: touched_def update_conv')

lemma preserves_kept_checkpoint:
  "preserves (kept_checkpoint E w c e) (prepare_workspace E W v)"
  "preserves (kept_checkpoint E w c e) (create_checkpoint E lease ch name md)"
  "v \<noteq> w \<or> mode = Replace \<Longrightarrow> preserves (kept_checkpoint E w c e) (restore_checkpoint E W v d mode)"
  "v \<noteq> w \<or> d \<noteq> c \<Longrightarrow> preserves (kept_checkpoint E w c e) (store_delete_checkpoint E v d)"
  "preserves (kept_checkpoint E w c e) (fork_workspace E W u d v)"
  "preserves (kept_checkpoint E w c e) (resize_workspace E W v mib)"
  "v \<noteq> w \<Longrightarrow> preserves (kept_checkpoint E w c e) (remove_workspace E v)"
  by (auto intro!: preserves_wpI wp_intro checkpoint_wpI kept_lineage
      simp: kept_checkpointD entries_ok_delete delete_conv' update_conv' saved_entry_ok
        restored_entries_ok partly_deleted_def
      elim: entries_ok_touched [rotated] touched_other [OF _ kept_checkpointD(2)]
      dest: kept_checkpointD(2))

lemma kept_checkpoint_step:
  assumes "kept_checkpoint E w c e s" and "\<not> discards op w c"
  shows "kept_checkpoint E w c e (checkpoint_step E W op s)"
proof (cases op)
  case (CkRestore v d mode)
  with assms show ?thesis
    by (cases mode) (auto intro!: preservesD [OF preserves_kept_checkpoint(3)])
next
  case (CkGuestWrite v d)
  with assms show ?thesis
    by (simp add: upd_disk_def kept_checkpoint_def entry_of_ents lineages_ok_upd)
qed (use assms in \<open>auto intro!: preserves_kept_checkpoint [THEN preservesD]\<close>)

lemma kept_checkpoint_run:
  "kept_checkpoint E w c e s \<Longrightarrow> list_all (\<lambda>op. \<not> discards op w c) ops \<Longrightarrow>
    kept_checkpoint E w c e (run_steps (checkpoint_step E W) ops s)"
  by (induction ops arbitrary: s) (auto simp: kept_checkpoint_step)

lemma create_keeps_checkpoint:
  assumes "inj (uuid_at E)" and "inj (uuid_string E)" and "lineages_ok s"
    and "create_checkpoint E lease ch name md s = (Inr r, s')"
  shows "kept_checkpoint E (lease_workspace_id lease) (rec_id r)
    (saved_entry r (disk_of s (lease_workspace_id lease))) s'"
proof -
  have "wp (create_checkpoint E lease ch name md)
     (\<lambda>r s'. kept_checkpoint E (lease_workspace_id lease) (rec_id r)
       (saved_entry r (disk_of s (lease_workspace_id lease))) s') (\<lambda>_ _. True) s"
    using assms(1-3)
    by (auto simp: kept_checkpoint_def entry_of_ents inj_eq update_conv' lineages_okD
        intro!: wp_create_checkpointI lineages_ok_upd saved_entry_ok)
  from wp_runD [OF this assms(4)] show ?thesis .
qed


lemma split_target_found:
  assumes "entries_ok es" and "map_of es c = Some e" and "ckd_record e = Some (Intact r)"
    and "split_target c (sort_records (records_in es)) = Some (t, newer)"
  shows "t = r"
proof -
  from split_target_append [OF assms(4)] have "t \<in> set (sort_records (records_in es))" and "rec_id t = c"
    by (auto simp: rec_id_def simp del: set_sort_records)
  with listed_record [OF assms(1), of t] assms(2,3) show ?thesis by auto
qed

text \<open>
  C3: a checkpoint restores the disk it was taken from. Whatever happens between creating it
  and restoring it, guest writes, more checkpoints, forks, resizes and failing operations
  included, unless the checkpoint itself is discarded, a restore that returns hands back
  the record that was created and leaves the workspace with the disk it had at creation.
\<close>

theorem checkpoint_restore_roundtrip:
  assumes "inj (uuid_at E)" and "inj (uuid_string E)" and "lineages_ok s"
    and "create_checkpoint E (lease_of W w) changes name metadata s = (Inr r, s\<^sub>1)"
    and "list_all (\<lambda>op. \<not> discards op w (rec_id r)) ops"
    and "restore_checkpoint E W w (rec_id r) mode (run_steps (checkpoint_step E W) ops s\<^sub>1) = (Inr r', s\<^sub>2)"
  shows "r' = r \<and> disk_of s\<^sub>2 w = disk_of s w"
proof -
  let ?t = "run_steps (checkpoint_step E W) ops s\<^sub>1"
  have kept: "kept_checkpoint E w (rec_id r) (saved_entry r (disk_of s w)) ?t"
    using create_keeps_checkpoint [OF assms(1-4)] assms(5) by (simp add: kept_checkpoint_run)
  then have ok: "entries_ok (ents (lineages ?t w))"
    and entry: "map_of (ents (lineages ?t w)) (rec_id r) = Some (saved_entry r (disk_of s w))"
    by (auto simp: kept_checkpoint_def entry_of_ents lineages_ok_def)
  have "wp (restore_checkpoint E W w (rec_id r) mode) (\<lambda>r' s'. r' = r \<and> disk_of s' w = disk_of s w) (\<lambda>_ _. True) ?t"
    by (rule wp_restore_checkpointI)
      (use entry in \<open>auto simp: snapshot_of_ents dest: split_target_found [OF ok entry saved_entry_simps(1)]\<close>)
  from wp_runD [OF this assms(6)] show ?thesis .
qed

section \<open>What a restore leaves of the lineage\<close>

text \<open>The listing of a workspace: its readable checkpoint records, oldest first.\<close>

definition listing :: "'z store_files_scheme \<Rightarrow> string \<Rightarrow> checkpoint_record list" where
  "listing s w = sort_records (records_in (ents (lineages s w)))"

definition head_of :: "'z store_files_scheme \<Rightarrow> string \<Rightarrow> string option" where
  "head_of s w = (case headf (lineages s w) of
     Some (Intact h) \<Rightarrow> lh_head_checkpoint_id h | _ \<Rightarrow> last_id (listing s w))"

lemma records_in_Cons:
  "records_in (ie # es) = (case intact_record ie of None \<Rightarrow> records_in es | Some r \<Rightarrow> r # records_in es)"
  by (simp add: records_in_def List.map_filter_simps split: option.split)

lemma records_in_filter:
  assumes "\<And>c e r. (c, e) \<in> set es \<Longrightarrow> ckd_record e = Some (Intact r) \<Longrightarrow> rec_id r = c"
  shows "records_in (filter (\<lambda>(i, _). i \<notin> N) es) = filter (\<lambda>r. rec_id r \<notin> N) (records_in es)"
  using assms
proof (induction es)
  case (Cons ie es)
  obtain i e where ie: "ie = (i, e)" by (cases ie)
  have IH: "records_in (filter (\<lambda>(i, _). i \<notin> N) es) = filter (\<lambda>r. rec_id r \<notin> N) (records_in es)"
    by (rule Cons.IH) (use Cons.prems in auto)
  have "rec_id r = i" if "intact_record ie = Some r" for r
    using that Cons.prems [of i e r] by (simp add: ie intact_record_Some)
  then show ?case using IH by (auto simp: records_in_Cons ie split: option.split)
qed (simp add: records_in_def)

lemma listing_filter:
  "entries_ok es \<Longrightarrow> sort_records (records_in (filter (\<lambda>(i, _). i \<notin> N) es)) =
     filter (\<lambda>r. rec_id r \<notin> N) (sort_records (records_in es))"
  by (simp add: records_in_filter entries_ok_set sort_records_def filter_sort)

lemma distinct_rec_ids:
  "entries_ok es \<Longrightarrow> distinct (map rec_id (records_in es))"
proof (induction es)
  case (Cons ie es)
  obtain i e where ie: "ie = (i, e)" by (cases ie)
  have ok: "entries_ok es" and new: "i \<notin> fst ` set es"
    using Cons.prems by (auto simp: entries_ok_set ie)
  have "rec_id r \<in> fst ` set es" if "r \<in> set (records_in es)" for r
    using that listed_record [OF ok, of r] by (auto dest: map_of_SomeD intro: rev_image_eqI)
  moreover have "rec_id r = i" if "intact_record ie = Some r" for r
    using that Cons.prems by (auto simp: ie intact_record_Some entries_ok_set)
  ultimately show ?case
    using Cons.IH [OF ok] new by (auto simp: records_in_Cons split: option.split)
qed (simp add: records_in_def)

lemma distinct_listing: "lineages_ok s \<Longrightarrow> distinct (map rec_id (listing s w))"
  using distinct_rec_ids [OF lineages_okD, of s w]
  by (simp add: listing_def sort_records_def distinct_map)


text \<open>
  C24: a restore sets disk and head to the checkpoint and treats the newer checkpoints as its
  mode says: in the listing, oldest first, \<open>Rollback\<close> keeps the checkpoints up to the
  target and deletes exactly those after it, \<open>Replace\<close> keeps all of them.
\<close>

theorem restore_checkpoint_exact:
  assumes "lineages_ok s" and "restore_checkpoint E W w c mode s = (Inr r, s')"
  shows "\<exists>older newer. listing s w = older @ r # newer \<and> rec_id r = c \<and>
    listing s' w = (if mode = Rollback then older @ [r] else older @ r # newer) \<and>
    head_of s' w = Some c \<and> disk_of s' w = snapshot_of s w c \<and> disk_of s' w \<noteq> None"
proof -
  let ?es = "ents (lineages s w)"
  have ok: "entries_ok ?es" using assms(1) by (rule lineages_okD)
  have restored: "sort_records (records_in (restored_entries mode newer ?es)) =
      (if mode = Rollback then older @ [t] else older @ t # newer)"
    if "sort_records (records_in ?es) = older @ t # newer" for older t newer
  proof -
    from distinct_listing [OF assms(1), of w] that
    have "distinct (map rec_id (older @ t # newer))" by (simp add: listing_def)
    then have "filter (\<lambda>r. rec_id r \<notin> rec_id ` set newer) (older @ t # newer) = older @ [t]"
      by (auto simp: filter_id_conv filter_empty_conv)
    with that listing_filter [OF ok, of "rec_id ` set newer"] show ?thesis
      by (auto simp: restored_entries_def)
  qed
  have "wp (restore_checkpoint E W w c mode)
    (\<lambda>r s'. \<exists>older newer. listing s w = older @ r # newer \<and> rec_id r = c \<and>
      listing s' w = (if mode = Rollback then older @ [r] else older @ r # newer) \<and>
      head_of s' w = Some c \<and> disk_of s' w = snapshot_of s w c \<and> disk_of s' w \<noteq> None) (\<lambda>_ _. True) s"
  proof (rule wp_restore_checkpointI)
    fix n t newer and d :: lineage_dir
    assume split: "split_target c (sort_records (records_in ?es)) = Some (t, newer)"
      and new: "ln_entries d = restored_entries mode newer ?es" "snapshot_of s w c \<noteq> None"
        "ln_head d = Some (Intact \<lparr>lh_head_checkpoint_id = Some c\<rparr>)"
    let ?t = "s\<lparr>calls := n, lineages := (lineages s)(w \<mapsto> d), workspaces := (workspaces s)(w \<mapsto> snapshot_of s w c)\<rparr>"
    from split_target_append [OF split] obtain older
      where old: "sort_records (records_in ?es) = older @ t # newer" and "rec_id t = c"
      by (auto simp: rec_id_def)
    with restored [OF old] new
    show "\<exists>older' newer'. listing s w = older' @ t # newer' \<and> rec_id t = c \<and>
      listing ?t w = (if mode = Rollback then older' @ [t] else older' @ t # newer') \<and>
      head_of ?t w = Some c \<and> disk_of ?t w = snapshot_of s w c \<and> disk_of ?t w \<noteq> None"
      by (intro exI [of _ older] exI [of _ newer]) (simp add: listing_def head_of_def)
  qed simp
  from wp_runD [OF this assms(2)] show ?thesis .
qed


section \<open>Deleting and forking\<close>

lemma delete_checkpoint_effect:
  assumes "lineages_ok s" and "headf (lineages s w) = Some (Intact \<lparr>lh_head_checkpoint_id = h\<rparr>)"
  shows "wp (store_delete_checkpoint E w c)
    (\<lambda>_ s'. listing s' w = filter (\<lambda>r. rec_id r \<noteq> c) (listing s w) \<and>
       headf (lineages s' w) = Some (Intact \<lparr>lh_head_checkpoint_id = (if h = Some c then
         (case record_file_of s w c of Some (Intact r) \<Rightarrow> ckr_source_checkpoint_id r | _ \<Rightarrow> None) else h)\<rparr>))
    (\<lambda>_ _. True) s"
proof -
  have ok: "entries_ok (ents (lineages s w))" using assms(1) by (rule lineages_okD)
  from listing_filter [OF ok, of "{c}"]
  have del: "sort_records (records_in (AList.delete c (ents (lineages s w)))) =
      filter (\<lambda>r. rec_id r \<noteq> c) (sort_records (records_in (ents (lineages s w))))"
    by (simp add: AList.delete_eq eq_commute)
  show ?thesis
    by (rule wp_store_delete_checkpointI) (simp_all add: listing_def del assms(2))
qed

text \<open>
  Deleting a checkpoint removes it and nothing else from the listing; the head stays
  unless it was the deleted checkpoint, in which case it moves to the checkpoint that one
  was taken on top of.
\<close>

theorem delete_checkpoint_exact:
  assumes "lineages_ok s" and "headf (lineages s w) = Some (Intact \<lparr>lh_head_checkpoint_id = h\<rparr>)"
    and "store_delete_checkpoint E w c s = (Inr (), s')"
  shows "listing s' w = filter (\<lambda>r. rec_id r \<noteq> c) (listing s w) \<and>
    head_of s' w = (if h = Some c then
      (case record_file_of s w c of Some (Intact r) \<Rightarrow> ckr_source_checkpoint_id r | _ \<Rightarrow> None) else h)"
  using wp_runD [OF delete_checkpoint_effect [OF assms(1,2)] assms(3)] by (simp add: head_of_def)

text \<open>
  A fork starts the new workspace from the checkpoint and leaves the source alone: the new
  disk is the snapshot, the new workspace has no head, the record returned is the
  checkpoint's, and every other workspace, the source included, is unchanged.
\<close>

theorem fork_workspace_exact:
  assumes "fork_workspace E W w c v s = (Inr r, s')"
  shows "record_file_of s w c = Some (Intact r) \<and> disk_of s' v = snapshot_of s w c \<and> disk_of s' v \<noteq> None \<and>
    head_of s' v = None \<and> listing s' v = listing s v \<and>
    (\<forall>u. u \<noteq> v \<longrightarrow> workspace_view s' u = workspace_view s u)"
proof -
  have "wp (fork_workspace E W w c v)
    (\<lambda>r s'. record_file_of s w c = Some (Intact r) \<and> disk_of s' v = snapshot_of s w c \<and> disk_of s' v \<noteq> None \<and>
      head_of s' v = None \<and> listing s' v = listing s v \<and>
      (\<forall>u. u \<noteq> v \<longrightarrow> workspace_view s' u = workspace_view s u)) (\<lambda>_ _. True) s"
    by (rule wp_fork_workspaceI) (simp_all add: listing_def head_of_def workspace_view_def)
  from wp_runD [OF this assms] show ?thesis .
qed

section \<open>Runs without failures\<close>

text \<open>A workspace that can be checkpointed: it has a disk and a readable lineage with a valid head.\<close>

definition usable :: "'z store_files_scheme \<Rightarrow> string \<Rightarrow> bool" where
  "usable s w \<longleftrightarrow> persisted_id w \<and> disk_of s w \<noteq> None \<and> readable (ents (lineages s w)) \<and>
     (\<exists>c. headf (lineages s w) = Some (Intact \<lparr>lh_head_checkpoint_id = c\<rparr>) \<and> (\<forall>i. c = Some i \<longrightarrow> persisted_id i)) \<and>
     (\<forall>r \<in> set (listing s w). persisted_id (rec_id r))"

lemma readable_update: "readable es \<Longrightarrow> readable (AList.update c (saved_entry r d) es)"
  by (induction es) (auto simp: readable_def)

lemma wp_total_create_checkpoint:
  assumes "no_faults E" and "persisted_id (lease_workspace_id lease)"
    and "\<And>u. persisted_id (uuid_string E u)"
    and "readable (ents (lineages s (lease_workspace_id lease)))"
    and "headf (lineages s (lease_workspace_id lease)) = Some (Intact \<lparr>lh_head_checkpoint_id = src\<rparr>)"
    and "\<And>i. src = Some i \<Longrightarrow> persisted_id i"
    and "disk_of s (lease_workspace_id lease) \<noteq> None"
    and "\<And>n d m now. calls s \<le> m \<Longrightarrow> m < n \<Longrightarrow>
      ln_entries d = AList.update (uuid_string E (uuid_at E m))
        (saved_entry (new_checkpoint (uuid_string E (uuid_at E m)) (lease_workspace_id lease) name md now src changes)
          (disk_of s (lease_workspace_id lease)))
        (ents (lineages s (lease_workspace_id lease))) \<Longrightarrow>
      ln_head d = Some (Intact \<lparr>lh_head_checkpoint_id = Some (uuid_string E (uuid_at E m))\<rparr>) \<Longrightarrow>
      Q (new_checkpoint (uuid_string E (uuid_at E m)) (lease_workspace_id lease) name md now src changes)
        (s\<lparr>calls := n, lineages := (lineages s)(lease_workspace_id lease \<mapsto> d)\<rparr>)"
  shows "wp (create_checkpoint E lease changes name md) Q R s"
  unfolding create_checkpoint_def Let_def using assms(1-7)
  by (auto simp: wp_simps readable_update simp flip: saved_entry_def intro!: wp_total)
    (erule assms(8); auto)

lemma wp_total_delete_checkpoint_ids:
  assumes "no_faults E" and "persisted_id w" and "list_all persisted_id cs" and "lineages s w \<noteq> None"
    and "\<And>n d. calls s \<le> n \<Longrightarrow> ln_head d = headf (lineages s w) \<Longrightarrow>
      ln_entries d = delete_all cs (ents (lineages s w)) \<Longrightarrow>
      Q () (s\<lparr>calls := n, lineages := (lineages s)(w \<mapsto> d)\<rparr>)"
  shows "wp (delete_checkpoint_ids E w cs) Q R s"
  unfolding delete_checkpoint_ids_def using assms
proof (induction cs arbitrary: s)
  case Nil
  then obtain d where "lineages s w = Some d" by blast
  with Nil.prems(5) [of "calls s" d] show ?case by (simp add: wp_simps fun_upd_idem)
next
  case (Cons c cs)
  show ?case
  proof (simp only: forE.simps wp_simps, rule wp_total_delete_checkpoint)
    fix n and d :: lineage_dir
    assume d: "calls s \<le> n" "ln_head d = headf (lineages s w)" "ln_entries d = AList.delete c (ents (lineages s w))"
    show "wp (forE cs (delete_checkpoint E w)) Q R (s\<lparr>calls := n, lineages := (lineages s)(w \<mapsto> d)\<rparr>)"
      using d Cons.prems(1-3)
      by (intro Cons.IH) (auto intro!: Cons.prems(5) simp: fun_upd_same simp del: fun_upd_apply)
  qed (use Cons.prems in auto)
qed


lemma wp_total_restore_checkpoint:
  assumes "no_faults E" and "persisted_id w" and "persisted_id c" and "readable (ents (lineages s w))"
    and "split_target c (sort_records (records_in (ents (lineages s w)))) = Some (t, newer)"
    and "list_all persisted_id (map rec_id newer)" and "snapshot_of s w c \<noteq> None"
    and "\<And>n d. calls s \<le> n \<Longrightarrow>
      Q t (s\<lparr>calls := n, lineages := (lineages s)(w \<mapsto> d), workspaces := (workspaces s)(w \<mapsto> snapshot_of s w c)\<rparr>)"
  shows "wp (restore_checkpoint E W w c mode) Q R s"
proof -
  from assms(7) obtain y where y: "snapshot_of s w c = Some y" by blast
  then have y': "Option.bind (map_of (ents (lineages s w)) c) ckd_snapshot = Some y"
    by (simp add: snapshot_of_ents)
  have "readable (filter P es)" if "readable es" for P es
    using that by (auto simp: readable_def list_all_iff)
  then show ?thesis
    unfolding restore_checkpoint_def rec_ids using assms(1-6)
    by (auto simp: wp_simps snapshot_of_lineage y' delete_all_filter
        intro!: wp_total wp_total_delete_checkpoint_ids assms(8) [unfolded y])
qed

lemma split_target_exists: "r \<in> set rs \<Longrightarrow> \<exists>t newer. split_target (rec_id r) rs = Some (t, newer) \<and> set newer \<subseteq> set rs"
  by (induction rs) (auto simp: rec_id_def)

lemma intact_saved [simp]: "intact_record (c, saved_entry r d) = Some r"
  by (simp add: intact_record_def)

lemma records_in_update:
  "set (records_in (AList.update c (saved_entry r d) es)) \<subseteq> insert r (set (records_in es))"
  by (induction es) (auto simp: records_in_Cons records_in_def [of "[]"] split: option.splits if_splits)

lemma update_records_in: "r \<in> set (records_in (AList.update c (saved_entry r d) es))"
  by (induction es) (auto simp: records_in_Cons split: option.split)


lemma create_then_restore:
  assumes "no_faults E" and "\<forall>u. persisted_id (uuid_string E u)" and "lineages_ok s" and "usable s w"
  shows "\<exists>r s\<^sub>1. create_checkpoint E (lease_of W w) changes name metadata s = (Inr r, s\<^sub>1) \<and>
    (\<exists>s\<^sub>2. restore_checkpoint E W w (rec_id r) mode (upd_disk w f s\<^sub>1) = (Inr r, s\<^sub>2) \<and> disk_of s\<^sub>2 w = disk_of s w)"
proof -
  let ?es = "ents (lineages s w)"
  from assms(4) obtain src where head: "headf (lineages s w) = Some (Intact \<lparr>lh_head_checkpoint_id = src\<rparr>)"
    and src: "\<And>i. src = Some i \<Longrightarrow> persisted_id i" and w: "persisted_id w" and disk: "disk_of s w \<noteq> None"
    and readable: "readable ?es" and ids: "\<And>r. r \<in> set (records_in ?es) \<Longrightarrow> persisted_id (rec_id r)"
    by (auto simp: usable_def listing_def)
  have "wp (create_checkpoint E (lease_of W w) changes name metadata)
    (\<lambda>r s\<^sub>1. \<exists>s\<^sub>2. restore_checkpoint E W w (rec_id r) mode (upd_disk w f s\<^sub>1) = (Inr r, s\<^sub>2) \<and>
       disk_of s\<^sub>2 w = disk_of s w) (\<lambda>_ _. False) s"
  proof (rule wp_total_create_checkpoint)
    fix n m now and d :: lineage_dir
    let ?c = "uuid_string E (uuid_at E m)"
    let ?r = "new_checkpoint ?c w name metadata now src changes"
    let ?s = "upd_disk w f (s\<lparr>calls := n, lineages := (lineages s)(w \<mapsto> d)\<rparr>)"
    assume "ln_entries d = AList.update (uuid_string E (uuid_at E m)) (saved_entry
      (new_checkpoint (uuid_string E (uuid_at E m)) (lease_workspace_id (lease_of W w)) name metadata now src changes)
      (disk_of s (lease_workspace_id (lease_of W w)))) (ents (lineages s (lease_workspace_id (lease_of W w))))"
    then have es: "ents (lineages ?s w) = AList.update ?c (saved_entry ?r (disk_of s w)) ?es"
      by (simp add: upd_disk_def)
    have ok: "entries_ok (ents (lineages ?s w))"
      unfolding es by (rule saved_entry_ok) (use assms(3) in \<open>auto simp: lineages_okD\<close>)
    have listed: "?r \<in> set (sort_records (records_in (ents (lineages ?s w))))"
      unfolding es by (simp add: update_records_in)
    from split_target_exists [OF this] obtain t newer
      where t: "split_target ?c (sort_records (records_in (ents (lineages ?s w)))) = Some (t, newer)"
        and newer: "set newer \<subseteq> set (records_in (ents (lineages ?s w)))" by auto
    have entry: "map_of (ents (lineages ?s w)) ?c = Some (saved_entry ?r (disk_of s w))"
      unfolding es by (simp add: update_conv')
    from split_target_found [OF ok this _ t] have "t = ?r" by simp
    moreover have "list_all persisted_id (map rec_id newer)"
      using newer records_in_update [of ?c ?r "disk_of s w" ?es] ids assms(2) unfolding es
      by (auto simp: list_all_iff)
    moreover have "snapshot_of ?s w ?c = disk_of s w"
      unfolding snapshot_of_ents entry by simp
    ultimately have "wp (restore_checkpoint E W w ?c mode) (\<lambda>t s\<^sub>2. t = ?r \<and> disk_of s\<^sub>2 w = disk_of s w) (\<lambda>_ _. False) ?s"
      using t assms(1,2) w disk readable_update [OF readable, of ?c ?r "disk_of s w"]
      by (intro wp_total_restore_checkpoint [OF _ _ _ _ t]) (simp_all add: es)
    from wp_returns [OF this]
    show "\<exists>s\<^sub>2. restore_checkpoint E W w (rec_id (new_checkpoint (uuid_string E (uuid_at E m))
      (lease_workspace_id (lease_of W w)) name metadata now src changes)) mode
        (upd_disk w f (s\<lparr>calls := n, lineages := (lineages s)(lease_workspace_id (lease_of W w) \<mapsto> d)\<rparr>)) =
      (Inr (new_checkpoint (uuid_string E (uuid_at E m)) (lease_workspace_id (lease_of W w)) name metadata now src changes), s\<^sub>2) \<and>
      disk_of s\<^sub>2 w = disk_of s w" by auto
  qed (use assms(1,2) head src w disk readable in auto)
  from wp_returns [OF this] show ?thesis by blast
qed


text \<open>
  C34: on a host without failures a usable workspace can be checkpointed, and right after any
  guest writes the checkpoint can be restored: both operations return, in either mode, and
  the disk is back.
\<close>

theorem checkpoint_restore_returns:
  assumes "no_faults E" and "\<forall>u. persisted_id (uuid_string E u)" and "lineages_ok s" and "usable s w"
  shows "\<exists>r s\<^sub>1. create_checkpoint E (lease_of W w) changes name metadata s = (Inr r, s\<^sub>1) \<and>
    (\<exists>s\<^sub>2. restore_checkpoint E W w (rec_id r) mode (upd_disk w f s\<^sub>1) = (Inr r, s\<^sub>2) \<and> disk_of s\<^sub>2 w = disk_of s w)"
  using assms by (rule create_then_restore)

section \<open>Example runs\<close>

lemma inj_decimal: "inj decimal"
  by (rule injI) (metis lessI less_SucI parse_unsigned_decimal option.inject linorder_neqE_nat less_trans)

lemma persisted_decimal: "persisted_id (decimal n)"
  using decimal_digits [of n]
  by (auto simp: persisted_id_def list_all_iff persisted_id_char_def is_ascii_alphanumeric_def)

lemma no_faults_quiet: "no_faults quiet_env"
  by (simp add: no_faults_def quiet_env_def)

lemma quiet_uuids: "inj (uuid_at quiet_env)" "inj (uuid_string quiet_env)" "persisted_id (uuid_string quiet_env u)"
  by (simp_all add: quiet_env_def inj_decimal persisted_decimal) (simp add: inj_def)

definition demo_store :: workspace_store where
  "demo_store = \<lparr>wst_state_dir = ''/s'', wst_disk_size_mib = 64\<rparr>"

definition demo_record :: "string \<Rightarrow> string option \<Rightarrow> u64 \<Rightarrow> checkpoint_record" where
  "demo_record c src t = new_checkpoint c ''a'' None [] t src []"

text \<open>A workspace \<open>a\<close> with two checkpoints, the second taken on top of the first.\<close>

definition demo_files :: store_files where
  "demo_files = \<lparr>calls = 0, admin_file = None, box_credential_file = None,
     lineages = [''a'' \<mapsto> \<lparr>ln_head = Some (Intact \<lparr>lh_head_checkpoint_id = Some ''c2''\<rparr>),
       ln_entries = [(''c1'', saved_entry (demo_record ''c1'' None 1) (Some (zero_disk 1))),
                     (''c2'', saved_entry (demo_record ''c2'' (Some ''c1'') 2) (Some (zero_disk 2)))]\<rparr>],
     workspaces = [''a'' \<mapsto> Some (zero_disk 3)], run_paths = {}\<rparr>"

lemma demo_entries:
  "ents (lineages demo_files w) = (if w = ''a'' then
     [(''c1'', saved_entry (demo_record ''c1'' None 1) (Some (zero_disk 1))),
      (''c2'', saved_entry (demo_record ''c2'' (Some ''c1'') 2) (Some (zero_disk 2)))] else [])"
  "headf (lineages demo_files ''a'') = Some (Intact \<lparr>lh_head_checkpoint_id = Some ''c2''\<rparr>)"
  "workspaces demo_files ''a'' = Some (Some (zero_disk 3))"
  by (simp_all add: demo_files_def)

lemma demo_record_simps [simp]:
  "demo_record c src t = demo_record c' src' t' \<longleftrightarrow> c = c' \<and> src = src' \<and> t = t'"
  "rec_id (demo_record c src t) = c" "ckr_source_checkpoint_id (demo_record c src t) = src"
  by (auto simp: demo_record_def new_checkpoint_def rec_id_def)

lemma demo_ids [simp]: "persisted_id ''a''" "persisted_id ''c1''" "persisted_id ''c2''" "persisted_id ''b''"
  by code_simp+

lemma demo_listing: "listing demo_files ''a'' = [demo_record ''c1'' None 1, demo_record ''c2'' (Some ''c1'') 2]"
  by (simp add: listing_def demo_entries records_in_Cons sort_records_def record_key_def demo_record_def
      new_checkpoint_def records_in_def [of "[]"])

lemma demo_ok: "lineages_ok demo_files" "usable demo_files ''a''"
  by (auto simp: lineages_ok_def entries_ok_set demo_entries usable_def disk_of_Some readable_def demo_listing)


theorem workspaces_isolated_witness:
  "workspace_view (run_steps (checkpoint_step quiet_env demo_store)
     [CkFork ''a'' ''c1'' ''b'', CkRemove ''b'', CkGuestWrite ''b'' (zero_disk 9)] demo_files) ''a'' =
   workspace_view demo_files ''a''"
  by (rule workspaces_isolated) simp

theorem checkpoint_restore_returns_witness:
  "\<exists>r s\<^sub>1. create_checkpoint quiet_env (lease_of demo_store ''a'') [] None [] demo_files = (Inr r, s\<^sub>1) \<and>
    (\<exists>s\<^sub>2. restore_checkpoint quiet_env demo_store ''a'' (rec_id r) Rollback (upd_disk ''a'' (\<lambda>_. zero_disk 9) s\<^sub>1) =
       (Inr r, s\<^sub>2) \<and> disk_of s\<^sub>2 ''a'' = Some (zero_disk 3))"
  using checkpoint_restore_returns [OF no_faults_quiet _ demo_ok, of demo_store "[]" None "[]" Rollback "\<lambda>_. zero_disk 9"]
  by (simp add: quiet_uuids disk_of_def demo_entries)

theorem checkpoint_restore_roundtrip_witness:
  "\<exists>r s\<^sub>1 s\<^sub>2. create_checkpoint quiet_env (lease_of demo_store ''a'') [] None [] demo_files = (Inr r, s\<^sub>1) \<and>
     restore_checkpoint quiet_env demo_store ''a'' (rec_id r) Replace
       (run_steps (checkpoint_step quiet_env demo_store) [CkGuestWrite ''a'' (zero_disk 9)] s\<^sub>1) = (Inr r, s\<^sub>2) \<and>
     disk_of s\<^sub>2 ''a'' = Some (zero_disk 3)"
proof -
  from create_then_restore [OF no_faults_quiet _ demo_ok, of demo_store "[]" None "[]" Replace "\<lambda>_. zero_disk 9"]
  obtain r s\<^sub>1 s\<^sub>2 where c: "create_checkpoint quiet_env (lease_of demo_store ''a'') [] None [] demo_files = (Inr r, s\<^sub>1)"
    and "restore_checkpoint quiet_env demo_store ''a'' (rec_id r) Replace (upd_disk ''a'' (\<lambda>_. zero_disk 9) s\<^sub>1) = (Inr r, s\<^sub>2)"
    using quiet_uuids by blast
  then have r: "restore_checkpoint quiet_env demo_store ''a'' (rec_id r) Replace
      (run_steps (checkpoint_step quiet_env demo_store) [CkGuestWrite ''a'' (zero_disk 9)] s\<^sub>1) = (Inr r, s\<^sub>2)"
    by simp
  from checkpoint_restore_roundtrip [OF quiet_uuids(1,2) demo_ok(1) c _ r]
  have "disk_of s\<^sub>2 ''a'' = Some (zero_disk 3)" by (simp add: disk_of_def demo_entries)
  with c r show ?thesis by blast
qed

lemma demo_snapshots: "snapshot_of demo_files ''a'' ''c1'' = Some (zero_disk 1)"
  "record_file_of demo_files ''a'' ''c1'' = Some (Intact (demo_record ''c1'' None 1))"
  "record_file_of demo_files ''a'' ''c2'' = Some (Intact (demo_record ''c2'' (Some ''c1'') 2))"
  by (simp_all add: snapshot_of_ents record_file_of_def entry_of_ents demo_entries)

theorem restore_checkpoint_exact_witness:
  "\<exists>s'. restore_checkpoint quiet_env demo_store ''a'' ''c1'' Rollback demo_files = (Inr (demo_record ''c1'' None 1), s') \<and>
     listing s' ''a'' = [demo_record ''c1'' None 1] \<and> head_of s' ''a'' = Some ''c1''"
proof -
  have "split_target ''c1'' (sort_records (records_in (ents (lineages demo_files ''a'')))) =
      Some (demo_record ''c1'' None 1, [demo_record ''c2'' (Some ''c1'') 2])"
    using demo_listing by (simp add: listing_def demo_record_def)
  then have "wp (restore_checkpoint quiet_env demo_store ''a'' ''c1'' Rollback)
      (\<lambda>r _. r = demo_record ''c1'' None 1) (\<lambda>_ _. False) demo_files"
    by (rule wp_total_restore_checkpoint [OF no_faults_quiet, rotated 3])
      (simp_all add: demo_snapshots readable_def demo_entries(1))
  from wp_returns [OF this] obtain s' where r:
    "restore_checkpoint quiet_env demo_store ''a'' ''c1'' Rollback demo_files = (Inr (demo_record ''c1'' None 1), s')" by blast
  from restore_checkpoint_exact [OF demo_ok(1) r] r show ?thesis
    by (auto simp: demo_listing Cons_eq_append_conv)
qed

lemma demo_delete:
  assumes "lineages_ok s" and "ents (lineages s ''a'') = es" and "readable es" and "persisted_id c"
    and "headf (lineages s ''a'') = Some (Intact \<lparr>lh_head_checkpoint_id = Some ''c2''\<rparr>)"
    and "record_file_of s ''a'' c = Some (Intact r)"
    and "\<And>i. ckr_source_checkpoint_id r = Some i \<Longrightarrow> persisted_id i"
  shows "\<exists>s'. store_delete_checkpoint quiet_env ''a'' c s = (Inr (), s') \<and> ents (lineages s' ''a'') = AList.delete c es"
proof -
  have "readable (AList.delete c es)" using assms(3) by (auto simp: readable_def list_all_iff AList.delete_eq)
  moreover have [simp]: "record_file_of (s\<lparr>calls := n\<rparr>) ''a'' c = record_file_of s ''a'' c" for n
    by (simp add: record_file_of_def entry_of_ents)
  moreover have "lineages s ''a'' \<noteq> None" using assms(5) by (cases "lineages s ''a''") auto
  ultimately have "wp (store_delete_checkpoint quiet_env ''a'' c)
      (\<lambda>_ s'. ents (lineages s' ''a'') = AList.delete c es) (\<lambda>_ _. False) s"
    unfolding store_delete_checkpoint_def using assms
    by (auto simp: wp_simps no_faults_quiet intro!: wp_total wp_total_load_checkpoint [where r = r])
  from wp_returns [OF this] show ?thesis by auto
qed

theorem delete_checkpoint_exact_witness:
  "\<exists>s'. store_delete_checkpoint quiet_env ''a'' ''c2'' demo_files = (Inr (), s') \<and>
     listing s' ''a'' = [demo_record ''c1'' None 1] \<and> head_of s' ''a'' = Some ''c1''"
proof -
  from demo_delete [OF demo_ok(1) refl, of "''c2''"] obtain s'
    where d: "store_delete_checkpoint quiet_env ''a'' ''c2'' demo_files = (Inr (), s')"
    by (auto simp: demo_snapshots demo_entries readable_def)
  from delete_checkpoint_exact [OF demo_ok(1) demo_entries(2) d] d show ?thesis
    by (auto simp: demo_listing demo_snapshots)
qed

theorem fork_workspace_exact_witness:
  "\<exists>s'. fork_workspace quiet_env demo_store ''a'' ''c1'' ''b'' demo_files = (Inr (demo_record ''c1'' None 1), s') \<and>
     disk_of s' ''b'' = Some (zero_disk 1) \<and> workspace_view s' ''a'' = workspace_view demo_files ''a''"
proof -
  have "wp (fork_workspace quiet_env demo_store ''a'' ''c1'' ''b'') (\<lambda>r _. r = demo_record ''c1'' None 1) (\<lambda>_ _. False) demo_files"
    unfolding fork_workspace_def load_checkpoint_record_def
    by (auto simp: wp_simps no_faults_quiet demo_snapshots readable_def demo_entries snapshot_of_lineage
        intro!: wp_total wp_total_load_checkpoint [OF _ _ _ demo_snapshots(2)])
  from wp_returns [OF this] obtain s' where r:
    "fork_workspace quiet_env demo_store ''a'' ''c1'' ''b'' demo_files = (Inr (demo_record ''c1'' None 1), s')" by blast
  from fork_workspace_exact [OF r] r show ?thesis by (auto simp: demo_snapshots)
qed


text \<open>
  The head may dangle. Deleting a checkpoint does not rewrite the checkpoints taken on top
  of it: when the first of two checkpoints is deleted and then the second, which is the
  head, the head moves to the first, which no longer exists.
\<close>

theorem head_may_dangle:
  "\<exists>s\<^sub>1 s\<^sub>2. store_delete_checkpoint quiet_env ''a'' ''c1'' demo_files = (Inr (), s\<^sub>1) \<and>
     store_delete_checkpoint quiet_env ''a'' ''c2'' s\<^sub>1 = (Inr (), s\<^sub>2) \<and>
     head_of s\<^sub>2 ''a'' = Some ''c1'' \<and> ''c1'' \<notin> rec_id ` set (listing s\<^sub>2 ''a'')"
proof -
  from demo_delete [OF demo_ok(1) refl, of "''c1''"] obtain s\<^sub>1
    where d1: "store_delete_checkpoint quiet_env ''a'' ''c1'' demo_files = (Inr (), s\<^sub>1)"
      and es: "ents (lineages s\<^sub>1 ''a'') = AList.delete ''c1'' (ents (lineages demo_files ''a''))"
    by (auto simp: demo_snapshots demo_entries readable_def)
  from wp_runD [OF delete_checkpoint_effect [OF demo_ok(1) demo_entries(2)] d1]
  have l1: "listing s\<^sub>1 ''a'' = [demo_record ''c2'' (Some ''c1'') 2]"
    and h1: "headf (lineages s\<^sub>1 ''a'') = Some (Intact \<lparr>lh_head_checkpoint_id = Some ''c2''\<rparr>)"
    by (auto simp: demo_listing)
  have ok1: "lineages_ok s\<^sub>1"
    using preservesD [OF preserves_lineages_ok(4) demo_ok(1), of quiet_env "''a''" "''c1''"] d1 by simp
  have rec: "record_file_of s\<^sub>1 ''a'' ''c2'' = Some (Intact (demo_record ''c2'' (Some ''c1'') 2))"
    by (simp add: record_file_of_def entry_of_ents es demo_entries)
  from demo_delete [OF ok1 refl, of "''c2''", OF _ _ h1 rec] obtain s\<^sub>2
    where d2: "store_delete_checkpoint quiet_env ''a'' ''c2'' s\<^sub>1 = (Inr (), s\<^sub>2)"
    by (auto simp: es demo_entries readable_def)
  from wp_runD [OF delete_checkpoint_effect [OF ok1 h1] d2] d1 d2 show ?thesis
    by (auto simp: l1 rec head_of_def)
qed

end
