(* ===== verification/Images.thy ===== *)
theory Images
  imports Checkpoints Config
begin

text \<open>
  The image store (\<open>src/images/store.rs\<close>, \<open>src/images/types.rs\<close>): listing, inspecting and
  removing VM images and resolving the guest a sandbox boots. Building an image (downloads,
  package resolution, ext4 population) is not modelled; an image is its manifest and the
  regular files the host has.
\<close>

section \<open>State\<close>

record vm_image_manifest =
  vim_version :: u32
  vim_name :: string
  vim_arch :: string
  vim_alpine_version :: string
  vim_created_at_ms :: u64
  vim_apk :: "string list"
  vim_pip :: "string list"
  vim_npm :: "string list"
  vim_kernel_image :: string
  vim_rootfs_image :: string
  vim_cache_image :: "string option"
  vim_package_count :: nat

record resolved_image_guest =
  rig_guest :: guest_config
  rig_cache_image :: "string option"

text \<open>\<open>images\<close> holds the directories below \<open>images/\<close> with their \<open>image.json\<close>, if there is one.\<close>

record image_files = store_files +
  images :: "(string \<times> vm_image_manifest json_file option) list"
  regular_files :: "string set"

record image_env = env +
  host_platform :: platform
  file_bytes :: "string \<Rightarrow> u8 list option"

definition BASE_IMAGE_NAME :: string where
  "BASE_IMAGE_NAME = ''base''"

definition BASE_APK_PACKAGES :: "string list" where
  "BASE_APK_PACKAGES = [''bash'', ''python3'', ''py3-pip'', ''ca-certificates-bundle'', ''busybox-binsh'', ''linux-virt'']"

definition default_guest_arch :: "platform \<Rightarrow> string result" where
  "default_guest_arch pf =
     (if target_os pf \<in> {Linux, MacOs} \<and> target_arch pf = Aarch64 then Inr ''aarch64''
      else if target_os pf \<in> {Linux, MacOs} \<and> target_arch pf = X86_64 then Inr ''x86_64''
      else Inl (UnsupportedHost ''unsupported host platform for guest image defaults''))"

definition validate_image_name :: "string \<Rightarrow> unit result" where
  "validate_image_name name = validate_persisted_id name ''image name''"

definition base_manifest :: "platform \<Rightarrow> vm_image_manifest" where
  "base_manifest pf = \<lparr>vim_version = 1, vim_name = BASE_IMAGE_NAME,
     vim_arch = (case default_guest_arch pf of Inr a \<Rightarrow> a | Inl _ \<Rightarrow> ''unknown''),
     vim_alpine_version = ''3.23.4'', vim_created_at_ms = 0, vim_apk = BASE_APK_PACKAGES,
     vim_pip = [], vim_npm = [], vim_kernel_image = ''default runtime kernel'',
     vim_rootfs_image = ''default runtime rootfs'', vim_cache_image = None,
     vim_package_count = length BASE_APK_PACKAGES\<rparr>"

section \<open>Operations\<close>

definition images_dir :: "string \<Rightarrow> string" where
  "images_dir state_dir = path_join state_dir ''images''"

definition image_dir :: "string \<Rightarrow> string \<Rightarrow> string" where
  "image_dir state_dir name = path_join (images_dir state_dir) name"

definition image_manifest_path :: "string \<Rightarrow> string \<Rightarrow> string" where
  "image_manifest_path state_dir name = path_join (image_dir state_dir name) ''image.json''"

definition read_manifest :: "'e env_scheme \<Rightarrow> string \<Rightarrow> vm_image_manifest json_file option \<Rightarrow> ('z host_scheme, vm_image_manifest) io" where
  "read_manifest E path f =
     seqE (sys_io E (''reading '' @ path))
     (case f of
        None \<Rightarrow> throwE (Io (''reading '' @ path) ''No such file or directory (os error 2)'')
      | Some j \<Rightarrow> decode_json (''decoding '' @ path) j)"

definition image_ensure_layout :: "'e env_scheme \<Rightarrow> ('z host_scheme, unit) io" where
  "image_ensure_layout E = seqE (sys_io E ''creating images directory'')
     (sys_io E ''creating package cache directory'')"

definition image_list_entry :: "'e env_scheme \<Rightarrow> string \<Rightarrow> string \<times> vm_image_manifest json_file option \<Rightarrow>
    ('z host_scheme, vm_image_manifest option) io" where
  "image_list_entry E state_dir entry =
     seqE (sys_io E ''reading image entry'')
     (if snd entry = None then returnE None
      else bindE (read_manifest E (image_manifest_path state_dir (fst entry)) (snd entry))
        (\<lambda>m. returnE (Some m)))"

definition image_list :: "'e env_scheme \<Rightarrow> string \<Rightarrow> ('z image_files_scheme, vm_image_manifest list) io" where
  "image_list E state_dir =
     seqE (image_ensure_layout E)
     (seqE (sys_io E ''reading image directory'')
     (bindE (getE images) (\<lambda>dirs.
      bindE (mapE (image_list_entry E state_dir) dirs) (\<lambda>ms.
        returnE (sort_key vim_name (List.map_filter id ms))))))"

definition image_inspect :: "'e image_env_scheme \<Rightarrow> string \<Rightarrow> string \<Rightarrow> ('z image_files_scheme, vm_image_manifest) io" where
  "image_inspect E state_dir name =
     seqE (liftE (validate_image_name name))
     (if name = BASE_IMAGE_NAME then returnE (base_manifest (host_platform E))
      else bindE (getE (\<lambda>s. Option.bind (map_of (images s) name) (\<lambda>f. f))) (\<lambda>f.
        read_manifest E (image_manifest_path state_dir name) f))"

definition image_remove :: "'e env_scheme \<Rightarrow> string \<Rightarrow> string \<Rightarrow> ('z image_files_scheme, unit) io" where
  "image_remove E state_dir name =
     seqE (liftE (validate_image_name name))
     (if name = BASE_IMAGE_NAME then throwE (InvalidConfig ''base image cannot be removed'')
      else bindE (getE (\<lambda>s. map_of (images s) name)) (\<lambda>dir.
        if dir = None then throwE (NotFound (''image '' @ name))
        else bindE (ask (kept_at E)) (\<lambda>kept.
          let gone = (\<lambda>p. starts_with p (image_dir state_dir name @ ''/'')) in
          seqE (sys_io_damaging E (''removing image '' @ name)
                  (\<lambda>s. s\<lparr>images := AList.map_entry name (\<lambda>f. if kept ''image.json'' then f else None) (images s),
                        regular_files := {p \<in> regular_files s. gone p \<longrightarrow> kept p}\<rparr>))
            (modifyE (\<lambda>s. s\<lparr>images := AList.delete name (images s),
                           regular_files := {p \<in> regular_files s. \<not> gone p}\<rparr>)))))"

definition ensure_file :: "string \<Rightarrow> string \<Rightarrow> ('z image_files_scheme, unit) io" where
  "ensure_file path label = bindE (getE (\<lambda>s. path \<in> regular_files s)) (\<lambda>ok.
     if ok then returnE () else throwE (NotFound (label @ '' '' @ path)))"

definition resolve_guest :: "'e image_env_scheme \<Rightarrow> string \<Rightarrow> string \<Rightarrow> guest_config \<Rightarrow>
    ('z image_files_scheme, resolved_image_guest) io" where
  "resolve_guest E state_dir name base_guest =
     seqE (liftE (validate_image_name name))
     (if name = BASE_IMAGE_NAME then returnE \<lparr>rig_guest = base_guest, rig_cache_image = None\<rparr>
      else
        bindE (getE (\<lambda>s. Option.bind (map_of (images s) name) (\<lambda>f. f))) (\<lambda>f.
        bindE (read_manifest E (image_manifest_path state_dir name) f) (\<lambda>m.
          let dir = image_dir state_dir name;
              kernel = path_join dir (vim_kernel_image m);
              rootfs = path_join dir (vim_rootfs_image m);
              cache = map_option (path_join dir) (vim_cache_image m) in
          seqE (ensure_file kernel ''image kernel'')
          (seqE (ensure_file rootfs ''image rootfs'')
          (seqE (case cache of None \<Rightarrow> returnE () | Some p \<Rightarrow> ensure_file p ''image cache'')
            (returnE \<lparr>rig_guest = base_guest\<lparr>kernel_image := kernel,
                        kernel_format := detect_from_path (host_platform E) (file_bytes E) kernel (kernel_format base_guest),
                        rootfs_image := rootfs\<rparr>,
                      rig_cache_image = cache\<rparr>))))))"

section \<open>Frames\<close>

text \<open>Reading images changes nothing but the call counter.\<close>

lemma keeps_read_manifest [keeps_intro]: "counter_free f \<Longrightarrow> keeps f (read_manifest E path j)"
  unfolding read_manifest_def by (auto intro!: keeps_intro)

lemma keeps_image_reads [keeps_intro]:
  fixes f :: "'z image_files_scheme \<Rightarrow> 'v"
  assumes "counter_free f"
  shows "keeps f (image_list E sd)" and "keeps f (image_inspect I sd name)" and "keeps f (resolve_guest I sd name g)"
  unfolding image_list_def image_ensure_layout_def image_list_entry_def image_inspect_def resolve_guest_def
    ensure_file_def Let_def
  using assms by (auto intro!: keeps_intro)

text \<open>
  The base image cannot be removed and resolving it never looks at the image directory,
  and no image name leaves the images directory: a name that is removed, inspected or
  resolved is a single path component.
\<close>

lemma image_names_contained:
  "fst (image_remove E state_dir BASE_IMAGE_NAME s) = Inl (Fail (InvalidConfig ''base image cannot be removed'')) \<and>
   fst (resolve_guest I state_dir BASE_IMAGE_NAME g s) = Inr \<lparr>rig_guest = g, rig_cache_image = None\<rparr> \<and>
   (\<not> isl (fst (image_remove E state_dir name s)) \<or> \<not> isl (fst (image_inspect I state_dir name s)) \<or>
      \<not> isl (fst (resolve_guest I state_dir name g s)) \<longrightarrow> persisted_id name)"
  for s :: "'z image_files_scheme"
proof -
  have base: "persisted_id BASE_IMAGE_NAME" by code_simp
  have ok: "validate_image_name name = Inr () \<longleftrightarrow> persisted_id name" for name
    by (simp add: validate_image_name_def validate_persisted_id_def persisted_id_def)
  have err: "\<exists>e. validate_image_name name = Inl e" if "\<not> persisted_id name" for name
    using that by (auto simp: validate_image_name_def validate_persisted_id_def persisted_id_def)
  from base ok have v: "validate_image_name BASE_IMAGE_NAME = Inr ()" by simp
  have "fst (image_remove E state_dir BASE_IMAGE_NAME s) = Inl (Fail (InvalidConfig ''base image cannot be removed''))"
    by (simp add: image_remove_def io_defs v)
  moreover have "fst (resolve_guest I state_dir BASE_IMAGE_NAME g s) = Inr \<lparr>rig_guest = g, rig_cache_image = None\<rparr>"
    by (simp add: resolve_guest_def io_defs v)
  moreover have "isl (fst (image_remove E state_dir name s)) \<and> isl (fst (image_inspect I state_dir name s)) \<and>
      isl (fst (resolve_guest I state_dir name g s))" if "\<not> persisted_id name"
    using err [OF that] by (auto simp: image_remove_def image_inspect_def resolve_guest_def io_defs)
  ultimately show ?thesis by blast
qed

end
