(* ===== verification/Runtime.thy ===== *)
theory Runtime
  imports Images Guest_Rpc
begin

text \<open>
  The sandbox runtime (\<open>src/runtime\<close>): the registry of active sessions, warm run
  directories and ended sessions, and the service that launches a sandbox on a workspace,
  talks to its guest and destroys it. The virtual machine and its guest are behind two
  interfaces (\<open>Backend\<close>, \<open>GuestRpcClient\<close>); their answers come from the environment, and at
  every call the guest may have written its disk. Log lines on standard error are not part
  of the state.
\<close>

section \<open>Data\<close>

datatype session_state = Active | Destroyed

record session_summary =
  ss_sandbox_id :: uuid
  ss_workspace_id :: string
  ss_state :: session_state
  ss_policy :: execution_policy
  ss_started_at_ms :: u64
  ss_ended_at_ms :: "u64 option"

record session_record =
  sr_summary :: session_summary
  sr_changes :: "workspace_change list"

text \<open>\<open>ms_exec_busy\<close>: the single permit of the exec gate is taken.\<close>

record managed_sandbox =
  ms_summary :: session_summary
  ms_baseline :: workspace_snapshot
  ms_run_layout :: run_layout
  ms_workspace :: workspace_lease
  ms_exec_busy :: bool

record runtime_state = image_files +
  rt_active :: "(uuid \<times> managed_sandbox) list"
  rt_warm_runs :: "run_layout list"
  rt_history :: "(uuid \<times> session_record) list"

record guest_env = image_env +
  launch_at :: "nat \<Rightarrow> unit result"
  connect_at :: "nat \<Rightarrow> unit result"
  backend_shutdown_at :: "nat \<Rightarrow> unit result"
  elapsed_at :: "nat \<Rightarrow> bool"
  guest_disk_at :: "nat \<Rightarrow> disk \<Rightarrow> disk"
  guest_answer_at :: "nat \<Rightarrow> guest_call \<Rightarrow> guest_response result"
  exec_sent_at :: "nat \<Rightarrow> uuid \<Rightarrow> exec_request \<Rightarrow> unit result"
  shell_answer_at :: "nat \<Rightarrow> uuid \<Rightarrow> shell_request \<Rightarrow> guest_response result"
  console_log_at :: "nat \<Rightarrow> string option"
  runner_log_at :: "nat \<Rightarrow> string option"

definition wstore :: "runtime_config \<Rightarrow> workspace_store" where
  "wstore C = \<lparr>wst_state_dir = cfg_state_dir C, wst_disk_size_mib = cfg_disk_size_mib C\<rparr>"

section \<open>The registry (\<open>src/runtime/registry.rs\<close>)\<close>

definition registry_insert :: "managed_sandbox \<Rightarrow> ('z runtime_state_scheme, unit) io" where
  "registry_insert m = modifyE (\<lambda>s. s\<lparr>rt_active := AList.update (ss_sandbox_id (ms_summary m)) m (rt_active s)\<rparr>)"

definition unknown_active :: "'e env_scheme \<Rightarrow> uuid \<Rightarrow> sandbox_error" where
  "unknown_active E u = InvalidConfig (''unknown active sandbox '' @ uuid_string E u)"

definition registry_active :: "'e env_scheme \<Rightarrow> uuid \<Rightarrow> ('z runtime_state_scheme, managed_sandbox) io" where
  "registry_active E u = bindE (getE (\<lambda>s. map_of (rt_active s) u)) (\<lambda>m. case m of
     None \<Rightarrow> throwE (unknown_active E u) | Some m \<Rightarrow> returnE m)"

definition remove_active :: "'e env_scheme \<Rightarrow> uuid \<Rightarrow> ('z runtime_state_scheme, managed_sandbox) io" where
  "remove_active E u = bindE (getE (\<lambda>s. map_of (rt_active s) u)) (\<lambda>m. case m of
     None \<Rightarrow> throwE (unknown_active E u)
   | Some m \<Rightarrow> seqE (modifyE (\<lambda>s. s\<lparr>rt_active := AList.delete u (rt_active s)\<rparr>)) (returnE m))"

definition has_active_workspace :: "string \<Rightarrow> 'z runtime_state_scheme \<Rightarrow> bool" where
  "has_active_workspace w s \<longleftrightarrow> list_ex (\<lambda>(_, m). lease_workspace_id (ms_workspace m) = w) (rt_active s)"

definition registry_list :: "bool \<Rightarrow> 'z runtime_state_scheme \<Rightarrow> session_summary list" where
  "registry_list include_history s =
     sort_key (\<lambda>x. (ss_started_at_ms x, ss_sandbox_id x))
       (map (\<lambda>(_, m). ms_summary m) (rt_active s) @
        (if include_history then map (\<lambda>(_, r). sr_summary r) (rt_history s) else []))"

definition history_record :: "uuid \<Rightarrow> 'z runtime_state_scheme \<Rightarrow> session_record option" where
  "history_record u s = map_of (rt_history s) u"

definition save_history :: "session_record \<Rightarrow> ('z runtime_state_scheme, unit) io" where
  "save_history r = modifyE (\<lambda>s. s\<lparr>rt_history := AList.update (ss_sandbox_id (sr_summary r)) r (rt_history s)\<rparr>)"

definition take_warm_run :: "('z runtime_state_scheme, run_layout option) io" where
  "take_warm_run = bindE (getE rt_warm_runs) (\<lambda>runs.
     if runs = [] then returnE None
     else seqE (modifyE (\<lambda>s. s\<lparr>rt_warm_runs := butlast (rt_warm_runs s)\<rparr>)) (returnE (Some (last runs))))"

text \<open>\<open>while warm_runs.len() > warm_pool_size { warm_runs.remove(0); }\<close>\<close>

function trim_warm :: "nat \<Rightarrow> 'a list \<Rightarrow> 'a list" where
  "trim_warm n runs = (if n < length runs then trim_warm n (tl runs) else runs)"
  by auto
termination by (relation "measure (\<lambda>(n, runs). length runs)") auto

declare trim_warm.simps [simp del]

definition store_warm_run :: "run_layout \<Rightarrow> nat \<Rightarrow> ('z runtime_state_scheme, unit) io" where
  "store_warm_run run warm_pool_size =
     modifyE (\<lambda>s. s\<lparr>rt_warm_runs := trim_warm warm_pool_size (rt_warm_runs s @ [run])\<rparr>)"

definition upd_session :: "uuid \<Rightarrow> (managed_sandbox \<Rightarrow> managed_sandbox) \<Rightarrow> 'z runtime_state_scheme \<Rightarrow> 'z runtime_state_scheme" where
  "upd_session u f s = s\<lparr>rt_active := AList.map_entry u f (rt_active s)\<rparr>"

text \<open>\<open>try_acquire_exec\<close>, and dropping the permit when the stream it is attached to is dropped.\<close>

definition try_acquire_exec :: "uuid \<Rightarrow> managed_sandbox \<Rightarrow> ('z runtime_state_scheme, unit) io" where
  "try_acquire_exec u m =
     (if ms_exec_busy m then throwE (Conflict ''parallel exec is not supported for a running BOX'')
      else modifyE (upd_session u (\<lambda>m. m\<lparr>ms_exec_busy := True\<rparr>)))"

definition release_exec :: "uuid \<Rightarrow> ('z runtime_state_scheme, unit) io" where
  "release_exec u = modifyE (upd_session u (\<lambda>m. m\<lparr>ms_exec_busy := False\<rparr>))"

section \<open>Calls of the guest\<close>

text \<open>
  A call seen by its caller: the guest may write its disk before it answers, and the answer
  is what \<open>Guest_Rpc\<close> delivers to that caller.
\<close>

definition guest_writes :: "'e guest_env_scheme \<Rightarrow> string \<Rightarrow> ('z store_files_scheme, unit) io" where
  "guest_writes E w = bindE (ask (guest_disk_at E)) (\<lambda>writes. modifyE (upd_disk w writes))"

definition rpc_answer :: "'e guest_env_scheme \<Rightarrow> guest_call \<Rightarrow> (guest_response \<Rightarrow> 'a result) \<Rightarrow> ('z host_scheme, 'a result) io" where
  "rpc_answer E c expect = bindE (ask (guest_answer_at E)) (\<lambda>answer.
     returnE (case answer c of Inl error \<Rightarrow> Inl error | Inr r \<Rightarrow> expect r))"

definition rpc_call :: "'e guest_env_scheme \<Rightarrow> string \<Rightarrow> guest_call \<Rightarrow> (guest_response \<Rightarrow> 'a result) \<Rightarrow> ('z store_files_scheme, 'a) io" where
  "rpc_call E w c expect =
     seqE (liftE (call_check c)) (seqE (guest_writes E w) (bindE (rpc_answer E c expect) liftE))"

text \<open>A call under \<open>tokio::time::timeout\<close>: \<open>None\<close> when the time elapsed first.\<close>

definition rpc_call_timed :: "'e guest_env_scheme \<Rightarrow> string \<Rightarrow> guest_call \<Rightarrow> (guest_response \<Rightarrow> 'a result) \<Rightarrow>
    ('z store_files_scheme, 'a result option) io" where
  "rpc_call_timed E w c expect =
     seqE (guest_writes E w)
     (bindE (ask (elapsed_at E)) (\<lambda>elapsed.
       if elapsed then returnE None else bindE (rpc_answer E c expect) (\<lambda>r. returnE (Some r))))"

section \<open>Boot failures (\<open>src/runtime/service/lifecycle.rs\<close>)\<close>

text \<open>\<open>str::lines\<close>: split at newlines, no last empty line, a carriage return before the newline dropped.\<close>

definition strip_cr :: "string \<Rightarrow> string" where
  "strip_cr l = (if l \<noteq> [] \<and> last l = CHR 0x0D then butlast l else l)"

definition rust_lines :: "string \<Rightarrow> string list" where
  "rust_lines t = (let parts = split_on (CHR 0x0A) t in
     map strip_cr (butlast parts) @ (if last parts = [] then [] else [last parts]))"

text \<open>\<open>read_file_tail_lossy\<close> (\<open>src/host_log.rs\<close>): the ring buffer of the last lines.\<close>

fun push_tail :: "nat \<Rightarrow> 'a \<Rightarrow> 'a list \<Rightarrow> 'a list" where
  "push_tail n x tail = (if length tail = n then tl tail else tail) @ [x]"

definition tail_lines :: "nat \<Rightarrow> string \<Rightarrow> string list" where
  "tail_lines n text = fold (push_tail n) (rust_lines text) []"

fun join_lines :: "string list \<Rightarrow> string" where
  "join_lines [] = []"
| "join_lines [l] = l"
| "join_lines (l # ls) = l @ [CHR 0x0A] @ join_lines ls"

definition read_file_tail_lossy :: "nat \<Rightarrow> string option \<Rightarrow> string option" where
  "read_file_tail_lossy n text =
     (if n = 0 then Some [] else map_option (\<lambda>t. join_lines (tail_lines n t)) text)"

definition GUEST_FAILURE_PATTERNS :: "string list" where
  "GUEST_FAILURE_PATTERNS =
     [''Kernel panic - not syncing:'', ''VFS: Cannot open root device'', ''VFS: Unable to mount root fs'',
      ''Can'' @ [CHR 0x27] @ ''t open blockdev'', ''No working init found'', ''Run /init as init process'',
      ''EXT4-fs error'', ''guest agent error:'', ''guest bootstrap failed:'']"

definition RUNNER_FAILURE_PATTERNS :: "string list" where
  "RUNNER_FAILURE_PATTERNS =
     [''unexpected exception:'', ''panicked at'', ''krun_start_enter failed'',
      ''Failed to create listening proxy'', ''failed with'', ''CreatingSocket('']"

definition select_boot_failure_line :: "string option \<Rightarrow> string list \<Rightarrow> string option" where
  "select_boot_failure_line text patterns = Option.bind text (\<lambda>t.
     find (\<lambda>l. l \<noteq> [] \<and> list_ex (contains l) patterns) (map trim (rev (rust_lines t))))"

definition last_nonempty_line :: "string option \<Rightarrow> string option" where
  "last_nonempty_line text = Option.bind text (\<lambda>t. find (\<lambda>l. l \<noteq> []) (map trim (rev (rust_lines t))))"

fun or_else :: "'a option \<Rightarrow> 'a option \<Rightarrow> 'a option" where
  "or_else (Some x) y = Some x"
| "or_else None y = y"

definition boot_failure_detail :: "string option \<Rightarrow> string option \<Rightarrow> string option" where
  "boot_failure_detail console runner =
     (let guest_console = read_file_tail_lossy 200 console; runner_log = read_file_tail_lossy 200 runner in
      or_else (select_boot_failure_line guest_console GUEST_FAILURE_PATTERNS)
      (or_else (select_boot_failure_line runner_log RUNNER_FAILURE_PATTERNS)
      (or_else (last_nonempty_line guest_console) (last_nonempty_line runner_log))))"

fun should_attach_boot_detail :: "string \<Rightarrow> sandbox_error \<Rightarrow> bool" where
  "should_attach_boot_detail stage (Timeout _) = (stage = ''guest connect'' \<or> stage = ''backend launch'')"
| "should_attach_boot_detail stage (Protocol _) = (stage = ''guest connect'')"
| "should_attach_boot_detail stage (Io context _) = (stage = ''guest connect'' \<and> contains context ''guest vsock bridge'')"
| "should_attach_boot_detail stage (Backend message) = (stage = ''backend launch'' \<and>
     (contains message ''startup handshake'' \<or> contains message ''exited before'' \<or> contains message ''thread panicked''))"
| "should_attach_boot_detail stage _ = False"

definition enrich_launch_error :: "string option \<Rightarrow> string option \<Rightarrow> string \<Rightarrow> sandbox_error \<Rightarrow> sandbox_error" where
  "enrich_launch_error console runner stage error =
     (if \<not> should_attach_boot_detail stage error then error
      else case boot_failure_detail console runner of
        None \<Rightarrow> error
      | Some detail \<Rightarrow>
          if contains (display error) detail then error
          else Backend (stage @ '' failed: '' @ detail))"


section \<open>\<open>AgentSandboxService\<close>\<close>

definition launch_failure :: "'e guest_env_scheme \<Rightarrow> string \<Rightarrow> sandbox_error \<Rightarrow> ('z host_scheme, 'a) io" where
  "launch_failure E stage error =
     bindE (ask (console_log_at E)) (\<lambda>console.
     bindE (ask (runner_log_at E)) (\<lambda>runner.
       throwE (enrich_launch_error console runner stage error)))"

text \<open>The checks before anything is prepared.\<close>

definition create_admission :: "runtime_config \<Rightarrow> sandbox_spec \<Rightarrow> ('z runtime_state_scheme, unit) io" where
  "create_admission C spec =
     (if cfg_isolation_mode C = Secure \<and> pol_network_enabled (spec_policy spec) then
        throwE (InvalidConfig ''networking is unsupported in secure isolation mode'')
      else bindE (getE (has_active_workspace (spec_workspace_id spec))) (\<lambda>busy.
        if busy then throwE (InvalidConfig
          (''workspace '' @ spec_workspace_id spec @ '' already has an active sandbox''))
        else returnE ()))"

text \<open>The last part of \<open>create_sandbox_inner\<close>, once the guest is connected.\<close>

definition register_session :: "'e guest_env_scheme \<Rightarrow> sandbox_spec \<Rightarrow> workspace_lease \<Rightarrow> run_layout \<Rightarrow>
    ('z runtime_state_scheme, session_summary) io" where
  "register_session E spec workspace run =
     bindE (now_ms E) (\<lambda>now.
     let summary = \<lparr>ss_sandbox_id = run_sandbox_id run, ss_workspace_id = lease_workspace_id workspace,
           ss_state = Active, ss_policy = spec_policy spec, ss_started_at_ms = now, ss_ended_at_ms = None\<rparr> in
     bindE (rpc_call E (lease_workspace_id workspace) CSnapshot expect_snapshot) (\<lambda>baseline.
     seqE (registry_insert \<lparr>ms_summary = summary, ms_baseline = baseline, ms_run_layout = run,
             ms_workspace = workspace, ms_exec_busy = False\<rparr>)
       (returnE summary)))"

definition create_launch :: "'e guest_env_scheme \<Rightarrow> runtime_config \<Rightarrow> sandbox_spec \<Rightarrow> ('z runtime_state_scheme, session_summary) io" where
  "create_launch E C spec =
     seqE (case spec_restore_commit spec of
             None \<Rightarrow> returnE ()
           | Some commit_id \<Rightarrow>
               seqE (restore_internal_checkpoint E (wstore C) (spec_workspace_id spec) commit_id) (returnE ()))
     (bindE (prepare_workspace E (wstore C) (spec_workspace_id spec)) (\<lambda>workspace.
      bindE (resolve_guest E (cfg_state_dir C) (spec_image spec) (cfg_guest C)) (\<lambda>image.
      bindE take_warm_run (\<lambda>warm.
      bindE (case warm of Some run \<Rightarrow> recycle_run E (wstore C) run | None \<Rightarrow> prepare_run E (wstore C)) (\<lambda>run.
      bindE (tryE (bindE (ask (launch_at E)) liftE)) (\<lambda>launch. case launch of
        Inl error \<Rightarrow> launch_failure E ''backend launch'' error
      | Inr _ \<Rightarrow>
      bindE (tryE (seqE (guest_writes E (lease_workspace_id workspace)) (bindE (ask (connect_at E)) liftE))) (\<lambda>guest. case guest of
        Inl error \<Rightarrow> launch_failure E ''guest connect'' error
      | Inr _ \<Rightarrow>
      register_session E spec workspace run)))))))"

definition create_sandbox :: "'e guest_env_scheme \<Rightarrow> runtime_config \<Rightarrow> sandbox_spec \<Rightarrow> ('z runtime_state_scheme, session_summary) io" where
  "create_sandbox E C spec = seqE (create_admission C spec) (create_launch E C spec)"

text \<open>\<open>sync_guest_best_effort\<close>, \<open>shutdown_guest_best_effort\<close>: whatever the guest answers is only logged.\<close>

definition guest_best_effort :: "'e guest_env_scheme \<Rightarrow> string \<Rightarrow> guest_call \<Rightarrow> ('z store_files_scheme, unit) io" where
  "guest_best_effort E w c = seqE (rpc_call_timed E w c expect_ack) (returnE ())"

definition snapshot_guest_or_baseline :: "'e guest_env_scheme \<Rightarrow> managed_sandbox \<Rightarrow> ('z store_files_scheme, workspace_snapshot) io" where
  "snapshot_guest_or_baseline E m =
     bindE (rpc_call_timed E (lease_workspace_id (ms_workspace m)) CSnapshot expect_snapshot) (\<lambda>r.
       returnE (case r of Some (Inr snapshot) \<Rightarrow> snapshot | _ \<Rightarrow> ms_baseline m))"

definition destroy_sandbox :: "'e guest_env_scheme \<Rightarrow> runtime_config \<Rightarrow> uuid \<Rightarrow> ('z runtime_state_scheme, session_record) io" where
  "destroy_sandbox E C u =
     bindE (getE (history_record u)) (\<lambda>old. case old of
       Some record \<Rightarrow> returnE record
     | None \<Rightarrow>
       bindE (remove_active E u) (\<lambda>m. let w = lease_workspace_id (ms_workspace m) in
       seqE (guest_best_effort E w CSync)
       (bindE (snapshot_guest_or_baseline E m) (\<lambda>final_snapshot.
        let changes = diff (ms_baseline m) final_snapshot in
        bindE (now_ms E) (\<lambda>now.
        let record = \<lparr>sr_summary = (ms_summary m)\<lparr>ss_state := Destroyed, ss_ended_at_ms := Some now\<rparr>,
                      sr_changes = changes\<rparr> in
        seqE (guest_best_effort E w CSync)
        (seqE (guest_best_effort E w CShutdown)
        (seqE (bindE (ask (backend_shutdown_at E)) liftE)
        (seqE (store_warm_run (ms_run_layout m) (cfg_warm_pool_size C))
        (seqE (save_history record)
          (returnE record))))))))))"

definition restore_workspace_checkpoint :: "'e guest_env_scheme \<Rightarrow> runtime_config \<Rightarrow> string \<Rightarrow> string \<Rightarrow>
    ('z runtime_state_scheme, checkpoint_record) io" where
  "restore_workspace_checkpoint E C w c =
     bindE (getE (has_active_workspace w)) (\<lambda>busy.
       if busy then throwE (InvalidConfig (''workspace '' @ w @ '' is currently attached to an active sandbox''))
       else restore_internal_checkpoint E (wstore C) w c)"

subsection \<open>Operations on a running session (\<open>src/runtime/service/ops.rs\<close>)\<close>

definition on_session :: "'e guest_env_scheme \<Rightarrow> uuid \<Rightarrow> guest_call \<Rightarrow> (guest_response \<Rightarrow> 'a result) \<Rightarrow>
    ('z runtime_state_scheme, 'a) io" where
  "on_session E u c expect = bindE (registry_active E u) (\<lambda>m.
     rpc_call E (lease_workspace_id (ms_workspace m)) c expect)"

definition rt_list_files :: "'e guest_env_scheme \<Rightarrow> uuid \<Rightarrow> string \<Rightarrow> ('z runtime_state_scheme, file_node list) io" where
  "rt_list_files E u path = on_session E u (CList path) expect_files"

definition rt_read_file :: "'e guest_env_scheme \<Rightarrow> uuid \<Rightarrow> string \<Rightarrow> u64 \<Rightarrow> ('z runtime_state_scheme, read_file_result) io" where
  "rt_read_file E u path limit = on_session E u (CRead path limit) expect_file"

definition rt_write_file :: "'e guest_env_scheme \<Rightarrow> uuid \<Rightarrow> string \<Rightarrow> u8 list \<Rightarrow> bool \<Rightarrow> ('z runtime_state_scheme, unit) io" where
  "rt_write_file E u path data create_parents = on_session E u (CWrite path data create_parents) expect_ack"

definition rt_make_dir :: "'e guest_env_scheme \<Rightarrow> uuid \<Rightarrow> string \<Rightarrow> bool \<Rightarrow> ('z runtime_state_scheme, unit) io" where
  "rt_make_dir E u path recursive = on_session E u (CMakeDir path recursive) expect_ack"

definition rt_remove_path :: "'e guest_env_scheme \<Rightarrow> uuid \<Rightarrow> string \<Rightarrow> bool \<Rightarrow> ('z runtime_state_scheme, unit) io" where
  "rt_remove_path E u path recursive = on_session E u (CRemove path recursive) expect_ack"

definition rt_runtime_stats :: "'e guest_env_scheme \<Rightarrow> uuid \<Rightarrow> ('z runtime_state_scheme, guest_runtime_stats) io" where
  "rt_runtime_stats E u = on_session E u CStats expect_stats"

definition rt_sync_workspace :: "'e guest_env_scheme \<Rightarrow> uuid \<Rightarrow> ('z runtime_state_scheme, unit) io" where
  "rt_sync_workspace E u = on_session E u CSync expect_ack"

fun expect_shell :: "uuid \<Rightarrow> guest_response \<Rightarrow> uuid result" where
  "expect_shell session_id (RShellOpened opened) =
     (if opened = session_id then Inr session_id else Inl (Protocol ''guest returned an unexpected shell response''))"
| "expect_shell session_id _ = Inl (Protocol ''guest returned an unexpected shell response'')"

definition rt_open_shell :: "'e guest_env_scheme \<Rightarrow> uuid \<Rightarrow> shell_request \<Rightarrow> ('z runtime_state_scheme, uuid) io" where
  "rt_open_shell E u request = bindE (registry_active E u) (\<lambda>m.
     bindE (new_v4 E) (\<lambda>session_id.
     seqE (guest_writes E (lease_workspace_id (ms_workspace m)))
     (bindE (ask (shell_answer_at E)) (\<lambda>answer.
        case answer session_id request of
          Inl error \<Rightarrow> throwE error
        | Inr r \<Rightarrow> liftE (expect_shell session_id r)))))"

text \<open>
  The command id and the request that reaches the guest are returned; the permit stays with
  the stream until \<open>release_exec\<close>, and is dropped at once when the request cannot be sent.
\<close>

definition rt_exec :: "'e guest_env_scheme \<Rightarrow> uuid \<Rightarrow> exec_request \<Rightarrow> ('z runtime_state_scheme, uuid \<times> exec_request) io" where
  "rt_exec E u request =
     bindE (registry_active E u) (\<lambda>m.
     seqE (try_acquire_exec u m)
     (let request' = (if ex_timeout_ms request = None
            then request\<lparr>ex_timeout_ms := pol_timeout_ms (ss_policy (ms_summary m))\<rparr> else request) in
      bindE (new_v4 E) (\<lambda>exec_id.
      seqE (guest_writes E (lease_workspace_id (ms_workspace m)))
      (bindE (ask (exec_sent_at E)) (\<lambda>sent. case sent exec_id request' of
        Inl error \<Rightarrow> seqE (release_exec u) (throwE error)
      | Inr _ \<Rightarrow> returnE (exec_id, request'))))))"

definition capture_workspace_checkpoint :: "'e guest_env_scheme \<Rightarrow> uuid \<Rightarrow> string option \<Rightarrow> (string \<times> string) list \<Rightarrow>
    ('z runtime_state_scheme, checkpoint_record) io" where
  "capture_workspace_checkpoint E u name metadata =
     bindE (registry_active E u) (\<lambda>m. let w = lease_workspace_id (ms_workspace m) in
     seqE (rpc_call E w CSync expect_ack)
     (bindE (rpc_call E w CSnapshot expect_snapshot) (\<lambda>current.
      seqE (rpc_call E w CSync expect_ack)
        (create_internal_checkpoint E (ms_workspace m) (ms_baseline m) current name metadata))))"

section \<open>Frames\<close>

text \<open>
  An observation of the state that reads neither the call counter nor the files of the
  workspace store is unchanged by every operation of the store.
\<close>

definition store_free :: "('z store_files_scheme \<Rightarrow> 'f) \<Rightarrow> bool" where
  "store_free f \<longleftrightarrow> (\<forall>s n L X P. f (s\<lparr>calls := n\<rparr>) = f s \<and> f (s\<lparr>lineages := L\<rparr>) = f s \<and>
     f (s\<lparr>workspaces := X\<rparr>) = f s \<and> f (s\<lparr>run_paths := P\<rparr>) = f s)"

lemma store_freeD:
  "store_free f \<Longrightarrow> f (s\<lparr>calls := n\<rparr>) = f s" "store_free f \<Longrightarrow> f (s\<lparr>lineages := L\<rparr>) = f s"
  "store_free f \<Longrightarrow> f (s\<lparr>workspaces := X\<rparr>) = f s" "store_free f \<Longrightarrow> f (s\<lparr>run_paths := P\<rparr>) = f s"
  by (simp_all add: store_free_def)

lemma store_free_counter: "store_free f \<Longrightarrow> counter_free f"
  by (simp add: store_free_def counter_free_def)

lemma keeps_store_ops:
  fixes f :: "'z store_files_scheme \<Rightarrow> 'f"
  assumes "store_free f"
  shows "keeps f (prepare_workspace E W w)"
    and "keeps f (create_checkpoint E lease ch name md)"
    and "keeps f (restore_checkpoint E W w c mode)"
    and "keeps f (store_delete_checkpoint E w c)"
    and "keeps f (fork_workspace E W u c w)"
    and "keeps f (resize_workspace E W w mib)"
    and "keeps f (remove_workspace E w)"
    and "keeps f (workspace_disk_size_mib E w)"
  by (auto simp: store_freeD [OF assms] intro!: keeps_wpI wp_intro checkpoint_wpI)

lemma keeps_store_runs [keeps_intro]:
  fixes f :: "'z store_files_scheme \<Rightarrow> 'f"
  assumes "counter_free f" and "\<And>s P. f (s\<lparr>run_paths := P\<rparr>) = f s"
  shows "keeps f (prepare_run E W)" and "keeps f (recycle_run E W run)" and "keeps f (destroy_run E run)"
  unfolding prepare_run_def recycle_run_def destroy_run_def create_private_dir_def Let_def
  by (auto simp: mk_path_def rm_path_def assms intro!: keeps_intro)

lemma keeps_internal:
  fixes f :: "'z store_files_scheme \<Rightarrow> 'f"
  assumes "store_free f"
  shows "keeps f (create_internal_checkpoint E lease base cur name md)" and "keeps f (restore_internal_checkpoint E W w c)"
    and "keeps f (guest_writes G w)" and "keeps f (rpc_call G w c' e)" and "keeps f (rpc_call_timed G w c' e)"
  unfolding create_internal_checkpoint_def restore_internal_checkpoint_def guest_writes_def rpc_call_def rpc_call_timed_def
    rpc_answer_def
  by (auto simp: upd_disk_def store_free_counter [OF assms] store_freeD [OF assms] assms intro!: keeps_intro keeps_store_ops)

lemmas keeps_store = keeps_store_ops keeps_internal

lemma keeps_launch_failure [keeps_intro]: "counter_free f \<Longrightarrow> keeps f (launch_failure E stage err)"
  unfolding launch_failure_def by (auto intro!: keeps_intro)

definition registry_of :: "'z runtime_state_scheme \<Rightarrow> (uuid \<times> managed_sandbox) list \<times> run_layout list \<times> (uuid \<times> session_record) list" where
  "registry_of s = (rt_active s, rt_warm_runs s, rt_history s)"

lemma store_free_registry [simp]: "store_free registry_of" "store_free rt_active" "store_free rt_history" "store_free rt_warm_runs"
  by (simp_all add: store_free_def registry_of_def)


lemma wp_keeps: "keeps f m \<Longrightarrow> (\<And>a t. f t = f s \<Longrightarrow> Q a t) \<Longrightarrow> (\<And>x t. f t = f s \<Longrightarrow> R x t) \<Longrightarrow> wp m Q R s"
  unfolding wp_def by (auto split: prod.split sum.split dest: keeps_runD)

text \<open>What creating a sandbox does to the registry: on success one session is added for the
  requested workspace; a failure at any point leaves the sessions and the history alone.\<close>

definition registry_kept :: "'z runtime_state_scheme \<Rightarrow> 'z runtime_state_scheme \<Rightarrow> bool" where
  "registry_kept s t \<longleftrightarrow> rt_active t = rt_active s \<and> rt_history t = rt_history s \<and>
     length (rt_warm_runs t) \<le> length (rt_warm_runs s)"

lemma registry_kept_trans: "registry_kept s t \<Longrightarrow> registry_of u = registry_of t \<Longrightarrow> registry_kept s u"
  by (simp add: registry_kept_def registry_of_def)

lemma registry_kept_refl: "registry_of u = registry_of s \<Longrightarrow> registry_kept s u"
  by (simp add: registry_kept_def registry_of_def)

lemma wp_take_warm_run:
  "(\<And>a t. registry_kept s t \<Longrightarrow> Q a t) \<Longrightarrow> wp take_warm_run Q R s"
  by (auto simp: take_warm_run_def wp_simps registry_kept_def)

definition new_session :: "'e env_scheme \<Rightarrow> sandbox_spec \<Rightarrow> managed_sandbox \<Rightarrow> bool" where
  "new_session E spec m \<longleftrightarrow> lease_workspace_id (ms_workspace m) = spec_workspace_id spec \<and>
     ss_workspace_id (ms_summary m) = spec_workspace_id spec \<and> ss_policy (ms_summary m) = spec_policy spec \<and>
     ss_state (ms_summary m) = Active \<and> ss_ended_at_ms (ms_summary m) = None \<and> \<not> ms_exec_busy m \<and>
     ss_sandbox_id (ms_summary m) \<in> range (uuid_at E)"

lemma wp_prepare_lease:
  assumes "store_free f" "\<And>a t. f t = f s \<Longrightarrow> lease_workspace_id a = w \<Longrightarrow> Q a t" "\<And>x t. f t = f s \<Longrightarrow> R x t"
  shows "wp (prepare_workspace E W w) Q R s"
  by (auto simp: store_freeD [OF assms(1)] intro!: wp_prepare_workspaceI assms(2,3))


lemma wp_register_session:
  fixes s t :: "'z runtime_state_scheme"
  assumes ok: "\<And>m t. rt_active t = AList.update (ss_sandbox_id (ms_summary m)) m (rt_active s) \<Longrightarrow>
      rt_history t = rt_history s \<Longrightarrow> length (rt_warm_runs t) \<le> length (rt_warm_runs s) \<Longrightarrow>
      new_session E spec m \<Longrightarrow> Q (ms_summary m) t"
    and err: "\<And>x t. registry_kept s t \<Longrightarrow> R x t"
    and t: "registry_kept s t" "lease_workspace_id workspace = spec_workspace_id spec" "run_sandbox_id run \<in> range (uuid_at E)"
  shows "wp (register_session E spec workspace run) Q R t"
proof -
  have keep: "wp (rpc_call E w CSnapshot expect_snapshot) Q' R (t\<lparr>calls := n\<rparr>)"
    if "\<And>a u. registry_kept s u \<Longrightarrow> Q' a u" for w Q' n
    using that t(1) by (auto simp: registry_kept_def registry_of_def
      intro!: wp_keeps [where f = registry_of] keeps_intro keeps_store err)
  have ins: "Q (ms_summary m) (u\<lparr>rt_active := AList.update (ss_sandbox_id (ms_summary m)) m (rt_active u)\<rparr>)"
    if "registry_kept s u" "new_session E spec m" for u m
    using that by (intro ok) (auto simp: registry_kept_def)
  show ?thesis
    unfolding register_session_def registry_insert_def Let_def
    using ins [where m = "\<lparr>ms_summary = \<lparr>ss_sandbox_id = run_sandbox_id run, ss_workspace_id = lease_workspace_id workspace,
           ss_state = Active, ss_policy = spec_policy spec, ss_started_at_ms = _, ss_ended_at_ms = None\<rparr>,
        ms_baseline = _, ms_run_layout = run, ms_workspace = workspace, ms_exec_busy = False\<rparr>"] t(2,3)
    by (auto simp: wp_simps new_session_def intro!: wp_now_msI keep)
qed

lemma wp_registry_keep:
  assumes "keeps registry_of m" "registry_kept s t" "\<And>a u. registry_kept s u \<Longrightarrow> Q a u" "\<And>x u. registry_kept s u \<Longrightarrow> R x u"
  shows "wp m Q R t"
  by (rule wp_keeps [OF assms(1)]) (blast intro: assms(2-4) registry_kept_trans)+

text \<open>A run directory carries a freshly drawn id.\<close>

lemma wp_run_id:
  assumes "counter_free f" "\<And>s P. f (s\<lparr>run_paths := P\<rparr>) = f s"
    and "\<And>a t. f t = f s \<Longrightarrow> run_sandbox_id a \<in> range (uuid_at E) \<Longrightarrow> Q a t" "\<And>x t. f t = f s \<Longrightarrow> R x t"
  shows "wp (prepare_run E W) Q R s" and "wp (recycle_run E W r) Q R s"
  unfolding prepare_run_def recycle_run_def Let_def
  by (auto simp: wp_simps mk_path_def rm_path_def layout_of_def Let_def counter_freeD [OF assms(1)] assms(2) intro!: wp_intro assms(3,4))

lemma wp_create_launch:
  fixes s :: "'z runtime_state_scheme"
  assumes ok: "\<And>m t. rt_active t = AList.update (ss_sandbox_id (ms_summary m)) m (rt_active s) \<Longrightarrow>
      rt_history t = rt_history s \<Longrightarrow> length (rt_warm_runs t) \<le> length (rt_warm_runs s) \<Longrightarrow>
      new_session E spec m \<Longrightarrow> Q (ms_summary m) t"
    and err: "\<And>x t. registry_kept s t \<Longrightarrow> R x t"
  shows "wp (create_launch E C spec) Q R s"
proof -
  note sf = store_free_registry(1) store_free_counter [OF store_free_registry(1)] store_freeD [OF store_free_registry(1)]
  have lease: "wp (prepare_workspace E W w) Q' R t"
    if "registry_kept s t" "\<And>a u. registry_kept s u \<Longrightarrow> lease_workspace_id a = w \<Longrightarrow> Q' a u" for W w Q' t
    using that by (auto intro!: wp_prepare_lease [where f = registry_of] err intro: registry_kept_trans)
  have warm: "wp take_warm_run Q' R t"
    if "registry_kept s t" "\<And>a u. registry_kept s u \<Longrightarrow> Q' a u" for Q' t
    using that by (auto intro!: wp_take_warm_run simp: registry_kept_def)
  have fail: "wp (launch_failure E stage e) Q' R t" if "registry_kept s t" for stage e t and Q' :: "session_summary \<Rightarrow> _"
    using that unfolding launch_failure_def by (auto simp: wp_simps registry_kept_def intro!: wp_intro err)
  have refl: "registry_kept s s" by (simp add: registry_kept_def)
  note keep = wp_registry_keep [where s = s, OF _ _ _ err]
  have runs: "wp (prepare_run E W) Q' R t" "wp (recycle_run E W r) Q' R t"
    if "registry_kept s t" "\<And>a u. registry_kept s u \<Longrightarrow> run_sandbox_id a \<in> range (uuid_at E) \<Longrightarrow> Q' a u" for W r Q' t
    using that by (auto intro!: wp_run_id [where f = registry_of] err intro: registry_kept_trans simp: sf)
  show ?thesis
    unfolding create_launch_def wp_seqE
  proof (rule wp_registry_keep [where s = s], goal_cases)
    case 1
    show ?case by (auto intro!: keeps_intro keeps_store sf)
  next
    case (3 a u)
    then show ?case
      by (auto simp: wp_simps split: sum.split failure.split option.split
        intro!: lease warm fail wp_register_session ok keeps_intro keeps_store sf err
          keep [where m = "ask g" for g] keep [where m = "resolve_guest E sd n g" for sd n g]
          runs
          wp_registry_keep [where s = s and m = "guest_writes E w" for w] wp_registry_keep [where s = s and m = "ask g" for g])
  qed (simp_all add: registry_kept_def err)
qed

text \<open>Destroying: the ended session, and what it does to the registry on each exit.\<close>

definition ended_session :: "managed_sandbox \<Rightarrow> session_record \<Rightarrow> bool" where
  "ended_session m r \<longleftrightarrow> (\<exists>now final. r = \<lparr>sr_summary = (ms_summary m)\<lparr>ss_state := Destroyed, ss_ended_at_ms := Some now\<rparr>,
     sr_changes = diff (ms_baseline m) final\<rparr>)"

lemma wp_destroy_sandbox:
  fixes s :: "'z runtime_state_scheme"
  assumes old: "\<And>r. map_of (rt_history s) u = Some r \<Longrightarrow> Q r s"
    and unknown: "map_of (rt_history s) u = None \<Longrightarrow> map_of (rt_active s) u = None \<Longrightarrow> R (Fail (unknown_active E u)) s"
    and ok: "\<And>m r t. map_of (rt_history s) u = None \<Longrightarrow> map_of (rt_active s) u = Some m \<Longrightarrow> ended_session m r \<Longrightarrow>
      rt_active t = AList.delete u (rt_active s) \<Longrightarrow>
      rt_warm_runs t = trim_warm (cfg_warm_pool_size C) (rt_warm_runs s @ [ms_run_layout m]) \<Longrightarrow>
      rt_history t = AList.update (ss_sandbox_id (sr_summary r)) r (rt_history s) \<Longrightarrow> Q r t"
    and err: "\<And>m x t. map_of (rt_history s) u = None \<Longrightarrow> map_of (rt_active s) u = Some m \<Longrightarrow>
      rt_active t = AList.delete u (rt_active s) \<Longrightarrow> rt_warm_runs t = rt_warm_runs s \<Longrightarrow>
      rt_history t = rt_history s \<Longrightarrow> R x t"
  shows "wp (destroy_sandbox E C u) Q R s"
proof (cases "map_of (rt_history s) u")
  case (Some r)
  then show ?thesis by (simp add: destroy_sandbox_def history_record_def wp_simps old)
next
  case hist: None
  show ?thesis
  proof (cases "map_of (rt_active s) u")
    case None
    with hist show ?thesis by (simp add: destroy_sandbox_def history_record_def remove_active_def wp_simps unknown)
  next
    case (Some m)
    let ?s = "s\<lparr>rt_active := AList.delete u (rt_active s)\<rparr>"
    let ?k = "\<lambda>t. registry_of t = registry_of ?s"
    note sf = store_free_registry(1) store_free_counter [OF store_free_registry(1)]
    have timed: "wp (guest_best_effort E w c) Q' R t" if "?k t" "\<And>a t. ?k t \<Longrightarrow> Q' a t" for w c Q' t
      using that unfolding guest_best_effort_def
      by (auto simp: wp_simps rpc_call_timed_def guest_writes_def rpc_answer_def upd_disk_def registry_of_def intro!: wp_intro)
    have snap: "wp (snapshot_guest_or_baseline E m) Q' R t" if "?k t" "\<And>a t. ?k t \<Longrightarrow> Q' a t" for Q' t
      using that unfolding snapshot_guest_or_baseline_def
      by (auto simp: wp_simps rpc_call_timed_def guest_writes_def rpc_answer_def upd_disk_def registry_of_def intro!: wp_intro)
    have now: "wp (now_ms E) Q' R t" if "?k t" "\<And>a t. ?k t \<Longrightarrow> Q' a t" for Q' t
      using that by (auto simp: registry_of_def intro!: wp_intro)
    have failed: "R x t" if "?k t" for x t using that hist Some err by (simp add: registry_of_def)
    have off: "wp (ask (backend_shutdown_at E)) Q' R t" if "?k t" "\<And>a t. ?k t \<Longrightarrow> Q' a t" for Q' t
      using that by (auto simp: registry_of_def intro!: wp_intro)
    show ?thesis
      using hist Some unfolding destroy_sandbox_def history_record_def remove_active_def Let_def
      by (auto simp: wp_simps split: sum.split intro!: timed snap now off failed)
         (auto simp: store_warm_run_def save_history_def wp_simps ended_session_def registry_of_def intro!: ok)
  qed
qed


section \<open>Histories of the runtime\<close>

text \<open>
  The operations of \<open>SandboxService\<close> that touch the state, the end of a command (its stream
  is dropped and the permit with it), and a running guest writing its disk.
\<close>

datatype runtime_op =
    RtCreate sandbox_spec
  | RtDestroy uuid
  | RtCall uuid guest_call
  | RtOpenShell uuid shell_request
  | RtExec uuid exec_request
  | RtExecEnds uuid
  | RtCapture uuid "string option" "(string \<times> string) list"
  | RtRestore string string
  | RtGuestRuns uuid

definition guest_runs :: "'e guest_env_scheme \<Rightarrow> uuid \<Rightarrow> ('z runtime_state_scheme, unit) io" where
  "guest_runs E u = bindE (registry_active E u) (\<lambda>m. guest_writes E (lease_workspace_id (ms_workspace m)))"

fun runtime_step :: "'e guest_env_scheme \<Rightarrow> runtime_config \<Rightarrow> runtime_op \<Rightarrow> 'z runtime_state_scheme \<Rightarrow> 'z runtime_state_scheme" where
  "runtime_step E C (RtCreate spec) s = snd (create_sandbox E C spec s)"
| "runtime_step E C (RtDestroy u) s = snd (destroy_sandbox E C u s)"
| "runtime_step E C (RtCall u c) s = snd (on_session E u c (\<lambda>r. Inr r) s)"
| "runtime_step E C (RtOpenShell u r) s = snd (rt_open_shell E u r s)"
| "runtime_step E C (RtExec u r) s = snd (rt_exec E u r s)"
| "runtime_step E C (RtExecEnds u) s = snd (release_exec u s)"
| "runtime_step E C (RtCapture u n md) s = snd (capture_workspace_checkpoint E u n md s)"
| "runtime_step E C (RtRestore w c) s = snd (restore_workspace_checkpoint E C w c s)"
| "runtime_step E C (RtGuestRuns u) s = snd (guest_runs E u s)"

definition session_ok :: "runtime_config \<Rightarrow> uuid \<Rightarrow> managed_sandbox \<Rightarrow> bool" where
  "session_ok C u m \<longleftrightarrow> ss_sandbox_id (ms_summary m) = u \<and>
     ss_workspace_id (ms_summary m) = lease_workspace_id (ms_workspace m) \<and> ss_state (ms_summary m) = Active \<and>
     (cfg_isolation_mode C = Secure \<longrightarrow> \<not> pol_network_enabled (ss_policy (ms_summary m)))"

definition registry_ok :: "runtime_config \<Rightarrow> 'z runtime_state_scheme \<Rightarrow> bool" where
  "registry_ok C s \<longleftrightarrow> distinct (map fst (rt_active s)) \<and>
     (\<forall>u m. map_of (rt_active s) u = Some m \<longrightarrow> session_ok C u m) \<and>
     (\<forall>u v m n. map_of (rt_active s) u = Some m \<longrightarrow> map_of (rt_active s) v = Some n \<longrightarrow>
        lease_workspace_id (ms_workspace m) = lease_workspace_id (ms_workspace n) \<longrightarrow> u = v) \<and>
     length (rt_warm_runs s) \<le> cfg_warm_pool_size C \<and>
     (\<forall>u r. map_of (rt_history s) u = Some r \<longrightarrow> ss_sandbox_id (sr_summary r) = u \<and> ss_state (sr_summary r) = Destroyed)"

lemma trim_warm_drop: "trim_warm n runs = drop (length runs - n) runs"
proof (induction n runs rule: trim_warm.induct)
  case (1 n runs)
  show ?case
  proof (cases "n < length runs")
    case True
    then have "length runs - n = Suc (length (tl runs) - n)" by (cases runs) auto
    then show ?thesis using 1 True by (subst trim_warm.simps) (simp add: drop_Suc)
  qed (subst trim_warm.simps, simp)
qed

lemma length_trim_warm [simp]: "length (trim_warm n runs) = min n (length runs)"
  by (simp add: trim_warm_drop)

lemma has_active_workspace_iff:
  "distinct (map fst (rt_active s)) \<Longrightarrow>
    has_active_workspace w s \<longleftrightarrow> (\<exists>u m. map_of (rt_active s) u = Some m \<and> lease_workspace_id (ms_workspace m) = w)"
  by (auto simp: has_active_workspace_def list_ex_iff)

lemma registry_ok_cong: "registry_of t = registry_of s \<Longrightarrow> registry_ok C t = registry_ok C s"
  by (simp add: registry_ok_def registry_of_def)

lemma preserves_registry_ok: "keeps registry_of m \<Longrightarrow> preserves (registry_ok C) m"
  unfolding preserves_def keeps_def using registry_ok_cong by blast

lemma registry_ok_kept: "registry_ok C s \<Longrightarrow> registry_kept s t \<Longrightarrow> registry_ok C t"
  by (auto simp: registry_ok_def registry_kept_def)

lemma registry_ok_map_entry:
  "registry_ok C s \<Longrightarrow> registry_ok C (upd_session u (\<lambda>m. m\<lparr>ms_exec_busy := b\<rparr>) s)"
  by (auto simp: registry_ok_def upd_session_def map_of_map_entry session_ok_def distinct_map_entry split: option.splits if_splits)

lemma registry_ok_create: "preserves (registry_ok C) (create_sandbox E C spec)"
proof (rule preserves_wpI)
  fix s :: "'z runtime_state_scheme"
  assume ok: "registry_ok C s"
  then have free: "\<forall>v n. map_of (rt_active s) v = Some n \<longrightarrow> lease_workspace_id (ms_workspace n) \<noteq> spec_workspace_id spec"
    if "\<not> has_active_workspace (spec_workspace_id spec) s"
    using that by (auto simp: registry_ok_def has_active_workspace_iff)
  have added: "registry_ok C t"
    if "\<not> has_active_workspace (spec_workspace_id spec) s" "new_session E spec m"
      "cfg_isolation_mode C = Secure \<Longrightarrow> \<not> pol_network_enabled (spec_policy spec)"
      "rt_active t = AList.update (ss_sandbox_id (ms_summary m)) m (rt_active s)" "rt_history t = rt_history s"
      "length (rt_warm_runs t) \<le> length (rt_warm_runs s)" for m and t :: "'z runtime_state_scheme"
    using ok that(2-) free [OF that(1)] unfolding registry_ok_def new_session_def session_ok_def
    by (auto simp: update_conv' distinct_update split: if_splits simp del: map_of_eq_Some_iff) blast+
  show "wp (create_sandbox E C spec) (\<lambda>_. registry_ok C) (\<lambda>_. registry_ok C) s"
    unfolding create_sandbox_def create_admission_def wp_simps
    using ok by (auto intro!: wp_create_launch intro: added registry_ok_kept [OF ok])
qed

lemma registry_ok_destroy: "preserves (registry_ok C) (destroy_sandbox E C u)"
proof (rule preserves_wpI)
  fix s :: "'z runtime_state_scheme"
  assume ok: "registry_ok C s"
  show "wp (destroy_sandbox E C u) (\<lambda>_. registry_ok C) (\<lambda>_. registry_ok C) s"
    by (rule wp_destroy_sandbox)
       (use ok in \<open>auto simp: registry_ok_def ended_session_def session_ok_def update_conv' delete_conv' distinct_delete
         split: if_splits\<close>)
qed


lemma keeps_registry_session:
  "keeps registry_of (on_session E u c e)" "keeps registry_of (rt_open_shell E u r)"
  "keeps registry_of (capture_workspace_checkpoint E u n md)" "keeps registry_of (restore_workspace_checkpoint E C w c')"
  "keeps registry_of (guest_runs E u)"
  unfolding on_session_def rt_open_shell_def capture_workspace_checkpoint_def restore_workspace_checkpoint_def
    guest_runs_def registry_active_def Let_def
  by (auto intro!: keeps_intro keeps_store store_free_registry store_free_counter)

lemma registry_ok_exec: "preserves (registry_ok C) (rt_exec E u r)"
proof -
  have "counter_free (registry_ok C :: 'z runtime_state_scheme \<Rightarrow> bool)"
    by (auto simp: registry_ok_def)
  moreover have "preserves (registry_ok C) (guest_writes E w)" for w
    by (intro preserves_registry_ok keeps_store) simp
  ultimately show ?thesis
    unfolding rt_exec_def registry_active_def try_acquire_exec_def release_exec_def Let_def
    by (auto intro!: preserves_intro registry_ok_map_entry)
qed

lemma registry_ok_step: "registry_ok C s \<Longrightarrow> registry_ok C (runtime_step E C op s)"
  by (cases op) (simp_all add: preservesD [OF registry_ok_create] preservesD [OF registry_ok_destroy]
      preservesD [OF registry_ok_exec] preservesD [OF preserves_registry_ok [OF keeps_registry_session(1)]]
      preservesD [OF preserves_registry_ok [OF keeps_registry_session(2)]]
      preservesD [OF preserves_registry_ok [OF keeps_registry_session(3)]]
      preservesD [OF preserves_registry_ok [OF keeps_registry_session(4)]]
      preservesD [OF preserves_registry_ok [OF keeps_registry_session(5)]]
      release_exec_def modifyE_def registry_ok_map_entry)

lemma registry_ok_run: "registry_ok C s \<Longrightarrow> registry_ok C (run_steps (runtime_step E C) ops s)"
  by (rule run_steps_invariant) (auto intro: registry_ok_step)

lemma registry_ok_empty: "rt_active s = [] \<Longrightarrow> rt_history s = [] \<Longrightarrow> rt_warm_runs s = [] \<Longrightarrow> registry_ok C s"
  by (simp add: registry_ok_def)

end
