(* ===== verification/Runtime_Sessions.thy ===== *)
theory Runtime_Sessions
  imports Runtime
begin

text \<open>
  The properties of the sandbox runtime: over every history of its operations the registry
  keeps one sandbox per workspace, ended sessions stay ended, commands exclude each other
  and the host stays off the disk of a running guest; on a healthy host a sandbox can be
  created and destroyed.
\<close>

section \<open>Log tails\<close>

lemma fold_push_tail:
  "0 < n \<Longrightarrow> length acc \<le> n \<Longrightarrow> fold (push_tail n) xs acc = drop (length (acc @ xs) - n) (acc @ xs)"
proof (induction xs arbitrary: acc)
  case (Cons x xs)
  show ?case
  proof (cases "length acc = n")
    case True
    then obtain a as where acc: "acc = a # as" using Cons.prems(1) by (cases acc) auto
    then show ?thesis using True Cons.prems Cons.IH [of "as @ [x]"] by (simp add: Suc_diff_le)
  next
    case False
    then show ?thesis using Cons.prems Cons.IH [of "acc @ [x]"] by simp
  qed
qed simp

text \<open>
  The ring buffer of \<open>read_file_tail_lossy\<close> computes the last lines of the file: for
  every limit, zero included, the result is the last \<open>n\<close> lines in order, all of them when
  there are fewer.
\<close>

theorem read_file_tail_is_last_lines:
  "read_file_tail_lossy n (Some t) = Some (join_lines (drop (length (rust_lines t) - n) (rust_lines t)))"
  by (cases "n = 0") (simp_all add: read_file_tail_lossy_def tail_lines_def fold_push_tail)

section \<open>Properties\<close>


lemma destroyed_is_final:
  assumes "registry_ok C s" "map_of (rt_history s) u = None" "map_of (rt_active s) u = Some m"
    and "destroy_sandbox E C u s = (Inr r, s')"
  shows "ended_session m r \<and> rt_active s' = AList.delete u (rt_active s) \<and> map_of (rt_history s') u = Some r \<and>
     \<not> has_active_workspace (lease_workspace_id (ms_workspace m)) s'"
proof -
  have id: "ss_sandbox_id (ms_summary m) = u" using assms(1,3) by (auto simp: registry_ok_def session_ok_def)
  have ok: "registry_ok C s'" using preserves_runD [OF registry_ok_destroy assms(4) assms(1)] .
  have "wp (destroy_sandbox E C u) (\<lambda>r t. ended_session m r \<and> rt_active t = AList.delete u (rt_active s) \<and>
      map_of (rt_history t) u = Some r) (\<lambda>_ _. True) s"
    by (rule wp_destroy_sandbox) (use assms(2,3) id in \<open>auto simp: ended_session_def update_conv'\<close>)
  from wp_runD [OF this assms(4)]
  have e: "ended_session m r" and a: "rt_active s' = AList.delete u (rt_active s)" and h: "map_of (rt_history s') u = Some r"
    by auto
  have "\<not> has_active_workspace (lease_workspace_id (ms_workspace m)) s'"
  proof
    assume "has_active_workspace (lease_workspace_id (ms_workspace m)) s'"
    then obtain v n where "map_of (rt_active s') v = Some n" "lease_workspace_id (ms_workspace n) = lease_workspace_id (ms_workspace m)"
      using ok by (auto simp: has_active_workspace_iff registry_ok_def)
    then have "v \<noteq> u" "map_of (rt_active s) v = Some n" by (auto simp: a delete_conv' split: if_splits)
    then show False using assms(1,3) \<open>lease_workspace_id (ms_workspace n) = _\<close> unfolding registry_ok_def by blast
  qed
  then show ?thesis using e a h by blast
qed

text \<open>
  Destroying an active sandbox ends it for good: its record is kept with the difference
  between the workspace at the start and at the end, its workspace has no active sandbox any
  more, and destroying it again returns the same record and changes nothing.
\<close>

theorem destroy_sandbox_final:
  assumes "registry_ok C s" "map_of (rt_history s) u = None" "map_of (rt_active s) u = Some m"
    and "destroy_sandbox E C u s = (Inr r, s')"
  shows "ss_state (sr_summary r) = Destroyed \<and> (\<exists>final. sr_changes r = diff (ms_baseline m) final) \<and>
     map_of (rt_active s') u = None \<and> \<not> has_active_workspace (lease_workspace_id (ms_workspace m)) s' \<and>
     destroy_sandbox E' C u s' = (Inr r, s')"
  using destroyed_is_final [OF assms]
  by (auto simp: ended_session_def delete_conv' destroy_sandbox_def history_record_def io_defs)

text \<open>
  A sandbox whose backend fails to shut down is forgotten: destroying it fails, it is
  neither active nor in the history afterwards, and destroying it again is refused as
  unknown, although its virtual machine may still run on the workspace.
\<close>

theorem failed_destroy_forgets_sandbox:
  assumes "map_of (rt_history s) u = None" "map_of (rt_active s) u = Some m"
    and "destroy_sandbox E C u s = (Inl x, s')"
  shows "map_of (rt_active s') u = None \<and> map_of (rt_history s') u = None \<and>
     destroy_sandbox E' C u s' = (Inl (Fail (unknown_active E' u)), s')"
proof -
  have "wp (destroy_sandbox E C u) (\<lambda>_ _. True) (\<lambda>_ t. map_of (rt_active t) u = None \<and> map_of (rt_history t) u = None) s"
    by (rule wp_destroy_sandbox) (use assms(1,2) in \<open>auto simp: delete_conv'\<close>)
  from wp_failD [OF this assms(3)] show ?thesis
    by (simp add: destroy_sandbox_def history_record_def remove_active_def io_defs)
qed


section \<open>The disk of a running sandbox\<close>

definition guest_passive :: "'e guest_env_scheme \<Rightarrow> bool" where
  "guest_passive E \<longleftrightarrow> (\<forall>n. guest_disk_at E n = id)"

lemma upd_disk_id [simp]: "upd_disk w id s = s"
  by (simp add: upd_disk_def option.map_id0)

lemma keeps_guest_passive:
  assumes "guest_passive E" "counter_free f"
  shows "keeps f (guest_writes E w)" "keeps f (rpc_call E w c e)" "keeps f (rpc_call_timed E w c e)"
  using assms unfolding guest_writes_def rpc_call_def rpc_call_timed_def rpc_answer_def
  by (auto simp: guest_passive_def keeps_def ask_def bindE_def modifyE_def seqE_def counter_freeD returnE_def liftE_def throwE_def
      split: sum.splits)

lemma keeps_disk_store:
  "v \<noteq> w \<Longrightarrow> keeps (\<lambda>s. workspaces s v) (prepare_workspace E W w)"
  "v \<noteq> w \<Longrightarrow> keeps (\<lambda>s. workspaces s v) (restore_internal_checkpoint E W w c)"
  "keeps (\<lambda>s. workspaces s v) (create_internal_checkpoint E lease base cur name md)"
  unfolding restore_internal_checkpoint_def create_internal_checkpoint_def
  by (auto intro!: keeps_wpI wp_intro checkpoint_wpI)

lemma keeps_disk_create_launch:
  fixes E :: "'e guest_env_scheme"
  assumes "guest_passive E" "v \<noteq> spec_workspace_id spec"
  shows "keeps (\<lambda>s :: 'z runtime_state_scheme. workspaces s v) (create_launch E C spec)"
  unfolding create_launch_def register_session_def registry_insert_def launch_failure_def take_warm_run_def Let_def
  using assms by (auto intro!: keeps_intro keeps_disk_store keeps_guest_passive)

lemma keeps_disk_session:
  fixes E :: "'e guest_env_scheme"
  assumes "guest_passive E"
  shows "keeps (\<lambda>s :: 'z runtime_state_scheme. workspaces s v) (destroy_sandbox E C u)"
    and "keeps (\<lambda>s :: 'z runtime_state_scheme. workspaces s v) (on_session E u c e)"
    and "keeps (\<lambda>s :: 'z runtime_state_scheme. workspaces s v) (rt_open_shell E u sr)"
    and "keeps (\<lambda>s :: 'z runtime_state_scheme. workspaces s v) (rt_exec E u er)"
    and "keeps (\<lambda>s :: 'z runtime_state_scheme. workspaces s v) (capture_workspace_checkpoint E u n md)"
    and "keeps (\<lambda>s :: 'z runtime_state_scheme. workspaces s v) (guest_runs E u)"
  unfolding destroy_sandbox_def remove_active_def guest_best_effort_def snapshot_guest_or_baseline_def
    store_warm_run_def save_history_def on_session_def rt_open_shell_def rt_exec_def registry_active_def
    try_acquire_exec_def release_exec_def upd_session_def capture_workspace_checkpoint_def guest_runs_def Let_def
  using assms by (auto intro!: keeps_intro keeps_disk_store keeps_guest_passive)

lemma attached_disk_step:
  fixes s :: "'z runtime_state_scheme"
  assumes "guest_passive E" "has_active_workspace w s"
  shows "workspaces (runtime_step E C op s) w = workspaces s w"
proof (cases op)
  case (RtCreate spec)
  show ?thesis
  proof (cases "spec_workspace_id spec = w")
    case True
    then show ?thesis using RtCreate assms(2) by (simp add: create_sandbox_def create_admission_def io_defs)
  next
    case False
    then have "keeps (\<lambda>s :: 'z runtime_state_scheme. workspaces s w) (create_sandbox E C spec)"
      unfolding create_sandbox_def create_admission_def
      using keeps_disk_create_launch [OF assms(1), of w spec C] by (auto intro!: keeps_intro)
    then show ?thesis using RtCreate by (auto dest: keepsD)
  qed
next
  case (RtRestore v c)
  then show ?thesis
  proof (cases "v = w")
    case True
    then show ?thesis using RtRestore assms(2) by (simp add: restore_workspace_checkpoint_def io_defs)
  next
    case False
    then have "keeps (\<lambda>s :: 'z runtime_state_scheme. workspaces s w) (restore_workspace_checkpoint E C v c)"
      unfolding restore_workspace_checkpoint_def by (auto intro!: keeps_intro keeps_disk_store)
    then show ?thesis using RtRestore by (auto dest: keepsD)
  qed
qed (simp_all add: keepsD [OF keeps_disk_session(1) [OF assms(1)]] keepsD [OF keeps_disk_session(2) [OF assms(1)]]
  keepsD [OF keeps_disk_session(3) [OF assms(1)]] keepsD [OF keeps_disk_session(4) [OF assms(1)]]
  keepsD [OF keeps_disk_session(5) [OF assms(1)]] keepsD [OF keeps_disk_session(6) [OF assms(1)]]
  release_exec_def modifyE_def upd_session_def)


text \<open>
  The host never touches the disk of a running sandbox: whatever operation runs while a
  workspace is attached to an active sandbox, for this or any other sandbox and whether or
  not it fails, its disk changes by the writes of its guest only; with a guest that does
  not write, it does not change.
\<close>

theorem attached_disk_untouched:
  assumes "guest_passive E" "has_active_workspace w s"
  shows "workspaces (runtime_step E C op s) w = workspaces s w"
  using assms by (rule attached_disk_step)

section \<open>A host and guests without failures\<close>

definition healthy_guest :: "'e guest_env_scheme \<Rightarrow> bool" where
  "healthy_guest E \<longleftrightarrow> no_faults E \<and> (\<forall>n. launch_at E n = Inr ()) \<and> (\<forall>n. connect_at E n = Inr ()) \<and>
     (\<forall>n. backend_shutdown_at E n = Inr ()) \<and> (\<forall>n. \<exists>x. guest_answer_at E n CSnapshot = Inr (RSnapshot x))"

lemma healthy_guestD [simp]:
  assumes "healthy_guest E"
  shows "no_faults E" "launch_at E n = Inr ()" "connect_at E n = Inr ()" "backend_shutdown_at E n = Inr ()"
    and "\<exists>x. guest_answer_at E n CSnapshot = Inr (RSnapshot x)"
  using assms by (simp_all add: healthy_guest_def)

text \<open>The calls of a launch return whatever the state is, so any postcondition true of every state holds.\<close>

lemma wp_total_runs:
  fixes Q :: "run_layout \<Rightarrow> 'z store_files_scheme \<Rightarrow> bool"
  assumes "no_faults E" "\<And>a t. Q a t"
  shows "wp (prepare_run E W) Q R s" and "wp (recycle_run E W run) Q R s"
  unfolding prepare_run_def recycle_run_def Let_def
  using assms by (auto simp: wp_simps mk_path_def rm_path_def intro!: wp_total)

lemma wp_total_snapshot:
  assumes "healthy_guest E" "\<And>a t. Q a t"
  shows "wp (rpc_call E w CSnapshot expect_snapshot) Q R s"
proof -
  obtain snap where "\<And>n. guest_answer_at E n CSnapshot = Inr (RSnapshot (snap n))"
    using healthy_guestD(5) [OF assms(1)] by metis
  then show ?thesis
    using assms(2) by (simp add: rpc_call_def guest_writes_def rpc_answer_def wp_simps wp_exact)
qed

lemma wp_total_register:
  assumes "healthy_guest E" "\<And>a t. Q a t"
  shows "wp (register_session E spec ws run) Q R s"
  unfolding register_session_def registry_insert_def Let_def wp_bindE
  by (intro wp_total_now_ms wp_total_snapshot assms(1)) (simp add: wp_simps assms(2))

lemma wp_total_prepare:
  assumes "no_faults E" "persisted_id w" "readable (ents (lineages s w))" "\<And>a t. Q a t"
  shows "wp (prepare_workspace E W w) Q R s"
  using assms by (intro wp_total_prepare_workspace) auto

definition launchable :: "sandbox_spec \<Rightarrow> 'z runtime_state_scheme \<Rightarrow> bool" where
  "launchable spec s \<longleftrightarrow> spec_image spec = BASE_IMAGE_NAME \<and> spec_restore_commit spec = None \<and>
     persisted_id (spec_workspace_id spec) \<and> readable (ents (lineages s (spec_workspace_id spec)))"

lemma create_launch_returns:
  fixes s :: "'z runtime_state_scheme"
  assumes "healthy_guest E" "launchable spec s"
  shows "wp (create_launch E C spec) (\<lambda>_ _. True) (\<lambda>_ _. False) s"
proof -
  have base: "validate_image_name BASE_IMAGE_NAME = Inr ()" by code_simp
  show ?thesis
    using assms unfolding create_launch_def launchable_def resolve_guest_def take_warm_run_def
    by (simp add: wp_simps base guest_writes_def split: option.split)
       (auto simp: wp_simps wp_exact split: option.split intro!: wp_total_prepare wp_total_runs wp_total_register)
qed

lemma wp_best_effort:
  assumes "\<And>a t. Q a t"
  shows "wp (guest_best_effort E w c) Q R s" 
  unfolding guest_best_effort_def rpc_call_timed_def guest_writes_def rpc_answer_def
  by (auto simp: wp_simps intro!: wp_intro assms)

lemma wp_snapshot_or_baseline:
  assumes "\<And>a t. Q a t"
  shows "wp (snapshot_guest_or_baseline E m) Q R s"
  unfolding snapshot_guest_or_baseline_def rpc_call_timed_def guest_writes_def rpc_answer_def
  by (auto simp: wp_simps intro!: wp_intro assms)

lemma destroy_returns:
  assumes "healthy_guest E" "map_of (rt_history s) u = None" "map_of (rt_active s) u = Some m"
  shows "wp (destroy_sandbox E C u) (\<lambda>_ _. True) (\<lambda>_ _. False) s"
proof -
  show ?thesis
    using assms(2,3) unfolding destroy_sandbox_def remove_active_def history_record_def Let_def
    by (auto simp: wp_simps assms(1) store_warm_run_def save_history_def
        intro!: wp_best_effort wp_snapshot_or_baseline wp_now_msI wp_askI)
qed

lemma wp_conj_returns: "wp m (\<lambda>_ _. True) (\<lambda>_ _. False) s \<Longrightarrow> wp m Q (\<lambda>_ _. True) s \<Longrightarrow> \<exists>a s'. m s = (Inr a, s') \<and> Q a s'"
  using wp_returns wp_runD by fastforce

text \<open>
  On a healthy host with a healthy guest, creating a sandbox from the base image on a
  free workspace returns, the workspace is attached to it, and destroying it returns too
  and frees the workspace again.
\<close>

theorem sandbox_lifecycle_returns:
  fixes s :: "'z runtime_state_scheme"
  assumes "healthy_guest E" "launchable spec s" "registry_ok C s" "\<not> has_active_workspace (spec_workspace_id spec) s"
    and "cfg_isolation_mode C = Secure \<longrightarrow> \<not> pol_network_enabled (spec_policy spec)"
    and "\<forall>n. map_of (rt_history s) (uuid_at E n) = None"
  shows "\<exists>a s1 r s2. create_sandbox E C spec s = (Inr a, s1) \<and> ss_workspace_id a = spec_workspace_id spec \<and>
     has_active_workspace (spec_workspace_id spec) s1 \<and>
     destroy_sandbox E C (ss_sandbox_id a) s1 = (Inr r, s2) \<and> \<not> has_active_workspace (spec_workspace_id spec) s2"
proof -
  have adm: "create_sandbox E C spec s = create_launch E C spec s"
    using assms(4,5) by (auto simp: create_sandbox_def create_admission_def io_defs)
  have "wp (create_launch E C spec) (\<lambda>a t. \<exists>m. a = ms_summary m \<and> new_session E spec m \<and>
      rt_active t = AList.update (ss_sandbox_id (ms_summary m)) m (rt_active s) \<and> rt_history t = rt_history s)
      (\<lambda>_ _. True) s"
    by (rule wp_create_launch) auto
  from wp_conj_returns [OF create_launch_returns [OF assms(1,2)] this]
  obtain m s1 where c: "create_launch E C spec s = (Inr (ms_summary m), s1)" and m: "new_session E spec m"
    and act: "rt_active s1 = AList.update (ss_sandbox_id (ms_summary m)) m (rt_active s)" "rt_history s1 = rt_history s"
    by blast
  let ?u = "ss_sandbox_id (ms_summary m)"
  have ok1: "registry_ok C s1"
    using preserves_runD [OF registry_ok_create, of E C spec s "Inr (ms_summary m)" s1] assms(3) c adm by simp
  have um: "map_of (rt_active s1) ?u = Some m" "map_of (rt_history s1) ?u = None"
    using act m assms(6) by (auto simp: new_session_def update_conv')
  have w: "lease_workspace_id (ms_workspace m) = spec_workspace_id spec" using m by (simp add: new_session_def)
  from wp_returns [OF destroy_returns [OF assms(1) um(2,1)]]
  obtain r s2 where d: "destroy_sandbox E C ?u s1 = (Inr r, s2)" by blast
  from destroyed_is_final [OF ok1 um(2,1) d] w
  have "\<not> has_active_workspace (spec_workspace_id spec) s2" by simp
  moreover have "has_active_workspace (spec_workspace_id spec) s1"
    using um(1) w ok1 by (auto simp: has_active_workspace_iff registry_ok_def simp del: map_of_eq_Some_iff)
  ultimately show ?thesis using c d adm m by (auto simp: new_session_def)
qed

section \<open>Witnesses\<close>

definition quiet_guest :: guest_env where
  "quiet_guest = \<lparr>clock_at = clock_at quiet_env, uuid_at = uuid_at quiet_env, fault_at = fault_at quiet_env,
     real_dir_at = real_dir_at quiet_env, torn_disk_at = torn_disk_at quiet_env, uuid_string = uuid_string quiet_env,
     uuid_simple = uuid_simple quiet_env, sha256 = sha256 quiet_env, kept_at = kept_at quiet_env,
     mkfs_ext4 = mkfs_ext4 quiet_env, tool_at = tool_at quiet_env, tool_effect_at = tool_effect_at quiet_env,
     euid = euid quiet_env, host_platform = \<lparr>target_os = Linux, target_arch = X86_64\<rparr>, file_bytes = (\<lambda>_. None),
     launch_at = (\<lambda>_. Inr ()), connect_at = (\<lambda>_. Inr ()), backend_shutdown_at = (\<lambda>_. Inr ()), elapsed_at = (\<lambda>_. False),
     guest_disk_at = (\<lambda>_. id), guest_answer_at = (\<lambda>_ c. Inr (if c = CSnapshot then RSnapshot (from_entries []) else RAck)),
     exec_sent_at = (\<lambda>_ _ _. Inr ()), shell_answer_at = (\<lambda>_ u _. Inr (RShellOpened u)),
     console_log_at = (\<lambda>_. None), runner_log_at = (\<lambda>_. None)\<rparr>"

lemma quiet_guest_healthy: "healthy_guest quiet_guest" "guest_passive quiet_guest"
  by (simp_all add: healthy_guest_def guest_passive_def no_faults_def quiet_guest_def quiet_env_def)

definition demo_rt :: runtime_state where
  "demo_rt = \<lparr>calls = 0, admin_file = None, box_credential_file = None, lineages = (\<lambda>_. None), workspaces = (\<lambda>_. None),
     run_paths = {}, images = [], regular_files = {}, rt_active = [], rt_warm_runs = [], rt_history = []\<rparr>"

definition demo_session :: managed_sandbox where
  "demo_session = \<lparr>ms_summary = \<lparr>ss_sandbox_id = 5, ss_workspace_id = ''a'', ss_state = Active, ss_policy = default_policy,
       ss_started_at_ms = 1, ss_ended_at_ms = None\<rparr>, ms_baseline = from_entries [],
     ms_run_layout = layout_of quiet_env demo_store 5, ms_workspace = lease_of demo_store ''a'', ms_exec_busy = False\<rparr>"

definition demo_active :: runtime_state where
  "demo_active = demo_rt\<lparr>rt_active := [(5, demo_session)]\<rparr>"

lemma demo_active_ok:
  "registry_ok (demo_config Secure) demo_active" "map_of (rt_history demo_active) 5 = None"
  "map_of (rt_active demo_active) 5 = Some demo_session" "has_active_workspace ''a'' demo_active"
  by (simp_all add: registry_ok_def session_ok_def demo_active_def demo_rt_def demo_session_def default_policy_def lease_of_def
      demo_config_def has_active_workspace_def)


theorem destroy_sandbox_final_witness:
  "\<exists>r s'. destroy_sandbox quiet_guest (demo_config Secure) 5 demo_active = (Inr r, s') \<and>
     ss_state (sr_summary r) = Destroyed \<and> \<not> has_active_workspace ''a'' s' \<and>
     destroy_sandbox quiet_guest (demo_config Secure) 5 s' = (Inr r, s')"
proof -
  from wp_returns [OF destroy_returns [OF quiet_guest_healthy(1) demo_active_ok(2,3)]]
  obtain r s' where d: "destroy_sandbox quiet_guest (demo_config Secure) 5 demo_active = (Inr r, s')" by blast
  have "lease_workspace_id (ms_workspace demo_session) = ''a''" by (simp add: demo_session_def lease_of_def)
  with d destroy_sandbox_final [OF demo_active_ok(1-3) d, of quiet_guest] show ?thesis by auto
qed

theorem failed_destroy_forgets_sandbox_witness:
  "\<exists>x s'. destroy_sandbox (quiet_guest\<lparr>backend_shutdown_at := \<lambda>_. Inl (Backend ''busy'')\<rparr>) (demo_config Secure) 5 demo_active =
       (Inl x, s') \<and> map_of (rt_active s') 5 = None \<and> map_of (rt_history s') 5 = None"
proof -
  let ?E = "quiet_guest\<lparr>backend_shutdown_at := \<lambda>_. Inl (Backend ''busy'')\<rparr>"
  have "wp (destroy_sandbox ?E (demo_config Secure) 5) (\<lambda>_ _. False) (\<lambda>_ _. True) demo_active"
    using demo_active_ok(2,3) unfolding destroy_sandbox_def remove_active_def history_record_def Let_def
    by (auto simp: wp_simps intro!: wp_best_effort wp_snapshot_or_baseline wp_now_msI wp_askI)
  then obtain x s' where "destroy_sandbox ?E (demo_config Secure) 5 demo_active = (Inl x, s')"
    by (auto simp: wp_def split: prod.splits sum.splits)
  with failed_destroy_forgets_sandbox [OF demo_active_ok(2,3) this, of ?E] show ?thesis by auto
qed


theorem attached_disk_untouched_witness:
  "workspaces (runtime_step quiet_guest (demo_config Secure) (RtRestore ''a'' ''c1'') demo_active) ''a'' = workspaces demo_active ''a''"
  using quiet_guest_healthy(2) demo_active_ok(4) by (rule attached_disk_untouched)

theorem sandbox_lifecycle_returns_witness:
  "\<exists>a s1 r s2. create_sandbox quiet_guest (demo_config Secure) (sandbox_spec_new ''a'') demo_rt = (Inr a, s1) \<and>
     has_active_workspace ''a'' s1 \<and>
     destroy_sandbox quiet_guest (demo_config Secure) (ss_sandbox_id a) s1 = (Inr r, s2) \<and> \<not> has_active_workspace ''a'' s2"
proof -
  have "launchable (sandbox_spec_new ''a'') demo_rt" "registry_ok (demo_config Secure) demo_rt"
    "\<not> has_active_workspace (spec_workspace_id (sandbox_spec_new ''a'')) demo_rt"
    "cfg_isolation_mode (demo_config Secure) = Secure \<longrightarrow> \<not> pol_network_enabled (spec_policy (sandbox_spec_new ''a''))"
    "\<forall>n. map_of (rt_history demo_rt) (uuid_at quiet_guest n) = None"
    by (simp_all add: launchable_def sandbox_spec_new_def BASE_IMAGE_NAME_def demo_rt_def readable_def ents_def
        registry_ok_def has_active_workspace_def default_policy_def)
  from sandbox_lifecycle_returns [OF quiet_guest_healthy(1) this] show ?thesis
    by (simp add: sandbox_spec_new_def) blast
qed

end
