(* ===== verification/Boxes.thy ===== *)
theory Boxes
  imports Runtime_Sessions
begin

text \<open>
  BOXes (\<open>src/boxes\<close>): the persistent registry of boxes, their settings and the limits the
  host imposes on them, and the service that maps a box to a workspace and, while it runs,
  to a sandbox of the runtime. A box is one JSON file; the service keeps the sandbox of
  each running box in memory as well.
\<close>

section \<open>Data (\<open>src/boxes/types.rs\<close>)\<close>

record 'a box_numeric_setting =
  num_current :: 'a
  num_max :: 'a

record box_boolean_setting =
  flag_current :: bool
  flag_max :: bool

record box_settings =
  set_cpu_cores :: "u32 box_numeric_setting"
  set_memory_mb :: "u32 box_numeric_setting"
  set_fs_size_mib :: "u64 box_numeric_setting"
  set_max_processes :: "u32 box_numeric_setting"
  set_network_enabled :: box_boolean_setting

definition default_settings :: box_settings where
  "default_settings = \<lparr>set_cpu_cores = \<lparr>num_current = 1, num_max = 1\<rparr>,
     set_memory_mb = \<lparr>num_current = 128, num_max = 128\<rparr>,
     set_fs_size_mib = \<lparr>num_current = 128, num_max = 128\<rparr>,
     set_max_processes = \<lparr>num_current = 256, num_max = 256\<rparr>,
     set_network_enabled = \<lparr>flag_current = False, flag_max = False\<rparr>\<rparr>"

datatype box_setting_value =
    CpuCores u32 | MemoryMb u32 | FsSizeMib u64 | MaxProcesses u32 | NetworkEnabled bool

datatype box_status = Created | Running | Stopped | Failed | Removing

record box_record =
  bx_box_id :: uuid
  bx_name :: "string option"
  bx_image :: string
  bx_status :: box_status
  bx_settings :: box_settings
  bx_runtime_usage :: "guest_runtime_stats option"
  bx_workspace_path :: string
  bx_active_sandbox_id :: "uuid option"
  bx_created_at_ms :: u64
  bx_last_start_at_ms :: "u64 option"
  bx_last_stop_at_ms :: "u64 option"
  bx_last_error :: "string option"

text \<open>
  \<open>box_files\<close>: the files \<open>boxes/<uuid>.json\<close>; temporary files and other names in that directory
  are never read. \<open>box_active\<close>: the in-memory map from a box to its sandbox.
\<close>

record box_state = runtime_state +
  box_files :: "(uuid \<times> box_record json_file) list"
  box_active :: "(uuid \<times> uuid) list"

text \<open>What the host reports: parallelism, pages and their size, process limit, free disk blocks and their size.\<close>

record box_env = guest_env +
  parallelism_at :: "nat \<Rightarrow> u64 option"
  phys_pages_at :: "nat \<Rightarrow> int"
  page_size_at :: "nat \<Rightarrow> int"
  nproc_limit_at :: "nat \<Rightarrow> u64 option"
  statvfs_at :: "nat \<Rightarrow> (u64 \<times> u64) option"

section \<open>Limits and settings (\<open>src/boxes/helpers.rs\<close>)\<close>

record box_caps =
  cap_cpu_cores :: u32
  cap_memory_mb :: u32
  cap_fs_size_mib :: u64
  cap_max_processes :: u32
  cap_network_enabled :: bool

definition u32_try_from :: "u64 \<Rightarrow> u32 option" where
  "u32_try_from v = (if unat v < 2 ^ 32 then Some (ucast v) else None)"

fun unwrap_or :: "'a option \<Rightarrow> 'a \<Rightarrow> 'a" where
  "unwrap_or (Some x) d = x"
| "unwrap_or None d = d"

definition detect_cpu_cap :: "u64 option \<Rightarrow> u32 \<Rightarrow> u32" where
  "detect_cpu_cap parallelism default_value =
     max (unwrap_or (map_option ucast parallelism) (max default_value 1)) default_value"

definition detect_total_memory_mib :: "int \<Rightarrow> int \<Rightarrow> u64 option" where
  "detect_total_memory_mib pages page_size =
     (if pages \<le> 0 \<or> page_size \<le> 0 then None
      else Some (saturating_mul (word_of_int pages) (word_of_int page_size) div (1024 * 1024)))"

definition detect_memory_cap :: "u64 option \<Rightarrow> u32 \<Rightarrow> u32" where
  "detect_memory_cap total_mib default_value =
     max (unwrap_or (Option.bind total_mib u32_try_from) (max default_value 4096)) default_value"

text \<open>\<open>RLIM_INFINITY\<close> is the largest value; \<open>None\<close> stands for a failing \<open>getrlimit\<close>.\<close>

definition detect_process_limit :: "u64 option \<Rightarrow> u64 option" where
  "detect_process_limit limit = (case limit of
     None \<Rightarrow> None
   | Some v \<Rightarrow> if v = - 1 then None else Some (min v 65535))"

definition detect_process_cap :: "u64 option \<Rightarrow> u32 \<Rightarrow> u32" where
  "detect_process_cap limit default_value =
     max (unwrap_or (Option.bind (detect_process_limit limit) u32_try_from) (max default_value 4096)) default_value"

text \<open>The product of the two counters is computed in 128 bits, and the result truncated to 64.\<close>

definition detect_available_disk_mib :: "(u64 \<times> u64) option \<Rightarrow> u64 option" where
  "detect_available_disk_mib stats = (case stats of
     None \<Rightarrow> None
   | Some (bavail, frsize) \<Rightarrow> Some (ucast (saturating_mul (ucast bavail :: 128 word) (ucast frsize) div (1024 * 1024))))"

definition detect_fs_cap :: "(u64 \<times> u64) option \<Rightarrow> u64 \<Rightarrow> u64 \<Rightarrow> u64" where
  "detect_fs_cap stats default_value current_value =
     max (max (unwrap_or (map_option (\<lambda>free. saturating_add free current_value) (detect_available_disk_mib stats))
                (max (saturating_mul default_value 8) current_value))
           default_value) current_value"

definition detect_box_caps :: "'e box_env_scheme \<Rightarrow> execution_policy \<Rightarrow> u64 \<Rightarrow> isolation_mode \<Rightarrow> u64 \<Rightarrow> ('z host_scheme, box_caps) io" where
  "detect_box_caps E policy default_fs mode actual_fs =
     bindE (ask (\<lambda>n. (parallelism_at E n, phys_pages_at E n, page_size_at E n, nproc_limit_at E n, statvfs_at E n)))
       (\<lambda>(par, pages, psize, nproc, stats).
         returnE \<lparr>cap_cpu_cores = detect_cpu_cap par (pol_cpu_cores policy),
                  cap_memory_mb = detect_memory_cap (detect_total_memory_mib pages psize) (pol_memory_mb policy),
                  cap_fs_size_mib = detect_fs_cap stats default_fs actual_fs,
                  cap_max_processes = detect_process_cap nproc (pol_max_processes policy),
                  cap_network_enabled = (mode \<noteq> Secure)\<rparr>)"

text \<open>One numeric setting; \<open>clamp\<close> panics when its bounds are the wrong way round.\<close>

definition normalize_numeric :: "('a::linorder) box_numeric_setting \<Rightarrow> 'a \<Rightarrow> 'a \<Rightarrow> 'a box_numeric_setting option" where
  "normalize_numeric x detected lower = (let upper = max detected (num_current x) in
     map_option (\<lambda>c. \<lparr>num_current = c, num_max = upper\<rparr>) (clamp (num_current x) lower upper))"

definition normalize_settings :: "box_settings \<Rightarrow> u64 \<Rightarrow> box_caps \<Rightarrow> box_settings option" where
  "normalize_settings existing actual_fs detected =
     Option.bind (normalize_numeric (set_cpu_cores existing) (cap_cpu_cores detected) 1) (\<lambda>cpu.
     Option.bind (normalize_numeric (set_memory_mb existing) (cap_memory_mb detected) 128) (\<lambda>memory.
     Option.bind (normalize_numeric (set_max_processes existing) (cap_max_processes detected) 1) (\<lambda>processes.
     Option.bind (clamp actual_fs 64 (max (cap_fs_size_mib detected) actual_fs)) (\<lambda>fs.
       Some \<lparr>set_cpu_cores = cpu, set_memory_mb = memory,
             set_fs_size_mib = \<lparr>num_current = fs, num_max = max (cap_fs_size_mib detected) actual_fs\<rparr>,
             set_max_processes = processes,
             set_network_enabled = \<lparr>flag_current = flag_current (set_network_enabled existing) \<and> cap_network_enabled detected,
                                    flag_max = cap_network_enabled detected\<rparr>\<rparr>))))"

section \<open>The box store (\<open>src/boxes/store.rs\<close>)\<close>

definition box_ensure_layout :: "'e env_scheme \<Rightarrow> ('z host_scheme, unit) io" where
  "box_ensure_layout E = sys_io E ''creating BOX registry directory''"

definition box_read_path :: "'e env_scheme \<Rightarrow> box_record json_file \<Rightarrow> ('z host_scheme, box_record) io" where
  "box_read_path E j = seqE (sys_io E ''reading BOX registry entry'') (decode_json ''decoding BOX registry entry'' j)"

definition box_list :: "'e env_scheme \<Rightarrow> ('z box_state_scheme, box_record list) io" where
  "box_list E =
     seqE (sys_io E ''reading BOX registry directory'')
     (bindE (getE box_files) (\<lambda>files.
      bindE (mapE (\<lambda>(_, j). seqE (sys_io E ''iterating BOX registry directory'') (box_read_path E j)) files) (\<lambda>records.
        returnE (sort_key (\<lambda>r. (bx_created_at_ms r, bx_box_id r)) records))))"

definition unknown_box :: "'e env_scheme \<Rightarrow> uuid \<Rightarrow> sandbox_error" where
  "unknown_box E b = NotFound (''unknown BOX '' @ uuid_string E b)"

definition box_read :: "'e env_scheme \<Rightarrow> uuid \<Rightarrow> ('z box_state_scheme, box_record) io" where
  "box_read E b =
     seqE (sys_io E ''checking BOX registry entry'')
     (bindE (getE (\<lambda>s. map_of (box_files s) b)) (\<lambda>file. case file of
        None \<Rightarrow> throwE (unknown_box E b)
      | Some j \<Rightarrow> box_read_path E j))"

text \<open>The entry is written beside the old one and then renamed over it.\<close>

definition box_write :: "'e env_scheme \<Rightarrow> box_record \<Rightarrow> ('z box_state_scheme, unit) io" where
  "box_write E r =
     seqE (box_ensure_layout E)
     (seqE (sys_json E ''encoding BOX registry entry'')
     (seqE (sys_io E ''writing BOX registry entry'')
     (seqE (sys_io E ''replacing BOX registry entry'')
       (modifyE (\<lambda>s. s\<lparr>box_files := AList.update (bx_box_id r) (Intact (r\<lparr>bx_runtime_usage := None\<rparr>)) (box_files s)\<rparr>)))))"

definition box_remove :: "'e env_scheme \<Rightarrow> uuid \<Rightarrow> ('z box_state_scheme, unit) io" where
  "box_remove E b =
     seqE (sys_io E ''checking BOX registry entry'')
     (bindE (getE (\<lambda>s. map_of (box_files s) b)) (\<lambda>file.
        if file = None then throwE (unknown_box E b)
        else seqE (sys_io E ''removing BOX registry entry'')
          (modifyE (\<lambda>s. s\<lparr>box_files := AList.delete b (box_files s)\<rparr>))))"

section \<open>Records and their sandboxes (\<open>src/boxes/helpers.rs\<close>)\<close>

definition hydrate_record :: "'e box_env_scheme \<Rightarrow> runtime_config \<Rightarrow> box_record \<Rightarrow> ('z box_state_scheme, box_record) io" where
  "hydrate_record E C r =
     bindE (tryE (workspace_disk_size_mib E (uuid_string E (bx_box_id r)))) (\<lambda>size.
     let actual_fs = (case size of Inr n \<Rightarrow> n | Inl _ \<Rightarrow> cfg_disk_size_mib C) in
     bindE (detect_box_caps E (cfg_default_policy C) (cfg_disk_size_mib C) (cfg_isolation_mode C) actual_fs) (\<lambda>detected.
     bindE (unpanicE (normalize_settings (bx_settings r) actual_fs detected)) (\<lambda>settings.
     let r' = r\<lparr>bx_settings := settings\<rparr> in
     seqE (if r' \<noteq> r then box_write E r' else returnE ())
       (returnE r'))))"

definition read_box :: "'e box_env_scheme \<Rightarrow> runtime_config \<Rightarrow> uuid \<Rightarrow> ('z box_state_scheme, box_record) io" where
  "read_box E C b = bindE (box_read E b) (hydrate_record E C)"

definition active_insert :: "uuid \<Rightarrow> uuid \<Rightarrow> ('z box_state_scheme, unit) io" where
  "active_insert b u = modifyE (\<lambda>s. s\<lparr>box_active := AList.update b u (box_active s)\<rparr>)"

definition active_remove :: "uuid \<Rightarrow> ('z box_state_scheme, unit) io" where
  "active_remove b = modifyE (\<lambda>s. s\<lparr>box_active := AList.delete b (box_active s)\<rparr>)"

definition set_failed :: "'e env_scheme \<Rightarrow> box_record \<Rightarrow> string \<Rightarrow> ('z box_state_scheme, unit) io" where
  "set_failed E r message =
     seqE (active_remove (bx_box_id r))
       (box_write E (r\<lparr>bx_status := Failed, bx_active_sandbox_id := None, bx_last_error := Some message\<rparr>))"

definition mark_stopped :: "'e env_scheme \<Rightarrow> box_record \<Rightarrow> ('z box_state_scheme, unit) io" where
  "mark_stopped E r =
     bindE (now_ms E) (\<lambda>now.
     seqE (active_remove (bx_box_id r))
       (box_write E (r\<lparr>bx_status := Stopped, bx_active_sandbox_id := None,
                      bx_last_stop_at_ms := Some now, bx_last_error := None\<rparr>)))"

definition sandbox_of :: "box_record \<Rightarrow> ('z box_state_scheme, uuid option) io" where
  "sandbox_of r = (case bx_active_sandbox_id r of
     Some u \<Rightarrow> returnE (Some u)
   | None \<Rightarrow> getE (\<lambda>s. map_of (box_active s) (bx_box_id r)))"

fun missing_runtime_session :: "sandbox_error \<Rightarrow> bool" where
  "missing_runtime_session (InvalidConfig message) = contains message ''unknown active sandbox''"
| "missing_runtime_session (Backend message) = contains message ''unknown active sandbox''"
| "missing_runtime_session _ = False"

definition missing_runtime_state_message :: "'e env_scheme \<Rightarrow> uuid \<Rightarrow> string" where
  "missing_runtime_state_message E b =
     ''BOX '' @ uuid_string E b @ '' is marked running but has no active sandbox; start it again''"

definition missing_runtime_session_message :: "'e env_scheme \<Rightarrow> uuid \<Rightarrow> string" where
  "missing_runtime_session_message E b =
     ''BOX '' @ uuid_string E b @ '' runtime is no longer available; start it again''"

definition attach_runtime_usage :: "'e box_env_scheme \<Rightarrow> runtime_config \<Rightarrow> box_record \<Rightarrow> ('z box_state_scheme, box_record) io" where
  "attach_runtime_usage E C r0 = (let r = r0\<lparr>bx_runtime_usage := None\<rparr>; b = bx_box_id r in
     if bx_status r \<noteq> Running then returnE r
     else bindE (sandbox_of r) (\<lambda>sandbox. case sandbox of
        None \<Rightarrow> seqE (set_failed E r (missing_runtime_state_message E b)) (read_box E C b)
      | Some u \<Rightarrow> bindE (tryE (rt_runtime_stats E u)) (\<lambda>stats. case stats of
            Inr st \<Rightarrow> returnE (r\<lparr>bx_runtime_usage := Some st\<rparr>)
          | Inl error \<Rightarrow>
              seqE (set_failed E r (if missing_runtime_session error then missing_runtime_session_message E b else display error))
                (read_box E C b))))"

definition running_sandbox_id :: "'e box_env_scheme \<Rightarrow> runtime_config \<Rightarrow> uuid \<Rightarrow> ('z box_state_scheme, uuid) io" where
  "running_sandbox_id E C b =
     bindE (read_box E C b) (\<lambda>r.
       if bx_status r \<noteq> Running then throwE (Conflict (''BOX '' @ uuid_string E b @ '' is not running''))
       else bindE (sandbox_of r) (\<lambda>sandbox. case sandbox of
          None \<Rightarrow> seqE (set_failed E r (missing_runtime_state_message E b))
                   (throwE (Backend (missing_runtime_state_message E b)))
        | Some u \<Rightarrow> seqE (active_insert b u) (returnE u)))"

definition ensure_runtime :: "'e box_env_scheme \<Rightarrow> runtime_config \<Rightarrow> uuid \<Rightarrow> ('z box_state_scheme, uuid) io" where
  "ensure_runtime E C b =
     bindE (read_box E C b) (\<lambda>r.
       if bx_status r \<noteq> Running then throwE (Conflict (''BOX '' @ uuid_string E b @ '' is not running; start it first''))
       else bindE (sandbox_of r) (\<lambda>sandbox. case sandbox of
          None \<Rightarrow> seqE (set_failed E r (missing_runtime_state_message E b))
                   (throwE (Backend (missing_runtime_state_message E b)))
        | Some u \<Rightarrow> seqE (active_insert b u)
            (bindE (tryE (rt_runtime_stats E u)) (\<lambda>stats. case stats of
               Inr _ \<Rightarrow> returnE u
             | Inl error \<Rightarrow>
                 if missing_runtime_session error then
                   seqE (set_failed E r (missing_runtime_session_message E b))
                     (throwE (Backend (missing_runtime_session_message E b)))
                 else seqE (set_failed E r (display error)) (throwE error)))))"

definition stop_box_for_shutdown :: "'e box_env_scheme \<Rightarrow> runtime_config \<Rightarrow> uuid \<Rightarrow> ('z box_state_scheme, unit) io" where
  "stop_box_for_shutdown E C b =
     bindE (read_box E C b) (\<lambda>r.
       if bx_status r \<noteq> Running then active_remove b
       else bindE (sandbox_of r) (\<lambda>sandbox. case sandbox of
          None \<Rightarrow> mark_stopped E r
        | Some u \<Rightarrow> seqE (active_insert b u)
            (bindE (tryE (destroy_sandbox E C u)) (\<lambda>d. case d of
               Inr _ \<Rightarrow> mark_stopped E r
             | Inl error \<Rightarrow>
                 if missing_runtime_session error then mark_stopped E r
                 else seqE (set_failed E r (display error)) (throwE error)))))"

definition reconcile_after_restart :: "'e box_env_scheme \<Rightarrow> runtime_config \<Rightarrow> ('z box_state_scheme, unit) io" where
  "reconcile_after_restart E C =
     bindE (box_list E) (\<lambda>records.
       forE records (\<lambda>r0. bindE (hydrate_record E C r0) (\<lambda>r.
         if bx_status r = Running then
           box_write E (r\<lparr>bx_status := Failed,
             bx_last_error := Some ''daemon restarted while BOX was marked running; start it again''\<rparr>)
         else returnE ())))"

section \<open>The service (\<open>src/boxes/service\<close>)\<close>

definition create_box_record :: "'e box_env_scheme \<Rightarrow> runtime_config \<Rightarrow> string option \<Rightarrow> string \<Rightarrow> box_settings \<Rightarrow>
    ('z box_state_scheme, box_record) io" where
  "create_box_record E C name img settings =
     bindE (new_v4 E) (\<lambda>b.
     bindE (prepare_workspace E (wstore C) (uuid_string E b)) (\<lambda>workspace.
     bindE (now_ms E) (\<lambda>now.
     bindE (hydrate_record E C \<lparr>bx_box_id = b, bx_name = name, bx_image = img, bx_status = Created,
              bx_settings = settings, bx_runtime_usage = None, bx_workspace_path = lease_disk_path workspace,
              bx_active_sandbox_id = None, bx_created_at_ms = now, bx_last_start_at_ms = None,
              bx_last_stop_at_ms = None, bx_last_error = None\<rparr>) (\<lambda>r.
     seqE (box_write E r) (returnE r)))))"

definition create_named_box :: "'e box_env_scheme \<Rightarrow> runtime_config \<Rightarrow> string option \<Rightarrow> ('z box_state_scheme, box_record) io" where
  "create_named_box E C name = create_box_record E C name BASE_IMAGE_NAME default_settings"

definition create_box_from_image :: "'e box_env_scheme \<Rightarrow> runtime_config \<Rightarrow> string option \<Rightarrow> ('z box_state_scheme, box_record) io" where
  "create_box_from_image E C image_name = (let img = unwrap_or image_name BASE_IMAGE_NAME in
     seqE (liftE (validate_image_name img))
     (seqE (if img \<noteq> BASE_IMAGE_NAME then seqE (image_inspect E (cfg_state_dir C) img) (returnE ()) else returnE ())
       (create_box_record E C None img default_settings)))"

definition create_box :: "'e box_env_scheme \<Rightarrow> runtime_config \<Rightarrow> ('z box_state_scheme, box_record) io" where
  "create_box E C = create_box_from_image E C None"

definition list_boxes :: "'e box_env_scheme \<Rightarrow> runtime_config \<Rightarrow> ('z box_state_scheme, box_record list) io" where
  "list_boxes E C = bindE (box_list E) (mapE (\<lambda>r. bindE (hydrate_record E C r) (attach_runtime_usage E C)))"

definition get_box :: "'e box_env_scheme \<Rightarrow> runtime_config \<Rightarrow> uuid \<Rightarrow> ('z box_state_scheme, box_record) io" where
  "get_box E C b = bindE (read_box E C b) (attach_runtime_usage E C)"

definition validate_numeric_setting :: "string \<Rightarrow> 'a::len word \<Rightarrow> 'a word \<Rightarrow> 'a word \<Rightarrow> unit result" where
  "validate_numeric_setting name value upper lower =
     (if value < lower then Inl (InvalidConfig (name @ '' must be at least '' @ decimal (unat lower)))
      else if upper < value then Inl (InvalidConfig (name @ '' cannot exceed '' @ decimal (unat upper)))
      else Inr ())"

definition box_policy :: "box_record \<Rightarrow> u64 option \<Rightarrow> execution_policy" where
  "box_policy r timeout_ms = (let st = bx_settings r in
     \<lparr>pol_cpu_cores = num_current (set_cpu_cores st), pol_memory_mb = num_current (set_memory_mb st),
      pol_max_processes = num_current (set_max_processes st),
      pol_network_enabled = flag_current (set_network_enabled st), pol_timeout_ms = timeout_ms\<rparr>)"

text \<open>The new settings, with the resize of the workspace as its only effect.\<close>

fun apply_setting :: "'e box_env_scheme \<Rightarrow> runtime_config \<Rightarrow> uuid \<Rightarrow> box_settings \<Rightarrow> box_setting_value \<Rightarrow>
    ('z box_state_scheme, box_settings) io" where
  "apply_setting E C b st (CpuCores v) =
     seqE (liftE (validate_numeric_setting ''cpu_cores'' v (num_max (set_cpu_cores st)) 1))
       (returnE (st\<lparr>set_cpu_cores := (set_cpu_cores st)\<lparr>num_current := v\<rparr>\<rparr>))"
| "apply_setting E C b st (MemoryMb v) =
     seqE (liftE (validate_numeric_setting ''memory_mb'' v (num_max (set_memory_mb st)) 128))
       (returnE (st\<lparr>set_memory_mb := (set_memory_mb st)\<lparr>num_current := v\<rparr>\<rparr>))"
| "apply_setting E C b st (FsSizeMib v) =
     seqE (liftE (validate_numeric_setting ''fs_size_mib'' v (num_max (set_fs_size_mib st)) 64))
     (if v \<noteq> num_current (set_fs_size_mib st) then
        seqE (resize_workspace E (wstore C) (uuid_string E b) v)
          (returnE (st\<lparr>set_fs_size_mib := (set_fs_size_mib st)\<lparr>num_current := v\<rparr>\<rparr>))
      else returnE st)"
| "apply_setting E C b st (MaxProcesses v) =
     seqE (liftE (validate_numeric_setting ''max_processes'' v (num_max (set_max_processes st)) 1))
       (returnE (st\<lparr>set_max_processes := (set_max_processes st)\<lparr>num_current := v\<rparr>\<rparr>))"
| "apply_setting E C b st (NetworkEnabled v) =
     (if v \<and> \<not> flag_max (set_network_enabled st) then
        throwE (InvalidConfig ''network_enabled cannot be set to true for this BOX'')
      else returnE (st\<lparr>set_network_enabled := (set_network_enabled st)\<lparr>flag_current := v\<rparr>\<rparr>))"

definition set_box_setting :: "'e box_env_scheme \<Rightarrow> runtime_config \<Rightarrow> uuid \<Rightarrow> box_setting_value \<Rightarrow> ('z box_state_scheme, box_record) io" where
  "set_box_setting E C b setting =
     bindE (read_box E C b) (\<lambda>r.
       if bx_status r = Running then
         throwE (Conflict (''BOX '' @ uuid_string E b @ '' must be stopped before updating settings''))
       else bindE (apply_setting E C b (bx_settings r) setting) (\<lambda>st.
         let r' = r\<lparr>bx_settings := st\<rparr> in
         seqE (box_write E r') (hydrate_record E C r')))"

definition start_box :: "'e box_env_scheme \<Rightarrow> runtime_config \<Rightarrow> uuid \<Rightarrow> ('z box_state_scheme, box_record) io" where
  "start_box E C b =
     bindE (read_box E C b) (\<lambda>r.
       if bx_status r = Running then throwE (Conflict (''BOX '' @ uuid_string E b @ '' is already running''))
       else bindE (tryE (create_sandbox E C \<lparr>spec_workspace_id = uuid_string E b, spec_image = bx_image r,
              spec_policy = box_policy r (pol_timeout_ms (cfg_default_policy C)), spec_restore_commit = None\<rparr>)) (\<lambda>res.
         case res of
           Inr session \<Rightarrow>
             seqE (active_insert b (ss_sandbox_id session))
             (bindE (now_ms E) (\<lambda>now.
              let r' = r\<lparr>bx_status := Running, bx_active_sandbox_id := Some (ss_sandbox_id session),
                         bx_last_start_at_ms := Some now, bx_last_error := None\<rparr> in
              seqE (box_write E r') (attach_runtime_usage E C r')))
         | Inl error \<Rightarrow> seqE (set_failed E r (display error)) (throwE error)))"

definition stop_box :: "'e box_env_scheme \<Rightarrow> runtime_config \<Rightarrow> uuid \<Rightarrow> ('z box_state_scheme, box_record) io" where
  "stop_box E C b =
     bindE (read_box E C b) (\<lambda>r.
       if bx_status r \<noteq> Running then throwE (Conflict (''BOX '' @ uuid_string E b @ '' is not running''))
       else bindE (running_sandbox_id E C b) (\<lambda>u.
         bindE (tryE (destroy_sandbox E C u)) (\<lambda>res. case res of
           Inr _ \<Rightarrow>
             seqE (active_remove b)
             (bindE (now_ms E) (\<lambda>now.
              let r' = r\<lparr>bx_status := Stopped, bx_active_sandbox_id := None,
                         bx_last_stop_at_ms := Some now, bx_last_error := None\<rparr> in
              seqE (box_write E r') (returnE r')))
         | Inl error \<Rightarrow>
             if missing_runtime_session error then seqE (mark_stopped E r) (read_box E C b)
             else seqE (set_failed E r (display error)) (throwE error))))"

definition remove_box :: "'e box_env_scheme \<Rightarrow> runtime_config \<Rightarrow> uuid \<Rightarrow> ('z box_state_scheme, unit) io" where
  "remove_box E C b =
     bindE (read_box E C b) (\<lambda>r0.
     bindE (if bx_status r0 = Running then seqE (stop_box E C b) (read_box E C b) else returnE r0) (\<lambda>r.
     seqE (box_write E (r\<lparr>bx_status := Removing, bx_active_sandbox_id := None, bx_last_error := None\<rparr>))
     (seqE (remove_workspace E (uuid_string E b))
     (seqE (active_remove b)
       (box_remove E b)))))"

definition in_runtime :: "'e box_env_scheme \<Rightarrow> runtime_config \<Rightarrow> uuid \<Rightarrow> (uuid \<Rightarrow> ('z box_state_scheme, 'a) io) \<Rightarrow> ('z box_state_scheme, 'a) io" where
  "in_runtime E C b f = bindE (ensure_runtime E C b) f"

definition box_list_files :: "'e box_env_scheme \<Rightarrow> runtime_config \<Rightarrow> uuid \<Rightarrow> string \<Rightarrow> ('z box_state_scheme, file_node list) io" where
  "box_list_files E C b path = in_runtime E C b (\<lambda>u. rt_list_files E u path)"

definition box_read_file :: "'e box_env_scheme \<Rightarrow> runtime_config \<Rightarrow> uuid \<Rightarrow> string \<Rightarrow> u64 \<Rightarrow> ('z box_state_scheme, read_file_result) io" where
  "box_read_file E C b path limit = in_runtime E C b (\<lambda>u. rt_read_file E u path limit)"

definition box_write_file :: "'e box_env_scheme \<Rightarrow> runtime_config \<Rightarrow> uuid \<Rightarrow> string \<Rightarrow> u8 list \<Rightarrow> bool \<Rightarrow> ('z box_state_scheme, unit) io" where
  "box_write_file E C b path data parents = in_runtime E C b (\<lambda>u. rt_write_file E u path data parents)"

definition box_make_dir :: "'e box_env_scheme \<Rightarrow> runtime_config \<Rightarrow> uuid \<Rightarrow> string \<Rightarrow> bool \<Rightarrow> ('z box_state_scheme, unit) io" where
  "box_make_dir E C b path recursive = in_runtime E C b (\<lambda>u. rt_make_dir E u path recursive)"

definition box_remove_path :: "'e box_env_scheme \<Rightarrow> runtime_config \<Rightarrow> uuid \<Rightarrow> string \<Rightarrow> bool \<Rightarrow> ('z box_state_scheme, unit) io" where
  "box_remove_path E C b path recursive = in_runtime E C b (\<lambda>u. rt_remove_path E u path recursive)"

definition box_exec :: "'e box_env_scheme \<Rightarrow> runtime_config \<Rightarrow> uuid \<Rightarrow> exec_request \<Rightarrow> ('z box_state_scheme, uuid \<times> exec_request) io" where
  "box_exec E C b request = in_runtime E C b (\<lambda>u. rt_exec E u request)"

definition box_open_shell :: "'e box_env_scheme \<Rightarrow> runtime_config \<Rightarrow> uuid \<Rightarrow> shell_request \<Rightarrow> ('z box_state_scheme, uuid) io" where
  "box_open_shell E C b request = in_runtime E C b (\<lambda>u. rt_open_shell E u request)"

definition checkpoint_create :: "'e box_env_scheme \<Rightarrow> runtime_config \<Rightarrow> uuid \<Rightarrow> string option \<Rightarrow> (string \<times> string) list \<Rightarrow>
    ('z box_state_scheme, checkpoint_record) io" where
  "checkpoint_create E C b name metadata = in_runtime E C b (\<lambda>u. capture_workspace_checkpoint E u name metadata)"

definition checkpoint_list :: "'e box_env_scheme \<Rightarrow> runtime_config \<Rightarrow> uuid \<Rightarrow> ('z box_state_scheme, checkpoint_record list) io" where
  "checkpoint_list E C b = seqE (read_box E C b) (store_list_checkpoints E (uuid_string E b))"

definition checkpoint_restore :: "'e box_env_scheme \<Rightarrow> runtime_config \<Rightarrow> uuid \<Rightarrow> string \<Rightarrow> restore_mode \<Rightarrow>
    ('z box_state_scheme, checkpoint_record) io" where
  "checkpoint_restore E C b c mode =
     bindE (read_box E C b) (\<lambda>r. let was_running = (bx_status r = Running) in
     seqE (if was_running then seqE (stop_box E C b) (returnE ()) else returnE ())
     (bindE (restore_checkpoint E (wstore C) (uuid_string E b) c mode) (\<lambda>restored.
      seqE (if was_running then seqE (start_box E C b) (returnE ()) else returnE ())
        (returnE restored))))"

definition checkpoint_fork :: "'e box_env_scheme \<Rightarrow> runtime_config \<Rightarrow> uuid \<Rightarrow> string \<Rightarrow> string option \<Rightarrow> ('z box_state_scheme, box_record) io" where
  "checkpoint_fork E C b c name =
     bindE (read_box E C b) (\<lambda>source.
     bindE (create_box_record E C name (bx_image source) (bx_settings source)) (\<lambda>r.
     seqE (fork_workspace E (wstore C) (uuid_string E b) c (uuid_string E (bx_box_id r)))
       (returnE r)))"

definition checkpoint_delete :: "'e box_env_scheme \<Rightarrow> runtime_config \<Rightarrow> uuid \<Rightarrow> string \<Rightarrow> ('z box_state_scheme, unit) io" where
  "checkpoint_delete E C b c = seqE (read_box E C b) (store_delete_checkpoint E (uuid_string E b) c)"

definition active_box_ids :: "'z box_state_scheme \<Rightarrow> uuid list" where
  "active_box_ids s = sort (map fst (box_active s))"

definition shutdown_daemon :: "'e box_env_scheme \<Rightarrow> runtime_config \<Rightarrow> ('z box_state_scheme, unit) io" where
  "shutdown_daemon E C = bindE (getE active_box_ids) (\<lambda>ids. forE ids (stop_box_for_shutdown E C))"

text \<open>
  \<open>LocalBoxService::new\<close>: the in-memory state starts empty, the layouts are made and boxes that
  were running are marked failed.
\<close>

definition new_box_service :: "'e box_env_scheme \<Rightarrow> runtime_config \<Rightarrow> ('z box_state_scheme, unit) io" where
  "new_box_service E C =
     seqE (modifyE (\<lambda>s. s\<lparr>rt_active := [], rt_warm_runs := [], rt_history := [], box_active := []\<rparr>))
     (seqE (box_ensure_layout E)
     (seqE (ensure_layout E (wstore C))
       (reconcile_after_restart E C)))"

end
