(* ===== verification/Box_Invariants.thy ===== *)
theory Box_Invariants
  imports Boxes
begin

text \<open>
  The invariant that ties the box registry to the runtime, and what each operation of the
  box service leaves alone. A box refers to a sandbox from its record and from the
  in-memory map; the invariant says that a sandbox a box refers to, if it is active, runs
  on that box's workspace. Every operation on one box then leaves the record, the map
  entry, the disk, the checkpoints and the sandbox of every other box unchanged.
\<close>

section \<open>The invariant\<close>

text \<open>\<open>us\<close> renders a box id as the name of its workspace.\<close>

definition mine :: "(uuid \<Rightarrow> string) \<Rightarrow> uuid \<Rightarrow> uuid \<Rightarrow> 'z runtime_state_scheme \<Rightarrow> bool" where
  "mine us b u s \<longleftrightarrow> (\<forall>m. map_of (rt_active s) u = Some m \<longrightarrow> lease_workspace_id (ms_workspace m) = us b)"

text \<open>
  A record is fine for the boxes \<open>B\<close>, the known owners \<open>X\<close> and the ids in use \<open>U\<close>: it is one of
  those boxes, names a sandbox when it is running, and that sandbox is its own.
\<close>

definition rec_fine :: "uuid set \<Rightarrow> (uuid \<times> uuid) set \<Rightarrow> uuid set \<Rightarrow> box_record \<Rightarrow> bool" where
  "rec_fine B X U r \<longleftrightarrow> bx_box_id r \<in> B \<and> (bx_status r = Running \<longrightarrow> bx_active_sandbox_id r \<noteq> None) \<and>
     (\<forall>u. bx_active_sandbox_id r = Some u \<longrightarrow> u \<in> U \<and> (bx_box_id r, u) \<in> X)"

definition record_ok :: "(uuid \<Rightarrow> string) \<Rightarrow> uuid set \<Rightarrow> uuid \<Rightarrow> box_record \<Rightarrow> 'z runtime_state_scheme \<Rightarrow> bool" where
  "record_ok us U b r s \<longleftrightarrow> bx_box_id r = b \<and> (bx_status r = Running \<longrightarrow> bx_active_sandbox_id r \<noteq> None) \<and>
     (\<forall>u. bx_active_sandbox_id r = Some u \<longrightarrow> u \<in> U \<and> mine us b u s)"

definition boxes_ok :: "(uuid \<Rightarrow> string) \<Rightarrow> uuid set \<Rightarrow> 'z box_state_scheme \<Rightarrow> bool" where
  "boxes_ok us U s \<longleftrightarrow> distinct (map fst (rt_active s)) \<and> fst ` set (rt_active s) \<subseteq> U \<and>
     distinct (map fst (box_files s)) \<and>
     (\<forall>b r. map_of (box_files s) b = Some (Intact r) \<longrightarrow> record_ok us U b r s) \<and>
     (\<forall>b u. map_of (box_active s) b = Some u \<longrightarrow> u \<in> U \<and> mine us b u s)"

text \<open>What belongs to a box.\<close>

definition sessions_on :: "string \<Rightarrow> 'z runtime_state_scheme \<Rightarrow> (uuid \<times> managed_sandbox) list" where
  "sessions_on w s = filter (\<lambda>(u, m). lease_workspace_id (ms_workspace m) = w) (rt_active s)"

definition box_view :: "(uuid \<Rightarrow> string) \<Rightarrow> 'z box_state_scheme \<Rightarrow> uuid \<Rightarrow>
    box_record json_file option \<times> uuid option \<times> (lineage_dir option \<times> disk option option) \<times> (uuid \<times> managed_sandbox) list" where
  "box_view us s c = (map_of (box_files s) c, map_of (box_active s) c, workspace_view s (us c), sessions_on (us c) s)"

text \<open>
  The assertion the proofs carry: the invariant holds, the boxes outside \<open>B\<close> look as \<open>V\<close> says,
  and the pairs in \<open>X\<close> are a box and a sandbox of its own.
\<close>

definition bst :: "(uuid \<Rightarrow> string) \<Rightarrow> uuid set \<Rightarrow> (uuid \<Rightarrow> box_record json_file option \<times> uuid option \<times>
      (lineage_dir option \<times> disk option option) \<times> (uuid \<times> managed_sandbox) list) \<Rightarrow> uuid set \<Rightarrow> (uuid \<times> uuid) set \<Rightarrow>
    'z box_state_scheme \<Rightarrow> bool" where
  "bst us B V U X s \<longleftrightarrow> inj us \<and> boxes_ok us U s \<and> (\<forall>c. c \<notin> B \<longrightarrow> box_view us s c = V c) \<and>
     (\<forall>b u. (b, u) \<in> X \<longrightarrow> mine us b u s)"

lemma bst_weaken: "bst us B V U X' s \<Longrightarrow> X \<subseteq> X' \<Longrightarrow> bst us B V U X s"
  by (auto simp: bst_def)

lemma bst_more: "bst us B V U X s \<Longrightarrow> U \<subseteq> U' \<Longrightarrow> bst us B V U' X s"
  unfolding bst_def boxes_ok_def record_ok_def by blast

lemma rec_fine_weaken: "rec_fine B X U r \<Longrightarrow> X \<subseteq> X' \<Longrightarrow> rec_fine B X' U r"
  by (auto simp: rec_fine_def)

lemma rec_fine_settings [simp]:
  "rec_fine B X U (r\<lparr>bx_settings := st\<rparr>) = rec_fine B X U r"
  "rec_fine B X U (r\<lparr>bx_runtime_usage := ru\<rparr>) = rec_fine B X U r"
  by (simp_all add: rec_fine_def)

section \<open>Steps that keep the assertion\<close>

lemma counter_free_bst [simp, intro]: "counter_free (bst us B V U X)"
  by (auto simp: counter_free_def bst_def boxes_ok_def record_ok_def mine_def box_view_def workspace_view_def sessions_on_def)

text \<open>Steps that touch only the files of one workspace.\<close>

definition box_fields :: "'z box_state_scheme \<Rightarrow> (uuid \<times> managed_sandbox) list \<times> (uuid \<times> box_record json_file) list \<times> (uuid \<times> uuid) list" where
  "box_fields s = (rt_active s, box_files s, box_active s)"

lemma store_free_box_fields [simp]: "store_free box_fields"
  by (simp add: store_free_def box_fields_def)

lemma bst_local:
  assumes "box_fields t = box_fields s" "\<And>w. w \<noteq> us b \<Longrightarrow> workspace_view t w = workspace_view s w" "b \<in> B"
  shows "bst us B V U X s \<Longrightarrow> bst us B V U X t"
proof -
  have f: "rt_active t = rt_active s" "box_files t = box_files s" "box_active t = box_active s"
    using assms(1) by (simp_all add: box_fields_def)
  have ok: "boxes_ok us U t = boxes_ok us U s" "mine us b u t = mine us b u s" for b u
    by (simp_all add: boxes_ok_def record_ok_def mine_def f)
  have "box_view us t c = box_view us s c" if "c \<notin> B" "inj us" for c
  proof -
    have "us c \<noteq> us b" using that assms(3) by (auto dest: injD)
    then show ?thesis using assms(2) by (simp add: box_view_def f sessions_on_def)
  qed
  then show "bst us B V U X s \<Longrightarrow> bst us B V U X t" by (simp add: bst_def ok)
qed

lemma preserves_bst_store:
  assumes "keeps box_fields m" "\<And>w. w \<noteq> us b \<Longrightarrow> keeps (\<lambda>s. workspace_view s w) m" "b \<in> B"
  shows "preserves (bst us B V U X) m"
  unfolding preserves_def using bst_local assms(3) keepsD [OF assms(1)] keepsD [OF assms(2)] by blast

lemma bst_store_ops:
  assumes "b \<in> B"
  shows "preserves (bst us B V U X) (prepare_workspace E W (us b))"
    and "preserves (bst us B V U X) (restore_checkpoint E W (us b) c mode)"
    and "preserves (bst us B V U X) (store_delete_checkpoint E (us b) c)"
    and "preserves (bst us B V U X) (fork_workspace E W v c (us b))"
    and "preserves (bst us B V U X) (resize_workspace E W (us b) mib)"
    and "preserves (bst us B V U X) (remove_workspace E (us b))"
  by (auto simp: assms intro!: preserves_bst_store [OF keeps_store_ops(1) keeps_workspace_view(1)]
      preserves_bst_store [OF keeps_store_ops(3) keeps_workspace_view(3)]
      preserves_bst_store [OF keeps_store_ops(4) keeps_workspace_view(4)]
      preserves_bst_store [OF keeps_store_ops(5) keeps_workspace_view(5)]
      preserves_bst_store [OF keeps_store_ops(6) keeps_workspace_view(6)]
      preserves_bst_store [OF keeps_store_ops(7) keeps_workspace_view(7)])

lemma bst_disk_size: "preserves (bst us B V U X) (workspace_disk_size_mib E w)"
  unfolding workspace_disk_size_mib_def by (auto intro!: preserves_intro)

lemma bst_list_checkpoints: "preserves (bst us B V U X) (store_list_checkpoints E (us b))" if "b \<in> B"
  using that by (auto intro!: preserves_bst_store keeps_wpI wp_intro
      simp: store_list_checkpoints_def list_checkpoints_def wp_simps box_fields_def workspace_view_def split: sum.split)


section \<open>Steps on the registry of boxes\<close>

lemma bst_box_write:
  assumes "rec_fine B X U r"
  shows "preserves (bst us B V U X) (box_write E r)"
proof -
  have "bst us B V U X (s\<lparr>box_files := AList.update (bx_box_id r) (Intact (r\<lparr>bx_runtime_usage := None\<rparr>)) (box_files s)\<rparr>)"
    if "bst us B V U X s" for s :: "'z box_state_scheme"
    using that assms
    by (auto simp: bst_def boxes_ok_def record_ok_def rec_fine_def mine_def box_view_def sessions_on_def workspace_view_def
        update_conv' distinct_update split: if_splits)
  then show ?thesis
    unfolding box_write_def box_ensure_layout_def by (auto intro!: preserves_intro)
qed

lemma bst_active:
  assumes "b \<in> B"
  shows "(b, u) \<in> X \<Longrightarrow> u \<in> U \<Longrightarrow> preserves (bst us B V U X) (active_insert b u)"
    and "preserves (bst us B V U X) (active_remove b)"
  unfolding active_insert_def active_remove_def using assms
  by (auto simp: bst_def boxes_ok_def record_ok_def mine_def box_view_def sessions_on_def workspace_view_def
      update_conv' delete_conv' split: if_splits intro!: preserves_intro)

lemma bst_box_remove:
  assumes "b \<in> B"
  shows "preserves (bst us B V U X) (box_remove E b)"
proof -
  have "bst us B V U X (s\<lparr>box_files := AList.delete b (box_files s)\<rparr>)"
    if "bst us B V U X s" for s :: "'z box_state_scheme"
    using that assms
    by (auto simp: bst_def boxes_ok_def record_ok_def mine_def box_view_def sessions_on_def workspace_view_def
        delete_conv' distinct_delete split: if_splits)
  then show ?thesis unfolding box_remove_def by (auto intro!: preserves_intro)
qed

lemma bst_set_failed: "bx_box_id r \<in> B \<Longrightarrow> preserves (bst us B V U X) (set_failed E r msg)"
  unfolding set_failed_def by (auto simp: rec_fine_def intro!: preserves_intro bst_active bst_box_write)

lemma bst_mark_stopped: "bx_box_id r \<in> B \<Longrightarrow> preserves (bst us B V U X) (mark_stopped E r)"
  unfolding mark_stopped_def by (auto simp: rec_fine_def intro!: preserves_intro bst_active bst_box_write)

text \<open>From preservation to weakest preconditions.\<close>

lemma wp_preserves:
  assumes "preserves P m" "P s" "\<And>a t. P t \<Longrightarrow> Q a t" "\<And>x t. P t \<Longrightarrow> R x t"
  shows "wp m Q R s"
  using assms by (auto simp: wp_def split: prod.split sum.split dest: preserves_runD)

lemma wp_hydrate:
  assumes "rec_fine B X U r" "bst us B V U X s"
    and "\<And>st t. bst us B V U X t \<Longrightarrow> Q (r\<lparr>bx_settings := st\<rparr>) t" "\<And>x t. bst us B V U X t \<Longrightarrow> R x t"
  shows "wp (hydrate_record E C r) Q R s"
proof -
  have same: "Q r t" if "bst us B V U X t" for t
    using assms(3) [OF that, of "bx_settings r"] by simp
  show ?thesis
  unfolding hydrate_record_def detect_box_caps_def Let_def split_beta
  using assms same
  by (auto simp: wp_simps split: failure.split option.split
      intro!: wp_preserves [OF bst_disk_size] wp_preserves [OF preserves_ask [OF counter_free_bst]] wp_preserves [OF bst_box_write])
qed


lemma wp_box_read:
  assumes "b \<in> B" "bst us B V U X s"
    and "\<And>r t X'. X \<subseteq> X' \<Longrightarrow> bst us B V U X' t \<Longrightarrow> rec_fine B X' U r \<Longrightarrow> bx_box_id r = b \<Longrightarrow>
      map_of (box_files t) b = Some (Intact r) \<Longrightarrow> Q r t"
    and "\<And>x t. bst us B V U X t \<Longrightarrow> R x t"
  shows "wp (box_read E b) Q R s"
proof -
  have cf: "bst us B V U X (t\<lparr>calls := n\<rparr>) = bst us B V U X t" for t :: "'z box_state_scheme" and n X
    by (rule counter_freeD) simp
  have "Q r (s\<lparr>calls := n\<rparr>)" if r: "map_of (box_files s) b = Some (Intact r)" for r n
  proof (rule assms(3) [where X' = "X \<union> {(b, u) |u. bx_active_sandbox_id r = Some u}"])
    from assms(2) r have "record_ok us U b r s" by (auto simp: bst_def boxes_ok_def)
    then show "bst us B V U (X \<union> {(b, u) |u. bx_active_sandbox_id r = Some u}) (s\<lparr>calls := n\<rparr>)"
      and "rec_fine B (X \<union> {(b, u) |u. bx_active_sandbox_id r = Some u}) U r" and "bx_box_id r = b"
      using assms(1,2) unfolding cf by (auto simp: bst_def record_ok_def rec_fine_def)
  qed (use r in auto)
  then show ?thesis
    using assms(2,4) unfolding box_read_def box_read_path_def
    by (auto simp: wp_simps cf split: option.split json_file.split intro!: wp_intro)
qed

lemma wp_read_box:
  assumes "b \<in> B" "bst us B V U X s"
    and "\<And>r t X'. X \<subseteq> X' \<Longrightarrow> bst us B V U X' t \<Longrightarrow> rec_fine B X' U r \<Longrightarrow> bx_box_id r = b \<Longrightarrow> Q r t"
    and "\<And>x t. bst us B V U X t \<Longrightarrow> R x t"
  shows "wp (read_box E C b) Q R s"
  unfolding read_box_def wp_bindE
  by (rule wp_box_read [OF assms(1,2)])
     (auto intro!: wp_hydrate intro: assms(3,4) bst_weaken)

lemma wp_sandbox_of:
  assumes "bst us B V U X s" "rec_fine B X U r"
    and "\<And>u t X'. X \<subseteq> X' \<Longrightarrow> bst us B V U X' t \<Longrightarrow> (bx_box_id r, u) \<in> X' \<Longrightarrow> u \<in> U \<Longrightarrow> Q (Some u) t"
    and "bx_active_sandbox_id r = None \<Longrightarrow> Q None s"
  shows "wp (sandbox_of r) Q R s"
proof (cases "bx_active_sandbox_id r")
  case None
  show ?thesis
  proof (cases "map_of (box_active s) (bx_box_id r)")
    case None
    then show ?thesis using assms(4) \<open>bx_active_sandbox_id r = None\<close> by (simp add: sandbox_of_def wp_simps)
  next
    case (Some u)
    then have "u \<in> U" "mine us (bx_box_id r) u s" using assms(1) by (auto simp: bst_def boxes_ok_def)
    then show ?thesis
      using assms(1) assms(3) [of "insert (bx_box_id r, u) X" s u] Some \<open>bx_active_sandbox_id r = None\<close>
      by (auto simp: sandbox_of_def wp_simps bst_def)
  qed
next
  case (Some u)
  then show ?thesis using assms(1,2) assms(3) [of X s u] by (auto simp: sandbox_of_def wp_simps rec_fine_def)
qed

section \<open>Steps of the runtime\<close>

lemma bst_guest_writes: "b \<in> B \<Longrightarrow> preserves (bst us B V U X) (guest_writes E (us b))"
  by (rule preserves_bst_store [OF keeps_internal(3) [OF store_free_box_fields]])
     (auto simp: guest_writes_def upd_disk_def workspace_view_def intro!: keeps_intro)

lemma bst_rpc_call: "b \<in> B \<Longrightarrow> preserves (bst us B V U X) (rpc_call E (us b) c e)"
  unfolding rpc_call_def rpc_answer_def by (auto intro!: preserves_intro bst_guest_writes)

lemma bst_rpc_timed: "b \<in> B \<Longrightarrow> preserves (bst us B V U X) (rpc_call_timed E (us b) c e)"
  unfolding rpc_call_timed_def rpc_answer_def by (auto intro!: preserves_intro bst_guest_writes)

text \<open>A step on sandbox \<open>u\<close> of box \<open>b\<close> starts from its session, which is on the box's workspace.\<close>

lemma wp_registry_active:
  assumes "bst us B V U X s" "(b, u) \<in> X"
    and "\<And>m. map_of (rt_active s) u = Some m \<Longrightarrow> lease_workspace_id (ms_workspace m) = us b \<Longrightarrow> Q m s"
    and "\<And>x. R x s"
  shows "wp (registry_active E u) Q R s"
  using assms by (auto simp: registry_active_def wp_simps bst_def mine_def split: option.split)

lemma filter_map_entry:
  "(\<And>m. (u, m) \<in> set xs \<Longrightarrow> \<not> P (u, m) \<and> \<not> P (u, f m)) \<Longrightarrow> filter P (AList.map_entry u f xs) = filter P xs"
  by (induction xs) auto

lemma filter_alist_delete:
  "(\<And>m. (u, m) \<in> set xs \<Longrightarrow> \<not> P (u, m)) \<Longrightarrow> filter P (AList.delete u xs) = filter P xs"
  by (induction xs) auto

lemma filter_alist_append: "\<not> P (u, m) \<Longrightarrow> filter P (xs @ [(u, m)]) = filter P xs"
  by simp

text \<open>The sessions may change as long as those on other boxes' workspaces do not and none moves.\<close>

lemma bst_sessions:
  assumes "bst us B V U X s"
    and "box_files t = box_files s" "box_active t = box_active s" "\<And>w. workspace_view t w = workspace_view s w"
    and "distinct (map fst (rt_active t))" "fst ` set (rt_active t) \<subseteq> U"
    and "\<And>c. c \<notin> B \<Longrightarrow> sessions_on (us c) t = sessions_on (us c) s"
    and "\<And>b u. mine us b u s \<Longrightarrow> mine us b u t"
  shows "bst us B V U X t"
  using assms unfolding bst_def boxes_ok_def record_ok_def box_view_def by simp

lemma bst_upd_session:
  assumes "bst us B V U X s" "b \<in> B" "(b, u) \<in> X"
  shows "bst us B V U X (upd_session u (ms_exec_busy_update (\<lambda>_. v)) s)"
proof (rule bst_sessions [OF assms(1)])
  have d: "distinct (map fst (rt_active s))" and own: "mine us b u s" and inj: "inj us"
    using assms by (auto simp: bst_def boxes_ok_def)
  show "distinct (map fst (rt_active (upd_session u (ms_exec_busy_update (\<lambda>_. v)) s)))"
    using d by (simp add: upd_session_def distinct_map_entry)
  show "fst ` set (rt_active (upd_session u (ms_exec_busy_update (\<lambda>_. v)) s)) \<subseteq> U"
    using assms(1) by (simp add: upd_session_def bst_def boxes_ok_def dom_map_entry)
  show "mine us b' u' (upd_session u (ms_exec_busy_update (\<lambda>_. v)) s)" if "mine us b' u' s" for b' u'
    using that by (auto simp: mine_def upd_session_def map_of_map_entry split: if_splits option.splits)
  show "sessions_on (us c) (upd_session u (ms_exec_busy_update (\<lambda>_. v)) s) = sessions_on (us c) s" if "c \<notin> B" for c
  proof -
    have "us c \<noteq> us b" using that assms(2) inj by (auto dest: injD)
    then show ?thesis
      using own d unfolding sessions_on_def upd_session_def mine_def by (auto intro!: filter_map_entry)
  qed
qed (simp_all add: upd_session_def workspace_view_def)

lemma bst_delete_session:
  assumes "bst us B V U X s" "b \<in> B" "(b, u) \<in> X"
  shows "bst us B V U X (s\<lparr>rt_active := AList.delete u (rt_active s)\<rparr>)"
proof (rule bst_sessions [OF assms(1)])
  have d: "distinct (map fst (rt_active s))" and own: "mine us b u s" and inj: "inj us"
    using assms by (auto simp: bst_def boxes_ok_def)
  show "distinct (map fst (rt_active (s\<lparr>rt_active := AList.delete u (rt_active s)\<rparr>)))"
    using d by (simp add: distinct_delete)
  show "fst ` set (rt_active (s\<lparr>rt_active := AList.delete u (rt_active s)\<rparr>)) \<subseteq> U"
    using assms(1) by (auto simp: bst_def boxes_ok_def dest: set_alist_deleteD)
  show "mine us b' u' (s\<lparr>rt_active := AList.delete u (rt_active s)\<rparr>)" if "mine us b' u' s" for b' u'
    using that by (auto simp: mine_def delete_conv' split: if_splits)
  show "sessions_on (us c) (s\<lparr>rt_active := AList.delete u (rt_active s)\<rparr>) = sessions_on (us c) s" if "c \<notin> B" for c
  proof -
    have "us c \<noteq> us b" using that assms(2) inj by (auto dest: injD)
    then show ?thesis
      using own d unfolding sessions_on_def mine_def by (auto intro!: filter_alist_delete)
  qed
qed (simp_all add: workspace_view_def)

lemma bst_runtime_frame [simp]:
  "bst us B V U X (s\<lparr>rt_warm_runs := w\<rparr>) = bst us B V U X s" "bst us B V U X (s\<lparr>rt_history := h\<rparr>) = bst us B V U X s"
  by (simp_all add: bst_def boxes_ok_def record_ok_def mine_def box_view_def sessions_on_def workspace_view_def)

lemma bst_runtime_ops:
  assumes "b \<in> B" "(b, u) \<in> X"
  shows "preserves (bst us B V U X) (on_session E u c e)"
    and "preserves (bst us B V U X) (rt_open_shell E u sr)"
    and "preserves (bst us B V U X) (rt_exec E u er)"
    and "preserves (bst us B V U X) (guest_runs E u)"
    and "preserves (bst us B V U X) (release_exec u)"
proof -
  note act = wp_registry_active [OF _ assms(2)]
  note pre = wp_preserves [OF bst_rpc_call [OF assms(1), where us = us and V = V and U = U and X = X]]
    wp_preserves [OF bst_guest_writes [OF assms(1), where us = us and V = V and U = U and X = X]]
    wp_preserves [OF preserves_ask [OF counter_free_bst [of us B V U X]]]
    wp_preserves [OF preserves_new_v4 [OF counter_free_bst [of us B V U X]]]
  note upd = bst_upd_session [OF _ assms]
  show "preserves (bst us B V U X) (on_session E u c e)"
    unfolding on_session_def by (rule preserves_wpI) (auto simp: wp_simps intro!: act pre)
  show "preserves (bst us B V U X) (rt_open_shell E u sr)"
    unfolding rt_open_shell_def by (rule preserves_wpI) (auto simp: wp_simps split: sum.split intro!: act pre)
  show "preserves (bst us B V U X) (rt_exec E u er)"
    unfolding rt_exec_def try_acquire_exec_def release_exec_def Let_def
    by (rule preserves_wpI) (auto simp: wp_simps split: sum.split intro!: act pre upd)
  show "preserves (bst us B V U X) (guest_runs E u)"
    unfolding guest_runs_def by (rule preserves_wpI) (auto simp: wp_simps intro!: act pre)
  show "preserves (bst us B V U X) (release_exec u)"
    unfolding release_exec_def by (auto intro!: preserves_intro upd)
qed


lemma bst_capture:
  assumes "b \<in> B" "(b, u) \<in> X"
  shows "preserves (bst us B V U X) (capture_workspace_checkpoint E u n md)"
proof -
  note act = wp_registry_active [OF _ assms(2)]
  note pre = wp_preserves [OF bst_rpc_call [OF assms(1), where us = us and V = V and U = U and X = X]]
  have cap: "preserves (bst us B V U X) (create_internal_checkpoint E lease base cur n md)"
    if "lease_workspace_id lease = us b" for lease base cur
    using that unfolding create_internal_checkpoint_def
    by (intro preserves_bst_store [OF keeps_store_ops(2) [OF store_free_box_fields] _ assms(1)])
       (auto simp: workspace_view_def intro!: keeps_wpI wp_create_checkpointI)
  show ?thesis
    unfolding capture_workspace_checkpoint_def Let_def
    by (rule preserves_wpI) (auto simp: wp_simps intro!: act pre wp_preserves [OF cap])
qed

lemma bst_destroy:
  assumes "b \<in> B" "(b, u) \<in> X"
  shows "preserves (bst us B V U X) (destroy_sandbox E C u)"
proof (rule preserves_wpI)
  fix s :: "'z box_state_scheme"
  assume ok: "bst us B V U X s"
  show "wp (destroy_sandbox E C u) (\<lambda>_. bst us B V U X) (\<lambda>_. bst us B V U X) s"
  proof (cases "map_of (rt_history s) u")
    case (Some r)
    then show ?thesis using ok by (simp add: destroy_sandbox_def history_record_def wp_simps)
  next
    case hist: None
    show ?thesis
    proof (cases "map_of (rt_active s) u")
      case None
      then show ?thesis using ok hist by (simp add: destroy_sandbox_def history_record_def remove_active_def wp_simps)
    next
      case (Some m)
      then have w: "lease_workspace_id (ms_workspace m) = us b" using ok assms by (auto simp: bst_def mine_def)
      have del: "bst us B V U X (s\<lparr>rt_active := AList.delete u (rt_active s)\<rparr>)" by (rule bst_delete_session [OF ok assms])
      note timed = wp_preserves [OF bst_rpc_timed [OF assms(1), where us = us and V = V and U = U and X = X]]
      show ?thesis
        using hist Some del unfolding destroy_sandbox_def history_record_def remove_active_def guest_best_effort_def
          snapshot_guest_or_baseline_def store_warm_run_def save_history_def Let_def w
        by (auto simp: wp_simps w split: sum.split intro!: timed wp_preserves [OF preserves_now_ms [OF counter_free_bst [of us B V U X]]]
            wp_preserves [OF preserves_ask [OF counter_free_bst [of us B V U X]]])
    qed
  qed
qed


text \<open>
  Launching a sandbox touches the files of its own workspace only, whatever the rest of the
  state \<open>P\<close> speaks about.
\<close>

lemma wp_create_launch_local:
  fixes P :: "'z runtime_state_scheme \<Rightarrow> bool"
  assumes cf: "counter_free P" and run: "\<And>s p. P (s\<lparr>run_paths := p\<rparr>) = P s"
    and reg: "\<And>s a. P (s\<lparr>rt_active := a\<rparr>) = P s" "\<And>s a. P (s\<lparr>rt_warm_runs := a\<rparr>) = P s"
    and prep: "preserves P (prepare_workspace E (wstore C) (spec_workspace_id spec))"
    and rest: "\<And>c. preserves P (restore_internal_checkpoint E (wstore C) (spec_workspace_id spec) c)"
    and guest: "preserves P (guest_writes E (spec_workspace_id spec))"
    and s: "P s"
  shows "wp (create_launch E C spec) (\<lambda>_. P) (\<lambda>_. P) s"
proof -
  let ?w = "spec_workspace_id spec"
  have lease: "wp (prepare_workspace E (wstore C) ?w) Q R t"
    if "P t" "\<And>a t. P t \<Longrightarrow> lease_workspace_id a = ?w \<Longrightarrow> Q a t" "\<And>x t. P t \<Longrightarrow> R x t" for Q R t
  proof -
    have "wp (prepare_workspace E (wstore C) ?w) (\<lambda>a t. lease_workspace_id a = ?w) (\<lambda>_ _. True) t"
      by (auto intro!: wp_prepare_workspaceI)
    moreover have "wp (prepare_workspace E (wstore C) ?w) (\<lambda>_. P) (\<lambda>_. P) t"
      using prep that(1) by (auto simp: wp_snd preserves_def)
    ultimately show ?thesis
      by (rule wp_mono [OF wp_conj]) (auto intro: that(2,3))
  qed
  have reads: "preserves P (resolve_guest E sd n g)" for sd n g
    unfolding preserves_def by (simp add: keepsD [OF keeps_image_reads(3) [OF cf]])
  have runs: "preserves P (prepare_run E W)" "preserves P (recycle_run E W r)" for W r
    unfolding preserves_def by (simp_all add: keepsD [OF keeps_store_runs(1) [OF cf run]] keepsD [OF keeps_store_runs(2) [OF cf run]])
  have call: "preserves P (rpc_call E ?w c e)" for c and e :: "guest_response \<Rightarrow> workspace_snapshot result"
    unfolding rpc_call_def rpc_answer_def using cf guest by (auto intro!: preserves_intro)
  have fail: "preserves P (launch_failure E st e)" for st e
    unfolding launch_failure_def using cf by (auto intro!: preserves_intro)
  have rest': "preserves P (case spec_restore_commit spec of None \<Rightarrow> returnE ()
      | Some c \<Rightarrow> seqE (restore_internal_checkpoint E (wstore C) ?w c) (returnE ()))"
    using rest by (auto intro!: preserves_intro)
  note pre = wp_preserves [OF preserves_ask [OF cf]] wp_preserves [OF preserves_now_ms [OF cf]] wp_preserves [OF reads]
    wp_preserves [OF runs(1)] wp_preserves [OF runs(2)] wp_preserves [OF call] wp_preserves [OF fail] wp_preserves [OF guest]
  show ?thesis
    unfolding create_launch_def wp_seqE
    by (rule wp_preserves [OF rest' s])
       (auto simp: wp_simps take_warm_run_def register_session_def registry_insert_def Let_def reg
          split: sum.split option.split failure.split intro!: lease pre)
qed


lemma bst_new_session:
  assumes "bst us B V U X s" "b \<in> B" "u \<notin> U" "lease_workspace_id (ms_workspace m) = us b"
    and "box_files t = box_files s" "box_active t = box_active s" "\<And>v. v \<noteq> us b \<Longrightarrow> workspace_view t v = workspace_view s v"
    and "rt_active t = AList.update u m (rt_active s)"
  shows "bst us B V (insert u U) {(b, u)} t"
proof -
  have sub: "fst ` set (rt_active s) \<subseteq> U" and inj: "inj us" using assms(1) by (auto simp: bst_def boxes_ok_def)
  then have new: "u \<notin> fst ` set (rt_active s)" using assms(3) by auto
  have act: "rt_active t = rt_active s @ [(u, m)]" using assms(8) alist_update_fresh [OF new] by simp
  have mine_t: "mine us b' u' t" if "mine us b' u' s" "u' \<in> U" for b' u'
    using that assms(3) by (auto simp: mine_def assms(8) update_conv' split: if_splits)
  have view: "box_view us t c = box_view us s c" if "c \<notin> B" for c
  proof -
    have "us c \<noteq> us b" using that assms(2) inj by (auto dest: injD)
    then show ?thesis using assms(4-7) by (simp add: box_view_def sessions_on_def act)
  qed
  have own: "mine us b u t" using assms(4) by (simp add: mine_def assms(8) update_conv')
  have "boxes_ok us (insert u U) t"
    using assms(1,5,6) mine_t new act unfolding bst_def boxes_ok_def record_ok_def by auto
  then show ?thesis using assms(1) view own inj by (auto simp: bst_def)
qed

lemma wp_bst_create:
  assumes "bst us B V U X s" "b \<in> B" "range (uuid_at E) \<inter> U = {}" "spec_workspace_id spec = us b"
    and "\<And>a t. bst us B V (U \<union> range (uuid_at E)) {(b, ss_sandbox_id a)} t \<Longrightarrow> ss_sandbox_id a \<in> range (uuid_at E) \<Longrightarrow> Q a t"
    and "\<And>x t. bst us B V U X t \<Longrightarrow> R x t"
  shows "wp (create_sandbox E C spec) Q R s"
proof -
  let ?P = "\<lambda>t. box_files t = box_files s \<and> box_active t = box_active s \<and>
    (\<forall>v. v \<noteq> us b \<longrightarrow> workspace_view t v = workspace_view s v)"
  have view: "preserves ?P m" if "keeps box_fields m" "\<And>w. w \<noteq> us b \<Longrightarrow> keeps (\<lambda>s. workspace_view s w) m"
    for m :: "('z box_state_scheme, 'c) io"
    unfolding preserves_def using keepsD [OF that(1)] keepsD [OF that(2)] by (auto simp: box_fields_def)
  have frame: "wp (create_launch E C spec) (\<lambda>_. ?P) (\<lambda>_. ?P) s"
  proof (rule wp_create_launch_local)
    show "counter_free ?P" by (auto simp: counter_free_def workspace_view_def)
    show "preserves ?P (prepare_workspace E (wstore C) (spec_workspace_id spec))"
      unfolding assms(4) by (rule view [OF keeps_store_ops(1) keeps_workspace_view(1)]) simp_all
    show "preserves ?P (restore_internal_checkpoint E (wstore C) (spec_workspace_id spec) c)" for c
      unfolding assms(4) restore_internal_checkpoint_def
      by (rule view [OF keeps_store_ops(3) keeps_workspace_view(3)]) simp_all
    show "preserves ?P (guest_writes E (spec_workspace_id spec))"
      unfolding assms(4) by (rule view [OF keeps_internal(3)])
        (auto simp: guest_writes_def upd_disk_def workspace_view_def intro!: keeps_intro)
  qed (simp_all add: workspace_view_def)
  have reg: "wp (create_launch E C spec)
      (\<lambda>a t. \<exists>m. a = ms_summary m \<and> new_session E spec m \<and> rt_active t = AList.update (ss_sandbox_id (ms_summary m)) m (rt_active s))
      (\<lambda>_ t. rt_active t = rt_active s) s"
    by (rule wp_create_launch) (auto simp: registry_kept_def)
  have ok: "Q a t" if "?P t" "new_session E spec m" "a = ms_summary m"
    "rt_active t = AList.update (ss_sandbox_id (ms_summary m)) m (rt_active s)" for a m t
  proof -
    have u: "ss_sandbox_id a \<in> range (uuid_at E)" using that(2,3) by (auto simp: new_session_def)
    then have "ss_sandbox_id a \<notin> U" using assms(3) by auto
    then have "bst us B V (insert (ss_sandbox_id a) U) {(b, ss_sandbox_id a)} t"
      by (rule bst_new_session [OF assms(1,2)]) (use that assms(4) in \<open>auto simp: new_session_def\<close>)
    then show ?thesis using u by (auto intro!: assms(5) elim!: bst_more)
  qed
  have err: "R x t" if "?P t" "rt_active t = rt_active s" for x t
    by (rule assms(6), rule bst_local [OF _ _ assms(2) assms(1)]) (use that in \<open>auto simp: box_fields_def\<close>)
  have "wp (create_launch E C spec) Q R s"
    by (rule wp_mono [OF wp_conj [OF frame reg]]) (auto intro: ok err)
  then show ?thesis
    using assms(1,6) unfolding create_sandbox_def create_admission_def by (auto simp: wp_simps)
qed

section \<open>Operations of the service\<close>

lemmas bst_writes = bst_set_failed bst_mark_stopped bst_box_write bst_active bst_box_remove

lemma bst_attach_usage:
  fixes s :: "'z box_state_scheme"
  assumes "rec_fine B X U r" "bst us B V U X s"
    and "\<And>a t. bst us B V U X t \<Longrightarrow> Q a t" "\<And>x t. bst us B V U X t \<Longrightarrow> R x t"
  shows "wp (attach_runtime_usage E C r) Q R s"
proof -
  have b: "bx_box_id r \<in> B" using assms(1) by (simp add: rec_fine_def)
  note fail = wp_preserves [OF bst_set_failed, of "r\<lparr>bx_runtime_usage := None\<rparr>" B us V U X]
  have reread: "wp (read_box E C (bx_box_id r)) Q R t" if "bst us B V U X t" for t
    using that by (auto intro!: wp_read_box [OF b] intro: assms(3,4) bst_weaken)
  have stats: "wp (rt_runtime_stats E u) Q' R' t"
    if "(bx_box_id r, u) \<in> X'" "bst us B V U X' t" "\<And>a t. bst us B V U X t \<Longrightarrow> Q' a t" "\<And>x t. bst us B V U X t \<Longrightarrow> R' x t" "X \<subseteq> X'"
    for u X' Q' R' t
    unfolding rt_runtime_stats_def
    by (rule wp_preserves [OF bst_runtime_ops(1) [OF b that(1)] that(2)]) (rule that(3,4), erule bst_weaken, rule that(5))+
  show ?thesis
    unfolding attach_runtime_usage_def Let_def
    using assms b
    by (auto simp: wp_simps split: failure.split intro!: wp_sandbox_of [where X = X] stats fail reread)
qed


lemma bst_none: "bst us B V U X s \<Longrightarrow> bst us B V U {} s"
  by (rule bst_weaken) auto

text \<open>Every failure exit keeps the assertion without the owners learnt on the way.\<close>

lemma wp_active_insert:
  assumes "bst us B V U X s" "b \<in> B" "(b, u) \<in> X" "u \<in> U" "\<And>t. bst us B V U X t \<Longrightarrow> Q () t"
  shows "wp (active_insert b u) Q R s"
  using preservesD [OF bst_active(1) [OF assms(2-4), where us = us and V = V] assms(1)] assms(5)
  by (simp add: active_insert_def wp_simps) (simp add: modifyE_def)

lemma wp_active_remove:
  assumes "bst us B V U X s" "b \<in> B" "\<And>t. bst us B V U X t \<Longrightarrow> Q () t"
  shows "wp (active_remove b) Q R s"
  using preservesD [OF bst_active(2) [OF assms(2), where us = us and V = V and U = U and X = X] assms(1)] assms(3)
  by (simp add: active_remove_def wp_simps) (simp add: modifyE_def)

text \<open>A step of the runtime on a sandbox of the box.\<close>

lemma wp_runtime_op:
  assumes "preserves (bst us B V U X) m" "bst us B V U X s"
    and "\<And>a t. bst us B V U X t \<Longrightarrow> Q a t" "\<And>x t. bst us B V U X t \<Longrightarrow> R x t"
  shows "wp m Q R s"
  using assms by (rule wp_preserves)

lemma wp_running_sandbox_id:
  assumes "b \<in> B" "bst us B V U X s"
    and "\<And>u t X'. bst us B V U X' t \<Longrightarrow> (b, u) \<in> X' \<Longrightarrow> u \<in> U \<Longrightarrow> Q u t" "\<And>x t X'. bst us B V U X' t \<Longrightarrow> R x t"
  shows "wp (running_sandbox_id E C b) Q R s"
  unfolding running_sandbox_id_def using assms
  by (auto simp: wp_simps intro!: wp_read_box [of b B us V U X] wp_sandbox_of wp_preserves [OF bst_set_failed] wp_active_insert)

lemma wp_ensure_runtime:
  assumes "b \<in> B" "bst us B V U X s"
    and "\<And>u t X'. bst us B V U X' t \<Longrightarrow> (b, u) \<in> X' \<Longrightarrow> u \<in> U \<Longrightarrow> Q u t" "\<And>x t X'. bst us B V U X' t \<Longrightarrow> R x t"
  shows "wp (ensure_runtime E C b) Q R s"
  unfolding ensure_runtime_def rt_runtime_stats_def using assms
  by (auto simp: wp_simps split: failure.split intro!: wp_read_box [of b B us V U X] wp_sandbox_of wp_preserves [OF bst_set_failed] wp_active_insert
      wp_runtime_op [OF bst_runtime_ops(1)])

end
