(* ===== verification/Box_Service.thy ===== *)
theory Box_Service
  imports Box_Invariants
begin

text \<open>
  The operations of the box service against the invariant of \<open>Box_Invariants\<close>: every one of
  them keeps it, and one that is asked to work on a box leaves the other boxes alone.
\<close>

section \<open>Operations on one box\<close>

lemma wp_bst_read:
  assumes "bst us B V U X s" "b \<in> B"
    and "\<And>r t X'. bst us B V U X' t \<Longrightarrow> rec_fine B X' U r \<Longrightarrow> bx_box_id r = b \<Longrightarrow> Q r t"
    and "\<And>x t X'. bst us B V U X' t \<Longrightarrow> R x t"
  shows "wp (read_box E C b) Q R s"
  using assms by (auto intro!: wp_read_box [of b B us V U X])

lemma wp_bst_now:
  "bst us B V U X s \<Longrightarrow> (\<And>a t. bst us B V U X t \<Longrightarrow> Q a t) \<Longrightarrow> (\<And>x t. bst us B V U X t \<Longrightarrow> R x t) \<Longrightarrow> wp (now_ms E) Q R s"
  by (rule wp_preserves [OF preserves_now_ms [OF counter_free_bst]])

lemma wp_bst_write:
  assumes "bst us B V U X s" "rec_fine B X U r" "\<And>t. bst us B V U X t \<Longrightarrow> Q () t" "\<And>x t. bst us B V U X t \<Longrightarrow> R x t"
  shows "wp (box_write E r) Q R s"
  by (rule wp_preserves [OF bst_box_write [OF assms(2)] assms(1)]) (auto intro: assms(3,4))

lemma wp_bst_failed:
  assumes "bst us B V U X s" "bx_box_id r \<in> B" "\<And>t. bst us B V U X t \<Longrightarrow> Q () t" "\<And>x t. bst us B V U X t \<Longrightarrow> R x t"
  shows "wp (set_failed E r m) Q R s" "wp (mark_stopped E r) Q R s"
  by (rule wp_preserves [OF bst_set_failed [OF assms(2)] assms(1)], auto intro: assms(3,4))
     (rule wp_preserves [OF bst_mark_stopped [OF assms(2)] assms(1)], auto intro: assms(3,4))

lemma rec_fine_inactive [simp]:
  "rec_fine B X U (r\<lparr>bx_status := st, bx_active_sandbox_id := None\<rparr>) \<longleftrightarrow> bx_box_id r \<in> B \<and> st \<noteq> Running"
  "rec_fine B X U (r\<lparr>bx_last_error := e\<rparr>) = rec_fine B X U r"
  "rec_fine B X U (r\<lparr>bx_last_start_at_ms := st1\<rparr>) = rec_fine B X U r"
  "rec_fine B X U (r\<lparr>bx_last_stop_at_ms := st2\<rparr>) = rec_fine B X U r"
  by (auto simp: rec_fine_def)

lemma rec_fine_started [simp]:
  "rec_fine B X U (r\<lparr>bx_status := st, bx_active_sandbox_id := Some u\<rparr>) \<longleftrightarrow> bx_box_id r \<in> B \<and> u \<in> U \<and> (bx_box_id r, u) \<in> X"
  by (auto simp: rec_fine_def)

lemma wp_bst_attach:
  assumes "bst us B V U X s" "rec_fine B X U r"
    and "\<And>a t. bst us B V U X t \<Longrightarrow> Q a t" "\<And>x t. bst us B V U X t \<Longrightarrow> R x t"
  shows "wp (attach_runtime_usage E C r) Q R s"
  by (rule bst_attach_usage [OF assms(2,1)]) (rule assms(3,4), assumption)+

lemma rec_fine_box: "rec_fine B X U r \<Longrightarrow> bx_box_id r \<in> B"
  by (simp add: rec_fine_def)

lemmas wp_bst = wp_bst_read wp_bst_now wp_bst_write wp_bst_failed wp_sandbox_of wp_bst_attach
  wp_active_insert wp_active_remove wp_runtime_op [OF bst_runtime_ops(1)] wp_runtime_op [OF bst_destroy]

lemma wp_get_box:
  assumes "bst us B V U X s" "b \<in> B"
    and "\<And>a t X'. bst us B V U X' t \<Longrightarrow> Q a t" "\<And>x t X'. bst us B V U X' t \<Longrightarrow> R x t"
  shows "wp (get_box E C b) Q R s"
  unfolding get_box_def using assms
  by (auto simp: wp_simps intro!: wp_bst)

lemma wp_stop_box:
  assumes "bst us B V U X s" "b \<in> B"
    and "\<And>a t X'. bst us B V U X' t \<Longrightarrow> Q a t" "\<And>x t X'. bst us B V U X' t \<Longrightarrow> R x t"
  shows "wp (stop_box E C b) Q R s"
  unfolding stop_box_def Let_def using assms
  by (auto simp: wp_simps rec_fine_def split: failure.split intro!: wp_bst wp_running_sandbox_id)

lemma wp_shutdown_box:
  assumes "bst us B V U X s" "b \<in> B"
    and "\<And>a t X'. bst us B V U X' t \<Longrightarrow> Q a t" "\<And>x t X'. bst us B V U X' t \<Longrightarrow> R x t"
  shows "wp (stop_box_for_shutdown E C b) Q R s"
  unfolding stop_box_for_shutdown_def Let_def using assms
  by (auto simp: wp_simps split: failure.split intro!: wp_bst)

lemma wp_start_box:
  assumes "bst us B V U X s" "b \<in> B" "us = uuid_string E" "range (uuid_at E) \<inter> U = {}"
    and "\<And>a t X'. bst us B V (U \<union> range (uuid_at E)) X' t \<Longrightarrow> Q a t"
    and "\<And>x t X'. bst us B V (U \<union> range (uuid_at E)) X' t \<Longrightarrow> R x t"
  shows "wp (start_box E C b) Q R s"
proof -
  have R: "R x t" if "bst us B V U X' t" for x t X'
    using that by (auto intro!: assms(6) elim!: bst_more)
  show ?thesis
    unfolding start_box_def Let_def using assms R
    by (auto simp: wp_simps split: failure.split intro!: wp_bst wp_bst_create) auto
qed

text \<open>The form the operations are summed up in: from any state that fulfils the assertion to one that does.\<close>

definition box_safe :: "(uuid \<Rightarrow> string) \<Rightarrow> uuid set \<Rightarrow> (uuid \<Rightarrow> box_record json_file option \<times> uuid option \<times>
      (lineage_dir option \<times> disk option option) \<times> (uuid \<times> managed_sandbox) list) \<Rightarrow> uuid set \<Rightarrow> uuid set \<Rightarrow>
    ('z box_state_scheme, 'a) io \<Rightarrow> bool" where
  "box_safe us B V U U' m \<longleftrightarrow> (\<forall>s. bst us B V U {} s \<longrightarrow> wp m (\<lambda>_. bst us B V U' {}) (\<lambda>_. bst us B V U' {}) s)"

lemma box_safeI:
  assumes "\<And>s Q R. bst us B V U {} s \<Longrightarrow> (\<And>a t X. bst us B V U' X t \<Longrightarrow> Q a t) \<Longrightarrow> (\<And>x t X. bst us B V U' X t \<Longrightarrow> R x t) \<Longrightarrow> wp m Q R s"
  shows "box_safe us B V U U' m"
  unfolding box_safe_def by (auto intro: assms bst_none)

lemma box_safeD: "box_safe us B V U U' m \<Longrightarrow> bst us B V U {} s \<Longrightarrow> bst us B V U' {} (snd (m s))"
  by (auto simp: box_safe_def wp_snd)

lemma box_safe_more: "box_safe us B V U U' m \<Longrightarrow> U' \<subseteq> U'' \<Longrightarrow> box_safe us B V U U'' m"
  unfolding box_safe_def by (blast intro: wp_mono bst_more)

lemma box_safe_preserves: "preserves (bst us B V U {}) m \<Longrightarrow> box_safe us B V U U m"
  by (rule box_safeI) (auto intro!: wp_preserves)

lemma box_safe_ops:
  assumes "b \<in> B"
  shows "box_safe us B V U U (get_box E C b)" "box_safe us B V U U (stop_box E C b)"
    "box_safe us B V U U (stop_box_for_shutdown E C b)"
  by (rule box_safeI, rule wp_get_box [OF _ assms], auto)
     (rule box_safeI, rule wp_stop_box [OF _ assms] wp_shutdown_box [OF _ assms], auto)+

lemma box_safe_start:
  assumes "b \<in> B" "us = uuid_string E" "range (uuid_at E) \<inter> U = {}"
  shows "box_safe us B V U (U \<union> range (uuid_at E)) (start_box E C b)"
  by (rule box_safeI, rule wp_start_box [OF _ assms]) auto

lemma box_safe_set:
  assumes "b \<in> B"
  shows "box_safe (uuid_string E) B V U U (set_box_setting E C b v)"
proof (rule box_safeI)
  fix s :: "'z box_state_scheme" and Q :: "box_record \<Rightarrow> 'z box_state_scheme \<Rightarrow> bool" and R :: "failure \<Rightarrow> 'z box_state_scheme \<Rightarrow> bool"
  assume ok: "bst (uuid_string E) B V U {} s"
    and Q: "\<And>a t X. bst (uuid_string E) B V U X t \<Longrightarrow> Q a t" and R: "\<And>x t X. bst (uuid_string E) B V U X t \<Longrightarrow> R x t"
  have app: "preserves (bst (uuid_string E) B V U X) (apply_setting E C b' st v :: ('z box_state_scheme, _) io)" if "b' \<in> B" for st X b'
    using that by (cases v) (auto intro!: preserves_intro bst_store_ops)
  show "wp (set_box_setting E C b v) Q R s"
    unfolding set_box_setting_def Let_def using ok assms Q R
    by (auto simp: wp_simps intro!: wp_bst wp_hydrate wp_runtime_op [OF app])
qed

lemma box_safe_remove:
  assumes "b \<in> B"
  shows "box_safe (uuid_string E) B V U U (remove_box E C b)"
  unfolding remove_box_def using assms
  by (intro box_safeI) (auto simp: wp_simps intro!: wp_bst wp_stop_box wp_preserves [OF bst_store_ops(6)] wp_preserves [OF bst_box_remove])

lemma box_safe_runtime:
  assumes "b \<in> B" "\<And>u X. (b, u) \<in> X \<Longrightarrow> preserves (bst us B V U X) (f u)"
  shows "box_safe us B V U U (in_runtime E C b f)"
  unfolding in_runtime_def using assms(1)
  by (intro box_safeI) (auto simp: wp_simps intro!: wp_ensure_runtime wp_runtime_op [OF assms(2)])

lemma box_safe_guest_ops:
  assumes "b \<in> B"
  shows "box_safe us B V U U (box_list_files E C b path)" "box_safe us B V U U (box_read_file E C b path limit)"
    "box_safe us B V U U (box_write_file E C b path data par)" "box_safe us B V U U (box_make_dir E C b path rec)"
    "box_safe us B V U U (box_remove_path E C b path rec)" "box_safe us B V U U (box_exec E C b er)"
    "box_safe us B V U U (box_open_shell E C b sr)" "box_safe us B V U U (checkpoint_create E C b n md)"
  unfolding box_list_files_def box_read_file_def box_write_file_def box_make_dir_def box_remove_path_def
    box_exec_def box_open_shell_def checkpoint_create_def rt_list_files_def rt_read_file_def rt_write_file_def
    rt_make_dir_def rt_remove_path_def
  using assms by (auto intro!: box_safe_runtime bst_runtime_ops bst_capture)

lemma box_safe_checkpoint_ops:
  assumes "b \<in> B"
  shows "box_safe (uuid_string E) B V U U (checkpoint_list E C b)" "box_safe (uuid_string E) B V U U (checkpoint_delete E C b c)"
proof -
  show "box_safe (uuid_string E) B V U U (checkpoint_list E C b)"
    unfolding checkpoint_list_def using assms
    by (intro box_safeI) (auto simp: wp_simps intro!: wp_bst wp_runtime_op [OF bst_list_checkpoints])
  show "box_safe (uuid_string E) B V U U (checkpoint_delete E C b c)"
    unfolding checkpoint_delete_def using assms
    by (intro box_safeI) (auto simp: wp_simps intro!: wp_bst wp_runtime_op [OF bst_store_ops(3)])
qed

lemma box_safe_restore:
  assumes "b \<in> B" "range (uuid_at E) \<inter> U = {}"
  shows "box_safe (uuid_string E) B V U (U \<union> range (uuid_at E)) (checkpoint_restore E C b c mode)"
proof (rule box_safeI)
  fix s :: "'z box_state_scheme" and Q :: "checkpoint_record \<Rightarrow> 'z box_state_scheme \<Rightarrow> bool"
    and R :: "failure \<Rightarrow> 'z box_state_scheme \<Rightarrow> bool"
  let ?U = "U \<union> range (uuid_at E)"
  assume ok: "bst (uuid_string E) B V U {} s"
    and Q: "\<And>a t X. bst (uuid_string E) B V ?U X t \<Longrightarrow> Q a t" and R: "\<And>x t X. bst (uuid_string E) B V ?U X t \<Longrightarrow> R x t"
  have small: "Q a t" "R x t" if "bst (uuid_string E) B V U X t" for a x t X
    using that by (auto intro!: Q R elim!: bst_more)
  show "wp (checkpoint_restore E C b c mode) Q R s"
    unfolding checkpoint_restore_def Let_def using ok assms(1) small Q R
    by (auto simp: wp_simps intro!: wp_bst wp_stop_box wp_start_box [OF _ _ refl assms(2)] wp_runtime_op [OF bst_store_ops(2)])
qed

text \<open>A new box has a fresh identifier; nothing else is touched.\<close>

lemma wp_create_record:
  assumes "bst (uuid_string E) B V U X s" "range (uuid_at E) \<subseteq> B"
    and "\<And>a t. bst (uuid_string E) B V U X t \<Longrightarrow> bx_box_id a \<in> range (uuid_at E) \<Longrightarrow> Q a t" "\<And>x t. bst (uuid_string E) B V U X t \<Longrightarrow> R x t"
  shows "wp (create_box_record E C name img st) Q R s"
proof -
  have new: "wp (new_v4 E) Q' R' t" if "bst (uuid_string E) B V U X t"
    "\<And>n t. bst (uuid_string E) B V U X t \<Longrightarrow> Q' (uuid_at E n) t" for Q' R' t
    using that by (auto simp: counter_freeD [OF counter_free_bst] intro!: wp_new_v4I)
  have B: "uuid_at E n \<in> B" for n using assms(2) by auto
  have fine: "rec_fine B X U r" if "bx_box_id r \<in> B" "bx_status r = Created" "bx_active_sandbox_id r = None" for r
    using that by (simp add: rec_fine_def)
  show ?thesis
    unfolding create_box_record_def using assms(1)
    by (auto simp: wp_simps intro!: B fine assms(3,4) new wp_bst_now wp_bst_write [where B = B and X = X and U = U] wp_hydrate [where B = B and X = X and U = U]
        wp_runtime_op [OF bst_store_ops(1) [where B = B]])
qed

lemma box_safe_create:
  assumes "range (uuid_at E) \<subseteq> B"
  shows "box_safe (uuid_string E) B V U U (create_named_box E C name)"
    and "box_safe (uuid_string E) B V U U (create_box_from_image E C img)"
    and "box_safe (uuid_string E) B V U U (create_box E C)"
proof -
  show "box_safe (uuid_string E) B V U U (create_named_box E C name)"
    unfolding create_named_box_def using assms by (intro box_safeI) (auto intro!: wp_create_record)
  have insp: "preserves (bst (uuid_string E) B V U X) (image_inspect E d n)" for d n X
    unfolding preserves_def by (simp add: keepsD [OF keeps_image_reads(2) [OF counter_free_bst]])
  show *: "box_safe (uuid_string E) B V U U (create_box_from_image E C img)" for img
    unfolding create_box_from_image_def Let_def using assms
    by (intro box_safeI) (auto simp: wp_simps split: sum.split intro!: wp_create_record wp_runtime_op [OF insp])
  show "box_safe (uuid_string E) B V U U (create_box E C)" unfolding create_box_def by (rule *)
qed

lemma box_safe_fork:
  assumes "b \<in> B" "range (uuid_at E) \<subseteq> B"
  shows "box_safe (uuid_string E) B V U U (checkpoint_fork E C b c name)"
proof -
  have new: "uuid_at E n \<in> B" for n using assms(2) by auto
  show ?thesis
    unfolding checkpoint_fork_def using assms
    by (intro box_safeI) (auto simp: wp_simps intro!: new wp_bst wp_create_record [where B = B] wp_runtime_op [OF bst_store_ops(4) [where B = B]])
qed

section \<open>Operations on the whole registry\<close>

lemma wp_mapE_same:
  assumes "\<And>x s. x \<in> set xs \<Longrightarrow> P s \<Longrightarrow> wp (f x) (\<lambda>a t. P t \<and> K a) (\<lambda>_. P) s" "P s"
  shows "wp (mapE f xs) (\<lambda>as t. P t \<and> (\<forall>a \<in> set as. K a)) (\<lambda>_. P) s"
  using assms
proof (induction xs arbitrary: s)
  case (Cons x xs)
  have rest: "wp (mapE f xs) (\<lambda>as t. P t \<and> (\<forall>a \<in> set as. K a)) (\<lambda>_. P) t" if "P t" for t
    using Cons.IH Cons.prems(1) that by simp
  show ?case
    using Cons.prems(2) by (auto simp: wp_simps intro!: wp_mono [OF Cons.prems(1)] wp_mono [OF rest])
qed (simp add: wp_simps)

text \<open>Every record the registry lists is fine for the owners of all the sandboxes the registry names.\<close>

definition listed :: "'z box_state_scheme \<Rightarrow> (uuid \<times> uuid) set" where
  "listed s = {(b, u). \<exists>r. map_of (box_files s) b = Some (Intact r) \<and> bx_active_sandbox_id r = Some u}"

lemma wp_box_list:
  fixes s :: "'z box_state_scheme"
  assumes "bst us UNIV V U {} s"
    and "\<And>rs t X. bst us UNIV V U X t \<Longrightarrow> (\<forall>r \<in> set rs. rec_fine UNIV X U r) \<Longrightarrow> Q rs t" "\<And>x t X. bst us UNIV V U X t \<Longrightarrow> R x t"
  shows "wp (box_list E) Q R s"
proof -
  let ?X = "listed s"
  have all: "bst us UNIV V U ?X s"
    using assms(1) by (auto simp: bst_def boxes_ok_def record_ok_def listed_def)
  have fine: "rec_fine UNIV ?X U r" if "(b, Intact r) \<in> set (box_files s)" for b r
  proof -
    have "map_of (box_files s) b = Some (Intact r)"
      using that assms(1) by (simp add: bst_def boxes_ok_def)
    moreover from this have "record_ok us U b r s" using assms(1) by (simp add: bst_def boxes_ok_def)
    ultimately show ?thesis by (auto simp: rec_fine_def record_ok_def listed_def)
  qed
  have cf: "bst us UNIV V U ?X (t\<lparr>calls := n\<rparr>) = bst us UNIV V U ?X t" for t :: "'z box_state_scheme" and n
    by (rule counter_freeD) simp
  have one: "wp ((\<lambda>(_, j). seqE (sys_io E ctx) (box_read_path E j)) e)
      (\<lambda>r t. bst us UNIV V U ?X t \<and> rec_fine UNIV ?X U r) (\<lambda>_. bst us UNIV V U ?X) t"
    if "e \<in> set (box_files s)" "bst us UNIV V U ?X t" for e ctx and t :: "'z box_state_scheme"
  proof -
    obtain b j where e: "e = (b, j)" by (cases e)
    show ?thesis using that unfolding e by (cases j) (auto simp: wp_simps box_read_path_def cf intro!: wp_intro fine)
  qed
  have R: "R x (t\<lparr>calls := n\<rparr>)" if "bst us UNIV V U ?X t" for x n and t :: "'z box_state_scheme"
    using that cf by (auto intro!: assms(3) [where X = ?X])
  show ?thesis
    unfolding box_list_def using all assms(2,3) R
    by (auto simp: wp_simps cf intro!: wp_intro wp_mono [OF wp_mapE_same [where P = "bst us UNIV V U ?X" and K = "rec_fine UNIV ?X U", OF one]])
qed

lemma wp_mapE_bst:
  assumes "bst us B V U X s" "\<And>x. x \<in> set xs \<Longrightarrow> preserves (bst us B V U X) (f x)"
    and "\<And>a t. bst us B V U X t \<Longrightarrow> Q a t" "\<And>x t. bst us B V U X t \<Longrightarrow> R x t"
  shows "wp (mapE f xs) Q R s"
  by (rule wp_preserves [OF preserves_mapE [OF assms(2)] assms(1)]) (auto intro: assms(3,4))

lemma wp_forE_bst:
  assumes "bst us B V U X s" "\<And>x. x \<in> set xs \<Longrightarrow> preserves (bst us B V U X) (f x)"
    and "\<And>a t. bst us B V U X t \<Longrightarrow> Q a t" "\<And>x t. bst us B V U X t \<Longrightarrow> R x t"
  shows "wp (forE xs f) Q R s"
  by (rule wp_preserves [OF preserves_forE [OF assms(2)] assms(1)]) (auto intro: assms(3,4))

lemma box_safe_list: "box_safe us UNIV V U U (list_boxes E C)"
proof -
  have one: "preserves (bst us UNIV V U X) (bindE (hydrate_record E C r) (attach_runtime_usage E C))"
    if "rec_fine UNIV X U r" for X r
    using that by (auto simp: wp_simps intro!: preserves_wpI wp_hydrate [where X = X] wp_bst_attach)
  show ?thesis
    unfolding list_boxes_def by (intro box_safeI) (auto simp: wp_simps one intro!: wp_box_list wp_mapE_bst)
qed

lemma box_safe_reconcile: "box_safe us UNIV V U U (reconcile_after_restart E C)"
proof -
  have failed: "rec_fine UNIV X U (r\<lparr>bx_settings := st, bx_status := Failed, bx_last_error := e\<rparr>)"
    if "rec_fine UNIV X U r" for X r st e
    using that by (simp add: rec_fine_def)
  have one: "preserves (bst us UNIV V U X) (bindE (hydrate_record E C r0) (\<lambda>r.
         if bx_status r = Running then box_write E (r\<lparr>bx_status := Failed, bx_last_error := Some e\<rparr>) else returnE ()))"
    if "rec_fine UNIV X U r0" for X r0 e
    using that failed [OF that]
    by (auto simp: wp_simps intro!: preserves_wpI wp_hydrate [where X = X] wp_preserves [OF bst_box_write [OF failed [OF that]]])
  show ?thesis
    unfolding reconcile_after_restart_def
    by (intro box_safeI) (auto simp: wp_simps one intro!: wp_box_list wp_forE_bst)
qed

lemma box_safe_shutdown: "box_safe us UNIV V U U (shutdown_daemon E C)"
proof -
  have one: "preserves (bst us UNIV V U {}) (stop_box_for_shutdown E C b)" for b
    using box_safe_ops(3) [of b UNIV us V U E C] by (auto simp: box_safe_def intro: preserves_wpI)
  show ?thesis
    unfolding shutdown_daemon_def by (intro box_safeI) (auto simp: wp_simps one intro!: wp_forE_bst)
qed

lemma box_safe_new: "box_safe us UNIV V U U (new_box_service E C)"
proof -
  have start: "bst us UNIV V U {} (s\<lparr>rt_active := [], rt_warm_runs := [], rt_history := [], box_active := []\<rparr>)"
    if "bst us UNIV V U {} s" for s :: "'z box_state_scheme"
    using that by (auto simp: bst_def boxes_ok_def record_ok_def mine_def)
  have lay: "preserves (bst us UNIV V U {}) (box_ensure_layout E)" "preserves (bst us UNIV V U {}) (ensure_layout E (wstore C))"
    unfolding box_ensure_layout_def ensure_layout_def create_private_dir_def make_private_dir_def by (auto intro!: preserves_intro)
  have rec: "wp (reconcile_after_restart E C) Q R t"
    if "bst us UNIV V U {} t" "\<And>a t X. bst us UNIV V U X t \<Longrightarrow> Q a t" "\<And>x t X. bst us UNIV V U X t \<Longrightarrow> R x t"
    for Q R and t :: "'z box_state_scheme"
    using box_safe_reconcile [of us V U E C] that by (auto simp: box_safe_def intro: wp_mono)
  show ?thesis
    unfolding new_box_service_def
    by (intro box_safeI) (auto simp: wp_simps intro!: start rec wp_preserves [OF lay(1)] wp_preserves [OF lay(2)])
qed

end
