(* ===== verification/Box_Properties.thy ===== *)
theory Box_Properties
  imports Box_Service
begin

text \<open>
  What the box service promises. Its operations are collected in one type, so that a run of
  the daemon is a sequence of them, interleaved with what the guests do by themselves; the
  invariant holds along every run and an operation on one box does not disturb another. Then
  the behaviour of the single operations: settings and their limits, starting and stopping,
  the registry files, and what a restart leaves.
\<close>

section \<open>Runs of the service\<close>

datatype box_op =
    CreateNamed "string option" | CreateFromImage "string option" | CreateBox
  | ListBoxes | GetBox uuid | SetSetting uuid box_setting_value | StartBox uuid | StopBox uuid | RemoveBox uuid
  | ListFiles uuid string | ReadFile uuid string u64 | WriteFile uuid string "u8 list" bool
  | MakeDir uuid string bool | RemovePath uuid string bool | ExecBox uuid exec_request | OpenShell uuid shell_request
  | CkptCreate uuid "string option" "(string \<times> string) list" | CkptList uuid | CkptRestore uuid string restore_mode
  | CkptFork uuid string "string option" | CkptDelete uuid string
  | ShutdownDaemon | RestartDaemon

abbreviation quietly :: "('s, 'a) io \<Rightarrow> ('s, unit) io" where
  "quietly m \<equiv> seqE m (returnE ())"

fun run_op :: "'e box_env_scheme \<Rightarrow> runtime_config \<Rightarrow> box_op \<Rightarrow> ('z box_state_scheme, unit) io" where
  "run_op E C (CreateNamed name) = quietly (create_named_box E C name)"
| "run_op E C (CreateFromImage img) = quietly (create_box_from_image E C img)"
| "run_op E C CreateBox = quietly (create_box E C)"
| "run_op E C ListBoxes = quietly (list_boxes E C)"
| "run_op E C (GetBox b) = quietly (get_box E C b)"
| "run_op E C (SetSetting b v) = quietly (set_box_setting E C b v)"
| "run_op E C (StartBox b) = quietly (start_box E C b)"
| "run_op E C (StopBox b) = quietly (stop_box E C b)"
| "run_op E C (RemoveBox b) = remove_box E C b"
| "run_op E C (ListFiles b p) = quietly (box_list_files E C b p)"
| "run_op E C (ReadFile b p n) = quietly (box_read_file E C b p n)"
| "run_op E C (WriteFile b p d q) = box_write_file E C b p d q"
| "run_op E C (MakeDir b p q) = box_make_dir E C b p q"
| "run_op E C (RemovePath b p q) = box_remove_path E C b p q"
| "run_op E C (ExecBox b q) = quietly (box_exec E C b q)"
| "run_op E C (OpenShell b q) = quietly (box_open_shell E C b q)"
| "run_op E C (CkptCreate b n md) = quietly (checkpoint_create E C b n md)"
| "run_op E C (CkptList b) = quietly (checkpoint_list E C b)"
| "run_op E C (CkptRestore b c md) = quietly (checkpoint_restore E C b c md)"
| "run_op E C (CkptFork b c n) = quietly (checkpoint_fork E C b c n)"
| "run_op E C (CkptDelete b c) = checkpoint_delete E C b c"
| "run_op E C ShutdownDaemon = shutdown_daemon E C"
| "run_op E C RestartDaemon = new_box_service E C"

text \<open>The boxes an operation is about, besides the one it may create.\<close>

fun op_scope :: "box_op \<Rightarrow> uuid set" where
  "op_scope (CreateNamed _) = {}" | "op_scope (CreateFromImage _) = {}" | "op_scope CreateBox = {}"
| "op_scope ListBoxes = UNIV" | "op_scope (GetBox b) = {b}" | "op_scope (SetSetting b _) = {b}"
| "op_scope (StartBox b) = {b}" | "op_scope (StopBox b) = {b}" | "op_scope (RemoveBox b) = {b}"
| "op_scope (ListFiles b _) = {b}" | "op_scope (ReadFile b _ _) = {b}" | "op_scope (WriteFile b _ _ _) = {b}"
| "op_scope (MakeDir b _ _) = {b}" | "op_scope (RemovePath b _ _) = {b}" | "op_scope (ExecBox b _) = {b}"
| "op_scope (OpenShell b _) = {b}" | "op_scope (CkptCreate b _ _) = {b}" | "op_scope (CkptList b) = {b}"
| "op_scope (CkptRestore b _ _) = {b}" | "op_scope (CkptFork b _ _) = {b}" | "op_scope (CkptDelete b _) = {b}"
| "op_scope ShutdownDaemon = UNIV" | "op_scope RestartDaemon = UNIV"

lemma box_safe_quietly: "box_safe us B V U U' m \<Longrightarrow> box_safe us B V U U' (quietly m)"
  by (fastforce simp: box_safe_def wp_simps elim!: wp_mono)

text \<open>Every operation keeps the assertion for the boxes it is about and the ids it may draw.\<close>

lemma box_safe_run_op:
  assumes "range (uuid_at E) \<inter> U = {}"
  shows "box_safe (uuid_string E) (op_scope op \<union> range (uuid_at E)) V U (U \<union> range (uuid_at E)) (run_op E C op)"
proof -
  note here = box_safe_more [OF _ Un_upper1 [of U "range (uuid_at E)"]]
  note small = box_safe_ops box_safe_set box_safe_remove box_safe_guest_ops box_safe_checkpoint_ops box_safe_create box_safe_fork
    box_safe_list box_safe_shutdown box_safe_new
  show ?thesis
  proof (cases "\<exists>b c md. op = StartBox b \<or> op = CkptRestore b c md")
    case True
    then show ?thesis by (auto intro!: box_safe_quietly box_safe_start box_safe_restore assms)
  next
    case False
    then show ?thesis by (cases op) (auto intro!: box_safe_quietly here small)
  qed
qed

lemma run_op_bst:
  assumes "range (uuid_at E) \<inter> U = {}" "boxes_ok (uuid_string E) U s" "inj (uuid_string E)"
  shows "bst (uuid_string E) (op_scope op \<union> range (uuid_at E)) (box_view (uuid_string E) s) (U \<union> range (uuid_at E)) {}
    (snd (run_op E C op s))"
  by (rule box_safeD [OF box_safe_run_op [OF assms(1)]]) (simp add: bst_def assms)

text \<open>
  An operation on one box does not disturb the others. Whatever the host and the guests
  answer and wherever the operation fails, every box that is neither its target nor just
  being created keeps its registry entry, its entry in the map of running boxes, its
  workspace disk and checkpoints, and its sandboxes.
\<close>

theorem box_operations_isolated:
  assumes "boxes_ok (uuid_string E) U s" "inj (uuid_string E)" "range (uuid_at E) \<inter> U = {}"
    and "c \<notin> op_scope op" "c \<notin> range (uuid_at E)"
  shows "box_view (uuid_string E) (snd (run_op E C op s)) c = box_view (uuid_string E) s c"
  using run_op_bst [OF assms(3,1,2), of op C] assms(4,5) by (simp add: bst_def)

text \<open>
  A run of the daemon: operations, each with an environment of its own that draws only new
  ids, and steps of the guests: one writes to its disk, or a command of it ends.
\<close>

inductive box_step :: "(uuid \<Rightarrow> string) \<Rightarrow> runtime_config \<Rightarrow> uuid set \<Rightarrow> 'z box_state_scheme \<Rightarrow>
    uuid set \<Rightarrow> uuid set \<Rightarrow> 'z box_state_scheme \<Rightarrow> bool"
  for us C where
  operation: "uuid_string (E :: box_env) = us \<Longrightarrow> range (uuid_at E) \<inter> U = {} \<Longrightarrow>
    box_step us C U s (op_scope op \<union> range (uuid_at E)) (U \<union> range (uuid_at E)) (snd (run_op E C op s))"
| guest: "mine us b u s \<Longrightarrow> box_step us C U s {b} U (snd (guest_runs (E :: box_env) u s))"
| exec_end: "mine us b u s \<Longrightarrow> box_step us C U s {b} U (snd (release_exec u s))"

inductive_cases box_stepE: "box_step us C U s D U' t"

abbreviation box_run :: "(uuid \<Rightarrow> string) \<Rightarrow> runtime_config \<Rightarrow> uuid set \<Rightarrow> 'z box_state_scheme \<Rightarrow>
    uuid set \<Rightarrow> uuid set \<Rightarrow> 'z box_state_scheme \<Rightarrow> bool" where
  "box_run us C \<equiv> step_runs (box_step us C)"

lemma box_step_bst:
  assumes "box_step us C U s D U' t" "boxes_ok us U s" "inj us"
  shows "bst us D (box_view us s) U' {} t"
  using assms(1)
proof (rule box_stepE)
  fix E op
  assume "D = op_scope op \<union> range (uuid_at E)" "U' = U \<union> range (uuid_at E)" "t = snd (run_op E C op s)"
    "uuid_string E = us" "range (uuid_at E) \<inter> U = {}"
  then show ?thesis using run_op_bst [of E U s op C] assms(2,3) by simp
next
  fix b u E
  assume g: "D = {b}" "U' = U" "t = snd (guest_runs E u s)" "mine us b u s"
  then have "bst us D (box_view us s) U {(b, u)} s" using assms(2,3) by (simp add: bst_def)
  then have "bst us D (box_view us s) U {(b, u)} (snd (guest_runs E u s))"
    by (rule preservesD [OF bst_runtime_ops(4), rotated 2]) (simp_all add: g)
  then show ?thesis using g by (auto intro: bst_none)
next
  fix b u
  assume g: "D = {b}" "U' = U" "t = snd (release_exec u s)" "mine us b u s"
  then have "bst us D (box_view us s) U {(b, u)} s" using assms(2,3) by (simp add: bst_def)
  then have "bst us D (box_view us s) U {(b, u)} (snd (release_exec u s))"
    by (rule preservesD [OF bst_runtime_ops(5), rotated 2]) (simp_all add: g)
  then show ?thesis using g by (auto intro: bst_none)
qed

interpretation box_runs: confinement "\<lambda>U s. inj us \<and> boxes_ok us U s" "box_view us" "box_step us C"
  by unfold_locales (auto dest!: box_step_bst simp: bst_def)

text \<open>
  C2: along every run of the daemon, with failures, restarts and guests that write to their
  disks whenever they like, a box no step was about stays exactly as it was: its registry
  entry, its place among the running boxes, its disk, its checkpoints and its sandboxes.
\<close>

theorem untouched_box_unchanged:
  assumes "box_run us C U s D U' t" "boxes_ok us U s" "inj us" "c \<notin> D"
  shows "box_view us t c = box_view us s c"
  by (rule box_runs.run_view [OF assms(1)]) (use assms in auto)

text \<open>
  C8: along every run, a box that is marked running names a sandbox, a sandbox a box names
  works on the workspace of that box, and so two boxes never name the same active sandbox.
\<close>

theorem boxes_own_their_sandboxes:
  assumes "box_run us C U s D U' t" "boxes_ok us U s" "inj us"
    and "map_of (box_files t) b = Some (Intact r)"
  shows "bx_box_id r = b \<and> (bx_status r = Running \<longrightarrow> bx_active_sandbox_id r \<noteq> None) \<and>
    (\<forall>u m. bx_active_sandbox_id r = Some u \<and> map_of (rt_active t) u = Some m \<longrightarrow>
       lease_workspace_id (ms_workspace m) = us b \<and>
       (\<forall>c q. map_of (box_files t) c = Some (Intact q) \<and> bx_active_sandbox_id q = Some u \<longrightarrow> c = b))"
proof -
  have ok: "record_ok us U' b r t" if "map_of (box_files t) b = Some (Intact r)" for b r
    using box_runs.run_inv [OF assms(1)] assms(2,3) that by (simp add: boxes_ok_def)
  have own: "lease_workspace_id (ms_workspace m) = us c"
    if "map_of (box_files t) c = Some (Intact q)" "bx_active_sandbox_id q = Some u" "map_of (rt_active t) u = Some m" for c q u m
    using ok [OF that(1)] that(2,3) by (auto simp: record_ok_def mine_def)
  have same: "c = b" if "us c = us b" for c using that assms(3) by (auto dest: injD)
  show ?thesis using ok [OF assms(4)] own own [OF assms(4)] same unfolding record_ok_def by metis
qed

section \<open>Settings and limits\<close>

definition settings_in_bounds :: "box_settings \<Rightarrow> bool" where
  "settings_in_bounds st \<longleftrightarrow>
     1 \<le> num_current (set_cpu_cores st) \<and> num_current (set_cpu_cores st) \<le> num_max (set_cpu_cores st) \<and>
     128 \<le> num_current (set_memory_mb st) \<and> num_current (set_memory_mb st) \<le> num_max (set_memory_mb st) \<and>
     64 \<le> num_current (set_fs_size_mib st) \<and> num_current (set_fs_size_mib st) \<le> num_max (set_fs_size_mib st) \<and>
     1 \<le> num_current (set_max_processes st) \<and> num_current (set_max_processes st) \<le> num_max (set_max_processes st) \<and>
     (flag_current (set_network_enabled st) \<longrightarrow> flag_max (set_network_enabled st))"

text \<open>The limits the host imposes are never below the daemon's own defaults.\<close>

lemma detected_caps_at_least:
  "d \<le> detect_cpu_cap par d" "d \<le> detect_memory_cap tm d" "d \<le> detect_process_cap np d" "d' \<le> detect_fs_cap sv d' cur"
  by (simp_all add: detect_cpu_cap_def detect_memory_cap_def detect_process_cap_def detect_fs_cap_def le_max_iff_disj)

lemma normalize_numeric_total:
  assumes "lower \<le> detected"
  shows "\<exists>y. normalize_numeric x detected lower = Some y \<and> lower \<le> num_current y \<and> num_current y \<le> num_max y \<and>
    (lower \<le> num_current x \<longrightarrow> num_current y = num_current x)"
  using assms by (auto simp: normalize_numeric_def clamp_def Let_def not_less le_max_iff_disj)

lemma clamp_total: "lo \<le> hi \<Longrightarrow> \<exists>y. clamp x lo hi = Some y \<and> lo \<le> y \<and> y \<le> hi"
  using clamp_bounds [of x lo hi] by (auto simp: clamp_def)

lemma word_one_le: "1 \<le> (x :: 'a::len word) \<longleftrightarrow> x \<noteq> 0"
  by (simp add: word_le_nat_alt Suc_le_eq word_unat_eq_iff)

lemma normalize_settings_total:
  assumes "1 \<le> cap_cpu_cores caps" "128 \<le> cap_memory_mb caps" "1 \<le> cap_max_processes caps" "64 \<le> cap_fs_size_mib caps"
  shows "\<exists>st'. normalize_settings st fs caps = Some st' \<and> settings_in_bounds st' \<and>
    flag_max (set_network_enabled st') = cap_network_enabled caps \<and>
    (1 \<le> num_current (set_cpu_cores st) \<longrightarrow> num_current (set_cpu_cores st') = num_current (set_cpu_cores st)) \<and>
    (128 \<le> num_current (set_memory_mb st) \<longrightarrow> num_current (set_memory_mb st') = num_current (set_memory_mb st)) \<and>
    (1 \<le> num_current (set_max_processes st) \<longrightarrow> num_current (set_max_processes st') = num_current (set_max_processes st)) \<and>
    flag_current (set_network_enabled st') = (flag_current (set_network_enabled st) \<and> cap_network_enabled caps)"
proof -
  obtain cpu mem procs where n: "normalize_numeric (set_cpu_cores st) (cap_cpu_cores caps) 1 = Some cpu"
    "normalize_numeric (set_memory_mb st) (cap_memory_mb caps) 128 = Some mem"
    "normalize_numeric (set_max_processes st) (cap_max_processes caps) 1 = Some procs"
    and b: "1 \<le> num_current cpu \<and> num_current cpu \<le> num_max cpu \<and> (1 \<le> num_current (set_cpu_cores st) \<longrightarrow> num_current cpu = num_current (set_cpu_cores st))"
    "128 \<le> num_current mem \<and> num_current mem \<le> num_max mem \<and> (128 \<le> num_current (set_memory_mb st) \<longrightarrow> num_current mem = num_current (set_memory_mb st))"
    "1 \<le> num_current procs \<and> num_current procs \<le> num_max procs \<and> (1 \<le> num_current (set_max_processes st) \<longrightarrow> num_current procs = num_current (set_max_processes st))"
    using normalize_numeric_total [OF assms(1), of "set_cpu_cores st"] normalize_numeric_total [OF assms(2), of "set_memory_mb st"]
      normalize_numeric_total [OF assms(3), of "set_max_processes st"] by blast
  obtain d where d: "clamp fs 64 (max (cap_fs_size_mib caps) fs) = Some d" "64 \<le> d" "d \<le> max (cap_fs_size_mib caps) fs"
    using clamp_total [of 64 "max (cap_fs_size_mib caps) fs" fs] assms(4) by (auto simp: le_max_iff_disj)
  show ?thesis using b d by (simp add: normalize_settings_def n settings_in_bounds_def)
qed

text \<open>The limits a configuration puts on a box (\<open>config_validate\<close> guarantees them).\<close>

definition sane_defaults :: "runtime_config \<Rightarrow> bool" where
  "sane_defaults C \<longleftrightarrow> 1 \<le> pol_cpu_cores (cfg_default_policy C) \<and> 128 \<le> pol_memory_mb (cfg_default_policy C) \<and>
     1 \<le> pol_max_processes (cfg_default_policy C) \<and> 64 \<le> cfg_disk_size_mib C"

lemma sane_defaults_validated: "config_validate pf C = Inr () \<Longrightarrow> sane_defaults C"
  by (cases "cfg_isolation_mode C")
    (auto simp: sane_defaults_def validate_defs and_then_Inr check_all_Inr not_less word_gt_0 word_one_le split: if_splits)


text \<open>What reading a record makes of its settings.\<close>

definition normalized :: "runtime_config \<Rightarrow> box_settings \<Rightarrow> box_settings \<Rightarrow> bool" where
  "normalized C st st' \<longleftrightarrow> settings_in_bounds st' \<and> flag_max (set_network_enabled st') = (cfg_isolation_mode C \<noteq> Secure) \<and>
    (1 \<le> num_current (set_cpu_cores st) \<longrightarrow> num_current (set_cpu_cores st') = num_current (set_cpu_cores st)) \<and>
    (128 \<le> num_current (set_memory_mb st) \<longrightarrow> num_current (set_memory_mb st') = num_current (set_memory_mb st)) \<and>
    (1 \<le> num_current (set_max_processes st) \<longrightarrow> num_current (set_max_processes st') = num_current (set_max_processes st)) \<and>
    flag_current (set_network_enabled st') = (flag_current (set_network_enabled st) \<and> cfg_isolation_mode C \<noteq> Secure)"

definition with_record :: "box_record \<Rightarrow> 'z box_state_scheme \<Rightarrow> 'z box_state_scheme" where
  "with_record r s = s\<lparr>box_files := AList.update (bx_box_id r) (Intact (r\<lparr>bx_runtime_usage := None\<rparr>)) (box_files s)\<rparr>"

lemma wp_box_write [intro]:
  assumes "\<And>n. Q () (with_record r (s\<lparr>calls := n\<rparr>))" "\<And>e n. R (Fail e) (s\<lparr>calls := n\<rparr>)"
  shows "wp (box_write E r) Q R s"
  unfolding box_write_def box_ensure_layout_def using assms by (auto simp: wp_simps with_record_def intro!: wp_intro)

lemma wp_disk_size:
  "(\<And>x n. Q x (s\<lparr>calls := n\<rparr>)) \<Longrightarrow> (\<And>e n. R (Fail e) (s\<lparr>calls := n\<rparr>)) \<Longrightarrow> (\<And>e. R (Fail e) s) \<Longrightarrow> wp (workspace_disk_size_mib E w) Q R s"
  unfolding workspace_disk_size_mib_def by (auto simp: wp_simps split: sum.split option.split intro!: wp_intro)

lemma wp_hydrate_core:
  assumes "sane_defaults C"
    and "\<And>n. normalized C (bx_settings r) (bx_settings r) \<Longrightarrow> Q r (s\<lparr>calls := n\<rparr>)"
    and "\<And>st n. normalized C (bx_settings r) st \<Longrightarrow>
      wp (box_write E (r\<lparr>bx_settings := st\<rparr>)) (\<lambda>_. Q (r\<lparr>bx_settings := st\<rparr>)) R (s\<lparr>calls := n\<rparr>)"
  shows "wp (hydrate_record E C r) Q R s"
proof -
  have caps: "1 \<le> detect_cpu_cap par (pol_cpu_cores (cfg_default_policy C))" "128 \<le> detect_memory_cap tm (pol_memory_mb (cfg_default_policy C))"
    "1 \<le> detect_process_cap np (pol_max_processes (cfg_default_policy C))" "64 \<le> detect_fs_cap sv (cfg_disk_size_mib C) cur" for par tm np sv cur
    using assms(1) detected_caps_at_least order_trans unfolding sane_defaults_def by blast+
  define f where "f = (\<lambda>fs caps. the (normalize_settings (bx_settings r) fs caps))"
  have norm: "normalize_settings (bx_settings r) fs caps = Some (f fs caps)" "normalized C (bx_settings r) (f fs caps)"
    if "caps = \<lparr>cap_cpu_cores = detect_cpu_cap par (pol_cpu_cores (cfg_default_policy C)),
                  cap_memory_mb = detect_memory_cap tm (pol_memory_mb (cfg_default_policy C)),
                  cap_fs_size_mib = detect_fs_cap stats (cfg_disk_size_mib C) actual,
                  cap_max_processes = detect_process_cap nproc (pol_max_processes (cfg_default_policy C)),
                  cap_network_enabled = (cfg_isolation_mode C \<noteq> Secure)\<rparr>" for caps fs par tm stats actual nproc
    using normalize_settings_total [of caps "bx_settings r" fs] that caps by (auto simp: normalized_def f_def)
  have same: "Q r (s\<lparr>calls := n\<rparr>)" if "r\<lparr>bx_settings := st\<rparr> = r" "normalized C (bx_settings r) st" for st n
  proof -
    from that(1) have "st = bx_settings r"
      by (metis box_record.select_convs(5) box_record.surjective box_record.update_convs(5))
    with that show ?thesis using assms(2) by simp
  qed
  have stored: "wp (box_write E (r\<lparr>bx_settings := st\<rparr>)) (\<lambda>_. wp (returnE (r\<lparr>bx_settings := st\<rparr>)) Q R) R (s\<lparr>calls := n\<rparr>)"
    if "normalized C (bx_settings r) st" for st n
    by (rule wp_mono [OF assms(3) [OF that]]) (simp_all add: wp_simps)
  show ?thesis
    unfolding hydrate_record_def detect_box_caps_def Let_def split_beta
    by (auto simp: wp_simps norm [OF refl] split: failure.split intro!: wp_disk_size wp_askI stored elim!: same)
qed

lemma wp_hydrate_exact:
  assumes "sane_defaults C"
    and "\<And>n. normalized C (bx_settings r) (bx_settings r) \<Longrightarrow> Q r (s\<lparr>calls := n\<rparr>)"
    and "\<And>st n. normalized C (bx_settings r) st \<Longrightarrow> Q (r\<lparr>bx_settings := st\<rparr>) (with_record (r\<lparr>bx_settings := st\<rparr>) (s\<lparr>calls := n\<rparr>))"
    and "\<And>e n. R (Fail e) (s\<lparr>calls := n\<rparr>)"
  shows "wp (hydrate_record E C r) Q R s"
  using assms by (auto intro!: wp_hydrate_core wp_box_write)

text \<open>
  Reading a box never panics under a validated configuration, and what it reports is
  within the limits of the host: every numeric setting lies between its minimum and the
  maximum shown beside it, a setting that was legal keeps its value, and in secure mode the
  network is off whatever the file said.
\<close>

theorem hydrated_settings_in_bounds:
  assumes "config_validate pf C = Inr ()"
  shows "case hydrate_record E C r s of
     (Inr r', t) \<Rightarrow> normalized C (bx_settings r) (bx_settings r') \<and> r' = r\<lparr>bx_settings := bx_settings r'\<rparr> \<and>
       rt_active t = rt_active s \<and> (\<forall>c. c \<noteq> bx_box_id r \<longrightarrow> map_of (box_files t) c = map_of (box_files s) c)
   | (Inl (Fail e), t) \<Rightarrow> box_files t = box_files s
   | (Inl Panic, t) \<Rightarrow> False"
proof -
  have "wp (hydrate_record E C r)
    (\<lambda>r' t. normalized C (bx_settings r) (bx_settings r') \<and> r' = r\<lparr>bx_settings := bx_settings r'\<rparr> \<and>
       rt_active t = rt_active s \<and> (\<forall>c. c \<noteq> bx_box_id r \<longrightarrow> map_of (box_files t) c = map_of (box_files s) c))
    (\<lambda>x t. case x of Fail e \<Rightarrow> box_files t = box_files s | Panic \<Rightarrow> False) s"
    by (rule wp_hydrate_exact [OF sane_defaults_validated [OF assms]]) (simp_all add: with_record_def update_conv')
  then show ?thesis by (auto simp: wp_def split: prod.splits sum.splits failure.splits)
qed

section \<open>The registry files\<close>

lemma wp_box_read_exact:
  assumes "\<And>r n. map_of (box_files s) b = Some (Intact r) \<Longrightarrow> Q r (s\<lparr>calls := n\<rparr>)" "\<And>e n. R (Fail e) (s\<lparr>calls := n\<rparr>)"
  shows "wp (box_read E b) Q R s"
  unfolding box_read_def box_read_path_def
  using assms by (auto simp: wp_simps split: option.split json_file.split intro!: wp_intro)

text \<open>
  The registry gives back what was stored. After a write returned, a read of that box
  returns the record, less the usage figures, which are not stored; only the operating
  system can make it fail. A write that fails changes nothing, and a write of one box never
  changes the entry of another.
\<close>

theorem box_registry_roundtrip:
  "case box_write E r s of
     (Inr _, s') \<Rightarrow>
       (case box_read E' (bx_box_id r) s' of
          (Inr r', _) \<Rightarrow> r' = r\<lparr>bx_runtime_usage := None\<rparr>
        | (Inl x, _) \<Rightarrow> \<exists>ctx msg. x = Fail (Io ctx msg)) \<and>
       (\<forall>c. c \<noteq> bx_box_id r \<longrightarrow> map_of (box_files s') c = map_of (box_files s) c)
   | (Inl _, s') \<Rightarrow> box_files s' = box_files s"
proof -
  have stored: "wp (box_write E r) (\<lambda>_ t. box_files t = box_files (with_record r s)) (\<lambda>_ t. box_files t = box_files s) s"
    by (rule wp_box_write) (simp_all add: with_record_def)
  have "wp (box_read E' (bx_box_id r)) (\<lambda>r' _. r' = r\<lparr>bx_runtime_usage := None\<rparr>) (\<lambda>x _. \<exists>ctx msg. x = Fail (Io ctx msg)) t"
    if "box_files t = box_files (with_record r s)" for t
    using that unfolding box_read_def box_read_path_def
    by (auto simp: wp_simps with_record_def update_conv' decode_json_def wp_exact split: option.split)
  then show ?thesis
    using stored unfolding wp_def by (fastforce simp: with_record_def update_conv' split: prod.splits sum.splits)
qed

section \<open>Starting and stopping\<close>

definition box_files_of :: "'z box_state_scheme \<Rightarrow> (uuid \<times> box_record json_file) list \<times> (uuid \<times> uuid) list" where
  "box_files_of s = (box_files s, box_active s)"

lemma store_free_box_files [simp]: "store_free box_files_of"
  by (simp add: store_free_def box_files_of_def)

lemma keeps_box_files:
  "keeps box_files_of (guest_writes E w)" "keeps box_files_of (rpc_call E w c e)" "keeps box_files_of (rpc_call_timed E w c e')"
  unfolding rpc_call_def rpc_call_timed_def rpc_answer_def
  by (auto intro!: keeps_intro keeps_internal(3) simp: counter_free_def box_files_of_def store_free_box_files [unfolded box_files_of_def [abs_def]])

lemma keeps_box_files_session:
  "keeps box_files_of (on_session E u c e)" "keeps box_files_of (destroy_sandbox E C u)"
  unfolding on_session_def registry_active_def destroy_sandbox_def history_record_def remove_active_def guest_best_effort_def
    snapshot_guest_or_baseline_def store_warm_run_def save_history_def Let_def
  by (auto intro!: keeps_intro keeps_box_files simp: counter_free_def) (auto simp: box_files_of_def)

lemma wp_read_box_exact:
  assumes "sane_defaults C" "\<And>r. map_of (box_files s) b = Some (Intact r) \<Longrightarrow> bx_box_id r = b"
    and "\<And>r st t. map_of (box_files s) b = Some (Intact r) \<Longrightarrow> normalized C (bx_settings r) st \<Longrightarrow>
       rt_active t = rt_active s \<Longrightarrow> rt_history t = rt_history s \<Longrightarrow> box_active t = box_active s \<Longrightarrow> workspaces t = workspaces s \<Longrightarrow> lineages t = lineages s \<Longrightarrow>
       (\<exists>us. map_of (box_files t) b = Some (Intact (r\<lparr>bx_settings := st, bx_runtime_usage := us\<rparr>))) \<Longrightarrow>
       Q (r\<lparr>bx_settings := st\<rparr>) t"
    and "\<And>e n. R (Fail e) (s\<lparr>calls := n\<rparr>)"
  shows "wp (read_box E C b) Q R s"
proof -
  have same: "Q r (s\<lparr>calls := n\<rparr>)" if "map_of (box_files s) b = Some (Intact r)" "normalized C (bx_settings r) (bx_settings r)" for r n
  proof -
    have "\<exists>us. r = r\<lparr>bx_runtime_usage := us\<rparr>" by (rule exI [of _ "bx_runtime_usage r"]) simp
    then show ?thesis using assms(3) [OF that, of "s\<lparr>calls := n\<rparr>"] that by simp
  qed
  have new: "Q (r\<lparr>bx_settings := st\<rparr>) (with_record (r\<lparr>bx_settings := st\<rparr>) (s\<lparr>calls := n\<rparr>))"
    if "map_of (box_files s) b = Some (Intact r)" "normalized C (bx_settings r) st" for r st n
    by (rule assms(3) [OF that]) (use assms(2) [OF that(1)] in \<open>auto simp: with_record_def update_conv'\<close>)
  show ?thesis
    unfolding read_box_def
    by (auto simp: wp_simps intro!: wp_box_read_exact wp_hydrate_exact [OF assms(1)] same new assms(4))
qed

lemma wp_destroy_gone:
  fixes s :: "'z box_state_scheme"
  assumes "\<And>r. map_of (rt_history s) u = Some r \<Longrightarrow> map_of (rt_active s) u = None"
    and "\<And>r t. map_of (rt_active t) u = None \<Longrightarrow> box_files t = box_files s \<Longrightarrow> box_active t = box_active s \<Longrightarrow> Q r t"
    and "\<And>x t. map_of (rt_active t) u = None \<Longrightarrow> box_files t = box_files s \<Longrightarrow> box_active t = box_active s \<Longrightarrow> R x t"
  shows "wp (destroy_sandbox E C u) Q R s"
proof -
  have "wp (destroy_sandbox E C u) (\<lambda>_ t. map_of (rt_active t) u = None) (\<lambda>_ t. map_of (rt_active t) u = None) s"
    by (rule wp_destroy_sandbox) (auto simp: delete_conv' assms(1))
  moreover have "wp (destroy_sandbox E C u) (\<lambda>_ t. box_files_of t = box_files_of s) (\<lambda>_ t. box_files_of t = box_files_of s) s"
    using keepsD [OF keeps_box_files_session(2)] by (simp add: wp_snd)
  ultimately show ?thesis
    by (rule wp_mono [OF wp_conj]) (auto simp: box_files_of_def intro: assms(2,3))
qed

text \<open>The registry holds this record, usage figures aside.\<close>

definition stored_as :: "uuid \<Rightarrow> box_record \<Rightarrow> 'z box_state_scheme \<Rightarrow> bool" where
  "stored_as b r s \<longleftrightarrow> (case map_of (box_files s) b of
     Some (Intact q) \<Rightarrow> q\<lparr>bx_runtime_usage := None\<rparr> = r\<lparr>bx_runtime_usage := None\<rparr>
   | _ \<Rightarrow> False)"

lemma stop_outcome:
  assumes "sane_defaults C" "stop_box E C b s = (Inr r, t)"
    and "map_of (box_files s) b = Some (Intact r0)" "bx_box_id r0 = b" "bx_active_sandbox_id r0 = Some u"
    and "\<forall>q. map_of (rt_history s) u = Some q \<longrightarrow> map_of (rt_active s) u = None"
  shows "bx_status r0 = Running \<and> bx_status r = Stopped \<and> bx_active_sandbox_id r = None \<and>
    stored_as b r t \<and>
    map_of (box_active t) b = None \<and> map_of (rt_active t) u = None"
proof -
  note read = wp_read_box_exact [OF assms(1)]
  have "wp (stop_box E C b) (\<lambda>r t. bx_status r0 = Running \<and> bx_status r = Stopped \<and> bx_active_sandbox_id r = None \<and>
    stored_as b r t \<and>
    map_of (box_active t) b = None \<and> map_of (rt_active t) u = None) (\<lambda>_ _. True) s"
    unfolding stop_box_def running_sandbox_id_def sandbox_of_def set_failed_def mark_stopped_def Let_def
    using assms(3-6)
    by (auto simp: wp_simps stored_as_def active_insert_def active_remove_def with_record_def update_conv' delete_conv' split: failure.split
        intro!: read wp_destroy_gone wp_now_msI wp_box_write)
  from wp_runD [OF this assms(2)] show ?thesis by simp
qed

text \<open>
  Stopping a running box, when it returns, leaves it stopped: the record on disk says so
  and names no sandbox, the map of running boxes has no entry for it, and the sandbox the
  record named is no longer active in the runtime.
\<close>

theorem stop_box_outcome:
  assumes "config_validate pf C = Inr ()" "stop_box E C b s = (Inr r, t)"
    and "map_of (box_files s) b = Some (Intact r0)" "bx_box_id r0 = b" "bx_active_sandbox_id r0 = Some u"
    and "\<forall>q. map_of (rt_history s) u = Some q \<longrightarrow> map_of (rt_active s) u = None"
  shows "bx_status r0 = Running \<and> bx_status r = Stopped \<and> bx_active_sandbox_id r = None \<and>
    stored_as b r t \<and>
    map_of (box_active t) b = None \<and> map_of (rt_active t) u = None"
  by (rule stop_outcome [OF sane_defaults_validated [OF assms(1)] assms(2-6)])

text \<open>An accepted setting is what the box reports (the disk size is reported from the disk itself).\<close>

fun took_effect :: "box_setting_value \<Rightarrow> box_settings \<Rightarrow> bool" where
  "took_effect (CpuCores v) st = (num_current (set_cpu_cores st) = v)"
| "took_effect (MemoryMb v) st = (num_current (set_memory_mb st) = v)"
| "took_effect (FsSizeMib v) st = True"
| "took_effect (MaxProcesses v) st = (num_current (set_max_processes st) = v)"
| "took_effect (NetworkEnabled v) st = (flag_current (set_network_enabled st) = v)"

lemma normalized_bounds: "normalized C st st' \<Longrightarrow> settings_in_bounds st'"
  by (simp add: normalized_def)

lemma wp_apply_setting:
  fixes s :: "'z box_state_scheme"
  assumes "normalized C st0 st"
    and "\<And>st' t. (\<And>st''. normalized C st' st'' \<Longrightarrow> took_effect v st'') \<Longrightarrow> box_fields t = box_fields s \<Longrightarrow> Q st' t"
    and "\<And>x t. R x t"
  shows "wp (apply_setting E C b st v) Q R s"
proof -
  have resize: "wp (resize_workspace E W w n) Q' R t" if "\<And>a t'. box_fields t' = box_fields t \<Longrightarrow> Q' a t'" for W w n Q' and t :: "'z box_state_scheme"
    using keepsD [OF keeps_store_ops(6) [OF store_free_box_fields], of E W w n t] that assms(3)
    by (auto simp: wp_def split: prod.split sum.split)
  show ?thesis
  proof (cases v)
    case (FsSizeMib x3)
    then show ?thesis using assms(2,3) by (auto simp: wp_simps split: sum.split intro!: resize)
  next
    case (NetworkEnabled x5)
    then show ?thesis using assms(1,3) by (auto simp: wp_simps normalized_def intro!: assms(2))
  qed (use assms(3) in \<open>auto simp: wp_simps validate_numeric_setting_def not_less word_one_le normalized_def split: sum.split if_splits intro!: assms(2)\<close>)
qed

text \<open>
  A setting is only changed while the box is not running, and an accepted change is what
  the stored record says afterwards, within the limits of the host; status, sandboxes and
  every other field of the record stay. On a running box the call fails and the record still
  says running.
\<close>

theorem set_box_setting_outcome:
  assumes "config_validate pf C = Inr ()" "map_of (box_files s) b = Some (Intact r0)" "bx_box_id r0 = b"
  shows "case set_box_setting E C b v s of
     (Inr r, t) \<Rightarrow> bx_status r0 \<noteq> Running \<and> took_effect v (bx_settings r) \<and> settings_in_bounds (bx_settings r) \<and>
        r = r0\<lparr>bx_settings := bx_settings r\<rparr> \<and> stored_as b r t \<and> rt_active t = rt_active s
   | (Inl _, t) \<Rightarrow> bx_status r0 = Running \<longrightarrow>
        workspaces t = workspaces s \<and> rt_active t = rt_active s \<and> (\<exists>q. map_of (box_files t) b = Some (Intact q) \<and> bx_status q = Running \<and> bx_active_sandbox_id q = bx_active_sandbox_id r0)"
proof -
  have keep: "wp (set_box_setting E C b v) (\<lambda>r t. bx_status r0 \<noteq> Running \<and> took_effect v (bx_settings r) \<and> settings_in_bounds (bx_settings r) \<and>
        r = r0\<lparr>bx_settings := bx_settings r\<rparr> \<and> stored_as b r t \<and> rt_active t = rt_active s)
     (\<lambda>_ t. bx_status r0 = Running \<longrightarrow>
        workspaces t = workspaces s \<and> rt_active t = rt_active s \<and> (\<exists>q. map_of (box_files t) b = Some (Intact q) \<and> bx_status q = Running \<and> bx_active_sandbox_id q = bx_active_sandbox_id r0)) s"
    unfolding set_box_setting_def Let_def
    using assms(2,3)
    by (auto simp: wp_simps stored_as_def with_record_def update_conv' box_fields_def normalized_bounds
        intro!: wp_read_box_exact [OF sane_defaults_validated [OF assms(1)]] wp_hydrate_exact [OF sane_defaults_validated [OF assms(1)]] wp_box_write wp_apply_setting)
  then show ?thesis by (auto simp: wp_def split: prod.splits sum.splits)
qed

section \<open>Restart\<close>

lemma wp_forE_inv:
  assumes "\<And>xs1 x xs2 s. xs = xs1 @ x # xs2 \<Longrightarrow> I xs1 s \<Longrightarrow> wp (f x) (\<lambda>_. I (xs1 @ [x])) R s" "I [] s"
  shows "wp (forE xs f) (\<lambda>_. I xs) R s"
proof -
  have "wp (forE ys f) (\<lambda>_. I xs) R t" if "xs = zs @ ys" "I zs t" for ys zs t
    using that
  proof (induction ys arbitrary: zs t)
    case (Cons y ys)
    have "wp (f y) (\<lambda>_. I (zs @ [y])) R t" using assms(1) Cons.prems by simp
    then have "wp (f y) (\<lambda>_ t. wp (forE ys f) (\<lambda>_. I xs) R t) R t"
      by (rule wp_mono) (use Cons.IH [of "zs @ [y]"] Cons.prems in auto)
    then show ?case by (simp add: wp_simps)
  qed (simp add: wp_simps)
  from this [of "[]" xs] show ?thesis using assms(2) by simp
qed

lemma wp_box_list_exact:
  assumes "distinct (map fst (box_files s))" "\<And>b r. map_of (box_files s) b = Some (Intact r) \<Longrightarrow> bx_box_id r = b"
    and "\<And>rs n. distinct (map bx_box_id rs) \<Longrightarrow> (\<And>r. r \<in> set rs \<Longrightarrow> map_of (box_files s) (bx_box_id r) = Some (Intact r)) \<Longrightarrow>
      fst ` set (box_files s) = bx_box_id ` set rs \<Longrightarrow> Q rs (s\<lparr>calls := n\<rparr>)"
    and "\<And>e n. R (Fail e) (s\<lparr>calls := n\<rparr>)"
  shows "wp (box_list E) Q R s"
proof -
  let ?f = "\<lambda>(_, j). seqE (sys_io E ''iterating BOX registry directory'') (box_read_path E j)"
  have reads: "wp (mapE ?f fs) Q' R (s\<lparr>calls := n\<rparr>)"
    if "\<And>rs n. map snd fs = map Intact rs \<Longrightarrow> Q' rs (s\<lparr>calls := n\<rparr>)" for fs n Q'
    using that
  proof (induction fs arbitrary: n Q')
    case (Cons p fs)
    obtain b j where p: "p = (b, j)" by (cases p)
    have rest: "wp (mapE ?f fs) (\<lambda>ys. wp (returnE (r # ys)) Q' R) R (s\<lparr>calls := k\<rparr>)" if "j = Intact r" for r k
    proof (rule Cons.IH)
      fix rs n
      assume "map snd fs = map Intact rs"
      then have "map snd (p # fs) = map Intact (r # rs)" using that by (simp add: p)
      then show "wp (returnE (r # rs)) Q' R (s\<lparr>calls := n\<rparr>)" by (simp add: wp_simps Cons.prems del: list.map)
    qed
    show ?case
      unfolding p box_read_path_def using assms(4) by (cases j) (auto simp: wp_simps intro!: wp_intro rest [unfolded box_read_path_def])
  qed (simp add: wp_simps)
  have fine: "Q (sort_key g rs) (s\<lparr>calls := n\<rparr>)" if rs: "map snd (box_files s) = map Intact rs" for g :: "box_record \<Rightarrow> u64 \<times> nat" and rs n
  proof -
    have files: "box_files s = zip (map fst (box_files s)) (map Intact rs)" using rs by (metis zip_map_fst_snd)
    have ids: "map bx_box_id rs = map fst (box_files s)"
    proof (rule nth_equalityI)
      show len: "length (map bx_box_id rs) = length (map fst (box_files s))" using rs by (metis length_map)
      show "map bx_box_id rs ! i = map fst (box_files s) ! i" if "i < length (map bx_box_id rs)" for i
      proof -
        have i: "i < length (box_files s)" "i < length rs" using that len by auto
        have "snd (box_files s ! i) = Intact (rs ! i)" using rs i by (metis nth_map)
        then have "(fst (box_files s ! i), Intact (rs ! i)) \<in> set (box_files s)" using i by (metis nth_mem prod.collapse)
        then have "map_of (box_files s) (fst (box_files s ! i)) = Some (Intact (rs ! i))" using assms(1) by simp
        with assms(2) i show ?thesis by simp
      qed
    qed
    show ?thesis
    proof (rule assms(3))
      show "distinct (map bx_box_id (sort_key g rs))"
        using assms(1) ids by (metis distinct_map distinct_sort set_sort)
      show "fst ` set (box_files s) = bx_box_id ` set (sort_key g rs)" using ids by (metis list.set_map set_sort)
      show "map_of (box_files s) (bx_box_id r) = Some (Intact r)" if "r \<in> set (sort_key g rs)" for r
      proof -
        have "(bx_box_id r, Intact r) \<in> set (zip (map bx_box_id rs) (map Intact rs))"
          using that by (auto simp: zip_map_map zip_same_conv_map)
        then show ?thesis using files ids assms(1) by simp
      qed
    qed
  qed
  show ?thesis
    unfolding box_list_def using fine assms(4)
    by (auto simp: wp_simps intro!: wp_intro reads)
qed

text \<open>The state of a restart that has dealt with the boxes \<open>dealt\<close> so far.\<close>

definition restarted :: "'z box_state_scheme \<Rightarrow> uuid set \<Rightarrow> 'z box_state_scheme \<Rightarrow> bool" where
  "restarted s dealt t \<longleftrightarrow> rt_active t = [] \<and> box_active t = [] \<and> workspaces t = workspaces s \<and>
    dom (map_of (box_files t)) = dom (map_of (box_files s)) \<and>
    (\<forall>b r. map_of (box_files s) b = Some (Intact r) \<longrightarrow> (\<exists>r'. map_of (box_files t) b = Some (Intact r') \<and>
       (if b \<in> dealt then bx_status r' = (if bx_status r = Running then Failed else bx_status r) else r' = r)))"

lemma wp_reconcile_one:
  assumes "sane_defaults C" "restarted s ids t" "map_of (box_files s) (bx_box_id r) = Some (Intact r)" "bx_box_id r \<notin> ids"
  shows "wp (bindE (hydrate_record E C r) (\<lambda>r.
         if bx_status r = Running then
           box_write E (r\<lparr>bx_status := Failed, bx_last_error := Some msg\<rparr>) else returnE ()))
      (\<lambda>_. restarted s (insert (bx_box_id r) ids)) (\<lambda>_ _. True) t"
proof -
  have stay: "restarted s (insert (bx_box_id r) ids) (t\<lparr>calls := n\<rparr>)" if "bx_status r \<noteq> Running" for n
    using assms(2-4) that unfolding restarted_def by (auto 0 4)
  have put: "restarted s (insert (bx_box_id r) ids) (t\<lparr>calls := n, box_files := AList.update (bx_box_id r) (Intact q) (box_files t)\<rparr>)"
    if "bx_status q = (if bx_status r = Running then Failed else bx_status r)" for n q
    using assms(2-4) that unfolding restarted_def by (auto simp: update_conv' split: if_splits)
  show ?thesis
    using stay put by (auto simp: wp_simps with_record_def intro!: wp_hydrate_exact [OF assms(1)] wp_box_write)
qed

text \<open>
  After the daemon was restarted, nothing runs and no box claims to: the runtime and the
  map of running boxes are empty, every box that was marked running is marked failed and the
  others keep their status, no box was added or lost and no disk was touched.
\<close>

theorem restart_marks_failed:
  assumes "config_validate pf C = Inr ()" "boxes_ok us U s" "new_box_service E C s = (Inr (), t)"
  shows "rt_active t = [] \<and> box_active t = [] \<and> workspaces t = workspaces s \<and> dom (map_of (box_files t)) = dom (map_of (box_files s)) \<and>
    (\<forall>b r. map_of (box_files s) b = Some (Intact r) \<longrightarrow> (\<exists>r'. map_of (box_files t) b = Some (Intact r') \<and>
       bx_status r' = (if bx_status r = Running then Failed else bx_status r)))"
proof -
  let ?s = "s\<lparr>rt_active := [], rt_warm_runs := [], rt_history := [], box_active := []\<rparr>"
  have files: "distinct (map fst (box_files s))" "\<And>b r. map_of (box_files s) b = Some (Intact r) \<Longrightarrow> bx_box_id r = b"
    using assms(2) by (auto simp: boxes_ok_def record_ok_def)
  have list: "wp (box_list E) Q (\<lambda>_ _. True) (?s\<lparr>calls := n\<rparr>)"
    if "\<And>rs n. distinct (map bx_box_id rs) \<Longrightarrow> (\<And>r. r \<in> set rs \<Longrightarrow> map_of (box_files s) (bx_box_id r) = Some (Intact r)) \<Longrightarrow>
      fst ` set (box_files s) = bx_box_id ` set rs \<Longrightarrow> Q rs (?s\<lparr>calls := n\<rparr>)" for Q n
    by (rule wp_box_list_exact) (use files that in auto)
  have loop: "wp (forE rs (\<lambda>r0. bindE (hydrate_record E C r0) (\<lambda>r.
         if bx_status r = Running then
           box_write E (r\<lparr>bx_status := Failed, bx_last_error := Some msg\<rparr>) else returnE ())))
       (\<lambda>_. restarted s (fst ` set (box_files s))) (\<lambda>_ _. True) (?s\<lparr>calls := n\<rparr>)"
    if rs: "distinct (map bx_box_id rs)" "\<And>r. r \<in> set rs \<Longrightarrow> map_of (box_files s) (bx_box_id r) = Some (Intact r)"
      "fst ` set (box_files s) = bx_box_id ` set rs" for rs msg n
    unfolding rs(3)
    by (rule wp_forE_inv [where I = "\<lambda>xs. restarted s (bx_box_id ` set xs)"])
       (use rs in \<open>auto simp: restarted_def intro!: wp_reconcile_one [OF sane_defaults_validated [OF assms(1)]]\<close>)
  have "wp (new_box_service E C) (\<lambda>_. restarted s (fst ` set (box_files s))) (\<lambda>_ _. True) s"
    unfolding new_box_service_def reconcile_after_restart_def box_ensure_layout_def ensure_layout_def create_private_dir_def make_private_dir_def
    by (auto simp: wp_simps intro!: wp_intro list loop)
  from wp_runD [OF this assms(3)] show ?thesis
    by (simp add: restarted_def) (metis image_eqI fst_conv map_of_SomeD)
qed

section \<open>Starting a box\<close>

lemma wp_create_box_frame:
  fixes s :: "'z box_state_scheme"
  assumes "\<And>m t. rt_active t = AList.update (ss_sandbox_id (ms_summary m)) m (rt_active s) \<Longrightarrow> new_session E spec m \<Longrightarrow>
      box_files_of t = box_files_of s \<Longrightarrow> Q (ms_summary m) t"
    and "\<And>x t. box_files_of t = box_files_of s \<Longrightarrow> R x t"
  shows "wp (create_sandbox E C spec) Q R s"
proof -
  let ?P = "\<lambda>t :: 'z box_state_scheme. box_files_of t = box_files_of s"
  have store: "preserves ?P m" if "keeps box_files_of m" for m :: "('z box_state_scheme, 'out) io"
    unfolding preserves_def using keepsD [OF that] by auto
  have "wp (create_launch E C spec) (\<lambda>_. ?P) (\<lambda>_. ?P) s"
  proof (rule wp_create_launch_local)
    show "preserves ?P (prepare_workspace E (wstore C) (spec_workspace_id spec))"
      by (rule store [OF keeps_store_ops(1)]) simp
    show "preserves ?P (restore_internal_checkpoint E (wstore C) (spec_workspace_id spec) c)" for c
      unfolding restore_internal_checkpoint_def by (rule store [OF keeps_store_ops(3)]) simp
    show "preserves ?P (guest_writes E (spec_workspace_id spec))" by (rule store, rule keeps_box_files(1))
  qed (simp_all add: counter_free_def box_files_of_def)
  moreover have "wp (create_launch E C spec)
      (\<lambda>a t. \<exists>m. a = ms_summary m \<and> new_session E spec m \<and> rt_active t = AList.update (ss_sandbox_id (ms_summary m)) m (rt_active s))
      (\<lambda>_ t. True) s"
    by (rule wp_create_launch) auto
  ultimately have "wp (create_launch E C spec) Q R s"
    by (rule wp_mono [OF wp_conj]) (auto intro: assms)
  then show ?thesis
    using assms(2) unfolding create_sandbox_def create_admission_def by (auto simp: wp_simps)
qed

lemma wp_stats_frame:
  assumes "\<And>x t. box_files_of t = box_files_of s \<Longrightarrow> rt_active t = rt_active s \<Longrightarrow> Q x t"
    and "\<And>x t. box_files_of t = box_files_of s \<Longrightarrow> rt_active t = rt_active s \<Longrightarrow> R x t"
  shows "wp (rt_runtime_stats E u) Q R s"
proof -
  have "wp (rt_runtime_stats E u) (\<lambda>_ t. box_files_of t = box_files_of s) (\<lambda>_ t. box_files_of t = box_files_of s) s"
    "wp (rt_runtime_stats E u) (\<lambda>_ t. registry_of t = registry_of s) (\<lambda>_ t. registry_of t = registry_of s) s"
    unfolding rt_runtime_stats_def
    by (simp_all add: wp_snd keepsD [OF keeps_box_files_session(1)] keepsD [OF keeps_registry_session(1)])
  then show ?thesis
    by (rule wp_mono [OF wp_conj]) (auto simp: registry_of_def intro: assms)
qed

text \<open>A box that runs in the sense the user means it: with its own sandbox, under its own limits.\<close>

definition runs_as :: "'e box_env_scheme \<Rightarrow> runtime_config \<Rightarrow> box_record \<Rightarrow> 'z box_state_scheme \<Rightarrow> bool" where
  "runs_as E C r s \<longleftrightarrow> bx_status r = Running \<and> (\<exists>u m. bx_active_sandbox_id r = Some u \<and> map_of (box_active s) (bx_box_id r) = Some u \<and>
     map_of (rt_active s) u = Some m \<and> lease_workspace_id (ms_workspace m) = uuid_string E (bx_box_id r) \<and>
     ss_policy (ms_summary m) = box_policy r (pol_timeout_ms (cfg_default_policy C)))"

text \<open>
  Starting a box that is not running either fails, or the box runs in a new sandbox on
  its own workspace, under exactly the limits its settings state, and the stored record and
  the map of running boxes say so; or the guest could not be reached right after the launch,
  and the box is marked failed. A box that is running already is refused and no sandbox is
  created.
\<close>

theorem start_box_outcome:
  assumes "config_validate pf C = Inr ()" "map_of (box_files s) b = Some (Intact r0)" "bx_box_id r0 = b"
  shows "case start_box E C b s of
     (Inr r, t) \<Rightarrow> bx_status r0 \<noteq> Running \<and> stored_as b r t \<and> (runs_as E C r t \<or> bx_status r = Failed)
   | (Inl _, t) \<Rightarrow> bx_status r0 = Running \<longrightarrow> rt_active t = rt_active s"
proof -
  note sane = sane_defaults_validated [OF assms(1)]
  have "wp (start_box E C b)
     (\<lambda>r t. bx_status r0 \<noteq> Running \<and> stored_as b r t \<and> (runs_as E C r t \<or> bx_status r = Failed))
     (\<lambda>_ t. bx_status r0 = Running \<longrightarrow> rt_active t = rt_active s) s"
    unfolding start_box_def attach_runtime_usage_def sandbox_of_def set_failed_def active_insert_def active_remove_def Let_def
    using assms(2,3)
    by (auto simp: wp_simps stored_as_def runs_as_def with_record_def update_conv' delete_conv' box_files_of_def new_session_def box_policy_def Let_def
        split: failure.split
        intro!: wp_read_box_exact [OF sane] wp_create_box_frame wp_stats_frame wp_now_msI wp_box_write)
  then show ?thesis by (auto simp: wp_def split: prod.splits sum.splits)
qed

section \<open>A host without failures\<close>

lemma wp_strengthen:
  assumes "wp m (\<lambda>_ _. True) (\<lambda>_ _. False) s" "wp m Q (\<lambda>_ _. True) s"
  shows "wp m Q R s"
  using assms by (auto simp: wp_def split: prod.splits sum.splits)

lemma wp_total_box_write:
  assumes "no_faults E" "\<And>n. Q () (with_record r (s\<lparr>calls := n\<rparr>))"
  shows "wp (box_write E r) Q R s"
  unfolding box_write_def box_ensure_layout_def using assms by (auto simp: wp_simps with_record_def intro!: wp_total)

lemma wp_total_read_box:
  assumes "sane_defaults C" "no_faults E" "\<exists>r. map_of (box_files s) b = Some (Intact r) \<and> bx_box_id r = b"
    and "\<And>r st t. map_of (box_files s) b = Some (Intact r) \<Longrightarrow> normalized C (bx_settings r) st \<Longrightarrow>
       rt_active t = rt_active s \<Longrightarrow> rt_history t = rt_history s \<Longrightarrow> box_active t = box_active s \<Longrightarrow> workspaces t = workspaces s \<Longrightarrow> lineages t = lineages s \<Longrightarrow>
       (\<exists>us. map_of (box_files t) b = Some (Intact (r\<lparr>bx_settings := st, bx_runtime_usage := us\<rparr>))) \<Longrightarrow>
       Q (r\<lparr>bx_settings := st\<rparr>) t"
  shows "wp (read_box E C b) Q R s"
proof (rule wp_strengthen)
  show "wp (read_box E C b) Q (\<lambda>_ _. True) s"
    using assms(3) by (auto intro!: wp_read_box_exact [OF assms(1)] assms(4))
  have hyd: "wp (hydrate_record E C q) (\<lambda>_ _. True) (\<lambda>_ _. False) t" for q t
    by (rule wp_hydrate_core [OF assms(1)]) (auto intro!: wp_total_box_write assms(2))
  show "wp (read_box E C b) (\<lambda>_ _. True) (\<lambda>_ _. False) s"
    unfolding read_box_def box_read_def box_read_path_def using assms(3)
    by (auto simp: wp_simps decode_json_def assms(2) intro!: wp_total hyd)
qed

lemma wp_total_create:
  fixes s :: "'z box_state_scheme"
  assumes "healthy_guest E" "launchable spec s" "\<not> has_active_workspace (spec_workspace_id spec) s"
    and "cfg_isolation_mode C = Secure \<longrightarrow> \<not> pol_network_enabled (spec_policy spec)"
    and "\<And>m t. rt_active t = AList.update (ss_sandbox_id (ms_summary m)) m (rt_active s) \<Longrightarrow> rt_history t = rt_history s \<Longrightarrow>
      new_session E spec m \<Longrightarrow> box_files_of t = box_files_of s \<Longrightarrow> Q (ms_summary m) t"
  shows "wp (create_sandbox E C spec) Q R s"
proof (rule wp_strengthen)
  have adm: "create_sandbox E C spec s = create_launch E C spec s"
    using assms(3,4) by (auto simp: create_sandbox_def create_admission_def io_defs)
  have same: "wp (create_sandbox E C spec) Q' R' s = wp (create_launch E C spec) Q' R' s" for Q' R'
    by (simp add: wp_def adm)
  show "wp (create_sandbox E C spec) (\<lambda>_ _. True) (\<lambda>_ _. False) s"
    unfolding same by (rule create_launch_returns [OF assms(1,2)])
  have "wp (create_sandbox E C spec) (\<lambda>_ t. box_files_of t = box_files_of s) (\<lambda>_ _. True) s"
    by (rule wp_create_box_frame) simp_all
  moreover have "wp (create_sandbox E C spec) (\<lambda>a t. \<exists>m. a = ms_summary m \<and> new_session E spec m \<and>
      rt_active t = AList.update (ss_sandbox_id (ms_summary m)) m (rt_active s) \<and> rt_history t = rt_history s) (\<lambda>_ _. True) s"
    unfolding same by (rule wp_create_launch) auto
  ultimately show "wp (create_sandbox E C spec) Q (\<lambda>_ _. True) s"
    by (rule wp_mono [OF wp_conj]) (auto intro: assms(5))
qed

lemma wp_total_stats:
  assumes "\<forall>n. \<exists>x. guest_answer_at E n CStats = Inr (RRuntimeStats x)" "map_of (rt_active s) u = Some m"
    and "\<And>x t. box_files_of t = box_files_of s \<Longrightarrow> rt_active t = rt_active s \<Longrightarrow> rt_history t = rt_history s \<Longrightarrow> Q x t"
  shows "wp (rt_runtime_stats E u) Q R s"
proof (rule wp_strengthen)
  have "wp (rt_runtime_stats E u) (\<lambda>_ t. box_files_of t = box_files_of s) (\<lambda>_ _. True) s"
    "wp (rt_runtime_stats E u) (\<lambda>_ t. registry_of t = registry_of s) (\<lambda>_ _. True) s"
    unfolding rt_runtime_stats_def
    by (auto simp: wp_def split: prod.split sum.split dest: arg_cong [of _ _ snd] intro: keeps_runD [OF keeps_box_files_session(1)] keeps_runD [OF keeps_registry_session(1)])
  then show "wp (rt_runtime_stats E u) Q (\<lambda>_ _. True) s"
    by (rule wp_mono [OF wp_conj]) (auto simp: registry_of_def intro: assms(3))
  have ans: "case case guest_answer_at E n CStats of Inl x \<Rightarrow> Inl x | Inr x \<Rightarrow> expect_stats x of Inl e \<Rightarrow> False | Inr a \<Rightarrow> True" for n
    using assms(1) [THEN spec, of n] by auto
  show "wp (rt_runtime_stats E u) (\<lambda>_ _. True) (\<lambda>_ _. False) s"
    unfolding rt_runtime_stats_def on_session_def registry_active_def rpc_call_def rpc_answer_def guest_writes_def using assms(2)
    by (auto simp: wp_simps intro!: wp_askI ans)
qed

text \<open>What starting a box needs of it.\<close>

definition startable :: "'e box_env_scheme \<Rightarrow> runtime_config \<Rightarrow> uuid \<Rightarrow> box_record \<Rightarrow> 'z box_state_scheme \<Rightarrow> bool" where
  "startable E C b r s \<longleftrightarrow> map_of (box_files s) b = Some (Intact r) \<and> bx_box_id r = b \<and> bx_status r \<noteq> Running \<and>
     bx_image r = BASE_IMAGE_NAME \<and> persisted_id (uuid_string E b) \<and> readable (ents (lineages s (uuid_string E b))) \<and>
     \<not> has_active_workspace (uuid_string E b) s \<and> (\<forall>n. map_of (rt_history s) (uuid_at E n) = None)"

lemma wp_total_attach:
  assumes "\<forall>n. \<exists>x. guest_answer_at E n CStats = Inr (RRuntimeStats x)" "bx_status r = Running" "bx_active_sandbox_id r = Some u"
    and "map_of (rt_active s) u = Some m"
    and "\<And>v t. box_files_of t = box_files_of s \<Longrightarrow> rt_active t = rt_active s \<Longrightarrow> rt_history t = rt_history s \<Longrightarrow> Q (r\<lparr>bx_runtime_usage := v\<rparr>) t"
  shows "wp (attach_runtime_usage E C r) Q R s"
  unfolding attach_runtime_usage_def sandbox_of_def Let_def
  using assms(2-5) by (auto simp: wp_simps intro!: wp_total_stats [OF assms(1,4)])

lemma start_returns:
  fixes s :: "'z box_state_scheme"
  assumes "sane_defaults C" "healthy_guest E" "\<forall>n. \<exists>x. guest_answer_at E n CStats = Inr (RRuntimeStats x)" "startable E C b r0 s"
  shows "wp (start_box E C b) (\<lambda>r t. runs_as E C r t \<and> stored_as b r t \<and> bx_box_id r = b \<and>
      (\<forall>u. bx_active_sandbox_id r = Some u \<longrightarrow> map_of (rt_history t) u = None)) (\<lambda>_ _. False) s" (is "wp _ ?Q _ s")
proof -
  have st: "map_of (box_files s) b = Some (Intact r0)" "bx_box_id r0 = b" "bx_status r0 \<noteq> Running"
    "bx_image r0 = BASE_IMAGE_NAME" "persisted_id (uuid_string E b)" "readable (ents (lineages s (uuid_string E b)))"
    "\<not> has_active_workspace (uuid_string E b) s" "\<And>n. map_of (rt_history s) (uuid_at E n) = None"
    using assms(4) by (simp_all add: startable_def)
  have nf: "no_faults E" using assms(2) by simp
  let ?r = "\<lambda>st u now. r0\<lparr>bx_settings := st, bx_status := Running, bx_active_sandbox_id := Some u, bx_last_start_at_ms := Some now, bx_last_error := None\<rparr>"
  have after: "wp (seqE (active_insert b u) (bindE (now_ms E) (\<lambda>now. seqE (box_write E (?r st u now)) (attach_runtime_usage E C (?r st u now))))) ?Q R t"
    if t: "map_of (rt_active t) u = Some m" "rt_history t = rt_history s" "new_session E spec m" "u = ss_sandbox_id (ms_summary m)"
      "spec_workspace_id spec = uuid_string E b" "spec_policy spec = box_policy (r0\<lparr>bx_settings := st\<rparr>) (pol_timeout_ms (cfg_default_policy C))"
    for t :: "'z box_state_scheme" and st u m spec R
  proof -
    have "map_of (rt_history t) u = None" using t st(8) by (auto simp: new_session_def)
    then show ?thesis
      unfolding active_insert_def
      by (auto simp: wp_simps with_record_def t(1) st(2) stored_as_def runs_as_def box_files_of_def update_conv' t(2)
          intro!: wp_now_msI wp_total_box_write [OF nf] wp_total_attach [OF assms(3), where m = m])
         (use t in \<open>simp_all add: new_session_def box_policy_def Let_def\<close>)
  qed
  define k :: "box_record \<Rightarrow> ('z box_state_scheme, box_record) io" where "k = (\<lambda>r. if bx_status r = Running then throwE (Conflict (''BOX '' @ uuid_string E b @ '' is already running''))
       else bindE (tryE (create_sandbox E C \<lparr>spec_workspace_id = uuid_string E b, spec_image = bx_image r,
              spec_policy = box_policy r (pol_timeout_ms (cfg_default_policy C)), spec_restore_commit = None\<rparr>)) (\<lambda>res. case res of
           Inr session \<Rightarrow> seqE (active_insert b (ss_sandbox_id session)) (bindE (now_ms E) (\<lambda>now.
              let r' = r\<lparr>bx_status := Running, bx_active_sandbox_id := Some (ss_sandbox_id session),
                         bx_last_start_at_ms := Some now, bx_last_error := None\<rparr> in
              seqE (box_write E r') (attach_runtime_usage E C r')))
         | Inl error \<Rightarrow> seqE (set_failed E r (display error)) (throwE error)))"
  show ?thesis
    unfolding start_box_def k_def [symmetric] wp_bindE
  proof (rule wp_total_read_box [OF assms(1) nf])
    fix r st and t :: "'z box_state_scheme"
    assume r: "map_of (box_files s) b = Some (Intact r)" and n: "normalized C (bx_settings r) st"
      and t: "rt_active t = rt_active s" "rt_history t = rt_history s" "lineages t = lineages s"
    have r0: "r = r0" using r st(1) by simp
    let ?spec = "\<lparr>spec_workspace_id = uuid_string E b, spec_image = bx_image r0,
              spec_policy = box_policy (r0\<lparr>bx_settings := st\<rparr>) (pol_timeout_ms (cfg_default_policy C)), spec_restore_commit = None\<rparr>"
    have launch: "launchable ?spec t" "\<not> has_active_workspace (spec_workspace_id ?spec) t"
        "cfg_isolation_mode C = Secure \<longrightarrow> \<not> pol_network_enabled (spec_policy ?spec)"
      using st t n unfolding r0 by (auto simp: launchable_def has_active_workspace_def normalized_def box_policy_def Let_def)
    have "wp (create_sandbox E C ?spec) (\<lambda>a. wp (seqE (active_insert b (ss_sandbox_id a)) (bindE (now_ms E) (\<lambda>now.
        seqE (box_write E (?r st (ss_sandbox_id a) now)) (attach_runtime_usage E C (?r st (ss_sandbox_id a) now))))) ?Q (\<lambda>_ _. False)) (\<lambda>_ _. False) t"
      by (rule wp_total_create [OF assms(2) launch]) (auto simp: update_conv' t(2) intro!: after)
    then show "wp (k (r\<lparr>bx_settings := st\<rparr>)) ?Q (\<lambda>_ _. False) t"
      using st(3) by (simp add: r0 k_def wp_bindE wp_tryE Let_def) (erule wp_mono; simp)
  qed (use st in simp)
qed

lemma stop_returns:
  fixes s :: "'z box_state_scheme"
  assumes "sane_defaults C" "healthy_guest E" "map_of (box_files s) b = Some (Intact r0)" "bx_box_id r0 = b" "bx_status r0 = Running"
    "bx_active_sandbox_id r0 = Some u" "map_of (rt_history s) u = None" "map_of (rt_active s) u = Some m"
  shows "wp (stop_box E C b) (\<lambda>_ _. True) (\<lambda>_ _. False) s"
proof -
  have nf: "no_faults E" using assms(2) by simp
  have destroy: "wp (destroy_sandbox E C u) Q R t" if "\<And>a t. Q a t" "rt_active t = rt_active s" "rt_history t = rt_history s" for Q R and t :: "'z box_state_scheme"
    by (rule wp_strengthen [OF destroy_returns [OF assms(2)]]) (use that assms(7,8) in \<open>auto simp: wp_def split: prod.split sum.split\<close>)
  show ?thesis
    unfolding stop_box_def running_sandbox_id_def sandbox_of_def active_insert_def active_remove_def Let_def
    using assms(3-6)
    by (auto simp: wp_simps  intro!: wp_total_read_box [OF assms(1) nf] destroy wp_now_msI wp_total_box_write [OF nf])
qed


lemma restart_returns:
  assumes "sane_defaults C" "no_faults E" "\<forall>b. (b, Torn) \<notin> set (box_files s)"
  shows "wp (new_box_service E C) (\<lambda>_ _. True) (\<lambda>_ _. False) s"
proof -
  have hyd: "wp (hydrate_record E C q) Q R t" if "\<And>a t. Q a t" for q Q R t
    by (rule wp_hydrate_core [OF assms(1)]) (auto intro!: wp_total_box_write assms(2) that)
  have loop: "wp (forE rs (\<lambda>r0. bindE (hydrate_record E C r0) (\<lambda>r. if P r then box_write E (f r) else returnE ()))) (\<lambda>_ _. True) (\<lambda>_ _. False) t"
    for rs P f t
    by (induction rs arbitrary: t) (auto simp: wp_simps intro!: hyd wp_total_box_write assms(2))
  have list: "wp (mapE (\<lambda>(_, j). seqE (sys_io E c) (box_read_path E j)) fs) Q R t" if "\<And>a t. Q a t" "\<forall>b. (b, Torn) \<notin> set fs" for c fs Q R t
    using that
  proof (induction fs arbitrary: Q t)
    case (Cons p fs)
    then show ?case
      by (cases p; cases "snd p") (auto simp: wp_simps box_read_path_def decode_json_def assms(2) intro!: wp_total Cons.IH [unfolded box_read_path_def decode_json_def])
  qed (simp add: wp_simps)
  show ?thesis
    unfolding new_box_service_def reconcile_after_restart_def box_list_def box_ensure_layout_def ensure_layout_def create_private_dir_def
    using assms(2,3) by (auto simp: wp_simps intro!: wp_total list loop)
qed

section \<open>Witnesses\<close>

definition quiet_host :: box_env where
  "quiet_host = guest_env.extend (quiet_guest\<lparr>guest_answer_at := \<lambda>_ c. Inr (case c of CSnapshot \<Rightarrow> RSnapshot (from_entries [])
      | CStats \<Rightarrow> RRuntimeStats \<lparr>grs_cpu_millicores = 1, grs_memory_used_mib = 2, grs_fs_used_mib = 3, grs_process_count = 4\<rparr> | _ \<Rightarrow> RAck)\<rparr>)
     (box_env.fields (\<lambda>_. Some 4) (\<lambda>_. 1048576) (\<lambda>_. 4096) (\<lambda>_. None) (\<lambda>_. None))"

lemma quiet_host [simp]:
  "uuid_string quiet_host = decimal" "uuid_at quiet_host = (\<lambda>n. 2 * n)" "no_faults quiet_host" "healthy_guest quiet_host"
  "\<forall>n. \<exists>x. guest_answer_at quiet_host n CStats = Inr (RRuntimeStats x)"
  by (simp_all add: quiet_host_def guest_env.defs box_env.defs quiet_guest_def quiet_env_def no_faults_def healthy_guest_def)

definition demo_box :: "uuid \<Rightarrow> box_status \<Rightarrow> uuid option \<Rightarrow> box_record" where
  "demo_box b st u = \<lparr>bx_box_id = b, bx_name = None, bx_image = BASE_IMAGE_NAME, bx_status = st,
     bx_settings = default_settings, bx_runtime_usage = None, bx_workspace_path = ''/s/workspaces/b/disk.raw'',
     bx_active_sandbox_id = u, bx_created_at_ms = 1, bx_last_start_at_ms = None, bx_last_stop_at_ms = None, bx_last_error = None\<rparr>"

text \<open>Two boxes: the first is stopped, the third runs in sandbox 5.\<close>

definition demo_boxes :: box_state where
  "demo_boxes = runtime_state.extend (demo_rt\<lparr>rt_active := [(5, demo_session\<lparr>ms_workspace := lease_of demo_store (decimal 3)\<rparr>)]\<rparr>)
     (box_state.fields [(1, Intact (demo_box 1 Stopped None)), (3, Intact (demo_box 3 Running (Some 5)))] [(3, 5)])"

lemma demo_boxes [simp]:
  "box_files demo_boxes = [(1, Intact (demo_box 1 Stopped None)), (3, Intact (demo_box 3 Running (Some 5)))]"
  "box_active demo_boxes = [(3, 5)]" "rt_active demo_boxes = [(5, demo_session\<lparr>ms_workspace := lease_of demo_store (decimal 3)\<rparr>)]"
  "rt_history demo_boxes = []" "lineages demo_boxes = (\<lambda>_. None)"
  by (simp_all add: demo_boxes_def demo_rt_def runtime_state.defs box_state.defs)

lemma demo_box [simp]: "bx_box_id (demo_box b st u) = b" "bx_status (demo_box b st u) = st" "bx_active_sandbox_id (demo_box b st u) = u"
  "bx_image (demo_box b st u) = BASE_IMAGE_NAME"
  by (simp_all add: demo_box_def)

lemma demo_boxes_ok: "boxes_ok decimal {5} demo_boxes"
  by (auto simp: boxes_ok_def record_ok_def mine_def lease_of_def split: if_splits)

lemma demo_config_valid: "config_validate \<lparr>target_os = Linux, target_arch = X86_64\<rparr> (demo_config Secure) = Inr ()"
  by (simp add: validate_defs demo_config_def demo_guest_def default_policy_def default_control_def)

lemma even_ids: "range ((*) 2) \<inter> {5} = ({} :: nat set)" "1 \<notin> range (\<lambda>n :: nat. 2 * n)"
  by auto presburger+

theorem box_operations_isolated_witness:
  "box_view decimal (snd (run_op quiet_host (demo_config Secure) (StopBox 3) demo_boxes)) 1 = box_view decimal demo_boxes 1"
  using box_operations_isolated [of quiet_host "{5}" demo_boxes 1 "StopBox 3" "demo_config Secure"] demo_boxes_ok even_ids
  by (simp add: inj_decimal)

theorem untouched_box_unchanged_witness:
  "box_view decimal (snd (run_op quiet_host (demo_config Secure) (StopBox 3) (snd (guest_runs quiet_host 5 demo_boxes)))) 1 =
   box_view decimal demo_boxes 1"
proof -
  have "mine decimal 3 5 demo_boxes" by (simp add: mine_def lease_of_def)
  then have first: "box_run decimal (demo_config Secure) {5} demo_boxes {3} {5} (snd (guest_runs quiet_host 5 demo_boxes))"
    by (intro step_runs_one box_step.guest)
  have "box_step decimal (demo_config Secure) {5} t ({3} \<union> range (\<lambda>n. 2 * n)) ({5} \<union> range (\<lambda>n. 2 * n))
    (snd (run_op quiet_host (demo_config Secure) (StopBox 3) t))" for t :: box_state
    using box_step.operation [of quiet_host decimal "{5}" "demo_config Secure" t "StopBox 3"] even_ids by simp
  from this [of "snd (guest_runs quiet_host 5 demo_boxes)"] step_runs.more [where step = "box_step decimal (demo_config Secure)", OF first]
  have run: "box_run decimal (demo_config Secure) {5} demo_boxes ({3} \<union> range (\<lambda>n. 2 * n)) ({5} \<union> range (\<lambda>n. 2 * n))
    (snd (run_op quiet_host (demo_config Secure) (StopBox 3) (snd (guest_runs quiet_host 5 demo_boxes))))" by fastforce
  show ?thesis by (rule untouched_box_unchanged [OF run demo_boxes_ok inj_decimal]) (use even_ids in simp)
qed

theorem boxes_own_their_sandboxes_witness:
  "\<exists>m. map_of (rt_active demo_boxes) 5 = Some m \<and> lease_workspace_id (ms_workspace m) = decimal 3"
proof -
  have "map_of (box_files demo_boxes) 3 = Some (Intact (demo_box 3 Running (Some 5)))" by simp
  from boxes_own_their_sandboxes [OF step_runs.none demo_boxes_ok inj_decimal this] show ?thesis
    by (simp del: demo_boxes(1))
qed

theorem hydrated_settings_in_bounds_witness:
  "case hydrate_record quiet_host (demo_config Secure) (demo_box 1 Stopped None) demo_boxes of
     (Inr r', t) \<Rightarrow> settings_in_bounds (bx_settings r') \<and> \<not> flag_current (set_network_enabled (bx_settings r'))
   | (Inl (Fail e), t) \<Rightarrow> True
   | (Inl Panic, t) \<Rightarrow> False"
  using hydrated_settings_in_bounds [OF demo_config_valid, where E = quiet_host and r = "demo_box 1 Stopped None" and s = demo_boxes]
  by (auto simp: normalized_def demo_config_def split: prod.splits sum.splits failure.splits)

theorem stop_box_outcome_witness:
  "\<exists>r t. stop_box quiet_host (demo_config Secure) 3 demo_boxes = (Inr r, t) \<and> bx_status r = Stopped \<and> map_of (rt_active t) 5 = None"
proof -
  note sane = sane_defaults_validated [OF demo_config_valid]
  from wp_returns [OF stop_returns [OF sane, of quiet_host demo_boxes 3 "demo_box 3 Running (Some 5)" 5]]
  obtain r t where run: "stop_box quiet_host (demo_config Secure) 3 demo_boxes = (Inr r, t)" by auto
  from stop_box_outcome [OF demo_config_valid run, of "demo_box 3 Running (Some 5)" 5] run show ?thesis by auto
qed

theorem set_box_setting_outcome_witness:
  "case set_box_setting quiet_host (demo_config Secure) 3 (CpuCores 2) demo_boxes of (Inr _, _) \<Rightarrow> False | (Inl _, t) \<Rightarrow> workspaces t = workspaces demo_boxes"
  using set_box_setting_outcome [OF demo_config_valid, of demo_boxes 3 "demo_box 3 Running (Some 5)", where E = quiet_host and v = "CpuCores 2"]
  by (auto split: prod.splits sum.splits)

theorem restart_marks_failed_witness:
  "\<exists>t r'. new_box_service quiet_host (demo_config Secure) demo_boxes = (Inr (), t) \<and>
     map_of (box_files t) 3 = Some (Intact r') \<and> bx_status r' = Failed"
proof -
  from wp_returns [OF restart_returns [OF sane_defaults_validated [OF demo_config_valid], of quiet_host demo_boxes]]
  obtain t where run: "new_box_service quiet_host (demo_config Secure) demo_boxes = (Inr (), t)" by auto
  have "map_of (box_files demo_boxes) 3 = Some (Intact (demo_box 3 Running (Some 5)))" by simp
  with restart_marks_failed [OF demo_config_valid demo_boxes_ok run] have
    "\<exists>r'. map_of (box_files t) 3 = Some (Intact r') \<and> bx_status r' = Failed" by (metis demo_box(2))
  with run show ?thesis by blast
qed

theorem start_box_outcome_witness:
  "case start_box quiet_host (demo_config Secure) 3 demo_boxes of (Inr _, _) \<Rightarrow> False | (Inl _, t) \<Rightarrow> rt_active t = rt_active demo_boxes"
  using start_box_outcome [OF demo_config_valid, of demo_boxes 3 "demo_box 3 Running (Some 5)", where E = quiet_host]
  by (auto split: prod.splits sum.splits)


end
