(* ===== verification/Box_Api.thy ===== *)
theory Box_Api
  imports Box_Properties
begin

text \<open>
  The control plane (\<open>src/box_api\<close>): the messages of the websocket protocol, who may send
  which request, and the server's handling of a connection. A server has many connections;
  each keeps the principal it authenticated as, the shells it opened and, in the model, the
  messages sent to its client.
\<close>

section \<open>Messages (\<open>src/box_api/protocol.rs\<close>)\<close>

datatype interactive_target = Bash | Python

datatype principal = Admin uuid | Box uuid

datatype box_request =
    ReqPing string
  | ReqListBoxes string
  | ReqGetBox string uuid
  | ReqNewBox string "string option"
  | ReqImageBuild string string "string list" "string list" "string list" u64 bool
  | ReqImageList string
  | ReqImageInspect string string
  | ReqImageRemove string string
  | ReqStartBox string uuid
  | ReqStopBox string uuid
  | ReqRemoveBox string uuid
  | ReqSetBoxSetting string uuid box_setting_value
  | ReqExecBash string uuid string "u64 option" "u64 option"
  | ReqExecPython string uuid "string list" "u64 option" "u64 option"
  | ReqOpenShell string uuid interactive_target
  | ReqShellInput string uuid string
  | ReqResizeShell string uuid u16 u16
  | ReqCloseShell string uuid
  | ReqFsList string uuid string
  | ReqFsRead string uuid string u64
  | ReqFsWrite string uuid string string bool
  | ReqFsMkdir string uuid string bool
  | ReqFsRemove string uuid string bool
  | ReqCheckpointCreate string uuid "string option" "(string \<times> string) list"
  | ReqCheckpointList string uuid
  | ReqCheckpointRestore string uuid string restore_mode
  | ReqCheckpointFork string uuid string "string option"
  | ReqCheckpointDelete string uuid string
  | ReqShutdownDaemon string
  | ReqAdminAdd string
  | ReqBoxIssueCredentials string uuid
  | ReqAdminRemoveMe string

fun request_id :: "box_request \<Rightarrow> string" where
  "request_id (ReqPing i) = i" | "request_id (ReqListBoxes i) = i" | "request_id (ReqGetBox i _) = i"
| "request_id (ReqNewBox i _) = i" | "request_id (ReqImageBuild i _ _ _ _ _ _) = i" | "request_id (ReqImageList i) = i"
| "request_id (ReqImageInspect i _) = i" | "request_id (ReqImageRemove i _) = i" | "request_id (ReqStartBox i _) = i"
| "request_id (ReqStopBox i _) = i" | "request_id (ReqRemoveBox i _) = i" | "request_id (ReqSetBoxSetting i _ _) = i"
| "request_id (ReqExecBash i _ _ _ _) = i" | "request_id (ReqExecPython i _ _ _ _) = i" | "request_id (ReqOpenShell i _ _) = i"
| "request_id (ReqShellInput i _ _) = i" | "request_id (ReqResizeShell i _ _ _) = i" | "request_id (ReqCloseShell i _) = i"
| "request_id (ReqFsList i _ _) = i" | "request_id (ReqFsRead i _ _ _) = i" | "request_id (ReqFsWrite i _ _ _ _) = i"
| "request_id (ReqFsMkdir i _ _ _) = i" | "request_id (ReqFsRemove i _ _ _) = i" | "request_id (ReqCheckpointCreate i _ _ _) = i"
| "request_id (ReqCheckpointList i _) = i" | "request_id (ReqCheckpointRestore i _ _ _) = i" | "request_id (ReqCheckpointFork i _ _ _) = i"
| "request_id (ReqCheckpointDelete i _ _) = i" | "request_id (ReqShutdownDaemon i) = i" | "request_id (ReqAdminAdd i) = i"
| "request_id (ReqBoxIssueCredentials i _) = i" | "request_id (ReqAdminRemoveMe i) = i"

datatype box_response =
    Pong
  | BoxList "box_record list"
  | BoxResp box_record
  | BoxRemoved uuid
  | ImageResp vm_image_manifest
  | ImageListResp "vm_image_manifest list"
  | ImageRemoved string
  | Files string "file_node list"
  | FileResp read_file_result
  | CheckpointResp checkpoint_record
  | CheckpointListResp "checkpoint_record list"
  | ShellOpened uuid uuid
  | AdminAdded admin_credential_bundle
  | BoxCredentials box_credential_bundle
  | AckResp

datatype box_event =
    Response string box_response
  | ExecOutput string output_stream string
  | ExecExit string exec_exit
  | ShellOutputEv uuid string
  | ShellExitEv uuid int
  | ErrorEv "string option" string

datatype server_message = Authenticated principal | Event box_event

datatype client_message =
    AuthenticateAdmin uuid string
  | AuthenticateBox uuid string
  | Request box_request

section \<open>State and environment (\<open>src/box_api/server/mod.rs\<close>)\<close>

text \<open>
  A shell entry is the box it belongs to; its handle speaks to the guest of that box.
  \<open>conn_execs\<close>: the forwarding tasks spawned for commands, by request and command id.
\<close>

record connection =
  conn_principal :: "principal option"
  conn_shells :: "(uuid \<times> uuid) list"
  conn_execs :: "(string \<times> uuid) list"
  conn_sent :: "server_message list"

record api_state = box_state +
  conns :: "nat \<Rightarrow> connection"
  server_shutdown :: bool

record image_build_spec =
  bs_state_dir :: string
  bs_name :: string
  bs_apk :: "string list"
  bs_pip :: "string list"
  bs_npm :: "string list"
  bs_min_image_mib :: u64
  bs_force_refresh :: bool
  bs_base_guest :: guest_config

text \<open>
  \<open>build_at\<close> and \<open>build_effect_at\<close>: the result of an image build and what it leaves in the image
  directory (manifests and files).
\<close>

record api_env = box_env +
  api_wire :: wire
  build_at :: "nat \<Rightarrow> image_build_spec \<Rightarrow> vm_image_manifest result"
  build_effect_at :: "nat \<Rightarrow> image_build_spec \<Rightarrow> (string \<times> vm_image_manifest json_file option) list \<times> string set \<Rightarrow>
    (string \<times> vm_image_manifest json_file option) list \<times> string set"

record api_config =
  api_runtime :: runtime_config
  api_base_guest :: guest_config
  api_endpoint :: string
  api_admin_path :: string
  api_box_path :: string

definition new_connection :: connection where
  "new_connection = \<lparr>conn_principal = None, conn_shells = [], conn_execs = [], conn_sent = []\<rparr>"

definition upd_conn :: "nat \<Rightarrow> (connection \<Rightarrow> connection) \<Rightarrow> 'z api_state_scheme \<Rightarrow> 'z api_state_scheme" where
  "upd_conn k f s = s\<lparr>conns := (conns s)(k := f (conns s k))\<rparr>"

definition send_server_message :: "'e env_scheme \<Rightarrow> nat \<Rightarrow> server_message \<Rightarrow> ('z api_state_scheme, unit) io" where
  "send_server_message E k m =
     seqE (sys_json E ''encoding box api server message'')
     (seqE (sys_backend E ''sending box api message'')
       (modifyE (upd_conn k (\<lambda>c. c\<lparr>conn_sent := conn_sent c @ [m]\<rparr>))))"

definition send_event :: "'e env_scheme \<Rightarrow> nat \<Rightarrow> box_event \<Rightarrow> ('z api_state_scheme, unit) io" where
  "send_event E k e = send_server_message E k (Event e)"

definition set_principal :: "nat \<Rightarrow> principal \<Rightarrow> ('z api_state_scheme, unit) io" where
  "set_principal k p = modifyE (upd_conn k (\<lambda>c. c\<lparr>conn_principal := Some p\<rparr>))"

text \<open>Both return whether the connection is to be closed.\<close>

definition authenticate_admin :: "'e env_scheme \<Rightarrow> api_config \<Rightarrow> nat \<Rightarrow> uuid \<Rightarrow> string \<Rightarrow> ('z api_state_scheme, bool) io" where
  "authenticate_admin E A k u token =
     bindE (admin_authenticate E (api_admin_path A) u token) (\<lambda>ok.
       if ok then
         seqE (set_principal k (Admin u))
         (seqE (send_server_message E k (Authenticated (Admin u)))
           (returnE False))
       else seqE (send_event E k (ErrorEv None ''authentication failed'')) (returnE True))"

definition authenticate_box :: "'e env_scheme \<Rightarrow> api_config \<Rightarrow> nat \<Rightarrow> uuid \<Rightarrow> string \<Rightarrow> ('z api_state_scheme, bool) io" where
  "authenticate_box E A k b token =
     bindE (box_authenticate E (api_box_path A) b token) (\<lambda>ok.
       if \<not> ok then seqE (send_event E k (ErrorEv None ''authentication failed'')) (returnE True)
       else
         seqE (set_principal k (Box b))
         (seqE (send_server_message E k (Authenticated (Box b)))
           (returnE False)))"

section \<open>Who may do what (\<open>src/box_api/server/dispatch/access.rs\<close>)\<close>

definition send_response :: "'e env_scheme \<Rightarrow> nat \<Rightarrow> string \<Rightarrow> box_response \<Rightarrow> ('z api_state_scheme, unit) io" where
  "send_response E k i r = send_event E k (Response i r)"

fun require_admin :: "principal \<Rightarrow> uuid result" where
  "require_admin (Admin u) = Inr u"
| "require_admin (Box b) = Inl (Conflict ''admin authentication required for this websocket command'')"

fun authorize_box :: "'e env_scheme \<Rightarrow> principal \<Rightarrow> uuid \<Rightarrow> unit result" where
  "authorize_box E (Admin u) b = Inr ()"
| "authorize_box E (Box p) b =
     (if p = b then Inr ()
      else Inl (Conflict (''box-authenticated connection for '' @ uuid_string E p @ '' cannot access BOX '' @ uuid_string E b)))"

section \<open>Commands and shells (\<open>src/box_api/server/execution.rs\<close>)\<close>

definition python_exec :: "string list \<Rightarrow> u64 option \<Rightarrow> u64 option \<Rightarrow> exec_request" where
  "python_exec args timeout_ms kill_grace_ms =
     \<lparr>ex_program = ''/usr/bin/env'', ex_args = ''python3'' # args, ex_env = [], ex_cwd = ''/workspace'',
      ex_timeout_ms = timeout_ms, ex_kill_grace_ms = unwrap_or kill_grace_ms 250\<rparr>"

text \<open>The request of an \<open>ExecBash\<close> command (\<open>dispatch.rs\<close>).\<close>

definition bash_exec :: "string \<Rightarrow> u64 option \<Rightarrow> u64 option \<Rightarrow> exec_request" where
  "bash_exec command timeout_ms kill_grace_ms = (let r = (exec_shell command)\<lparr>ex_timeout_ms := timeout_ms\<rparr> in
     case kill_grace_ms of Some g \<Rightarrow> r\<lparr>ex_kill_grace_ms := g\<rparr> | None \<Rightarrow> r)"

fun shell_request_for :: "interactive_target \<Rightarrow> shell_request" where
  "shell_request_for Bash = default_shell_request"
| "shell_request_for Python =
     \<lparr>sh_program = ''/usr/bin/env'', sh_args = [''python3'', ''-i''],
      sh_env = bt_of_list [(''TERM'', ''dumb''), (''PYTHONUNBUFFERED'', ''1'')], sh_cwd = ''/workspace''\<rparr>"

definition shell_handle :: "'e env_scheme \<Rightarrow> nat \<Rightarrow> principal \<Rightarrow> uuid \<Rightarrow> ('z api_state_scheme, uuid) io" where
  "shell_handle E k p shell_id =
     bindE (getE (\<lambda>s. map_of (conn_shells (conns s k)) shell_id)) (\<lambda>entry. case entry of
       None \<Rightarrow> throwE (InvalidConfig (''unknown shell session '' @ uuid_string E shell_id))
     | Some b \<Rightarrow> seqE (liftE (authorize_box E p b)) (returnE b))"

definition remove_shell :: "'e env_scheme \<Rightarrow> nat \<Rightarrow> principal \<Rightarrow> uuid \<Rightarrow> ('z api_state_scheme, uuid option) io" where
  "remove_shell E k p shell_id =
     bindE (getE (\<lambda>s. map_of (conn_shells (conns s k)) shell_id)) (\<lambda>entry.
     seqE (case entry of Some b \<Rightarrow> liftE (authorize_box E p b) | None \<Rightarrow> returnE ())
     (seqE (modifyE (upd_conn k (\<lambda>c. c\<lparr>conn_shells := AList.delete shell_id (conn_shells c)\<rparr>)))
       (returnE entry)))"

text \<open>The task that forwards the events of a command: until its exit, the end of the stream or a failing send.\<close>

fun spawn_exec_stream :: "'e api_env_scheme \<Rightarrow> nat \<Rightarrow> string \<Rightarrow> execution_event list \<Rightarrow> ('z api_state_scheme, unit) io" where
  "spawn_exec_stream E k i [] = returnE ()"
| "spawn_exec_stream E k i (Output st d # evs) =
     bindE (tryE (send_event E k (ExecOutput i st (b64_encode (api_wire E) d)))) (\<lambda>res. case res of
       Inl _ \<Rightarrow> returnE ()
     | Inr _ \<Rightarrow> spawn_exec_stream E k i evs)"
| "spawn_exec_stream E k i (Exit status # evs) =
     seqE (tryE (send_event E k (ExecExit i status))) (returnE ())"

definition send_shell_event :: "'e api_env_scheme \<Rightarrow> nat \<Rightarrow> uuid \<Rightarrow> u8 list \<Rightarrow> ('z api_state_scheme, unit) io" where
  "send_shell_event E k shell_id bytes = send_event E k (ShellOutputEv shell_id (b64_encode (api_wire E) bytes))"

text \<open>The task that forwards the events of a shell (\<open>dispatch.rs\<close>).\<close>

fun forward_shell :: "'e api_env_scheme \<Rightarrow> nat \<Rightarrow> uuid \<Rightarrow> shell_event list \<Rightarrow> ('z api_state_scheme, unit) io" where
  "forward_shell E k u [] = returnE ()"
| "forward_shell E k u (ShellStarted # evs) = forward_shell E k u evs"
| "forward_shell E k u (ShellOutput bytes # evs) =
     bindE (tryE (send_shell_event E k u bytes)) (\<lambda>res. case res of
       Inl _ \<Rightarrow> returnE ()
     | Inr _ \<Rightarrow> forward_shell E k u evs)"
| "forward_shell E k u (ShellExit code # evs) =
     seqE (modifyE (upd_conn k (\<lambda>c. c\<lparr>conn_shells := AList.delete u (conn_shells c)\<rparr>)))
     (seqE (tryE (send_event E k (ShellExitEv u code))) (returnE ()))"

definition api_decode_bytes :: "'e api_env_scheme \<Rightarrow> string \<Rightarrow> string \<Rightarrow> u8 list result" where
  "api_decode_bytes E ctx v = (case b64_decode (api_wire E) v of
     Inl error \<Rightarrow> Inl (Protocol (ctx @ '': '' @ error))
   | Inr d \<Rightarrow> Inr d)"

text \<open>A call through the handle of a shell of box \<open>b\<close>.\<close>

definition shell_call :: "'e guest_env_scheme \<Rightarrow> uuid \<Rightarrow> guest_call \<Rightarrow> ('z store_files_scheme, unit) io" where
  "shell_call E b c = rpc_call E (uuid_string E b) c expect_ack"

section \<open>Checkpoint requests (\<open>src/box_api/server/checkpoints.rs\<close>)\<close>

definition api_create_checkpoint :: "'e box_env_scheme \<Rightarrow> runtime_config \<Rightarrow> nat \<Rightarrow> principal \<Rightarrow> string \<Rightarrow> uuid \<Rightarrow> string option \<Rightarrow>
    (string \<times> string) list \<Rightarrow> ('z api_state_scheme, unit) io" where
  "api_create_checkpoint E C k p i b name metadata =
     seqE (liftE (authorize_box E p b))
     (bindE (checkpoint_create E C b name metadata) (\<lambda>c. send_response E k i (CheckpointResp c)))"

definition api_list_checkpoints :: "'e box_env_scheme \<Rightarrow> runtime_config \<Rightarrow> nat \<Rightarrow> principal \<Rightarrow> string \<Rightarrow> uuid \<Rightarrow> ('z api_state_scheme, unit) io" where
  "api_list_checkpoints E C k p i b =
     seqE (liftE (authorize_box E p b))
     (bindE (checkpoint_list E C b) (\<lambda>cs. send_response E k i (CheckpointListResp cs)))"

definition api_restore_checkpoint :: "'e box_env_scheme \<Rightarrow> runtime_config \<Rightarrow> nat \<Rightarrow> principal \<Rightarrow> string \<Rightarrow> uuid \<Rightarrow> string \<Rightarrow>
    restore_mode \<Rightarrow> ('z api_state_scheme, unit) io" where
  "api_restore_checkpoint E C k p i b c mode =
     seqE (liftE (authorize_box E p b))
     (bindE (checkpoint_restore E C b c mode) (\<lambda>r. send_response E k i (CheckpointResp r)))"

definition api_fork_checkpoint :: "'e box_env_scheme \<Rightarrow> runtime_config \<Rightarrow> nat \<Rightarrow> principal \<Rightarrow> string \<Rightarrow> uuid \<Rightarrow> string \<Rightarrow>
    string option \<Rightarrow> ('z api_state_scheme, unit) io" where
  "api_fork_checkpoint E C k p i b c name =
     seqE (liftE (require_admin p))
     (bindE (checkpoint_fork E C b c name) (\<lambda>r. send_response E k i (BoxResp r)))"

definition api_delete_checkpoint :: "'e box_env_scheme \<Rightarrow> runtime_config \<Rightarrow> nat \<Rightarrow> principal \<Rightarrow> string \<Rightarrow> uuid \<Rightarrow> string \<Rightarrow>
    ('z api_state_scheme, unit) io" where
  "api_delete_checkpoint E C k p i b c =
     seqE (liftE (authorize_box E p b))
     (seqE (checkpoint_delete E C b c) (send_response E k i AckResp))"

section \<open>Image requests (\<open>src/box_api/server/dispatch/images.rs\<close>)\<close>

definition build_image :: "'e api_env_scheme \<Rightarrow> api_config \<Rightarrow> nat \<Rightarrow> string \<Rightarrow> string \<Rightarrow> string list \<Rightarrow> string list \<Rightarrow> string list \<Rightarrow>
    u64 \<Rightarrow> bool \<Rightarrow> ('z api_state_scheme, unit) io" where
  "build_image E A k i name apk pip npm min_image_mib force_refresh =
     (let spec = \<lparr>bs_state_dir = cfg_state_dir (api_runtime A), bs_name = name, bs_apk = apk, bs_pip = pip, bs_npm = npm,
                  bs_min_image_mib = min_image_mib, bs_force_refresh = force_refresh, bs_base_guest = api_base_guest A\<rparr> in
      bindE (ask (build_effect_at E)) (\<lambda>effect.
      seqE (modifyE (\<lambda>s. s\<lparr>images := fst (effect spec (images s, regular_files s)),
                           regular_files := snd (effect spec (images s, regular_files s))\<rparr>))
      (seqE (sys_backend E ''joining image build'')
      (bindE (ask (build_at E)) (\<lambda>build.
      bindE (liftE (build spec)) (\<lambda>img.
        send_response E k i (ImageResp img)))))))"

definition list_images :: "'e api_env_scheme \<Rightarrow> api_config \<Rightarrow> nat \<Rightarrow> string \<Rightarrow> ('z api_state_scheme, unit) io" where
  "list_images E A k i = bindE (image_list E (cfg_state_dir (api_runtime A))) (\<lambda>imgs. send_response E k i (ImageListResp imgs))"

definition inspect_image :: "'e api_env_scheme \<Rightarrow> api_config \<Rightarrow> nat \<Rightarrow> string \<Rightarrow> string \<Rightarrow> ('z api_state_scheme, unit) io" where
  "inspect_image E A k i name = bindE (image_inspect E (cfg_state_dir (api_runtime A)) name) (\<lambda>img. send_response E k i (ImageResp img))"

definition remove_image :: "'e api_env_scheme \<Rightarrow> api_config \<Rightarrow> nat \<Rightarrow> string \<Rightarrow> string \<Rightarrow> ('z api_state_scheme, unit) io" where
  "remove_image E A k i name = seqE (image_remove E (cfg_state_dir (api_runtime A)) name) (send_response E k i (ImageRemoved name))"

fun dispatch_image_request :: "'e api_env_scheme \<Rightarrow> api_config \<Rightarrow> nat \<Rightarrow> box_request \<Rightarrow> ('z api_state_scheme, unit) io" where
  "dispatch_image_request E A k (ReqImageBuild i name apk pip npm mib force) = build_image E A k i name apk pip npm mib force"
| "dispatch_image_request E A k (ReqImageList i) = list_images E A k i"
| "dispatch_image_request E A k (ReqImageInspect i name) = inspect_image E A k i name"
| "dispatch_image_request E A k (ReqImageRemove i name) = remove_image E A k i name"
| "dispatch_image_request E A k _ = panicE"

section \<open>Dispatch (\<open>src/box_api/server/dispatch.rs\<close>)\<close>

datatype connection_action = KeepOpen | Close | ShutdownServer

definition keep_open :: "('s, unit) io \<Rightarrow> ('s, connection_action) io" where
  "keep_open m = seqE m (returnE KeepOpen)"

definition dispatch_exec :: "'e api_env_scheme \<Rightarrow> api_config \<Rightarrow> nat \<Rightarrow> principal \<Rightarrow> string \<Rightarrow> uuid \<Rightarrow> exec_request \<Rightarrow>
    ('z api_state_scheme, unit) io" where
  "dispatch_exec E A k p i b request =
     seqE (liftE (authorize_box E p b))
     (bindE (box_exec E (api_runtime A) b request) (\<lambda>(u, _).
       modifyE (upd_conn k (\<lambda>c. c\<lparr>conn_execs := conn_execs c @ [(i, u)]\<rparr>))))"

definition dispatch_open_shell :: "'e api_env_scheme \<Rightarrow> api_config \<Rightarrow> nat \<Rightarrow> principal \<Rightarrow> string \<Rightarrow> uuid \<Rightarrow> interactive_target \<Rightarrow>
    ('z api_state_scheme, unit) io" where
  "dispatch_open_shell E A k p i b target =
     seqE (liftE (authorize_box E p b))
     (bindE (box_open_shell E (api_runtime A) b (shell_request_for target)) (\<lambda>shell_id.
     seqE (modifyE (upd_conn k (\<lambda>c. c\<lparr>conn_shells := AList.update shell_id b (conn_shells c)\<rparr>)))
       (send_response E k i (ShellOpened shell_id b))))"

definition dispatch_issue :: "'e api_env_scheme \<Rightarrow> api_config \<Rightarrow> nat \<Rightarrow> principal \<Rightarrow> string \<Rightarrow> uuid \<Rightarrow> ('z api_state_scheme, unit) io" where
  "dispatch_issue E A k p i b =
     seqE (liftE (require_admin p))
     (bindE (list_boxes E (api_runtime A)) (\<lambda>boxes.
       if \<not> list_ex (\<lambda>r. bx_box_id r = b) boxes then throwE (unknown_box E b)
       else bindE (box_issue E (api_box_path A) (api_endpoint A) b) (\<lambda>bundle.
         send_response E k i (BoxCredentials bundle))))"

fun dispatch_request :: "'e api_env_scheme \<Rightarrow> api_config \<Rightarrow> nat \<Rightarrow> principal \<Rightarrow> box_request \<Rightarrow> ('z api_state_scheme, connection_action) io" where
  "dispatch_request E A k p (ReqPing i) = keep_open (send_response E k i Pong)"
| "dispatch_request E A k p (ReqListBoxes i) = keep_open (seqE (liftE (require_admin p))
     (bindE (list_boxes E (api_runtime A)) (\<lambda>boxes. send_response E k i (BoxList boxes))))"
| "dispatch_request E A k p (ReqGetBox i b) = keep_open (seqE (liftE (authorize_box E p b))
     (bindE (get_box E (api_runtime A) b) (\<lambda>r. send_response E k i (BoxResp r))))"
| "dispatch_request E A k p (ReqNewBox i img) = keep_open (seqE (liftE (require_admin p))
     (bindE (create_box_from_image E (api_runtime A) img) (\<lambda>r. send_response E k i (BoxResp r))))"
| "dispatch_request E A k p (ReqImageBuild i name apk pip npm mib force) = keep_open (seqE (liftE (require_admin p))
     (dispatch_image_request E A k (ReqImageBuild i name apk pip npm mib force)))"
| "dispatch_request E A k p (ReqImageList i) = keep_open (seqE (liftE (require_admin p))
     (dispatch_image_request E A k (ReqImageList i)))"
| "dispatch_request E A k p (ReqImageInspect i name) = keep_open (seqE (liftE (require_admin p))
     (dispatch_image_request E A k (ReqImageInspect i name)))"
| "dispatch_request E A k p (ReqImageRemove i name) = keep_open (seqE (liftE (require_admin p))
     (dispatch_image_request E A k (ReqImageRemove i name)))"
| "dispatch_request E A k p (ReqStartBox i b) = keep_open (seqE (liftE (require_admin p))
     (bindE (start_box E (api_runtime A) b) (\<lambda>r. send_response E k i (BoxResp r))))"
| "dispatch_request E A k p (ReqStopBox i b) = keep_open (seqE (liftE (require_admin p))
     (bindE (stop_box E (api_runtime A) b) (\<lambda>r. send_response E k i (BoxResp r))))"
| "dispatch_request E A k p (ReqRemoveBox i b) = keep_open (seqE (liftE (require_admin p))
     (seqE (remove_box E (api_runtime A) b) (send_response E k i (BoxRemoved b))))"
| "dispatch_request E A k p (ReqSetBoxSetting i b v) = keep_open (seqE (liftE (require_admin p))
     (bindE (set_box_setting E (api_runtime A) b v) (\<lambda>r. send_response E k i (BoxResp r))))"
| "dispatch_request E A k p (ReqExecBash i b command timeout grace) =
     keep_open (dispatch_exec E A k p i b (bash_exec command timeout grace))"
| "dispatch_request E A k p (ReqExecPython i b args timeout grace) =
     keep_open (dispatch_exec E A k p i b (python_exec args timeout grace))"
| "dispatch_request E A k p (ReqOpenShell i b target) = keep_open (dispatch_open_shell E A k p i b target)"
| "dispatch_request E A k p (ReqShellInput i u data) = keep_open
     (bindE (shell_handle E k p u) (\<lambda>b.
      bindE (liftE (api_decode_bytes E ''invalid shell input payload'' data)) (\<lambda>bytes.
      seqE (shell_call E b (CInput u bytes)) (send_response E k i AckResp))))"
| "dispatch_request E A k p (ReqResizeShell i u cols rows) = keep_open
     (bindE (shell_handle E k p u) (\<lambda>b.
      seqE (shell_call E b (CResize u cols rows)) (send_response E k i AckResp)))"
| "dispatch_request E A k p (ReqCloseShell i u) = keep_open
     (bindE (remove_shell E k p u) (\<lambda>entry.
      seqE (case entry of Some b \<Rightarrow> shell_call E b (CClose u) | None \<Rightarrow> returnE ())
        (send_response E k i AckResp)))"
| "dispatch_request E A k p (ReqFsList i b path) = keep_open (seqE (liftE (authorize_box E p b))
     (bindE (box_list_files E (api_runtime A) b path) (\<lambda>entries. send_response E k i (Files path entries))))"
| "dispatch_request E A k p (ReqFsRead i b path limit) = keep_open (seqE (liftE (authorize_box E p b))
     (bindE (liftE (validate_read_limit limit)) (\<lambda>n.
      bindE (box_read_file E (api_runtime A) b path n) (\<lambda>file. send_response E k i (FileResp file)))))"
| "dispatch_request E A k p (ReqFsWrite i b path data parents) = keep_open (seqE (liftE (authorize_box E p b))
     (bindE (liftE (api_decode_bytes E ''invalid file payload'' data)) (\<lambda>bytes.
      seqE (box_write_file E (api_runtime A) b path bytes parents) (send_response E k i AckResp))))"
| "dispatch_request E A k p (ReqFsMkdir i b path recursive) = keep_open (seqE (liftE (authorize_box E p b))
     (seqE (box_make_dir E (api_runtime A) b path recursive) (send_response E k i AckResp)))"
| "dispatch_request E A k p (ReqFsRemove i b path recursive) = keep_open (seqE (liftE (authorize_box E p b))
     (seqE (box_remove_path E (api_runtime A) b path recursive) (send_response E k i AckResp)))"
| "dispatch_request E A k p (ReqCheckpointCreate i b name metadata) =
     keep_open (api_create_checkpoint E (api_runtime A) k p i b name metadata)"
| "dispatch_request E A k p (ReqCheckpointList i b) = keep_open (api_list_checkpoints E (api_runtime A) k p i b)"
| "dispatch_request E A k p (ReqCheckpointRestore i b c mode) =
     keep_open (api_restore_checkpoint E (api_runtime A) k p i b c mode)"
| "dispatch_request E A k p (ReqCheckpointFork i b c name) = keep_open (api_fork_checkpoint E (api_runtime A) k p i b c name)"
| "dispatch_request E A k p (ReqCheckpointDelete i b c) = keep_open (api_delete_checkpoint E (api_runtime A) k p i b c)"
| "dispatch_request E A k p (ReqShutdownDaemon i) =
     seqE (liftE (require_admin p))
     (seqE (shutdown_daemon E (api_runtime A))
     (seqE (send_response E k i AckResp)
       (returnE ShutdownServer)))"
| "dispatch_request E A k p (ReqAdminAdd i) = keep_open (seqE (liftE (require_admin p))
     (bindE (admin_add_admin E (api_admin_path A) (api_endpoint A)) (\<lambda>bundle. send_response E k i (AdminAdded bundle))))"
| "dispatch_request E A k p (ReqBoxIssueCredentials i b) = keep_open (dispatch_issue E A k p i b)"
| "dispatch_request E A k p (ReqAdminRemoveMe i) =
     bindE (liftE (require_admin p)) (\<lambda>u.
     seqE (admin_remove_admin E (api_admin_path A) u)
     (seqE (send_response E k i AckResp)
       (returnE Close)))"

section \<open>A connection (\<open>src/box_api/server/mod.rs\<close>)\<close>

text \<open>Handling one message; the result says whether the connection is to be closed.\<close>

definition handle_request :: "'e api_env_scheme \<Rightarrow> api_config \<Rightarrow> nat \<Rightarrow> box_request \<Rightarrow> ('z api_state_scheme, bool) io" where
  "handle_request E A k r =
     bindE (getE (\<lambda>s. conn_principal (conns s k))) (\<lambda>principal. case principal of
       None \<Rightarrow> seqE (send_event E k (ErrorEv (Some (request_id r)) ''authentication required'')) (returnE False)
     | Some p \<Rightarrow> bindE (tryE (dispatch_request E A k p r)) (\<lambda>res. case res of
         Inr KeepOpen \<Rightarrow> returnE False
       | Inr Close \<Rightarrow> returnE True
       | Inr ShutdownServer \<Rightarrow> seqE (modifyE (\<lambda>s. s\<lparr>server_shutdown := True\<rparr>)) (returnE True)
       | Inl error \<Rightarrow> seqE (send_event E k (ErrorEv (Some (request_id r)) (display error))) (returnE False)))"

fun handle_message :: "'e api_env_scheme \<Rightarrow> api_config \<Rightarrow> nat \<Rightarrow> client_message \<Rightarrow> ('z api_state_scheme, bool) io" where
  "handle_message E A k (AuthenticateAdmin u token) = authenticate_admin E A k u token"
| "handle_message E A k (AuthenticateBox b token) = authenticate_box E A k b token"
| "handle_message E A k (Request r) = handle_request E A k r"

text \<open>
  What the loop waits for: a text message (\<open>Inl\<close> when it is no client message), a close frame,
  a frame of another kind, a failing read, or the shutdown signal. The end of the list is the
  end of the stream.
\<close>

datatype frame = TextFrame "string + client_message" | CloseFrame | OtherFrame | ReadFailed string | ShutdownSignal

fun connection_loop :: "'e api_env_scheme \<Rightarrow> api_config \<Rightarrow> nat \<Rightarrow> frame list \<Rightarrow> ('z api_state_scheme, unit) io" where
  "connection_loop E A k [] = returnE ()"
| "connection_loop E A k (ShutdownSignal # fs) = returnE ()"
| "connection_loop E A k (ReadFailed error # fs) = throwE (Backend (''reading box api websocket: '' @ error))"
| "connection_loop E A k (TextFrame (Inl error) # fs) = throwE (Json ''decoding box api request'' error)"
| "connection_loop E A k (TextFrame (Inr m) # fs) =
     bindE (handle_message E A k m) (\<lambda>should_close. if should_close then returnE () else connection_loop E A k fs)"
| "connection_loop E A k (CloseFrame # fs) = returnE ()"
| "connection_loop E A k (OtherFrame # fs) = connection_loop E A k fs"

definition close_shells :: "'e api_env_scheme \<Rightarrow> nat \<Rightarrow> ('z api_state_scheme, unit) io" where
  "close_shells E k =
     bindE (getE (\<lambda>s. conn_shells (conns s k))) (\<lambda>shells.
     seqE (modifyE (upd_conn k (\<lambda>c. c\<lparr>conn_shells := []\<rparr>)))
       (forE shells (\<lambda>(u, b). seqE (tryE (shell_call E b (CClose u))) (returnE ()))))"

definition handle_connection :: "'e api_env_scheme \<Rightarrow> api_config \<Rightarrow> nat \<Rightarrow> frame list \<Rightarrow> ('z api_state_scheme, unit) io" where
  "handle_connection E A k frames =
     seqE (sys_backend E ''accepting box api websocket'')
     (seqE (modifyE (upd_conn k (\<lambda>_. new_connection)))
     (seqE (connection_loop E A k frames)
       (close_shells E k)))"

end
