(* ===== verification/Cli_Args.thy ===== *)
theory Cli_Args
  imports Box_Api
begin

text \<open>
  The command line of the \<open>sagens\<close> program (\<open>src/sagens/args\<close>): the commands, the topics of the
  help, and the parser from the list of arguments to a command or an error message. Reading
  the text of a UUID belongs to a third-party crate and is a parameter.
\<close>

section \<open>Commands (\<open>args/mod.rs\<close>)\<close>

datatype help_topic = HtRoot | HtStart | HtQuit | HtUpdate | HtDaemon | HtDaemonLog | HtAdmin
    | HtAdminAdd | HtAdminRemoveMe | HtBox | HtBoxList | HtBoxNew | HtImage | HtImageBuild | HtImageList
    | HtImageInspect | HtImageRemove | HtBoxStart | HtBoxStop | HtBoxRemove | HtBoxSet | HtBoxExec
    | HtBoxFs | HtBoxFsList | HtBoxFsUpload | HtBoxFsDownload | HtBoxCheckpoint | HtBoxCheckpointCreate
    | HtBoxCheckpointList | HtBoxCheckpointRestore | HtBoxCheckpointFork | HtBoxCheckpointDelete

datatype admin_command = AdminAdd | AdminRemoveMe

record daemon_log_command =
  dl_tail :: "u64 option"
  dl_follow :: bool

datatype daemon_command = DaemonRun | DaemonLog daemon_log_command

record image_build_command =
  ibc_name :: string
  ibc_apk :: "string list"
  ibc_pip :: "string list"
  ibc_npm :: "string list"
  ibc_min_image_mib :: u64
  ibc_force_refresh :: bool

datatype image_command = ImageBuild image_build_command | ImageList | ImageInspect string | ImageRemove string

datatype exec_target = ExecBash string | ExecPython "string list" | ExecInteractive interactive_target

datatype fs_command = FsList uuid string | FsUpload uuid string string | FsDownload uuid string string

datatype checkpoint_command =
    CheckpointCreate uuid "string option" "(string \<times> string) list"
  | CheckpointList uuid
  | CheckpointRestore uuid string restore_mode
  | CheckpointFork uuid string "string option"
  | CheckpointDelete uuid string

datatype box_command =
    BoxList | BoxNew "string option" | BoxStart uuid | BoxStop uuid | BoxRemove uuid
  | BoxSet "uuid option" box_setting_value
  | BoxExec uuid exec_target
  | BoxFs fs_command
  | BoxCheckpoint checkpoint_command

datatype command =
    CmdHelp help_topic | CmdStart | CmdQuit | CmdUpdate
  | CmdDaemon daemon_command | CmdAdmin admin_command | CmdImage image_command | CmdBox box_command

text \<open>\<open>Uuid::parse_str\<close> and \<open>Uuid::to_string\<close>.\<close>

record uuid_text =
  uuid_parse :: "string \<Rightarrow> string + uuid"
  uuid_show :: "uuid \<Rightarrow> string"

section \<open>Help (\<open>args/help.rs\<close>)\<close>

fun render_usage_hint :: "help_topic \<Rightarrow> string" where
  "render_usage_hint HtRoot = ''usage: sagens <command> [args]''"
| "render_usage_hint HtStart = ''usage: sagens start''"
| "render_usage_hint HtQuit = ''usage: sagens quit''"
| "render_usage_hint HtUpdate = ''usage: sagens update''"
| "render_usage_hint HtDaemon = ''usage: sagens daemon [log [--tail LINES] [--follow]]''"
| "render_usage_hint HtDaemonLog = ''usage: sagens daemon log [--tail LINES] [--follow]''"
| "render_usage_hint HtAdmin = ''usage: sagens admin <add|remove me>''"
| "render_usage_hint HtAdminAdd = ''usage: sagens admin add''"
| "render_usage_hint HtAdminRemoveMe = ''usage: sagens admin remove me''"
| "render_usage_hint HtImage = ''usage: sagens image <build|list|inspect|rm>''"
| "render_usage_hint HtImageBuild = ''usage: sagens image build <NAME> [--apk PKG]... [--pip REQ]... [--npm PKG]... [--min-image-mib N] [--force-refresh]''"
| "render_usage_hint HtImageList = ''usage: sagens image list''"
| "render_usage_hint HtImageInspect = ''usage: sagens image inspect <NAME>''"
| "render_usage_hint HtImageRemove = ''usage: sagens image rm <NAME>''"
| "render_usage_hint HtBox = ''usage: sagens box <list|new|start|stop|rm|set|exec|fs|checkpoint>''"
| "render_usage_hint HtBoxList = ''usage: sagens box list''"
| "render_usage_hint HtBoxNew = ''usage: sagens box new [--image NAME]''"
| "render_usage_hint HtBoxStart = ''usage: sagens box start <BOX_ID>''"
| "render_usage_hint HtBoxStop = ''usage: sagens box stop <BOX_ID>''"
| "render_usage_hint HtBoxRemove = ''usage: sagens box rm <BOX_ID>''"
| "render_usage_hint HtBoxSet = ''usage: sagens box set [BOX_ID] <setting> <value>''"
| "render_usage_hint HtBoxExec = ''usage: sagens box exec [-i] <BOX_ID> <bash|python> [args...]''"
| "render_usage_hint HtBoxFs = ''usage: sagens box fs <BOX_ID> <ls|upload|download> ...''"
| "render_usage_hint HtBoxFsList = ''usage: sagens box fs <BOX_ID> ls [PATH]''"
| "render_usage_hint HtBoxFsUpload = ''usage: sagens box fs <BOX_ID> upload <LOCAL_PATH> <REMOTE_PATH>''"
| "render_usage_hint HtBoxFsDownload = ''usage: sagens box fs <BOX_ID> download <REMOTE_PATH> <LOCAL_PATH>''"
| "render_usage_hint HtBoxCheckpoint = ''usage: sagens box checkpoint <create|list|restore|fork|delete> <BOX_ID> ...''"
| "render_usage_hint HtBoxCheckpointCreate = ''usage: sagens box checkpoint create <BOX_ID> [--name NAME] [--meta KEY=VALUE]...''"
| "render_usage_hint HtBoxCheckpointList = ''usage: sagens box checkpoint list <BOX_ID>''"
| "render_usage_hint HtBoxCheckpointRestore = ''usage: sagens box checkpoint restore <BOX_ID> <CHECKPOINT_ID> [--mode rollback|replace]''"
| "render_usage_hint HtBoxCheckpointFork = ''usage: sagens box checkpoint fork <BOX_ID> <CHECKPOINT_ID> [--name NAME]''"
| "render_usage_hint HtBoxCheckpointDelete = ''usage: sagens box checkpoint delete <BOX_ID> <CHECKPOINT_ID>''"

definition short_usage :: string where
  "short_usage = ''usage: sagens <start|quit|update|daemon|admin|image|box> [args]''"

fun join_space :: "string list \<Rightarrow> string" where
  "join_space [] = []"
| "join_space [w] = w"
| "join_space (w # ws) = w @ '' '' @ join_space ws"

definition parse_help_topic :: "string list \<Rightarrow> help_topic result" where
  "parse_help_topic values =
    (if values = [] then Inr HtRoot
     else if values = [''start''] then Inr HtStart
     else if values = [''quit''] then Inr HtQuit
     else if values = [''update''] then Inr HtUpdate
     else if values = [''daemon''] then Inr HtDaemon
     else if values = [''daemon'', ''log''] then Inr HtDaemonLog
     else if values = [''admin''] then Inr HtAdmin
     else if values = [''admin'', ''add''] then Inr HtAdminAdd
     else if values = [''admin'', ''remove'', ''me''] then Inr HtAdminRemoveMe
     else if values = [''image''] then Inr HtImage
     else if values = [''image'', ''build''] then Inr HtImageBuild
     else if values = [''image'', ''list''] then Inr HtImageList
     else if values = [''image'', ''inspect''] then Inr HtImageInspect
     else if values = [''image'', ''rm''] then Inr HtImageRemove
     else if values = [''box''] then Inr HtBox
     else if values = [''box'', ''list''] \<or> values = [''box'', ''ps''] then Inr HtBoxList
     else if values = [''box'', ''new''] then Inr HtBoxNew
     else if values = [''box'', ''start''] then Inr HtBoxStart
     else if values = [''box'', ''stop''] then Inr HtBoxStop
     else if values = [''box'', ''rm''] then Inr HtBoxRemove
     else if values = [''box'', ''set''] then Inr HtBoxSet
     else if values = [''box'', ''exec''] then Inr HtBoxExec
     else if values = [''box'', ''fs''] then Inr HtBoxFs
     else if values = [''box'', ''fs'', ''ls''] then Inr HtBoxFsList
     else if values = [''box'', ''fs'', ''upload''] then Inr HtBoxFsUpload
     else if values = [''box'', ''fs'', ''download''] then Inr HtBoxFsDownload
     else if values = [''box'', ''checkpoint''] then Inr HtBoxCheckpoint
     else if values = [''box'', ''checkpoint'', ''create''] then Inr HtBoxCheckpointCreate
     else if values = [''box'', ''checkpoint'', ''list''] then Inr HtBoxCheckpointList
     else if values = [''box'', ''checkpoint'', ''restore''] then Inr HtBoxCheckpointRestore
     else if values = [''box'', ''checkpoint'', ''fork''] then Inr HtBoxCheckpointFork
     else if values = [''box'', ''checkpoint'', ''delete''] then Inr HtBoxCheckpointDelete
     else Inl (InvalidConfig (''unsupported help topic '' @ join_space values @ [CHR 0x0A, CHR 0x0A] @ short_usage)))"

section \<open>Values\<close>

definition bindR :: "'a result \<Rightarrow> ('a \<Rightarrow> 'b result) \<Rightarrow> 'b result" where
  "bindR r f = (case r of Inl e \<Rightarrow> Inl e | Inr a \<Rightarrow> f a)"

definition is_help_flag :: "string \<Rightarrow> bool" where
  "is_help_flag v \<longleftrightarrow> v = ''-h'' \<or> v = ''--help''"

definition help_only :: "string list \<Rightarrow> bool" where
  "help_only args \<longleftrightarrow> length args = 1 \<and> is_help_flag (hd args)"

definition usage_error :: "help_topic \<Rightarrow> 'a result" where
  "usage_error t = Inl (InvalidConfig (render_usage_hint t))"

definition ensure_no_extra_args :: "string list \<Rightarrow> help_topic \<Rightarrow> unit result" where
  "ensure_no_extra_args args topic = (if args = [] \<or> help_only args then Inr () else usage_error topic)"

definition single_arg :: "string list \<Rightarrow> help_topic \<Rightarrow> string result" where
  "single_arg args topic = (case args of [v] \<Rightarrow> Inr v | _ \<Rightarrow> usage_error topic)"

text \<open>\<open>single_arg_from\<close> takes the first argument off the list.\<close>

definition single_arg_from :: "string list \<Rightarrow> string \<Rightarrow> (string \<times> string list) result" where
  "single_arg_from args usage = (case args of [] \<Rightarrow> Inl (InvalidConfig usage) | v # rest \<Rightarrow> Inr (v, rest))"

definition parse_uuid :: "'u uuid_text_scheme \<Rightarrow> string \<Rightarrow> uuid result" where
  "parse_uuid U v = (case uuid_parse U v of
     Inl e \<Rightarrow> Inl (InvalidConfig (''invalid BOX UUID '' @ v @ '': '' @ e)) | Inr u \<Rightarrow> Inr u)"

definition parse_tail_lines :: "string \<Rightarrow> u64 result" where
  "parse_tail_lines v = (case parse_u64_str v of
     None \<Rightarrow> Inl (InvalidConfig (''invalid --tail value '' @ v @ '': '' @ parse_int_error (2 ^ 64) v))
   | Some n \<Rightarrow> if n = 0 then Inl (InvalidConfig ''--tail must be greater than zero'') else Inr n)"

definition no_underscores :: "string \<Rightarrow> string" where
  "no_underscores s = filter (\<lambda>c. c \<noteq> CHR ''_'') s"

definition mib_unit :: "string \<Rightarrow> string \<times> u64" where
  "mib_unit n =
     if_suffix n ''gib'' (\<lambda>d. (d, 1024))
     (if_suffix n ''gb'' (\<lambda>d. (d, 1024))
     (if_suffix n ''g'' (\<lambda>d. (d, 1024))
     (if_suffix n ''mib'' (\<lambda>d. (d, 1))
     (if_suffix n ''mb'' (\<lambda>d. (d, 1))
     (if_suffix n ''m'' (\<lambda>d. (d, 1))
     (n, 1))))))"

definition parse_mib_value :: "string \<Rightarrow> string \<Rightarrow> u64 result" where
  "parse_mib_value name raw =
     (case mib_unit (to_ascii_lowercase (no_underscores (trim raw))) of (digits, factor) \<Rightarrow>
       (case parse_u64_str digits of
          None \<Rightarrow> Inl (InvalidConfig (''invalid '' @ name @ '' value '' @ raw @ '': '' @ parse_int_error (2 ^ 64) digits))
        | Some v \<Rightarrow> (case checked_mul v factor of
            None \<Rightarrow> Inl (InvalidConfig (name @ '' value '' @ raw @ '' is too large''))
          | Some m \<Rightarrow> Inr m)))"

definition parse_u32_value :: "string \<Rightarrow> string \<Rightarrow> u32 result" where
  "parse_u32_value name raw = (let d = no_underscores (trim raw) in case parse_u32_str d of
     None \<Rightarrow> Inl (InvalidConfig (''invalid '' @ name @ '' value '' @ raw @ '': '' @ parse_int_error (2 ^ 32) d))
   | Some n \<Rightarrow> Inr n)"

definition parse_bool_value :: "string \<Rightarrow> string \<Rightarrow> bool result" where
  "parse_bool_value name raw = (let v = to_ascii_lowercase (trim raw) in
     if v \<in> {''1'', ''true'', ''yes'', ''on'', ''enabled''} then Inr True
     else if v \<in> {''0'', ''false'', ''no'', ''off'', ''disabled''} then Inr False
     else Inl (InvalidConfig (''invalid '' @ name @ '' value '' @ raw @ ''; expected true|false'')))"

definition parse_box_setting :: "string \<Rightarrow> string \<Rightarrow> box_setting_value result" where
  "parse_box_setting setting value = (let k = to_ascii_lowercase (trim setting) in
     if k \<in> {''cpu'', ''cpu_cores''} then bindR (parse_u32_value ''cpu_cores'' value) (\<lambda>n. Inr (CpuCores n))
     else if k \<in> {''memory'', ''ram'', ''memory_mb'', ''ram_mb''} then
       bindR (parse_mib_value ''memory_mb'' value) (\<lambda>n.
         if unat n < 2 ^ 32 then Inr (MemoryMb (ucast n))
         else Inl (InvalidConfig ''memory_mb is too large to fit into a 32-bit value''))
     else if k \<in> {''fs'', ''disk'', ''fs_size'', ''fs_size_mib'', ''workspace_mib'', ''disk_mib''} then
       bindR (parse_mib_value ''fs_size_mib'' value) (\<lambda>n. Inr (FsSizeMib n))
     else if k \<in> {''proc'', ''process_count'', ''max_processes''} then
       bindR (parse_u32_value ''max_processes'' value) (\<lambda>n. Inr (MaxProcesses n))
     else if k \<in> {''network'', ''net'', ''network_enabled''} then
       bindR (parse_bool_value ''network_enabled'' value) (\<lambda>b. Inr (NetworkEnabled b))
     else Inl (InvalidConfig (''unsupported BOX setting '' @ k @
       ''; expected cpu_cores|memory_mb|fs_size_mib|max_processes|network_enabled'')))"

section \<open>The parser (\<open>args/parse.rs\<close>)\<close>

definition parse_leaf :: "string list \<Rightarrow> help_topic \<Rightarrow> command \<Rightarrow> command result" where
  "parse_leaf args topic cmd = (if args = [] then Inr cmd else if help_only args then Inr (CmdHelp topic) else usage_error topic)"

definition unknown :: "string \<Rightarrow> string \<Rightarrow> help_topic \<Rightarrow> 'a result" where
  "unknown what v topic = Inl (InvalidConfig (''unknown '' @ what @ '' command '' @ v @ [CHR 0x0A, CHR 0x0A] @ render_usage_hint topic))"

text \<open>The loops over the flags of a command, with what they have collected so far.\<close>

fun daemon_log_loop :: "string list \<Rightarrow> u64 option \<Rightarrow> bool \<Rightarrow> command result" where
  "daemon_log_loop [] tail follow = Inr (CmdDaemon (DaemonLog \<lparr>dl_tail = tail, dl_follow = follow\<rparr>))"
| "daemon_log_loop (arg # args) tail follow =
     (if arg = ''--follow'' \<or> arg = ''-f'' then daemon_log_loop args tail True
      else if arg = ''--tail'' then
        (case args of
           [] \<Rightarrow> usage_error HtDaemonLog
         | v # rest \<Rightarrow> (case parse_tail_lines v of Inl e \<Rightarrow> Inl e | Inr n \<Rightarrow> daemon_log_loop rest (Some n) follow))
      else if starts_with arg ''--tail='' then
        (case parse_tail_lines (drop (length ''--tail='') arg) of Inl e \<Rightarrow> Inl e | Inr n \<Rightarrow> daemon_log_loop args (Some n) follow)
      else if is_help_flag arg then Inr (CmdHelp HtDaemonLog)
      else usage_error HtDaemonLog)"

definition parse_daemon_log :: "string list \<Rightarrow> command result" where
  "parse_daemon_log args =
     (if args = [] then Inr (CmdDaemon (DaemonLog \<lparr>dl_tail = None, dl_follow = False\<rparr>))
      else if help_only args then Inr (CmdHelp HtDaemonLog)
      else daemon_log_loop args None False)"

definition parse_daemon :: "string list \<Rightarrow> command result" where
  "parse_daemon args = (case args of
     [] \<Rightarrow> Inr (CmdDaemon DaemonRun)
   | a # rest \<Rightarrow>
       if help_only args then Inr (CmdHelp HtDaemon)
       else if a = ''log'' then parse_daemon_log rest
       else unknown ''daemon'' a HtDaemon)"

definition parse_admin :: "string list \<Rightarrow> command result" where
  "parse_admin args = (case args of
     [] \<Rightarrow> Inr (CmdHelp HtAdmin)
   | a # rest \<Rightarrow>
       if help_only args then Inr (CmdHelp HtAdmin)
       else if a = ''add'' then bindR (ensure_no_extra_args rest HtAdminAdd) (\<lambda>_. Inr (CmdAdmin AdminAdd))
       else if a = ''remove'' \<and> rest = [''me''] then Inr (CmdAdmin AdminRemoveMe)
       else if a = ''remove'' \<and> help_only rest then Inr (CmdHelp HtAdminRemoveMe)
       else unknown ''admin'' a HtAdmin)"

fun image_build_loop :: "string list \<Rightarrow> image_build_command \<Rightarrow> command result" where
  "image_build_loop [] b = Inr (CmdImage (ImageBuild b))"
| "image_build_loop (arg # args) b =
     (if arg \<in> {''--apk'', ''--pip'', ''--npm'', ''--min-image-mib''} then
        (case args of
           [] \<Rightarrow> usage_error HtImageBuild
         | v # rest \<Rightarrow>
             if arg = ''--apk'' then image_build_loop rest (b\<lparr>ibc_apk := ibc_apk b @ [v]\<rparr>)
             else if arg = ''--pip'' then image_build_loop rest (b\<lparr>ibc_pip := ibc_pip b @ [v]\<rparr>)
             else if arg = ''--npm'' then image_build_loop rest (b\<lparr>ibc_npm := ibc_npm b @ [v]\<rparr>)
             else (case parse_mib_value ''min_image_mib'' v of
                 Inl e \<Rightarrow> Inl e | Inr n \<Rightarrow> image_build_loop rest (b\<lparr>ibc_min_image_mib := n\<rparr>)))
      else if arg = ''--force-refresh'' then image_build_loop args (b\<lparr>ibc_force_refresh := True\<rparr>)
      else Inl (InvalidConfig (''unknown image build flag '' @ arg)))"

definition parse_image_build :: "string list \<Rightarrow> command result" where
  "parse_image_build args = (case args of
     [] \<Rightarrow> Inr (CmdHelp HtImageBuild)
   | name # rest \<Rightarrow>
       if help_only args then Inr (CmdHelp HtImageBuild)
       else image_build_loop rest \<lparr>ibc_name = name, ibc_apk = [], ibc_pip = [], ibc_npm = [],
         ibc_min_image_mib = 512, ibc_force_refresh = False\<rparr>)"

definition parse_image :: "string list \<Rightarrow> command result" where
  "parse_image args = (case args of
     [] \<Rightarrow> Inr (CmdHelp HtImage)
   | a # rest \<Rightarrow>
       if help_only args then Inr (CmdHelp HtImage)
       else if a = ''build'' then parse_image_build rest
       else if a = ''list'' then bindR (ensure_no_extra_args rest HtImageList) (\<lambda>_. Inr (CmdImage ImageList))
       else if a = ''inspect'' then
         (if help_only rest then Inr (CmdHelp HtImageInspect)
          else bindR (single_arg rest HtImageInspect) (\<lambda>n. Inr (CmdImage (ImageInspect n))))
       else if a = ''rm'' then
         (if help_only rest then Inr (CmdHelp HtImageRemove)
          else bindR (single_arg rest HtImageRemove) (\<lambda>n. Inr (CmdImage (ImageRemove n))))
       else unknown ''image'' a HtImage)"

fun box_new_loop :: "string list \<Rightarrow> string option \<Rightarrow> command result" where
  "box_new_loop [] img = Inr (CmdBox (BoxNew img))"
| "box_new_loop (arg # args) img =
     (if arg = ''--image'' then
        (case args of [] \<Rightarrow> usage_error HtBoxNew | v # rest \<Rightarrow> box_new_loop rest (Some v))
      else Inl (InvalidConfig (''unknown box new flag '' @ arg)))"

definition parse_box_new :: "string list \<Rightarrow> command result" where
  "parse_box_new args = (if help_only args then Inr (CmdHelp HtBoxNew) else box_new_loop args None)"

definition parse_box_fs :: "'u uuid_text_scheme \<Rightarrow> string list \<Rightarrow> command result" where
  "parse_box_fs U args =
     (if args = [] \<or> help_only args then Inr (CmdHelp HtBoxFs)
      else bindR (single_arg_from args (render_usage_hint HtBoxFs)) (\<lambda>(b, args).
        bindR (parse_uuid U b) (\<lambda>box.
        bindR (single_arg_from args (render_usage_hint HtBoxFs)) (\<lambda>(sub, args).
          if sub = ''ls'' then
            (if help_only args then Inr (CmdHelp HtBoxFsList)
             else Inr (CmdBox (BoxFs (FsList box (case args of [] \<Rightarrow> ''/workspace'' | p # _ \<Rightarrow> p)))))
          else if sub = ''upload'' then
            (if help_only args then Inr (CmdHelp HtBoxFsUpload)
             else bindR (single_arg_from args (render_usage_hint HtBoxFsUpload)) (\<lambda>(local_path, args).
               bindR (single_arg_from args (render_usage_hint HtBoxFsUpload)) (\<lambda>(remote_path, _).
                 Inr (CmdBox (BoxFs (FsUpload box local_path remote_path))))))
          else if sub = ''download'' then
            (if help_only args then Inr (CmdHelp HtBoxFsDownload)
             else bindR (single_arg_from args (render_usage_hint HtBoxFsDownload)) (\<lambda>(remote_path, args).
               bindR (single_arg_from args (render_usage_hint HtBoxFsDownload)) (\<lambda>(local_path, _).
                 Inr (CmdBox (BoxFs (FsDownload box remote_path local_path))))))
          else Inl (InvalidConfig (''unsupported fs command '' @ sub @ ''; expected ls|upload|download''))))))"

section \<open>The parser of box commands (\<open>args/parse_box.rs\<close>)\<close>

definition parse_box_id :: "'u uuid_text_scheme \<Rightarrow> string list \<Rightarrow> help_topic \<Rightarrow> (uuid \<Rightarrow> box_command) \<Rightarrow> command result" where
  "parse_box_id U args topic cmd =
     (if help_only args then Inr (CmdHelp topic)
      else bindR (single_arg args topic) (\<lambda>v. bindR (parse_uuid U v) (\<lambda>b. Inr (CmdBox (cmd b)))))"

definition parse_box_set :: "'u uuid_text_scheme \<Rightarrow> string list \<Rightarrow> command result" where
  "parse_box_set U args =
     (if args = [] \<or> help_only args then Inr (CmdHelp HtBoxSet)
      else (case args of
         [setting, value] \<Rightarrow> bindR (parse_box_setting setting value) (\<lambda>v. Inr (CmdBox (BoxSet None v)))
       | [b, setting, value] \<Rightarrow> bindR (parse_uuid U b) (\<lambda>box.
           bindR (parse_box_setting setting value) (\<lambda>v. Inr (CmdBox (BoxSet (Some box) v))))
       | _ \<Rightarrow> usage_error HtBoxSet))"

definition interactive_flag :: "string \<Rightarrow> bool" where
  "interactive_flag v \<longleftrightarrow> v = ''-i'' \<or> v = ''--interactive''"

definition is_trailing_interactive_flag :: "string list \<Rightarrow> bool" where
  "is_trailing_interactive_flag args \<longleftrightarrow> length args = 1 \<and> interactive_flag (hd args)"

definition should_open_interactive :: "string list \<Rightarrow> bool \<Rightarrow> bool" where
  "should_open_interactive args leading \<longleftrightarrow> leading \<or> args = [] \<or> is_trailing_interactive_flag args"

definition parse_box_exec :: "'u uuid_text_scheme \<Rightarrow> string list \<Rightarrow> command result" where
  "parse_box_exec U args =
     (if args = [] \<or> help_only args then Inr (CmdHelp HtBoxExec)
      else (let leading = interactive_flag (hd args); args = (if leading then tl args else args) in
        bindR (single_arg_from args (render_usage_hint HtBoxExec)) (\<lambda>(b, args).
        bindR (parse_uuid U b) (\<lambda>box.
        bindR (single_arg_from args ''box exec expects `bash` or `python` after <BOX_ID>'') (\<lambda>(value, args).
          if value = ''bash'' \<and> should_open_interactive args leading then Inr (CmdBox (BoxExec box (ExecInteractive Bash)))
          else if value = ''python'' \<and> should_open_interactive args leading then Inr (CmdBox (BoxExec box (ExecInteractive Python)))
          else if value = ''bash'' then Inr (CmdBox (BoxExec box (ExecBash (join_space args))))
          else if value = ''python'' then Inr (CmdBox (BoxExec box (ExecPython args)))
          else Inl (InvalidConfig (''unsupported exec target '' @ value @ ''; expected bash or python'')))))))"

fun create_loop :: "uuid \<Rightarrow> string list \<Rightarrow> string option \<Rightarrow> (string \<times> string) list \<Rightarrow> command result" where
  "create_loop b [] name meta = Inr (CmdBox (BoxCheckpoint (CheckpointCreate b name meta)))"
| "create_loop b (arg # args) name meta =
     (if arg = ''--name'' then
        (case args of [] \<Rightarrow> usage_error HtBoxCheckpointCreate | v # rest \<Rightarrow> create_loop b rest (Some v) meta)
      else if arg = ''--meta'' then
        (case args of
           [] \<Rightarrow> usage_error HtBoxCheckpointCreate
         | v # rest \<Rightarrow> (case split_once (CHR ''='') v of
             None \<Rightarrow> Inl (InvalidConfig (''invalid checkpoint metadata '' @ v @ ''; expected KEY=VALUE''))
           | Some (key, value) \<Rightarrow> create_loop b rest name (bt_insert key value meta)))
      else Inl (InvalidConfig (''unknown checkpoint create flag '' @ arg)))"

fun restore_loop :: "uuid \<Rightarrow> string \<Rightarrow> string list \<Rightarrow> restore_mode \<Rightarrow> command result" where
  "restore_loop b c [] mode = Inr (CmdBox (BoxCheckpoint (CheckpointRestore b c mode)))"
| "restore_loop b c (arg # args) mode =
     (if arg = ''--mode'' then
        (case args of
           [] \<Rightarrow> usage_error HtBoxCheckpointRestore
         | v # rest \<Rightarrow>
             if v = ''rollback'' then restore_loop b c rest Rollback
             else if v = ''replace'' then restore_loop b c rest Replace
             else Inl (InvalidConfig (''unsupported checkpoint restore mode '' @ v)))
      else Inl (InvalidConfig (''unknown checkpoint restore flag '' @ arg)))"

fun fork_loop :: "uuid \<Rightarrow> string \<Rightarrow> string list \<Rightarrow> string option \<Rightarrow> command result" where
  "fork_loop b c [] name = Inr (CmdBox (BoxCheckpoint (CheckpointFork b c name)))"
| "fork_loop b c (arg # args) name =
     (if arg = ''--name'' then
        (case args of [] \<Rightarrow> usage_error HtBoxCheckpointFork | v # rest \<Rightarrow> fork_loop b c rest (Some v))
      else Inl (InvalidConfig (''unknown checkpoint fork flag '' @ arg)))"

definition checkpoint_topic :: "string \<Rightarrow> help_topic" where
  "checkpoint_topic sub =
     (if sub = ''create'' then HtBoxCheckpointCreate else if sub = ''list'' then HtBoxCheckpointList
      else if sub = ''restore'' then HtBoxCheckpointRestore else if sub = ''fork'' then HtBoxCheckpointFork
      else if sub = ''delete'' then HtBoxCheckpointDelete else HtBoxCheckpoint)"

definition parse_box_checkpoint :: "'u uuid_text_scheme \<Rightarrow> string list \<Rightarrow> command result" where
  "parse_box_checkpoint U args =
     (if args = [] \<or> help_only args then Inr (CmdHelp HtBoxCheckpoint)
      else bindR (single_arg_from args (render_usage_hint HtBoxCheckpoint)) (\<lambda>(sub, args).
        if help_only args then Inr (CmdHelp (checkpoint_topic sub))
        else bindR (single_arg_from args (render_usage_hint HtBoxCheckpoint)) (\<lambda>(b, args).
          bindR (parse_uuid U b) (\<lambda>box.
            if sub = ''create'' then create_loop box args None []
            else if sub = ''list'' \<and> args = [] then Inr (CmdBox (BoxCheckpoint (CheckpointList box)))
            else if sub = ''restore'' then
              bindR (single_arg_from args (render_usage_hint HtBoxCheckpointRestore)) (\<lambda>(c, args). restore_loop box c args Rollback)
            else if sub = ''fork'' then
              bindR (single_arg_from args (render_usage_hint HtBoxCheckpointFork)) (\<lambda>(c, args). fork_loop box c args None)
            else if sub = ''delete'' then
              bindR (single_arg_from args (render_usage_hint HtBoxCheckpointDelete)) (\<lambda>(c, _).
                Inr (CmdBox (BoxCheckpoint (CheckpointDelete box c))))
            else Inl (InvalidConfig (''unsupported checkpoint command '' @ sub @ ''; expected create|list|restore|fork|delete''))))))"

definition parse_box :: "'u uuid_text_scheme \<Rightarrow> string list \<Rightarrow> command result" where
  "parse_box U args = (case args of
     [] \<Rightarrow> Inr (CmdHelp HtBox)
   | a # rest \<Rightarrow>
       if help_only args then Inr (CmdHelp HtBox)
       else if a = ''list'' \<or> a = ''ps'' then bindR (ensure_no_extra_args rest HtBoxList) (\<lambda>_. Inr (CmdBox BoxList))
       else if a = ''new'' then parse_box_new rest
       else if a = ''start'' then parse_box_id U rest HtBoxStart BoxStart
       else if a = ''stop'' then parse_box_id U rest HtBoxStop BoxStop
       else if a = ''rm'' then parse_box_id U rest HtBoxRemove BoxRemove
       else if a = ''set'' then parse_box_set U rest
       else if a = ''exec'' then parse_box_exec U rest
       else if a = ''fs'' then parse_box_fs U rest
       else if a = ''checkpoint'' then parse_box_checkpoint U rest
       else unknown ''box'' a HtBox)"

definition parse_args :: "'u uuid_text_scheme \<Rightarrow> string list \<Rightarrow> command result" where
  "parse_args U args = (case args of
     [] \<Rightarrow> Inr (CmdHelp HtRoot)
   | a # rest \<Rightarrow>
       if a = ''help'' \<or> is_help_flag a then bindR (parse_help_topic rest) (\<lambda>t. Inr (CmdHelp t))
       else if a = ''start'' then parse_leaf rest HtStart CmdStart
       else if a = ''quit'' then parse_leaf rest HtQuit CmdQuit
       else if a = ''update'' then parse_leaf rest HtUpdate CmdUpdate
       else if a = ''daemon'' then parse_daemon rest
       else if a = ''admin'' then parse_admin rest
       else if a = ''image'' then parse_image rest
       else if a = ''box'' then parse_box U rest
       else Inl (InvalidConfig (''unknown command '' @ a @ [CHR 0x0A, CHR 0x0A] @ short_usage)))"

end
