(* ===== verification/Cli_Properties.thy ===== *)
theory Cli_Properties
  imports Cli_Args
begin

text \<open>
  The command line reads what it documents: a printer of every command in the form of the usage
  text, and the parser as its inverse; the commands that destroy something are understood
  from their full spelling only; sizes are read without wrapping around.
\<close>

section \<open>Printing a command\<close>

fun topic_args :: "help_topic \<Rightarrow> string list" where
  "topic_args HtRoot = []"
| "topic_args HtStart = [''start'']"
| "topic_args HtQuit = [''quit'']"
| "topic_args HtUpdate = [''update'']"
| "topic_args HtDaemon = [''daemon'']"
| "topic_args HtDaemonLog = [''daemon'', ''log'']"
| "topic_args HtAdmin = [''admin'']"
| "topic_args HtAdminAdd = [''admin'', ''add'']"
| "topic_args HtAdminRemoveMe = [''admin'', ''remove'', ''me'']"
| "topic_args HtImage = [''image'']"
| "topic_args HtImageBuild = [''image'', ''build'']"
| "topic_args HtImageList = [''image'', ''list'']"
| "topic_args HtImageInspect = [''image'', ''inspect'']"
| "topic_args HtImageRemove = [''image'', ''rm'']"
| "topic_args HtBox = [''box'']"
| "topic_args HtBoxList = [''box'', ''list'']"
| "topic_args HtBoxNew = [''box'', ''new'']"
| "topic_args HtBoxStart = [''box'', ''start'']"
| "topic_args HtBoxStop = [''box'', ''stop'']"
| "topic_args HtBoxRemove = [''box'', ''rm'']"
| "topic_args HtBoxSet = [''box'', ''set'']"
| "topic_args HtBoxExec = [''box'', ''exec'']"
| "topic_args HtBoxFs = [''box'', ''fs'']"
| "topic_args HtBoxFsList = [''box'', ''fs'', ''ls'']"
| "topic_args HtBoxFsUpload = [''box'', ''fs'', ''upload'']"
| "topic_args HtBoxFsDownload = [''box'', ''fs'', ''download'']"
| "topic_args HtBoxCheckpoint = [''box'', ''checkpoint'']"
| "topic_args HtBoxCheckpointCreate = [''box'', ''checkpoint'', ''create'']"
| "topic_args HtBoxCheckpointList = [''box'', ''checkpoint'', ''list'']"
| "topic_args HtBoxCheckpointRestore = [''box'', ''checkpoint'', ''restore'']"
| "topic_args HtBoxCheckpointFork = [''box'', ''checkpoint'', ''fork'']"
| "topic_args HtBoxCheckpointDelete = [''box'', ''checkpoint'', ''delete'']"

definition opt_flag :: "string \<Rightarrow> string option \<Rightarrow> string list" where
  "opt_flag f v = (case v of None \<Rightarrow> [] | Some x \<Rightarrow> [f, x])"

definition flags :: "string \<Rightarrow> string list \<Rightarrow> string list" where
  "flags f vs = concat (map (\<lambda>v. [f, v]) vs)"

fun setting_args :: "box_setting_value \<Rightarrow> string list" where
  "setting_args (CpuCores n) = [''cpu_cores'', decimal (unat n)]"
| "setting_args (MemoryMb n) = [''memory_mb'', decimal (unat n)]"
| "setting_args (FsSizeMib n) = [''fs_size_mib'', decimal (unat n)]"
| "setting_args (MaxProcesses n) = [''max_processes'', decimal (unat n)]"
| "setting_args (NetworkEnabled b) = [''network_enabled'', if b then ''true'' else ''false'']"

fun target_args :: "exec_target \<Rightarrow> string list" where
  "target_args (ExecBash s) = [''bash'', s]"
| "target_args (ExecPython as) = ''python'' # as"
| "target_args (ExecInteractive Bash) = [''bash'']"
| "target_args (ExecInteractive Python) = [''python'']"

fun mode_name :: "restore_mode \<Rightarrow> string" where
  "mode_name Rollback = ''rollback''"
| "mode_name Replace = ''replace''"

fun checkpoint_args :: "'u uuid_text_scheme \<Rightarrow> checkpoint_command \<Rightarrow> string list" where
  "checkpoint_args U (CheckpointCreate b name meta) =
     [''create'', uuid_show U b] @ opt_flag ''--name'' name @ flags ''--meta'' (map (\<lambda>(k, v). k @ ''='' @ v) meta)"
| "checkpoint_args U (CheckpointList b) = [''list'', uuid_show U b]"
| "checkpoint_args U (CheckpointRestore b c m) = [''restore'', uuid_show U b, c, ''--mode'', mode_name m]"
| "checkpoint_args U (CheckpointFork b c name) = [''fork'', uuid_show U b, c] @ opt_flag ''--name'' name"
| "checkpoint_args U (CheckpointDelete b c) = [''delete'', uuid_show U b, c]"

fun box_args :: "'u uuid_text_scheme \<Rightarrow> box_command \<Rightarrow> string list" where
  "box_args U BoxList = [''list'']"
| "box_args U (BoxNew img) = ''new'' # opt_flag ''--image'' img"
| "box_args U (BoxStart b) = [''start'', uuid_show U b]"
| "box_args U (BoxStop b) = [''stop'', uuid_show U b]"
| "box_args U (BoxRemove b) = [''rm'', uuid_show U b]"
| "box_args U (BoxSet b v) = ''set'' # (case b of None \<Rightarrow> [] | Some u \<Rightarrow> [uuid_show U u]) @ setting_args v"
| "box_args U (BoxExec b t) = ''exec'' # uuid_show U b # target_args t"
| "box_args U (BoxFs (FsList b p)) = [''fs'', uuid_show U b, ''ls'', p]"
| "box_args U (BoxFs (FsUpload b l r)) = [''fs'', uuid_show U b, ''upload'', l, r]"
| "box_args U (BoxFs (FsDownload b r l)) = [''fs'', uuid_show U b, ''download'', r, l]"
| "box_args U (BoxCheckpoint c) = ''checkpoint'' # checkpoint_args U c"

fun command_args :: "'u uuid_text_scheme \<Rightarrow> command \<Rightarrow> string list" where
  "command_args U (CmdHelp t) = ''help'' # topic_args t"
| "command_args U CmdStart = [''start'']"
| "command_args U CmdQuit = [''quit'']"
| "command_args U CmdUpdate = [''update'']"
| "command_args U (CmdDaemon DaemonRun) = [''daemon'']"
| "command_args U (CmdDaemon (DaemonLog d)) = [''daemon'', ''log''] @
     opt_flag ''--tail'' (map_option (\<lambda>n. decimal (unat n)) (dl_tail d)) @ (if dl_follow d then [''--follow''] else [])"
| "command_args U (CmdAdmin AdminAdd) = [''admin'', ''add'']"
| "command_args U (CmdAdmin AdminRemoveMe) = [''admin'', ''remove'', ''me'']"
| "command_args U (CmdImage (ImageBuild b)) = [''image'', ''build'', ibc_name b] @ flags ''--apk'' (ibc_apk b) @
     flags ''--pip'' (ibc_pip b) @ flags ''--npm'' (ibc_npm b) @ [''--min-image-mib'', decimal (unat (ibc_min_image_mib b))] @
     (if ibc_force_refresh b then [''--force-refresh''] else [])"
| "command_args U (CmdImage ImageList) = [''image'', ''list'']"
| "command_args U (CmdImage (ImageInspect n)) = [''image'', ''inspect'', n]"
| "command_args U (CmdImage (ImageRemove n)) = [''image'', ''rm'', n]"
| "command_args U (CmdBox b) = ''box'' # box_args U b"

text \<open>
  What cannot be written on the command line: a log of no lines, a name that reads as a request for
  help, a command line for \<open>bash\<close> or \<open>python\<close> that reads as the interactive flag, or an empty
  one for \<open>python\<close>, and metadata whose keys contain the separator.
\<close>

fun writable :: "command \<Rightarrow> bool" where
  "writable (CmdDaemon (DaemonLog d)) = (dl_tail d \<noteq> Some 0)"
| "writable (CmdImage (ImageInspect n)) = (\<not> is_help_flag n)"
| "writable (CmdImage (ImageRemove n)) = (\<not> is_help_flag n)"
| "writable (CmdBox (BoxExec b (ExecBash s))) = (\<not> interactive_flag s)"
| "writable (CmdBox (BoxExec b (ExecPython as))) = (as \<noteq> [] \<and> \<not> is_trailing_interactive_flag as)"
| "writable (CmdBox (BoxFs (FsList b p))) = (\<not> is_help_flag p)"
| "writable (CmdBox (BoxCheckpoint (CheckpointCreate b name meta))) = (bt_wf meta \<and> (\<forall>(k, v) \<in> set meta. CHR ''='' \<notin> set k))"
| "writable _ = True"

text \<open>The boxes a command names, and that their UUIDs have texts of 36 characters that read back.\<close>

fun checkpoint_box :: "checkpoint_command \<Rightarrow> uuid" where
  "checkpoint_box (CheckpointCreate b name meta) = b"
| "checkpoint_box (CheckpointList b) = b"
| "checkpoint_box (CheckpointRestore b c m) = b"
| "checkpoint_box (CheckpointFork b c name) = b"
| "checkpoint_box (CheckpointDelete b c) = b"

fun fs_box :: "fs_command \<Rightarrow> uuid" where
  "fs_box (FsList b p) = b"
| "fs_box (FsUpload b l r) = b"
| "fs_box (FsDownload b r l) = b"

fun command_boxes :: "command \<Rightarrow> uuid list" where
  "command_boxes (CmdBox (BoxStart b)) = [b]"
| "command_boxes (CmdBox (BoxStop b)) = [b]"
| "command_boxes (CmdBox (BoxRemove b)) = [b]"
| "command_boxes (CmdBox (BoxSet b v)) = (case b of None \<Rightarrow> [] | Some u \<Rightarrow> [u])"
| "command_boxes (CmdBox (BoxExec b t)) = [b]"
| "command_boxes (CmdBox (BoxFs c)) = [fs_box c]"
| "command_boxes (CmdBox (BoxCheckpoint c)) = [checkpoint_box c]"
| "command_boxes _ = []"

definition uuid_format :: "'u uuid_text_scheme \<Rightarrow> uuid \<Rightarrow> bool" where
  "uuid_format U u \<longleftrightarrow> uuid_parse U (uuid_show U u) = Inr u \<and> length (uuid_show U u) = 36"

section \<open>Reading it back\<close>

lemma digit_chars:
  assumes "is_ascii_digit c"
  shows "\<not> is_ws c" "c \<noteq> CHR ''_''" "\<not> is_ascii_upper c" "c \<notin> {CHR ''g'', CHR ''b'', CHR ''m''}"
  using assms by (auto simp: is_ascii_digit_def is_ws_def is_ascii_upper_def less_eq_char_def)

lemma trim_no_ws: "list_all (\<lambda>c. \<not> is_ws c) s \<Longrightarrow> trim s = s"
proof -
  have d: "list_all (\<lambda>c. \<not> is_ws c) t \<Longrightarrow> dropWhile is_ws t = t" for t by (cases t) auto
  assume "list_all (\<lambda>c. \<not> is_ws c) s"
  then show ?thesis using d [of s] d [of "rev s"] by (simp add: trim_def trim_start_def)
qed

lemma decimal_normal [simp]: "trim (decimal n) = decimal n" "no_underscores (decimal n) = decimal n"
  "to_ascii_lowercase (decimal n) = decimal n"
proof -
  have d: "\<And>c. c \<in> set (decimal n) \<Longrightarrow> is_ascii_digit c" using decimal_digits [of n] by (simp add: list_all_iff)
  show "trim (decimal n) = decimal n" by (rule trim_no_ws) (rule decimal_no_ws)
  show "no_underscores (decimal n) = decimal n" using d digit_chars(2) by (auto simp: no_underscores_def intro!: filter_True)
  show "to_ascii_lowercase (decimal n) = decimal n"
    using d digit_chars(3) by (auto simp: to_ascii_lowercase_def intro!: map_idI)
qed

lemma decimal_no_suffix:
  assumes "c \<in> {CHR ''g'', CHR ''b'', CHR ''m''}"
  shows "strip_suffix (decimal n) (p @ [c]) = None"
proof (cases "strip_suffix (decimal n) (p @ [c])")
  case (Some d)
  then have "rev (decimal n) = c # rev p @ rev d" by (auto simp: strip_suffix_def strip_prefix_Some_iff)
  then have "c \<in> set (decimal n)" by (metis list.set_intros(1) set_rev)
  then show ?thesis using decimal_digits [of n] digit_chars(4) [of c] assms by (auto simp: list_all_iff)
qed

lemma mib_unit_decimal [simp]: "mib_unit (decimal n) = (decimal n, 1)"
  using decimal_no_suffix [of "CHR ''b''" n "''gi''"] decimal_no_suffix [of "CHR ''b''" n "''g''"]
    decimal_no_suffix [of "CHR ''g''" n "[]"] decimal_no_suffix [of "CHR ''b''" n "''mi''"]
    decimal_no_suffix [of "CHR ''b''" n "''m''"] decimal_no_suffix [of "CHR ''m''" n "[]"]
  by (simp add: mib_unit_def if_suffix_def)

lemma parse_values_decimal [simp]:
  "parse_mib_value name (decimal (unat w)) = Inr w"
  "parse_u32_value name (decimal (unat v)) = Inr v"
  "w \<noteq> 0 \<Longrightarrow> parse_tail_lines (decimal (unat w)) = Inr w"
  using unsigned_less [of w, where ?'a = nat] by (simp_all add: parse_mib_value_def parse_u32_value_def parse_tail_lines_def checked_mul_def)

lemma parse_setting_args:
  "\<exists>k v. setting_args s = [k, v] \<and> parse_box_setting k v = Inr s"
proof (cases s)
  case (MemoryMb n)
  have n: "unat (ucast n :: u64) = unat n" by (simp add: unat_widen)
  then have "parse_mib_value ''memory_mb'' (decimal (unat n)) = Inr (ucast n)"
    using parse_values_decimal(1) [of "''memory_mb''" "ucast n"] by simp
  moreover have "unat n < 2 ^ 32" using unsigned_less [of n, where ?'a = nat] by simp
  moreover have "ucast (ucast n :: u64) = n" by (rule bit_word_eqI) (simp add: bit_simps)
  ultimately show ?thesis
    by (simp add: MemoryMb parse_box_setting_def)
      (simp add: bindR_def n to_ascii_lowercase_def trim_def trim_start_def is_ws_def is_ascii_upper_def less_eq_char_def)
qed (auto simp: parse_box_setting_def bindR_def parse_bool_value_def to_ascii_lowercase_def trim_def trim_start_def
    is_ws_def is_ascii_upper_def less_eq_char_def)

lemma split_once_key [simp]: "d \<notin> set k \<Longrightarrow> split_once d (k @ d # v) = Some (k, v)"
  by (induction k) auto

lemma bt_insert_last: "(\<forall>k' \<in> fst ` set m. k' < k) \<Longrightarrow> bt_insert k v m = m @ [(k, v)]"
  by (induction m) auto

lemma create_loop_meta:
  "\<lbrakk>bt_wf (m @ meta); \<forall>(k, v) \<in> set meta. CHR ''='' \<notin> set k\<rbrakk>
   \<Longrightarrow> create_loop b (flags ''--meta'' (map (\<lambda>(k, v). k @ ''='' @ v) meta)) name m
     = Inr (CmdBox (BoxCheckpoint (CheckpointCreate b name (m @ meta))))"
proof (induction meta arbitrary: m)
  case (Cons kv meta)
  obtain k v where kv: "kv = (k, v)" by (cases kv)
  have "bt_insert k v m = m @ [(k, v)]"
    using Cons.prems(1) by (intro bt_insert_last) (auto simp: kv bt_wf_def sorted_wrt_append)
  then show ?case using Cons.prems Cons.IH [of "m @ [(k, v)]"] by (simp add: kv flags_def)
qed (simp add: flags_def)

lemma image_build_flags:
  "image_build_loop (flags ''--apk'' vs @ as) b = image_build_loop as (b\<lparr>ibc_apk := ibc_apk b @ vs\<rparr>)"
  "image_build_loop (flags ''--pip'' vs @ as) b = image_build_loop as (b\<lparr>ibc_pip := ibc_pip b @ vs\<rparr>)"
  "image_build_loop (flags ''--npm'' vs @ as) b = image_build_loop as (b\<lparr>ibc_npm := ibc_npm b @ vs\<rparr>)"
  by (induction vs arbitrary: b) (simp_all add: flags_def)

lemma uuid_args:
  assumes "uuid_format U u"
  shows "parse_uuid U (uuid_show U u) = Inr u" "\<not> is_help_flag (uuid_show U u)" "\<not> interactive_flag (uuid_show U u)"
proof -
  have l: "length (uuid_show U u) = 36" "uuid_parse U (uuid_show U u) = Inr u" using assms by (auto simp: uuid_format_def)
  then show "parse_uuid U (uuid_show U u) = Inr u" by (simp add: parse_uuid_def)
  have ne: "uuid_show U u \<noteq> s" if "length s \<noteq> 36" for s using l(1) that by auto
  show "\<not> is_help_flag (uuid_show U u)" "\<not> interactive_flag (uuid_show U u)"
    using ne [of "''-h''"] ne [of "''--help''"] ne [of "''-i''"] ne [of "''--interactive''"]
    by (auto simp: is_help_flag_def interactive_flag_def)
qed

lemma help_topic_roundtrip: "parse_help_topic (topic_args t) = Inr t"
  by (cases t) (simp_all add: parse_help_topic_def)

lemma checkpoint_roundtrip:
  assumes "uuid_format U (checkpoint_box c)" and "writable (CmdBox (BoxCheckpoint c))"
  shows "parse_box_checkpoint U (checkpoint_args U c) = Inr (CmdBox (BoxCheckpoint c))"
proof -
  note u = uuid_args(1,2) [OF assms(1)]
  note d = parse_box_checkpoint_def help_only_def single_arg_from_def bindR_def opt_flag_def
  show ?thesis
  proof (cases c)
    case (CheckpointCreate b name meta)
    note u = u [unfolded CheckpointCreate checkpoint_box.simps]
    have "create_loop b (flags ''--meta'' (map (\<lambda>(k, v). k @ ''='' @ v) meta)) n []
        = Inr (CmdBox (BoxCheckpoint (CheckpointCreate b n meta)))" for n
      using assms(2) [unfolded CheckpointCreate] create_loop_meta [of "[]" meta b n] by simp
    then show ?thesis by (auto simp: CheckpointCreate u d split: option.splits)
  next
    case (CheckpointRestore b k m)
    then show ?thesis using u by (cases m) (simp_all add: d)
  qed (use u in \<open>auto simp: d split: option.splits\<close>)
qed

lemma box_fs_roundtrip:
  assumes "uuid_format U (fs_box c)" and "writable (CmdBox (BoxFs c))"
  shows "parse_box U (box_args U (BoxFs c)) = Inr (CmdBox (BoxFs c))"
  using assms(2) uuid_args(1,2) [OF assms(1)] by (cases c)
    (simp_all add: parse_box_def parse_box_fs_def help_only_def single_arg_from_def bindR_def)

lemma box_exec_roundtrip:
  assumes "uuid_format U b" and "writable (CmdBox (BoxExec b t))"
  shows "parse_box U (box_args U (BoxExec b t)) = Inr (CmdBox (BoxExec b t))"
proof -
  have "parse_box_exec U (uuid_show U b # target_args t) = Inr (CmdBox (BoxExec b t))"
    using assms(2) by (cases t rule: target_args.cases)
      (simp_all add: uuid_args(1-3) [OF assms(1)] parse_box_exec_def help_only_def single_arg_from_def
        bindR_def should_open_interactive_def is_trailing_interactive_flag_def)
  then show ?thesis by (simp add: parse_box_def help_only_def)
qed

lemma box_roundtrip:
  assumes "\<forall>u \<in> set (command_boxes (CmdBox b)). uuid_format U u" and "writable (CmdBox b)"
  shows "parse_box U (box_args U b) = Inr (CmdBox b)"
proof (cases b)
  case (BoxSet bo v)
  obtain k w where kw: "setting_args v = [k, w]" "parse_box_setting k w = Inr v" using parse_setting_args by blast
  show ?thesis using assms(1)
    by (cases bo) (simp_all add: BoxSet kw uuid_args(1) parse_box_def parse_box_set_def help_only_def bindR_def)
next
  case (BoxExec i t)
  with assms box_exec_roundtrip show ?thesis by simp
next
  case (BoxFs c)
  with assms box_fs_roundtrip show ?thesis by simp
next
  case (BoxCheckpoint c)
  with assms checkpoint_roundtrip have "parse_box_checkpoint U (checkpoint_args U c) = Inr (CmdBox b)" by simp
  then show ?thesis by (simp add: BoxCheckpoint parse_box_def help_only_def) (cases c; simp)
next
  case (BoxNew img)
  then show ?thesis by (cases img) (simp_all add: parse_box_def parse_box_new_def help_only_def is_help_flag_def opt_flag_def)
next
  case BoxList
  then show ?thesis by (simp add: parse_box_def help_only_def is_help_flag_def bindR_def ensure_no_extra_args_def)
qed (use assms(1) in \<open>auto simp: uuid_args(1,2) parse_box_def parse_box_id_def help_only_def single_arg_def bindR_def\<close>)

lemma image_roundtrip: "writable (CmdImage c) \<Longrightarrow> parse_args U (command_args U (CmdImage c)) = Inr (CmdImage c)"
proof (cases c)
  case (ImageBuild b)
  have "parse_image_build (tl (tl (command_args U (CmdImage c)))) = Inr (CmdImage c)"
    by (simp add: ImageBuild parse_image_build_def help_only_def image_build_flags)
  then show ?thesis by (simp add: ImageBuild parse_args_def is_help_flag_def parse_image_def help_only_def)
qed (auto simp: parse_args_def parse_image_def is_help_flag_def help_only_def bindR_def ensure_no_extra_args_def single_arg_def)

lemma daemon_roundtrip: "writable (CmdDaemon c) \<Longrightarrow> parse_args U (command_args U (CmdDaemon c)) = Inr (CmdDaemon c)"
proof (cases c)
  case (DaemonLog d)
  assume "writable (CmdDaemon c)"
  then show ?thesis
    by (cases d; cases "dl_tail d"; cases "dl_follow d")
      (auto simp: DaemonLog parse_args_def parse_daemon_def parse_daemon_log_def is_help_flag_def help_only_def opt_flag_def)
qed (simp add: parse_args_def parse_daemon_def is_help_flag_def)

text \<open>
  C22: The command line is read back exactly. Every command of the program that can be written on
  a command line is understood from the arguments the usage text gives for it, with its
  sizes, flags, metadata and UUIDs unchanged, provided the texts of the UUIDs it names read
  back.
\<close>

theorem cli_roundtrip:
  assumes "\<forall>u \<in> set (command_boxes c). uuid_format U u" and "writable c"
  shows "parse_args U (command_args U c) = Inr c"
proof (cases c)
  case (CmdBox b)
  then show ?thesis using box_roundtrip [of b U] assms by (simp add: parse_args_def is_help_flag_def)
next
  case (CmdAdmin a)
  then show ?thesis
    by (cases a) (simp_all add: parse_args_def parse_admin_def is_help_flag_def help_only_def bindR_def ensure_no_extra_args_def)
qed (use assms image_roundtrip daemon_roundtrip help_topic_roundtrip in
  \<open>auto simp: parse_args_def is_help_flag_def bindR_def parse_leaf_def\<close>)

text \<open>A concrete text of UUIDs: 32 hexadecimal digits in five groups.\<close>

fun hex_digits :: "nat \<Rightarrow> nat \<Rightarrow> string" where
  "hex_digits 0 u = []"
| "hex_digits (Suc n) u = hex_digits n (u div 16) @ [''0123456789abcdef'' ! (u mod 16)]"

definition hyphenated :: "uuid \<Rightarrow> string" where
  "hyphenated u = (let h = hex_digits 32 u in
     take 8 h @ ''-'' @ take 4 (drop 8 h) @ ''-'' @ take 4 (drop 12 h) @ ''-'' @ take 4 (drop 16 h) @ ''-'' @ drop 20 h)"

definition hex_value :: "char \<Rightarrow> nat" where
  "hex_value c = (if is_ascii_digit c then of_char c - 48 else of_char c - 87)"

definition plain_uuids :: uuid_text where
  "plain_uuids = \<lparr>
     uuid_parse = (\<lambda>s. if length s = 36 then Inr (foldl (\<lambda>v c. 16 * v + hex_value c) 0 (filter (\<lambda>c. c \<noteq> CHR ''-'') s))
       else Inl ''invalid length''),
     uuid_show = hyphenated\<rparr>"

definition demo_create :: command where
  "demo_create = CmdBox (BoxCheckpoint (CheckpointCreate 3054 (Some ''v1'') [(''k'', ''a=b'')]))"

theorem cli_roundtrip_witness:
  "parse_args plain_uuids [''box'', ''checkpoint'', ''create'', ''00000000-0000-0000-0000-000000000bee'', ''--name'', ''v1'', ''--meta'', ''k=a=b''] = Inr demo_create"
proof -
  have w: "writable demo_create" by code_simp
  have f: "\<forall>u \<in> set (command_boxes demo_create). uuid_format plain_uuids u" by code_simp
  have a: "command_args plain_uuids demo_create
      = [''box'', ''checkpoint'', ''create'', ''00000000-0000-0000-0000-000000000bee'', ''--name'', ''v1'', ''--meta'', ''k=a=b'']"
    by code_simp
  from cli_roundtrip [OF f w] show ?thesis unfolding a .
qed

section \<open>Commands that cannot be undone\<close>

lemma flag_loops_commands:
  "daemon_log_loop as tail follow = Inr c \<Longrightarrow> \<exists>d. c = CmdDaemon d \<or> c = CmdHelp HtDaemonLog"
  "image_build_loop as b = Inr c \<Longrightarrow> \<exists>b'. c = CmdImage (ImageBuild b')"
  "box_new_loop as img = Inr c \<Longrightarrow> \<exists>i. c = CmdBox (BoxNew i)"
  "create_loop u as name meta = Inr c \<Longrightarrow> \<exists>n m. c = CmdBox (BoxCheckpoint (CheckpointCreate u n m))"
  "restore_loop u k as mode = Inr c \<Longrightarrow> \<exists>m. c = CmdBox (BoxCheckpoint (CheckpointRestore u k m))"
  "fork_loop u k as name = Inr c \<Longrightarrow> \<exists>n. c = CmdBox (BoxCheckpoint (CheckpointFork u k n))"
proof -
  show "daemon_log_loop as tail follow = Inr c \<Longrightarrow> \<exists>d. c = CmdDaemon d \<or> c = CmdHelp HtDaemonLog"
    by (induction as tail follow rule: daemon_log_loop.induct) (auto simp: usage_error_def split: if_splits list.splits sum.splits)
  show "image_build_loop as b = Inr c \<Longrightarrow> \<exists>b'. c = CmdImage (ImageBuild b')"
  proof (induction as arbitrary: b rule: length_induct)
    case (1 as)
    note IH = 1(1) [rule_format, of "tl as"] 1(1) [rule_format, of "tl (tl as)"]
    from 1(2) IH show ?case
      by (cases as; cases "tl as"; (simp add: usage_error_def split: if_splits sum.splits)?; blast?)
  qed
  show "box_new_loop as img = Inr c \<Longrightarrow> \<exists>i. c = CmdBox (BoxNew i)"
    by (induction as img rule: box_new_loop.induct) (auto simp: usage_error_def split: if_splits list.splits)
  show "create_loop u as name meta = Inr c \<Longrightarrow> \<exists>n m. c = CmdBox (BoxCheckpoint (CheckpointCreate u n m))"
    by (induction u as name meta rule: create_loop.induct)
      (auto simp: usage_error_def split: if_splits list.splits option.splits)
  show "restore_loop u k as mode = Inr c \<Longrightarrow> \<exists>m. c = CmdBox (BoxCheckpoint (CheckpointRestore u k m))"
    by (induction u k as mode rule: restore_loop.induct) (auto simp: usage_error_def split: if_splits list.splits)
  show "fork_loop u k as name = Inr c \<Longrightarrow> \<exists>n. c = CmdBox (BoxCheckpoint (CheckpointFork u k n))"
    by (induction u k as name rule: fork_loop.induct) (auto simp: usage_error_def split: if_splits list.splits)
qed

lemma parse_box_remove_only:
  assumes "parse_box U args = Inr (CmdBox (BoxRemove b))"
  shows "\<exists>s. args = [''rm'', s] \<and> \<not> is_help_flag s \<and> parse_uuid U s = Inr b"
proof (cases args)
  case (Cons a rest)
  have new: "parse_box_new rest \<noteq> Inr (CmdBox (BoxRemove b))"
    by (auto simp: parse_box_new_def dest: flag_loops_commands(3) split: if_splits)
  have set: "parse_box_set U rest \<noteq> Inr (CmdBox (BoxRemove b))"
    by (auto simp: parse_box_set_def bindR_def usage_error_def split: if_splits list.splits sum.splits)
  have exec: "parse_box_exec U rest \<noteq> Inr (CmdBox (BoxRemove b))"
    by (auto simp: parse_box_exec_def bindR_def Let_def split: if_splits sum.splits prod.splits)
  have fs: "parse_box_fs U rest \<noteq> Inr (CmdBox (BoxRemove b))"
    by (auto simp: parse_box_fs_def bindR_def split: if_splits sum.splits prod.splits)
  have loops: "create_loop u as n m \<noteq> Inr (CmdBox (BoxRemove b))" "restore_loop u k as d \<noteq> Inr (CmdBox (BoxRemove b))"
    "fork_loop u k as n \<noteq> Inr (CmdBox (BoxRemove b))" for u as n m k d
    using flag_loops_commands(4-6) by fastforce+
  have cp: "parse_box_checkpoint U rest \<noteq> Inr (CmdBox (BoxRemove b))"
    using loops by (simp add: parse_box_checkpoint_def bindR_def split: if_splits sum.splits prod.splits)
  have other: "parse_box_id U rest t BoxStart \<noteq> Inr (CmdBox (BoxRemove b))" "parse_box_id U rest t BoxStop \<noteq> Inr (CmdBox (BoxRemove b))" for t
    by (simp_all add: parse_box_id_def bindR_def split: sum.splits)
  have "bindR (ensure_no_extra_args rest HtBoxList) (\<lambda>_. Inr (CmdBox BoxList)) \<noteq> Inr (CmdBox (BoxRemove b))"
    by (simp add: bindR_def split: sum.splits)
  with assms new set exec fs cp other
  have "a = ''rm''" "parse_box_id U rest HtBoxRemove BoxRemove = Inr (CmdBox (BoxRemove b))"
    unfolding Cons parse_box_def unknown_def list.case by (simp_all only: if_splits command.simps box_command.simps sum.simps split: if_splits)
  then show ?thesis
    by (auto simp: Cons parse_box_id_def bindR_def single_arg_def usage_error_def help_only_def split: if_splits sum.splits list.splits)
qed (use assms in \<open>simp add: parse_box_def\<close>)

lemma parse_box_other: "a \<noteq> ''box'' \<Longrightarrow> parse_args U (a # rest) \<noteq> Inr (CmdBox c)"
proof
  assume a: "a \<noteq> ''box''" and r: "parse_args U (a # rest) = Inr (CmdBox c)"
  have d: "parse_daemon rest \<noteq> Inr (CmdBox c)"
    by (auto simp: parse_daemon_def parse_daemon_log_def unknown_def dest: flag_loops_commands(1) split: if_splits list.splits)
  have m: "parse_admin rest \<noteq> Inr (CmdBox c)"
    by (auto simp: parse_admin_def unknown_def bindR_def split: if_splits list.splits sum.splits)
  have b: "parse_image_build as \<noteq> Inr (CmdBox c)" for as
    by (auto simp: parse_image_build_def dest: flag_loops_commands(2) split: if_splits list.splits)
  have i: "parse_image rest \<noteq> Inr (CmdBox c)"
    by (auto simp: parse_image_def unknown_def bindR_def b split: if_splits list.splits sum.splits)
  have l: "parse_leaf rest t (CmdStart) \<noteq> Inr (CmdBox c)" "parse_leaf rest t (CmdQuit) \<noteq> Inr (CmdBox c)"
    "parse_leaf rest t (CmdUpdate) \<noteq> Inr (CmdBox c)" "bindR h (\<lambda>t. Inr (CmdHelp t)) \<noteq> Inr (CmdBox c)" for t h
    by (auto simp: parse_leaf_def usage_error_def bindR_def split: if_splits sum.splits)
  from r a d m i l show False unfolding parse_args_def list.case by (simp split: if_splits)
qed

text \<open>
  A box is removed by its full command only. The arguments are read as the removal of a box
  exactly when they are \<open>box rm\<close> and one argument, not a request for help, which is
  the text of that box's UUID.
\<close>

theorem removal_spelled_out:
  "parse_args U args = Inr (CmdBox (BoxRemove b)) \<longleftrightarrow>
   (\<exists>s. args = [''box'', ''rm'', s] \<and> \<not> is_help_flag s \<and> parse_uuid U s = Inr b)"
proof
  assume r: "parse_args U args = Inr (CmdBox (BoxRemove b))"
  then obtain rest where a: "args = ''box'' # rest"
    using parse_box_other by (cases args) (force simp: parse_args_def)+
  from r have "parse_box U rest = Inr (CmdBox (BoxRemove b))" by (simp add: a parse_args_def is_help_flag_def)
  then show "\<exists>s. args = [''box'', ''rm'', s] \<and> \<not> is_help_flag s \<and> parse_uuid U s = Inr b"
    using parse_box_remove_only a by blast
next
  assume "\<exists>s. args = [''box'', ''rm'', s] \<and> \<not> is_help_flag s \<and> parse_uuid U s = Inr b"
  then show "parse_args U args = Inr (CmdBox (BoxRemove b))"
    by (auto simp: parse_args_def parse_box_def parse_box_id_def help_only_def single_arg_def bindR_def is_help_flag_def)
qed

end
