(* ===== verification/Box_Api_Properties.thy ===== *)
theory Box_Api_Properties
  imports Box_Api
begin

text \<open>
  What the control plane promises: nothing happens for a connection that has not
  authenticated, a connection authenticated for one box reaches that box only, and every
  request is answered once, under its own id.
\<close>

section \<open>What the box service leaves to the control plane\<close>

text \<open>Observations that the box service and the layers below it never affect.\<close>

definition box_free :: "('z box_state_scheme \<Rightarrow> 'f) \<Rightarrow> bool" where
  "box_free f \<longleftrightarrow> store_free f \<and> (\<forall>s x. f (s\<lparr>rt_active := x\<rparr>) = f s) \<and> (\<forall>s x. f (s\<lparr>rt_warm_runs := x\<rparr>) = f s) \<and>
     (\<forall>s x. f (s\<lparr>rt_history := x\<rparr>) = f s) \<and> (\<forall>s x. f (s\<lparr>box_files := x\<rparr>) = f s) \<and> (\<forall>s x. f (s\<lparr>box_active := x\<rparr>) = f s)"

lemma box_freeD:
  assumes "box_free f"
  shows "store_free f" "counter_free f" "f (s\<lparr>calls := c\<rparr>) = f s" "f (s\<lparr>run_paths := rp\<rparr>) = f s"
    "f (s\<lparr>rt_active := a\<rparr>) = f s" "f (s\<lparr>rt_warm_runs := w\<rparr>) = f s" "f (s\<lparr>rt_history := h\<rparr>) = f s"
    "f (s\<lparr>box_files := bf\<rparr>) = f s" "f (s\<lparr>box_active := g\<rparr>) = f s" "f (upd_session u f' s) = f s"
  using assms by (simp_all add: box_free_def store_free_counter upd_session_def store_freeD)

lemma keeps_api_registry:
  fixes f :: "'z box_state_scheme \<Rightarrow> 'f"
  assumes bf: "box_free f"
  shows "keeps f (box_write E r)" "keeps f (box_read E b)" "keeps f (active_insert b u)" "keeps f (active_remove b)"
  "keeps f (sandbox_of r)" "keeps f (workspace_disk_size_mib E w)" "keeps f (box_remove E b)"
  unfolding box_write_def box_read_def box_read_path_def box_ensure_layout_def decode_json_def active_insert_def active_remove_def
    sandbox_of_def workspace_disk_size_mib_def box_remove_def
  by (auto simp: box_freeD [OF bf] intro!: keeps_intro split: json_file.split)

lemma keeps_api_records:
  fixes f :: "'z box_state_scheme \<Rightarrow> 'f"
  assumes bf: "box_free f"
  shows "keeps f (set_failed E r m)" "keeps f (mark_stopped E r)" "keeps f (hydrate_record E C r)" "keeps f (read_box E C b)"
  unfolding set_failed_def mark_stopped_def hydrate_record_def detect_box_caps_def Let_def read_box_def
  by (auto simp: box_freeD [OF bf] intro!: keeps_intro keeps_api_registry [OF bf] split: prod.split)

lemma keeps_api_rpc:
  fixes f :: "'z box_state_scheme \<Rightarrow> 'f"
  assumes bf: "box_free f"
  shows "keeps f (guest_writes E w)" "keeps f (rpc_call E w c e)" "keeps f (rpc_call_timed E w c e')"
  unfolding rpc_call_def rpc_call_timed_def rpc_answer_def
  by (auto simp: box_freeD [OF bf] intro!: keeps_intro keeps_internal(3) [OF box_freeD(1) [OF bf]])

lemma keeps_api_sessions:
  fixes f :: "'z box_state_scheme \<Rightarrow> 'f"
  assumes bf: "box_free f"
  shows "keeps f (on_session E u c e)" "keeps f (rt_open_shell E u sr)" "keeps f (rt_exec E u er)"
  "keeps f (destroy_sandbox E C u)" "keeps f (capture_workspace_checkpoint E u n md)"
proof -
  show "keeps f (on_session E u c e)"
    unfolding on_session_def registry_active_def by (auto simp: box_freeD [OF bf] intro!: keeps_intro keeps_api_rpc [OF bf])
  show "keeps f (rt_open_shell E u sr)"
    unfolding rt_open_shell_def registry_active_def by (auto simp: box_freeD [OF bf] intro!: keeps_intro keeps_api_rpc [OF bf])
  show "keeps f (rt_exec E u er)"
    unfolding rt_exec_def registry_active_def try_acquire_exec_def release_exec_def Let_def by (auto simp: box_freeD [OF bf] intro!: keeps_intro keeps_api_rpc [OF bf])
  show "keeps f (destroy_sandbox E C u)"
    unfolding destroy_sandbox_def history_record_def remove_active_def guest_best_effort_def
      snapshot_guest_or_baseline_def store_warm_run_def save_history_def Let_def
    by (auto simp: box_freeD [OF bf] intro!: keeps_intro keeps_api_rpc [OF bf])
  show "keeps f (capture_workspace_checkpoint E u n md)"
    unfolding capture_workspace_checkpoint_def registry_active_def Let_def
    by (auto simp: box_freeD [OF bf] intro!: keeps_intro keeps_api_rpc [OF bf] keeps_internal(1) [OF box_freeD(1) [OF bf]])
qed

lemma keeps_api_create:
  fixes f :: "'z box_state_scheme \<Rightarrow> 'f"
  assumes bf: "box_free f"
  shows "keeps f (create_sandbox E C spec)"
proof (rule keeps_preservesI)
  fix v
  let ?P = "\<lambda>t :: 'z box_state_scheme. f t = v"
  have store: "preserves ?P m" if "keeps f m" for m :: "('z box_state_scheme, 'out) io"
    using that unfolding keeps_iff_preserves by (rule spec)
  have "preserves ?P (create_launch E C spec)"
  proof (rule preserves_wpI, rule wp_create_launch_local)
    show "preserves ?P (prepare_workspace E (wstore C) (spec_workspace_id spec))"
      by (rule store [OF keeps_store_ops(1) [OF box_freeD(1) [OF bf]]])
    show "preserves ?P (restore_internal_checkpoint E (wstore C) (spec_workspace_id spec) c)" for c
      unfolding restore_internal_checkpoint_def by (rule store [OF keeps_store_ops(3) [OF box_freeD(1) [OF bf]]])
    show "preserves ?P (guest_writes E (spec_workspace_id spec))" by (rule store [OF keeps_api_rpc(1) [OF bf]])
  qed (simp_all add: counter_free_def box_freeD [OF bf])
  then show "preserves ?P (create_sandbox E C spec)"
    unfolding create_sandbox_def create_admission_def by (auto simp: box_freeD [OF bf] intro!: preserves_intro)
qed

lemma keeps_api_boxes:
  fixes f :: "'z box_state_scheme \<Rightarrow> 'f"
  assumes bf: "box_free f"
  shows "keeps f (attach_runtime_usage E C r)" "keeps f (running_sandbox_id E C b)" "keeps f (ensure_runtime E C b)"
  unfolding attach_runtime_usage_def running_sandbox_id_def ensure_runtime_def rt_runtime_stats_def Let_def
  by (auto simp: box_freeD [OF bf] intro!: keeps_intro keeps_api_registry [OF bf] keeps_api_records [OF bf] keeps_api_sessions [OF bf])

lemma keeps_api_services:
  fixes f :: "'z box_state_scheme \<Rightarrow> 'f"
  assumes bf: "box_free f"
  shows "keeps f (start_box E C b)" "keeps f (stop_box E C b)" "keeps f (get_box E C b)"
  "keeps f (list_boxes E C)" "keeps f (shutdown_daemon E C)"
  unfolding start_box_def stop_box_def get_box_def list_boxes_def box_list_def box_read_path_def shutdown_daemon_def stop_box_for_shutdown_def decode_json_def Let_def
  by (auto simp: box_freeD [OF bf] intro!: keeps_intro keeps_api_registry [OF bf] keeps_api_records [OF bf] keeps_api_sessions [OF bf] keeps_api_boxes [OF bf] keeps_api_create [OF bf] split: prod.split json_file.split)

lemma keeps_api_guest_ops:
  fixes f :: "'z box_state_scheme \<Rightarrow> 'f"
  assumes bf: "box_free f"
  shows "keeps f (box_list_files E C b path)" "keeps f (box_read_file E C b path limit)"
  "keeps f (box_write_file E C b path data par)" "keeps f (box_make_dir E C b path rec)"
  "keeps f (box_remove_path E C b path rec)" "keeps f (box_exec E C b er)"
  "keeps f (box_open_shell E C b sr)" "keeps f (checkpoint_create E C b n md)"
  unfolding box_list_files_def box_read_file_def box_write_file_def box_make_dir_def box_remove_path_def
    box_exec_def box_open_shell_def checkpoint_create_def rt_list_files_def rt_read_file_def rt_write_file_def
    rt_make_dir_def rt_remove_path_def in_runtime_def
  by (auto simp: box_freeD [OF bf] intro!: keeps_intro keeps_api_boxes [OF bf] keeps_api_sessions [OF bf])

lemma keeps_api_checkpoints:
  fixes f :: "'z box_state_scheme \<Rightarrow> 'f"
  assumes bf: "box_free f"
  shows "keeps f (checkpoint_list E C b)" "keeps f (checkpoint_delete E C b c)" "keeps f (checkpoint_restore E C b c md)"
proof -
  have list: "keeps f (store_list_checkpoints E w)" for w
    by (auto simp: box_freeD [OF bf] intro!: keeps_wpI wp_intro simp: store_list_checkpoints_def list_checkpoints_def wp_simps split: sum.split)
  show "keeps f (checkpoint_list E C b)" "keeps f (checkpoint_delete E C b c)" "keeps f (checkpoint_restore E C b c md)"
    unfolding checkpoint_list_def checkpoint_delete_def checkpoint_restore_def Let_def
    by (auto simp: box_freeD [OF bf] intro!: keeps_intro list keeps_api_records [OF bf] keeps_api_services [OF bf] keeps_store_ops [OF box_freeD(1) [OF bf]])
qed

section \<open>Requests of a box principal\<close>

lemma bst_upd_conn [simp]: "bst us B V U X (upd_conn k f s) = bst us B V U X s" "bst us B V U X (s\<lparr>images := im\<rparr>) = bst us B V U X s"
  "bst us B V U X (s\<lparr>server_shutdown := q\<rparr>) = bst us B V U X s"
  by (simp_all add: upd_conn_def bst_def boxes_ok_def record_ok_def mine_def box_view_def sessions_on_def workspace_view_def)

lemma bst_send: "preserves (bst us B V U X) (send_server_message E k m)" "preserves (bst us B V U X) (send_event E k e)"
  "preserves (bst us B V U X) (send_response E k i r)"
  unfolding send_response_def send_event_def send_server_message_def by (auto intro!: preserves_intro)

lemma box_safe_bind:
  assumes "box_safe us B V U U' m" "\<And>a. preserves (bst us B V U' {}) (f a)"
  shows "box_safe us B V U U' (bindE m f)"
proof -
  have "wp (f a) (\<lambda>_. bst us B V U' {}) (\<lambda>_. bst us B V U' {}) t" if "bst us B V U' {} t" for a t
    by (rule wp_preserves [OF assms(2) that])
  then show ?thesis using assms(1) unfolding box_safe_def wp_bindE by (blast intro: wp_mono)
qed

lemma box_safe_seq: "box_safe us B V U U' m \<Longrightarrow> preserves (bst us B V U' {}) n \<Longrightarrow> box_safe us B V U U' (seqE m n)"
  unfolding seqE_def by (rule box_safe_bind)

lemma box_safe_keep_open: "box_safe us B V U U' m \<Longrightarrow> box_safe us B V U U' (keep_open m)"
  unfolding keep_open_def by (rule box_safe_seq) (auto intro!: preserves_intro)

lemma box_safe_guard:
  assumes "\<And>x. r = Inr x \<Longrightarrow> box_safe us B V U U' (f x)" "U \<subseteq> U'"
  shows "box_safe us B V U U' (bindE (liftE r) f)"
proof (cases r)
  case (Inl e)
  then show ?thesis using assms(2) by (auto simp: box_safe_def wp_simps intro: bst_more)
next
  case (Inr x)
  then show ?thesis using assms(1) [OF Inr] by (auto simp: box_safe_def wp_simps)
qed

lemma box_safe_guard_seq:
  "(\<And>x. r = Inr x \<Longrightarrow> box_safe us B V U U' m) \<Longrightarrow> U \<subseteq> U' \<Longrightarrow> box_safe us B V U U' (seqE (liftE r) m)"
  unfolding seqE_def by (rule box_safe_guard)

lemma authorize_box_Inr: "authorize_box E (Box p) b = Inr x \<longleftrightarrow> p = b"
  by auto

lemma box_safe_shell_call: "b \<in> B \<Longrightarrow> box_safe (uuid_string E) B V U U (shell_call E b c)"
  unfolding shell_call_def by (rule box_safe_preserves [OF bst_rpc_call])

lemma box_safe_shell_handle:
  assumes "box_safe us B V U U' (f p)" "U \<subseteq> U'"
  shows "box_safe us B V U U' (bindE (shell_handle E k (Box p) u) f)"
  using assms(1) bst_more [OF _ assms(2)]
  by (auto simp: box_safe_def shell_handle_def wp_simps split: option.split)

lemma box_safe_remove_shell:
  assumes "box_safe us B V U U' (f (Some p))" "box_safe us B V U U' (f None)" "U \<subseteq> U'"
  shows "box_safe us B V U U' (bindE (remove_shell E k (Box p) u) f)"
  using assms(1,2) bst_more [OF _ assms(3)]
  by (auto simp: box_safe_def remove_shell_def wp_simps split: option.split)

lemma box_safe_fail:
  assumes "U \<subseteq> U'"
  shows "box_safe us B V U U' (seqE (liftE (require_admin (Box p))) m)" "box_safe us B V U U' (bindE (liftE (require_admin (Box p))) f)"
  by (rule box_safe_guard_seq [OF _ assms], simp) (rule box_safe_guard [OF _ assms], simp)

text \<open>An operation followed by the bookkeeping of the connection and the response.\<close>

lemma box_safe_then_send:
  assumes "box_safe us B V U U' m"
  shows "box_safe us B V U U' (bindE m (\<lambda>a. send_response E k (i a) (x a)))" "box_safe us B V U U' (seqE m (send_response E k j y))"
    "box_safe us B V U U' (bindE m (\<lambda>a. seqE (modifyE (upd_conn k (g a))) (send_response E k (i a) (x a))))"
  by (auto intro!: box_safe_bind [OF assms] box_safe_seq [OF assms] bst_send preserves_intro split: prod.split)

lemma box_safe_then_note:
  "box_safe us B V U U' m \<Longrightarrow> box_safe us B V U U' (bindE m (\<lambda>(a, q). modifyE (upd_conn k (g a))))"
  by (auto intro!: box_safe_bind preserves_intro split: prod.split)

lemma box_safe_dispatch:
  assumes "range (uuid_at E) \<inter> U = {}"
  shows "box_safe (uuid_string E) {b} V U (U \<union> range (uuid_at E)) (dispatch_request E A k (Box b) r)"
proof -
  let ?U = "U \<union> range (uuid_at E)"
  have sub: "U \<subseteq> ?U" by simp
  note here = box_safe_more [OF _ sub]
  have alone: "box_safe (uuid_string E) {b} V U ?U (send_response E k i x)" "box_safe (uuid_string E) {b} V U ?U (returnE ())" for i x
    by (auto intro!: here box_safe_preserves bst_send preserves_intro)
  note ops = here [OF box_safe_ops(1)] here [OF box_safe_guest_ops(1)] here [OF box_safe_guest_ops(2)] here [OF box_safe_guest_ops(3)]
    here [OF box_safe_guest_ops(4)] here [OF box_safe_guest_ops(5)] here [OF box_safe_guest_ops(6)] here [OF box_safe_guest_ops(7)]
    here [OF box_safe_guest_ops(8)] here [OF box_safe_checkpoint_ops(1)] here [OF box_safe_checkpoint_ops(2)] here [OF box_safe_shell_call]
    box_safe_restore [OF _ assms]
  show ?thesis
    by (cases r)
      (auto simp: dispatch_exec_def dispatch_open_shell_def dispatch_issue_def api_create_checkpoint_def api_list_checkpoints_def
          api_restore_checkpoint_def api_fork_checkpoint_def api_delete_checkpoint_def authorize_box_Inr split_beta
        simp del: require_admin.simps authorize_box.simps
        intro!: box_safe_keep_open box_safe_fail box_safe_guard_seq box_safe_guard box_safe_shell_handle box_safe_remove_shell
          box_safe_then_send box_safe_then_note alone ops)
qed

text \<open>
  What a request on connection \<open>k\<close> must leave to the other connections and to the
  administrators; the principal of the connection itself included.
\<close>

definition api_others :: "nat \<Rightarrow> 'z api_state_scheme \<Rightarrow> admin_registry json_file option \<times> box_credential_registry json_file option \<times>
    (string \<times> vm_image_manifest json_file option) list \<times> (nat \<Rightarrow> connection) \<times> bool" where
  "api_others k s = (admin_file s, box_credential_file s, images s,
     (conns s)(k := new_connection\<lparr>conn_principal := conn_principal (conns s k)\<rparr>), server_shutdown s)"

lemma api_others_eq:
  "api_others k t = api_others k s \<longleftrightarrow> admin_file t = admin_file s \<and> box_credential_file t = box_credential_file s \<and>
     images t = images s \<and> (\<forall>j. j \<noteq> k \<longrightarrow> conns t j = conns s j) \<and> conn_principal (conns t k) = conn_principal (conns s k) \<and>
     server_shutdown t = server_shutdown s"
  by (auto simp: api_others_def new_connection_def fun_eq_iff)

lemma box_free_others [simp]: "box_free (api_others k)"
  by (simp add: box_free_def store_free_def api_others_def)

lemma counter_free_others [simp]: "counter_free (api_others k)"
  by (rule box_freeD) simp

lemma api_others_upd [simp]: "(\<And>c. conn_principal (f c) = conn_principal c) \<Longrightarrow> api_others k (upd_conn k f s) = api_others k s"
  by (auto simp: api_others_def upd_conn_def)

lemma keeps_send: "keeps (api_others k) (send_server_message E k m)" "keeps (api_others k) (send_event E k e)"
  "keeps (api_others k) (send_response E k i r)"
  unfolding send_response_def send_event_def send_server_message_def by (auto intro!: keeps_intro)

lemma keeps_shells: "keeps (api_others k) (shell_handle E k p u)" "keeps (api_others k) (remove_shell E k p u)"
    "keeps (api_others k) (shell_call E b c)"
  unfolding shell_handle_def remove_shell_def shell_call_def
  by (auto intro!: keeps_intro keeps_api_rpc(2) [OF box_free_others])

lemma admin_refused:
  "seqE (liftE (require_admin (Box b))) m = throwE (Conflict ''admin authentication required for this websocket command'')"
  "bindE (liftE (require_admin (Box b))) f = throwE (Conflict ''admin authentication required for this websocket command'')"
  by (simp_all add: io_defs)

lemma keeps_box_dispatch: "keeps (api_others k) (dispatch_request E A k (Box b) r)"
  by (cases r)
    (auto simp: keep_open_def dispatch_exec_def dispatch_open_shell_def dispatch_issue_def api_create_checkpoint_def api_list_checkpoints_def
        api_restore_checkpoint_def api_fork_checkpoint_def api_delete_checkpoint_def admin_refused
      simp del: require_admin.simps authorize_box.simps
      intro!: keeps_intro keeps_send keeps_shells keeps_api_services(3) [OF box_free_others] keeps_api_guest_ops [OF box_free_others]
        keeps_api_checkpoints [OF box_free_others] split: prod.split)


lemma wp_True: "wp m (\<lambda>_ _. True) (\<lambda>_ _. True) s"
  by (auto simp: wp_def split: prod.split sum.split)

lemma box_dispatch_keeps_open: "wp (dispatch_request E A k (Box b) r) (\<lambda>a _. a = KeepOpen) (\<lambda>_ _. True) s"
proof -
  have ko: "wp (keep_open m) (\<lambda>a _. a = KeepOpen) (\<lambda>_ _. True) s" for m :: "('z api_state_scheme, unit) io" and s
    unfolding keep_open_def by (simp add: wp_simps) (rule wp_mono [OF wp_True], simp_all add: wp_simps)
  show ?thesis by (cases r) (auto simp: ko admin_refused wp_simps simp del: require_admin.simps)
qed

lemma wp_box_request:
  assumes "conn_principal (conns s k) = Some (Box b)" "preserves P (dispatch_request E A k (Box b) r)" "P s"
    and "\<And>e. preserves P (send_event E k e)"
  shows "wp (handle_request E A k r) (\<lambda>a t. a = False \<and> P t) (\<lambda>_ t. P t) s"
proof -
  have "wp (dispatch_request E A k (Box b) r) (\<lambda>a t. a = KeepOpen \<and> P t) (\<lambda>_. P) s"
    by (rule wp_mono [OF wp_conj [OF box_dispatch_keeps_open wp_preserves [where P = P and Q = "\<lambda>_. P" and R = "\<lambda>_. P"]]])
       (use assms(2,3) in auto)
  then show ?thesis
    unfolding handle_request_def
    by (simp add: wp_simps assms(1))
       (erule wp_mono, auto simp: wp_simps split: failure.split intro!: wp_preserves [OF assms(4)])
qed

text \<open>
  A connection that authenticated with the credentials of one box reaches that box only.
  Whatever it requests, and however the host and the guests behave, every other box keeps its
  registry entry, its running sandbox, its disk and its checkpoints; the administrators, the
  credentials of all boxes, the images and the other connections are untouched, the server
  keeps running, and the connection neither gains another identity nor is dropped.
\<close>

theorem box_principal_confined:
  assumes "conn_principal (conns s k) = Some (Box b)"
    and "boxes_ok (uuid_string E) U s" "inj (uuid_string E)" "range (uuid_at E) \<inter> U = {}"
  shows "case handle_request E A k r s of (res, t) \<Rightarrow>
    (\<forall>c. c \<noteq> b \<longrightarrow> box_view (uuid_string E) t c = box_view (uuid_string E) s c) \<and>
    admin_file t = admin_file s \<and> box_credential_file t = box_credential_file s \<and> images t = images s \<and>
    (\<forall>j. j \<noteq> k \<longrightarrow> conns t j = conns s j) \<and> conn_principal (conns t k) = Some (Box b) \<and>
    server_shutdown t = server_shutdown s \<and> res \<noteq> Inr True"
proof -
  let ?P = "\<lambda>t. api_others k t = api_others k s"
  let ?B = "bst (uuid_string E) {b} (box_view (uuid_string E) s) (U \<union> range (uuid_at E)) {}"
  have frame: "wp (handle_request E A k r) (\<lambda>a t. a = False \<and> ?P t) (\<lambda>_. ?P) s"
    by (rule wp_box_request [OF assms(1)])
       (auto simp: preserves_def keepsD [OF keeps_box_dispatch] keepsD [OF keeps_send(2)])
  have "bst (uuid_string E) {b} (box_view (uuid_string E) s) U {} s" using assms(2,3) by (simp add: bst_def)
  then have "wp (dispatch_request E A k (Box b) r) (\<lambda>_. ?B) (\<lambda>_. ?B) s"
    using box_safe_dispatch [OF assms(4), unfolded box_safe_def] by blast
  then have views: "wp (handle_request E A k r) (\<lambda>_. ?B) (\<lambda>_. ?B) s"
    unfolding handle_request_def
    by (simp add: wp_simps assms(1))
       (erule wp_mono, auto simp: wp_simps split: failure.split connection_action.split intro!: wp_preserves [OF bst_send(2)])
  obtain res t where run: "handle_request E A k r s = (res, t)" by fastforce
  have "api_others k t = api_others k s" "res \<noteq> Inr True" using frame run by (auto simp: wp_def split: sum.splits)
  moreover have "?B t" using views run by (auto simp: wp_def split: sum.splits)
  ultimately show ?thesis using run assms(1) by (auto simp: api_others_eq bst_def)
qed

section \<open>Frames of the administrators' operations\<close>

definition api_free :: "('z api_state_scheme \<Rightarrow> 'f) \<Rightarrow> bool" where
  "api_free f \<longleftrightarrow> box_free f \<and> (\<forall>s x. f (s\<lparr>images := x\<rparr>) = f s) \<and> (\<forall>s x. f (s\<lparr>regular_files := x\<rparr>) = f s) \<and> (\<forall>s x. f (s\<lparr>admin_file := x\<rparr>) = f s) \<and>
     (\<forall>s x. f (s\<lparr>box_credential_file := x\<rparr>) = f s)"

lemma api_freeD:
  assumes "api_free f"
  shows "box_free f" "counter_free f" "f (s\<lparr>images := i\<rparr>) = f s" "f (s\<lparr>regular_files := rf\<rparr>) = f s" "f (s\<lparr>images := i, regular_files := rf\<rparr>) = f s" "f (s\<lparr>admin_file := a\<rparr>) = f s" "f (s\<lparr>box_credential_file := c\<rparr>) = f s"
proof -
  have "f ((s\<lparr>images := i\<rparr>)\<lparr>regular_files := rf\<rparr>) = f s" using assms by (simp only: api_free_def)
  then show "f (s\<lparr>images := i, regular_files := rf\<rparr>) = f s" by simp
qed (use assms in \<open>simp_all add: api_free_def box_freeD\<close>)

lemma keeps_api_manage:
  fixes f :: "'z api_state_scheme \<Rightarrow> 'f"
  assumes bf: "api_free f"
  shows "keeps f (create_box_from_image E C img)" "keeps f (remove_box E C b)" "keeps f (set_box_setting E C b v)" "keeps f (checkpoint_fork E C b c n)"
proof -
  note b = api_freeD(1) [OF bf]
  have set: "keeps f (apply_setting E C b st v)" for st
    by (cases v) (auto simp: box_freeD [OF b] intro!: keeps_intro keeps_store_ops [OF box_freeD(1) [OF b]])
  have new: "keeps f (create_box_record E C n img st)" for n img st
    unfolding create_box_record_def
    by (auto simp: box_freeD [OF b] intro!: keeps_intro keeps_store_ops [OF box_freeD(1) [OF b]] keeps_api_records [OF b] keeps_api_registry [OF b])
  show "keeps f (create_box_from_image E C img)" "keeps f (remove_box E C b)" "keeps f (set_box_setting E C b v)" "keeps f (checkpoint_fork E C b c n)"
    unfolding create_box_from_image_def remove_box_def set_box_setting_def checkpoint_fork_def Let_def
    by (auto simp: box_freeD [OF b] intro!: keeps_intro set new keeps_api_services [OF b] keeps_store_ops [OF box_freeD(1) [OF b]] keeps_api_records [OF b] keeps_api_registry [OF b])
qed

lemma keeps_api_admin:
  fixes f :: "'z api_state_scheme \<Rightarrow> 'f"
  assumes bf: "api_free f"
  shows "keeps f (admin_add_admin E p e)" "keeps f (admin_remove_admin E p u)" "keeps f (box_issue E p e b)"
    "keeps f (admin_authenticate E p u t)" "keeps f (box_authenticate E p b t)"
  unfolding admin_add_admin_def admin_remove_admin_def box_issue_def admin_authenticate_def box_authenticate_def
    admin_read_registry_def admin_write_registry_def box_read_registry_def box_write_registry_def decode_json_def
    generate_token_def new_record_def write_private_file_def open_private_file_truncate_def ensure_private_dir_def make_private_dir_def Let_def
  by (auto simp: api_freeD [OF bf] intro!: keeps_intro split: json_file.split)

lemma keeps_api_images:
  fixes f :: "'z api_state_scheme \<Rightarrow> 'f"
  assumes bf: "api_free f"
  shows "keeps f (image_list E d)" "keeps f (image_inspect E d n)" "keeps f (image_remove E d n)"
  unfolding image_remove_def
  by (auto simp: api_freeD [OF bf] intro!: keeps_intro)

section \<open>Every request is answered once\<close>

definition sent :: "nat \<Rightarrow> 'z api_state_scheme \<Rightarrow> server_message list" where
  "sent k s = conn_sent (conns s k)"

lemma api_free_sent [simp]: "api_free (sent k)"
  by (simp add: api_free_def box_free_def store_free_def sent_def)

lemma sent_upd [simp]: "(\<And>c. conn_sent (f c) = conn_sent c) \<Longrightarrow> sent k (upd_conn k f s) = sent k s"
  by (simp add: sent_def upd_conn_def)

text \<open>Success means one response of the right kind under the request's id, failure none.\<close>

definition answers :: "nat \<Rightarrow> string \<Rightarrow> (box_response \<Rightarrow> bool) \<Rightarrow> ('z api_state_scheme, 'a) io \<Rightarrow> bool" where
  "answers k i P m \<longleftrightarrow> (\<forall>s. wp m (\<lambda>_ t. \<exists>x. P x \<and> sent k t = sent k s @ [Event (Response i x)]) (\<lambda>_ t. sent k t = sent k s) s)"

lemma answers_send: "no_faults E \<Longrightarrow> P x \<Longrightarrow> answers k i P (send_response E k i x)"
  unfolding answers_def send_response_def send_event_def send_server_message_def
  by (auto simp: wp_simps intro!: wp_total) (simp add: sent_def upd_conn_def)

lemma answers_bind:
  assumes "keeps (sent k) m" "\<And>a. answers k i P (f a)"
  shows "answers k i P (bindE m f)"
proof -
  have "wp m (\<lambda>_ t. sent k t = sent k s) (\<lambda>_ t. sent k t = sent k s) s" for s
    using keepsD [OF assms(1)] by (simp add: wp_snd)
  moreover have "wp (f a) (\<lambda>_ t'. \<exists>x. P x \<and> sent k t' = sent k s @ [Event (Response i x)]) (\<lambda>_ t'. sent k t' = sent k s) t" if "sent k t = sent k s" for a s t
    using assms(2) [of a, unfolded answers_def, THEN spec, of t] unfolding that .
  ultimately show ?thesis
    unfolding answers_def wp_bindE by (blast intro: wp_mono)
qed

lemma answers_seq: "keeps (sent k) m \<Longrightarrow> answers k i P n \<Longrightarrow> answers k i P (seqE m n)"
  unfolding seqE_def by (rule answers_bind)

lemma answers_end: "answers k i P m \<Longrightarrow> answers k i P (seqE m (returnE a))"
  unfolding answers_def wp_seqE by (auto simp: wp_returnE intro: wp_mono)

lemma answers_throw: "answers k i P (throwE e)"
  by (simp add: answers_def wp_simps)

lemma answers_keep_open: "answers k i P m \<Longrightarrow> answers k i P (keep_open m)"
  unfolding keep_open_def by (rule answers_end)

lemma keeps_sent_shells: "keeps (sent k) (shell_handle E k p u)" "keeps (sent k) (remove_shell E k p u)" "keeps (sent k) (shell_call E b c)"
  unfolding shell_handle_def remove_shell_def shell_call_def
  by (auto intro!: keeps_intro keeps_api_rpc(2) [OF api_freeD(1) [OF api_free_sent]])

lemma wp_exec_noted:
  "wp (dispatch_exec E A k p i b q) (\<lambda>_ t. sent k t = sent k s \<and> (\<exists>u. conn_execs (conns t k) = conn_execs (conns s k) @ [(i, u)]))
     (\<lambda>_ t. sent k t = sent k s) s"
proof -
  let ?f = "\<lambda>s. (sent k s, conn_execs (conns s k))"
  have bf: "box_free ?f" by (simp add: box_free_def store_free_def sent_def)
  have "wp (box_exec E C b q) (\<lambda>_ t. ?f t = ?f s) (\<lambda>_ t. ?f t = ?f s) s" for C
    using keepsD [OF keeps_api_guest_ops(6) [OF bf]] by (simp add: wp_snd)
  then show ?thesis
    unfolding dispatch_exec_def
    by (auto simp: wp_simps sent_def upd_conn_def split: sum.split intro!: wp_mono [OF \<open>\<And>C. wp (box_exec E C b q) _ _ s\<close>])
qed

fun is_exec :: "box_request \<Rightarrow> bool" where
  "is_exec (ReqExecBash _ _ _ _ _) = True"
| "is_exec (ReqExecPython _ _ _ _ _) = True"
| "is_exec _ = False"

text \<open>The kind of response the protocol has for a request; a command is answered by events instead.\<close>

fun response_kind :: "box_request \<Rightarrow> box_response \<Rightarrow> bool" where
  "response_kind (ReqPing _) x \<longleftrightarrow> x = Pong"
| "response_kind (ReqListBoxes _) x \<longleftrightarrow> (\<exists>bs. x = BoxList bs)"
| "response_kind (ReqGetBox _ _) x \<longleftrightarrow> (\<exists>b. x = BoxResp b)"
| "response_kind (ReqNewBox _ _) x \<longleftrightarrow> (\<exists>b. x = BoxResp b)"
| "response_kind (ReqImageBuild _ _ _ _ _ _ _) x \<longleftrightarrow> (\<exists>m. x = ImageResp m)"
| "response_kind (ReqImageList _) x \<longleftrightarrow> (\<exists>ms. x = ImageListResp ms)"
| "response_kind (ReqImageInspect _ _) x \<longleftrightarrow> (\<exists>m. x = ImageResp m)"
| "response_kind (ReqImageRemove _ _) x \<longleftrightarrow> (\<exists>n. x = ImageRemoved n)"
| "response_kind (ReqStartBox _ _) x \<longleftrightarrow> (\<exists>b. x = BoxResp b)"
| "response_kind (ReqStopBox _ _) x \<longleftrightarrow> (\<exists>b. x = BoxResp b)"
| "response_kind (ReqRemoveBox _ b) x \<longleftrightarrow> x = BoxRemoved b"
| "response_kind (ReqSetBoxSetting _ _ _) x \<longleftrightarrow> (\<exists>b. x = BoxResp b)"
| "response_kind (ReqOpenShell _ b _) x \<longleftrightarrow> (\<exists>u. x = ShellOpened u b)"
| "response_kind (ReqFsList _ _ p) x \<longleftrightarrow> (\<exists>es. x = Files p es)"
| "response_kind (ReqFsRead _ _ _ _) x \<longleftrightarrow> (\<exists>f. x = FileResp f)"
| "response_kind (ReqCheckpointCreate _ _ _ _) x \<longleftrightarrow> (\<exists>c. x = CheckpointResp c)"
| "response_kind (ReqCheckpointList _ _) x \<longleftrightarrow> (\<exists>cs. x = CheckpointListResp cs)"
| "response_kind (ReqCheckpointRestore _ _ _ _) x \<longleftrightarrow> (\<exists>c. x = CheckpointResp c)"
| "response_kind (ReqCheckpointFork _ _ _ _) x \<longleftrightarrow> (\<exists>b. x = BoxResp b)"
| "response_kind (ReqAdminAdd _) x \<longleftrightarrow> (\<exists>b. x = AdminAdded b)"
| "response_kind (ReqBoxIssueCredentials _ _) x \<longleftrightarrow> (\<exists>b. x = BoxCredentials b)"
| "response_kind _ x \<longleftrightarrow> x = AckResp"

lemma answers_dispatch:
  assumes "no_faults E" "\<not> is_exec r"
  shows "answers k (request_id r) (response_kind r) (dispatch_request E A k p r)"
proof -
  note b = api_freeD(1) [OF api_free_sent]
  note ops = keeps_api_services [OF b] keeps_api_guest_ops [OF b] keeps_api_checkpoints [OF b] keeps_api_manage [OF api_free_sent]
    keeps_api_admin [OF api_free_sent] keeps_api_images [OF api_free_sent] keeps_sent_shells
  have lift: "keeps (sent k) (liftE x)" for x by (rule keeps_liftE)
  have book: "keeps (sent k) (modifyE (upd_conn k f))" if "\<And>c. conn_sent (f c) = conn_sent c" for f
    using that by (auto intro!: keeps_intro)
  have img: "keeps (sent k) (ask g)" "keeps (sent k) (sys_backend E c)" "keeps (sent k) (modifyE (\<lambda>s. s\<lparr>images := f1 s, regular_files := f2 s\<rparr>))" for g c f1 f2
    by (auto simp: api_freeD [OF api_free_sent] intro!: keeps_intro)
  show ?thesis
    using assms(2)
    by (cases r)
      (auto simp: assms(1) dispatch_open_shell_def dispatch_issue_def api_create_checkpoint_def api_list_checkpoints_def
          api_restore_checkpoint_def api_fork_checkpoint_def api_delete_checkpoint_def build_image_def list_images_def inspect_image_def remove_image_def Let_def
        split: option.split
        intro!: answers_keep_open answers_send answers_bind answers_seq answers_end answers_throw ops lift book img keeps_returnE)
qed

definition answer_to :: "string \<Rightarrow> box_event \<Rightarrow> bool" where
  "answer_to i e \<longleftrightarrow> (\<exists>x. e = Response i x) \<or> (\<exists>m. e = ErrorEv (Some i) m)"

lemma wp_send_error:
  "no_faults E \<Longrightarrow> wp (send_event E k (ErrorEv (Some i) m)) (\<lambda>_ t. sent k t = sent k s @ [Event (ErrorEv (Some i) m)]) R s"
  unfolding send_event_def send_server_message_def by (auto simp: wp_simps intro!: wp_total) (simp add: sent_def upd_conn_def)

text \<open>
  C29: as long as the connection can be written to, every request is answered exactly once and
  under its own id, with the response or with the error; a command that was started is
  answered by its own stream of events, for which a forwarding task is registered. The
  handler never fails otherwise, it could only panic.
\<close>

theorem requests_answered_once:
  assumes "no_faults E"
  shows "case handle_request E A k r s of
     (Inr _, t) \<Rightarrow> (\<exists>e. sent k t = sent k s @ [Event e] \<and> answer_to (request_id r) e) \<or>
        is_exec r \<and> sent k t = sent k s \<and> (\<exists>u. conn_execs (conns t k) = conn_execs (conns s k) @ [(request_id r, u)])
   | (Inl x, t) \<Rightarrow> x = Panic \<and> sent k t = sent k s"
proof -
  let ?Q = "\<lambda>t. (\<exists>e. sent k t = sent k s @ [Event e] \<and> answer_to (request_id r) e) \<or>
        is_exec r \<and> sent k t = sent k s \<and> (\<exists>u. conn_execs (conns t k) = conn_execs (conns s k) @ [(request_id r, u)])"
  have err: "wp (send_event E k (ErrorEv (Some (request_id r)) m)) (\<lambda>_. wp (returnE c) (\<lambda>_. ?Q) R') R t"
    if "sent k t = sent k s" for m R R' t and c :: bool
    by (rule wp_mono [OF wp_send_error [OF assms, where R = R]]) (auto simp: that answer_to_def wp_simps)
  have disp: "wp (dispatch_request E A k p r) (\<lambda>_. ?Q) (\<lambda>_ t. sent k t = sent k s) s" for p
  proof (cases "is_exec r")
    case False
    then show ?thesis
      using answers_dispatch [OF assms False, of k A p] unfolding answers_def
      by (auto simp: answer_to_def elim!: allE [of _ s] wp_mono)
  next
    case True
    have "wp (keep_open (dispatch_exec E A k p (request_id r) b q)) (\<lambda>_. ?Q) (\<lambda>_ t. sent k t = sent k s) s" for b q
      unfolding keep_open_def wp_seqE by (rule wp_mono [OF wp_exec_noted]) (auto simp: wp_simps True)
    then show ?thesis using True by (cases r) auto
  qed
  have shut: "?Q (t\<lparr>server_shutdown := True\<rparr>) = ?Q t" for t by (simp add: sent_def)
  have "wp (handle_request E A k r) (\<lambda>_. ?Q) (\<lambda>x t. x = Panic \<and> sent k t = sent k s) s"
  proof (cases "conn_principal (conns s k)")
    case None
    show ?thesis unfolding handle_request_def by (simp add: wp_simps None err)
  next
    case (Some p)
    show ?thesis unfolding handle_request_def
      by (simp add: wp_simps Some) (rule wp_mono [OF disp], auto simp: wp_simps shut [simplified] split: failure.split connection_action.split intro!: err)
  qed
  then show ?thesis by (auto simp: wp_def split: prod.splits sum.splits)
qed

section \<open>Authentication\<close>

text \<open>
  Before it has authenticated, a connection can do nothing. A request is answered with
  "authentication required" under its id and the connection stays open; nothing else of the
  state changes, even when the answer cannot be sent.
\<close>

theorem unauthenticated_request_refused:
  assumes "conn_principal (conns s k) = None"
  shows "case handle_message E A k (Request r) s of
     (Inr close, t) \<Rightarrow> \<not> close \<and> t\<lparr>calls := calls s\<rparr> = upd_conn k (\<lambda>c. c\<lparr>conn_sent := conn_sent c @
         [Event (ErrorEv (Some (request_id r)) ''authentication required'')]\<rparr>) s
   | (Inl _, t) \<Rightarrow> t\<lparr>calls := calls s\<rparr> = s"
proof -
  have "wp (handle_message E A k (Request r)) (\<lambda>close t. \<not> close \<and> t\<lparr>calls := calls s\<rparr> = upd_conn k (\<lambda>c. c\<lparr>conn_sent := conn_sent c @
         [Event (ErrorEv (Some (request_id r)) ''authentication required'')]\<rparr>) s) (\<lambda>_ t. t\<lparr>calls := calls s\<rparr> = s) s"
    using assms unfolding handle_message.simps handle_request_def send_event_def send_server_message_def
    by (auto simp: wp_simps upd_conn_def intro!: wp_intro)
  then show ?thesis by (auto simp: wp_def split: prod.splits sum.splits)
qed

definition identity :: "nat \<Rightarrow> 'z api_state_scheme \<Rightarrow> principal option" where
  "identity k s = conn_principal (conns s k)"

lemma api_free_identity [simp]: "api_free (identity k)"
  by (simp add: api_free_def box_free_def store_free_def identity_def)

lemma identity_upd [simp]: "(\<And>c. conn_principal (f c) = conn_principal c) \<Longrightarrow> identity k (upd_conn k f s) = identity k s"
  by (simp add: identity_def upd_conn_def)

lemma keeps_identity_send: "keeps (identity k) (send_server_message E k m)" "keeps (identity k) (send_event E k e)"
  "keeps (identity k) (send_response E k i r)"
  unfolding send_response_def send_event_def send_server_message_def by (auto simp: api_freeD [OF api_free_identity] intro!: keeps_intro)

lemma keeps_identity_request: "keeps (identity k) (handle_request E A k r)"
proof -
  note b = api_freeD(1) [OF api_free_identity]
  note ops = keeps_api_services [OF b] keeps_api_guest_ops [OF b] keeps_api_checkpoints [OF b] keeps_api_manage [OF api_free_identity]
    keeps_api_admin [OF api_free_identity] keeps_api_images [OF api_free_identity] keeps_identity_send
  have shells: "keeps (identity k) (shell_handle E k p u)" "keeps (identity k) (remove_shell E k p u)" "keeps (identity k) (shell_call E b c)" for p u b c
    unfolding shell_handle_def remove_shell_def shell_call_def by (auto intro!: keeps_intro keeps_api_rpc(2) [OF b])
  have "keeps (identity k) (dispatch_request E A k p r)" for p
    by (cases r)
      (auto simp: keep_open_def dispatch_exec_def dispatch_open_shell_def dispatch_issue_def api_create_checkpoint_def api_list_checkpoints_def
          api_restore_checkpoint_def api_fork_checkpoint_def api_delete_checkpoint_def build_image_def list_images_def inspect_image_def remove_image_def Let_def
          api_freeD [OF api_free_identity]
        intro!: keeps_intro ops shells split: prod.split)
  then show ?thesis
    unfolding handle_request_def
    by (auto simp: identity_def intro!: keeps_intro ops split: connection_action.split)
qed

lemma wp_auth_identity:
  "wp (admin_authenticate E path u tok) (\<lambda>ok t. ok = admin_live E s u tok \<and> identity k t = identity k s) (\<lambda>_ t. identity k t = identity k s) s"
  "wp (box_authenticate E path b tok) (\<lambda>ok t. ok = box_live E s b tok \<and> identity k t = identity k s) (\<lambda>_ t. identity k t = identity k s) s"
proof -
  have "wp (admin_authenticate E path u tok) (\<lambda>_ t. identity k t = identity k s) (\<lambda>_ t. identity k t = identity k s) s"
    "wp (box_authenticate E path b tok) (\<lambda>_ t. identity k t = identity k s) (\<lambda>_ t. identity k t = identity k s) s"
    by (simp_all add: wp_snd keepsD [OF keeps_api_admin(4) [OF api_free_identity]] keepsD [OF keeps_api_admin(5) [OF api_free_identity]])
  then show "wp (admin_authenticate E path u tok) (\<lambda>ok t. ok = admin_live E s u tok \<and> identity k t = identity k s) (\<lambda>_ t. identity k t = identity k s) s"
    "wp (box_authenticate E path b tok) (\<lambda>ok t. ok = box_live E s b tok \<and> identity k t = identity k s) (\<lambda>_ t. identity k t = identity k s) s"
    by (auto intro: wp_mono [OF wp_conj [OF wp_admin_authenticate [of E path u tok s]]] wp_mono [OF wp_conj [OF wp_box_authenticate [of E path b tok s]]])
qed

text \<open>
  C28: a connection acts under an identity only after it presented credentials that were live
  at that moment: no message changes the principal of the connection, except a successful
  authentication, which changes it to exactly the admin or the box whose token was presented.
\<close>

theorem authentication_sound:
  "case handle_message E A k m s of (_, t) \<Rightarrow>
     identity k t = identity k s \<or>
     (\<exists>u tok. m = AuthenticateAdmin u tok \<and> admin_live E s u tok \<and> identity k t = Some (Admin u)) \<or>
     (\<exists>b tok. m = AuthenticateBox b tok \<and> box_live E s b tok \<and> identity k t = Some (Box b))"
proof -
  let ?Q = "\<lambda>t. identity k t = identity k s \<or>
     (\<exists>u tok. m = AuthenticateAdmin u tok \<and> admin_live E s u tok \<and> identity k t = Some (Admin u)) \<or>
     (\<exists>b tok. m = AuthenticateBox b tok \<and> box_live E s b tok \<and> identity k t = Some (Box b))"
  have "?Q (snd (handle_message E A k m s))"
  proof (cases m)
    case (Request r)
    then show ?thesis using keepsD [OF keeps_identity_request] by simp
  next
    case (AuthenticateAdmin u tok)
    have "wp (authenticate_admin E A k u tok) (\<lambda>_. ?Q) (\<lambda>_. ?Q) s"
      unfolding authenticate_admin_def wp_bindE
      by (rule wp_mono [OF wp_auth_identity(1)])
         (auto simp: wp_simps AuthenticateAdmin set_principal_def send_event_def send_server_message_def identity_def upd_conn_def intro!: wp_intro)
    then show ?thesis by (simp add: AuthenticateAdmin wp_snd)
  next
    case (AuthenticateBox b tok)
    have "wp (authenticate_box E A k b tok) (\<lambda>_. ?Q) (\<lambda>_. ?Q) s"
      unfolding authenticate_box_def wp_bindE
      by (rule wp_mono [OF wp_auth_identity(2)])
         (auto simp: wp_simps AuthenticateBox set_principal_def send_event_def send_server_message_def identity_def upd_conn_def intro!: wp_intro)
    then show ?thesis by (simp add: AuthenticateBox wp_snd)
  qed
  then show ?thesis by (auto split: prod.splits)
qed

section \<open>Streams and shells\<close>

fun exec_message :: "'e api_env_scheme \<Rightarrow> string \<Rightarrow> execution_event \<Rightarrow> server_message" where
  "exec_message E i (Output st d) = Event (ExecOutput i st (b64_encode (api_wire E) d))"
| "exec_message E i (Exit x) = Event (ExecExit i x)"

text \<open>What the client makes of the messages of one command.\<close>

fun exec_event_of :: "'e api_env_scheme \<Rightarrow> server_message \<Rightarrow> execution_event option" where
  "exec_event_of E (Event (ExecOutput i st data)) = (case b64_decode (api_wire E) data of Inr d \<Rightarrow> Some (Output st d) | Inl _ \<Rightarrow> None)"
| "exec_event_of E (Event (ExecExit i x)) = Some (Exit x)"
| "exec_event_of E _ = None"

lemma wp_spawn_exec_stream:
  fixes s :: "'z api_state_scheme"
  assumes "no_faults E"
  shows "wp (spawn_exec_stream E k i evs) (\<lambda>_ t. sent k t = sent k s @ map (exec_message E i) (forwarded evs)) (\<lambda>_ _. False) s"
proof (induction evs arbitrary: s rule: forwarded.induct)
  case (2 st d evs)
  have IH: "wp (spawn_exec_stream E k i evs) (\<lambda>_ t'. sent k t' = sent k s @ exec_message E i (Output st d) # map (exec_message E i) (forwarded evs)) (\<lambda>_ _. False) t"
    if "sent k t = sent k s @ [exec_message E i (Output st d)]" for t :: "'z api_state_scheme"
    by (rule wp_mono [OF 2]) (auto simp: that)
  have sent: "sent k (upd_conn k (\<lambda>c. c\<lparr>conn_sent := conn_sent c @ [x]\<rparr>) (s\<lparr>calls := n\<rparr>)) = sent k s @ [x]" for x n
    by (simp add: sent_def upd_conn_def)
  show ?case
    by (auto simp: wp_simps assms send_event_def send_server_message_def intro!: wp_total IH [simplified] sent)
qed (auto simp: wp_simps assms send_event_def send_server_message_def sent_def upd_conn_def intro!: wp_total)

text \<open>
  The output of a command reaches the client complete and in order. On a connection that
  can be written to, forwarding the events of a command sends one message per event, under the
  id of the request, up to and including the exit and nothing after it; decoding these
  messages gives back exactly the events.
\<close>

theorem exec_stream_delivered:
  assumes "no_faults E" "b64_inverse (api_wire E)"
  shows "case spawn_exec_stream E k i evs s of
     (Inr _, t) \<Rightarrow> sent k t = sent k s @ map (exec_message E i) (forwarded evs) \<and>
        map (exec_event_of E) (drop (length (sent k s)) (sent k t)) = map Some (forwarded evs)
   | (Inl _, _) \<Rightarrow> False"
proof -
  have dec: "exec_event_of E (exec_message E i e) = Some e" for e
    using assms(2) by (cases e) (simp_all add: b64_inverse_def)
  show ?thesis
    using wp_spawn_exec_stream [OF assms(1), of k i evs s] by (auto simp: wp_def dec split: prod.splits sum.splits)
qed

text \<open>
  A connection that ends in order leaves no shell behind: when it is closed by the client,
  by the server or by the shutdown signal, every shell it had opened has been taken out of its
  table and told to close.
\<close>

theorem closed_connection_has_no_shells:
  fixes s :: "'z api_state_scheme"
  assumes "handle_connection E A k frames s = (Inr (), t)"
  shows "conn_shells (conns t k) = []"
proof -
  let ?f = "\<lambda>s :: 'z api_state_scheme. conn_shells (conns s k)"
  have bf: "box_free ?f" by (simp add: box_free_def store_free_def)
  have close: "wp (close_shells E k) (\<lambda>_ t. ?f t = []) (\<lambda>_ _. True) s" for s :: "'z api_state_scheme"
  proof -
    have call: "preserves (\<lambda>t. ?f t = []) (rpc_call E w c e :: ('z api_state_scheme, unit) io)" for w c e
      using keeps_api_rpc(2) [OF bf] unfolding keeps_iff_preserves by (rule spec)
    have "preserves (\<lambda>t. ?f t = []) (forE xs (\<lambda>(u, b). seqE (tryE (shell_call E b (CClose u))) (returnE ())))" for xs
      unfolding shell_call_def by (auto intro!: preserves_intro call)
    then show ?thesis
      unfolding close_shells_def
      by (auto simp: wp_simps upd_conn_def intro!: wp_preserves)
  qed
  have loop: "wp (connection_loop E A k frames) (\<lambda>_. wp (close_shells E k) (\<lambda>_ t. ?f t = []) (\<lambda>_ _. True)) (\<lambda>_ _. True) u"
    for u :: "'z api_state_scheme"
    by (rule wp_mono [OF wp_True]) (auto intro: close)
  have "wp (handle_connection E A k frames) (\<lambda>_ t. ?f t = []) (\<lambda>_ _. True) s"
    unfolding handle_connection_def
    by (auto simp: wp_simps intro!: wp_intro loop)
  from wp_runD [OF this assms] show ?thesis by simp
qed

section \<open>Runs of the server\<close>

lemma bst_auth [simp]: "bst us B V U X (s\<lparr>images := im\<rparr>) = bst us B V U X s" "bst us B V U X (s\<lparr>admin_file := f\<rparr>) = bst us B V U X s" "bst us B V U X (s\<lparr>box_credential_file := g\<rparr>) = bst us B V U X s"
  "bst us B V U X (s\<lparr>regular_files := rf\<rparr>) = bst us B V U X s" "bst us B V U X (s\<lparr>images := im, regular_files := rf\<rparr>) = bst us B V U X s"
  by (simp_all add: bst_def boxes_ok_def record_ok_def mine_def box_view_def sessions_on_def workspace_view_def)

lemma bst_admin_ops:
  "preserves (bst us B V U X) (admin_add_admin E p e)" "preserves (bst us B V U X) (admin_remove_admin E p u)" "preserves (bst us B V U X) (box_issue E p e b)"
  "preserves (bst us B V U X) (admin_authenticate E p u t)" "preserves (bst us B V U X) (box_authenticate E p b t)"
  unfolding admin_add_admin_def admin_remove_admin_def box_issue_def admin_authenticate_def box_authenticate_def
    admin_read_registry_def admin_write_registry_def box_read_registry_def box_write_registry_def decode_json_def
    generate_token_def new_record_def Let_def
  by (auto intro!: preserves_intro split: json_file.split)

lemma bst_image_ops:
  "preserves (bst us B V U X) (image_list E d)" "preserves (bst us B V U X) (image_inspect E d n)" "preserves (bst us B V U X) (image_remove E d n)"
proof -
  show "preserves (bst us B V U X) (image_list E d)" "preserves (bst us B V U X) (image_inspect E d n)"
    unfolding preserves_def by (simp_all add: keepsD [OF keeps_image_reads(1) [OF counter_free_bst]] keepsD [OF keeps_image_reads(2) [OF counter_free_bst]])
  show "preserves (bst us B V U X) (image_remove E d n)"
    unfolding image_remove_def Let_def by (auto intro!: preserves_intro)
qed


lemma admin_allowed: "seqE (liftE (require_admin (Admin a))) m = m" "bindE (liftE (require_admin (Admin a))) f = f a"
  "seqE (liftE (authorize_box E (Admin a) b)) m = m"
  by (simp_all add: io_defs)

lemma box_safe_shells:
  assumes "U \<subseteq> U'" "\<And>b. box_safe us UNIV V U U' (f b)"
  shows "box_safe us UNIV V U U' (bindE (shell_handle E k (Admin a) u) f)"
  using assms(2) bst_more [OF _ assms(1)]
  by (auto simp: box_safe_def shell_handle_def wp_simps split: option.split)

lemma box_safe_remove_shells:
  assumes "\<And>b. box_safe us UNIV V U U' (f b)"
  shows "box_safe us UNIV V U U' (bindE (remove_shell E k (Admin a) u) f)"
  using assms by (auto simp: box_safe_def remove_shell_def wp_simps split: option.split)

lemma box_safe_last:
  "box_safe us B V U U' m \<Longrightarrow> box_safe us B V U U' (seqE m (seqE (send_response E k i x) (returnE a)))"
  by (auto intro!: box_safe_seq bst_send preserves_intro)

lemma box_safe_admin_dispatch:
  fixes E :: "'e api_env_scheme"
  assumes "range (uuid_at E) \<inter> U = {}"
  shows "box_safe (uuid_string E) UNIV V U (U \<union> range (uuid_at E)) (dispatch_request E A k (Admin a) r :: ('z api_state_scheme, connection_action) io)"
proof -
  let ?U = "U \<union> range (uuid_at E)"
  let ?B = "bst (uuid_string E) UNIV V"
  note here = box_safe_more [OF _ Un_upper1 [of U "range (uuid_at E)"]]
  have alone: "box_safe (uuid_string E) UNIV V U ?U (send_response E k i x :: ('z api_state_scheme, unit) io)"
    "box_safe (uuid_string E) UNIV V U ?U (returnE () :: ('z api_state_scheme, unit) io)" for i x
    by (auto intro!: here box_safe_preserves bst_send preserves_intro)
  have pre: "box_safe (uuid_string E) UNIV V U ?U m" if "preserves (?B U {}) m" for m :: "('z api_state_scheme, 'r) io"
    using that by (intro here box_safe_preserves)
  have all: "range (uuid_at E) \<subseteq> (UNIV :: uuid set)" "b \<in> (UNIV :: uuid set)" for b by simp_all
  have image: "box_safe (uuid_string E) UNIV V U ?U (dispatch_image_request E A k q :: ('z api_state_scheme, unit) io)" for q
  proof (rule pre)
    show "preserves (?B U {}) (dispatch_image_request E A k q :: ('z api_state_scheme, unit) io)"
      by (cases q) (auto simp: build_image_def list_images_def inspect_image_def remove_image_def Let_def
          intro!: preserves_intro bst_image_ops bst_send)
  qed
  have issue: "box_safe (uuid_string E) UNIV V U ?U (dispatch_issue E A k (Admin a) i b :: ('z api_state_scheme, unit) io)" for i b
    unfolding dispatch_issue_def admin_allowed
    by (auto intro!: here [OF box_safe_bind [OF box_safe_list]] preserves_intro bst_admin_ops bst_send)
  note ops = box_safe_ops [OF all(2)] box_safe_guest_ops [OF all(2)] box_safe_checkpoint_ops [OF all(2)] box_safe_shell_call [OF all(2)]
    box_safe_create [OF all(1)] box_safe_fork [OF all(2) all(1)] box_safe_set [OF all(2)] box_safe_remove [OF all(2)] box_safe_list box_safe_shutdown
  show ?thesis
    by (cases r)
      (auto simp: dispatch_exec_def dispatch_open_shell_def api_create_checkpoint_def api_list_checkpoints_def
          api_restore_checkpoint_def api_fork_checkpoint_def api_delete_checkpoint_def admin_allowed
        simp del: require_admin.simps authorize_box.simps dispatch_image_request.simps split: option.split
        intro!: box_safe_keep_open box_safe_shells box_safe_remove_shells box_safe_then_send box_safe_then_note box_safe_last box_safe_guard alone issue image
          box_safe_start [OF all(2) refl assms] box_safe_restore [OF all(2) assms] ops [THEN here] bst_admin_ops [THEN pre])
qed

text \<open>The boxes a connection may touch.\<close>

fun reach :: "principal option \<Rightarrow> uuid set" where
  "reach None = {}"
| "reach (Some (Box b)) = {b}"
| "reach (Some (Admin _)) = UNIV"

lemma box_safe_wpD:
  "box_safe us B V U U' m \<Longrightarrow> bst us B V U {} s \<Longrightarrow> wp m (\<lambda>_. bst us B V U' {}) (\<lambda>_. bst us B V U' {}) s"
  by (simp add: box_safe_def)

lemma bst_request:
  fixes s :: "'z api_state_scheme"
  assumes "range (uuid_at E) \<inter> U = {}" "bst (uuid_string E) B V U {} s" "reach (identity k s) \<subseteq> B" "identity k s = Some p"
  shows "bst (uuid_string E) B V (U \<union> range (uuid_at E)) {} (snd (handle_request E A k r s))"
proof -
  let ?U = "U \<union> range (uuid_at E)"
  have "wp (dispatch_request E A k p r) (\<lambda>_. bst (uuid_string E) (reach (Some p)) (box_view (uuid_string E) s) ?U {})
      (\<lambda>_. bst (uuid_string E) (reach (Some p)) (box_view (uuid_string E) s) ?U {}) s"
    by (cases p) (use assms(2) in \<open>auto simp: bst_def intro!: box_safe_dispatch [OF assms(1), THEN box_safe_wpD]
        box_safe_admin_dispatch [OF assms(1), THEN box_safe_wpD]\<close>)
  then have "wp (dispatch_request E A k p r) (\<lambda>_. bst (uuid_string E) B V ?U {}) (\<lambda>_. bst (uuid_string E) B V ?U {}) s"
    by (rule wp_mono) (use assms(2,3,4) in \<open>auto simp: bst_def subset_iff\<close>)
  then have "wp (handle_request E A k r) (\<lambda>_. bst (uuid_string E) B V ?U {}) (\<lambda>_. bst (uuid_string E) B V ?U {}) s"
    unfolding handle_request_def using assms(4)
    by (simp add: wp_simps identity_def)
       (erule wp_mono, auto simp: wp_simps split: failure.split connection_action.split intro!: wp_preserves [OF bst_send(2)])
  then show ?thesis by (simp add: wp_snd)
qed

lemma bst_message:
  fixes s :: "'z api_state_scheme"
  assumes "range (uuid_at E) \<inter> U = {}" "bst (uuid_string E) B V U {} s" "reach (identity k s) \<subseteq> B"
  shows "bst (uuid_string E) B V (U \<union> range (uuid_at E)) {} (snd (handle_message E A k m s))"
proof (cases "\<exists>r p. m = Request r \<and> identity k s = Some p")
  case True
  then show ?thesis using bst_request [OF assms] by auto
next
  case False
  have auth: "preserves (bst (uuid_string E) B V U {}) (authenticate_admin E A k u tok)" "preserves (bst (uuid_string E) B V U {}) (authenticate_box E A k b tok)" for u b tok
    unfolding authenticate_admin_def authenticate_box_def set_principal_def by (auto intro!: preserves_intro bst_admin_ops bst_send)
  have req: "bst (uuid_string E) B V U {} (snd (handle_request E A k r s))" if "identity k s = None" for r
    using that assms(2) preservesD [OF bst_send(2), of "uuid_string E" B V U "{}" s E k]
    by (simp add: handle_request_def identity_def io_defs split: prod.split sum.split) (metis snd_conv)
  have "bst (uuid_string E) B V U {} (snd (handle_message E A k m s))"
    using False by (cases m) (auto intro: req preservesD [OF auth(1) assms(2)] preservesD [OF auth(2) assms(2)])
  then show ?thesis by (rule bst_more) simp
qed

text \<open>
  A run of the server: messages on any connection, in any order, each handled with an
  environment of its own that draws only new ids. \<open>D\<close> collects the boxes the identities behind
  the messages may touch.
\<close>

inductive api_step :: "(uuid \<Rightarrow> string) \<Rightarrow> api_config \<Rightarrow> uuid set \<Rightarrow> 'z api_state_scheme \<Rightarrow>
    uuid set \<Rightarrow> uuid set \<Rightarrow> 'z api_state_scheme \<Rightarrow> bool"
  for us A where
  message: "uuid_string (E :: api_env) = us \<Longrightarrow> range (uuid_at E) \<inter> U = {} \<Longrightarrow>
    api_step us A U s (reach (identity k s)) (U \<union> range (uuid_at E)) (snd (handle_message E A k m s))"

inductive_cases api_stepE: "api_step us A U s D U' t"

abbreviation api_run :: "(uuid \<Rightarrow> string) \<Rightarrow> api_config \<Rightarrow> uuid set \<Rightarrow> 'z api_state_scheme \<Rightarrow>
    uuid set \<Rightarrow> uuid set \<Rightarrow> 'z api_state_scheme \<Rightarrow> bool" where
  "api_run us A \<equiv> step_runs (api_step us A)"

lemma api_step_bst:
  assumes "api_step us A U s D U' t" "boxes_ok us U s" "inj us"
  shows "bst us D (box_view us s) U' {} t"
  using assms(1)
proof (rule api_stepE)
  fix E k m
  assume "D = reach (identity k s)" "U' = U \<union> range (uuid_at E)" "t = snd (handle_message E A k m s)"
    "uuid_string E = us" "range (uuid_at E) \<inter> U = {}"
  then show ?thesis using bst_message [of E U D "box_view us s" s k A m] assms(2,3) by (simp add: bst_def)
qed

interpretation api_runs: confinement "\<lambda>U s. inj us \<and> boxes_ok us U s" "box_view us" "api_step us A"
  by unfold_locales (auto dest!: api_step_bst simp: bst_def)

text \<open>
  C1: whatever messages arrive on whatever connections, a box stays exactly as it was (its
  registry entry, sandbox, disk and checkpoints) unless a message came from a connection that
  was at that moment authenticated as an admin or as that very box; and the invariant of the
  box registry holds throughout.
\<close>

theorem unauthorized_boxes_untouched:
  assumes "api_run us A U s D U' t" "boxes_ok us U s" "inj us"
  shows "boxes_ok us U' t \<and> (\<forall>c. c \<notin> D \<longrightarrow> box_view us t c = box_view us s c)"
  using api_runs.run_inv [OF assms(1)] api_runs.run_view [OF assms(1)] assms(2,3) by simp

section \<open>Witnesses\<close>

definition quiet_api :: api_env where
  "quiet_api = box_env.extend quiet_host (api_env.fields
demo_wire (\<lambda>_ _. Inl (Backend ''no image'')) (\<lambda>_ _ d. d))"

lemma demo_wire_inverse: "b64_inverse demo_wire"
proof -
  have "unat b mod 256 = unat b" for b :: u8
    using unsigned_less [of b, where ?'a = nat] by simp
  then show ?thesis by (simp add: b64_inverse_def demo_wire_def map_idI)
qed

lemma quiet_api [simp]:
  "uuid_string quiet_api = decimal" "uuid_at quiet_api = (\<lambda>n. 2 * n)" "no_faults quiet_api" "b64_inverse (api_wire quiet_api)"
  by (simp_all add: quiet_api_def box_env.defs api_env.defs quiet_host_def guest_env.defs quiet_guest_def quiet_env_def no_faults_def demo_wire_inverse)

definition demo_api :: api_config where
  "demo_api = \<lparr>api_runtime = demo_config Secure, api_base_guest = demo_guest, api_endpoint = ''ws://127.0.0.1:1'',
     api_admin_path = ''/s/admins.json'', api_box_path = ''/s/boxes.json''\<rparr>"

text \<open>Connection 0 has authenticated as box 3, the others have not.\<close>

definition demo_server :: api_state where
  "demo_server = box_state.extend demo_boxes (api_state.fields
     (\<lambda>k. new_connection\<lparr>conn_principal := (if k = 0 then Some (Box 3) else None)\<rparr>) False)"

lemma demo_server [simp]:
  "conn_principal (conns demo_server k) = (if k = 0 then Some (Box 3) else None)" "sent k demo_server = []"
  by (simp_all add: demo_server_def box_state.defs api_state.defs new_connection_def sent_def)

lemma demo_server_ok: "boxes_ok decimal {5} demo_server"
proof -
  have eq: "box_files demo_server = box_files demo_boxes" "box_active demo_server = box_active demo_boxes" "rt_active demo_server = rt_active demo_boxes"
    by (simp_all add: demo_server_def box_state.defs api_state.defs)
  show ?thesis using demo_boxes_ok unfolding boxes_ok_def record_ok_def mine_def eq .
qed

theorem box_principal_confined_witness:
  "case handle_request quiet_api demo_api 0 (ReqRemoveBox ''r1'' 1) demo_server of (res, t) \<Rightarrow>
     box_view decimal t 1 = box_view decimal demo_server 1 \<and> conn_principal (conns t 0) = Some (Box 3)"
  using box_principal_confined [of demo_server 0 3 quiet_api "{5}" demo_api "ReqRemoveBox ''r1'' 1"] demo_server_ok even_ids inj_decimal
  by (auto split: prod.splits)

theorem requests_answered_once_witness:
  "case handle_request quiet_api demo_api 0 (ReqFsList ''r1'' 1 ''/'') demo_server of
     (Inr _, t) \<Rightarrow> \<exists>e. sent 0 t = [Event e] \<and> answer_to ''r1'' e
   | (Inl x, t) \<Rightarrow> x = Panic"
  using requests_answered_once [OF quiet_api(3), where A = demo_api and k = 0 and r = "ReqFsList ''r1'' 1 ''/''" and s = demo_server]
  by (auto split: prod.splits sum.splits)

theorem unauthenticated_request_refused_witness:
  "case handle_message quiet_api demo_api 1 (Request (ReqListBoxes ''r1'')) demo_server of
     (Inr close, t) \<Rightarrow> \<not> close | (Inl _, t) \<Rightarrow> t\<lparr>calls := calls demo_server\<rparr> = demo_server"
  using unauthenticated_request_refused [of demo_server 1, where E = quiet_api and A = demo_api and r = "ReqListBoxes ''r1''"]
  by (auto split: prod.splits sum.splits)

theorem exec_stream_delivered_witness:
  "case spawn_exec_stream quiet_api 0 ''r1'' [Output Stdout [104], Exit Success, Exit Killed] demo_server of
     (Inr _, t) \<Rightarrow> map (exec_event_of quiet_api) (sent 0 t) = [Some (Output Stdout [104]), Some (Exit Success)]
   | (Inl _, _) \<Rightarrow> False"
  using exec_stream_delivered [OF quiet_api(3,4), where k = 0 and i = "''r1''" and evs = "[Output Stdout [104], Exit Success, Exit Killed]" and s = demo_server]
  by (auto split: prod.splits sum.splits)

theorem closed_connection_has_no_shells_witness:
  "\<exists>t. handle_connection quiet_api demo_api 1 [OtherFrame, CloseFrame] demo_server = (Inr (), t) \<and> conn_shells (conns t 1) = []"
proof -
  have "wp (handle_connection quiet_api demo_api 1 [OtherFrame, CloseFrame]) (\<lambda>_ _. True) (\<lambda>_ _. False) demo_server"
    unfolding handle_connection_def close_shells_def
    by (auto simp: wp_simps upd_conn_def new_connection_def intro!: wp_total)
  then obtain t where run: "handle_connection quiet_api demo_api 1 [OtherFrame, CloseFrame] demo_server = (Inr (), t)"
    by (auto dest: wp_returns)
  with closed_connection_has_no_shells [OF run] show ?thesis by blast
qed

theorem unauthorized_boxes_untouched_witness:
  "box_view decimal (snd (handle_message quiet_api demo_api 0 (Request (ReqStopBox ''r1'' 1)) demo_server)) 1 = box_view decimal demo_server 1"
proof -
  have "api_step decimal demo_api {5} demo_server (reach (identity 0 demo_server)) ({5} \<union> range (\<lambda>n. 2 * n))
    (snd (handle_message quiet_api demo_api 0 (Request (ReqStopBox ''r1'' 1)) demo_server))"
    using api_step.message [of quiet_api decimal "{5}" demo_api demo_server 0 "Request (ReqStopBox ''r1'' 1)"] even_ids by simp
  then have "api_run decimal demo_api {5} demo_server (reach (identity 0 demo_server)) ({5} \<union> range (\<lambda>n. 2 * n))
    (snd (handle_message quiet_api demo_api 0 (Request (ReqStopBox ''r1'' 1)) demo_server))" by (rule step_runs_one)
  from unauthorized_boxes_untouched [OF this demo_server_ok inj_decimal] show ?thesis by (simp add: identity_def)
qed

end
