(* ===== verification/Box_Client.thy ===== *)
theory Box_Client
  imports Box_Api_Properties
begin

text \<open>
  The client of the control plane (\<open>src/box_api/client\<close>): the table of callers waiting on one
  websocket, the task that reads the socket and hands every message to its caller, the
  requests of the operations, and the loops that collect a command's events, recover a stop
  whose connection was lost and drive an interactive shell.

  A channel is a number. For a oneshot channel \<open>cl_answers\<close> holds what was sent into it, for
  an event channel \<open>cl_queue\<close> holds what was sent, in order; a sender is dropped
  when its table no longer holds the channel. Waiting for room in a full channel is not
  modelled. Hash maps are association lists with one entry per key; nothing depends on
  their order, as different entries are different channels.
\<close>

section \<open>Errors that crossed the wire (\<open>client/mod.rs\<close>)\<close>

definition remote_error :: "string \<Rightarrow> sandbox_error" where
  "remote_error message =
     if_prefix message ''invalid configuration: '' InvalidConfig
     (if_prefix message ''not found: '' NotFound
     (if_prefix message ''conflict: '' Conflict
     (if_prefix message ''backend failure: '' Backend
     (if_prefix message ''unsupported host: '' UnsupportedHost
     (if_prefix message ''protocol error: '' Protocol
     (if_prefix message ''timeout: '' Timeout
     (Backend message)))))))"

section \<open>State (\<open>client/state.rs\<close>)\<close>

text \<open>
  \<open>cl_flushing\<close>: the buffered events that tasks in \<open>register_shell_channel\<close> still have to send
  into their channels. \<open>cl_auth_wait\<close>: the reader still holds the sender of the handshake's
  result. \<open>cl_reading\<close>: the reader has not returned.
\<close>

record client =
  cl_auth :: client_message
  cl_auth_wait :: bool
  cl_auth_answer :: "unit result option"
  cl_reading :: bool
  cl_pending :: "(string \<times> nat) list"
  cl_execs :: "(string \<times> nat) list"
  cl_shells :: "(uuid \<times> nat) list"
  cl_buffered :: "(uuid \<times> box_event list) list"
  cl_flushing :: "(nat \<times> box_event list) list"
  cl_answers :: "(nat \<times> box_response result) list"
  cl_queue :: "nat \<Rightarrow> box_event list"
  cl_channels :: nat
  cl_next_id :: u64
  cl_written :: "client_message list"

definition new_client :: "client_message \<Rightarrow> client" where
  "new_client auth = \<lparr>cl_auth = auth, cl_auth_wait = True, cl_auth_answer = None, cl_reading = True, cl_pending = [],
     cl_execs = [], cl_shells = [], cl_buffered = [], cl_flushing = [], cl_answers = [], cl_queue = (\<lambda>_. []),
     cl_channels = 0, cl_next_id = 1, cl_written = []\<rparr>"

definition answer_call :: "nat \<Rightarrow> box_response result \<Rightarrow> client \<Rightarrow> client" where
  "answer_call ch r c = c\<lparr>cl_answers := cl_answers c @ [(ch, r)]\<rparr>"

definition push_event :: "nat \<Rightarrow> box_event \<Rightarrow> client \<Rightarrow> client" where
  "push_event ch e c = c\<lparr>cl_queue := (cl_queue c)(ch := cl_queue c ch @ [e])\<rparr>"

definition client_fail_all :: "string \<Rightarrow> client \<Rightarrow> client" where
  "client_fail_all message c = (let
     responses = map snd (cl_pending c); execs = map snd (cl_execs c); shells = map snd (cl_shells c);
     c = c\<lparr>cl_pending := [], cl_execs := [], cl_shells := [], cl_buffered := []\<rparr>;
     c = fold (\<lambda>ch. answer_call ch (Inl (remote_error message))) responses c;
     c = fold (\<lambda>ch. push_event ch (ErrorEv None message)) execs c
     in fold (\<lambda>ch. push_event ch (ErrorEv None message)) shells c)"

definition is_shell_exit :: "box_event \<Rightarrow> bool" where
  "is_shell_exit e = (case e of ShellExitEv _ _ \<Rightarrow> True | _ \<Rightarrow> False)"

definition dispatch_shell_event :: "uuid \<Rightarrow> box_event \<Rightarrow> client \<Rightarrow> client" where
  "dispatch_shell_event u e c = (case map_of (cl_shells c) u of
     Some ch \<Rightarrow> (let c = push_event ch e c in
       if is_shell_exit e then c\<lparr>cl_shells := AList.delete u (cl_shells c)\<rparr> else c)
   | None \<Rightarrow> c\<lparr>cl_buffered := AList.update u
       ((case map_of (cl_buffered c) u of None \<Rightarrow> [] | Some es \<Rightarrow> es) @ [e]) (cl_buffered c)\<rparr>)"

fun dispatch_event :: "box_event \<Rightarrow> client \<Rightarrow> client" where
  "dispatch_event (Response i r) c = (case map_of (cl_pending c) i of
     Some ch \<Rightarrow> answer_call ch (Inr r) (c\<lparr>cl_pending := AList.delete i (cl_pending c)\<rparr>)
   | None \<Rightarrow> c)"
| "dispatch_event (ErrorEv (Some i) message) c = (case map_of (cl_pending c) i of
     Some ch \<Rightarrow> answer_call ch (Inl (remote_error message)) (c\<lparr>cl_pending := AList.delete i (cl_pending c)\<rparr>)
   | None \<Rightarrow> (case map_of (cl_execs c) i of
       Some ch \<Rightarrow> push_event ch (ErrorEv (Some i) message) (c\<lparr>cl_execs := AList.delete i (cl_execs c)\<rparr>)
     | None \<Rightarrow> c))"
| "dispatch_event (ExecOutput i st d) c = (case map_of (cl_execs c) i of
     Some ch \<Rightarrow> push_event ch (ExecOutput i st d) c | None \<Rightarrow> c)"
| "dispatch_event (ExecExit i x) c = (let
     c = (case map_of (cl_execs c) i of Some ch \<Rightarrow> push_event ch (ExecExit i x) c | None \<Rightarrow> c)
     in c\<lparr>cl_execs := AList.delete i (cl_execs c)\<rparr>)"
| "dispatch_event (ShellOutputEv u d) c = dispatch_shell_event u (ShellOutputEv u d) c"
| "dispatch_event (ShellExitEv u code) c = dispatch_shell_event u (ShellExitEv u code) c"
| "dispatch_event (ErrorEv None message) c = client_fail_all message c"

fun validate_auth :: "principal \<Rightarrow> client_message \<Rightarrow> unit result" where
  "validate_auth (Admin actual) (AuthenticateAdmin u t) =
     (if actual = u then Inr () else Inl (Backend ''websocket authenticated as an unexpected principal''))"
| "validate_auth (Box actual) (AuthenticateBox b t) =
     (if actual = b then Inr () else Inl (Backend ''websocket authenticated as an unexpected principal''))"
| "validate_auth _ _ = Inl (Backend ''websocket authenticated as an unexpected principal'')"

section \<open>The connection (\<open>client/mod.rs\<close>)\<close>

text \<open>What the reader gets from the socket; \<open>ServerEnd\<close>: the stream has ended.\<close>

datatype server_frame = ServerText "string + server_message" | ServerClose | ServerOther | ServerReadFailed string | ServerEnd

definition answer_auth :: "unit result \<Rightarrow> client \<Rightarrow> client" where
  "answer_auth r c = (if cl_auth_wait c then c\<lparr>cl_auth_wait := False, cl_auth_answer := Some r\<rparr> else c)"

text \<open>The three ways the reader ends: it tells the handshake, if it still waits, and every caller.\<close>

definition end_reader :: "sandbox_error \<Rightarrow> string \<Rightarrow> client \<Rightarrow> client" where
  "end_reader auth_error message c = (client_fail_all message (answer_auth (Inl auth_error) c))\<lparr>cl_reading := False\<rparr>"

fun read_frame :: "server_frame \<Rightarrow> client \<Rightarrow> client" where
  "read_frame (ServerText (Inr (Authenticated p))) c = answer_auth (validate_auth p (cl_auth c)) c"
| "read_frame (ServerText (Inr (Event e))) c = dispatch_event e c"
| "read_frame (ServerText (Inl error)) c = (let m = display (Json ''decoding websocket server message'' error)
     in end_reader (Backend m) m c)"
| "read_frame ServerOther c = c"
| "read_frame (ServerReadFailed error) c = (let m = display (Backend (''reading websocket message failed: '' @ error))
     in end_reader (Backend m) m c)"
| "read_frame ServerClose c = end_reader (Backend ''websocket connection closed'') ''websocket connection closed'' c"
| "read_frame ServerEnd c = end_reader (Backend ''websocket connection closed'') ''websocket connection closed'' c"

definition client_next_request_id :: "client \<Rightarrow> string \<times> client" where
  "client_next_request_id c = (decimal (unat (cl_next_id c)), c\<lparr>cl_next_id := cl_next_id c + 1\<rparr>)"

text \<open>\<open>w\<close>: whether encoding and sending the message succeed.\<close>

definition write_message :: "unit result \<Rightarrow> client_message \<Rightarrow> client \<Rightarrow> unit result \<times> client" where
  "write_message w m c = (w, case w of Inr _ \<Rightarrow> c\<lparr>cl_written := cl_written c @ [m]\<rparr> | Inl _ \<Rightarrow> c)"

definition client_send_request :: "unit result \<Rightarrow> box_request \<Rightarrow> client \<Rightarrow> unit result \<times> client" where
  "client_send_request w r c = write_message w (Request r) c"

definition open_channel :: "client \<Rightarrow> nat \<times> client" where
  "open_channel c = (cl_channels c, c\<lparr>cl_channels := cl_channels c + 1\<rparr>)"

definition register_response :: "string \<Rightarrow> client \<Rightarrow> nat \<times> client" where
  "register_response i c = (case open_channel c of (ch, c) \<Rightarrow> (ch, c\<lparr>cl_pending := AList.update i ch (cl_pending c)\<rparr>))"

text \<open>\<open>request_response\<close> up to its wait, and what it makes of the answer.\<close>

definition request_start :: "unit result \<Rightarrow> box_request \<Rightarrow> client \<Rightarrow> nat result \<times> client" where
  "request_start w r c = (case register_response (request_id r) c of (ch, c) \<Rightarrow>
     (case client_send_request w r c of (Inl e, c) \<Rightarrow> (Inl e, c) | (Inr _, c) \<Rightarrow> (Inr ch, c)))"

definition request_end :: "string \<Rightarrow> (box_response \<Rightarrow> 'a option) \<Rightarrow> box_response result \<Rightarrow> 'a result" where
  "request_end i f answer = (case answer of
     Inl e \<Rightarrow> Inl e
   | Inr x \<Rightarrow> (case f x of
       None \<Rightarrow> Inl (Protocol (''unexpected response type for request '' @ i))
     | Some v \<Rightarrow> Inr v))"

definition open_exec_channel :: "unit result \<Rightarrow> box_request \<Rightarrow> client \<Rightarrow> (string \<times> nat) result \<times> client" where
  "open_exec_channel w r c = (case open_channel c of (ch, c) \<Rightarrow>
     (let i = request_id r; c = c\<lparr>cl_execs := AList.update i ch (cl_execs c)\<rparr> in
     case client_send_request w r c of
       (Inl e, c) \<Rightarrow> (Inl e, c\<lparr>cl_execs := AList.delete i (cl_execs c)\<rparr>)
     | (Inr _, c) \<Rightarrow> (Inr (i, ch), c)))"

text \<open>
  \<open>register_shell_channel\<close>: under the lock it enters the channel and takes the buffered
  events; it sends those one by one after releasing the lock.
\<close>

definition register_shell_channel :: "uuid \<Rightarrow> client \<Rightarrow> nat \<times> client" where
  "register_shell_channel u c = (case open_channel c of (ch, c) \<Rightarrow>
     (ch, c\<lparr>cl_shells := AList.update u ch (cl_shells c),
            cl_flushing := cl_flushing c @ [(ch, case map_of (cl_buffered c) u of None \<Rightarrow> [] | Some es \<Rightarrow> es)],
            cl_buffered := AList.delete u (cl_buffered c)\<rparr>))"

definition flush_shell_event :: "nat \<Rightarrow> client \<Rightarrow> client" where
  "flush_shell_event ch c = (case map_of (cl_flushing c) ch of
     Some (e # es) \<Rightarrow> (push_event ch e c)\<lparr>cl_flushing := AList.update ch es (cl_flushing c)\<rparr>
   | _ \<Rightarrow> c)"

definition client_decode_bytes :: "wire \<Rightarrow> string \<Rightarrow> string \<Rightarrow> u8 list result" where
  "client_decode_bytes W context v = (case b64_decode W v of
     Inl error \<Rightarrow> Inl (Protocol (context @ '': '' @ error)) | Inr d \<Rightarrow> Inr d)"

section \<open>Operations (\<open>client/ops.rs\<close>, \<open>client/ops\<close>, \<open>client/checkpoints.rs\<close>)\<close>

text \<open>The values the operations return, and an operation as its request and the response it reads.\<close>

datatype op_value =
    VUnit
  | VBoxes "box_record list"
  | VBox box_record
  | VFiles "file_node list"
  | VFile read_file_result
  | VCheckpoint checkpoint_record
  | VCheckpoints "checkpoint_record list"
  | VImage vm_image_manifest
  | VImages "vm_image_manifest list"
  | VAdminBundle admin_credential_bundle
  | VBoxBundle box_credential_bundle
  | VShell uuid

type_synonym client_call = "box_request \<times> (box_response \<Rightarrow> op_value option)"

fun expect_box :: "box_response \<Rightarrow> op_value option" where
  "expect_box (BoxResp record) = Some (VBox record)"
| "expect_box _ = None"

fun expect_ack_response :: "box_response \<Rightarrow> op_value option" where
  "expect_ack_response AckResp = Some VUnit"
| "expect_ack_response _ = None"

definition request_box :: "box_request \<Rightarrow> client_call" where
  "request_box r = (r, expect_box)"

definition request_ack :: "box_request \<Rightarrow> client_call" where
  "request_ack r = (r, expect_ack_response)"

datatype box_call_op =
    OpListBoxes | OpGetBox uuid | OpCreateBox | OpCreateBoxFromImage "string option" | OpStartBox uuid
  | OpStopBox uuid | OpRemoveBox uuid | OpSetBoxSetting uuid box_setting_value

fun box_call :: "box_call_op \<Rightarrow> string \<Rightarrow> client_call" where
  "box_call OpListBoxes i = (ReqListBoxes i, \<lambda>x. case x of BoxList boxes \<Rightarrow> Some (VBoxes boxes) | _ \<Rightarrow> None)"
| "box_call (OpGetBox b) i = request_box (ReqGetBox i b)"
| "box_call OpCreateBox i = request_box (ReqNewBox i None)"
| "box_call (OpCreateBoxFromImage img) i = request_box (ReqNewBox i img)"
| "box_call (OpStartBox b) i = request_box (ReqStartBox i b)"
| "box_call (OpStopBox b) i = request_box (ReqStopBox i b)"
| "box_call (OpRemoveBox b) i = (ReqRemoveBox i b, \<lambda>x. case x of BoxRemoved _ \<Rightarrow> Some VUnit | _ \<Rightarrow> None)"
| "box_call (OpSetBoxSetting b v) i = request_box (ReqSetBoxSetting i b v)"

definition shell_open_call :: "uuid \<Rightarrow> interactive_target \<Rightarrow> string \<Rightarrow> client_call" where
  "shell_open_call b target i = (ReqOpenShell i b target, \<lambda>x. case x of ShellOpened u _ \<Rightarrow> Some (VShell u) | _ \<Rightarrow> None)"

datatype admin_call_op = OpShutdownDaemon | OpAdminAdd | OpIssueBoxCredentials uuid | OpAdminRemoveMe

fun admin_call :: "admin_call_op \<Rightarrow> string \<Rightarrow> client_call" where
  "admin_call OpShutdownDaemon i = request_ack (ReqShutdownDaemon i)"
| "admin_call OpAdminAdd i = (ReqAdminAdd i, \<lambda>x. case x of AdminAdded bundle \<Rightarrow> Some (VAdminBundle bundle) | _ \<Rightarrow> None)"
| "admin_call (OpIssueBoxCredentials b) i =
     (ReqBoxIssueCredentials i b, \<lambda>x. case x of BoxCredentials bundle \<Rightarrow> Some (VBoxBundle bundle) | _ \<Rightarrow> None)"
| "admin_call OpAdminRemoveMe i = request_ack (ReqAdminRemoveMe i)"

datatype files_op =
    OpListFiles uuid string | OpReadFile uuid string u64 | OpWriteFile uuid string "u8 list" bool
  | OpMakeDir uuid string bool | OpRemovePath uuid string bool

fun files_call :: "wire \<Rightarrow> files_op \<Rightarrow> string \<Rightarrow> client_call" where
  "files_call W (OpListFiles b path) i = (ReqFsList i b path, \<lambda>x. case x of Files _ entries \<Rightarrow> Some (VFiles entries) | _ \<Rightarrow> None)"
| "files_call W (OpReadFile b path limit) i = (ReqFsRead i b path limit, \<lambda>x. case x of FileResp f \<Rightarrow> Some (VFile f) | _ \<Rightarrow> None)"
| "files_call W (OpWriteFile b path d parents) i = request_ack (ReqFsWrite i b path (b64_encode W d) parents)"
| "files_call W (OpMakeDir b path recursive) i = request_ack (ReqFsMkdir i b path recursive)"
| "files_call W (OpRemovePath b path recursive) i = request_ack (ReqFsRemove i b path recursive)"

datatype images_op =
    OpBuildImage string "string list" "string list" "string list" u64 bool | OpListImages | OpInspectImage string
  | OpRemoveImage string

definition image_response :: "box_response \<Rightarrow> op_value option" where
  "image_response x = (case x of ImageResp m \<Rightarrow> Some (VImage m) | _ \<Rightarrow> None)"

fun images_call :: "images_op \<Rightarrow> string \<Rightarrow> client_call" where
  "images_call (OpBuildImage name apk pip npm mib force) i = (ReqImageBuild i name apk pip npm mib force, image_response)"
| "images_call OpListImages i = (ReqImageList i, \<lambda>x. case x of ImageListResp ms \<Rightarrow> Some (VImages ms) | _ \<Rightarrow> None)"
| "images_call (OpInspectImage name) i = (ReqImageInspect i name, image_response)"
| "images_call (OpRemoveImage name) i = (ReqImageRemove i name, \<lambda>x. case x of ImageRemoved _ \<Rightarrow> Some VUnit | _ \<Rightarrow> None)"

datatype checkpoint_call_op =
    OpCheckpointCreate uuid "string option" "(string \<times> string) list" | OpCheckpointList uuid
  | OpCheckpointRestore uuid string restore_mode | OpCheckpointFork uuid string "string option" | OpCheckpointDelete uuid string

definition expect_checkpoint :: "box_response \<Rightarrow> op_value option" where
  "expect_checkpoint x = (case x of CheckpointResp c \<Rightarrow> Some (VCheckpoint c) | _ \<Rightarrow> None)"

fun checkpoint_call :: "checkpoint_call_op \<Rightarrow> string \<Rightarrow> client_call" where
  "checkpoint_call (OpCheckpointCreate b name metadata) i = (ReqCheckpointCreate i b name metadata, expect_checkpoint)"
| "checkpoint_call (OpCheckpointList b) i =
     (ReqCheckpointList i b, \<lambda>x. case x of CheckpointListResp cs \<Rightarrow> Some (VCheckpoints cs) | _ \<Rightarrow> None)"
| "checkpoint_call (OpCheckpointRestore b c mode) i = (ReqCheckpointRestore i b c mode, expect_checkpoint)"
| "checkpoint_call (OpCheckpointFork b c name) i = request_box (ReqCheckpointFork i b c name)"
| "checkpoint_call (OpCheckpointDelete b c) i = request_ack (ReqCheckpointDelete i b c)"

datatype client_op = BoxOp box_call_op | ShellOp uuid interactive_target | AdminOp admin_call_op | FilesOp files_op | ImagesOp images_op
  | CheckpointOp checkpoint_call_op

fun op_call :: "wire \<Rightarrow> client_op \<Rightarrow> string \<Rightarrow> client_call" where
  "op_call W (BoxOp x) i = box_call x i"
| "op_call W (ShellOp b target) i = shell_open_call b target i"
| "op_call W (AdminOp x) i = admin_call x i"
| "op_call W (FilesOp x) i = files_call W x i"
| "op_call W (ImagesOp x) i = images_call x i"
| "op_call W (CheckpointOp x) i = checkpoint_call x i"

text \<open>An operation up to its wait: a fresh id, then the request.\<close>

definition start_op :: "wire \<Rightarrow> unit result \<Rightarrow> client_op \<Rightarrow> client \<Rightarrow> (string \<times> nat) result \<times> client" where
  "start_op W w op c = (case client_next_request_id c of (i, c) \<Rightarrow>
     (case request_start w (fst (op_call W op i)) c of
        (Inl e, c) \<Rightarrow> (Inl e, c) | (Inr ch, c) \<Rightarrow> (Inr (i, ch), c)))"

section \<open>Commands (\<open>client/exec.rs\<close>, \<open>client/ops.rs\<close>)\<close>

datatype exec_op = OpExecBash uuid string | OpExecPython uuid "string list" | OpExecBashWithTimeout uuid string u64 u64

fun exec_op_request :: "exec_op \<Rightarrow> string \<Rightarrow> box_request" where
  "exec_op_request (OpExecBash b command) i = ReqExecBash i b command None None"
| "exec_op_request (OpExecPython b args) i = ReqExecPython i b args None None"
| "exec_op_request (OpExecBashWithTimeout b command timeout_ms kill_grace_ms) i =
     ReqExecBash i b command (Some timeout_ms) (Some kill_grace_ms)"

text \<open>
  \<open>collect_exec\<close> over the events sent into its channel so far; \<open>closed\<close>: the sender is gone.
  \<open>None\<close>: it still waits.
\<close>

fun collect_exec :: "wire \<Rightarrow> string \<Rightarrow> bool \<Rightarrow> box_event list \<Rightarrow> u8 list \<times> u8 list \<times> u8 list \<Rightarrow> completed_execution result option" where
  "collect_exec W i closed [] (out, so, se) = (if closed then Some (Inr \<lparr>ce_exit_status = Killed, ce_exit_code = Protocols.exit_code Killed,
     ce_output = out, ce_stdout = so, ce_stderr = se\<rparr>) else None)"
| "collect_exec W i closed (ExecOutput j st d # es) (out, so, se) =
     (if j = i then (case client_decode_bytes W ''exec payload'' d of
        Inl e \<Rightarrow> Some (Inl e)
      | Inr b \<Rightarrow> collect_exec W i closed es (out @ b, if st = Stdout then so @ b else so, if st = Stderr then se @ b else se))
      else collect_exec W i closed es (out, so, se))"
| "collect_exec W i closed (ExecExit j x # es) (out, so, se) =
     (if j = i then Some (Inr \<lparr>ce_exit_status = x, ce_exit_code = Protocols.exit_code x, ce_output = out, ce_stdout = so, ce_stderr = se\<rparr>)
      else collect_exec W i closed es (out, so, se))"
| "collect_exec W i closed (ErrorEv (Some j) m # es) (out, so, se) =
     (if j = i then Some (Inl (remote_error m)) else collect_exec W i closed es (out, so, se))"
| "collect_exec W i closed (ErrorEv None m # es) (out, so, se) = Some (Inl (remote_error m))"
| "collect_exec W i closed (_ # es) (out, so, se) = collect_exec W i closed es (out, so, se)"

definition client_exit_code :: "exec_exit \<Rightarrow> int" where
  "client_exit_code status = (case status of
     Success \<Rightarrow> (case Protocols.exit_code status of None \<Rightarrow> 0 | Some c \<Rightarrow> c)
   | ExitCode code \<Rightarrow> (case Protocols.exit_code status of None \<Rightarrow> code | Some c \<Rightarrow> c)
   | TimeoutExit \<Rightarrow> 124
   | Killed \<Rightarrow> 137)"

text \<open>
  A command read from a pipe: the script becomes a here-document of the interpreter.
  \<open>delimiter\<close> is \<open>SAGENS_EOF_\<close> and a random UUID.
\<close>

definition piped_command :: "interactive_target \<Rightarrow> string \<Rightarrow> string \<Rightarrow> string" where
  "piped_command target delimiter script =
     (case target of Bash \<Rightarrow> ''bash'' | Python \<Rightarrow> ''python3'') @ '' <<'' @ [CHR 0x27] @ delimiter @ [CHR 0x27, CHR 0x0A] @
     script @ [CHR 0x0A] @ delimiter @ [CHR 0x0A]"

section \<open>Recovering a stop whose connection was lost (\<open>client/ops.rs\<close>)\<close>

definition is_connection_lost_error :: "sandbox_error \<Rightarrow> bool" where
  "is_connection_lost_error e \<longleftrightarrow> contains (display e) ''reading websocket message failed'' \<or>
     contains (display e) ''websocket connection closed'' \<or>
     contains (display e) ''Connection reset without closing handshake''"

text \<open>A round of the loop: reconnecting, fetching the record, and whether the deadline has passed then.\<close>

datatype recovery_round = ReconnectFailed sandbox_error bool | FetchedBox "box_record result" bool

fun recover_loop :: "sandbox_error \<Rightarrow> recovery_round list \<Rightarrow> box_record result option" where
  "recover_loop error [] = None"
| "recover_loop error (FetchedBox (Inr record) expired # rounds) =
     (if bx_status record \<noteq> Running then Some (Inr record)
      else if expired then Some (Inl error) else recover_loop error rounds)"
| "recover_loop error (FetchedBox (Inl e) expired # rounds) =
     (if \<not> is_connection_lost_error e \<or> expired then Some (Inl error) else recover_loop error rounds)"
| "recover_loop error (ReconnectFailed e expired # rounds) =
     (if \<not> is_connection_lost_error e \<or> expired then Some (Inl error) else recover_loop error rounds)"

definition recover_stopped_box :: "sandbox_error \<Rightarrow> recovery_round list \<Rightarrow> box_record result option" where
  "recover_stopped_box error rounds =
     (if \<not> is_connection_lost_error error then Some (Inl error) else recover_loop error rounds)"

definition client_stop_box :: "box_record result \<Rightarrow> recovery_round list \<Rightarrow> box_record result option" where
  "client_stop_box answer rounds = (case answer of
     Inr record \<Rightarrow> Some (Inr record) | Inl error \<Rightarrow> recover_stopped_box error rounds)"

section \<open>Shells (\<open>client/shell.rs\<close>, \<open>client/ops.rs\<close>)\<close>

datatype shell_op = ShSendInput "u8 list" | ShResize u16 u16 | ShClose

fun shell_op_request :: "wire \<Rightarrow> uuid \<Rightarrow> shell_op \<Rightarrow> string \<Rightarrow> box_request" where
  "shell_op_request W u (ShSendInput d) i = ReqShellInput i u (b64_encode W d)"
| "shell_op_request W u (ShResize cols rows) i = ReqResizeShell i u cols rows"
| "shell_op_request W u ShClose i = ReqCloseShell i u"

definition shell_send :: "wire \<Rightarrow> unit result \<Rightarrow> uuid \<Rightarrow> shell_op \<Rightarrow> client \<Rightarrow> unit result \<times> client" where
  "shell_send W w u op c = (case client_next_request_id c of (i, c) \<Rightarrow> write_message w (Request (shell_op_request W u op i)) c)"

text \<open>
  The loop of \<open>interactive_shell\<close>: what it reacts to, in the order it happens, and what it does:
  bytes written to the terminal and operations on the shell. The second field of an event: whether
  writing to the terminal, or sending to the shell, succeeds. While \<open>close_sent\<close>, input is not
  read. \<open>None\<close>: the loop still runs.
\<close>

datatype tty_event = FromShell "box_event option" "unit result" | FromStdin "u8 list option" "unit result"

fun interactive_loop :: "wire \<Rightarrow> bool \<Rightarrow> tty_event list \<Rightarrow> u8 list \<times> shell_op list \<Rightarrow> int result option \<times> u8 list \<times> shell_op list" where
  "interactive_loop W close_sent [] (out, ops) = (None, out, ops)"
| "interactive_loop W close_sent (FromShell None w # es) (out, ops) = (Some (Inl (Backend ''shell event channel closed'')), out, ops)"
| "interactive_loop W close_sent (FromShell (Some (ShellOutputEv u d)) w # es) (out, ops) =
     (case client_decode_bytes W ''shell payload'' d of
        Inl e \<Rightarrow> (Some (Inl e), out, ops)
      | Inr b \<Rightarrow> (case w of
          Inl e \<Rightarrow> (Some (Inl e), out, ops)
        | Inr _ \<Rightarrow> interactive_loop W close_sent es (out @ b, ops)))"
| "interactive_loop W close_sent (FromShell (Some (ShellExitEv u code)) w # es) (out, ops) = (Some (Inr code), out, ops)"
| "interactive_loop W close_sent (FromShell (Some (ErrorEv i m)) w # es) (out, ops) = (Some (Inl (remote_error m)), out, ops)"
| "interactive_loop W close_sent (FromShell (Some _) w # es) (out, ops) = interactive_loop W close_sent es (out, ops)"
| "interactive_loop W close_sent (FromStdin d w # es) (out, ops) =
     (if close_sent then interactive_loop W close_sent es (out, ops)
      else case w of
        Inl e \<Rightarrow> (Some (Inl e), out, ops)
      | Inr _ \<Rightarrow> (case d of
          None \<Rightarrow> interactive_loop W True es (out, ops @ [ShClose])
        | Some b \<Rightarrow> interactive_loop W close_sent es (out, ops @ [ShSendInput b])))"

section \<open>Runs\<close>

text \<open>
  What the callers and the reader do, in any order. The reader takes no frame after it has
  returned.
\<close>

datatype client_action =
    ActCall "unit result" client_op
  | ActExec "unit result" exec_op
  | ActShell "unit result" uuid shell_op
  | ActRegister uuid
  | ActFlush nat
  | ActFrame server_frame

fun client_step :: "wire \<Rightarrow> client_action \<Rightarrow> client \<Rightarrow> client" where
  "client_step W (ActCall w op) c = snd (start_op W w op c)"
| "client_step W (ActExec w op) c = (case client_next_request_id c of (i, c) \<Rightarrow> snd (open_exec_channel w (exec_op_request op i) c))"
| "client_step W (ActShell w u op) c = snd (shell_send W w u op c)"
| "client_step W (ActRegister u) c = snd (register_shell_channel u c)"
| "client_step W (ActFlush ch) c = flush_shell_event ch c"
| "client_step W (ActFrame f) c = (if cl_reading c then read_frame f c else c)"

end
