(* ===== verification/Cli_Transfer.thy ===== *)
theory Cli_Transfer
  imports Box_Client
begin

text \<open>
  Copying files between the machine of the command line and a box (\<open>src/sagens/client.rs\<close>): the
  upload of a file or a directory tree and the download of a file or of what a listing names.
  The calls of the control plane client are a parameter (\<open>remote_at\<close>); what happens on the local
  disk is recorded: directories created, files written, and the requests made.
\<close>

section \<open>State\<close>

text \<open>The tree below a local path, as the walk of an upload sees it.\<close>

datatype local_tree = LocalFile "u8 list" | LocalDir "(string \<times> local_tree) list"

record transfer_env = env +
  remote_at :: "nat \<Rightarrow> files_op \<Rightarrow> op_value result"
  local_is_dir_at :: "nat \<Rightarrow> string \<Rightarrow> bool"

record local_state = host +
  lf_dirs :: "string list"
  lf_writes :: "(string \<times> u8 list) list"
  lf_requests :: "files_op list"

definition remote_call :: "'e transfer_env_scheme \<Rightarrow> files_op \<Rightarrow> ('z local_state_scheme, op_value) io" where
  "remote_call E op =
     bindE (ask (\<lambda>n. remote_at E n op)) (\<lambda>r.
     seqE (modifyE (\<lambda>s. s\<lparr>lf_requests := lf_requests s @ [op]\<rparr>)) (liftE r))"

definition remote_unit :: "'e transfer_env_scheme \<Rightarrow> files_op \<Rightarrow> ('z local_state_scheme, unit) io" where
  "remote_unit E op = seqE (remote_call E op) (returnE ())"

section \<open>Upload\<close>

fun upload_entries :: "'e transfer_env_scheme \<Rightarrow> uuid \<Rightarrow> (string \<times> local_tree) list \<Rightarrow> string \<Rightarrow> ('z local_state_scheme, unit) io" where
  "upload_entries E b [] remote_dir = sys_io E ''iterating local upload directory''"
| "upload_entries E b ((name, LocalFile d) # entries) remote_dir =
     seqE (sys_io E ''iterating local upload directory'')
     (seqE (sys_io E ''reading local upload entry metadata'')
     (seqE (sys_io E ''reading local upload file'')
     (seqE (remote_unit E (OpWriteFile b (path_join remote_dir name) d True))
       (upload_entries E b entries remote_dir))))"
| "upload_entries E b ((name, LocalDir sub) # entries) remote_dir =
     seqE (sys_io E ''iterating local upload directory'')
     (seqE (sys_io E ''reading local upload entry metadata'')
     (seqE (remote_unit E (OpMakeDir b (path_join remote_dir name) True))
     (seqE (sys_io E ''reading local upload directory'')
     (seqE (upload_entries E b sub (path_join remote_dir name))
       (upload_entries E b entries remote_dir)))))"

definition upload_directory :: "'e transfer_env_scheme \<Rightarrow> uuid \<Rightarrow> (string \<times> local_tree) list \<Rightarrow> string \<Rightarrow> ('z local_state_scheme, unit) io" where
  "upload_directory E b entries remote_dir =
     seqE (sys_io E ''reading local upload directory'') (upload_entries E b entries remote_dir)"

definition upload_path :: "'e transfer_env_scheme \<Rightarrow> uuid \<Rightarrow> local_tree \<Rightarrow> string \<Rightarrow> ('z local_state_scheme, unit) io" where
  "upload_path E b tree remote_path =
     seqE (sys_io E ''reading local upload path metadata'')
     (case tree of
        LocalDir entries \<Rightarrow> seqE (remote_unit E (OpMakeDir b remote_path True)) (upload_directory E b entries remote_path)
      | LocalFile d \<Rightarrow> seqE (sys_io E ''reading local upload file'') (remote_unit E (OpWriteFile b remote_path d True)))"

section \<open>Download\<close>

definition DOWNLOAD_LIMIT :: u64 where
  "DOWNLOAD_LIMIT = 16 * 1024 * 1024"

definition make_local_dirs :: "'e transfer_env_scheme \<Rightarrow> string \<Rightarrow> string \<Rightarrow> ('z local_state_scheme, unit) io" where
  "make_local_dirs E path ctx = seqE (sys_io E ctx) (modifyE (\<lambda>s. s\<lparr>lf_dirs := lf_dirs s @ [path]\<rparr>))"

definition write_download_file :: "'e transfer_env_scheme \<Rightarrow> string \<Rightarrow> u8 list \<Rightarrow> ('z local_state_scheme, unit) io" where
  "write_download_file E path d =
     seqE (case path_parent path of None \<Rightarrow> returnE ()
           | Some p \<Rightarrow> make_local_dirs E p ''creating local download parent directory'')
     (seqE (sys_io E ''writing local downloaded file'')
       (modifyE (\<lambda>s. s\<lparr>lf_writes := lf_writes s @ [(path, d)]\<rparr>)))"

definition read_remote :: "'e transfer_env_scheme \<Rightarrow> uuid \<Rightarrow> string \<Rightarrow> ('z local_state_scheme, read_file_result) io" where
  "read_remote E b path = bindE (remote_call E (OpReadFile b path DOWNLOAD_LIMIT)) (\<lambda>v. case v of
     VFile f \<Rightarrow> returnE f
   | _ \<Rightarrow> throwE (Protocol ''unexpected response type''))"

fun download_directory :: "'e transfer_env_scheme \<Rightarrow> uuid \<Rightarrow> string \<Rightarrow> file_node list \<Rightarrow> ('z local_state_scheme, unit) io" where
  "download_directory E b local_root [] = returnE ()"
| "download_directory E b local_root (entry # entries) = (let local_path = path_join local_root (fnode_path entry) in
     seqE (case fnode_kind entry of
         Directory \<Rightarrow> make_local_dirs E local_path ''creating local downloaded directory''
       | File \<Rightarrow> bindE (read_remote E b (''/workspace/'' @ fnode_path entry)) (\<lambda>f. write_download_file E local_path (rfr_data f))
       | Symlink \<Rightarrow> throwE (InvalidConfig (''downloading symlinks is not supported yet: '' @ fnode_path entry)))
     (download_directory E b local_root entries))"

definition should_fallback_to_file_download :: "sandbox_error \<Rightarrow> bool" where
  "should_fallback_to_file_download error = (case error of
     Io _ source \<Rightarrow> source = ''Not a directory (os error 20)''
   | Backend m \<Rightarrow> contains m ''reading workspace directory'' \<and> (contains m ''Not a directory'' \<or> contains m ''os error 20'')
   | Protocol m \<Rightarrow> contains m ''reading workspace directory'' \<and> (contains m ''Not a directory'' \<or> contains m ''os error 20'')
   | _ \<Rightarrow> False)"

definition remote_file_name :: "string \<Rightarrow> string" where
  "remote_file_name remote_path =
     (if ends_with remote_path ''/'' then ''downloaded-file''
      else let trimmed = rev (dropWhile (\<lambda>c. c = CHR ''/'') (rev remote_path)) in
        if trimmed = [] then ''downloaded-file''
        else (case file_name trimmed of
            Some n \<Rightarrow> if n = [] then ''downloaded-file'' else n
          | None \<Rightarrow> ''downloaded-file''))"

definition resolve_download_file_path :: "bool \<Rightarrow> string \<Rightarrow> string \<Rightarrow> string" where
  "resolve_download_file_path local_is_dir remote_path local_path =
     (if local_is_dir then path_join local_path (remote_file_name remote_path)
      else if ends_with remote_path ''/'' then local_path
      else if (case file_name local_path of None \<Rightarrow> False | Some n \<Rightarrow> n = ''.'' \<or> n = ''..'')
        then path_join local_path (remote_file_name remote_path)
      else local_path)"

definition download_path :: "'e transfer_env_scheme \<Rightarrow> uuid \<Rightarrow> string \<Rightarrow> string \<Rightarrow> ('z local_state_scheme, unit) io" where
  "download_path E b remote_path local_path =
     bindE (tryE (remote_call E (OpListFiles b remote_path))) (\<lambda>res. case res of
       Inr (VFiles entries) \<Rightarrow>
         seqE (make_local_dirs E local_path ''creating local download directory'')
           (download_directory E b local_path entries)
     | Inr _ \<Rightarrow> throwE (Protocol ''unexpected response type'')
     | Inl error \<Rightarrow>
         if should_fallback_to_file_download error then
           bindE (read_remote E b remote_path) (\<lambda>f.
           bindE (ask (\<lambda>n. local_is_dir_at E n local_path)) (\<lambda>is_dir.
             write_download_file E (resolve_download_file_path is_dir remote_path local_path) (rfr_data f)))
         else throwE error)"

section \<open>Uploading a tree\<close>

text \<open>The requests an upload is meant to make: a directory before what it contains.\<close>

fun tree_requests :: "uuid \<Rightarrow> (string \<times> local_tree) list \<Rightarrow> string \<Rightarrow> files_op list" where
  "tree_requests b [] dir = []"
| "tree_requests b ((name, LocalFile d) # entries) dir = OpWriteFile b (path_join dir name) d True # tree_requests b entries dir"
| "tree_requests b ((name, LocalDir sub) # entries) dir =
     OpMakeDir b (path_join dir name) True # tree_requests b sub (path_join dir name) @ tree_requests b entries dir"

definition all_answered :: "'e transfer_env_scheme \<Rightarrow> bool" where
  "all_answered E \<longleftrightarrow> (\<forall>n op. \<exists>v. remote_at E n op = Inr v)"

lemma wp_remote_unit:
  assumes "all_answered E"
  shows "wp (remote_unit E op) (\<lambda>_ t. lf_requests t = lf_requests s @ [op]) (\<lambda>_ _. False) s"
proof -
  obtain v where v: "remote_at E (calls s) op = Inr v" using assms unfolding all_answered_def by blast
  show ?thesis by (simp add: remote_unit_def remote_call_def wp_def liftE_def ask_def seqE_def bindE_def modifyE_def returnE_def v)
qed

lemma wp_upload_entries:
  fixes s :: "'z local_state_scheme"
  assumes "no_faults E" "all_answered E"
  shows "wp (upload_entries E b entries dir) (\<lambda>_ t. lf_requests t = lf_requests s @ tree_requests b entries dir) (\<lambda>_ _. False) s"
proof (induction b entries dir arbitrary: s rule: tree_requests.induct)
  case (1 b dir)
  then show ?case by (auto intro!: wp_total_calls(1) assms)
next
  case (2 b name d entries dir)
  show ?case
    by (auto simp: wp_seqE intro!: wp_total_calls(1) assms wp_mono [OF wp_remote_unit [OF assms(2)]] wp_mono [OF 2])
next
  case (3 b name sub entries dir)
  show ?case
    by (auto simp: wp_seqE intro!: wp_total_calls(1) assms wp_mono [OF wp_remote_unit [OF assms(2)]] wp_mono [OF 3(1)] wp_mono [OF 3(2)])
qed

text \<open>
  An upload copies the whole tree. Without failures, uploading a directory asks the box
  for exactly the nodes of the local tree, each once, in the order of the walk and every directory
  before its content, with the bytes of the files and the paths below the
  destination; an upload of a file is one write.
\<close>

theorem upload_complete:
  assumes "no_faults E" and "all_answered E"
  shows "case upload_path E b tree remote s of
     (Inr _, t) \<Rightarrow> lf_requests t = lf_requests s @ (case tree of
         LocalFile d \<Rightarrow> [OpWriteFile b remote d True]
       | LocalDir entries \<Rightarrow> OpMakeDir b remote True # tree_requests b entries remote)
   | (Inl _, _) \<Rightarrow> False"
proof -
  have "wp (upload_path E b tree remote) (\<lambda>_ t. lf_requests t = lf_requests s @ (case tree of
         LocalFile d \<Rightarrow> [OpWriteFile b remote d True]
       | LocalDir entries \<Rightarrow> OpMakeDir b remote True # tree_requests b entries remote)) (\<lambda>_ _. False) s"
    unfolding upload_path_def upload_directory_def
    by (cases tree) (auto simp: wp_seqE intro!: wp_total_calls(1) assms(1) wp_mono [OF wp_remote_unit [OF assms(2)]]
        wp_mono [OF wp_upload_entries [OF assms]])
  then show ?thesis by (auto simp: wp_def split: prod.splits sum.splits)
qed

section \<open>Where a download writes\<close>

definition below_local :: "string \<Rightarrow> string \<Rightarrow> bool" where
  "below_local root p \<longleftrightarrow> (\<exists>cs. path_components p = path_components root @ cs \<and> (\<forall>c \<in> set cs. \<exists>w. c = Normal w))"

lemma below_join:
  assumes "starts_with root ''/''" "validate_relative rel = Inr ()"
  shows "below_local root (path_join root rel)"
proof -
  have a: "list_all component_allowed (path_components rel)" using assms(2) by (simp add: validate_relative_Inr_iff)
  then have n: "\<not> starts_with rel ''/''" using root_dir_not_allowed by blast
  then have "list_all component_allowed (segment_components (split_on (CHR ''/'') rel))"
    using a relative_components_allowed by blast
  with components_join [OF assms(1) n] show ?thesis unfolding below_local_def using allowed_segments_normal by blast
qed

definition writes_below :: "string \<Rightarrow> 'z local_state_scheme \<Rightarrow> bool" where
  "writes_below root s \<longleftrightarrow> (\<forall>(p, d) \<in> set (lf_writes s). below_local root p)"

lemma writes_below_sys: "preserves (writes_below root) (sys_io E c)"
  by (auto simp: preserves_def writes_below_def sys_io_def bindE_def ask_def returnE_def throwE_def split: option.splits)

lemma writes_below_call: "preserves (writes_below root) (remote_call E op)"
  by (auto simp: preserves_def writes_below_def remote_call_def bindE_def seqE_def ask_def modifyE_def liftE_def returnE_def throwE_def
      split: sum.splits)

lemma writes_below_dir: "preserves (writes_below root) (make_local_dirs E p ctx)"
  unfolding make_local_dirs_def by (intro preserves_intro writes_below_sys) (auto simp: writes_below_def)

lemma writes_below_read: "preserves (writes_below root) (read_remote E b q)"
  unfolding read_remote_def by (intro preserves_intro writes_below_call) (auto split: op_value.splits intro!: preserves_intro)

lemma writes_below_write: "below_local root p \<Longrightarrow> preserves (writes_below root) (write_download_file E p d)"
  unfolding write_download_file_def
  by (intro preserves_intro writes_below_sys) (auto simp: writes_below_def split: option.splits intro!: preserves_intro writes_below_dir)

lemma writes_below_directory:
  "\<lbrakk>starts_with root ''/''; list_all (\<lambda>e. validate_relative (fnode_path e) = Inr ()) entries\<rbrakk>
   \<Longrightarrow> preserves (writes_below root) (download_directory E b root entries)"
proof (induction entries)
  case (Cons e entries)
  have "below_local root (path_join root (fnode_path e))" using Cons.prems by (auto intro: below_join)
  then have "preserves (writes_below root) (case fnode_kind e of
         Directory \<Rightarrow> make_local_dirs E (path_join root (fnode_path e)) ''creating local downloaded directory''
       | File \<Rightarrow> bindE (read_remote E b (''/workspace/'' @ fnode_path e)) (\<lambda>f. write_download_file E (path_join root (fnode_path e)) (rfr_data f))
       | Symlink \<Rightarrow> throwE (InvalidConfig (''downloading symlinks is not supported yet: '' @ fnode_path e)))"
    by (cases "fnode_kind e") (auto intro!: preserves_intro writes_below_dir writes_below_read writes_below_write)
  with Cons show ?case by (auto simp: Let_def intro!: preserves_intro)
qed (simp add: preserves_intro)

text \<open>
  C38: Where a directory is downloaded to. If every path of the listing is one the workspace
  policy accepts, a download below an absolute local directory writes files below that directory
  only, whatever fails on the way.
\<close>

theorem download_confined:
  assumes "starts_with root ''/''" and "list_all (\<lambda>e. validate_relative (fnode_path e) = Inr ()) entries"
    and "lf_writes s = []" and "download_directory E b root entries s = (res, t)" and "(p, d) \<in> set (lf_writes t)"
  shows "\<exists>cs. path_components p = path_components root @ cs \<and> (\<forall>c \<in> set cs. \<exists>w. c = Normal w)"
proof -
  have "writes_below root s" using assms(3) by (simp add: writes_below_def)
  then have "writes_below root t" using preservesD [OF writes_below_directory [OF assms(1,2)], of s E b] assms(4) by simp
  then show ?thesis using assms(5) by (auto simp: writes_below_def below_local_def)
qed

definition demo_node :: "string \<Rightarrow> file_node" where
  "demo_node p = \<lparr>fnode_path = p, fnode_kind = File, fnode_size = 1, fnode_digest = None, fnode_target = None\<rparr>"

text \<open>A box that lists one file, under the given name, with one byte in it.\<close>

definition demo_remote :: "string \<Rightarrow> files_op \<Rightarrow> op_value result" where
  "demo_remote p op = (case op of
     OpListFiles _ _ \<Rightarrow> Inr (VFiles [demo_node p])
   | OpReadFile _ q _ \<Rightarrow> Inr (VFile \<lparr>rfr_path = q, rfr_data = [120], rfr_truncated = False\<rparr>)
   | _ \<Rightarrow> Inr VUnit)"

definition demo_transfer :: "string \<Rightarrow> transfer_env" where
  "demo_transfer p = env.extend quiet_env (transfer_env.fields (\<lambda>_. demo_remote p) (\<lambda>_ _. False))"

definition fresh_local :: local_state where
  "fresh_local = \<lparr>calls = 0, lf_dirs = [], lf_writes = [], lf_requests = []\<rparr>"

theorem download_confined_witness:
  "\<exists>cs. path_components ''/home/u/out/a.txt'' = path_components ''/home/u/out'' @ cs \<and> (\<forall>c \<in> set cs. \<exists>w. c = Normal w)"
proof -
  let ?r = "download_directory (demo_transfer ''a.txt'') 1 ''/home/u/out'' [demo_node ''a.txt''] fresh_local"
  have "lf_writes (snd ?r) = [(''/home/u/out/a.txt'', [120])]" by code_simp
  then have w: "(''/home/u/out/a.txt'', [120]) \<in> set (lf_writes (snd ?r))" by simp
  have v: "starts_with ''/home/u/out'' ''/''" "list_all (\<lambda>e. validate_relative (fnode_path e) = Inr ()) [demo_node ''a.txt'']" by code_simp+
  have "lf_writes fresh_local = []" by (simp add: fresh_local_def)
  from download_confined [OF v this _ w] show ?thesis by (metis prod.collapse)
qed


theorem upload_complete_witness:
  "lf_requests (snd (upload_path (demo_transfer ''a'') 1 (LocalDir [(''d'', LocalDir [(''f'', LocalFile [1])])]) ''/workspace/x'' fresh_local))
     = [OpMakeDir 1 ''/workspace/x'' True, OpMakeDir 1 ''/workspace/x/d'' True, OpWriteFile 1 ''/workspace/x/d/f'' [1] True]"
proof -
  have f: "no_faults (demo_transfer ''a'')" by (simp add: no_faults_def demo_transfer_def env.defs transfer_env.defs quiet_env_def)
  have a: "all_answered (demo_transfer ''a'')"
    by (auto simp: all_answered_def demo_transfer_def env.defs transfer_env.defs demo_remote_def split: files_op.split)
  from upload_complete [OF f a, where b = 1 and tree = "LocalDir [(''d'', LocalDir [(''f'', LocalFile [1])])]" and remote = "''/workspace/x''"
      and s = fresh_local]
  show ?thesis by (auto simp: fresh_local_def path_join_def split: prod.splits sum.splits)
qed

end
