(* ===== verification/Box_Client_Properties.thy ===== *)
theory Box_Client_Properties
  imports Box_Client
begin

text \<open>
  What the client promises its callers: an answer of the kind the operation reads, or the
  server's own error; the whole output of a command, whatever else the connection carries in
  between; every event of a shell, though not always in order. The last part of the theory is the
  case the client does not handle: a call after the reader has ended.
\<close>

section \<open>Errors\<close>

fun keeps_kind :: "sandbox_error \<Rightarrow> bool" where
  "keeps_kind (Io _ _) = False"
| "keeps_kind (Json _ _) = False"
| "keeps_kind (HttpStatus _ _ _) = False"
| "keeps_kind _ = True"

text \<open>
  An error crosses the wire. The client turns the text of an error of the server back into
  the same error, for every kind but I/O, JSON and HTTP errors.
\<close>

theorem remote_error_roundtrip:
  assumes "keeps_kind e"
  shows "remote_error (display e) = e"
  using assms by (cases e) (simp_all add: remote_error_def if_prefix_def)

theorem remote_error_roundtrip_witness:
  "remote_error ''conflict: BOX is running'' = Conflict ''BOX is running''"
  using remote_error_roundtrip [of "Conflict ''BOX is running''"] by simp

section \<open>Calls\<close>

definition well_typed_call :: "string \<Rightarrow> client_call \<Rightarrow> bool" where
  "well_typed_call i q \<longleftrightarrow> request_id (fst q) = i \<and> \<not> is_exec (fst q) \<and> (\<forall>x. response_kind (fst q) x \<longrightarrow> snd q x \<noteq> None)"

lemma well_typed_op: "well_typed_call i (op_call W op i)"
proof (cases op)
  case (BoxOp x)
  then show ?thesis by (cases x) (auto simp: well_typed_call_def request_box_def)
next
  case (ShellOp b target)
  then show ?thesis by (auto simp: well_typed_call_def shell_open_call_def)
next
  case (AdminOp x)
  then show ?thesis by (cases x) (auto simp: well_typed_call_def request_ack_def)
next
  case (FilesOp x)
  then show ?thesis by (cases x) (auto simp: well_typed_call_def request_ack_def)
next
  case (ImagesOp x)
  then show ?thesis by (cases x) (auto simp: well_typed_call_def image_response_def)
next
  case (CheckpointOp x)
  then show ?thesis by (cases x) (auto simp: well_typed_call_def request_box_def request_ack_def expect_checkpoint_def)
qed

lemmas op_typed = well_typed_op [unfolded well_typed_call_def, THEN conjunct1]
  well_typed_op [unfolded well_typed_call_def, THEN conjunct2, THEN conjunct1]
  well_typed_op [unfolded well_typed_call_def, THEN conjunct2, THEN conjunct2, rule_format]

lemma map_of_AList_update [simp]: "map_of (AList.update k v al) k = Some v"
  by (simp add: update_conv')

lemma start_op_Inr:
  assumes "start_op W w op c = (Inr (i, ch), d)"
  shows "i = decimal (unat (cl_next_id c))" "map_of (cl_pending d) i = Some ch" "ch = cl_channels c"
    and "d = c\<lparr>cl_next_id := cl_next_id c + 1, cl_channels := ch + 1, cl_pending := AList.update i ch (cl_pending c),
      cl_written := cl_written c @ [Request (fst (op_call W op i))]\<rparr>"
  using assms
  by (auto simp: start_op_def client_next_request_id_def request_start_def register_response_def open_channel_def client_send_request_def
      write_message_def op_typed(1) split: sum.splits prod.splits)

text \<open>The messages a server sent on a connection, read by its client.\<close>

definition read_messages :: "server_message list \<Rightarrow> client \<Rightarrow> client" where
  "read_messages ms c = fold (\<lambda>m. read_frame (ServerText (Inr m))) ms c"

lemma handle_request_sends:
  assumes "no_faults E" "conn_principal (conns s k) = Some p" "\<not> is_exec r" "handle_request E A k r s = (Inr closed, t)"
  shows "case dispatch_request E A k p r s of
     (Inr _, _) \<Rightarrow> \<exists>x. response_kind r x \<and> sent k t = sent k s @ [Event (Response (request_id r) x)]
   | (Inl (Fail e), _) \<Rightarrow> sent k t = sent k s @ [Event (ErrorEv (Some (request_id r)) (display e))]
   | (Inl Panic, _) \<Rightarrow> False"
proof -
  obtain res u where d: "dispatch_request E A k p r s = (res, u)" by (cases "dispatch_request E A k p r s")
  have a: "wp (dispatch_request E A k p r) (\<lambda>_ t. \<exists>x. response_kind r x \<and> sent k t = sent k s @ [Event (Response (request_id r) x)]) (\<lambda>_ t. sent k t = sent k s) s"
    by (rule answers_dispatch [OF assms(1,3), unfolded answers_def, THEN spec])
  show ?thesis
  proof (cases res)
    case (Inr act)
    then have "t = u \<or> t = u\<lparr>server_shutdown := True\<rparr>"
      using assms(2,4) d by (auto simp: handle_request_def bindE_def seqE_def getE_def tryE_def returnE_def modifyE_def split: connection_action.splits)
    then show ?thesis using a d Inr by (auto simp: wp_def sent_def)
  next
    case (Inl f)
    show ?thesis
    proof (cases f)
      case (Fail e)
      then have "sent k t = sent k u @ [Event (ErrorEv (Some (request_id r)) (display e))]"
        using assms(2,4) d Inl wp_send_error [OF assms(1), of k "request_id r" "display e" u]
        by (auto simp: handle_request_def bindE_def seqE_def getE_def tryE_def returnE_def wp_def split: prod.splits sum.splits)
      then show ?thesis using a d Inl Fail by (simp add: wp_def)
    next
      case Panic
      then show ?thesis using assms(2,4) d Inl by (simp add: handle_request_def bindE_def getE_def tryE_def)
    qed
  qed
qed

text \<open>
  C10: A call gets the value it reads. When the server handles the request of an operation on a
  connection that can be written to, its one answer, read by the client, reaches the channel of
  that call: when the handler succeeded, the answer is of the kind the operation
  reads, so that it returns a value and never reports an unexpected response; when the
  handler failed, the operation returns the handler's error as the wire carries it.
\<close>

theorem client_server_call:
  assumes "no_faults E" and "conn_principal (conns s k) = Some p"
    and "start_op W (Inr ()) op c = (Inr (i, ch), d)"
    and "handle_request E A k (fst (op_call W op i)) s = (Inr closed, t)"
  shows "\<exists>a. cl_answers (read_messages (drop (length (sent k s)) (sent k t)) d) = cl_answers c @ [(ch, a)] \<and>
    (case fst (dispatch_request E A k p (fst (op_call W op i)) s) of
       Inr _ \<Rightarrow> \<exists>v. request_end i (snd (op_call W op i)) a = Inr v
     | Inl (Fail e) \<Rightarrow> request_end i (snd (op_call W op i)) a = Inl (remote_error (display e))
     | Inl Panic \<Rightarrow> False)"
proof -
  note m = handle_request_sends [OF assms(1,2) op_typed(2) assms(4)]
  note st = start_op_Inr [OF assms(3)]
  have q: "map_of (cl_pending d) i = Some ch" "cl_answers d = cl_answers c" using st(2) st(4) by auto
  show ?thesis
    using m q op_typed(3) [of W op i]
    by (cases "dispatch_request E A k p (fst (op_call W op i)) s")
      (force simp: op_typed(1) read_messages_def answer_call_def request_end_def split: sum.splits failure.splits option.splits)
qed

theorem client_server_call_witness:
  "\<exists>t. handle_request quiet_api demo_api 0 (ReqListBoxes ''1'') demo_server = (Inr False, t) \<and>
    cl_answers (read_messages (sent 0 t) (snd (start_op demo_wire (Inr ()) (BoxOp OpListBoxes) (new_client (AuthenticateBox 3 ''t'')))))
      = [(0, Inl (Conflict ''admin authentication required for this websocket command''))]"
proof -
  let ?c = "new_client (AuthenticateBox 3 ''t'')"
  define e where "e = Conflict ''admin authentication required for this websocket command''"
  then have e: "require_admin (Box 3) = Inl e" "remote_error (display e) = Conflict ''admin authentication required for this websocket command''"
    by (simp_all add: remote_error_def if_prefix_def)
  have d: "dispatch_request quiet_api demo_api 0 (Box 3) (ReqListBoxes ''1'') demo_server = (Inl (Fail e), demo_server)"
    using e by (simp add: keep_open_def seqE_def bindE_def liftE_def throwE_def)
  obtain t where t: "handle_request quiet_api demo_api 0 (ReqListBoxes ''1'') demo_server = (Inr False, t)"
    using wp_send_error [OF quiet_api(3), of 0 "''1''" "display e" demo_server "\<lambda>_ _. False"] d
    by (auto simp: handle_request_def bindE_def seqE_def getE_def tryE_def returnE_def wp_def split: prod.splits sum.splits)
  have "fst (start_op demo_wire (Inr ()) (BoxOp OpListBoxes) ?c) = Inr (''1'', 0)" by code_simp
  then have st: "start_op demo_wire (Inr ()) (BoxOp OpListBoxes) ?c = (Inr (''1'', 0), snd (start_op demo_wire (Inr ()) (BoxOp OpListBoxes) ?c))"
    by (simp add: prod_eq_iff)
  from client_server_call [OF quiet_api(3) _ st, of demo_server 0 "Box 3" demo_api False t] t d e(2)
  obtain a where a: "cl_answers (read_messages (sent 0 t) (snd (start_op demo_wire (Inr ()) (BoxOp OpListBoxes) ?c))) = [(0, a)]"
    "request_end ''1'' (snd (op_call demo_wire (BoxOp OpListBoxes) ''1'')) a = Inl (Conflict ''admin authentication required for this websocket command'')"
    by (auto simp: new_client_def)
  from a(2) have "a = Inl (Conflict ''admin authentication required for this websocket command'')"
    by (cases a) (auto simp: request_end_def split: option.splits)
  with a(1) t show ?thesis by auto
qed

section \<open>The tables of the client\<close>

lemma set_AList_update: "set (AList.update k v al) \<subseteq> insert (k, v) (set al)"
  by (induction al) auto

lemma set_AList_delete: "set (AList.delete k al) \<subseteq> set al"
  by (auto simp: AList.delete_eq)

lemma set_AList_entry: "set (AList.delete k (AList.update k v al)) \<subseteq> insert (k, v) (set al)"
  using set_AList_delete set_AList_update by (rule order_trans)

lemma map_of_AList_delete: "map_of (AList.delete k al) j = (if j = k then None else map_of al j)"
  by (simp add: delete_conv')

lemma fold_answer: "fold (\<lambda>ch. answer_call ch r) chs c = c\<lparr>cl_answers := cl_answers c @ map (\<lambda>ch. (ch, r)) chs\<rparr>"
  by (induction chs arbitrary: c) (simp_all add: answer_call_def)

lemma fold_push:
  "fold (\<lambda>ch. push_event ch e) chs c = c\<lparr>cl_queue := \<lambda>ch. cl_queue c ch @ replicate (count_list chs ch) e\<rparr>"
  by (induction chs arbitrary: c) (auto simp: push_event_def replicate_append_same fun_eq_iff)

lemma fail_all_eq:
  "client_fail_all m c = c\<lparr>cl_pending := [], cl_execs := [], cl_shells := [], cl_buffered := [],
     cl_answers := cl_answers c @ map (\<lambda>ch. (ch, Inl (remote_error m))) (map snd (cl_pending c)),
     cl_queue := \<lambda>ch. cl_queue c ch @ replicate (count_list (map snd (cl_execs c)) ch) (ErrorEv None m)
       @ replicate (count_list (map snd (cl_shells c)) ch) (ErrorEv None m)\<rparr>"
  by (simp add: client_fail_all_def Let_def fold_answer fold_push)

text \<open>
  Channels are fresh: those in use were handed out before, the channel of a command belongs to it
  alone, and nothing was sent into a channel that does not exist yet.
\<close>

definition used_channels :: "client \<Rightarrow> nat set" where
  "used_channels c = snd ` set (cl_execs c) \<union> snd ` set (cl_shells c) \<union> fst ` set (cl_flushing c)"

definition channels_ok :: "('k \<times> nat) set \<Rightarrow> nat set \<Rightarrow> nat \<Rightarrow> bool" where
  "channels_ok X S n \<longleftrightarrow> (\<forall>(j, ch) \<in> X. ch < n) \<and> (\<forall>ch \<in> S. ch < n) \<and> (\<forall>(j, ch) \<in> X. ch \<notin> S) \<and> inj_on snd X"

lemma channels_ok_mono: "\<lbrakk>channels_ok X S n; X' \<subseteq> X; S' \<subseteq> S\<rbrakk> \<Longrightarrow> channels_ok X' S' n"
  unfolding channels_ok_def by (auto intro: inj_on_subset) blast

lemma channels_ok_enter:
  assumes "channels_ok X S n"
  shows "channels_ok (insert (i, n) X) S (Suc n)" "channels_ok X (insert n S) (Suc n)"
  using assms by (auto simp: channels_ok_def inj_on_insert intro: less_SucI split: prod.splits)

definition client_ok :: "client \<Rightarrow> bool" where
  "client_ok c \<longleftrightarrow> channels_ok (set (cl_execs c)) (snd ` set (cl_shells c) \<union> fst ` set (cl_flushing c)) (cl_channels c) \<and>
     (\<forall>ch \<ge> cl_channels c. cl_queue c ch = [])"

lemma client_ok_fresh: "client_ok c \<Longrightarrow> ch \<in> used_channels c \<Longrightarrow> ch < cl_channels c"
  by (auto simp: client_ok_def channels_ok_def used_channels_def)

lemma client_okI:
  assumes "client_ok c" "set (cl_execs d) \<subseteq> set (cl_execs c)" "set (cl_shells d) \<subseteq> set (cl_shells c)"
    and "fst ` set (cl_flushing d) \<subseteq> fst ` set (cl_flushing c)" "cl_channels d = cl_channels c"
    and "\<And>ch. \<lbrakk>cl_channels c \<le> ch; ch \<notin> used_channels c; cl_queue c ch = []\<rbrakk> \<Longrightarrow> cl_queue d ch = []"
  shows "client_ok d"
proof -
  have "channels_ok (set (cl_execs d)) (snd ` set (cl_shells d) \<union> fst ` set (cl_flushing d)) (cl_channels d)"
    unfolding assms(5)
    by (rule channels_ok_mono [OF assms(1) [unfolded client_ok_def, THEN conjunct1] assms(2)])
      (intro Un_mono image_mono assms(3,4))
  moreover have "\<forall>ch \<ge> cl_channels d. cl_queue d ch = []"
    using assms(1,5,6) client_ok_fresh [OF assms(1)] by (auto simp: client_ok_def linorder_not_less [symmetric])
  ultimately show ?thesis by (simp add: client_ok_def)
qed

lemma client_ok_new: "client_ok (new_client auth)"
  by (simp add: client_ok_def channels_ok_def new_client_def)

lemma client_ok_chan:
  assumes "client_ok c"
  shows "map_of (cl_execs c) i = Some ch \<Longrightarrow> ch < cl_channels c" "map_of (cl_shells c) u = Some ch \<Longrightarrow> ch < cl_channels c"
    "map_of (cl_flushing c) ch = Some es \<Longrightarrow> ch < cl_channels c"
proof -
  note b = client_ok_fresh [OF assms, of ch]
  show "map_of (cl_execs c) i = Some ch \<Longrightarrow> ch < cl_channels c" "map_of (cl_shells c) u = Some ch \<Longrightarrow> ch < cl_channels c"
    "map_of (cl_flushing c) ch = Some es \<Longrightarrow> ch < cl_channels c"
    by (rule b; force simp: used_channels_def dest: map_of_SomeD)+
qed

lemma client_ok_push: "client_ok c \<Longrightarrow> ch < cl_channels c \<Longrightarrow> client_ok (push_event ch e c)"
  by (erule client_okI) (auto simp: push_event_def)

lemma client_ok_fail_all: "client_ok c \<Longrightarrow> client_ok (client_fail_all m c)"
  by (erule client_okI) (auto simp: fail_all_eq used_channels_def count_list_0_iff)

lemma client_ok_shell_event: "client_ok c \<Longrightarrow> client_ok (dispatch_shell_event u e c)"
proof (cases "map_of (cl_shells c) u")
  case (Some ch)
  assume c: "client_ok c"
  then have p: "client_ok (push_event ch e c)" using client_ok_push client_ok_chan(2) Some by blast
  have "client_ok ((push_event ch e c)\<lparr>cl_shells := AList.delete u (cl_shells (push_event ch e c))\<rparr>)"
    by (rule client_okI [OF p]) (simp_all add: set_AList_delete)
  with p show ?thesis by (simp add: dispatch_shell_event_def Some Let_def)
next
  case None
  assume "client_ok c"
  then show ?thesis by (elim client_okI) (simp_all add: dispatch_shell_event_def None)
qed

lemma client_ok_dispatch: "client_ok c \<Longrightarrow> client_ok (dispatch_event e c)"
proof (induction e c rule: dispatch_event.induct)
  case (1 i r c)
  then show ?case by (elim client_okI) (auto simp: answer_call_def split: option.split)
next
  case (2 i m c)
  then have p: "client_ok (push_event ch (ErrorEv (Some i) m) c)" if "map_of (cl_execs c) i = Some ch" for ch
    using client_ok_push client_ok_chan(1) that by blast
  have "client_ok (push_event ch (ErrorEv (Some i) m) (c\<lparr>cl_execs := AList.delete i (cl_execs c)\<rparr>))"
    if "map_of (cl_execs c) i = Some ch" for ch
    by (rule client_okI [OF p [OF that]]) (simp_all add: push_event_def set_AList_delete)
  moreover have "client_ok (answer_call ch x (c\<lparr>cl_pending := y\<rparr>))" for ch x y
    using 2 by (elim client_okI) (simp_all add: answer_call_def)
  ultimately show ?case using 2 by (simp split: option.split)
next
  case (3 i st d c)
  then show ?case using client_ok_push client_ok_chan(1) by (auto split: option.split)
next
  case (4 i x c)
  let ?c = "case map_of (cl_execs c) i of Some ch \<Rightarrow> push_event ch (ExecExit i x) c | None \<Rightarrow> c"
  have p: "client_ok ?c" using 4 client_ok_push client_ok_chan(1) by (auto split: option.split)
  then show ?case unfolding dispatch_event.simps Let_def
    by (rule client_okI) (simp_all add: set_AList_delete)
qed (simp_all add: client_ok_shell_event client_ok_fail_all)

lemma client_ok_answer_auth: "client_ok (answer_auth r c) \<longleftrightarrow> client_ok c"
  by (simp add: answer_auth_def client_ok_def used_channels_def)

lemma client_ok_reading: "client_ok (c\<lparr>cl_reading := b\<rparr>) \<longleftrightarrow> client_ok c"
  by (simp add: client_ok_def used_channels_def)

lemma client_ok_read: "client_ok c \<Longrightarrow> client_ok (read_frame f c)"
  by (induction f c rule: read_frame.induct)
    (simp_all add: client_ok_dispatch client_ok_answer_auth client_ok_reading end_reader_def client_ok_fail_all Let_def)

text \<open>A new channel, entered into one of the tables.\<close>

lemma client_ok_enter:
  assumes "client_ok c" "cl_channels d = Suc (cl_channels c)" "cl_queue d = cl_queue c"
    and "set (cl_execs d) \<subseteq> insert (i, cl_channels c) (set (cl_execs c)) \<and> set (cl_shells d) \<subseteq> set (cl_shells c) \<and>
        fst ` set (cl_flushing d) \<subseteq> fst ` set (cl_flushing c) \<or>
      set (cl_execs d) \<subseteq> set (cl_execs c) \<and> set (cl_shells d) \<subseteq> insert (u, cl_channels c) (set (cl_shells c)) \<and>
        fst ` set (cl_flushing d) \<subseteq> insert (cl_channels c) (fst ` set (cl_flushing c))"
  shows "client_ok d"
proof -
  note ok = assms(1) [unfolded client_ok_def, THEN conjunct1]
  from assms(4) have "channels_ok (set (cl_execs d)) (snd ` set (cl_shells d) \<union> fst ` set (cl_flushing d)) (cl_channels d)"
  proof (elim disjE conjE)
    assume s: "set (cl_execs d) \<subseteq> insert (i, cl_channels c) (set (cl_execs c))" "set (cl_shells d) \<subseteq> set (cl_shells c)"
      "fst ` set (cl_flushing d) \<subseteq> fst ` set (cl_flushing c)"
    show ?thesis unfolding assms(2) by (rule channels_ok_mono [OF channels_ok_enter(1) [OF ok] s(1)]) (intro Un_mono image_mono s(2,3))
  next
    assume s: "set (cl_execs d) \<subseteq> set (cl_execs c)" "set (cl_shells d) \<subseteq> insert (u, cl_channels c) (set (cl_shells c))"
      "fst ` set (cl_flushing d) \<subseteq> insert (cl_channels c) (fst ` set (cl_flushing c))"
    have "snd ` set (cl_shells d) \<subseteq> insert (cl_channels c) (snd ` set (cl_shells c))" using image_mono [OF s(2), of snd] by simp
    with s(3) show ?thesis unfolding assms(2) by (intro channels_ok_mono [OF channels_ok_enter(2) [OF ok] s(1)]) blast
  qed
  moreover have "\<forall>ch \<ge> cl_channels d. cl_queue d ch = []" using assms(1-3) by (simp add: client_ok_def)
  ultimately show ?thesis by (simp add: client_ok_def)
qed

lemmas client_ops = start_op_def client_next_request_id_def request_start_def register_response_def open_channel_def client_send_request_def
  write_message_def open_exec_channel_def shell_send_def register_shell_channel_def

lemma client_ok_step: "client_ok c \<Longrightarrow> client_ok (client_step W a c)"
proof (cases a)
  case (ActCall w op)
  assume "client_ok c"
  then show ?thesis by (rule client_ok_enter) (auto simp: ActCall client_ops split: sum.splits)
next
  case (ActExec w op)
  assume "client_ok c"
  then show ?thesis
    by (rule client_ok_enter [where i = "request_id (exec_op_request op (decimal (unat (cl_next_id c))))"])
      (simp_all add: ActExec client_ops Let_def set_AList_update set_AList_entry split: sum.split)
next
  case (ActShell w u op)
  assume "client_ok c"
  then show ?thesis by (rule client_okI) (auto simp: ActShell client_ops split: sum.splits)
next
  case (ActRegister u)
  assume "client_ok c"
  then show ?thesis
    by (rule client_ok_enter [where u = u]) (simp_all add: ActRegister client_ops set_AList_update)
next
  case (ActFlush ch)
  assume c: "client_ok c"
  show ?thesis
  proof (cases "map_of (cl_flushing c) ch")
    case (Some es)
    have p: "client_ok (push_event ch e c)" for e using c client_ok_push client_ok_chan(3) Some by blast
    have k: "fst ` set (AList.update ch xs (cl_flushing c)) \<subseteq> fst ` set (cl_flushing c)" for xs
      using image_mono [OF set_AList_update [of ch xs "cl_flushing c"], of fst] map_of_SomeD [OF Some] by force
    have "client_ok ((push_event ch e c)\<lparr>cl_flushing := AList.update ch xs (cl_flushing c)\<rparr>)" for e xs
      by (rule client_okI [OF p [of e]]) (use k in \<open>simp_all add: push_event_def\<close>)
    then show ?thesis using c by (simp add: ActFlush flush_shell_event_def Some split: list.split)
  qed (use c in \<open>simp add: ActFlush flush_shell_event_def\<close>)
next
  case (ActFrame f)
  assume "client_ok c"
  then show ?thesis by (simp add: ActFrame client_ok_read)
qed

lemma client_ok_run: "client_ok (run_steps (client_step W) acts (new_client auth))"
  by (rule run_steps_invariant) (simp_all add: client_ok_step client_ok_new)

section \<open>Commands\<close>

text \<open>The messages of command \<open>i\<close> that an action brings, and the actions that would end it early.\<close>

fun exec_part :: "string \<Rightarrow> client_action \<Rightarrow> server_message list" where
  "exec_part i (ActFrame (ServerText (Inr (Event (ExecOutput j st d))))) = (if j = i then [Event (ExecOutput j st d)] else [])"
| "exec_part i (ActFrame (ServerText (Inr (Event (ExecExit j x))))) = (if j = i then [Event (ExecExit j x)] else [])"
| "exec_part i _ = []"

fun undisturbed :: "string \<Rightarrow> client_action \<Rightarrow> bool" where
  "undisturbed i (ActFrame (ServerText (Inr (Event (ErrorEv j m))))) \<longleftrightarrow> j \<noteq> None \<and> j \<noteq> Some i"
| "undisturbed i (ActFrame (ServerText (Inl e))) = False"
| "undisturbed i (ActFrame ServerClose) = False"
| "undisturbed i (ActFrame ServerEnd) = False"
| "undisturbed i (ActFrame (ServerReadFailed e)) = False"
| "undisturbed i _ = True"

fun event_of :: "server_message \<Rightarrow> box_event" where
  "event_of (Event e) = e"
| "event_of (Authenticated p) = ErrorEv None []"

definition is_exec_exit :: "server_message \<Rightarrow> bool" where
  "is_exec_exit m \<longleftrightarrow> (\<exists>j x. m = Event (ExecExit j x))"

lemma client_ok_other:
  assumes "client_ok c" "map_of (cl_execs c) i = Some ch"
  shows "map_of (cl_execs c) j = Some ch' \<Longrightarrow> j \<noteq> i \<Longrightarrow> ch' \<noteq> ch" "map_of (cl_shells c) u = Some ch' \<Longrightarrow> ch' \<noteq> ch"
    "map_of (cl_flushing c) ch' = Some es \<Longrightarrow> ch' \<noteq> ch"
proof -
  note ok = assms(1) [unfolded client_ok_def channels_ok_def] and m = map_of_SomeD [OF assms(2)]
  from bspec [OF ok [THEN conjunct1, THEN conjunct2, THEN conjunct2, THEN conjunct1] m]
  have ns: "(k, ch) \<notin> set (cl_shells c)" and nf: "(ch, l) \<notin> set (cl_flushing c)" for k l by (auto simp: image_iff)
  show "map_of (cl_execs c) j = Some ch' \<Longrightarrow> j \<noteq> i \<Longrightarrow> ch' \<noteq> ch"
    using ok m by (auto dest!: map_of_SomeD inj_onD [of snd _ "(j, ch')" "(i, ch)"])
  show "map_of (cl_shells c) u = Some ch' \<Longrightarrow> ch' \<noteq> ch" "map_of (cl_flushing c) ch' = Some es \<Longrightarrow> ch' \<noteq> ch"
    using ns nf by (auto dest!: map_of_SomeD)
qed

lemma dispatch_other_exec:
  assumes "client_ok c" "map_of (cl_execs c) i = Some ch" "undisturbed i (ActFrame (ServerText (Inr (Event e))))"
  shows "cl_queue (dispatch_event e c) ch = cl_queue c ch @ map event_of (exec_part i (ActFrame (ServerText (Inr (Event e)))))"
    and "\<not> list_ex is_exec_exit (exec_part i (ActFrame (ServerText (Inr (Event e))))) \<Longrightarrow> map_of (cl_execs (dispatch_event e c)) i = Some ch"
    and "cl_reading (dispatch_event e c) = cl_reading c" "cl_next_id (dispatch_event e c) = cl_next_id c"
proof -
  note other = client_ok_other [OF assms(1,2)] and d = push_event_def answer_call_def dispatch_shell_event_def is_exec_exit_def
    map_of_AList_delete Let_def
  show "cl_queue (dispatch_event e c) ch = cl_queue c ch @ map event_of (exec_part i (ActFrame (ServerText (Inr (Event e)))))"
    using assms(2,3) by (cases "(e, c)" rule: dispatch_event.cases) (auto simp: d dest: other split: option.split)
  show "\<not> list_ex is_exec_exit (exec_part i (ActFrame (ServerText (Inr (Event e))))) \<Longrightarrow> map_of (cl_execs (dispatch_event e c)) i = Some ch"
    using assms(2,3) by (cases "(e, c)" rule: dispatch_event.cases) (auto simp: d split: option.split if_splits)
  show "cl_reading (dispatch_event e c) = cl_reading c" "cl_next_id (dispatch_event e c) = cl_next_id c"
    using assms(3) by (cases "(e, c)" rule: dispatch_event.cases; simp add: d split: option.split)+
qed

lemma exec_step:
  assumes "client_ok c" "map_of (cl_execs c) i = Some ch" "undisturbed i a" "cl_reading c" "decimal (unat (cl_next_id c)) \<noteq> i"
  shows "cl_queue (client_step W a c) ch = cl_queue c ch @ map event_of (exec_part i a)"
    and "\<not> list_ex is_exec_exit (exec_part i a) \<Longrightarrow> map_of (cl_execs (client_step W a c)) i = Some ch"
    and "cl_reading (client_step W a c)" "cl_next_id (client_step W a c) \<in> {cl_next_id c, cl_next_id c + 1}"
proof -
  have "cl_queue (client_step W a c) ch = cl_queue c ch @ map event_of (exec_part i a) \<and>
    (\<not> list_ex is_exec_exit (exec_part i a) \<longrightarrow> map_of (cl_execs (client_step W a c)) i = Some ch) \<and>
    cl_reading (client_step W a c) \<and> cl_next_id (client_step W a c) \<in> {cl_next_id c, cl_next_id c + 1}"
  proof (cases a)
    case (ActFrame f)
    show ?thesis
    proof (cases f)
      case (ServerText x)
      show ?thesis
      proof (cases x)
        case (Inr m)
        show ?thesis
        proof (cases m)
          case (Event e)
          then show ?thesis using dispatch_other_exec [OF assms(1,2), of e] assms(3,4) by (simp add: ActFrame ServerText Inr)
        qed (use assms in \<open>simp add: ActFrame ServerText Inr answer_auth_def\<close>)
      qed (use assms in \<open>simp add: ActFrame ServerText\<close>)
    qed (use assms in \<open>simp_all add: ActFrame\<close>)
  next
    case (ActExec w op)
    have "request_id (exec_op_request op j) = j" for j by (cases op) simp_all
    then show ?thesis using assms by (simp add: ActExec client_ops Let_def update_conv' delete_conv' split: sum.split)
  next
    case (ActFlush k)
    then show ?thesis using assms client_ok_other(3) [OF assms(1,2), of k]
      by (auto simp: flush_shell_event_def push_event_def split: option.split list.split)
  qed (use assms in \<open>auto simp: client_ops split: sum.split\<close>)
  then show "cl_queue (client_step W a c) ch = cl_queue c ch @ map event_of (exec_part i a)"
    "\<not> list_ex is_exec_exit (exec_part i a) \<Longrightarrow> map_of (cl_execs (client_step W a c)) i = Some ch"
    "cl_reading (client_step W a c)" "cl_next_id (client_step W a c) \<in> {cl_next_id c, cl_next_id c + 1}"
    by blast+
qed

text \<open>A channel only ever receives more.\<close>

lemma queue_grows_push: "\<exists>ys. cl_queue (push_event k e c) ch = cl_queue c ch @ ys"
  by (simp add: push_event_def)

lemma queue_grows_dispatch: "\<exists>ys. cl_queue (dispatch_event e c) ch = cl_queue c ch @ ys"
  by (cases "(e, c)" rule: dispatch_event.cases)
    (simp_all add: answer_call_def dispatch_shell_event_def fail_all_eq push_event_def Let_def split: option.split)

lemma queue_grows: "\<exists>ys. cl_queue (client_step W a c) ch = cl_queue c ch @ ys"
proof (cases a)
  case (ActFrame f)
  have "\<exists>ys. cl_queue (read_frame f c) ch = cl_queue c ch @ ys"
    by (cases "(f, c)" rule: read_frame.cases)
      (simp_all add: queue_grows_dispatch end_reader_def fail_all_eq answer_auth_def Let_def)
  then show ?thesis by (simp add: ActFrame)
qed (auto simp: client_ops Let_def flush_shell_event_def push_event_def split: sum.split option.split list.split)

lemma queue_grows_run: "\<exists>ys. cl_queue (run_steps (client_step W) acts c) ch = cl_queue c ch @ ys"
proof (induction acts arbitrary: c)
  case (Cons a acts)
  then show ?case using queue_grows [of W a c ch] by (metis append_assoc run_steps.simps(2))
qed simp

lemma other_id:
  fixes n :: u64
  assumes "0 < m" "m < 2 ^ 64"
  shows "decimal (unat (n + of_nat m)) \<noteq> decimal (unat n)"
proof
  assume "decimal (unat (n + of_nat m)) = decimal (unat n)"
  then have "unat (n + of_nat m) = unat n" by (rule decimal_inj)
  then have "n + of_nat m = n" by (simp only: word_unat_eq_iff [symmetric])
  then have "(of_nat m :: u64) = 0" by simp
  then show False using assms by (simp add: word_of_nat_eq_0_iff nat_dvd_not_less)
qed

lemma exec_part_short: "length (exec_part i a) \<le> 1"
  by (cases "(i, a)" rule: exec_part.cases) auto

lemma exec_run:
  assumes "client_ok c" "map_of (cl_execs c) i = Some ch" "list_all (undisturbed i) acts" "cl_reading c"
    and "i = decimal (unat n)" "cl_next_id c = n + of_nat m" "0 < m" "m + length acts < 2 ^ 64"
    and "concat (map (exec_part i) acts) = ms @ [x]" "\<not> list_ex is_exec_exit ms"
  shows "\<exists>ys. cl_queue (run_steps (client_step W) acts c) ch = cl_queue c ch @ map event_of (ms @ [x]) @ ys"
  using assms
proof (induction acts arbitrary: c m ms)
  case (Cons a acts)
  let ?d = "client_step W a c"
  have "decimal (unat (cl_next_id c)) \<noteq> i" using other_id [of m n] Cons.prems by simp
  note st = exec_step [OF Cons.prems(1,2) _ Cons.prems(4) this, of a]
  have u: "undisturbed i a" "list_all (undisturbed i) acts" using Cons.prems(3) by auto
  obtain m' where m': "cl_next_id ?d = n + of_nat m'" "0 < m'" "m' + length acts < 2 ^ 64"
    using st(4) [OF u(1), of W] Cons.prems(6-8) by (auto simp: add.assoc intro: that [of m] that [of "Suc m"])
  consider "exec_part i a = []" | y where "exec_part i a = [y]" using exec_part_short [of i a] by (cases "exec_part i a") auto
  then show ?case
  proof cases
    case 1
    then show ?thesis
      using Cons.IH [OF client_ok_step [OF Cons.prems(1)] st(2) [OF u(1)] u(2) st(3) [OF u(1)] Cons.prems(5) m'] Cons.prems(9,10) st(1) [OF u(1), of W]
      by simp
  next
    case (2 y)
    show ?thesis
    proof (cases ms)
      case Nil
      then have "y = x" using Cons.prems(9) 2 by simp
      then show ?thesis using st(1) [OF u(1), of W] queue_grows_run [of W acts ?d ch] 2 Nil by auto
    next
      case (Cons z zs)
      then have "y = z" "concat (map (exec_part i) acts) = zs @ [x]" using Cons.prems(9) 2 by auto
      then show ?thesis
        using Cons.IH [OF client_ok_step [OF Cons.prems(1)] st(2) [OF u(1)] u(2) st(3) [OF u(1)] Cons.prems(5) m', of zs] Cons.prems(10) Cons 2 st(1) [OF u(1), of W]
        by simp
    qed
  qed
qed simp

lemma collect_exec_forwarded:
  assumes "b64_inverse (api_wire E)" "\<exists>x. Exit x \<in> set evs"
  shows "collect_exec (api_wire E) i closed (map event_of (map (exec_message E i) (forwarded evs)) @ ys) (out, so, se) =
    (case collect_events (forwarded evs) (Killed, out, so, se) of (st, out', so', se') \<Rightarrow>
      Some (Inr \<lparr>ce_exit_status = st, ce_exit_code = Protocols.exit_code st, ce_output = out', ce_stdout = so', ce_stderr = se'\<rparr>))"
  using assms(2)
proof (induction evs arbitrary: out so se rule: forwarded.induct)
  case (2 s d es)
  have "client_decode_bytes (api_wire E) ctx (b64_encode (api_wire E) d) = Inr d" for ctx
    using assms(1) by (simp add: client_decode_bytes_def b64_inverse_def)
  with 2 show ?case by (cases s) auto
qed auto

lemma forwarded_split: "\<exists>x. Exit x \<in> set evs \<Longrightarrow> \<exists>ms x. forwarded evs = ms @ [Exit x] \<and> (\<forall>e \<in> set ms. \<nexists>y. e = Exit y)"
proof (induction evs rule: forwarded.induct)
  case (2 s d es)
  then obtain ms x where "forwarded es = ms @ [Exit x]" "\<forall>e \<in> set ms. \<nexists>y. e = Exit y" by auto
  then show ?case by (intro exI [of _ "Output s d # ms"] exI [of _ x]) auto
qed auto

text \<open>
  C9: A command's output survives the connection. A caller starts a command on a client in any
  state the client can reach; the server forwards the command's events; and the client
  reads what the server sent for it, in order, among any other messages and any other calls of
  the same client. Then \<open>collect_exec\<close> returns, with exactly the exit status and the output,
  standard output and standard error that collecting the server's stream gives. The connection stays
  up meanwhile and fewer than \<open>2 ^ 64 - 1\<close> actions happen, so that no other request
  gets the same id.
\<close>

theorem exec_over_the_wire:
  assumes "no_faults E" "b64_inverse (api_wire E)" "\<exists>x. Exit x \<in> set evs"
    and "c = run_steps (client_step (api_wire E)) before (new_client auth)" "cl_reading c"
    and "i = decimal (unat (cl_next_id c))"
    and "spawn_exec_stream E k i evs s = (Inr (), t)"
    and "concat (map (exec_part i) acts) = drop (length (sent k s)) (sent k t)"
    and "list_all (undisturbed i) acts" "length acts < 2 ^ 64 - 1"
  shows "collect_exec (api_wire E) i closed
      (cl_queue (run_steps (client_step (api_wire E)) (ActExec (Inr ()) op # acts) c) (cl_channels c)) ([], [], [])
    = Some (Inr (collect (forwarded evs)))"
proof -
  let ?d = "client_step (api_wire E) (ActExec (Inr ()) op) c"
  have id: "request_id (exec_op_request op j) = j" for j by (cases op) simp_all
  have ok: "client_ok c" using assms(4) client_ok_run by simp
  have d: "map_of (cl_execs ?d) i = Some (cl_channels c)" "cl_reading ?d" "cl_next_id ?d = cl_next_id c + of_nat 1"
    "cl_queue ?d (cl_channels c) = []"
    using ok assms(5,6) by (simp_all add: client_ops Let_def id client_ok_def)
  obtain ms x where f: "forwarded evs = ms @ [Exit x]" "\<forall>e \<in> set ms. \<nexists>y. e = Exit y" using forwarded_split [OF assms(3)] by blast
  have "sent k t = sent k s @ map (exec_message E i) (forwarded evs)"
    using wp_spawn_exec_stream [OF assms(1), of k i evs s] assms(7) by (simp add: wp_def)
  then have msgs: "concat (map (exec_part i) acts) = map (exec_message E i) ms @ [exec_message E i (Exit x)]"
    using assms(8) f(1) by simp
  have "\<not> is_exec_exit (exec_message E i e)" if "e \<in> set ms" for e using f(2) that by (cases e) (auto simp: is_exec_exit_def)
  then have ne: "\<not> list_ex is_exec_exit (map (exec_message E i) ms)" by (auto simp: list_ex_iff)
  from exec_run [OF client_ok_step [OF ok] d(1) assms(9) d(2) assms(6) d(3) _ _ msgs ne, of "api_wire E"] assms(10)
  obtain ys where "cl_queue (run_steps (client_step (api_wire E)) acts ?d) (cl_channels c) = map event_of (map (exec_message E i) (forwarded evs)) @ ys"
    using d(4) f(1) by auto
  then show ?thesis using collect_exec_forwarded [OF assms(2,3), of i closed ys "[]" "[]" "[]"] by (simp add: collect_def split: prod.splits)
qed

theorem exec_over_the_wire_witness:
  "collect_exec demo_wire ''1'' False (cl_queue (run_steps (client_step demo_wire)
      [ActExec (Inr ()) (OpExecBash 3 ''ls''),
       ActFrame (ServerText (Inr (Event (ExecOutput ''1'' Stdout (b64_encode demo_wire [104]))))),
       ActCall (Inr ()) (BoxOp OpListBoxes),
       ActFrame (ServerText (Inr (Event (Response ''2'' (BoxList []))))),
       ActFrame (ServerText (Inr (Event (ExecExit ''1'' Success))))] (new_client (AuthenticateBox 3 ''t''))) 0) ([], [], [])
   = Some (Inr \<lparr>ce_exit_status = Success, ce_exit_code = Some 0, ce_output = [104], ce_stdout = [104], ce_stderr = []\<rparr>)"
proof -
  let ?evs = "[Output Stdout [104], Exit Success]"
  let ?acts = "[ActFrame (ServerText (Inr (Event (ExecOutput ''1'' Stdout (b64_encode demo_wire [104]))))),
       ActCall (Inr ()) (BoxOp OpListBoxes),
       ActFrame (ServerText (Inr (Event (Response ''2'' (BoxList []))))),
       ActFrame (ServerText (Inr (Event (ExecExit ''1'' Success))))]"
  have w: "api_wire quiet_api = demo_wire" by (simp add: quiet_api_def box_env.defs api_env.defs quiet_host_def)
  obtain t where t: "spawn_exec_stream quiet_api 0 ''1'' ?evs demo_server = (Inr (), t)"
    and s: "sent 0 t = map (exec_message quiet_api ''1'') (forwarded ?evs)"
    using wp_spawn_exec_stream [OF quiet_api(3), of 0 "''1''" ?evs demo_server] by (auto simp: wp_def split: prod.splits sum.splits)
  have i: "''1'' = decimal (unat (cl_next_id (new_client (AuthenticateBox 3 ''t''))))" by code_simp
  have r: "cl_reading (new_client (AuthenticateBox 3 ''t''))" "cl_channels (new_client (AuthenticateBox 3 ''t'')) = 0"
    by (simp_all add: new_client_def)
  have c: "collect (forwarded ?evs) = \<lparr>ce_exit_status = Success, ce_exit_code = Some 0, ce_output = [104], ce_stdout = [104], ce_stderr = []\<rparr>"
    by (simp add: collect_def)
  have m: "concat (map (exec_part ''1'') ?acts) = drop (length (sent 0 demo_server)) (sent 0 t)" by (simp add: s w)
  have u: "list_all (undisturbed ''1'') ?acts" "length ?acts < 2 ^ 64 - 1" "\<exists>x. Exit x \<in> set ?evs" by simp_all
  from exec_over_the_wire [OF quiet_api(3,4) u(3), where before = "[]" and auth = "AuthenticateBox 3 ''t''", unfolded w run_steps.simps(1),
      OF refl r(1) i t m u(1,2), of False "OpExecBash 3 ''ls''"]
  show ?thesis unfolding c r(2) .
qed

section \<open>Shells\<close>

text \<open>The events of shell \<open>u\<close> that an action brings, and the actions that leave the connection up.\<close>

fun shell_part :: "uuid \<Rightarrow> client_action \<Rightarrow> box_event list" where
  "shell_part u (ActFrame (ServerText (Inr (Event (ShellOutputEv v d))))) = (if v = u then [ShellOutputEv v d] else [])"
| "shell_part u (ActFrame (ServerText (Inr (Event (ShellExitEv v code))))) = (if v = u then [ShellExitEv v code] else [])"
| "shell_part u _ = []"

fun connected :: "client_action \<Rightarrow> bool" where
  "connected (ActFrame (ServerText (Inr (Event (ErrorEv j m))))) \<longleftrightarrow> j \<noteq> None"
| "connected (ActFrame (ServerText (Inl e))) = False"
| "connected (ActFrame ServerClose) = False"
| "connected (ActFrame ServerEnd) = False"
| "connected (ActFrame (ServerReadFailed e)) = False"
| "connected _ = True"

definition buffered_for :: "uuid \<Rightarrow> client \<Rightarrow> box_event list" where
  "buffered_for u c = (case map_of (cl_buffered c) u of None \<Rightarrow> [] | Some es \<Rightarrow> es)"

definition to_flush :: "nat \<Rightarrow> client \<Rightarrow> box_event list" where
  "to_flush ch c = (case map_of (cl_flushing c) ch of None \<Rightarrow> [] | Some es \<Rightarrow> es)"

text \<open>Before the shell is registered its events are buffered, in order.\<close>

lemma buffer_step:
  assumes "map_of (cl_shells c) u = None" "cl_reading c" "connected a" "a \<noteq> ActRegister u"
  shows "map_of (cl_shells (client_step W a c)) u = None \<and> cl_reading (client_step W a c) \<and>
    buffered_for u (client_step W a c) = buffered_for u c @ shell_part u a"
proof (cases a)
  case (ActFrame f)
  show ?thesis
  proof (cases f)
    case (ServerText x)
    show ?thesis
    proof (cases x)
      case (Inr m)
      show ?thesis
      proof (cases m)
        case (Event e)
        then show ?thesis using assms
          by (cases "(e, c)" rule: dispatch_event.cases)
            (auto simp: ActFrame ServerText Inr buffered_for_def dispatch_shell_event_def push_event_def answer_call_def Let_def
              update_conv' delete_conv' split: option.split)
      qed (use assms in \<open>simp add: ActFrame ServerText Inr answer_auth_def buffered_for_def\<close>)
    qed (use assms in \<open>simp add: ActFrame ServerText\<close>)
  qed (use assms in \<open>simp_all add: ActFrame\<close>)
qed (use assms in \<open>auto simp: client_ops Let_def flush_shell_event_def push_event_def buffered_for_def update_conv' delete_conv'
  split: sum.split option.split list.split\<close>)

lemma buffer_run:
  assumes "map_of (cl_shells c) u = None" "cl_reading c" "list_all connected acts" "ActRegister u \<notin> set acts"
  shows "map_of (cl_shells (run_steps (client_step W) acts c)) u = None \<and> cl_reading (run_steps (client_step W) acts c) \<and>
    buffered_for u (run_steps (client_step W) acts c) = buffered_for u c @ concat (map (shell_part u) acts)"
  using assms
proof (induction acts arbitrary: c)
  case (Cons a acts)
  then have st: "map_of (cl_shells (client_step W a c)) u = None" "cl_reading (client_step W a c)"
    "buffered_for u (client_step W a c) = buffered_for u c @ shell_part u a" using buffer_step [of c u a W] by auto
  then show ?case using Cons.IH [OF st(1,2)] Cons.prems(3,4) by simp
qed simp

text \<open>Afterwards every event is in the channel, still to be flushed, or buffered again after the exit.\<close>

definition held :: "uuid \<Rightarrow> nat \<Rightarrow> client \<Rightarrow> box_event multiset" where
  "held u ch c = mset (cl_queue c ch) + mset (to_flush ch c) + mset (buffered_for u c)"

definition shell_owner :: "uuid \<Rightarrow> nat \<Rightarrow> client \<Rightarrow> bool" where
  "shell_owner u ch c \<longleftrightarrow> cl_reading c \<and> ch < cl_channels c \<and> ch \<notin> snd ` set (cl_execs c) \<and>
     (\<forall>v. (v, ch) \<in> set (cl_shells c) \<longrightarrow> v = u) \<and> map_of (cl_shells c) u \<in> {None, Some ch}"

lemma shell_owner_other:
  assumes "shell_owner u ch c"
  shows "map_of (cl_shells c) v = Some ch' \<Longrightarrow> v \<noteq> u \<Longrightarrow> ch' \<noteq> ch" "map_of (cl_execs c) j = Some ch' \<Longrightarrow> ch' \<noteq> ch"
    "map_of (cl_shells c) u = Some ch' \<Longrightarrow> ch' = ch"
  using assms by (auto simp: shell_owner_def image_iff dest!: map_of_SomeD)

lemma shell_owner_sub:
  assumes "shell_owner u ch c" "set (cl_execs d) \<subseteq> set (cl_execs c)" "set (cl_shells d) \<subseteq> set (cl_shells c)"
    and "cl_channels d = cl_channels c" "cl_reading d" "map_of (cl_shells d) u \<in> {None, map_of (cl_shells c) u}"
  shows "shell_owner u ch d"
  using assms image_mono [OF assms(2), of snd] by (auto simp: shell_owner_def)

lemma held_dispatch:
  assumes "shell_owner u ch c" "connected (ActFrame (ServerText (Inr (Event e))))"
  shows "shell_owner u ch (dispatch_event e c)"
    and "held u ch (dispatch_event e c) = held u ch c + mset (shell_part u (ActFrame (ServerText (Inr (Event e)))))"
proof -
  note d = push_event_def answer_call_def dispatch_shell_event_def Let_def update_conv' delete_conv'
  have r: "cl_reading c" using assms(1) by (simp add: shell_owner_def)
  show "shell_owner u ch (dispatch_event e c)"
    by (rule shell_owner_sub [OF assms(1)]; use assms(2) r in \<open>cases "(e, c)" rule: dispatch_event.cases\<close>)
      (simp_all add: d set_AList_delete split: option.split)
  show "held u ch (dispatch_event e c) = held u ch c + mset (shell_part u (ActFrame (ServerText (Inr (Event e)))))"
    using assms(2)
    by (cases "(e, c)" rule: dispatch_event.cases)
      (auto simp: d held_def to_flush_def buffered_for_def dest: shell_owner_other [OF assms(1)] split: option.split)
qed

lemma held_step:
  assumes "shell_owner u ch c" "connected a" "a \<noteq> ActRegister u"
  shows "shell_owner u ch (client_step W a c) \<and> held u ch (client_step W a c) = held u ch c + mset (shell_part u a)"
proof (cases a)
  case (ActFrame f)
  have r: "cl_reading c" using assms(1) by (simp add: shell_owner_def)
  show ?thesis
  proof (cases f)
    case (ServerText x)
    show ?thesis
    proof (cases x)
      case (Inr m)
      show ?thesis
      proof (cases m)
        case (Event e)
        then show ?thesis using held_dispatch [OF assms(1), of e] assms(2) r by (simp add: ActFrame ServerText Inr)
      next
        case (Authenticated p)
        then show ?thesis using assms(1) r
          by (simp add: ActFrame ServerText Inr answer_auth_def held_def to_flush_def buffered_for_def shell_owner_def)
      qed
    qed (use assms in \<open>simp add: ActFrame ServerText\<close>)
  qed (use assms in \<open>simp_all add: ActFrame\<close>)
next
  case (ActExec w op)
  have n: "ch \<notin> snd ` set (cl_execs c)" "ch \<noteq> cl_channels c" using assms(1) by (auto simp: shell_owner_def)
  have "ch \<notin> snd ` set (AList.update j (cl_channels c) (cl_execs c))"
    "ch \<notin> snd ` set (AList.delete j (AList.update j (cl_channels c) (cl_execs c)))" for j
    using image_mono [OF set_AList_update [of j "cl_channels c" "cl_execs c"], of snd]
      image_mono [OF set_AList_entry [of j "cl_channels c" "cl_execs c"], of snd] n by auto
  then show ?thesis using assms(1)
    by (simp add: ActExec client_ops Let_def held_def to_flush_def buffered_for_def shell_owner_def split: sum.split)
next
  case (ActRegister v)
  have "(k, ch) \<notin> set (AList.update v (cl_channels c) (cl_shells c)) \<or> (k, ch) \<in> set (cl_shells c)" for k
    using set_AList_update [of v "cl_channels c" "cl_shells c"] assms(1) by (auto simp: shell_owner_def)
  then show ?thesis using assms(1,3)
    by (auto simp: ActRegister client_ops held_def to_flush_def buffered_for_def shell_owner_def update_conv' delete_conv' map_add_def
        split: option.split)
next
  case (ActFlush k)
  then show ?thesis using assms(1)
    by (auto simp: flush_shell_event_def push_event_def held_def to_flush_def buffered_for_def shell_owner_def update_conv'
        split: option.split list.split)
qed (use assms in \<open>auto simp: client_ops held_def to_flush_def buffered_for_def shell_owner_def split: sum.split\<close>)

lemma held_run:
  assumes "shell_owner u ch c" "list_all connected acts" "ActRegister u \<notin> set acts"
  shows "held u ch (run_steps (client_step W) acts c) = held u ch c + mset (concat (map (shell_part u) acts))"
  using assms
proof (induction acts arbitrary: c)
  case (Cons a acts)
  then show ?case using held_step [of u ch c a W] by auto
qed simp

text \<open>
  C21: No event of a shell is lost or duplicated. A shell's output may arrive before the
  caller that opened it has registered its channel. However the frames interleave with
  the registration, its flush and every other call, as long as the connection stays up, the events
  received for the shell are exactly those sent into the channel, those the
  registration still has to flush, and those buffered (before the registration and after the exit).
\<close>

theorem shell_events_kept:
  assumes "c = run_steps (client_step W) before (new_client auth)" "ActRegister u \<notin> set before" "ActRegister u \<notin> set after"
    and "list_all connected before" "list_all connected after"
    and "d = run_steps (client_step W) (ActRegister u # after) c"
  shows "mset (cl_queue d (cl_channels c)) + mset (to_flush (cl_channels c) d) + mset (buffered_for u d)
    = mset (concat (map (shell_part u) (before @ after)))"
proof -
  let ?ch = "cl_channels c" and ?r = "client_step W (ActRegister u) c"
  have ok: "client_ok c" using assms(1) client_ok_run by simp
  have b: "map_of (cl_shells c) u = None" "cl_reading c" "buffered_for u c = concat (map (shell_part u) before)"
    using buffer_run [of "new_client auth" u before W] assms(1,2,4) by (simp_all add: new_client_def buffered_for_def)
  have fresh: "?ch \<notin> used_channels c" using client_ok_fresh [OF ok, of ?ch] by auto
  have fl: "map_of (cl_flushing c) ?ch = None" using fresh by (auto simp: used_channels_def map_of_eq_None_iff)
  have old: "(v, ?ch) \<notin> set (cl_shells c)" for v using fresh by (force simp: used_channels_def)
  then have "(v, ?ch) \<in> set (AList.update u ?ch (cl_shells c)) \<Longrightarrow> v = u" for v
    using set_AList_update [of u ?ch "cl_shells c"] by blast
  then have own: "shell_owner u ?ch ?r"
    using b(2) fresh by (auto simp: shell_owner_def client_ops used_channels_def)
  have "held u ?ch ?r = mset (buffered_for u c)"
    using ok fl by (simp add: held_def client_ops to_flush_def buffered_for_def client_ok_def map_add_def delete_conv')
  then have "held u ?ch d = mset (concat (map (shell_part u) before)) + mset (concat (map (shell_part u) after))"
    using held_run [OF own assms(5,3), of W] assms(6) b(3) by simp
  then show ?thesis by (simp add: held_def)
qed

definition early_output :: client_action where
  "early_output = ActFrame (ServerText (Inr (Event (ShellOutputEv 7 ''QQ==''))))"

definition late_output :: client_action where
  "late_output = ActFrame (ServerText (Inr (Event (ShellOutputEv 7 ''Qg==''))))"

theorem shell_events_kept_witness:
  "let d = run_steps (client_step demo_wire) [ActRegister 7, late_output] (run_steps (client_step demo_wire) [early_output] (new_client (AuthenticateBox 3 ''t'')))
   in mset (cl_queue d 0) + mset (to_flush 0 d) + mset (buffered_for 7 d) = {#ShellOutputEv 7 ''QQ=='', ShellOutputEv 7 ''Qg==''#}"
proof -
  let ?c = "run_steps (client_step demo_wire) [early_output] (new_client (AuthenticateBox 3 ''t''))"
  have ch: "cl_channels ?c = 0" by code_simp
  have "list_all connected [early_output]" "list_all connected [late_output]" "ActRegister 7 \<notin> set [early_output]" "ActRegister 7 \<notin> set [late_output]"
    by (simp_all add: early_output_def late_output_def)
  from shell_events_kept [OF refl this(3,4,1,2) refl, of demo_wire "AuthenticateBox 3 ''t''"] ch
  show ?thesis by (simp add: Let_def early_output_def late_output_def)
qed


section \<open>After the reader has ended\<close>

lemma reader_ended_step: "\<not> cl_reading c \<Longrightarrow> \<not> cl_reading (client_step W a c) \<and> cl_answers (client_step W a c) = cl_answers c"
  by (cases a) (auto simp: client_ops Let_def flush_shell_event_def push_event_def split: sum.split option.split list.split)

lemma reader_ended_run:
  "\<not> cl_reading c \<Longrightarrow> cl_answers (run_steps (client_step W) acts c) = cl_answers c"
  by (induction acts arbitrary: c) (simp_all add: reader_ended_step)

definition calls_ok :: "client \<Rightarrow> bool" where
  "calls_ok c \<longleftrightarrow> (\<forall>(i, ch) \<in> set (cl_pending c). ch < cl_channels c) \<and> (\<forall>(ch, a) \<in> set (cl_answers c). ch < cl_channels c)"

lemma calls_ok_keep:
  assumes "calls_ok c" "set (cl_pending d) \<subseteq> insert (i, cl_channels c) (set (cl_pending c))" "set (cl_answers d) \<subseteq> set (cl_answers c)"
    and "cl_channels d = cl_channels c + 1 \<or> cl_channels d = cl_channels c \<and> set (cl_pending d) \<subseteq> set (cl_pending c)"
  shows "calls_ok d"
  using assms unfolding calls_ok_def by (fastforce dest: less_SucI)

lemma calls_ok_answer:
  assumes "calls_ok c" "map_of (cl_pending c) i = Some ch"
  shows "calls_ok (answer_call ch r (c\<lparr>cl_pending := AList.delete i (cl_pending c)\<rparr>))"
proof -
  have "ch < cl_channels c" using assms by (auto simp: calls_ok_def dest!: map_of_SomeD)
  then show ?thesis using assms(1) set_AList_delete [of i "cl_pending c"] by (fastforce simp: calls_ok_def answer_call_def)
qed

lemma calls_ok_fail_all: "calls_ok c \<Longrightarrow> calls_ok (client_fail_all m c)"
  by (fastforce simp: calls_ok_def fail_all_eq)

lemma calls_ok_same:
  "calls_ok (answer_auth r c) = calls_ok c" "calls_ok (c\<lparr>cl_reading := b\<rparr>) = calls_ok c" "calls_ok (push_event ch e c) = calls_ok c"
  "calls_ok (c\<lparr>cl_execs := xs\<rparr>) = calls_ok c" "calls_ok (c\<lparr>cl_shells := ss\<rparr>) = calls_ok c" "calls_ok (c\<lparr>cl_buffered := bs\<rparr>) = calls_ok c"
  by (simp_all add: calls_ok_def answer_auth_def push_event_def)

lemma calls_ok_dispatch: "calls_ok c \<Longrightarrow> calls_ok (dispatch_event e c)"
  by (cases "(e, c)" rule: dispatch_event.cases)
    (simp_all add: calls_ok_answer calls_ok_fail_all calls_ok_same dispatch_shell_event_def Let_def split: option.split)

lemma calls_ok_step: "calls_ok c \<Longrightarrow> calls_ok (client_step W a c)"
proof (cases a)
  case (ActFrame f)
  assume "calls_ok c"
  then have "calls_ok (read_frame f c)"
    by (cases "(f, c)" rule: read_frame.cases)
      (simp_all add: calls_ok_dispatch calls_ok_fail_all calls_ok_same end_reader_def Let_def)
  then show ?thesis using \<open>calls_ok c\<close> by (simp add: ActFrame)
next
  case (ActCall w op)
  assume "calls_ok c"
  then show ?thesis
    by (rule calls_ok_keep [where i = "decimal (unat (cl_next_id c))"])
      (simp_all add: ActCall client_ops op_typed(1) set_AList_update split: sum.split)
next
  case (ActExec w op)
  assume "calls_ok c"
  then show ?thesis by (rule calls_ok_keep) (auto simp: ActExec client_ops Let_def split: sum.split)
next
  case (ActShell w u op)
  assume "calls_ok c"
  then show ?thesis by (rule calls_ok_keep) (auto simp: ActShell client_ops split: sum.split)
next
  case (ActRegister u)
  assume "calls_ok c"
  then show ?thesis by (rule calls_ok_keep) (auto simp: ActRegister client_ops)
next
  case (ActFlush ch)
  assume "calls_ok c"
  then show ?thesis by (rule calls_ok_keep) (auto simp: ActFlush flush_shell_event_def push_event_def split: option.split list.split)
qed

lemma calls_ok_run: "calls_ok (run_steps (client_step W) acts (new_client auth))"
  by (rule run_steps_invariant) (simp add: calls_ok_step, simp add: calls_ok_def new_client_def)

text \<open>
  A call after the reader has ended is never answered. When the reader has returned, on a
  message it could not decode for instance, a call still registers and its request is still
  written to the socket; whatever happens afterwards, nothing is ever sent to its channel.
\<close>

theorem client_call_after_reader_end_hangs:
  assumes "c = run_steps (client_step W) before (new_client auth)" "\<not> cl_reading c"
    and "start_op W (Inr ()) op c = (Inr (i, ch), d)"
  shows "last (cl_written d) = Request (fst (op_call W op i)) \<and>
    (\<forall>after. ch \<notin> fst ` set (cl_answers (run_steps (client_step W) after d)))"
proof -
  note st = start_op_Inr [OF assms(3)]
  have "calls_ok c" using assms(1) calls_ok_run by simp
  then have "ch \<notin> fst ` set (cl_answers c)" by (auto simp: calls_ok_def st(3))
  moreover have "cl_answers (run_steps (client_step W) after d) = cl_answers c" for after
    using reader_ended_run [of d W after] assms(2) st(4) by simp
  moreover have "last (cl_written d) = Request (fst (op_call W op i))" using st(4) by simp
  ultimately show ?thesis by simp
qed

definition bad_frame :: client_action where
  "bad_frame = ActFrame (ServerText (Inl ''expected value at line 1 column 1''))"

theorem client_call_after_reader_end_hangs_witness:
  "\<forall>after. 0 \<notin> fst ` set (cl_answers (run_steps (client_step demo_wire) after
     (snd (start_op demo_wire (Inr ()) (BoxOp OpListBoxes) (run_steps (client_step demo_wire) [bad_frame] (new_client (AuthenticateBox 3 ''t'')))))))"
proof -
  let ?c = "run_steps (client_step demo_wire) [bad_frame] (new_client (AuthenticateBox 3 ''t''))"
  have r: "\<not> cl_reading ?c" by code_simp
  have "fst (start_op demo_wire (Inr ()) (BoxOp OpListBoxes) ?c) = Inr (''1'', 0)" by code_simp
  then have "start_op demo_wire (Inr ()) (BoxOp OpListBoxes) ?c = (Inr (''1'', 0), snd (start_op demo_wire (Inr ()) (BoxOp OpListBoxes) ?c))"
    by (simp add: prod_eq_iff)
  from client_call_after_reader_end_hangs [OF refl r this] show ?thesis by blast
qed

section \<open>When the connection ends\<close>

fun ends_reader :: "server_frame \<Rightarrow> bool" where
  "ends_reader (ServerText (Inl e)) = True"
| "ends_reader (ServerText (Inr m)) = False"
| "ends_reader ServerOther = False"
| "ends_reader _ = True"

lemma collect_exec_ends: "ErrorEv None m \<in> set es \<Longrightarrow> collect_exec W i closed es acc \<noteq> None"
  by (induction W i closed es acc rule: collect_exec.induct) (auto split: sum.split)

text \<open>
  C23: Nobody waits on a dead connection. When the reader ends, for whatever reason, every call that
  waits for a response is answered with an error, every command that is being collected
  returns, the handshake has its result, and no table keeps an entry.
\<close>

theorem connection_end_reported:
  assumes "cl_reading c" "ends_reader f" "cl_auth_wait c \<or> cl_auth_answer c \<noteq> None"
  shows "let d = client_step W (ActFrame f) c in
    \<not> cl_reading d \<and> cl_pending d = [] \<and> cl_execs d = [] \<and> cl_shells d = [] \<and> cl_auth_answer d \<noteq> None \<and>
    (\<forall>(i, ch) \<in> set (cl_pending c). \<exists>e. (ch, Inl e) \<in> set (cl_answers d)) \<and>
    (\<forall>(i, ch) \<in> set (cl_execs c). collect_exec W i True (cl_queue d ch) ([], [], []) \<noteq> None)"
proof -
  obtain e m where f: "read_frame f c = end_reader e m c"
    using assms(2) by (cases "(f, c)" rule: read_frame.cases) (auto simp: Let_def)
  have "collect_exec W i True (cl_queue (end_reader e m c) ch) ([], [], []) \<noteq> None" if "(i, ch) \<in> set (cl_execs c)" for i ch
  proof (rule collect_exec_ends [of m])
    have "ch \<in> set (map snd (cl_execs c))" using that by force
    then have "count_list (map snd (cl_execs c)) ch \<noteq> 0" by (simp add: count_list_0_iff)
    then show "ErrorEv None m \<in> set (cl_queue (end_reader e m c) ch)" by (simp add: end_reader_def fail_all_eq answer_auth_def)
  qed
  then show ?thesis using assms(1,3)
    by (auto simp: Let_def f end_reader_def fail_all_eq answer_auth_def image_iff) force+
qed

theorem connection_end_reported_witness:
  "let c = run_steps (client_step demo_wire) [ActCall (Inr ()) (BoxOp OpListBoxes), ActExec (Inr ()) (OpExecBash 3 ''ls'')] (new_client (AuthenticateBox 3 ''t''));
       d = client_step demo_wire (ActFrame ServerClose) c
   in \<not> cl_reading d \<and> (\<exists>e. (0, Inl e) \<in> set (cl_answers d)) \<and> collect_exec demo_wire ''2'' True (cl_queue d 1) ([], [], []) \<noteq> None"
proof -
  let ?c = "run_steps (client_step demo_wire) [ActCall (Inr ()) (BoxOp OpListBoxes), ActExec (Inr ()) (OpExecBash 3 ''ls'')] (new_client (AuthenticateBox 3 ''t''))"
  have c: "cl_reading ?c" "cl_auth_wait ?c" "cl_pending ?c = [(''1'', 0)]" "cl_execs ?c = [(''2'', 1)]" by code_simp+
  show ?thesis using connection_end_reported [OF c(1), of ServerClose demo_wire] c by (simp only: Let_def) simp
qed

section \<open>Stopping a box\<close>

lemma recover_loop_Inr:
  "recover_loop e rounds = Some (Inr r) \<Longrightarrow> bx_status r \<noteq> Running \<and> (\<exists>x. FetchedBox (Inr r) x \<in> set rounds)"
  by (induction e rounds rule: recover_loop.induct) (auto split: if_splits)

lemma client_stop_box_stopped:
  "client_stop_box answer rounds = Some (Inr r) \<Longrightarrow> answer = Inr r \<or> bx_status r \<noteq> Running \<and> (\<exists>x. FetchedBox (Inr r) x \<in> set rounds)"
  using recover_loop_Inr by (auto simp: client_stop_box_def recover_stopped_box_def split: sum.splits if_splits)

end
