(* ===== verification/Cli_App.thy ===== *)
theory Cli_App
  imports Cli_Properties Cli_Transfer Box_Client_Properties
begin

text \<open>
  What the command line program does with a parsed command (\<open>src/sagens/app.rs\<close>): the
  internal entry points, the choice of the operation of the control plane client, and the box
  a setting is applied to when none is named. Printing the result is not modelled.
\<close>

section \<open>Internal entry points\<close>

definition parse_internal :: "string \<Rightarrow> string list \<Rightarrow> string option result" where
  "parse_internal name args =
     (if args = [] \<or> hd args \<noteq> name then Inr None
      else if length args \<noteq> 2 then Inl (InvalidConfig (''usage: sagens '' @ name @ '' <RUNNER_CONFIG_PATH>''))
      else Inr (Some (args ! 1)))"

definition parse_internal_libkrun_runner :: "string list \<Rightarrow> string option result" where
  "parse_internal_libkrun_runner args = parse_internal ''__libkrun-runner'' args"

definition parse_internal_security_harness :: "string list \<Rightarrow> string option result" where
  "parse_internal_security_harness args = parse_internal ''__security-harness'' args"

datatype entry = RunnerEntry string | HarnessEntry string | CommandEntry command

definition run_entry :: "'u uuid_text_scheme \<Rightarrow> string list \<Rightarrow> entry result" where
  "run_entry U args =
     bindR (parse_internal_libkrun_runner args) (\<lambda>r. case r of
       Some p \<Rightarrow> Inr (RunnerEntry p)
     | None \<Rightarrow> bindR (parse_internal_security_harness args) (\<lambda>h. case h of
         Some p \<Rightarrow> Inr (HarnessEntry p)
       | None \<Rightarrow> bindR (parse_args U args) (\<lambda>c. Inr (CommandEntry c))))"

section \<open>Box commands\<close>

text \<open>What a box command makes the client do.\<close>

datatype box_plan =
    OneCall client_op
  | RunExec exec_op
  | RunInteractive uuid interactive_target
  | SetOnlyBox box_setting_value
  | Upload uuid string string
  | Download uuid string string

fun run_checkpoint_command :: "checkpoint_command \<Rightarrow> box_plan" where
  "run_checkpoint_command (CheckpointCreate b name meta) = OneCall (CheckpointOp (OpCheckpointCreate b name meta))"
| "run_checkpoint_command (CheckpointList b) = OneCall (CheckpointOp (OpCheckpointList b))"
| "run_checkpoint_command (CheckpointRestore b c mode) = OneCall (CheckpointOp (OpCheckpointRestore b c mode))"
| "run_checkpoint_command (CheckpointFork b c name) = OneCall (CheckpointOp (OpCheckpointFork b c name))"
| "run_checkpoint_command (CheckpointDelete b c) = OneCall (CheckpointOp (OpCheckpointDelete b c))"

fun run_fs_command :: "fs_command \<Rightarrow> box_plan" where
  "run_fs_command (FsList b path) = OneCall (FilesOp (OpListFiles b path))"
| "run_fs_command (FsUpload b local_path remote_path) = Upload b local_path remote_path"
| "run_fs_command (FsDownload b remote_path local_path) = Download b remote_path local_path"

definition run_box_set_command :: "uuid option \<Rightarrow> box_setting_value \<Rightarrow> box_plan" where
  "run_box_set_command b v = (case b of Some u \<Rightarrow> OneCall (BoxOp (OpSetBoxSetting u v)) | None \<Rightarrow> SetOnlyBox v)"

fun run_box_command :: "box_command \<Rightarrow> box_plan" where
  "run_box_command Cli_Args.BoxList = OneCall (BoxOp OpListBoxes)"
| "run_box_command (BoxNew img) = OneCall (BoxOp (OpCreateBoxFromImage img))"
| "run_box_command (BoxStart b) = OneCall (BoxOp (OpStartBox b))"
| "run_box_command (BoxStop b) = OneCall (BoxOp (OpStopBox b))"
| "run_box_command (BoxRemove b) = OneCall (BoxOp (OpRemoveBox b))"
| "run_box_command (BoxSet b v) = run_box_set_command b v"
| "run_box_command (BoxExec b (ExecBash command)) = RunExec (OpExecBash b command)"
| "run_box_command (BoxExec b (ExecPython args)) = RunExec (OpExecPython b args)"
| "run_box_command (BoxExec b (ExecInteractive target)) = RunInteractive b target"
| "run_box_command (BoxFs c) = run_fs_command c"
| "run_box_command (BoxCheckpoint c) = run_checkpoint_command c"

fun run_admin_command :: "admin_command \<Rightarrow> client_op" where
  "run_admin_command Cli_Args.AdminAdd = AdminOp OpAdminAdd"
| "run_admin_command AdminRemoveMe = AdminOp OpAdminRemoveMe"

definition resolve_single_box_id :: "box_record list \<Rightarrow> uuid result" where
  "resolve_single_box_id boxes = (case boxes of
     [record] \<Rightarrow> Inr (bx_box_id record)
   | [] \<Rightarrow> Inl (NotFound ''no BOXes found; create one first or specify BOX_ID explicitly'')
   | _ \<Rightarrow> Inl (InvalidConfig ''multiple BOXes found; specify BOX_ID explicitly''))"

section \<open>The requests of a command\<close>

text \<open>The box a request acts on; requests on a shell name the shell instead.\<close>

fun request_target :: "box_request \<Rightarrow> uuid option" where
  "request_target (ReqGetBox _ b) = Some b"
| "request_target (ReqStartBox _ b) = Some b"
| "request_target (ReqStopBox _ b) = Some b"
| "request_target (ReqRemoveBox _ b) = Some b"
| "request_target (ReqSetBoxSetting _ b _) = Some b"
| "request_target (ReqExecBash _ b _ _ _) = Some b"
| "request_target (ReqExecPython _ b _ _ _) = Some b"
| "request_target (ReqOpenShell _ b _) = Some b"
| "request_target (ReqFsList _ b _) = Some b"
| "request_target (ReqFsRead _ b _ _) = Some b"
| "request_target (ReqFsWrite _ b _ _ _) = Some b"
| "request_target (ReqFsMkdir _ b _ _) = Some b"
| "request_target (ReqFsRemove _ b _ _) = Some b"
| "request_target (ReqCheckpointCreate _ b _ _) = Some b"
| "request_target (ReqCheckpointList _ b) = Some b"
| "request_target (ReqCheckpointRestore _ b _ _) = Some b"
| "request_target (ReqCheckpointFork _ b _ _) = Some b"
| "request_target (ReqCheckpointDelete _ b _) = Some b"
| "request_target (ReqBoxIssueCredentials _ b) = Some b"
| "request_target _ = None"

fun files_op_box :: "files_op \<Rightarrow> uuid" where
  "files_op_box (OpListFiles b _) = b"
| "files_op_box (OpReadFile b _ _) = b"
| "files_op_box (OpWriteFile b _ _ _) = b"
| "files_op_box (OpMakeDir b _ _) = b"
| "files_op_box (OpRemovePath b _ _) = b"

text \<open>
  The requests a plan may send with id \<open>i\<close>: a setting for the only box asks for the list first;
  a transfer sends file operations; a shell is opened, its input follows under the shell's id; a
  shell that is not a terminal becomes a command.
\<close>

fun plan_sends :: "wire \<Rightarrow> box_plan \<Rightarrow> box_record list \<Rightarrow> string \<Rightarrow> box_request \<Rightarrow> bool" where
  "plan_sends W (OneCall op) boxes i r \<longleftrightarrow> r = fst (op_call W op i)"
| "plan_sends W (RunExec op) boxes i r \<longleftrightarrow> r = exec_op_request op i"
| "plan_sends W (RunInteractive b target) boxes i r \<longleftrightarrow>
     r = fst (shell_open_call b target i) \<or> (\<exists>command. r = exec_op_request (OpExecBash b command) i)"
| "plan_sends W (SetOnlyBox v) boxes i r \<longleftrightarrow> r = fst (op_call W (BoxOp OpListBoxes) i) \<or>
     (\<exists>b. resolve_single_box_id boxes = Inr b \<and> r = fst (op_call W (BoxOp (OpSetBoxSetting b v)) i))"
| "plan_sends W (Upload b l p) boxes i r \<longleftrightarrow> (\<exists>op. files_op_box op = b \<and> r = fst (files_call W op i))"
| "plan_sends W (Download b p l) boxes i r \<longleftrightarrow> (\<exists>op. files_op_box op = b \<and> r = fst (files_call W op i))"

lemma files_call_target: "request_target (fst (files_call W op i)) = Some (files_op_box op)"
  by (cases op) (simp_all add: request_ack_def)

lemma transfer_box:
  "op \<in> set (tree_requests b entries dir) \<Longrightarrow> files_op_box op = b"
  by (induction b entries dir rule: tree_requests.induct) auto

text \<open>
  A command line acts on the box it names. For every box command,
  every request it makes the client send either names no box or names the box of the command; only a
  setting without a box goes to the one box that the daemon lists, and only if there is
  exactly one.
\<close>

theorem command_acts_on_its_box:
  assumes "plan_sends W (run_box_command c) boxes i r" and "request_target r = Some b"
  shows "b \<in> set (command_boxes (CmdBox c)) \<or> (\<exists>v. c = BoxSet None v \<and> (\<exists>record. boxes = [record] \<and> bx_box_id record = b))"
proof (cases c)
  case (BoxSet u v)
  then show ?thesis using assms
    by (cases u) (auto simp: run_box_set_command_def request_box_def resolve_single_box_id_def split: list.splits)
next
  case (BoxExec u t)
  then show ?thesis using assms by (cases t) (auto simp: shell_open_call_def)
next
  case (BoxFs f)
  then show ?thesis using assms files_call_target by (cases f) auto
next
  case (BoxCheckpoint k)
  then show ?thesis using assms by (cases k) (auto simp: request_box_def request_ack_def)
qed (use assms in \<open>auto simp: request_box_def\<close>)

theorem command_acts_on_its_box_witness:
  "run_entry plain_uuids [''box'', ''rm'', ''00000000-0000-0000-0000-000000000bee''] = Inr (CommandEntry (CmdBox (BoxRemove 3054))) \<and>
   (\<forall>r b. plan_sends demo_wire (run_box_command (BoxRemove 3054)) [] ''1'' r \<and> request_target r = Some b \<longrightarrow> b = 3054)"
proof -
  have e: "run_entry plain_uuids [''box'', ''rm'', ''00000000-0000-0000-0000-000000000bee''] = Inr (CommandEntry (CmdBox (BoxRemove 3054)))"
    by code_simp
  show ?thesis using command_acts_on_its_box [of demo_wire "BoxRemove 3054" "[]" "''1''"] e by auto
qed

end
