(* ===== verification/Sagens_Config.thy ===== *)
theory Sagens_Config
  imports Config
begin

text \<open>
  How the daemon builds its configuration from the environment (\<open>src/sagens/config.rs\<close>): the
  directories, the endpoint, the guest's files and the isolation mode. Environment variables, the
  files of the build tree and the target are parameters; parsing a socket address
  (\<open>std::net\<close>) is modelled with its IPv4 and IPv6 syntax.
\<close>

section \<open>Socket addresses (\<open>core::net::parser\<close>)\<close>

text \<open>A parser consumes a prefix of its input.\<close>

type_synonym 'a reader = "string \<Rightarrow> ('a \<times> string) option"

fun read_char :: "char \<Rightarrow> unit reader" where
  "read_char c [] = None"
| "read_char c (d # s) = (if d = c then Some ((), s) else None)"

definition to_digit :: "nat \<Rightarrow> char \<Rightarrow> nat option" where
  "to_digit radix c = (let n = of_char c :: nat;
     v = (if 48 \<le> n \<and> n \<le> 57 then n - 48 else if 97 \<le> n \<and> n \<le> 122 then n - 87
          else if 65 \<le> n \<and> n \<le> 90 then n - 55 else radix)
     in if v < radix then Some v else None)"

fun read_digits :: "nat \<Rightarrow> nat option \<Rightarrow> nat \<Rightarrow> nat \<Rightarrow> nat \<Rightarrow> (nat \<times> nat) reader" where
  "read_digits radix max_digits bound acc count [] = Some ((acc, count), [])"
| "read_digits radix max_digits bound acc count (c # s) = (case to_digit radix c of
     None \<Rightarrow> Some ((acc, count), c # s)
   | Some d \<Rightarrow> (let v = acc * radix + d in
       if bound \<le> v \<or> (case max_digits of None \<Rightarrow> False | Some m \<Rightarrow> m < count + 1) then None
       else read_digits radix max_digits bound v (count + 1) s))"

definition read_number :: "nat \<Rightarrow> nat option \<Rightarrow> bool \<Rightarrow> nat \<Rightarrow> nat reader" where
  "read_number radix max_digits allow_zero_prefix bound s = (case read_digits radix max_digits bound 0 0 s of
     None \<Rightarrow> None
   | Some ((v, count), t) \<Rightarrow>
       if count = 0 \<or> (\<not> allow_zero_prefix \<and> starts_with s ''0'' \<and> 1 < count) then None else Some (v, t))"

definition bind_reader :: "'a reader \<Rightarrow> ('a \<Rightarrow> 'b reader) \<Rightarrow> 'b reader" where
  "bind_reader p f s = (case p s of None \<Rightarrow> None | Some (a, t) \<Rightarrow> f a t)"

definition read_octet :: "nat reader" where
  "read_octet = read_number 10 (Some 3) False 256"

definition read_ipv4_addr :: "ip_addr reader" where
  "read_ipv4_addr = bind_reader read_octet (\<lambda>a. bind_reader (read_char (CHR ''.'')) (\<lambda>_.
     bind_reader read_octet (\<lambda>b. bind_reader (read_char (CHR ''.'')) (\<lambda>_.
     bind_reader read_octet (\<lambda>c. bind_reader (read_char (CHR ''.'')) (\<lambda>_.
     bind_reader read_octet (\<lambda>d s. Some (Ipv4 (of_nat a) (of_nat b) (of_nat c) (of_nat d), s))))))))"

definition read_port :: "u16 reader" where
  "read_port = bind_reader (read_char (CHR '':'')) (\<lambda>_. bind_reader (read_number 10 None True 65536) (\<lambda>n s. Some (of_nat n, s)))"

text \<open>Up to \<open>limit\<close> groups; the last two may be written as an IPv4 address. The flag says they were.\<close>

fun ipv4_groups :: "ip_addr \<Rightarrow> nat list" where
  "ipv4_groups (Ipv4 a b c d) = [unat a * 256 + unat b, unat c * 256 + unat d]"
| "ipv4_groups (Ipv6 w) = []"

definition read_separated :: "nat \<Rightarrow> 'a reader \<Rightarrow> 'a reader" where
  "read_separated i p = (if i = 0 then p else bind_reader (read_char (CHR '':'')) (\<lambda>_. p))"

function read_groups :: "nat \<Rightarrow> nat \<Rightarrow> nat list \<Rightarrow> string \<Rightarrow> (nat list \<times> bool) \<times> string" where
  "read_groups limit i gs s =
     (if limit \<le> i then ((gs, False), s)
      else case (if i + 1 < limit then read_separated i read_ipv4_addr s else None) of
        Some (ip, t) \<Rightarrow> ((gs @ ipv4_groups ip, True), t)
      | None \<Rightarrow> (case read_separated i (read_number 16 (Some 4) True 65536) s of
          Some (g, t) \<Rightarrow> read_groups limit (i + 1) (gs @ [g]) t
        | None \<Rightarrow> ((gs, False), s)))"
  by pat_completeness auto
termination by (relation "measure (\<lambda>(limit, i, _, _). limit - i)") auto

declare read_groups.simps [simp del]

definition ipv6_of :: "nat list \<Rightarrow> ip_addr" where
  "ipv6_of gs = Ipv6 (of_nat (foldl (\<lambda>a g. a * 65536 + g) 0 gs))"

definition read_ipv6_addr :: "ip_addr reader" where
  "read_ipv6_addr s = (case read_groups 8 0 [] s of ((head, head_ipv4), t) \<Rightarrow>
     if length head = 8 then Some (ipv6_of head, t)
     else if head_ipv4 then None
     else (case bind_reader (read_char (CHR '':'')) (\<lambda>_. read_char (CHR '':'')) t of
         None \<Rightarrow> None
       | Some (_, u) \<Rightarrow> (case read_groups (8 - (length head + 1)) 0 [] u of ((tail, _), v) \<Rightarrow>
           Some (ipv6_of (head @ replicate (8 - length head - length tail) 0 @ tail), v))))"

definition read_scope_id :: "nat reader" where
  "read_scope_id s = (case bind_reader (read_char (CHR ''%'')) (\<lambda>_. read_number 10 None True (2 ^ 32)) s of
     None \<Rightarrow> Some (0, s) | Some r \<Rightarrow> Some r)"

definition read_socket_addr :: "(ip_addr \<times> u16) reader" where
  "read_socket_addr s = (case bind_reader read_ipv4_addr (\<lambda>ip. bind_reader read_port (\<lambda>p u. Some ((ip, p), u))) s of
     Some r \<Rightarrow> Some r
   | None \<Rightarrow> bind_reader (read_char (CHR ''['')) (\<lambda>_. bind_reader read_ipv6_addr (\<lambda>ip.
       bind_reader read_scope_id (\<lambda>_. bind_reader (read_char (CHR '']'')) (\<lambda>_.
       bind_reader read_port (\<lambda>p u. Some ((ip, p), u)))))) s)"

definition parse_socket_addr :: "string \<Rightarrow> string + ip_addr \<times> u16" where
  "parse_socket_addr s = (case read_socket_addr s of
     Some (a, []) \<Rightarrow> Inr a | _ \<Rightarrow> Inl ''invalid socket address syntax'')"

section \<open>Directories and files\<close>

text \<open>
  \<open>var\<close>: \<open>std::env::var\<close>, for variables whose value is text. \<open>workspace_root\<close>: the source tree the
  program was built in. \<open>embedded\<close>: whether the build put guest files into the program.
\<close>

record sagens_env =
  var :: "string \<Rightarrow> string option"
  is_file :: "string \<Rightarrow> bool"
  file_contents :: "string \<Rightarrow> u8 list option"
  workspace_root :: string
  embedded :: bool
  host_platform :: platform

record sagens_paths =
  sp_state_dir :: string
  sp_user_config_path :: string
  sp_endpoint :: string
  sp_pid_path :: string
  sp_daemon_log_path :: string

definition home_dir :: "'e sagens_env_scheme \<Rightarrow> string" where
  "home_dir V = (case var V ''HOME'' of None \<Rightarrow> ''.'' | Some h \<Rightarrow> h)"

definition non_empty_var :: "'e sagens_env_scheme \<Rightarrow> string \<Rightarrow> string option" where
  "non_empty_var V name = (case var V name of None \<Rightarrow> None | Some v \<Rightarrow> if v = [] then None else Some v)"

definition default_state_dir :: "'e sagens_env_scheme \<Rightarrow> string" where
  "default_state_dir V =
     (if target_os (host_platform V) = MacOs then
        path_join (path_join (path_join (home_dir V) ''Library'') ''Application Support'') ''sagens''
      else case non_empty_var V ''XDG_STATE_HOME'' of
        Some xdg \<Rightarrow> path_join xdg ''sagens''
      | None \<Rightarrow> path_join (path_join (path_join (home_dir V) ''.local'') ''state'') ''sagens'')"

definition default_config_dir :: "'e sagens_env_scheme \<Rightarrow> string" where
  "default_config_dir V =
     (if target_os (host_platform V) = MacOs then
        path_join (path_join (path_join (home_dir V) ''Library'') ''Application Support'') ''sagens''
      else case non_empty_var V ''XDG_CONFIG_HOME'' of
        Some xdg \<Rightarrow> path_join xdg ''sagens''
      | None \<Rightarrow> path_join (path_join (home_dir V) ''.config'') ''sagens'')"

definition default_user_config_path :: "'e sagens_env_scheme \<Rightarrow> string" where
  "default_user_config_path V = path_join (default_config_dir V) ''config.json''"

definition default_endpoint :: string where
  "default_endpoint = ''ws://127.0.0.1:7000''"

definition resolve_paths :: "'e sagens_env_scheme \<Rightarrow> sagens_paths" where
  "resolve_paths V = (let
     state_dir = (case var V ''SAGENS_STATE_DIR'' of Some d \<Rightarrow> d | None \<Rightarrow> default_state_dir V) in
     \<lparr>sp_state_dir = state_dir,
      sp_user_config_path = (case var V ''SAGENS_CONFIG'' of Some p \<Rightarrow> p | None \<Rightarrow> default_user_config_path V),
      sp_endpoint = (case var V ''SAGENS_ENDPOINT'' of Some e \<Rightarrow> e | None \<Rightarrow> default_endpoint),
      sp_pid_path = path_join state_dir ''daemon.pid'',
      sp_daemon_log_path = path_join state_dir ''daemon.log''\<rparr>)"

datatype project_artifact_kind = KernelArtifact | RootfsArtifact | FirmwareArtifact

definition guest_dir :: "'e sagens_env_scheme \<Rightarrow> string option" where
  "guest_dir V = (if target_os (host_platform V) \<notin> {MacOs, Linux} then None
     else case target_arch (host_platform V) of
       X86_64 \<Rightarrow> Some (path_join (workspace_root V) ''artifacts/alpine-x86_64'')
     | Aarch64 \<Rightarrow> Some (path_join (workspace_root V) ''artifacts/alpine-aarch64'')
     | OtherArch \<Rightarrow> None)"

definition default_kernel_candidates :: "string \<Rightarrow> string list" where
  "default_kernel_candidates dir = [path_join dir ''vmlinuz-virt'']"

definition default_project_artifact_candidates :: "'e sagens_env_scheme \<Rightarrow> project_artifact_kind \<Rightarrow> string list" where
  "default_project_artifact_candidates V kind = (case kind of
     KernelArtifact \<Rightarrow> (case guest_dir V of None \<Rightarrow> [] | Some d \<Rightarrow> default_kernel_candidates d)
   | RootfsArtifact \<Rightarrow> (case guest_dir V of None \<Rightarrow> [] | Some d \<Rightarrow> [path_join d ''rootfs.raw''])
   | FirmwareArtifact \<Rightarrow> (if target_os (host_platform V) = MacOs
       then [path_join (workspace_root V) ''third_party/upstream/libkrun/edk2/KRUN_EFI.silent.fd''] else []))"

definition first_existing_path :: "'e sagens_env_scheme \<Rightarrow> string list \<Rightarrow> string option" where
  "first_existing_path V candidates = List.find (is_file V) candidates"

definition required_path :: "'e sagens_env_scheme \<Rightarrow> string list \<Rightarrow> string" where
  "required_path V candidates = (case first_existing_path V candidates of None \<Rightarrow> [] | Some p \<Rightarrow> p)"

definition default_guest_path :: "'e sagens_env_scheme \<Rightarrow> project_artifact_kind \<Rightarrow> string" where
  "default_guest_path V kind = (if embedded V then [] else required_path V (default_project_artifact_candidates V kind))"

definition default_firmware_path :: "'e sagens_env_scheme \<Rightarrow> string option" where
  "default_firmware_path V = (if embedded V then None
     else first_existing_path V (default_project_artifact_candidates V FirmwareArtifact))"

definition default_guest_uid :: "'e sagens_env_scheme \<Rightarrow> u32" where
  "default_guest_uid V = (if target_os (host_platform V) = MacOs then 0 else 65534)"

definition default_guest_gid :: "'e sagens_env_scheme \<Rightarrow> u32" where
  "default_guest_gid V = (if target_os (host_platform V) = MacOs then 0 else 65534)"

section \<open>The runtime configuration\<close>

definition env_flag :: "'e sagens_env_scheme \<Rightarrow> string \<Rightarrow> bool" where
  "env_flag V name \<longleftrightarrow> var V name \<in> {Some ''1'', Some ''true'', Some ''yes'', Some ''on''}"

definition insecure_compat_opt_in :: "'e sagens_env_scheme \<Rightarrow> bool" where
  "insecure_compat_opt_in V = env_flag V ''SAGENS_INSECURE_COMPAT''"

definition secure_defaults_ready :: "'e sagens_env_scheme \<Rightarrow> bool" where
  "secure_defaults_ready V \<longleftrightarrow> target_os (host_platform V) = Linux \<and> non_empty_var V ''SAGENS_CGROUP_PARENT'' \<noteq> None"

definition parse_isolation_mode :: "'e sagens_env_scheme \<Rightarrow> isolation_mode result" where
  "parse_isolation_mode V = (let
     explicit = (case var V ''SAGENS_ISOLATION_MODE'' of Some v \<Rightarrow> if trim v \<noteq> [] then Some v else None | None \<Rightarrow> None) in
     case explicit of
       Some value \<Rightarrow> (let m = to_ascii_lowercase (trim value) in
         if m = ''compat'' then
           (if insecure_compat_opt_in V then Inr Compat
            else Inl (InvalidConfig ''compat isolation mode is marked insecure and is only available for dev/test; set SAGENS_INSECURE_COMPAT=1 together with SAGENS_ISOLATION_MODE=compat to continue''))
         else if m = ''secure'' then Inr Secure
         else Inl (InvalidConfig (''unsupported SAGENS_ISOLATION_MODE: '' @ value)))
     | None \<Rightarrow>
         if secure_defaults_ready V then Inr Secure
         else Inl (InvalidConfig ''secure isolation is the only supported packaged mode on this host; this host would otherwise fall back to insecure compat. Configure the secure host prerequisites or, for dev/test only, set SAGENS_ISOLATION_MODE=compat and SAGENS_INSECURE_COMPAT=1''))"

definition parse_endpoint_addr :: "string \<Rightarrow> (ip_addr \<times> u16) result" where
  "parse_endpoint_addr endpoint = (case strip_prefix endpoint ''ws://'' of
     None \<Rightarrow> Inl (InvalidConfig (''unsupported endpoint '' @ endpoint))
   | Some rest \<Rightarrow> (case parse_socket_addr rest of
       Inl error \<Rightarrow> Inl (InvalidConfig (''invalid websocket endpoint '' @ endpoint @ '': '' @ error))
     | Inr a \<Rightarrow> Inr a))"

definition var_u32 :: "'e sagens_env_scheme \<Rightarrow> string \<Rightarrow> u32 \<Rightarrow> u32" where
  "var_u32 V name d = (case Option.bind (var V name) parse_u32_str of None \<Rightarrow> d | Some n \<Rightarrow> n)"

definition var_u64 :: "'e sagens_env_scheme \<Rightarrow> string \<Rightarrow> u64 \<Rightarrow> u64" where
  "var_u64 V name d = (case Option.bind (var V name) parse_u64_str of None \<Rightarrow> d | Some n \<Rightarrow> n)"

definition build_guest_config :: "'e sagens_env_scheme \<Rightarrow> guest_config" where
  "build_guest_config V = (let kernel = default_guest_path V KernelArtifact in
     \<lparr>kernel_image = kernel,
      kernel_format = detect_from_path (host_platform V) (file_contents V) kernel RawKernel,
      rootfs_image = default_guest_path V RootfsArtifact,
      firmware = default_firmware_path V,
      guest_agent_path = ''/usr/local/bin/sagens-guest-agent'',
      guest_vsock_port = var_u32 V ''SAGENS_GUEST_VSOCK_PORT'' 11000,
      boot_timeout = 30 * 1000000000,
      guest_uid = default_guest_uid V,
      guest_gid = default_guest_gid V,
      guest_tmpfs_mib = 64\<rparr>)"

definition build_runtime_config_for_endpoint :: "'e sagens_env_scheme \<Rightarrow> string \<Rightarrow> string \<Rightarrow> runtime_config result" where
  "build_runtime_config_for_endpoint V state_dir endpoint =
     (case parse_isolation_mode V of Inl e \<Rightarrow> Inl e | Inr mode \<Rightarrow>
     (case parse_endpoint_addr endpoint of Inl e \<Rightarrow> Inl e | Inr (ip, port) \<Rightarrow>
       Inr \<lparr>cfg_state_dir = state_dir,
            cfg_guest = build_guest_config V,
            cfg_disk_size_mib = var_u64 V ''SAGENS_WORKSPACE_MIB'' 128,
            cfg_control = \<lparr>bind_ip = ip, bind_port = port, allow_remote_bind = False\<rparr>,
            cfg_warm_pool_size = 1,
            cfg_isolation_mode = mode,
            cfg_hardening = \<lparr>enable_landlock = (mode = Secure \<or> env_flag V ''SAGENS_ENABLE_LANDLOCK''),
              cgroup_parent = non_empty_var V ''SAGENS_CGROUP_PARENT'',
              runner_log_limit_bytes = var_u64 V ''SAGENS_RUNNER_LOG_LIMIT_BYTES'' (4 * 1024 * 1024)\<rparr>,
            cfg_bundle_id = (case var V ''SAGENS_BUNDLE_ID'' of None \<Rightarrow> ''sagens'' | Some b \<Rightarrow> b),
            cfg_default_policy = default_policy\<rparr>))"

section \<open>What the environment can and cannot ask for\<close>

lemmas reader_defs = parse_endpoint_addr_def parse_socket_addr_def read_socket_addr_def read_ipv4_addr_def read_octet_def read_port_def
  read_number_def bind_reader_def to_digit_def read_ipv6_addr_def read_scope_id_def read_separated_def ipv6_of_def

lemma ipv4_endpoint: "parse_endpoint_addr ''ws://127.0.0.1:7000'' = Inr (Ipv4 127 0 0 1, 7000)"
  by (simp add: reader_defs)

text \<open>
  C27: The insecure mode is never a default. A configuration built from the environment runs in
  compat mode only when both variables ask for it; otherwise it is secure, with
  Landlock enabled. It never allows binding to other interfaces, its default policy has no
  network, and once it passes validation the control plane listens on loopback and, in secure mode,
  a control group is set.
\<close>

theorem built_config_secure:
  assumes "build_runtime_config_for_endpoint V state_dir endpoint = Inr c"
  shows "(cfg_isolation_mode c = Compat \<longleftrightarrow>
      (\<exists>v. var V ''SAGENS_ISOLATION_MODE'' = Some v \<and> to_ascii_lowercase (trim v) = ''compat'') \<and>
      env_flag V ''SAGENS_INSECURE_COMPAT'') \<and>
    (cfg_isolation_mode c = Secure \<longrightarrow> enable_landlock (cfg_hardening c)) \<and>
    \<not> allow_remote_bind (cfg_control c) \<and> \<not> pol_network_enabled (cfg_default_policy c) \<and>
    (config_validate pf c = Inr () \<longrightarrow> is_loopback (bind_ip (cfg_control c)) \<and>
      (cfg_isolation_mode c = Secure \<longrightarrow> cgroup_parent (cfg_hardening c) \<noteq> None))"
proof -
  obtain mode ip port where m: "parse_isolation_mode V = Inr mode" "parse_endpoint_addr endpoint = Inr (ip, port)"
    using assms by (auto simp: build_runtime_config_for_endpoint_def split: sum.splits)
  have mode: "mode = Compat \<longleftrightarrow> (\<exists>v. var V ''SAGENS_ISOLATION_MODE'' = Some v \<and> to_ascii_lowercase (trim v) = ''compat'') \<and>
      env_flag V ''SAGENS_INSECURE_COMPAT''"
    using m(1) by (auto simp: parse_isolation_mode_def insecure_compat_opt_in_def Let_def to_ascii_lowercase_def split: option.splits if_splits)
  have c: "cfg_isolation_mode c = mode" "enable_landlock (cfg_hardening c) = (mode = Secure \<or> env_flag V ''SAGENS_ENABLE_LANDLOCK'')"
    "\<not> allow_remote_bind (cfg_control c)" "cfg_default_policy c = default_policy"
    using assms m by (auto simp: build_runtime_config_for_endpoint_def)
  have v: "config_validate pf c = Inr () \<Longrightarrow> is_loopback (bind_ip (cfg_control c)) \<and> (mode = Secure \<longrightarrow> cgroup_parent (cfg_hardening c) \<noteq> None)"
    using c(1,3) by (cases mode) (auto simp: validate_defs and_then_Inr check_all_Inr split: if_splits)
  show ?thesis using mode c v by (auto simp: default_policy_def)
qed

definition demo_vars :: sagens_env where
  "demo_vars = \<lparr>var = (\<lambda>n. if n = ''SAGENS_CGROUP_PARENT'' then Some ''/sys/fs/cgroup/sagens'' else None), is_file = (\<lambda>_. True),
     file_contents = (\<lambda>_. None), workspace_root = ''/w'', embedded = False, host_platform = \<lparr>target_os = Linux, target_arch = X86_64\<rparr>\<rparr>"

theorem built_config_secure_witness:
  "\<exists>c. build_runtime_config_for_endpoint demo_vars ''/s'' ''ws://127.0.0.1:7000'' = Inr c \<and> cfg_isolation_mode c = Secure \<and>
     enable_landlock (cfg_hardening c) \<and> \<not> allow_remote_bind (cfg_control c)"
proof -
  have "parse_isolation_mode demo_vars = Inr Secure"
    by (simp add: parse_isolation_mode_def secure_defaults_ready_def non_empty_var_def demo_vars_def)
  then obtain c where c: "build_runtime_config_for_endpoint demo_vars ''/s'' ''ws://127.0.0.1:7000'' = Inr c"
    by (simp add: build_runtime_config_for_endpoint_def ipv4_endpoint)
  from built_config_secure [OF this] have "cfg_isolation_mode c \<noteq> Compat" by (simp add: demo_vars_def)
  then have "cfg_isolation_mode c = Secure" by (cases "cfg_isolation_mode c") auto
  with built_config_secure [OF c] c show ?thesis by auto
qed

lemma ipv6_endpoint:
  "parse_endpoint_addr ''ws://[::1]:7000'' = Inr (Ipv6 1, 7000)"
  "parse_endpoint_addr ''ws://::1:7000'' = Inl (InvalidConfig ''invalid websocket endpoint ws://::1:7000: invalid socket address syntax'')"
proof -
  have "replicate 7 (0 :: nat) = [0, 0, 0, 0, 0, 0, 0]" by (simp add: numeral_eq_Suc)
  then show "parse_endpoint_addr ''ws://[::1]:7000'' = Inr (Ipv6 1, 7000)" by (simp add: reader_defs read_groups.simps)
  show "parse_endpoint_addr ''ws://::1:7000'' = Inl (InvalidConfig ''invalid websocket endpoint ws://::1:7000: invalid socket address syntax'')"
    by (simp add: reader_defs read_groups.simps)
qed

end
