(* ===== verification/Daemon.thy ===== *)
theory Daemon
  imports Sagens_Config Runtime_Sessions Cli_Args
begin

text \<open>
  How the command line controls the daemon: the user's configuration file (\<open>src/auth.rs\<close>,
  \<open>src/private_fs.rs\<close>), starting and stopping (\<open>src/sagens/daemon.rs\<close>,
  \<open>src/sagens/daemon/runtime_info.rs\<close>) and the recovery from a daemon that died or hangs
  (\<open>src/sagens/recovery.rs\<close>). The kernel's answers to \<open>kill\<close> and \<open>bind\<close>, the
  command lines that \<open>sysinfo\<close> reports, the time a call takes and the answers of the daemon's
  control plane come from the environment; the state records the files, the signals sent and the processes
  started.
\<close>

section \<open>Environment and state\<close>

record user_config =
  uc_version :: u32
  uc_admin_uuid :: uuid
  uc_admin_token :: string
  uc_endpoint :: string

datatype kill_answer = Delivered | KillErrno nat string

datatype bind_answer = Bound u16 | AddrInUse | BindFailed string

record daemon_env = env +
  config_mode_at :: "nat \<Rightarrow> u32"
  connect_at :: "nat \<Rightarrow> user_config \<Rightarrow> sandbox_error option"
  list_at :: "nat \<Rightarrow> user_config \<Rightarrow> sandbox_error option"
  shutdown_at :: "nat \<Rightarrow> user_config \<Rightarrow> sandbox_error option"
  kill_at :: "nat \<Rightarrow> int \<Rightarrow> nat \<Rightarrow> kill_answer"
  cmdline_at :: "nat \<Rightarrow> u32 \<Rightarrow> string list option"
  bind_at :: "nat \<Rightarrow> ip_addr \<Rightarrow> u16 \<Rightarrow> bind_answer"
  elapsed_at :: "nat \<Rightarrow> nat"
  binary_check_at :: "nat \<Rightarrow> sandbox_error option"
  preflight_at :: "nat \<Rightarrow> runtime_config \<Rightarrow> sandbox_error option"
  own_pid :: u32

record launch =
  la_program :: string
  la_args :: "string list"
  la_vars :: "(string \<times> string) list"

record daemon_state = auth_files +
  user_config_file :: "user_config json_file option"
  runtime_info_file :: "isolation_mode json_file option"
  pid_file :: "string option"
  dm_log :: "string option"
  dm_signals :: "(int \<times> nat) list"
  dm_spawned :: "launch list"
  dm_clock :: nat

definition ENOENT_TEXT :: string where
  "ENOENT_TEXT = ''No such file or directory (os error 2)''"

text \<open>A question whose answer may be an error of the program's own type.\<close>

definition ask_ok :: "(nat \<Rightarrow> sandbox_error option) \<Rightarrow> ('z host_scheme, unit) io" where
  "ask_ok g = bindE (ask g) (\<lambda>r. case r of None \<Rightarrow> returnE () | Some e \<Rightarrow> throwE e)"

section \<open>The user's configuration file\<close>

definition new_user_config :: "'e env_scheme \<Rightarrow> string \<Rightarrow> ('z host_scheme, user_config) io" where
  "new_user_config E endpoint = bindE (new_v4 E) (\<lambda>u. bindE (generate_token E) (\<lambda>token.
     returnE \<lparr>uc_version = 1, uc_admin_uuid = u, uc_admin_token = token, uc_endpoint = endpoint\<rparr>))"

definition validate_private_file_permissions :: "'e daemon_env_scheme \<Rightarrow> string \<Rightarrow> string \<Rightarrow> bool \<Rightarrow> ('z host_scheme, unit) io" where
  "validate_private_file_permissions E path context there =
     seqE (sys_io E (''reading '' @ context @ '' metadata''))
     (if \<not> there then throwE (Io (''reading '' @ context @ '' metadata'') ENOENT_TEXT)
      else bindE (ask (config_mode_at E)) (\<lambda>mode.
        if and (and mode 511) 63 \<noteq> 0 then throwE (InvalidConfig (context @ '' '' @ path @ '' must have 0600 permissions''))
        else returnE ()))"

definition read_user_config :: "'e daemon_env_scheme \<Rightarrow> string \<Rightarrow> ('z daemon_state_scheme, user_config) io" where
  "read_user_config E path =
     bindE (getE user_config_file) (\<lambda>f.
     seqE (validate_private_file_permissions E path ''sagens user config'' (f \<noteq> None))
     (seqE (sys_io E ''reading sagens user config'')
     (case f of None \<Rightarrow> throwE (Io ''reading sagens user config'' ENOENT_TEXT)
      | Some j \<Rightarrow> decode_json ''decoding sagens user config'' j)))"

definition write_user_config :: "'e env_scheme \<Rightarrow> string \<Rightarrow> user_config \<Rightarrow> ('z daemon_state_scheme, unit) io" where
  "write_user_config E path config =
     seqE (case path_parent path of None \<Rightarrow> returnE ()
           | Some p \<Rightarrow> ensure_private_dir E p ''creating sagens config directory'')
     (seqE (sys_json E ''encoding sagens user config'')
       (write_private_file E path (path_parent path) (\<lambda>j. user_config_file_update (\<lambda>_. Some j)) config
         ''creating sagens config directory'' ''writing sagens user config''))"

section \<open>The files of a running daemon\<close>

text \<open>A process id is so short that its write is all or nothing after the truncation.\<close>

definition put_pid :: "string json_file \<Rightarrow> 'z daemon_state_scheme \<Rightarrow> 'z daemon_state_scheme" where
  "put_pid j s = s\<lparr>pid_file := Some (case j of Intact t \<Rightarrow> t | Torn \<Rightarrow> [])\<rparr>"

definition write_pid_file :: "'e daemon_env_scheme \<Rightarrow> string \<Rightarrow> ('z daemon_state_scheme, unit) io" where
  "write_pid_file E path = write_private_file E path (path_parent path) put_pid (decimal (unat (own_pid E)) @ [CHR 0x0A])
     ''creating daemon pid directory'' ''writing daemon pid file''"

definition cleanup_pid_file :: "'e env_scheme \<Rightarrow> ('z daemon_state_scheme, unit) io" where
  "cleanup_pid_file E = bindE (getE pid_file) (\<lambda>f. case f of
     None \<Rightarrow> returnE ()
   | Some _ \<Rightarrow> bindE (ask (fault_at E)) (\<lambda>r. case r of
       None \<Rightarrow> modifyE (\<lambda>s. s\<lparr>pid_file := None\<rparr>)
     | Some msg \<Rightarrow> if msg = ENOENT_TEXT then returnE () else throwE (Io ''removing daemon pid file'' msg)))"

definition read_pid_file :: "'e env_scheme \<Rightarrow> ('z daemon_state_scheme, u32 option) io" where
  "read_pid_file E = bindE (getE pid_file) (\<lambda>f. case f of
     None \<Rightarrow> returnE None
   | Some contents \<Rightarrow> seqE (sys_io E ''reading daemon pid file'')
       (let trimmed = trim contents in
        if trimmed = [] then returnE None
        else case parse_u32_str trimmed of
          Some pid \<Rightarrow> returnE (Some pid)
        | None \<Rightarrow> throwE (InvalidConfig (''invalid daemon pid file: '' @ parse_int_error (2 ^ 32) trimmed))))"

definition write_runtime_info :: "'e env_scheme \<Rightarrow> string \<Rightarrow> isolation_mode \<Rightarrow> ('z daemon_state_scheme, unit) io" where
  "write_runtime_info E state_dir mode = (let path = path_join state_dir ''daemon.runtime.json'' in
     seqE (ensure_private_dir E state_dir ''creating daemon runtime info directory'')
     (seqE (sys_json E ''encoding daemon runtime info'')
       (write_private_file E path (path_parent path) (\<lambda>j. runtime_info_file_update (\<lambda>_. Some j)) mode
         ''creating daemon runtime info directory'' ''writing daemon runtime info'')))"

definition read_runtime_info :: "'e env_scheme \<Rightarrow> ('z daemon_state_scheme, isolation_mode option) io" where
  "read_runtime_info E = bindE (getE runtime_info_file) (\<lambda>f. case f of
     None \<Rightarrow> returnE None
   | Some j \<Rightarrow> seqE (sys_io E ''reading daemon runtime info'')
       (bindE (decode_json ''decoding daemon runtime info'' j) (\<lambda>m. returnE (Some m))))"

section \<open>Processes\<close>

definition SIGTERM :: nat where
  "SIGTERM = 15"

definition SIGKILL :: nat where
  "SIGKILL = 9"

definition kill_process :: "'e daemon_env_scheme \<Rightarrow> int \<Rightarrow> nat \<Rightarrow> ('z daemon_state_scheme, unit) io" where
  "kill_process E pid signal =
     bindE (ask (\<lambda>n. kill_at E n pid signal)) (\<lambda>r.
     seqE (modifyE (\<lambda>s. s\<lparr>dm_signals := dm_signals s @ [(pid, signal)]\<rparr>))
     (case r of Delivered \<Rightarrow> returnE ()
      | KillErrno errno msg \<Rightarrow> if errno = 2 then returnE () else throwE (Io ''signaling daemon pid'' msg)))"

definition exists_at :: "'e daemon_env_scheme \<Rightarrow> u32 \<Rightarrow> nat \<Rightarrow> bool" where
  "exists_at E pid n = (case kill_at E n (sint pid) 0 of Delivered \<Rightarrow> True | KillErrno errno _ \<Rightarrow> errno = 1)"

definition process_exists :: "'e daemon_env_scheme \<Rightarrow> u32 \<Rightarrow> ('z daemon_state_scheme, bool) io" where
  "process_exists E pid = ask (exists_at E pid)"

definition command_text :: "string list option \<Rightarrow> string" where
  "command_text c = (case c of None \<Rightarrow> [] | Some args \<Rightarrow> trim (join_space args))"

definition process_command :: "'e daemon_env_scheme \<Rightarrow> u32 \<Rightarrow> ('z daemon_state_scheme, string) io" where
  "process_command E pid = bindE (ask (\<lambda>n. cmdline_at E n pid)) (\<lambda>c. returnE (command_text c))"

definition process_looks_like_sagens :: "'e daemon_env_scheme \<Rightarrow> u32 \<Rightarrow> ('z daemon_state_scheme, bool) io" where
  "process_looks_like_sagens E pid = bindE (process_command E pid) (\<lambda>command. returnE (contains command ''sagens''))"

definition process_command_matches_binary :: "'e daemon_env_scheme \<Rightarrow> u32 \<Rightarrow> string \<Rightarrow> ('z daemon_state_scheme, bool) io" where
  "process_command_matches_binary E pid host_binary =
     bindE (process_command E pid) (\<lambda>command. returnE (contains command host_binary))"

section \<open>Waiting\<close>

text \<open>
  The loops that wait: ask, return when the answer is good, give up when the deadline
  has passed, else sleep 100 ms. The clock (\<open>std::time::Instant\<close>) never goes back and a sleep
  lasts at least as long as asked, so the loop ends.
\<close>

function poll :: "'e daemon_env_scheme \<Rightarrow> (nat \<Rightarrow> 'r option) \<Rightarrow> ('r \<Rightarrow> ('z daemon_state_scheme, unit) io) \<Rightarrow> nat \<Rightarrow>
    ('z daemon_state_scheme, unit) io" where
  "poll E check late deadline s = (let n = calls s; now = dm_clock s + elapsed_at E n in
     case check n of
       None \<Rightarrow> (Inr (), s\<lparr>calls := Suc n, dm_clock := now\<rparr>)
     | Some r \<Rightarrow>
         if deadline \<le> now then late r (s\<lparr>calls := Suc n, dm_clock := now\<rparr>)
         else poll E check late deadline (s\<lparr>calls := Suc n, dm_clock := now + 100\<rparr>))"
  by pat_completeness auto
termination
  by (relation "measure (\<lambda>(E, check, late, deadline, s). deadline - dm_clock s)") auto

declare poll.simps [simp del]

definition poll_for :: "'e daemon_env_scheme \<Rightarrow> (nat \<Rightarrow> 'r option) \<Rightarrow> ('r \<Rightarrow> ('z daemon_state_scheme, unit) io) \<Rightarrow> nat \<Rightarrow>
    ('z daemon_state_scheme, unit) io" where
  "poll_for E check late timeout = bindE (getE dm_clock) (\<lambda>now. poll E check late (now + timeout))"

definition wait_for_exit :: "'e daemon_env_scheme \<Rightarrow> u32 \<Rightarrow> nat \<Rightarrow> ('z daemon_state_scheme, unit) io" where
  "wait_for_exit E pid timeout =
     poll_for E (\<lambda>n. if exists_at E pid n then Some () else None) (\<lambda>_. returnE ()) timeout"

text \<open>\<open>healthy_client\<close>: connecting, then listing the boxes.\<close>

definition healthy_at :: "'e daemon_env_scheme \<Rightarrow> user_config \<Rightarrow> nat \<Rightarrow> sandbox_error option" where
  "healthy_at E config n = (case connect_at E n config of Some e \<Rightarrow> Some e | None \<Rightarrow> list_at E n config)"

definition daemon_is_healthy :: "'e daemon_env_scheme \<Rightarrow> user_config \<Rightarrow> ('z daemon_state_scheme, bool) io" where
  "daemon_is_healthy E config = bindE (ask (healthy_at E config)) (\<lambda>r. returnE (r = None))"

definition wait_for_daemon :: "'e daemon_env_scheme \<Rightarrow> sagens_paths \<Rightarrow> user_config \<Rightarrow> ('z daemon_state_scheme, unit) io" where
  "wait_for_daemon E P config = poll_for E (healthy_at E config)
     (\<lambda>error. throwE (Timeout (''timed out waiting for daemon at '' @ uc_endpoint config @ '': '' @ display error
        @ ''; inspect '' @ sp_daemon_log_path P @ '' or run `sagens daemon log --tail 200`''))) 30000"

definition wait_for_daemon_shutdown :: "'e daemon_env_scheme \<Rightarrow> user_config \<Rightarrow> ('z daemon_state_scheme, unit) io" where
  "wait_for_daemon_shutdown E config = poll_for E (\<lambda>n. if connect_at E n config = None then Some () else None)
     (\<lambda>_. throwE (Timeout (''timed out waiting for daemon to stop at '' @ uc_endpoint config))) 30000"

section \<open>Recovery\<close>

definition terminate_process :: "'e daemon_env_scheme \<Rightarrow> u32 \<Rightarrow> ('z daemon_state_scheme, unit) io" where
  "terminate_process E pid =
     (if pid = own_pid E then returnE ()
      else seqE (kill_process E (sint pid) SIGTERM)
       (seqE (wait_for_exit E pid 2000)
       (bindE (process_exists E pid) (\<lambda>alive.
          if alive then seqE (kill_process E (sint pid) SIGKILL) (wait_for_exit E pid 1000)
          else returnE ()))))"

definition terminate_recorded_daemon :: "'e daemon_env_scheme \<Rightarrow> ('z daemon_state_scheme, bool) io" where
  "terminate_recorded_daemon E = bindE (read_pid_file E) (\<lambda>recorded. case recorded of
     None \<Rightarrow> seqE (cleanup_pid_file E) (returnE False)
   | Some pid \<Rightarrow>
       bindE (process_exists E pid) (\<lambda>alive.
       seqE (if alive then bindE (process_looks_like_sagens E pid) (\<lambda>sagens.
               if sagens then terminate_process E pid else returnE ()) else returnE ())
       (seqE (cleanup_pid_file E) (returnE alive))))"

definition recorded_daemon_uses_binary :: "'e daemon_env_scheme \<Rightarrow> string \<Rightarrow> ('z daemon_state_scheme, bool option) io" where
  "recorded_daemon_uses_binary E host_binary = bindE (read_pid_file E) (\<lambda>recorded. case recorded of
     None \<Rightarrow> returnE None
   | Some pid \<Rightarrow>
       bindE (process_exists E pid) (\<lambda>alive.
         if \<not> alive then returnE (Some False)
         else bindE (process_looks_like_sagens E pid) (\<lambda>sagens.
           if \<not> sagens then returnE (Some False)
           else bindE (process_command_matches_binary E pid host_binary) (\<lambda>m. returnE (Some m)))))"

definition endpoint_is_bindable :: "'e daemon_env_scheme \<Rightarrow> string \<Rightarrow> ('z daemon_state_scheme, bool) io" where
  "endpoint_is_bindable E endpoint = bindE (liftE (parse_endpoint_addr endpoint)) (\<lambda>(ip, port).
     bindE (ask (\<lambda>n. bind_at E n ip port)) (\<lambda>r. case r of
       Bound _ \<Rightarrow> returnE True
     | AddrInUse \<Rightarrow> returnE False
     | BindFailed msg \<Rightarrow> throwE (Io ''probing daemon endpoint'' msg)))"

text \<open>\<open>Display\<close> of an address: IPv6 in its shortest form, the first longest run of zeros elided.\<close>

function hex_lower :: "nat \<Rightarrow> string" where
  "hex_lower n = (if n < 16 then [hex_digit n] else hex_lower (n div 16) @ [hex_digit (n mod 16)])"
  by pat_completeness auto
termination
  by (relation "measure id") auto

declare hex_lower.simps [simp del]

fun join_colon :: "string list \<Rightarrow> string" where
  "join_colon [] = []"
| "join_colon [w] = w"
| "join_colon (w # ws) = w @ '':'' @ join_colon ws"

definition ipv6_segments :: "128 word \<Rightarrow> nat list" where
  "ipv6_segments w = map (\<lambda>i. unat (drop_bit (16 * (7 - i)) w) mod 65536) [0 ..< 8]"

fun longest_zeros :: "nat \<Rightarrow> nat list \<Rightarrow> nat \<times> nat" where
  "longest_zeros i [] = (0, 0)"
| "longest_zeros i (g # gs) =
     (let here = length (takeWhile (\<lambda>x. x = 0) (g # gs)); (start, len) = longest_zeros (i + 1) gs in
      if len \<le> here then (i, here) else (start, len))"

definition show_segments :: "nat list \<Rightarrow> string" where
  "show_segments gs = join_colon (map hex_lower gs)"

fun ip_show :: "ip_addr \<Rightarrow> string" where
  "ip_show (Ipv4 a b c d) = decimal (unat a) @ ''.'' @ decimal (unat b) @ ''.'' @ decimal (unat c) @ ''.'' @ decimal (unat d)"
| "ip_show (Ipv6 w) = (let gs = ipv6_segments w in
     if take 6 gs = [0, 0, 0, 0, 0, 65535] then
       ''::ffff:'' @ decimal (gs ! 6 div 256) @ ''.'' @ decimal (gs ! 6 mod 256) @ ''.''
         @ decimal (gs ! 7 div 256) @ ''.'' @ decimal (gs ! 7 mod 256)
     else let (start, len) = longest_zeros 0 gs in
       if 1 < len then show_segments (take start gs) @ ''::'' @ show_segments (drop (start + len) gs)
       else show_segments gs)"

definition reserve_local_endpoint :: "'e daemon_env_scheme \<Rightarrow> string \<Rightarrow> ('z daemon_state_scheme, string) io" where
  "reserve_local_endpoint E endpoint = bindE (liftE (parse_endpoint_addr endpoint)) (\<lambda>(ip, _).
     bindE (ask (\<lambda>n. bind_at E n ip 0)) (\<lambda>r. case r of
       AddrInUse \<Rightarrow> throwE (Io ''reserving replacement daemon endpoint'' ''Address already in use'')
     | BindFailed msg \<Rightarrow> throwE (Io ''reserving replacement daemon endpoint'' msg)
     | Bound port \<Rightarrow> seqE (sys_io E ''reading replacement daemon endpoint'')
         (returnE (''ws://'' @ ip_show ip @ '':'' @ decimal (unat port)))))"

definition recover_startup_state :: "'e daemon_env_scheme \<Rightarrow> 'v sagens_env_scheme \<Rightarrow> sagens_paths \<Rightarrow> user_config \<Rightarrow>
    ('z daemon_state_scheme, user_config) io" where
  "recover_startup_state E V P config =
     seqE (terminate_recorded_daemon E)
     (if var V ''SAGENS_ENDPOINT'' \<noteq> None then returnE config
      else bindE (endpoint_is_bindable E (uc_endpoint config)) (\<lambda>bindable.
        if bindable then returnE config
        else bindE (reserve_local_endpoint E (uc_endpoint config)) (\<lambda>next.
          if next \<noteq> uc_endpoint config then
            let config' = config\<lparr>uc_endpoint := next\<rparr> in
            seqE (write_user_config E (sp_user_config_path P) config') (returnE config')
          else returnE config)))"

section \<open>Starting\<close>

definition ensure_user_config :: "'e daemon_env_scheme \<Rightarrow> sagens_paths \<Rightarrow> ('z daemon_state_scheme, user_config) io" where
  "ensure_user_config E P =
     seqE (sys_io E ''checking sagens user config'')
     (bindE (getE user_config_file) (\<lambda>f.
       if f \<noteq> None then read_user_config E (sp_user_config_path P)
       else bindE (new_user_config E (sp_endpoint P)) (\<lambda>config.
         seqE (write_user_config E (sp_user_config_path P) config) (returnE config))))"

definition validate_host_process_binary :: "'e daemon_env_scheme \<Rightarrow> 'v sagens_env_scheme \<Rightarrow> ('z daemon_state_scheme, unit) io" where
  "validate_host_process_binary E V =
     (if target_os (sagens_env.host_platform V) = MacOs then ask_ok (binary_check_at E) else returnE ())"

definition daemon_vars :: "'e env_scheme \<Rightarrow> sagens_paths \<Rightarrow> user_config \<Rightarrow> (string \<times> string) list" where
  "daemon_vars E P config =
     [(''SAGENS_STATE_DIR'', sp_state_dir P),
      (''SAGENS_CONFIG'', sp_user_config_path P),
      (''SAGENS_ENDPOINT'', uc_endpoint config),
      (''SAGENS_BOOTSTRAP_ADMIN_UUID'', uuid_string E (uc_admin_uuid config)),
      (''SAGENS_BOOTSTRAP_ADMIN_TOKEN'', uc_admin_token config)]"

definition put_log :: "unit json_file \<Rightarrow> 'z daemon_state_scheme \<Rightarrow> 'z daemon_state_scheme" where
  "put_log j s = s\<lparr>dm_log := Some []\<rparr>"

definition spawn_background_daemon :: "'e daemon_env_scheme \<Rightarrow> sagens_paths \<Rightarrow> string \<Rightarrow> user_config \<Rightarrow>
    ('z daemon_state_scheme, unit) io" where
  "spawn_background_daemon E P host_binary config =
     seqE (open_private_file_truncate E (path_parent (sp_daemon_log_path P)) put_log
       ''creating daemon log directory'' ''opening daemon log file'')
     (seqE (sys_io E ''cloning daemon log file'')
     (seqE (sys_io E ''spawning sagens daemon'')
       (modifyE (\<lambda>s. s\<lparr>dm_spawned := dm_spawned s @
          [\<lparr>la_program = host_binary, la_args = [''daemon''], la_vars = daemon_vars E P config\<rparr>]\<rparr>))))"

definition ensure_started :: "'e daemon_env_scheme \<Rightarrow> 'v sagens_env_scheme \<Rightarrow> sagens_paths \<Rightarrow> string \<Rightarrow>
    ('z daemon_state_scheme, user_config \<times> bool) io" where
  "ensure_started E V P host_binary =
     bindE (ensure_user_config E P) (\<lambda>config.
     bindE (daemon_is_healthy E config) (\<lambda>healthy.
     bindE (recorded_daemon_uses_binary E host_binary) (\<lambda>matches.
       if healthy \<and> matches \<noteq> Some False then returnE (config, True)
       else
         seqE (if healthy then seqE (terminate_recorded_daemon E) (returnE ()) else returnE ())
         (bindE (recover_startup_state E V P config) (\<lambda>config.
          seqE (validate_host_process_binary E V)
          (bindE (liftE (build_runtime_config_for_endpoint V (sp_state_dir P) (sp_endpoint P))) (\<lambda>runtime_config.
          seqE (ask_ok (\<lambda>n. preflight_at E n runtime_config))
          (seqE (ensure_private_dir E (sp_state_dir P) ''creating daemon state directory'')
          (seqE (spawn_background_daemon E P host_binary config)
          (seqE (wait_for_daemon E P config)
            (returnE (config, False))))))))))))"

section \<open>Stopping\<close>

definition quit :: "'e daemon_env_scheme \<Rightarrow> sagens_paths \<Rightarrow> ('z daemon_state_scheme, bool) io" where
  "quit E P =
     bindE (tryE (read_user_config E (sp_user_config_path P))) (\<lambda>r. case r of
       Inl error \<Rightarrow> (case error of
           Io _ source \<Rightarrow> if source = ENOENT_TEXT then seqE (cleanup_pid_file E) (returnE False) else throwE error
         | _ \<Rightarrow> throwE error)
     | Inr config \<Rightarrow>
         bindE (daemon_is_healthy E config) (\<lambda>healthy.
           if \<not> healthy then terminate_recorded_daemon E
           else bindE (ask (\<lambda>n. shutdown_at E n config)) (\<lambda>r.
             if r \<noteq> None then terminate_recorded_daemon E
             else seqE (wait_for_daemon_shutdown E config)
               (seqE (cleanup_pid_file E) (returnE True)))))"

section \<open>The first admin of a daemon, and its log\<close>

definition bootstrap_admin_if_needed :: "'e env_scheme \<Rightarrow> 'u uuid_text_scheme \<Rightarrow> 'v sagens_env_scheme \<Rightarrow> string \<Rightarrow>
    ('z auth_files_scheme, unit) io" where
  "bootstrap_admin_if_needed E U V path =
     (case (var V ''SAGENS_BOOTSTRAP_ADMIN_UUID'', var V ''SAGENS_BOOTSTRAP_ADMIN_TOKEN'') of
        (Some admin_uuid, Some admin_token) \<Rightarrow> (case uuid_parse U admin_uuid of
            Inl error \<Rightarrow> throwE (InvalidConfig (''invalid bootstrap admin uuid: '' @ error))
          | Inr u \<Rightarrow> seqE (admin_bootstrap E path \<lparr>cred_admin_uuid = u, cred_admin_token = admin_token\<rparr>) (returnE ()))
      | _ \<Rightarrow> returnE ())"

definition render_log_bytes :: "string \<Rightarrow> nat option \<Rightarrow> string" where
  "render_log_bytes text tail = (case tail of
     None \<Rightarrow> text
   | Some n \<Rightarrow> (let rendered = join_lines (tail_lines n text) in
       if rendered = [] then [] else rendered @ [CHR 0x0A]))"

section \<open>Whom the command line signals\<close>

lemma poll_wp:
  assumes "\<And>n c. calls s \<le> n \<Longrightarrow> check n = None \<Longrightarrow> Q () (s\<lparr>calls := Suc n, dm_clock := c\<rparr>)"
    and "\<And>n c r. calls s \<le> n \<Longrightarrow> check n = Some r \<Longrightarrow> wp (late r) Q R (s\<lparr>calls := Suc n, dm_clock := c\<rparr>)"
  shows "wp (poll E check late deadline) Q R s"
  using assms
proof (induction E check late deadline s rule: poll.induct)
  case (1 E check late deadline s)
  let ?s = "s\<lparr>calls := Suc (calls s), dm_clock := dm_clock s + elapsed_at E (calls s) + 100\<rparr>"
  show ?case
  proof (cases "check (calls s)")
    case None
    then show ?thesis using "1.prems"(1) [of "calls s"] by (simp add: wp_def poll.simps [of E check late deadline s] Let_def)
  next
    case (Some r)
    show ?thesis
    proof (cases "deadline \<le> dm_clock s + elapsed_at E (calls s)")
      case True
      then show ?thesis using "1.prems"(2) [of "calls s" r] Some by (simp add: wp_def poll.simps [of E check late deadline s] Let_def)
    next
      case False
      have Q: "Q () (?s\<lparr>calls := Suc n, dm_clock := c\<rparr>)" if "calls ?s \<le> n" "check n = None" for n c
        using "1.prems"(1) [of n c] that by simp
      have L: "wp (late r) Q R (?s\<lparr>calls := Suc n, dm_clock := c\<rparr>)" if "calls ?s \<le> n" "check n = Some r" for n c r
        using "1.prems"(2) [of n r c] that by simp
      have "wp (poll E check late deadline) Q R ?s" by (rule "1.IH" [OF refl refl Some False Q L])
      then show ?thesis using False Some by (simp add: wp_def poll.simps [of E check late deadline s] Let_def)
    qed
  qed
qed

lemma wp_poll_forI [wp_intro]:
  assumes "\<And>n c. calls s \<le> n \<Longrightarrow> check n = None \<Longrightarrow> Q () (s\<lparr>calls := Suc n, dm_clock := c\<rparr>)"
    and "\<And>n c r. calls s \<le> n \<Longrightarrow> check n = Some r \<Longrightarrow> wp (late r) Q R (s\<lparr>calls := Suc n, dm_clock := c\<rparr>)"
  shows "wp (poll_for E check late timeout) Q R s"
  using assms by (auto simp: poll_for_def wp_simps intro!: poll_wp)

lemma wp_wait_for_exitI [wp_intro]:
  assumes "\<And>n c. calls s \<le> n \<Longrightarrow> Q () (s\<lparr>calls := n, dm_clock := c\<rparr>)"
  shows "wp (wait_for_exit E pid t) Q R s"
  unfolding wait_for_exit_def by (rule wp_poll_forI) (simp_all add: assms le_SucI wp_returnE)

lemma wp_wait_for_daemonI [wp_intro]:
  assumes "\<And>m n c. calls s \<le> n \<Longrightarrow> healthy_at E config m = None \<Longrightarrow> Q () (s\<lparr>calls := n, dm_clock := c\<rparr>)"
    and "\<And>e n c. calls s \<le> n \<Longrightarrow> R (Fail e) (s\<lparr>calls := n, dm_clock := c\<rparr>)"
  shows "wp (wait_for_daemon E P config) Q R s"
  unfolding wait_for_daemon_def by (rule wp_poll_forI) (simp_all add: assms le_SucI wp_throwE)

lemma wp_wait_for_daemon_shutdownI [wp_intro]:
  assumes "\<And>n c. calls s \<le> n \<Longrightarrow> Q () (s\<lparr>calls := n, dm_clock := c\<rparr>)"
    and "\<And>e n c. calls s \<le> n \<Longrightarrow> R (Fail e) (s\<lparr>calls := n, dm_clock := c\<rparr>)"
  shows "wp (wait_for_daemon_shutdown E config) Q R s"
  unfolding wait_for_daemon_shutdown_def by (rule wp_poll_forI) (simp_all add: assms le_SucI wp_throwE)

text \<open>
  A signal is in order when its target is the process recorded in the pid file, another process
  than the command line itself, and one that was seen running a command line with
  \<open>sagens\<close> in it.
\<close>

definition signal_ok :: "'e daemon_env_scheme \<Rightarrow> 'z daemon_state_scheme \<Rightarrow> int \<times> nat \<Rightarrow> bool" where
  "signal_ok E s x \<longleftrightarrow> (\<exists>contents pid n. pid_file s = Some contents \<and> parse_u32_str (trim contents) = Some pid \<and>
     fst x = sint pid \<and> snd x \<in> {SIGTERM, SIGKILL} \<and> pid \<noteq> own_pid E \<and>
     calls s \<le> n \<and> contains (command_text (cmdline_at E n pid)) ''sagens'')"

definition sent_ok :: "'e daemon_env_scheme \<Rightarrow> 'z daemon_state_scheme \<Rightarrow> 'z daemon_state_scheme \<Rightarrow> bool" where
  "sent_ok E s0 s \<longleftrightarrow> calls s0 \<le> calls s \<and> pid_file s \<in> {None, pid_file s0} \<and>
     (\<exists>xs. dm_signals s = dm_signals s0 @ xs \<and> (\<forall>x \<in> set xs. signal_ok E s0 x))"

lemma sent_ok_refl: "sent_ok E s s"
  by (simp add: sent_ok_def)

lemma sent_ok_calls: "sent_ok E s0 s \<Longrightarrow> calls s \<le> n \<Longrightarrow> sent_ok E s0 (s\<lparr>calls := n\<rparr>)"
  by (simp add: sent_ok_def)

lemma sent_ok_updates [simp]:
  "sent_ok E s0 (s\<lparr>dm_clock := c\<rparr>) = sent_ok E s0 s" "sent_ok E s0 (s\<lparr>user_config_file := u\<rparr>) = sent_ok E s0 s"
  "sent_ok E s0 (s\<lparr>dm_log := l\<rparr>) = sent_ok E s0 s" "sent_ok E s0 (s\<lparr>dm_spawned := p\<rparr>) = sent_ok E s0 s"
  by (simp_all add: sent_ok_def)

lemma sent_ok_removed: "sent_ok E s0 s \<Longrightarrow> sent_ok E s0 (s\<lparr>pid_file := None\<rparr>)"
  by (simp add: sent_ok_def)

lemma sent_ok_signal: "sent_ok E s0 s \<Longrightarrow> signal_ok E s0 x \<Longrightarrow> sent_ok E s0 (s\<lparr>dm_signals := dm_signals s @ [x]\<rparr>)"
  by (auto simp: sent_ok_def)

lemma wp_read_pid_fileI [wp_intro]:
  assumes "\<And>n. calls s \<le> n \<Longrightarrow> Q None (s\<lparr>calls := n\<rparr>)"
    and "\<And>n contents pid. calls s \<le> n \<Longrightarrow> pid_file s = Some contents \<Longrightarrow> parse_u32_str (trim contents) = Some pid \<Longrightarrow> Q (Some pid) (s\<lparr>calls := n\<rparr>)"
    and "\<And>e n. calls s \<le> n \<Longrightarrow> R (Fail e) (s\<lparr>calls := n\<rparr>)"
  shows "wp (read_pid_file E) Q R s"
  unfolding read_pid_file_def using assms(1) [of "calls s"]
  by (auto simp: wp_simps Let_def assms split: option.split intro!: wp_intro)

lemma wp_cleanup_pid_fileI [wp_intro]:
  assumes "\<And>n. calls s \<le> n \<Longrightarrow> Q () (s\<lparr>calls := n\<rparr>)" and "\<And>n. calls s \<le> n \<Longrightarrow> Q () (s\<lparr>calls := n, pid_file := None\<rparr>)"
    and "\<And>e n. calls s \<le> n \<Longrightarrow> R (Fail e) (s\<lparr>calls := n\<rparr>)"
  shows "wp (cleanup_pid_file E) Q R s"
  unfolding cleanup_pid_file_def using assms(1) [of "calls s"]
  by (auto simp: wp_simps assms split: option.split intro!: wp_intro)

lemma wp_process_existsI [wp_intro]: "(\<And>b n. calls s \<le> n \<Longrightarrow> Q b (s\<lparr>calls := n\<rparr>)) \<Longrightarrow> wp (process_exists E pid) Q R s"
  unfolding process_exists_def by (auto intro!: wp_intro)

lemma wp_process_looks_like_sagensI [wp_intro]:
  assumes "\<And>b m n. calls s \<le> m \<Longrightarrow> calls s \<le> n \<Longrightarrow> b = contains (command_text (cmdline_at E m pid)) ''sagens'' \<Longrightarrow> Q b (s\<lparr>calls := n\<rparr>)"
  shows "wp (process_looks_like_sagens E pid) Q R s"
  unfolding process_looks_like_sagens_def process_command_def using assms by (auto simp: wp_simps intro!: wp_intro)

lemma wp_process_command_matches_binaryI [wp_intro]:
  "(\<And>b n. calls s \<le> n \<Longrightarrow> Q b (s\<lparr>calls := n\<rparr>)) \<Longrightarrow> wp (process_command_matches_binary E pid host_binary) Q R s"
  unfolding process_command_matches_binary_def process_command_def by (auto simp: wp_simps intro!: wp_intro)

lemma wp_kill_processI [wp_intro]:
  assumes "\<And>n. calls s \<le> n \<Longrightarrow> Q () (s\<lparr>calls := n, dm_signals := dm_signals s @ [(pid, signal)]\<rparr>)"
    and "\<And>e n. calls s \<le> n \<Longrightarrow> R (Fail e) (s\<lparr>calls := n, dm_signals := dm_signals s @ [(pid, signal)]\<rparr>)"
  shows "wp (kill_process E pid signal) Q R s"
  unfolding kill_process_def using assms by (auto simp: wp_simps split: kill_answer.split intro!: wp_intro)

lemma sent_kill_process: "signal_ok E s0 (pid, g) \<Longrightarrow> preserves (sent_ok E s0) (kill_process E pid g)"
  by (rule preserves_wpI, rule wp_kill_processI) (auto simp: sent_ok_def)

lemma sent_asks:
  "preserves (sent_ok E s0) (process_exists E pid)" "preserves (sent_ok E s0) (wait_for_exit E pid t)"
  "preserves (sent_ok E s0) (read_pid_file E)" "preserves (sent_ok E s0) (cleanup_pid_file E)"
  "preserves (sent_ok E s0) (process_looks_like_sagens E pid)" "preserves (sent_ok E s0) (process_command_matches_binary E pid host_binary)"
  by (rule preserves_wpI, rule wp_intro; simp add: sent_ok_def)+

lemma sent_terminate_process:
  assumes "pid \<noteq> own_pid E \<Longrightarrow> signal_ok E s0 (sint pid, SIGTERM) \<and> signal_ok E s0 (sint pid, SIGKILL)"
  shows "preserves (sent_ok E s0) (terminate_process E pid)"
  unfolding terminate_process_def using assms by (intro preserves_intro sent_kill_process sent_asks) auto

lemma preserves_bind_wp:
  assumes "\<And>s. P s \<Longrightarrow> wp m (\<lambda>a t. P t \<and> I a) (\<lambda>_. P) s" and "\<And>a. I a \<Longrightarrow> preserves P (f a)"
  shows "preserves P (bindE m f)"
proof (rule preserves_wpI)
  fix s assume "P s"
  from assms(1) [OF this] show "wp (bindE m f) (\<lambda>_. P) (\<lambda>_. P) s"
    unfolding wp_bindE by (rule wp_mono) (auto simp: wp_snd dest: assms(2) preservesD)
qed

lemma sent_read_pid:
  assumes "\<And>pid contents. pid_file s0 = Some contents \<Longrightarrow> parse_u32_str (trim contents) = Some pid \<Longrightarrow> preserves (sent_ok E s0) (f (Some pid))"
    and "preserves (sent_ok E s0) (f None)"
  shows "preserves (sent_ok E s0) (bindE (read_pid_file E) f)"
proof (rule preserves_bind_wp [where I = "\<lambda>r. \<forall>pid. r = Some pid \<longrightarrow> (\<exists>contents. pid_file s0 = Some contents \<and> parse_u32_str (trim contents) = Some pid)"])
  show "wp (read_pid_file E) (\<lambda>r t. sent_ok E s0 t \<and> (\<forall>pid. r = Some pid \<longrightarrow> (\<exists>contents. pid_file s0 = Some contents \<and> parse_u32_str (trim contents) = Some pid)))
      (\<lambda>_. sent_ok E s0) s" if "sent_ok E s0 s" for s
    using that by (intro wp_read_pid_fileI) (force simp: sent_ok_def)+
  show "preserves (sent_ok E s0) (f r)" if "\<forall>pid. r = Some pid \<longrightarrow> (\<exists>contents. pid_file s0 = Some contents \<and> parse_u32_str (trim contents) = Some pid)" for r
    using that assms by (cases r) auto
qed

lemma sent_looks_like_sagens:
  assumes "\<And>n. calls s0 \<le> n \<Longrightarrow> contains (command_text (cmdline_at E n pid)) ''sagens'' \<Longrightarrow> preserves (sent_ok E s0) (f True)"
    and "preserves (sent_ok E s0) (f False)"
  shows "preserves (sent_ok E s0) (bindE (process_looks_like_sagens E pid) f)"
proof (rule preserves_bind_wp [where I = "\<lambda>b. b \<longrightarrow> (\<exists>n \<ge> calls s0. contains (command_text (cmdline_at E n pid)) ''sagens'')"])
  show "wp (process_looks_like_sagens E pid)
      (\<lambda>b t. sent_ok E s0 t \<and> (b \<longrightarrow> (\<exists>n \<ge> calls s0. contains (command_text (cmdline_at E n pid)) ''sagens''))) (\<lambda>_. sent_ok E s0) s"
    if "sent_ok E s0 s" for s
  proof (rule wp_process_looks_like_sagensI)
    fix b m n assume "calls s \<le> m" "calls s \<le> n" "b = contains (command_text (cmdline_at E m pid)) ''sagens''"
    moreover have "calls s0 \<le> calls s" using that by (simp add: sent_ok_def)
    ultimately show "sent_ok E s0 (s\<lparr>calls := n\<rparr>) \<and> (b \<longrightarrow> (\<exists>n \<ge> calls s0. contains (command_text (cmdline_at E n pid)) ''sagens''))"
      using sent_ok_calls [OF that] by (meson order_trans)
  qed
  show "preserves (sent_ok E s0) (f b)" if "b \<longrightarrow> (\<exists>n \<ge> calls s0. contains (command_text (cmdline_at E n pid)) ''sagens'')" for b
    using that assms by (cases b) auto
qed

lemma sent_terminate_recorded_daemon: "preserves (sent_ok E s0) (terminate_recorded_daemon E)"
  unfolding terminate_recorded_daemon_def
proof (rule sent_read_pid)
  fix pid contents assume pid: "pid_file s0 = Some contents" "parse_u32_str (trim contents) = Some pid"
  have kill: "preserves (sent_ok E s0) (terminate_process E pid)"
    if "calls s0 \<le> n" "contains (command_text (cmdline_at E n pid)) ''sagens''" for n
    using pid that by (intro sent_terminate_process) (auto simp: signal_ok_def)
  show "preserves (sent_ok E s0) (case Some pid of None \<Rightarrow> seqE (cleanup_pid_file E) (returnE False)
      | Some pid \<Rightarrow> bindE (process_exists E pid) (\<lambda>alive.
          seqE (if alive then bindE (process_looks_like_sagens E pid) (\<lambda>sagens.
             if sagens then terminate_process E pid else returnE ()) else returnE ())
          (seqE (cleanup_pid_file E) (returnE alive))))"
    by simp (intro preserves_intro sent_asks sent_looks_like_sagens; auto intro: kill preserves_intro)
qed (auto intro!: preserves_intro sent_asks)

lemma sent_counter:
  "preserves (sent_ok E s0) (ask g)" "preserves (sent_ok E s0) (sys_io E' ctx)" "preserves (sent_ok E s0) (sys_json E' ctx)"
  "preserves (sent_ok E s0) (new_v4 E')" "preserves (sent_ok E s0) (ensure_private_dir E' p ctx)"
  "preserves (sent_ok E s0) (wait_for_daemon E P config)" "preserves (sent_ok E s0) (wait_for_daemon_shutdown E config)"
  "preserves (sent_ok E s0) (generate_token E')"
  by (rule preserves_wpI, rule wp_intro; simp add: sent_ok_def)+

lemma sent_write_user_config: "preserves (sent_ok E s0) (write_user_config E' path config)"
  unfolding write_user_config_def
  by (intro preserves_intro sent_counter preserves_wpI wp_write_private_fileI) (auto intro!: preserves_intro sent_counter simp: sent_ok_def)

lemma sent_ask_ok: "preserves (sent_ok E s0) (ask_ok g)"
  unfolding ask_ok_def by (intro preserves_intro sent_counter)

lemma sent_decode: "preserves (sent_ok E s0) (decode_json ctx j)"
  by (auto simp: decode_json_def split: json_file.split intro: preserves_intro)

lemma sent_read_user_config: "preserves (sent_ok E s0) (read_user_config E' path)"
  unfolding read_user_config_def validate_private_file_permissions_def
  by (intro preserves_intro sent_counter sent_decode)

lemma sent_ensure_user_config: "preserves (sent_ok E s0) (ensure_user_config E' P)"
  unfolding ensure_user_config_def new_user_config_def
  by (intro preserves_intro sent_counter sent_read_user_config sent_write_user_config)

lemma sent_spawn: "preserves (sent_ok E s0) (spawn_background_daemon E' P host_binary config)"
  unfolding spawn_background_daemon_def open_private_file_truncate_def
  by (intro preserves_intro sent_counter) (simp_all add: put_log_def)

lemma sent_recover: "preserves (sent_ok E s0) (recover_startup_state E V P config)"
  unfolding recover_startup_state_def endpoint_is_bindable_def reserve_local_endpoint_def Let_def
  by (intro preserves_intro sent_counter sent_terminate_recorded_daemon sent_write_user_config)
    (auto split: prod.split bind_answer.split intro!: preserves_intro sent_counter)

lemma sent_ensure_started: "preserves (sent_ok E s0) (ensure_started E V P host_binary)"
  unfolding ensure_started_def daemon_is_healthy_def recorded_daemon_uses_binary_def validate_host_process_binary_def
  by (intro preserves_intro sent_counter sent_asks sent_ensure_user_config sent_terminate_recorded_daemon sent_recover sent_ask_ok sent_spawn)

lemma sent_quit: "preserves (sent_ok E s0) (quit E P)"
  unfolding quit_def daemon_is_healthy_def
  by (intro preserves_intro sent_counter sent_asks sent_read_user_config sent_terminate_recorded_daemon)
    (auto split: sandbox_error.split intro!: preserves_intro sent_asks)

text \<open>
  C26: The command line signals no one but the recorded daemon. Whatever happens while a daemon
  is started or stopped, a signal goes only to the process the pid file names, only if that process
  was seen running a command line with \<open>sagens\<close> in it, never to the command line's own
  process; and since the kernel lists only positive process ids that fit a signed integer, never to
  a process group or to every process, whatever number stands in the pid file.
\<close>

theorem signals_reach_recorded_daemon:
  assumes "(t, g) \<in> set (drop (length (dm_signals s)) (dm_signals (snd (ensure_started E V P host_binary s)))) \<or>
      (t, g) \<in> set (drop (length (dm_signals s)) (dm_signals (snd (quit E P s))))"
    and listed: "\<And>n pid. cmdline_at E n pid \<noteq> None \<Longrightarrow> 0 < sint pid"
  shows "0 < t \<and> g \<in> {SIGTERM, SIGKILL} \<and> (\<exists>contents pid n. pid_file s = Some contents \<and> parse_u32_str (trim contents) = Some pid \<and>
      t = sint pid \<and> pid \<noteq> own_pid E \<and> calls s \<le> n \<and> contains (command_text (cmdline_at E n pid)) ''sagens'')"
proof -
  have sent: "sent_ok E s (snd (ensure_started E V P host_binary s))" "sent_ok E s (snd (quit E P s))"
    by (rule preservesD [OF sent_ensure_started sent_ok_refl], rule preservesD [OF sent_quit sent_ok_refl])
  have ok: "signal_ok E s x" if "sent_ok E s u" "x \<in> set (drop (length (dm_signals s)) (dm_signals u))" for x u
    using that by (auto simp: sent_ok_def)
  have "signal_ok E s (t, g)" using assms(1) ok [OF sent(1)] ok [OF sent(2)] by blast
  then obtain contents pid n where p: "pid_file s = Some contents" "parse_u32_str (trim contents) = Some pid" "t = sint pid"
      "g \<in> {SIGTERM, SIGKILL}" "pid \<noteq> own_pid E" "calls s \<le> n" "contains (command_text (cmdline_at E n pid)) ''sagens''"
    unfolding signal_ok_def by auto
  then have "cmdline_at E n pid \<noteq> None" by (cases "cmdline_at E n pid") (simp_all add: command_text_def)
  with listed p show ?thesis by blast
qed

section \<open>What a started daemon knows\<close>

abbreviation kept_by_asks :: "'z daemon_state_scheme \<Rightarrow> user_config json_file option \<times> launch list" where
  "kept_by_asks s \<equiv> (user_config_file s, dm_spawned s)"

lemma keeps_daemon_asks:
  "keeps kept_by_asks (process_exists E pid)" "keeps kept_by_asks (wait_for_exit E pid t)" "keeps kept_by_asks (read_pid_file E)"
  "keeps kept_by_asks (cleanup_pid_file E)" "keeps kept_by_asks (process_looks_like_sagens E pid)"
  "keeps kept_by_asks (process_command_matches_binary E pid host_binary)" "keeps kept_by_asks (kill_process E p g)"
  "keeps kept_by_asks (wait_for_daemon E P config)" "keeps kept_by_asks (ensure_private_dir E d ctx)" "keeps kept_by_asks (ask q)"
  "keeps kept_by_asks (sys_io E ctx)"
  by (rule keeps_wpI, rule wp_intro; simp)+

lemma keeps_terminate: "keeps kept_by_asks (terminate_recorded_daemon E)"
  unfolding terminate_recorded_daemon_def terminate_process_def by (intro keeps_intro keeps_daemon_asks)

lemma keeps_uses_binary: "keeps kept_by_asks (recorded_daemon_uses_binary E host_binary)"
  unfolding recorded_daemon_uses_binary_def by (intro keeps_intro keeps_daemon_asks)

lemma keeps_checks: "keeps kept_by_asks (validate_host_process_binary E V)" "keeps kept_by_asks (ask_ok q)"
  unfolding validate_host_process_binary_def ask_ok_def by (intro keeps_intro keeps_daemon_asks)+

lemma keeps_probe: "keeps kept_by_asks (endpoint_is_bindable E e)" "keeps kept_by_asks (reserve_local_endpoint E e)"
  unfolding endpoint_is_bindable_def reserve_local_endpoint_def
  by (intro keeps_intro; auto split: prod.split bind_answer.split intro!: keeps_intro keeps_daemon_asks)+

lemma wp_kept: "keeps f m \<Longrightarrow> (\<And>a t. f t = f s \<Longrightarrow> Q a t) \<Longrightarrow> (\<And>x t. f t = f s \<Longrightarrow> R x t) \<Longrightarrow> wp m Q R s"
  by (auto intro!: wp_runI dest: keeps_runD)

lemma wp_write_user_config:
  assumes "\<And>t. user_config_file t = Some (Intact c) \<Longrightarrow> dm_spawned t = dm_spawned s \<Longrightarrow> Q () t" and "\<And>e t. R (Fail e) t"
  shows "wp (write_user_config E path c) Q R s"
  unfolding write_user_config_def
  by (auto simp: wp_simps assms split: option.split intro!: wp_intro)

lemma wp_read_user_config:
  assumes "\<And>c t. user_config_file t = Some (Intact c) \<Longrightarrow> dm_spawned t = dm_spawned s \<Longrightarrow> Q c t" and "\<And>e t. R (Fail e) t"
  shows "wp (read_user_config E path) Q R s"
  unfolding read_user_config_def validate_private_file_permissions_def
  by (auto simp: wp_simps assms split: option.split json_file.split intro!: wp_intro)

lemma wp_ensure_user_config:
  assumes "\<And>c t. user_config_file t = Some (Intact c) \<Longrightarrow> dm_spawned t = dm_spawned s \<Longrightarrow> Q c t" and "\<And>e t. R (Fail e) t"
  shows "wp (ensure_user_config E P) Q R s"
  unfolding ensure_user_config_def new_user_config_def
  by (auto simp: wp_simps assms intro!: wp_intro wp_read_user_config wp_write_user_config)

lemma wp_recover_startup_state:
  fixes s :: "'z daemon_state_scheme"
  assumes "user_config_file s = Some (Intact c)"
    and "\<And>c t. user_config_file t = Some (Intact c) \<Longrightarrow> dm_spawned t = dm_spawned s \<Longrightarrow> Q c t" and "\<And>x t. R x t"
  shows "wp (recover_startup_state E V P c) Q R s"
  unfolding recover_startup_state_def wp_seqE
proof (rule wp_kept [OF keeps_terminate])
  fix t :: "'z daemon_state_scheme"
  assume t: "kept_by_asks t = kept_by_asks s"
  let ?rest = "bindE (endpoint_is_bindable E (uc_endpoint c)) (\<lambda>bindable. if bindable then returnE c
      else bindE (reserve_local_endpoint E (uc_endpoint c)) (\<lambda>next. if next \<noteq> uc_endpoint c then
        let config' = c\<lparr>uc_endpoint := next\<rparr> in seqE (write_user_config E (sp_user_config_path P) config') (returnE config')
        else returnE c))"
  have "wp ?rest Q R t"
    unfolding wp_bindE using t
    by (intro wp_kept [OF keeps_probe(1)])
      (auto simp: wp_simps Let_def assms intro!: wp_kept [OF keeps_probe(2)] wp_write_user_config)
  then show "wp (if var V ''SAGENS_ENDPOINT'' \<noteq> None then returnE c else ?rest) Q R t"
    using t assms by (auto simp: wp_returnE)
qed (rule assms)

definition daemon_launch :: "'e env_scheme \<Rightarrow> sagens_paths \<Rightarrow> string \<Rightarrow> user_config \<Rightarrow> launch" where
  "daemon_launch E P host_binary config = \<lparr>la_program = host_binary, la_args = [''daemon''], la_vars = daemon_vars E P config\<rparr>"

lemma wp_spawn_daemon:
  assumes "\<And>t. user_config_file t = user_config_file s \<Longrightarrow> dm_spawned t = dm_spawned s @ [daemon_launch E P b c] \<Longrightarrow> Q () t" and "\<And>e t. R (Fail e) t"
  shows "wp (spawn_background_daemon E P b c) Q R s"
  unfolding spawn_background_daemon_def open_private_file_truncate_def
  by (auto simp: wp_simps assms put_log_def daemon_launch_def split: option.split intro!: wp_intro)

lemma wp_daemon_is_healthy:
  "(\<And>m t. kept_by_asks t = kept_by_asks s \<Longrightarrow> Q (healthy_at E c m = None) t) \<Longrightarrow> wp (daemon_is_healthy E c) Q R s"
  unfolding daemon_is_healthy_def by (auto simp: wp_simps intro!: wp_intro)

lemma wp_wait_for_daemon:
  assumes "\<And>m t. kept_by_asks t = kept_by_asks s \<Longrightarrow> healthy_at E c m = None \<Longrightarrow> Q () t" and "\<And>e t. R (Fail e) t"
  shows "wp (wait_for_daemon E P c) Q R s"
  by (rule wp_wait_for_daemonI) (auto intro: assms)

lemma wp_started:
  assumes "user_config_file s = Some (Intact c)"
  shows "wp (bindE (recover_startup_state E V P c) (\<lambda>config.
          seqE (validate_host_process_binary E V)
          (bindE (liftE (build_runtime_config_for_endpoint V (sp_state_dir P) (sp_endpoint P))) (\<lambda>runtime_config.
          seqE (ask_ok (\<lambda>n. preflight_at E n runtime_config))
          (seqE (ensure_private_dir E (sp_state_dir P) ''creating daemon state directory'')
          (seqE (spawn_background_daemon E P b config)
          (seqE (wait_for_daemon E P config)
            (returnE (config, False)))))))))
    (\<lambda>(c, already) t. \<not> already \<and> user_config_file t = Some (Intact c) \<and> (\<exists>n. healthy_at E c n = None) \<and>
       dm_spawned t = dm_spawned s @ [daemon_launch E P b c]) (\<lambda>_ _. True) s"
  unfolding wp_bindE wp_seqE
  by (rule wp_recover_startup_state [OF assms], rule wp_kept [OF keeps_checks(1)])
    (auto simp: wp_simps split: sum.split intro!: wp_kept [OF keeps_checks(2)] wp_kept [OF keeps_daemon_asks(9)] wp_spawn_daemon wp_wait_for_daemon)

lemma wp_ensure_started:
  "wp (ensure_started E V P b) (\<lambda>(c, already) t. user_config_file t = Some (Intact c) \<and> (\<exists>n. healthy_at E c n = None) \<and>
       dm_spawned t = dm_spawned s @ (if already then [] else [daemon_launch E P b c])) (\<lambda>_ _. True) s"
  unfolding ensure_started_def wp_bindE
proof (rule wp_ensure_user_config, rule wp_daemon_is_healthy, rule wp_kept [OF keeps_uses_binary])
  fix c t m t' matches t''
  assume a: "user_config_file t = Some (Intact c)" "dm_spawned t = dm_spawned s" "kept_by_asks t' = kept_by_asks t" "kept_by_asks t'' = kept_by_asks t'"
  let ?healthy = "healthy_at E c m = None"
  note started = wp_mono [OF wp_started [of _ c E V P b]]
  show "wp (if ?healthy \<and> matches \<noteq> Some False then returnE (c, True)
      else seqE (if ?healthy then seqE (terminate_recorded_daemon E) (returnE ()) else returnE ())
        (bindE (recover_startup_state E V P c) (\<lambda>config.
          seqE (validate_host_process_binary E V)
          (bindE (liftE (build_runtime_config_for_endpoint V (sp_state_dir P) (sp_endpoint P))) (\<lambda>runtime_config.
          seqE (ask_ok (\<lambda>n. preflight_at E n runtime_config))
          (seqE (ensure_private_dir E (sp_state_dir P) ''creating daemon state directory'')
          (seqE (spawn_background_daemon E P b config)
          (seqE (wait_for_daemon E P config)
            (returnE (config, False)))))))))) (\<lambda>(c, already) t. user_config_file t = Some (Intact c) \<and> (\<exists>n. healthy_at E c n = None) \<and>
       dm_spawned t = dm_spawned s @ (if already then [] else [daemon_launch E P b c])) (\<lambda>_ _. True) t''"
    using a by (auto simp: wp_if wp_returnE wp_seqE intro!: started wp_kept [OF keeps_terminate])
qed auto

text \<open>The environment of a spawned process: the variables given to it, over the inherited ones.\<close>

definition child_env :: "sagens_env \<Rightarrow> launch \<Rightarrow> sagens_env" where
  "child_env V l = V\<lparr>var := (\<lambda>n. case map_of (la_vars l) n of Some v \<Rightarrow> Some v | None \<Rightarrow> var V n)\<rparr>"

lemma child_paths:
  "resolve_paths (child_env V (daemon_launch E (resolve_paths V) b c)) = (resolve_paths V)\<lparr>sp_endpoint := uc_endpoint c\<rparr>"
  by (simp add: resolve_paths_def child_env_def daemon_launch_def daemon_vars_def Let_def)

lemma wp_total_admin_write_registry:
  assumes "no_faults D" and "\<And>t. admin_file t = Some (Intact reg) \<Longrightarrow> Q () t"
  shows "wp (admin_write_registry D path reg) Q R s"
  unfolding admin_write_registry_def write_private_file_def open_private_file_truncate_def ensure_private_dir_def make_private_dir_def
  using assms by (simp add: wp_simps wp_exact split: option.split)

lemma wp_total_admin_read_registry:
  assumes "no_faults D" and "admin_records s = Some rs" and "\<And>reg t. admins reg = rs \<Longrightarrow> Q reg t"
  shows "wp (admin_read_registry D) Q R s"
  unfolding admin_read_registry_def
  using assms by (auto simp: wp_simps wp_exact admin_records_def split: option.splits json_file.splits)

lemma total_admin_authenticate:
  assumes "no_faults D" and "admin_file t = Some (Intact reg)" and "list_ex (admin_matches D u k) (admins reg)"
  shows "wp (admin_authenticate D path u k) (\<lambda>b _. b) (\<lambda>_ _. False) t"
  unfolding admin_authenticate_def wp_bindE
  by (rule wp_total_admin_read_registry [OF assms(1), of _ "admins reg"])
    (use assms(2,3) in \<open>auto simp: wp_simps admin_records_def intro!: wp_total_now_ms wp_total_admin_write_registry assms(1)\<close>)

lemma bootstrap_then_authenticate:
  assumes "no_faults D" and "admin_records t = Some rs" "\<not> list_ex adm_active rs"
  shows "wp (admin_bootstrap D path \<lparr>cred_admin_uuid = u, cred_admin_token = k\<rparr>)
    (\<lambda>_. wp (admin_authenticate D path u k) (\<lambda>b _. b) (\<lambda>_ _. False)) (\<lambda>_ _. False) t"
  unfolding admin_bootstrap_def new_record_def wp_bindE
proof (rule wp_total_admin_read_registry [OF assms(1,2)])
  fix reg :: admin_registry and t' assume "admins reg = rs"
  with assms(3) show "wp (if list_ex adm_active (admins reg) then returnE False
      else bindE (bindE (now_ms D) (\<lambda>now. returnE
         \<lparr>adm_uuid = cred_admin_uuid \<lparr>cred_admin_uuid = u, cred_admin_token = k\<rparr>,
          adm_token_hash = hash_token D (cred_admin_token \<lparr>cred_admin_uuid = u, cred_admin_token = k\<rparr>),
          adm_active = True, adm_created_at_ms = now, adm_updated_at_ms = now\<rparr>))
       (\<lambda>r. seqE (admin_write_registry D path (reg\<lparr>admins := admins reg @ [r]\<rparr>)) (returnE True)))
    (\<lambda>_. wp (admin_authenticate D path u k) (\<lambda>b _. b) (\<lambda>_ _. False)) (\<lambda>_ _. False) t'"
    by (auto simp: wp_simps admin_records_def admin_matches_def
        intro!: wp_total_now_ms wp_total_admin_write_registry assms(1) elim!: total_admin_authenticate [OF assms(1)])
qed


section \<open>A host for evaluating\<close>

text \<open>Process 42 runs a daemon that does not answer before call number \<open>k\<close>; a question takes \<open>ms\<close>.\<close>

definition demo_daemon :: "nat \<Rightarrow> nat \<Rightarrow> daemon_env" where
  "demo_daemon k ms = env.extend (quiet_env\<lparr>uuid_string := (\<lambda>u. replicate u (CHR ''0''))\<rparr>)
     (daemon_env.fields (\<lambda>_. 384)
       (\<lambda>n _. if n < k then Some (Backend ''connection refused'') else None) (\<lambda>_ _. None) (\<lambda>_ _. None)
       (\<lambda>_ _ _. Delivered) (\<lambda>_ pid. if pid = 42 then Some [''/usr/bin/sagens'', ''daemon''] else None) (\<lambda>_ _ p. Bound p)
       (\<lambda>_. ms) (\<lambda>_. None) (\<lambda>_ _. None) 7)"

definition demo_user_config :: user_config where
  "demo_user_config = \<lparr>uc_version = 1, uc_admin_uuid = 3, uc_admin_token = ''t'', uc_endpoint = ''ws://127.0.0.1:7000''\<rparr>"

definition demo_state :: "user_config option \<Rightarrow> string option \<Rightarrow> daemon_state" where
  "demo_state c pid = auth_files.extend empty_auth
     (daemon_state.fields (map_option Intact c) None pid None [] [] 0)"

lemmas demo_daemon_simps = demo_daemon_def demo_state_def demo_user_config_def quiet_env_def empty_auth_def env.defs daemon_env.defs auth_files.defs daemon_state.defs

lemma demo_quit:
  "dm_signals (snd (quit (demo_daemon 100 5000) P (demo_state (Some demo_user_config) (Some ''42'')))) = [(42, SIGTERM), (42, SIGKILL)]"
  apply (simp add: quit_def read_user_config_def validate_private_file_permissions_def demo_daemon_simps io_defs ask_def sys_io_def decode_json_def daemon_is_healthy_def healthy_at_def
    terminate_recorded_daemon_def read_pid_file_def parse_u32_str_def parse_unsigned_def trim_def is_ws_def is_ascii_digit_def digit_value_def
    process_exists_def exists_at_def process_looks_like_sagens_def process_command_def command_text_def terminate_process_def kill_process_def wait_for_exit_def poll_for_def
    poll.simps cleanup_pid_file_def)
  done

lemma demo_paths:
  "path_parent (sp_user_config_path (resolve_paths demo_vars)) = Some ''./.config/sagens''"
  "path_parent (sp_daemon_log_path (resolve_paths demo_vars)) = Some ''./.local/state/sagens''"
  by code_simp+

lemma demo_endpoint: "sp_endpoint (resolve_paths demo_vars) = ''ws://127.0.0.1:7000''"
  by (simp add: resolve_paths_def default_endpoint_def demo_vars_def Let_def)

lemma demo_built: "\<exists>c. build_runtime_config_for_endpoint demo_vars d ''ws://127.0.0.1:7000'' = Inr c"
proof -
  have "parse_isolation_mode demo_vars = Inr Secure"
    by (simp add: parse_isolation_mode_def secure_defaults_ready_def non_empty_var_def demo_vars_def)
  then show ?thesis by (simp add: build_runtime_config_for_endpoint_def ipv4_endpoint)
qed

lemma demo_start:
  "\<exists>c s'. ensure_started (demo_daemon 25 100) demo_vars (resolve_paths demo_vars) b (demo_state None None) = (Inr (c, False), s')"
proof -
  obtain r where "build_runtime_config_for_endpoint demo_vars (sp_state_dir (resolve_paths demo_vars)) ''ws://127.0.0.1:7000'' = Inr r"
    using demo_built by blast
  moreover have "var demo_vars ''SAGENS_ENDPOINT'' = None" by (simp add: demo_vars_def)
  moreover have "target_os (sagens_env.host_platform demo_vars) = Linux" by (simp add: demo_vars_def)
  ultimately show ?thesis
    by (simp add: ensure_started_def ensure_user_config_def new_user_config_def generate_token_def new_v4_def write_user_config_def write_private_file_def
      open_private_file_truncate_def ensure_private_dir_def make_private_dir_def sys_json_def demo_paths demo_endpoint demo_daemon_simps io_defs ask_def sys_io_def
      daemon_is_healthy_def healthy_at_def recorded_daemon_uses_binary_def read_pid_file_def recover_startup_state_def terminate_recorded_daemon_def
      cleanup_pid_file_def endpoint_is_bindable_def ipv4_endpoint validate_host_process_binary_def ask_ok_def spawn_background_daemon_def put_log_def
      wait_for_daemon_def poll_for_def poll.simps)
qed

theorem signals_reach_recorded_daemon_witness:
  "(42, SIGTERM) \<in> set (dm_signals (snd (quit (demo_daemon 100 5000) (resolve_paths demo_vars) (demo_state (Some demo_user_config) (Some ''42''))))) \<and>
   (\<exists>contents pid. pid_file (demo_state (Some demo_user_config) (Some ''42'')) = Some contents \<and> parse_u32_str (trim contents) = Some pid \<and> 42 = sint pid)"
proof -
  have "(42, SIGTERM) \<in> set (drop (length (dm_signals (demo_state (Some demo_user_config) (Some ''42''))))
      (dm_signals (snd (quit (demo_daemon 100 5000) (resolve_paths demo_vars) (demo_state (Some demo_user_config) (Some ''42''))))))"
    by (simp add: demo_quit) (simp add: demo_daemon_simps)
  moreover have "cmdline_at (demo_daemon 100 5000) n pid \<noteq> None \<Longrightarrow> 0 < sint pid" for n pid
    by (simp add: demo_daemon_simps split: if_splits)
  ultimately show ?thesis
    using signals_reach_recorded_daemon [of 42 SIGTERM "demo_state (Some demo_user_config) (Some ''42'')" "demo_daemon 100 5000" demo_vars
        "resolve_paths demo_vars" "''sagens''"] by (auto simp: demo_quit)
qed


section \<open>The log, and an endpoint that is lost\<close>

text \<open>With a positive number of lines (the parser of the command line refuses 0) the log shown is its end.\<close>

lemma render_log_bytes_tail:
  "0 < n \<Longrightarrow> render_log_bytes t (Some n) = (let r = join_lines (drop (length (rust_lines t) - n) (rust_lines t)) in
     if r = [] then [] else r @ [CHR 0x0A])"
  by (simp add: render_log_bytes_def tail_lines_def fold_push_tail)

lemma endpoint_digits:
  "digit_char 0 = CHR ''0''" "digit_char 1 = CHR ''1''" "digit_char (Suc 0) = CHR ''1''" "digit_char 7 = CHR ''7''" "hex_digit (Suc 0) = CHR ''1''"
  by code_simp+

lemma ip_show_loopback:
  "ip_show (Ipv4 127 0 0 1) = ''127.0.0.1''" "ip_show (Ipv6 1) = ''::1''"
proof -
  show "ip_show (Ipv4 127 0 0 1) = ''127.0.0.1''" by code_simp
  have "ipv6_segments 1 = [0, 0, 0, 0, 0, 0, 0, 1]"
    by (simp add: ipv6_segments_def upt_rec drop_bit_eq_div word_arith_nat_div)
  then show "ip_show (Ipv6 1) = ''::1''" by (simp add: show_segments_def hex_lower.simps endpoint_digits)
qed

lemma decimal_7001: "decimal 7001 = ''7001''"
  by (simp add: decimal.simps endpoint_digits)

lemma wp_total_write_user_config:
  assumes "no_faults E" and "\<And>t. user_config_file t = Some (Intact c) \<Longrightarrow> Q () t"
  shows "wp (write_user_config E path c) Q R s"
  unfolding write_user_config_def write_private_file_def open_private_file_truncate_def ensure_private_dir_def make_private_dir_def
  using assms by (simp add: wp_simps wp_exact split: option.split)

text \<open>
  A daemon on an IPv6 endpoint whose port was taken: the replacement is written to the user's
  configuration without the brackets an address needs there, so that neither the daemon nor
  any later command can read it.
\<close>

lemma recovered_ipv6_endpoint_unusable:
  assumes "no_faults E" and "bind_at E = (\<lambda>_ _ port. if port = 0 then Bound 7001 else AddrInUse)"
    and "pid_file s = None" and "var V ''SAGENS_ENDPOINT'' = None" and "uc_endpoint c = ''ws://[::1]:7000''"
  shows "\<exists>s'. recover_startup_state E V P c s = (Inr (c\<lparr>uc_endpoint := ''ws://::1:7001''\<rparr>), s') \<and>
    user_config_file s' = Some (Intact (c\<lparr>uc_endpoint := ''ws://::1:7001''\<rparr>)) \<and>
    (\<exists>e. parse_endpoint_addr ''ws://::1:7001'' = Inl e)"
proof -
  have bad: "parse_endpoint_addr ''ws://::1:7001'' = Inl (InvalidConfig ''invalid websocket endpoint ws://::1:7001: invalid socket address syntax'')"
    by (simp add: reader_defs read_groups.simps)
  let ?c = "c\<lparr>uc_endpoint := ''ws://::1:7001''\<rparr>"
  have t: "terminate_recorded_daemon E s = (Inr False, s)"
    using assms(3) by (simp add: terminate_recorded_daemon_def read_pid_file_def cleanup_pid_file_def io_defs)
  obtain n where b: "endpoint_is_bindable E ''ws://[::1]:7000'' s = (Inr False, s\<lparr>calls := n\<rparr>)"
    using assms(2) by (simp add: endpoint_is_bindable_def ipv6_endpoint(1) io_defs ask_def)
  obtain m where r: "reserve_local_endpoint E ''ws://[::1]:7000'' (s\<lparr>calls := n\<rparr>) = (Inr ''ws://::1:7001'', s\<lparr>calls := m\<rparr>)"
    using assms(1,2) by (simp add: reserve_local_endpoint_def ipv6_endpoint(1) ip_show_loopback decimal_7001 io_defs ask_def sys_io_def del: ip_show.simps)
  obtain s' where "write_user_config E (sp_user_config_path P) ?c (s\<lparr>calls := m\<rparr>) = (Inr (), s')" "user_config_file s' = Some (Intact ?c)"
    using wp_returns [OF wp_total_write_user_config [OF assms(1), where c = ?c and Q = "\<lambda>_ t. user_config_file t = Some (Intact ?c)"]] by auto
  with t b r bad assms(4,5) show ?thesis by (simp add: recover_startup_state_def io_defs Let_def)
qed

end
