(* ===== verification/Spec2Isabelle.thy ===== *)
theory Spec2Isabelle
  imports Guest_Exec_Properties Auth_Refinement Cli_App Daemon
begin

text \<open>
  \<^bold>\<open>Verification of sagens.\<close>

  sagens runs agents in boxes: virtual machines with a persistent workspace disk and checkpoints of
  it. Paths below are relative to the repository root; \<open>src/\<close>, \<open>shared/\<close> and \<open>guest-agent/\<close> are its
  three parts.

  \<^bold>\<open>The program and how its parts interact.\<close> The command line (\<open>src/sagens\<close>) reads its settings from
  the environment, starts and stops a daemon and talks to it over a websocket. The control plane
  (\<open>src/box_api\<close>) authenticates each connection as an admin or as one box against the credential stores
  (\<open>src/auth.rs\<close>), and passes requests on to the box service (\<open>src/boxes\<close>). That service keeps one JSON
  record per box and drives the sandbox runtime (\<open>src/runtime\<close>), which prepares the workspace disk
  (\<open>src/workspace\<close>), boots a machine (\<open>src/backend\<close>) and calls the agent inside it over the guest
  connection (\<open>shared/src/guest_rpc.rs\<close>, \<open>src/guest_rpc\<close>). The agent (\<open>guest-agent/\<close>) runs commands and
  shells and serves files. In secure mode the machine runs inside a runner process that gives up
  its rights first (\<open>src/backend/libkrun/runner\<close>).

  \<^bold>\<open>How the model is built.\<close> An operation is a function from a state to an outcome and a state; the
  state after an error is kept, because the code does not undo what precedes a failing call, and a panic
  is an outcome of its own (\<open>Prelude\<close>). Each component's state is a record that extends the record of
  the components it uses, down to \<open>host\<close>, which counts the calls to the outside. Whatever the
  code does not decide (failures of system calls, clock, random UUIDs, answers of the kernel, of tools and of
  third-party libraries) is an answer of an environment record to the call with that number
  (\<open>Host_IO\<close>), so a statement about every environment is one about every schedule of failures. Tasks
  that run concurrently (the reader of the guest connection, the tasks of the guest agent, the
  reader of the control plane client) are separate actions, and a run is any sequence of them. Rust
  integers are words of their width, or natural numbers where the code's arithmetic cannot wrap; strings
  are lists of bytes.

  \<^bold>\<open>Theories, sources and results.\<close>
  \<^item> \<open>Prelude\<close>, \<open>Rust_Std\<close>: the effect monad with weakest preconditions and preservation rules, the locales
    \<open>scoped\<close> and \<open>confinement\<close> for operations that leave other parts of the state alone, and what
    the code uses of Rust's standard library.
  \<^item> \<open>Paths\<close> (\<open>shared/src/workspace/path.rs\<close>): the path policy; accepted paths stay below the root.
  \<^item> \<open>Host_IO\<close> (\<open>src/private_fs.rs\<close>), \<open>Auth\<close> and \<open>Auth_Refinement\<close> (\<open>src/auth.rs\<close>): the credential stores,
    both instances of the locale \<open>credential_store\<close>; no sequence of operations locks the admins out,
    and the admin store refines a map from active admins to token hashes, failures included.
  \<^item> \<open>Manifest\<close> (\<open>shared/src/workspace/manifest.rs\<close>), \<open>Lineage\<close>, \<open>Workspace_Store\<close>, \<open>Checkpoints\<close>
    (\<open>src/workspace/\<close>): snapshots and differences, the lineage files, disks and checkpoints. Restoring brings back the
    disk of the creation whatever ran in between; workspaces do not disturb each other.
  \<^item> \<open>Config\<close> (\<open>src/config.rs\<close>, \<open>shared/src/error.rs\<close>), \<open>Sagens_Config\<close> (\<open>src/sagens/config.rs\<close>): validation
    of the configuration, and the configuration built from the environment, which is insecure only
    when two variables ask for it.
  \<^item> \<open>Protocols\<close> (\<open>shared/src/protocol.rs\<close>), \<open>Guest_Rpc\<close> (\<open>shared/src/guest_rpc.rs\<close>, \<open>src/guest_rpc/client\<close>): the
    host end of the guest connection; in every interleaving each call waits or was answered, once.
  \<^item> \<open>Images\<close> (\<open>src/images/store.rs\<close>, \<open>types.rs\<close>), \<open>Runtime\<close> and \<open>Runtime_Sessions\<close> (\<open>src/runtime\<close>): images, sandboxes
    and their sessions; one sandbox per workspace, one command at a time.
  \<^item> \<open>Boxes\<close>, \<open>Box_Invariants\<close>, \<open>Box_Service\<close>, \<open>Box_Properties\<close> (\<open>src/boxes\<close>): the box service, the invariant that
    ties records to sandboxes, and runs of the daemon as the inductive relation \<open>box_step\<close>, in which a
    box that no step is about keeps its record, sandbox, disk and checkpoints.
  \<^item> \<open>Box_Api\<close>, \<open>Box_Api_Properties\<close> (\<open>src/box_api/server\<close>, \<open>protocol.rs\<close>): messages, authentication, authorization
    and dispatch; over every sequence of messages a box changes only at the request of an admin or of a
    connection authenticated as that box.
  \<^item> \<open>Box_Client\<close>, \<open>Box_Client_Properties\<close> (\<open>src/box_api/client\<close>): the client's reader and callers; what it
    collects of a command is what the server streamed, and each answer has the type its operation reads.
  \<^item> \<open>Boot\<close> (\<open>src/backend/libkrun/config.rs\<close>, \<open>guest-agent/.../bootstrap.rs\<close>), \<open>Secure_Runner\<close>
    (\<open>src/backend/libkrun/runner\<close>, \<open>src/host_hardening.rs\<close>, \<open>guest-agent/.../linux_seccomp.rs\<close>): the boot configuration reaches
    the guest unchanged; the system call filters, evaluated as BPF programs, refuse exactly what they should.
  \<^item> \<open>Guest_Fs\<close>, \<open>Guest_Fs_Properties\<close>, \<open>Guest_Stats\<close>, \<open>Guest_Agent\<close>, \<open>Guest_Agent_Properties\<close>, \<open>Guest_Exec_Properties\<close>
    (\<open>guest-agent/src/guest_agent\<close>): files on a file system with symbolic links, resource usage, and the agent with its
    concurrent tasks under the locale \<open>agent_invariant\<close>; every process is confined, and a command's exit is
    reported after all of its output.
  \<^item> \<open>Cli_Args\<close>, \<open>Cli_Properties\<close> (\<open>src/sagens/args\<close>), \<open>Cli_App\<close> (\<open>src/sagens/app.rs\<close>), \<open>Cli_Transfer\<close>
    (\<open>src/sagens/client.rs\<close>), \<open>Daemon\<close> (\<open>src/sagens/daemon.rs\<close>, \<open>recovery.rs\<close>, \<open>daemon/runtime_info.rs\<close>): the parser as the inverse
    of a printer of commands, the request each command makes, uploads and downloads, and starting and
    stopping the daemon.

  Several theorems say what the code does although it should not: a shell that does not end blocks the
  agent, a symbolic link takes a write outside the workspace, a listing takes a download outside
  the chosen directory, output of a shell is reordered, the secure runner's machine never starts.

  \<^bold>\<open>Bounds and fuel.\<close> Every definition is total. Path resolution in the guest follows at most 40 links,
  the kernel's own limit; the walk of a snapshot is bounded by the depth of the table of files, which
  no path exceeds; the loops that wait end because each turn sleeps and the clock
  does not go back. The request counters wrap at 64 bits, and statements that need distinct
  ids assume fewer than \<open>2 ^ 64 - 1\<close> actions in a run.

  \<^bold>\<open>Not modelled.\<close> The image builder and the unpacking of embedded files (downloads, archives, external
  tools); the foreign function calls into the hypervisor, the spawning of the runner and the host
  preflight; the mounts of the guest's boot and the listeners' accept loops; the daemon's foreground
  loop, following its log, self-update, terminal output and raw mode; build tools and the language
  bindings, which wrap the client. Where modelled code calls these, their answers are parameters of the environment.
\<close>

end
